(* ===== verification/Prelude.thy ===== *)
theory Prelude
  imports Complex_Main "HOL-Library.AList"
begin

text \<open>
  What every component shares.  A Python \<open>dict\<close> is an association list with distinct
  keys, in insertion order: assignment to a key is \<open>AList.update\<close> (which keeps the
  position of a key that is already there, as Python does), \<open>pop\<close> and \<open>del\<close> are
  \<open>AList.delete\<close>, and a comprehension that selects the keys to delete is
  \<open>dkeep\<close> of the negated condition.  A float is a \<open>real\<close> (rounding errors are
  not modelled); the two values \<open>now + ttl\<close> and \<open>float("inf")\<close> of a token's
  end are the constructors of \<open>deadline\<close>.
\<close>

named_theorems dict_simps \<open>rewrite rules for association-list dictionaries\<close>

type_synonym ('k, 'v) dict = "('k \<times> 'v) list"

abbreviation dget :: "('k, 'v) dict \<Rightarrow> 'k \<Rightarrow> 'v option" where
  "dget d k \<equiv> map_of d k"

abbreviation dset :: "'k \<Rightarrow> 'v \<Rightarrow> ('k, 'v) dict \<Rightarrow> ('k, 'v) dict" where
  "dset k v d \<equiv> AList.update k v d"

abbreviation dpop :: "'k \<Rightarrow> ('k, 'v) dict \<Rightarrow> ('k, 'v) dict" where
  "dpop k d \<equiv> AList.delete k d"

abbreviation dvals :: "('k, 'v) dict \<Rightarrow> 'v list" where
  "dvals d \<equiv> map snd d"

abbreviation dkeys :: "('k, 'v) dict \<Rightarrow> 'k list" where
  "dkeys d \<equiv> map fst d"

definition dkeep :: "('v \<Rightarrow> bool) \<Rightarrow> ('k, 'v) dict \<Rightarrow> ('k, 'v) dict" where
  "dkeep P d = [p \<leftarrow> d. P (snd p)]"

definition dmap :: "('v \<Rightarrow> 'w) \<Rightarrow> ('k, 'v) dict \<Rightarrow> ('k, 'w) dict" where
  "dmap f d = map (\<lambda>(k, v). (k, f v)) d"

text \<open>The keys a comprehension selects, and the deletion of a list of keys.\<close>

definition dwhere :: "('v \<Rightarrow> bool) \<Rightarrow> ('k, 'v) dict \<Rightarrow> 'k list" where
  "dwhere P d = map fst [p \<leftarrow> d. P (snd p)]"

definition drop_keys :: "'k list \<Rightarrow> ('k, 'v) dict \<Rightarrow> ('k, 'v) dict" where
  "drop_keys ks d = [p \<leftarrow> d. fst p \<notin> set ks]"

text \<open>The keys of a dictionary are distinct.\<close>

abbreviation dict_ok :: "('k, 'v) dict \<Rightarrow> bool" where
  "dict_ok d \<equiv> distinct (dkeys d)"

subsection \<open>Membership\<close>

lemma in_dset: "p \<in> set (dset k v d) \<Longrightarrow> p = (k, v) \<or> p \<in> set d"
  by (induction d) (auto split: if_splits)

lemma in_dset_other: "fst p \<noteq> k \<Longrightarrow> p \<in> set (dset k v d) \<longleftrightarrow> p \<in> set d"
  by (induction d) auto

lemma in_dset_self [simp]: "(k, v) \<in> set (dset k v d)"
  by (induction d) auto

lemma in_dset_ok: "dict_ok d \<Longrightarrow> p \<in> set (dset k v d) \<longleftrightarrow> p = (k, v) \<or> p \<in> set d \<and> fst p \<noteq> k"
  by (induction d) (auto simp: rev_image_eqI)

lemma in_dpop [simp]: "p \<in> set (dpop k d) \<longleftrightarrow> p \<in> set d \<and> fst p \<noteq> k"
  by (auto simp: AList.delete_eq)

lemma in_dkeep [simp]: "p \<in> set (dkeep P d) \<longleftrightarrow> p \<in> set d \<and> P (snd p)"
  by (simp add: dkeep_def)

lemma in_dmap: "p \<in> set (dmap f d) \<longleftrightarrow> (\<exists>v. (fst p, v) \<in> set d \<and> snd p = f v)"
  by (cases p) (auto simp: dmap_def)

lemma dget_in: "dget d k = Some v \<Longrightarrow> (k, v) \<in> set d"
  by (rule map_of_SomeD)

lemma dget_None_in: "dget d k = None \<Longrightarrow> (k, v) \<notin> set d"
  by (auto dest: weak_map_of_SomeI)

lemma dget_ok: "dict_ok d \<Longrightarrow> dget d k = Some v \<longleftrightarrow> (k, v) \<in> set d"
  by (rule map_of_eq_Some_iff)

lemma in_dwhere: "k \<in> set (dwhere P d) \<longleftrightarrow> (\<exists>v. (k, v) \<in> set d \<and> P v)"
  by (force simp: dwhere_def)

lemma not_in_dwhere: "dict_ok d \<Longrightarrow> dget d k = Some v \<Longrightarrow> \<not> P v \<Longrightarrow> k \<notin> set (dwhere P d)"
  using eq_key_imp_eq_value by (auto simp: in_dwhere dest!: dget_in) fastforce

lemma in_drop_keys [simp]: "p \<in> set (drop_keys ks d) \<longleftrightarrow> p \<in> set d \<and> fst p \<notin> set ks"
  by (simp add: drop_keys_def)

lemma drop_keys_Nil [simp]: "drop_keys [] d = d"
  by (simp add: drop_keys_def)

lemma dget_drop_keys [dict_simps, simp]:
  "dget (drop_keys ks d) k = (if k \<in> set ks then None else dget d k)"
  by (induction d) (auto simp: drop_keys_def)

lemma drop_keys_dwhere: "dict_ok d \<Longrightarrow> drop_keys (dwhere P d) d = dkeep (\<lambda>v. \<not> P v) d"
  unfolding drop_keys_def dkeep_def
  by (rule filter_cong [OF refl]) (auto simp: in_dwhere dest: eq_key_imp_eq_value)

lemma dkeep_Nil [simp]: "dkeep P [] = []"
  by (simp add: dkeep_def)

lemma dkeep_Cons [simp]: "dkeep P (p # d) = (if P (snd p) then p # dkeep P d else dkeep P d)"
  by (simp add: dkeep_def)

lemma dkeep_twice [simp]: "dkeep P (dkeep Q d) = dkeep (\<lambda>v. Q v \<and> P v) d"
  by (simp add: dkeep_def conj_commute)

lemma dmap_Nil [simp]: "dmap f [] = []"
  by (simp add: dmap_def)

lemma dmap_Cons [simp]: "dmap f (p # d) = (fst p, f (snd p)) # dmap f d"
  by (cases p) (simp add: dmap_def)

subsection \<open>Lookup\<close>

lemma dget_dset [dict_simps, simp]: "dget (dset k v d) k' = (if k' = k then Some v else dget d k')"
  by (simp add: update_conv')

lemma dget_dpop [dict_simps, simp]: "dget (dpop k d) k' = (if k' = k then None else dget d k')"
  by (simp add: delete_conv')

lemma dget_dkeep [dict_simps]:
  "dict_ok d \<Longrightarrow> dget (dkeep P d) k = (case dget d k of None \<Rightarrow> None | Some v \<Rightarrow> if P v then Some v else None)"
proof (induction d)
  case (Cons p d)
  have "dget d (fst p) = None" using Cons.prems by (simp add: map_of_eq_None_iff)
  with Cons show ?case by (auto split: option.splits)
qed simp

lemma dget_dkeep_None: "dget d k = None \<Longrightarrow> dget (dkeep P d) k = None"
  by (induction d) (auto split: if_splits)

lemma dget_dmap [dict_simps, simp]: "dget (dmap f d) k = map_option f (dget d k)"
  by (induction d) auto

subsection \<open>Well-formedness\<close>

lemma dict_ok_dset [simp, intro]: "dict_ok d \<Longrightarrow> dict_ok (dset k v d)"
  by (rule distinct_update)

lemma dict_ok_dpop [simp, intro]: "dict_ok d \<Longrightarrow> dict_ok (dpop k d)"
  by (rule distinct_delete)

lemma dkeys_dkeep_subset: "set (dkeys (dkeep P d)) \<subseteq> set (dkeys d)"
  by auto

lemma dict_ok_dkeep [simp, intro]: "dict_ok d \<Longrightarrow> dict_ok (dkeep P d)"
  by (induction d) (auto dest: subsetD [OF dkeys_dkeep_subset])

lemma dict_ok_drop_keys [simp, intro]: "dict_ok d \<Longrightarrow> dict_ok (drop_keys ks d)"
  unfolding drop_keys_def by (rule distinct_map_filter)

lemma dkeys_dmap [simp]: "dkeys (dmap f d) = dkeys d"
  by (induction d) auto

lemma keys_dset: "set (dkeys (dset k v d)) = insert k (set (dkeys d))"
  by (induction d) auto

lemma dset_new: "k \<notin> set (dkeys d) \<Longrightarrow> dset k v d = d @ [(k, v)]"
  by (induction d) auto

subsection \<open>Counting entries\<close>

definition dcount :: "('v \<Rightarrow> bool) \<Rightarrow> ('k, 'v) dict \<Rightarrow> nat" where
  "dcount P d = length [v \<leftarrow> dvals d. P v]"

lemma dcount_Nil [simp]: "dcount P [] = 0"
  by (simp add: dcount_def)

lemma dcount_Cons [simp]: "dcount P (p # d) = (if P (snd p) then Suc (dcount P d) else dcount P d)"
  by (simp add: dcount_def)

lemma dcount_dset_le: "dcount P (dset k v d) \<le> Suc (dcount P d)"
  by (induction d) auto

lemma dcount_dset_not: "\<not> P v \<Longrightarrow> dcount P (dset k v d) \<le> dcount P d"
  by (induction d) auto

lemma dcount_dkeep_le: "dcount P (dkeep Q d) \<le> dcount P d"
  by (induction d) auto

lemma dcount_dpop_le: "dcount P (dpop k d) \<le> dcount P d"
  by (induction d) auto

lemma dcount_dset_same:
  "dict_ok d \<Longrightarrow> dget d k = Some v0 \<Longrightarrow> P v0 = P v \<Longrightarrow> dcount P (dset k v d) = dcount P d"
  by (induction d) (auto split: if_splits)

subsection \<open>Time and rounding\<close>

text \<open>Python's \<open>round\<close> of a float: to the nearest integer, ties to the even one.\<close>

definition py_round :: "real \<Rightarrow> int" where
  "py_round x = (let f = \<lfloor>x\<rfloor>; r = x - of_int f in
     if r < 1 / 2 then f else if r > 1 / 2 then f + 1 else if even f then f else f + 1)"

lemma py_round_of_int [simp]: "py_round (of_int n) = n"
  by (simp add: py_round_def)

lemma py_round_bounds: "of_int (py_round x) - 1 / 2 \<le> x" "x \<le> of_int (py_round x) + 1 / 2"
  by (auto simp: py_round_def Let_def) linarith+

text \<open>Python's \<open>int\<close> of a float: towards zero.\<close>

definition py_int :: "real \<Rightarrow> int" where
  "py_int x = (if x < 0 then \<lceil>x\<rceil> else \<lfloor>x\<rfloor>)"

datatype deadline = At real | Never

instantiation deadline :: linorder
begin

fun less_eq_deadline :: "deadline \<Rightarrow> deadline \<Rightarrow> bool" where
  "less_eq_deadline _ Never = True"
| "less_eq_deadline Never (At _) = False"
| "less_eq_deadline (At a) (At b) = (a \<le> b)"

definition less_deadline :: "deadline \<Rightarrow> deadline \<Rightarrow> bool" where
  "less_deadline a b = (a \<le> b \<and> \<not> b \<le> a)"

instance
proof
  fix x y z :: deadline
  show "(x < y) = (x \<le> y \<and> \<not> y \<le> x)" by (simp add: less_deadline_def)
  show "x \<le> x" by (cases x) auto
  show "x \<le> y \<Longrightarrow> y \<le> z \<Longrightarrow> x \<le> z" by (cases x; cases y; cases z) auto
  show "x \<le> y \<Longrightarrow> y \<le> x \<Longrightarrow> x = y" by (cases x; cases y) auto
  show "x \<le> y \<or> y \<le> x" by (cases x; cases y) auto
qed

end

lemma deadline_less_simps [simp]:
  "At a < At b \<longleftrightarrow> a < b" "At a < Never" "\<not> Never < d"
  by (cases d; auto simp: less_deadline_def)+

lemma Never_le [simp]: "Never \<le> d \<longleftrightarrow> d = Never"
  by (cases d) auto

lemma min_At [simp]: "min (At a) (At b) = At (min a b)"
  by (simp add: min_def)

end
