(* ===== verification/Token_Store.thy ===== *)
theory Token_Store
  imports Prelude "HOL-Library.Sublist"
begin

text \<open>
  The access-token store of the server (class \<open>TokenStore\<close> of \<open>auth.py\<close>): dashboard
  session bearers and named API tokens in \<open>tokens\<close> under their raw value, OAuth
  bearers and refresh tokens in \<open>oauth_tokens\<close> and \<open>refresh_tokens\<close> under
  the SHA-256 of the raw value, and the SQLite file that keeps the last two and the named
  tokens over a restart.

  Every reading of the clock is an argument of its own, in the order the code makes them,
  and so is every value drawn from \<open>secrets\<close>: no theorem assumes that two readings in
  one call agree.  \<open>H\<close> is \<open>_hash_secret\<close>'s digest function; the store only
  ever compares digests, so the results hold for every \<open>H\<close>.  \<open>db\<close> is the
  file's content (None: no persistence), and while \<open>db_writable\<close> is False every
  statement on it fails, which the code logs and ignores.
\<close>

record access_token =
  at_token :: string
  at_client_id :: string
  at_expires_at :: deadline
  at_name :: "string option"
  at_created_at :: real
  at_family_id :: "string option"

record oauth_grant =
  g_access_token :: string
  g_expires_in :: int
  g_refresh_token :: "string option"

record refresh_token =
  rt_token_hash :: string
  rt_client_id :: string
  rt_family_id :: string
  rt_expires_at :: real
  rt_created_at :: real
  rt_family_expires_at :: real
  rt_used :: bool
  rt_used_at :: real
  rt_replay :: "oauth_grant option"

text \<open>\<open>RefreshTokenError\<close>: its reason, and the family it names.\<close>

datatype refresh_error = Invalid | Expired string | Reused string

text \<open>A row of \<open>refresh_tokens\<close> in the file; old files have no family end yet.\<close>

record refresh_row =
  rr_token_hash :: string
  rr_client_id :: string
  rr_family_id :: string
  rr_expires_at :: real
  rr_created_at :: real
  rr_used :: bool
  rr_family_expires_at :: "real option"

record token_db =
  named_rows :: "(string, access_token) dict"
  oauth_rows :: "(string, access_token) dict"
  refresh_rows :: "(string, refresh_row) dict"

record token_store =
  tokens :: "(string, access_token) dict"
  oauth_tokens :: "(string, access_token) dict"
  refresh_tokens :: "(string, refresh_token) dict"
  db :: "token_db option"
  db_writable :: bool
  named_token_ttl :: int
  refresh_token_ttl :: int

definition TOKEN_TTL :: int where "TOKEN_TTL = 3600 * 24"
definition NAMED_TOKEN_TTL :: int where "NAMED_TOKEN_TTL = 3600 * 24 * 30"
definition SESSION_LIFETIME :: int where "SESSION_LIFETIME = 3600 * 24"
definition REFRESH_TOKEN_TTL :: int where "REFRESH_TOKEN_TTL = SESSION_LIFETIME"
definition REFRESH_REUSE_GRACE :: real where "REFRESH_REUSE_GRACE = 60"
definition NAMED_TOKEN_CAP :: nat where "NAMED_TOKEN_CAP = 3"
definition REVOKE_GRACE_SECONDS :: real where "REVOKE_GRACE_SECONDS = 8"

lemmas token_consts =
  TOKEN_TTL_def NAMED_TOKEN_TTL_def SESSION_LIFETIME_def REFRESH_TOKEN_TTL_def
  REFRESH_REUSE_GRACE_def NAMED_TOKEN_CAP_def REVOKE_GRACE_SECONDS_def

subsection \<open>Persistence\<close>

text \<open>\<open>_db_write\<close>: one statement, applied unless the file is absent or refuses it.\<close>

definition db_write :: "(token_db \<Rightarrow> token_db) \<Rightarrow> token_store \<Rightarrow> token_store" where
  "db_write f s =
     (case db s of
        None \<Rightarrow> s
      | Some d \<Rightarrow> if db_writable s then s\<lparr>db := Some (f d)\<rparr> else s)"

definition persist :: "access_token \<Rightarrow> token_store \<Rightarrow> token_store" where
  "persist a s =
     (if at_name a = None then s
      else db_write (\<lambda>d. d\<lparr>named_rows := dset (at_token a) a (named_rows d)\<rparr>) s)"

definition unpersist :: "string \<Rightarrow> token_store \<Rightarrow> token_store" where
  "unpersist t s = db_write (\<lambda>d. d\<lparr>named_rows := dpop t (named_rows d)\<rparr>) s"

definition persist_oauth :: "access_token \<Rightarrow> token_store \<Rightarrow> token_store" where
  "persist_oauth a s = db_write (\<lambda>d. d\<lparr>oauth_rows := dset (at_token a) a (oauth_rows d)\<rparr>) s"

definition row_of :: "refresh_token \<Rightarrow> refresh_row" where
  "row_of rt = \<lparr>rr_token_hash = rt_token_hash rt, rr_client_id = rt_client_id rt,
     rr_family_id = rt_family_id rt, rr_expires_at = rt_expires_at rt,
     rr_created_at = rt_created_at rt, rr_used = rt_used rt,
     rr_family_expires_at = Some (rt_family_expires_at rt)\<rparr>"

definition persist_refresh :: "refresh_token \<Rightarrow> token_store \<Rightarrow> token_store" where
  "persist_refresh rt s =
     db_write (\<lambda>d. d\<lparr>refresh_rows := dset (rt_token_hash rt) (row_of rt) (refresh_rows d)\<rparr>) s"

definition drop_refresh :: "string \<Rightarrow> token_store \<Rightarrow> token_store" where
  "drop_refresh h s =
     db_write (\<lambda>d. d\<lparr>refresh_rows := dpop h (refresh_rows d)\<rparr>)
       (s\<lparr>refresh_tokens := dpop h (refresh_tokens s)\<rparr>)"

definition drop_oauth :: "string \<Rightarrow> token_store \<Rightarrow> token_store" where
  "drop_oauth h s =
     db_write (\<lambda>d. d\<lparr>oauth_rows := dpop h (oauth_rows d)\<rparr>)
       (s\<lparr>oauth_tokens := dpop h (oauth_tokens s)\<rparr>)"

subsection \<open>Expiry\<close>

definition at_expired :: "real \<Rightarrow> access_token \<Rightarrow> bool" where
  "at_expired now a \<longleftrightarrow> at_expires_at a < At now"

definition rt_expired :: "real \<Rightarrow> refresh_token \<Rightarrow> bool" where
  "rt_expired now rt \<longleftrightarrow> rt_expires_at rt < now"

text \<open>The retry pair of a rotated-out token is forgotten once its grace is over.\<close>

definition forget_replay :: "real \<Rightarrow> refresh_token \<Rightarrow> refresh_token" where
  "forget_replay now rt =
     (if rt_replay rt \<noteq> None \<and> now - rt_used_at rt > REFRESH_REUSE_GRACE
      then rt\<lparr>rt_replay := None\<rparr> else rt)"

text \<open>\<open>_cleanup\<close>: its four loops, in order.\<close>

definition cleanup_named :: "real \<Rightarrow> token_store \<Rightarrow> token_store" where
  "cleanup_named now s =
     (let gone = dwhere (\<lambda>a. at_expired now a \<and> at_name a \<noteq> None) (tokens s)
      in db_write (\<lambda>d. d\<lparr>named_rows := drop_keys gone (named_rows d)\<rparr>)
           (s\<lparr>tokens := dkeep (\<lambda>a. \<not> at_expired now a) (tokens s)\<rparr>))"

definition cleanup_oauth :: "real \<Rightarrow> token_store \<Rightarrow> token_store" where
  "cleanup_oauth now s =
     (let gone = dwhere (at_expired now) (oauth_tokens s)
      in db_write (\<lambda>d. d\<lparr>oauth_rows := drop_keys gone (oauth_rows d)\<rparr>)
           (s\<lparr>oauth_tokens := dkeep (\<lambda>a. \<not> at_expired now a) (oauth_tokens s)\<rparr>))"

definition cleanup_refresh :: "real \<Rightarrow> token_store \<Rightarrow> token_store" where
  "cleanup_refresh now s =
     (let gone = dwhere (rt_expired now) (refresh_tokens s)
      in db_write (\<lambda>d. d\<lparr>refresh_rows := drop_keys gone (refresh_rows d)\<rparr>)
           (s\<lparr>refresh_tokens := dkeep (\<lambda>r. \<not> rt_expired now r) (refresh_tokens s)\<rparr>))"

definition cleanup :: "real \<Rightarrow> token_store \<Rightarrow> token_store" where
  "cleanup now s =
     (let s' = cleanup_refresh now (cleanup_oauth now (cleanup_named now s))
      in s'\<lparr>refresh_tokens := dmap (forget_replay now) (refresh_tokens s')\<rparr>)"

subsection \<open>Named tokens and session bearers\<close>

definition is_named_of :: "string \<Rightarrow> access_token \<Rightarrow> bool" where
  "is_named_of cid a \<longleftrightarrow> at_client_id a = cid \<and> at_name a \<noteq> None"

definition count_named :: "string \<Rightarrow> real \<Rightarrow> token_store \<Rightarrow> nat \<times> token_store" where
  "count_named cid now s =
     (let s' = cleanup now s in (dcount (is_named_of cid) (tokens s'), s'))"

text \<open>Newest first; Python's sort is stable, with \<open>reverse=True\<close> too.\<close>

definition list_named :: "string \<Rightarrow> real \<Rightarrow> token_store \<Rightarrow> access_token list \<times> token_store" where
  "list_named cid now s =
     (let s' = cleanup now s
      in (sort_key (\<lambda>a. - at_created_at a) [a \<leftarrow> dvals (tokens s'). is_named_of cid a], s'))"

text \<open>
  \<open>issue\<close>: \<open>Inl ()\<close> is \<open>TokenCapExceeded\<close>.  \<open>tc\<close> is the clock reading
  in \<open>count_named\<close>, \<open>now\<close> the one the token is stamped with, \<open>te\<close> the
  one of the final cleanup.
\<close>

definition issue ::
  "string \<Rightarrow> string option \<Rightarrow> string \<Rightarrow> real \<Rightarrow> real \<Rightarrow> real \<Rightarrow> token_store
     \<Rightarrow> (unit + string \<times> int) \<times> token_store" where
  "issue cid name token tc now te s =
     (let (n, s0) = (if name \<noteq> None then count_named cid tc s else (0, s))
      in if name \<noteq> None \<and> NAMED_TOKEN_CAP \<le> n then (Inl (), s0)
         else
           let ttl = (if name \<noteq> None then named_token_ttl s0 else TOKEN_TTL);
               expires_at = (if name \<noteq> None \<and> ttl = 0 then Never else At (now + of_int ttl));
               a = \<lparr>at_token = token, at_client_id = cid, at_expires_at = expires_at,
                    at_name = name, at_created_at = now, at_family_id = None\<rparr>;
               s1 = s0\<lparr>tokens := dset token a (tokens s0)\<rparr>;
               s2 = (if name \<noteq> None then persist a s1 else s1)
           in (Inr (token, ttl), cleanup te s2))"

subsection \<open>OAuth grants\<close>

text \<open>The two records \<open>_mint_oauth\<close> builds.\<close>

definition new_access ::
  "(string \<Rightarrow> string) \<Rightarrow> string \<Rightarrow> string option \<Rightarrow> real \<Rightarrow> string \<Rightarrow> real \<Rightarrow> access_token" where
  "new_access H cid family_id family_expires_at access now =
     \<lparr>at_token = H access, at_client_id = cid,
      at_expires_at = At (min (now + of_int TOKEN_TTL) family_expires_at),
      at_name = None, at_created_at = now, at_family_id = family_id\<rparr>"

definition new_refresh ::
  "(string \<Rightarrow> string) \<Rightarrow> string \<Rightarrow> string \<Rightarrow> real \<Rightarrow> int \<Rightarrow> string \<Rightarrow> real \<Rightarrow> refresh_token" where
  "new_refresh H cid f family_expires_at ttl fresh now =
     \<lparr>rt_token_hash = H fresh, rt_client_id = cid, rt_family_id = f,
      rt_expires_at = min (now + of_int ttl) family_expires_at,
      rt_created_at = now, rt_family_expires_at = family_expires_at,
      rt_used = False, rt_used_at = 0, rt_replay = None\<rparr>"

text \<open>
  \<open>_mint_oauth\<close>.  \<open>access\<close> and \<open>fresh\<close> are the two values drawn; the
  second is used only when a family is given.
\<close>

definition mint_oauth ::
  "(string \<Rightarrow> string) \<Rightarrow> string \<Rightarrow> string option \<Rightarrow> real \<Rightarrow> string \<Rightarrow> string \<Rightarrow> real
     \<Rightarrow> token_store \<Rightarrow> oauth_grant \<times> token_store" where
  "mint_oauth H cid family_id family_expires_at access fresh now s =
     (let expires_in = min TOKEN_TTL (max 0 (py_round (family_expires_at - now)));
          a = new_access H cid family_id family_expires_at access now;
          s1 = persist_oauth a (s\<lparr>oauth_tokens := dset (at_token a) a (oauth_tokens s)\<rparr>)
      in case family_id of
           None \<Rightarrow>
             (\<lparr>g_access_token = access, g_expires_in = expires_in, g_refresh_token = None\<rparr>, s1)
         | Some f \<Rightarrow>
             let rt = new_refresh H cid f family_expires_at (refresh_token_ttl s1) fresh now;
                 s2 = persist_refresh rt
                        (s1\<lparr>refresh_tokens := dset (rt_token_hash rt) rt (refresh_tokens s1)\<rparr>)
             in (\<lparr>g_access_token = access, g_expires_in = expires_in,
                  g_refresh_token = Some fresh\<rparr>, s2))"

text \<open>
  \<open>issue_oauth\<close>: \<open>family\<close> is None for \<open>refresh=False\<close> and otherwise the
  family id drawn; \<open>t0\<close>, \<open>t1\<close>, \<open>t2\<close> are the three clock readings.
\<close>

definition issue_oauth ::
  "(string \<Rightarrow> string) \<Rightarrow> string \<Rightarrow> string option \<Rightarrow> string \<Rightarrow> string \<Rightarrow> real \<Rightarrow> real \<Rightarrow> real
     \<Rightarrow> token_store \<Rightarrow> oauth_grant \<times> token_store" where
  "issue_oauth H cid family access fresh t0 t1 t2 s =
     (let (g, s') = mint_oauth H cid family (t0 + of_int SESSION_LIFETIME) access fresh t1 s
      in (g, cleanup t2 s'))"

definition revoke_family :: "string \<Rightarrow> token_store \<Rightarrow> token_store" where
  "revoke_family f s =
     db_write (\<lambda>d. d\<lparr>refresh_rows := dkeep (\<lambda>r. rr_family_id r \<noteq> f) (refresh_rows d),
                     oauth_rows := dkeep (\<lambda>a. at_family_id a \<noteq> Some f) (oauth_rows d)\<rparr>)
       (s\<lparr>refresh_tokens := dkeep (\<lambda>r. rt_family_id r \<noteq> f) (refresh_tokens s),
          oauth_tokens := dkeep (\<lambda>a. at_family_id a \<noteq> Some f) (oauth_tokens s)\<rparr>)"

text \<open>What \<open>refresh\<close> makes of the token it rotates out.\<close>

definition rotate :: "real \<Rightarrow> refresh_token \<Rightarrow> refresh_token" where
  "rotate now rt = rt\<lparr>rt_used := True, rt_used_at := now, rt_expires_at := rt_family_expires_at rt\<rparr>"

text \<open>
  The successful end of \<open>refresh\<close>.  The code mutates the token object it looked up;
  its last assignment (\<open>rt.replay = grant\<close>) reaches the store only while that object is
  still the one filed under its hash, so not when the new refresh token hashes to the same key.
\<close>

definition rotate_pair ::
  "(string \<Rightarrow> string) \<Rightarrow> string \<Rightarrow> refresh_token \<Rightarrow> string \<Rightarrow> string \<Rightarrow> string \<Rightarrow> real \<Rightarrow> real
     \<Rightarrow> real \<Rightarrow> token_store \<Rightarrow> oauth_grant \<times> token_store" where
  "rotate_pair H token rt cid access fresh now tm tc s =
     (let rt1 = rotate now rt;
          s1 = persist_refresh rt1 (s\<lparr>refresh_tokens := dset (H token) rt1 (refresh_tokens s)\<rparr>);
          (g, s2) = mint_oauth H cid (Some (rt_family_id rt)) (rt_family_expires_at rt)
                      access fresh tm s1;
          s3 = (if H fresh = H token then s2
                else s2\<lparr>refresh_tokens :=
                       dset (H token) (rt1\<lparr>rt_replay := Some g\<rparr>) (refresh_tokens s2)\<rparr>)
      in (g, cleanup tc s3))"

text \<open>\<open>refresh\<close>; \<open>now\<close>, \<open>tm\<close>, \<open>tc\<close> are its three clock readings.\<close>

definition refresh ::
  "(string \<Rightarrow> string) \<Rightarrow> string \<Rightarrow> string \<Rightarrow> string \<Rightarrow> string \<Rightarrow> real \<Rightarrow> real \<Rightarrow> real
     \<Rightarrow> token_store \<Rightarrow> (refresh_error + oauth_grant) \<times> token_store" where
  "refresh H token cid access fresh now tm tc s =
     (case dget (refresh_tokens s) (H token) of
        None \<Rightarrow> (Inl Invalid, s)
      | Some rt \<Rightarrow>
          if rt_client_id rt \<noteq> cid then (Inl Invalid, s)
          else if rt_used rt \<and> now < rt_family_expires_at rt then
            (case rt_replay rt of
               Some g \<Rightarrow>
                 if now - rt_used_at rt \<le> REFRESH_REUSE_GRACE then (Inr g, s)
                 else (Inl (Reused (rt_family_id rt)), revoke_family (rt_family_id rt) s)
             | None \<Rightarrow> (Inl (Reused (rt_family_id rt)), revoke_family (rt_family_id rt) s))
          else if now > rt_expires_at rt \<or> now \<ge> rt_family_expires_at rt then
            (Inl (Expired (rt_family_id rt)),
             if now \<ge> rt_family_expires_at rt then revoke_family (rt_family_id rt) s
             else drop_refresh (rt_token_hash rt) s)
          else
            let (g, s') = rotate_pair H token rt cid access fresh now tm tc s in (Inr g, s'))"

definition family_of :: "(string \<Rightarrow> string) \<Rightarrow> string \<Rightarrow> token_store \<Rightarrow> string option" where
  "family_of H token s = map_option rt_family_id (dget (refresh_tokens s) (H token))"

definition revoke_client :: "string \<Rightarrow> token_store \<Rightarrow> nat \<times> token_store" where
  "revoke_client cid s =
     (length (dwhere (\<lambda>a. at_client_id a = cid) (oauth_tokens s)),
      db_write (\<lambda>d. d\<lparr>oauth_rows := dkeep (\<lambda>a. at_client_id a \<noteq> cid) (oauth_rows d),
                      refresh_rows := dkeep (\<lambda>r. rr_client_id r \<noteq> cid) (refresh_rows d)\<rparr>)
        (s\<lparr>oauth_tokens := dkeep (\<lambda>a. at_client_id a \<noteq> cid) (oauth_tokens s),
           refresh_tokens := dkeep (\<lambda>r. rt_client_id r \<noteq> cid) (refresh_tokens s)\<rparr>))"

definition prune_unknown_clients :: "string list \<Rightarrow> token_store \<Rightarrow> nat \<times> token_store" where
  "prune_unknown_clients known s =
     (let owners = remdups (map at_client_id (dvals (oauth_tokens s))
                            @ map rt_client_id (dvals (refresh_tokens s)));
          stale = [cid \<leftarrow> owners. cid \<notin> set known]
      in (length stale, fold (\<lambda>cid s. snd (revoke_client cid s)) stale s))"

subsection \<open>Validation and revocation\<close>

definition validate_oauth ::
  "(string \<Rightarrow> string) \<Rightarrow> string \<Rightarrow> real \<Rightarrow> token_store \<Rightarrow> string option \<times> token_store" where
  "validate_oauth H token now s =
     (case dget (oauth_tokens s) (H token) of
        None \<Rightarrow> (None, s)
      | Some a \<Rightarrow> if at_expired now a then (None, drop_oauth (H token) s)
                  else (Some (at_client_id a), s))"

definition validate ::
  "(string \<Rightarrow> string) \<Rightarrow> string \<Rightarrow> real \<Rightarrow> token_store \<Rightarrow> string option \<times> token_store" where
  "validate H token now s =
     (case dget (tokens s) token of
        None \<Rightarrow> validate_oauth H token now s
      | Some a \<Rightarrow>
          if at_expired now a then
            (None, (let s1 = (if at_name a \<noteq> None then unpersist token s else s)
                    in s1\<lparr>tokens := dpop token (tokens s1)\<rparr>))
          else (Some (at_client_id a), s))"

definition cut_short :: "real \<Rightarrow> access_token \<Rightarrow> access_token" where
  "cut_short now a =
     (let d = At (now + REVOKE_GRACE_SECONDS)
      in if at_expires_at a > d then a\<lparr>at_expires_at := d\<rparr> else a)"

definition revoke_oauth ::
  "(string \<Rightarrow> string) \<Rightarrow> string \<Rightarrow> real \<Rightarrow> token_store \<Rightarrow> bool \<times> token_store" where
  "revoke_oauth H token now s =
     (case dget (oauth_tokens s) (H token) of
        None \<Rightarrow> (False, s)
      | Some a \<Rightarrow>
          let s1 = s\<lparr>oauth_tokens := dset (H token) (cut_short now a) (oauth_tokens s)\<rparr>;
              s2 = db_write (\<lambda>d. d\<lparr>oauth_rows := dpop (H token) (oauth_rows d)\<rparr>) s1
          in (True,
              case at_family_id a of
                None \<Rightarrow> s2
              | Some f \<Rightarrow>
                  db_write (\<lambda>d. d\<lparr>refresh_rows := dkeep (\<lambda>r. rr_family_id r \<noteq> f) (refresh_rows d)\<rparr>)
                    (s2\<lparr>refresh_tokens := dkeep (\<lambda>r. rt_family_id r \<noteq> f) (refresh_tokens s2)\<rparr>)))"

definition revoke ::
  "(string \<Rightarrow> string) \<Rightarrow> string \<Rightarrow> real \<Rightarrow> token_store \<Rightarrow> bool \<times> token_store" where
  "revoke H token now s =
     (case dget (tokens s) token of
        None \<Rightarrow> revoke_oauth H token now s
      | Some a \<Rightarrow>
          let s1 = s\<lparr>tokens := dset token (cut_short now a) (tokens s)\<rparr>
          in (True, if at_name a \<noteq> None then unpersist token s1 else s1))"

definition revoke_named ::
  "(string \<Rightarrow> string) \<Rightarrow> string \<Rightarrow> string \<Rightarrow> real \<Rightarrow> token_store \<Rightarrow> bool \<times> token_store" where
  "revoke_named H token_prefix cid now s =
     (if length token_prefix < 6 then (False, s)
      else case [a \<leftarrow> dvals (tokens s). prefix token_prefix (at_token a) \<and> is_named_of cid a] of
             [a] \<Rightarrow> revoke H (at_token a) now s
           | _ \<Rightarrow> (False, s))"

text \<open>
  \<open>revoke_current_token\<close> and \<open>current_client_id\<close>: \<open>bearer\<close> is the context
  variable, \<open>store\<close> the registered store.
\<close>

definition revoke_current_token ::
  "(string \<Rightarrow> string) \<Rightarrow> string option \<Rightarrow> real \<Rightarrow> token_store option \<Rightarrow> bool \<times> token_store option" where
  "revoke_current_token H bearer now store =
     (case (bearer, store) of
        (Some token, Some s) \<Rightarrow>
          if token = [] then (False, store)
          else let (ok, s') = revoke H token now s in (ok, Some s')
      | _ \<Rightarrow> (False, store))"

definition current_client_id ::
  "(string \<Rightarrow> string) \<Rightarrow> string option \<Rightarrow> real \<Rightarrow> token_store option
     \<Rightarrow> string option \<times> token_store option" where
  "current_client_id H bearer now store =
     (case (bearer, store) of
        (Some token, Some s) \<Rightarrow>
          if token = [] then (None, store)
          else let (c, s') = validate H token now s in (c, Some s')
      | _ \<Rightarrow> (None, store))"

subsection \<open>Start-up\<close>

text \<open>
  \<open>_bound_legacy_sessions\<close>: the three UPDATE statements.  SQL's \<open>MIN\<close> over the
  rows of one family.
\<close>

definition family_first :: "(string, refresh_row) dict \<Rightarrow> string \<Rightarrow> real" where
  "family_first rows f = Min (set [rr_created_at r. r \<leftarrow> dvals rows, rr_family_id r = f])"

definition stamp_row :: "(string, refresh_row) dict \<Rightarrow> refresh_row \<Rightarrow> refresh_row" where
  "stamp_row rows r =
     (if rr_family_expires_at r = None
      then r\<lparr>rr_family_expires_at := Some (of_int SESSION_LIFETIME + family_first rows (rr_family_id r))\<rparr>
      else r)"

definition cap_row :: "refresh_row \<Rightarrow> refresh_row" where
  "cap_row r =
     (case rr_family_expires_at r of
        None \<Rightarrow> r
      | Some e \<Rightarrow> r\<lparr>rr_expires_at := min (rr_expires_at r) e\<rparr>)"

definition family_ends :: "(string, refresh_row) dict \<Rightarrow> string \<Rightarrow> real list" where
  "family_ends rows f = [e. r \<leftarrow> dvals rows, rr_family_id r = f, Some e \<leftarrow> [rr_family_expires_at r]]"

definition cap_access :: "(string, refresh_row) dict \<Rightarrow> access_token \<Rightarrow> access_token" where
  "cap_access rows a =
     (case at_family_id a of
        None \<Rightarrow> a
      | Some f \<Rightarrow>
          (case family_ends rows f of
             [] \<Rightarrow> a
           | es \<Rightarrow> a\<lparr>at_expires_at := min (at_expires_at a) (At (Min (set es)))\<rparr>))"

definition bound_legacy_sessions :: "token_db \<Rightarrow> token_db" where
  "bound_legacy_sessions d =
     (let rows = dmap cap_row (dmap (stamp_row (refresh_rows d)) (refresh_rows d))
      in d\<lparr>refresh_rows := rows, oauth_rows := dmap (cap_access rows) (oauth_rows d)\<rparr>)"

definition load_refresh :: "refresh_row \<Rightarrow> refresh_token" where
  "load_refresh r = \<lparr>rt_token_hash = rr_token_hash r, rt_client_id = rr_client_id r,
     rt_family_id = rr_family_id r, rt_expires_at = rr_expires_at r,
     rt_created_at = rr_created_at r,
     rt_family_expires_at = (case rr_family_expires_at r of Some e \<Rightarrow> e | None \<Rightarrow> 0),
     rt_used = rr_used r, rt_used_at = 0, rt_replay = None\<rparr>"

text \<open>
  \<open>_init_db\<close> on the content of a file that opens (the other branch of the code leaves
  \<open>db\<close> None): migrate, load the rows that are still valid, delete the others.
\<close>

definition init_db :: "real \<Rightarrow> token_db \<Rightarrow> token_store \<Rightarrow> token_store" where
  "init_db now d0 s =
     (let d = bound_legacy_sessions d0;
          named = dkeep (\<lambda>a. At now < at_expires_at a) (named_rows d);
          oauth = dkeep (\<lambda>a. At now < at_expires_at a) (oauth_rows d);
          refr = dkeep (\<lambda>r. now < rr_expires_at r) (refresh_rows d)
      in s\<lparr>tokens := named, oauth_tokens := oauth, refresh_tokens := dmap load_refresh refr,
           db := Some (d\<lparr>named_rows := named, oauth_rows := oauth, refresh_rows := refr\<rparr>)\<rparr>)"

text \<open>
  \<open>TokenStore.__init__\<close>: \<open>Inl ()\<close> is the \<open>ValueError\<close> on the refresh
  lifetime; \<open>disk\<close> is None when no path is given or the file does not open.
\<close>

definition token_store_init ::
  "int option \<Rightarrow> int option \<Rightarrow> real \<Rightarrow> token_db option \<Rightarrow> unit + token_store" where
  "token_store_init named_ttl refresh_ttl now disk =
     (let nt = (case named_ttl of Some n \<Rightarrow> n | None \<Rightarrow> NAMED_TOKEN_TTL);
          rt = (case refresh_ttl of None \<Rightarrow> REFRESH_TOKEN_TTL | Some n \<Rightarrow> n)
      in if \<not> (0 < rt \<and> rt \<le> SESSION_LIFETIME) then Inl ()
         else
           let s = \<lparr>tokens = [], oauth_tokens = [], refresh_tokens = [], db = None,
                    db_writable = True, named_token_ttl = nt, refresh_token_ttl = rt\<rparr>
           in Inr (case disk of None \<Rightarrow> s | Some d \<Rightarrow> init_db now d s))"

end
