(* ===== verification/Token_Inv.thy ===== *)
theory Token_Inv
  imports Token_Store
begin

text \<open>
  Runs of the token store and what they keep.  \<open>token_op\<close> lists the operations the
  server performs on the store, with their clock readings and random draws, and the
  environment's one: the file becoming writable or not.  The locale \<open>token_law\<close> is the
  interface between the operations and an invariant on single tokens: what an invariant
  must tolerate of a token (being cut short, forgetting its retry pair, being rotated out)
  and of a minted one; every operation then keeps it.
\<close>

datatype token_op =
    Issue string "string option" string real real real
  | Issue_oauth string "string option" string string real real real
  | Refresh string string string string real real real
  | Validate string real
  | Revoke string real
  | Revoke_named string string real
  | Revoke_family string
  | Revoke_client string
  | Prune "string list"
  | Count_named string real
  | List_named string real
  | Set_writable bool

fun token_step :: "(string \<Rightarrow> string) \<Rightarrow> token_op \<Rightarrow> token_store \<Rightarrow> token_store" where
  "token_step H (Issue cid name token tc now te) s = snd (issue cid name token tc now te s)"
| "token_step H (Issue_oauth cid family access fresh t0 t1 t2) s =
     snd (issue_oauth H cid family access fresh t0 t1 t2 s)"
| "token_step H (Refresh token cid access fresh now tm tc) s =
     snd (refresh H token cid access fresh now tm tc s)"
| "token_step H (Validate token now) s = snd (validate H token now s)"
| "token_step H (Revoke token now) s = snd (revoke H token now s)"
| "token_step H (Revoke_named pre cid now) s = snd (revoke_named H pre cid now s)"
| "token_step H (Revoke_family f) s = revoke_family f s"
| "token_step H (Revoke_client cid) s = snd (revoke_client cid s)"
| "token_step H (Prune known) s = snd (prune_unknown_clients known s)"
| "token_step H (Count_named cid now) s = snd (count_named cid now s)"
| "token_step H (List_named cid now) s = snd (list_named cid now s)"
| "token_step H (Set_writable w) s = s\<lparr>db_writable := w\<rparr>"

definition token_run :: "(string \<Rightarrow> string) \<Rightarrow> token_op list \<Rightarrow> token_store \<Rightarrow> token_store" where
  "token_run H ops s = fold (token_step H) ops s"

lemma token_run_simps [simp]:
  "token_run H [] s = s"
  "token_run H (x # xs) s = token_run H xs (token_step H x s)"
  by (simp_all add: token_run_def)

text \<open>An invariant of single steps is one of runs.\<close>

lemma token_run_invariant:
  "I s \<Longrightarrow> \<forall>x \<in> set ops. A x \<Longrightarrow> (\<And>x s. I s \<Longrightarrow> A x \<Longrightarrow> I (token_step H x s)) \<Longrightarrow> I (token_run H ops s)"
  by (induction ops arbitrary: s) auto

subsection \<open>What each operation does to the tables in memory\<close>

named_theorems store_simps \<open>the tables after an operation\<close>

lemma db_write_sel [simp]:
  "tokens (db_write f s) = tokens s" "oauth_tokens (db_write f s) = oauth_tokens s"
  "refresh_tokens (db_write f s) = refresh_tokens s" "db_writable (db_write f s) = db_writable s"
  "refresh_token_ttl (db_write f s) = refresh_token_ttl s" "named_token_ttl (db_write f s) = named_token_ttl s"
  by (simp_all add: db_write_def split: option.splits)

lemma persist_sel [simp]:
  "tokens (persist a s) = tokens s" "oauth_tokens (persist a s) = oauth_tokens s"
  "refresh_tokens (persist a s) = refresh_tokens s"
  "tokens (unpersist t s) = tokens s" "oauth_tokens (unpersist t s) = oauth_tokens s"
  "refresh_tokens (unpersist t s) = refresh_tokens s"
  "tokens (persist_oauth a s) = tokens s" "oauth_tokens (persist_oauth a s) = oauth_tokens s"
  "refresh_tokens (persist_oauth a s) = refresh_tokens s"
  "refresh_token_ttl (persist_oauth a s) = refresh_token_ttl s"
  "tokens (persist_refresh r s) = tokens s" "oauth_tokens (persist_refresh r s) = oauth_tokens s"
  "refresh_tokens (persist_refresh r s) = refresh_tokens s"
  "refresh_token_ttl (persist_refresh r s) = refresh_token_ttl s"
  by (simp_all add: persist_def unpersist_def persist_oauth_def persist_refresh_def)

lemma drop_sel [simp]:
  "tokens (drop_refresh h s) = tokens s" "oauth_tokens (drop_refresh h s) = oauth_tokens s"
  "refresh_tokens (drop_refresh h s) = dpop h (refresh_tokens s)"
  "tokens (drop_oauth h s) = tokens s" "oauth_tokens (drop_oauth h s) = dpop h (oauth_tokens s)"
  "refresh_tokens (drop_oauth h s) = refresh_tokens s"
  by (simp_all add: drop_refresh_def drop_oauth_def)

lemma cleanup_sel [simp]:
  "tokens (cleanup now s) = dkeep (\<lambda>a. \<not> at_expired now a) (tokens s)"
  "oauth_tokens (cleanup now s) = dkeep (\<lambda>a. \<not> at_expired now a) (oauth_tokens s)"
  "refresh_tokens (cleanup now s) =
     dmap (forget_replay now) (dkeep (\<lambda>r. \<not> rt_expired now r) (refresh_tokens s))"
  by (simp_all add: cleanup_def cleanup_named_def cleanup_oauth_def cleanup_refresh_def Let_def)

lemma mint_oauth_sel [simp]:
  "tokens (snd (mint_oauth H cid fam e acc fr now s)) = tokens s"
  "oauth_tokens (snd (mint_oauth H cid fam e acc fr now s)) =
     dset (H acc) (new_access H cid fam e acc now) (oauth_tokens s)"
  "refresh_tokens (snd (mint_oauth H cid fam e acc fr now s)) =
     (case fam of None \<Rightarrow> refresh_tokens s
      | Some f \<Rightarrow> dset (H fr) (new_refresh H cid f e (refresh_token_ttl s) fr now) (refresh_tokens s))"
  by (simp_all add: mint_oauth_def new_access_def new_refresh_def Let_def split: option.splits)

lemma revoke_family_sel [simp]:
  "tokens (revoke_family f s) = tokens s"
  "oauth_tokens (revoke_family f s) = dkeep (\<lambda>a. at_family_id a \<noteq> Some f) (oauth_tokens s)"
  "refresh_tokens (revoke_family f s) = dkeep (\<lambda>r. rt_family_id r \<noteq> f) (refresh_tokens s)"
  by (simp_all add: revoke_family_def)

lemma revoke_client_sel [simp]:
  "tokens (snd (revoke_client c s)) = tokens s"
  "oauth_tokens (snd (revoke_client c s)) = dkeep (\<lambda>a. at_client_id a \<noteq> c) (oauth_tokens s)"
  "refresh_tokens (snd (revoke_client c s)) = dkeep (\<lambda>r. rt_client_id r \<noteq> c) (refresh_tokens s)"
  by (simp_all add: revoke_client_def)

lemma revoke_clients_sel [simp]:
  "tokens (fold (\<lambda>c s. snd (revoke_client c s)) cs s) = tokens s"
  "oauth_tokens (fold (\<lambda>c s. snd (revoke_client c s)) cs s) =
     dkeep (\<lambda>a. at_client_id a \<notin> set cs) (oauth_tokens s)"
  "refresh_tokens (fold (\<lambda>c s. snd (revoke_client c s)) cs s) =
     dkeep (\<lambda>r. rt_client_id r \<notin> set cs) (refresh_tokens s)"
  by (induction cs arbitrary: s) (simp_all add: dkeep_def conj_commute)

lemma rotate_pair_sel:
  "tokens (snd (rotate_pair H t rt c acc fr now tm tc s)) = dkeep (\<lambda>a. \<not> at_expired tc a) (tokens s)"
  "oauth_tokens (snd (rotate_pair H t rt c acc fr now tm tc s)) =
     dkeep (\<lambda>a. \<not> at_expired tc a)
       (dset (H acc) (new_access H c (Some (rt_family_id rt)) (rt_family_expires_at rt) acc tm) (oauth_tokens s))"
  "\<exists>g. refresh_tokens (snd (rotate_pair H t rt c acc fr now tm tc s)) =
     dmap (forget_replay tc) (dkeep (\<lambda>r. \<not> rt_expired tc r)
       (let d = dset (H fr) (new_refresh H c (rt_family_id rt) (rt_family_expires_at rt)
                               (refresh_token_ttl s) fr tm)
                  (dset (H t) (rotate now rt) (refresh_tokens s))
        in if H fr = H t then d else dset (H t) ((rotate now rt)\<lparr>rt_replay := Some g\<rparr>) d))"
proof -
  let ?s1 = "persist_refresh (rotate now rt)
               (s\<lparr>refresh_tokens := dset (H t) (rotate now rt) (refresh_tokens s)\<rparr>)"
  let ?m = "mint_oauth H c (Some (rt_family_id rt)) (rt_family_expires_at rt) acc fr tm ?s1"
  have ttl: "refresh_token_ttl ?s1 = refresh_token_ttl s" by (simp add: persist_refresh_def)
  show "tokens (snd (rotate_pair H t rt c acc fr now tm tc s)) = dkeep (\<lambda>a. \<not> at_expired tc a) (tokens s)"
    by (simp add: rotate_pair_def Let_def split_beta)
  show "oauth_tokens (snd (rotate_pair H t rt c acc fr now tm tc s)) =
     dkeep (\<lambda>a. \<not> at_expired tc a)
       (dset (H acc) (new_access H c (Some (rt_family_id rt)) (rt_family_expires_at rt) acc tm) (oauth_tokens s))"
    by (simp add: rotate_pair_def Let_def split_beta)
  show "\<exists>g. refresh_tokens (snd (rotate_pair H t rt c acc fr now tm tc s)) =
     dmap (forget_replay tc) (dkeep (\<lambda>r. \<not> rt_expired tc r)
       (let d = dset (H fr) (new_refresh H c (rt_family_id rt) (rt_family_expires_at rt)
                               (refresh_token_ttl s) fr tm)
                  (dset (H t) (rotate now rt) (refresh_tokens s))
        in if H fr = H t then d else dset (H t) ((rotate now rt)\<lparr>rt_replay := Some g\<rparr>) d))"
    by (rule exI [of _ "fst ?m"]) (simp add: rotate_pair_def Let_def split_beta ttl)
qed

text \<open>The six ways a call of \<open>refresh\<close> can end.\<close>

lemma refresh_cases:
  obtains (invalid) "refresh H t c acc fr now tm tc s = (Inl Invalid, s)"
      "\<And>rt. dget (refresh_tokens s) (H t) = Some rt \<Longrightarrow> rt_client_id rt \<noteq> c"
  | (retry) rt g where "dget (refresh_tokens s) (H t) = Some rt" "rt_client_id rt = c" "rt_used rt"
      "now < rt_family_expires_at rt" "rt_replay rt = Some g" "now - rt_used_at rt \<le> REFRESH_REUSE_GRACE"
      "refresh H t c acc fr now tm tc s = (Inr g, s)"
  | (reused) rt where "dget (refresh_tokens s) (H t) = Some rt" "rt_client_id rt = c" "rt_used rt"
      "now < rt_family_expires_at rt"
      "rt_replay rt = None \<or> now - rt_used_at rt > REFRESH_REUSE_GRACE"
      "refresh H t c acc fr now tm tc s = (Inl (Reused (rt_family_id rt)), revoke_family (rt_family_id rt) s)"
  | (ended) rt where "dget (refresh_tokens s) (H t) = Some rt" "rt_client_id rt = c"
      "rt_family_expires_at rt \<le> now"
      "refresh H t c acc fr now tm tc s = (Inl (Expired (rt_family_id rt)), revoke_family (rt_family_id rt) s)"
  | (idle) rt where "dget (refresh_tokens s) (H t) = Some rt" "rt_client_id rt = c" "\<not> rt_used rt"
      "now < rt_family_expires_at rt" "rt_expires_at rt < now"
      "refresh H t c acc fr now tm tc s = (Inl (Expired (rt_family_id rt)), drop_refresh (rt_token_hash rt) s)"
  | (rotated) rt where "dget (refresh_tokens s) (H t) = Some rt" "rt_client_id rt = c" "\<not> rt_used rt"
      "now \<le> rt_expires_at rt" "now < rt_family_expires_at rt"
      "refresh H t c acc fr now tm tc s =
         (Inr (fst (rotate_pair H t rt c acc fr now tm tc s)), snd (rotate_pair H t rt c acc fr now tm tc s))"
proof (cases "dget (refresh_tokens s) (H t)")
  case None
  then show ?thesis by (intro invalid) (simp_all add: refresh_def)
next
  case (Some rt)
  show ?thesis
  proof (cases "rt_client_id rt = c")
    case False
    with Some show ?thesis by (intro invalid) (simp_all add: refresh_def)
  next
    case c: True
    show ?thesis
    proof (cases "rt_used rt \<and> now < rt_family_expires_at rt")
      case True
      show ?thesis
      proof (cases "\<exists>g. rt_replay rt = Some g \<and> now - rt_used_at rt \<le> REFRESH_REUSE_GRACE")
        case g: True
        with Some c True show ?thesis by (auto simp: refresh_def intro: retry)
      next
        case False
        with Some c True show ?thesis
          by (intro reused [of rt]) (auto simp: refresh_def split: option.splits)
      qed
    next
      case False
      with Some c show ?thesis
        by (cases "rt_family_expires_at rt \<le> now"; cases "rt_expires_at rt < now")
           (auto simp: refresh_def split_beta intro: ended idle rotated)
    qed
  qed
qed


subsection \<open>Invariants on single tokens\<close>

definition all_tokens ::
  "(string \<Rightarrow> access_token \<Rightarrow> bool) \<Rightarrow> (string \<Rightarrow> refresh_token \<Rightarrow> bool) \<Rightarrow> token_store \<Rightarrow> bool" where
  "all_tokens P Q s \<longleftrightarrow>
     (\<forall>(h, a) \<in> set (oauth_tokens s). P h a) \<and> (\<forall>(h, r) \<in> set (refresh_tokens s). Q h r)"

lemma all_tokensD:
  "all_tokens P Q s \<Longrightarrow> (h, a) \<in> set (oauth_tokens s) \<Longrightarrow> P h a"
  "all_tokens P Q s \<Longrightarrow> (h, r) \<in> set (refresh_tokens s) \<Longrightarrow> Q h r"
  by (auto simp: all_tokens_def)

text \<open>Operations that only take tokens away keep every such invariant.\<close>

lemma all_tokens_mono:
  "all_tokens P Q s \<Longrightarrow> set (oauth_tokens s') \<subseteq> set (oauth_tokens s) \<Longrightarrow>
     set (refresh_tokens s') \<subseteq> set (refresh_tokens s) \<Longrightarrow> all_tokens P Q s'"
  unfolding all_tokens_def by blast

lemma all_tokens_mint:
  assumes "all_tokens P Q s" "P (H acc) (new_access H c fam e acc now)"
    and "\<And>f. fam = Some f \<Longrightarrow> Q (H fr) (new_refresh H c f e (refresh_token_ttl s) fr now)"
  shows "all_tokens P Q (snd (mint_oauth H c fam e acc fr now s))"
  using assms by (force simp: all_tokens_def split: option.splits dest!: in_dset)

locale token_law =
  fixes H :: "string \<Rightarrow> string"
    and P :: "string \<Rightarrow> access_token \<Rightarrow> bool"
    and Q :: "string \<Rightarrow> refresh_token \<Rightarrow> bool"
    and ok :: "token_op \<Rightarrow> bool"
  assumes P_cut: "P h a \<Longrightarrow> P h (cut_short now a)"
    and Q_forget: "Q h r \<Longrightarrow> Q h (forget_replay now r)"
    and Q_rotate: "Q h r \<Longrightarrow> Q h ((rotate now r)\<lparr>rt_replay := g\<rparr>)"
    and P_rotation: "Q h r \<Longrightarrow> ok (Refresh t (rt_client_id r) acc fr n now n') \<Longrightarrow>
      P (H acc) (new_access H (rt_client_id r) (Some (rt_family_id r)) (rt_family_expires_at r) acc now)"
    and Q_rotation: "Q h r \<Longrightarrow> ok (Refresh t (rt_client_id r) acc fr n now n') \<Longrightarrow>
      Q (H fr) (new_refresh H (rt_client_id r) (rt_family_id r) (rt_family_expires_at r) ttl fr now)"
    and P_sign_in: "ok (Issue_oauth c fam acc fr t0 t1 t2) \<Longrightarrow>
      P (H acc) (new_access H c fam (t0 + of_int SESSION_LIFETIME) acc t1)"
    and Q_sign_in: "ok (Issue_oauth c (Some f) acc fr t0 t1 t2) \<Longrightarrow>
      Q (H fr) (new_refresh H c f (t0 + of_int SESSION_LIFETIME) ttl fr t1)"
begin

lemma cleanup_law: "all_tokens P Q s \<Longrightarrow> all_tokens P Q (cleanup now s)"
  by (force simp: all_tokens_def in_dmap intro: Q_forget)

lemma Q_rotate_plain: "Q h r \<Longrightarrow> Q h (rotate now r)"
proof -
  have "(rotate now r)\<lparr>rt_replay := rt_replay r\<rparr> = rotate now r"
    by (cases r) (simp add: rotate_def)
  then show "Q h r \<Longrightarrow> Q h (rotate now r)" by (metis Q_rotate)
qed

lemma rotate_pair_law:
  assumes all: "all_tokens P Q s" and rt: "dget (refresh_tokens s) (H t) = Some rt" and c: "rt_client_id rt = c"
    and op: "ok (Refresh t c acc fr now tm tc)"
  shows "all_tokens P Q (snd (rotate_pair H t rt c acc fr now tm tc s))"
proof -
  have q: "Q (H t) rt" using all rt by (auto dest: dget_in all_tokensD)
  let ?s = "snd (rotate_pair H t rt c acc fr now tm tc s)"
  have P: "P h a" if "(h, a) \<in> set (oauth_tokens ?s)" for h a
    using that P_rotation [OF q] op all_tokensD(1) [OF all]
    by (auto simp: rotate_pair_sel c dest!: in_dset)
  obtain g where g: "refresh_tokens ?s =
     dmap (forget_replay tc) (dkeep (\<lambda>r. \<not> rt_expired tc r)
       (let d = dset (H fr) (new_refresh H c (rt_family_id rt) (rt_family_expires_at rt)
                               (refresh_token_ttl s) fr tm)
                  (dset (H t) (rotate now rt) (refresh_tokens s))
        in if H fr = H t then d else dset (H t) ((rotate now rt)\<lparr>rt_replay := Some g\<rparr>) d))"
    using rotate_pair_sel(3) by blast
  have new: "Q (H fr) (new_refresh H c (rt_family_id rt) (rt_family_expires_at rt) (refresh_token_ttl s) fr tm)"
    using Q_rotation [OF q] op c by simp
  have "Q h r" if "(h, r) \<in> set (refresh_tokens ?s)" for h r
  proof -
    from that obtain r0 where r: "r = forget_replay tc r0"
      and r0: "(h, r0) = (H t, (rotate now rt)\<lparr>rt_replay := Some g\<rparr>)
        \<or> (h, r0) = (H fr, new_refresh H c (rt_family_id rt) (rt_family_expires_at rt) (refresh_token_ttl s) fr tm)
        \<or> (h, r0) = (H t, rotate now rt) \<or> (h, r0) \<in> set (refresh_tokens s)"
      unfolding g by (auto simp: in_dmap Let_def split: if_splits dest!: in_dset)
    from r0 have "Q h r0"
      using new Q_rotate [OF q] Q_rotate_plain [OF q] all_tokensD(2) [OF all] by auto
    then show ?thesis unfolding r by (rule Q_forget)
  qed
  with P show ?thesis by (auto simp: all_tokens_def)
qed

lemma refresh_law:
  assumes "all_tokens P Q s" "ok (Refresh t c acc fr now tm tc)"
  shows "all_tokens P Q (snd (refresh H t c acc fr now tm tc s))"
proof (cases rule: refresh_cases [of H t c acc fr now tm tc s])
  case (rotated rt)
  with rotate_pair_law [OF assms(1) _ _ assms(2)] show ?thesis by simp
qed (use assms(1) in \<open>auto intro: all_tokens_mono\<close>)

lemma sign_in_law:
  assumes all: "all_tokens P Q s" and op: "ok (Issue_oauth c fam acc fr t0 t1 t2)"
  shows "all_tokens P Q (snd (issue_oauth H c fam acc fr t0 t1 t2 s))"
proof -
  have "all_tokens P Q (snd (mint_oauth H c fam (t0 + of_int SESSION_LIFETIME) acc fr t1 s))"
    using P_sign_in [OF op] Q_sign_in op by (intro all_tokens_mint [OF all]) auto
  then show ?thesis by (simp add: issue_oauth_def split_beta cleanup_law)
qed

lemma revoke_law: "all_tokens P Q s \<Longrightarrow> all_tokens P Q (snd (revoke H t now s))"
  by (auto simp: revoke_def revoke_oauth_def Let_def all_tokens_def split: option.splits
           dest!: in_dset dest: dget_in intro: P_cut)

theorem step_law:
  assumes "all_tokens P Q s" "ok x"
  shows "all_tokens P Q (token_step H x s)"
proof (cases x)
  case (Issue cid name token tc now te)
  have "all_tokens P Q (cleanup te s')" if "all_tokens P Q s'" for s' using cleanup_law that .
  moreover have "all_tokens P Q (persist a (s'\<lparr>tokens := d\<rparr>))" "all_tokens P Q (s'\<lparr>tokens := d\<rparr>)"
    if "all_tokens P Q s'" for a d s'
    using that by (simp_all add: all_tokens_def)
  ultimately show ?thesis using assms cleanup_law [OF assms(1), of tc] Issue
    by (simp add: issue_def count_named_def Let_def)
next
  case (Validate token now)
  then show ?thesis using assms
    by (auto simp: validate_def validate_oauth_def Let_def split: option.splits intro: all_tokens_mono)
next
  case (Revoke_named pre cid now)
  then show ?thesis using assms revoke_law by (simp add: revoke_named_def split: list.splits)
next
  case (Prune known)
  then show ?thesis using assms by (auto simp: prune_unknown_clients_def Let_def intro: all_tokens_mono)
qed (use assms in \<open>auto simp: count_named_def list_named_def Let_def cleanup_law refresh_law revoke_law
       sign_in_law intro: all_tokens_mono\<close>)

corollary run_law: "all_tokens P Q s \<Longrightarrow> \<forall>x \<in> set ops. ok x \<Longrightarrow> all_tokens P Q (token_run H ops s)"
  by (rule token_run_invariant [where A = ok]) (auto intro: step_law)

end

end
