(* ===== verification/Token_Session.thy ===== *)
theory Token_Session
  imports Token_Inv
begin

text \<open>
  What the token store promises about a sign-in: the well-formedness every operation keeps
  (\<open>wf_store\<close>), the absolute end of a family, reuse detection, the finality of a
  revocation and the cap on named tokens.  Each invariant on single tokens is an
  interpretation of \<open>token_law\<close>.
\<close>

subsection \<open>Well-formedness\<close>

text \<open>
  All tokens of one refresh family belong to one client and none outlives the family's
  end; a record is filed under its own hash; an idle end never passes the family's.
\<close>

fun of_family :: "string \<Rightarrow> real \<Rightarrow> string \<Rightarrow> token_op \<Rightarrow> bool" where
  "of_family f E c (Issue_oauth cid fam acc fr t0 t1 t2) \<longleftrightarrow>
     (fam = Some f \<longrightarrow> E = t0 + of_int SESSION_LIFETIME \<and> cid = c)"
| "of_family f E c _ \<longleftrightarrow> True"

definition family_access :: "string \<Rightarrow> real \<Rightarrow> string \<Rightarrow> string \<Rightarrow> access_token \<Rightarrow> bool" where
  "family_access f E c h a \<longleftrightarrow>
     (at_family_id a = Some f \<longrightarrow> at_client_id a = c \<and> at_expires_at a \<le> At E)"

definition family_refresh :: "string \<Rightarrow> real \<Rightarrow> string \<Rightarrow> string \<Rightarrow> refresh_token \<Rightarrow> bool" where
  "family_refresh f E c h r \<longleftrightarrow>
     (rt_family_id r = f \<longrightarrow> rt_client_id r = c \<and> rt_family_expires_at r = E \<and> rt_expires_at r \<le> E)"

abbreviation family_law :: "string \<Rightarrow> real \<Rightarrow> string \<Rightarrow> token_store \<Rightarrow> bool" where
  "family_law f E c \<equiv> all_tokens (family_access f E c) (family_refresh f E c)"

lemma cut_short_sel [simp]:
  "at_token (cut_short now a) = at_token a" "at_client_id (cut_short now a) = at_client_id a"
  "at_name (cut_short now a) = at_name a" "at_family_id (cut_short now a) = at_family_id a"
  "at_created_at (cut_short now a) = at_created_at a"
  by (simp_all add: cut_short_def Let_def)

lemma cut_short_le: "at_expires_at (cut_short now a) \<le> at_expires_at a"
  "at_expires_at (cut_short now a) \<le> At (now + REVOKE_GRACE_SECONDS)"
  by (auto simp: cut_short_def Let_def)

lemma forget_replay_sel [simp]:
  "rt_token_hash (forget_replay now r) = rt_token_hash r" "rt_client_id (forget_replay now r) = rt_client_id r"
  "rt_family_id (forget_replay now r) = rt_family_id r" "rt_expires_at (forget_replay now r) = rt_expires_at r"
  "rt_family_expires_at (forget_replay now r) = rt_family_expires_at r"
  "rt_used (forget_replay now r) = rt_used r" "rt_used_at (forget_replay now r) = rt_used_at r"
  "rt_created_at (forget_replay now r) = rt_created_at r"
  by (simp_all add: forget_replay_def)

lemmas token_record_simps = new_access_def new_refresh_def rotate_def

interpretation fam: token_law H "family_access f E c" "family_refresh f E c" "of_family f E c" for H f E c
  by unfold_locales
     (auto simp: family_access_def family_refresh_def token_record_simps intro: order_trans [OF cut_short_le(1)])

text \<open>Records are filed under their own hash, and a rotated-out token stays until the family's end.\<close>

definition filed_access :: "string \<Rightarrow> access_token \<Rightarrow> bool" where
  "filed_access h a \<longleftrightarrow> at_token a = h \<and> at_name a = None"

definition filed_refresh :: "string \<Rightarrow> refresh_token \<Rightarrow> bool" where
  "filed_refresh h r \<longleftrightarrow> rt_token_hash r = h \<and> rt_expires_at r \<le> rt_family_expires_at r
     \<and> (rt_used r \<longrightarrow> rt_expires_at r = rt_family_expires_at r)"

interpretation filed: token_law H filed_access filed_refresh "\<lambda>_. True" for H
  by unfold_locales (auto simp: filed_access_def filed_refresh_def token_record_simps)

definition tables_ok :: "token_store \<Rightarrow> bool" where
  "tables_ok s \<longleftrightarrow> dict_ok (tokens s) \<and> dict_ok (oauth_tokens s) \<and> dict_ok (refresh_tokens s)
     \<and> (\<forall>(t, a) \<in> set (tokens s). at_token a = t)"

definition wf_store :: "token_store \<Rightarrow> bool" where
  "wf_store s \<longleftrightarrow> tables_ok s \<and> all_tokens filed_access filed_refresh s
     \<and> (\<forall>f. \<exists>E c. family_law f E c s)"

text \<open>A sign-in draws a family id that no token of the store has.\<close>

definition unused_family :: "string \<Rightarrow> token_store \<Rightarrow> bool" where
  "unused_family f s \<longleftrightarrow>
     (\<forall>a \<in> set (dvals (oauth_tokens s)). at_family_id a \<noteq> Some f)
     \<and> (\<forall>r \<in> set (dvals (refresh_tokens s)). rt_family_id r \<noteq> f)"

fun opens :: "token_op \<Rightarrow> string option" where
  "opens (Issue_oauth cid fam acc fr t0 t1 t2) = fam"
| "opens _ = None"

fun fresh_run :: "(string \<Rightarrow> string) \<Rightarrow> token_op list \<Rightarrow> token_store \<Rightarrow> bool" where
  "fresh_run H [] s = True"
| "fresh_run H (x # xs) s \<longleftrightarrow>
     (case opens x of None \<Rightarrow> True | Some f \<Rightarrow> unused_family f s) \<and> fresh_run H xs (token_step H x s)"

lemma in_tokens_issue:
  "p \<in> set (tokens (snd (issue cid name t tc now te s))) \<Longrightarrow>
     p \<in> set (tokens s) \<or> fst p = t \<and> at_token (snd p) = t"
  by (auto simp: issue_def count_named_def Let_def split: if_splits dest!: in_dset)

lemma in_tokens_revoke:
  "p \<in> set (tokens (snd (revoke H t now s))) \<Longrightarrow>
     p \<in> set (tokens s) \<or> (\<exists>a. dget (tokens s) t = Some a \<and> p = (t, cut_short now a))"
  by (auto simp: revoke_def revoke_oauth_def Let_def split: option.splits if_splits dest!: in_dset)

lemma revoke_named_cases:
  obtains "revoke_named H pre cid now s = (False, s)"
  | a where "a \<in> set (dvals (tokens s))" "prefix pre (at_token a)" "is_named_of cid a"
      "revoke_named H pre cid now s = revoke H (at_token a) now s"
proof (cases "length pre < 6")
  case False
  show ?thesis
  proof (cases "\<exists>a. [a \<leftarrow> dvals (tokens s). prefix pre (at_token a) \<and> is_named_of cid a] = [a]")
    case True
    then obtain a where a: "[a \<leftarrow> dvals (tokens s). prefix pre (at_token a) \<and> is_named_of cid a] = [a]" ..
    have mem: "a \<in> set [a \<leftarrow> dvals (tokens s). prefix pre (at_token a) \<and> is_named_of cid a]"
      unfolding a by simp
    have "revoke_named H pre cid now s = revoke H (at_token a) now s"
      using a False by (simp add: revoke_named_def)
    with mem show ?thesis by (intro that(2) [of a]) auto
  next
    case no: False
    with False show ?thesis by (intro that(1)) (auto simp: revoke_named_def split: list.splits)
  qed
qed (simp add: revoke_named_def that(1))

text \<open>Where an entry of the raw-token table can come from.\<close>

lemma in_tokens_step:
  "p \<in> set (tokens (token_step H x s)) \<Longrightarrow>
     p \<in> set (tokens s) \<or> (\<exists>now a. (fst p, a) \<in> set (tokens s) \<and> snd p = cut_short now a)
     \<or> (\<exists>cid name tc now te. x = Issue cid name (fst p) tc now te \<and> at_token (snd p) = fst p)"
proof (cases x)
  case (Issue cid name t tc now te)
  then show "p \<in> set (tokens (token_step H x s)) \<Longrightarrow> ?thesis" using in_tokens_issue by fastforce
next
  case (Revoke t now)
  then show "p \<in> set (tokens (token_step H x s)) \<Longrightarrow> ?thesis"
    using in_tokens_revoke [of p H t now s] dget_in [of "tokens s" t] by force
next
  case (Revoke_named pre cid now)
  show "p \<in> set (tokens (token_step H x s)) \<Longrightarrow> ?thesis"
  proof (cases rule: revoke_named_cases [of H pre cid now s])
    case (2 a)
    then show "p \<in> set (tokens (token_step H x s)) \<Longrightarrow> ?thesis"
      using Revoke_named in_tokens_revoke [of p H "at_token a" now s] dget_in [of "tokens s" "at_token a"] by force
  qed (simp add: Revoke_named)
next
  case (Refresh t c acc fr now tm tc)
  then show "p \<in> set (tokens (token_step H x s)) \<Longrightarrow> ?thesis"
    by (cases rule: refresh_cases [of H t c acc fr now tm tc s]) (auto simp: rotate_pair_sel)
qed (auto simp: validate_def validate_oauth_def issue_oauth_def prune_unknown_clients_def count_named_def
       list_named_def Let_def split_beta split: option.splits if_splits)

lemma unused_family_law: "unused_family f s \<Longrightarrow> family_law f E c s"
  by (force simp: unused_family_def all_tokens_def family_access_def family_refresh_def)

lemma dict_ok_dmap [simp]: "dict_ok (dmap f d) = dict_ok d"
  by simp

lemma dict_ok_rotate:
  "dict_ok (refresh_tokens s) \<Longrightarrow> dict_ok (refresh_tokens (snd (rotate_pair H t rt c acc fr now tm tc s)))"
  using rotate_pair_sel(3) [of H t rt c acc fr now tm tc s] by (auto simp: Let_def)

lemma dict_ok_revoke:
  assumes "dict_ok (tokens s)" "dict_ok (oauth_tokens s)" "dict_ok (refresh_tokens s)"
  shows "dict_ok (tokens (snd (revoke H t now s)))" "dict_ok (oauth_tokens (snd (revoke H t now s)))"
    "dict_ok (refresh_tokens (snd (revoke H t now s)))"
  using assms by (auto simp: revoke_def revoke_oauth_def Let_def split: option.splits)

text \<open>Every operation keeps the three tables dictionaries.\<close>

lemma dicts_step:
  assumes "dict_ok (tokens s)" "dict_ok (oauth_tokens s)" "dict_ok (refresh_tokens s)"
  shows "dict_ok (tokens (token_step H x s)) \<and> dict_ok (oauth_tokens (token_step H x s))
    \<and> dict_ok (refresh_tokens (token_step H x s))"
proof (cases x)
  case (Issue cid name t tc now te)
  then show ?thesis using assms by (simp add: issue_def count_named_def Let_def)
next
  case (Refresh t c acc fr now tm tc)
  then show ?thesis using assms
    by (cases rule: refresh_cases [of H t c acc fr now tm tc s])
       (auto simp: rotate_pair_sel(1,2) dict_ok_rotate simp del: dkeys_dmap)
next
  case (Revoke_named pre cid now)
  then show ?thesis using assms dict_ok_revoke [OF assms]
    by (cases rule: revoke_named_cases [of H pre cid now s]) auto
qed (use assms dict_ok_revoke [OF assms] in \<open>auto simp: issue_oauth_def prune_unknown_clients_def
       validate_def validate_oauth_def count_named_def list_named_def Let_def split_beta
       split: option.splits\<close>)

lemma tables_ok_step: "tables_ok s \<Longrightarrow> tables_ok (token_step H x s)"
proof -
  assume s: "tables_ok s"
  have "at_token a = t" if "(t, a) \<in> set (tokens (token_step H x s))" for t a
    using in_tokens_step [OF that] s by (force simp: tables_ok_def)
  with dicts_step [of s H x] s show ?thesis by (auto simp: tables_ok_def)
qed

lemma family_law_step:
  assumes all: "\<forall>f. \<exists>E c. family_law f E c s"
    and fresh: "case opens x of None \<Rightarrow> True | Some f \<Rightarrow> unused_family f s"
  shows "\<exists>E c. family_law f E c (token_step H x s)"
proof (cases "opens x = Some f")
  case True
  then obtain cid acc fr t0 t1 t2 where x: "x = Issue_oauth cid (Some f) acc fr t0 t1 t2"
    by (cases x) auto
  with fresh have "family_law f (t0 + of_int SESSION_LIFETIME) cid s" by (simp add: unused_family_law)
  then have "family_law f (t0 + of_int SESSION_LIFETIME) cid (token_step H x s)"
    by (rule fam.step_law) (simp add: x)
  then show ?thesis by blast
next
  case False
  from all obtain E c where "family_law f E c s" by blast
  moreover have "of_family f E c x" using False by (cases x) auto
  ultimately have "family_law f E c (token_step H x s)" by (rule fam.step_law)
  then show ?thesis by blast
qed

lemma wf_store_step:
  "wf_store s \<Longrightarrow> (case opens x of None \<Rightarrow> True | Some f \<Rightarrow> unused_family f s) \<Longrightarrow> wf_store (token_step H x s)"
  unfolding wf_store_def
  using tables_ok_step filed.step_law family_law_step by blast

lemma wf_store_run: "wf_store s \<Longrightarrow> fresh_run H xs s \<Longrightarrow> wf_store (token_run H xs s)"
  by (induction xs arbitrary: s) (auto intro: wf_store_step)

end
