(* ===== verification/Token_Ends.thy ===== *)
theory Token_Ends
  imports Token_Session
begin

text \<open>
  How a sign-in and a single token come to their end, over runs of any length: the
  absolute end of a family, reuse detection after a rotation, the finality of a
  revocation, and the cap on the named tokens of one client.
\<close>

subsection \<open>The end of a family\<close>

lemma issue_oauth_family_law:
  "unused_family f s \<Longrightarrow>
     family_law f (t0 + of_int SESSION_LIFETIME) c (snd (issue_oauth H c (Some f) acc fr t0 t1 t2 s))"
  by (rule fam.sign_in_law) (auto simp: unused_family_law)

lemma not_opening: "\<forall>x \<in> set ops. opens x \<noteq> Some f \<Longrightarrow> \<forall>x \<in> set ops. of_family f E c x"
proof
  fix x assume "\<forall>x \<in> set ops. opens x \<noteq> Some f" "x \<in> set ops"
  then show "of_family f E c x" by (cases x) auto
qed

lemma family_bearer_over:
  assumes "family_law f E c s" "dget (tokens s) tok = None" "dget (oauth_tokens s) (H tok) = Some a"
    "at_family_id a = Some f" "E < now"
  shows "fst (validate H tok now s) = None"
proof -
  have "at_expires_at a \<le> At E"
    using all_tokensD(1) [OF assms(1) dget_in [OF assms(3)]] assms(4) by (simp add: family_access_def)
  also have "\<dots> < At now" using assms(5) by simp
  finally show ?thesis using assms(2,3) by (simp add: validate_def validate_oauth_def at_expired_def)
qed

lemma unused_after_revoke [simp]: "unused_family f (revoke_family f s)"
  by (auto simp: unused_family_def)

lemma family_refresh_over:
  assumes law: "family_law f E c s" and rt: "dget (refresh_tokens s) (H tok) = Some rt"
    and f: "rt_family_id rt = f" and now: "E \<le> now"
  shows "refresh H tok cid acc fr now tm tc s =
    (if cid = c then (Inl (Expired f), revoke_family f s) else (Inl Invalid, s))"
proof -
  have "rt_client_id rt = c" "rt_family_expires_at rt = E"
    using all_tokensD(2) [OF law dget_in [OF rt]] f by (auto simp: family_refresh_def)
  then show ?thesis using rt f now by (auto simp: refresh_def)
qed

subsection \<open>Reuse of a rotated-out refresh token\<close>

definition family_dead :: "string \<Rightarrow> token_store \<Rightarrow> bool" where
  "family_dead f s \<longleftrightarrow> (\<forall>r \<in> set (dvals (refresh_tokens s)). rt_family_id r \<noteq> f)"

interpretation dead: token_law H "\<lambda>h a. True" "\<lambda>h r. rt_family_id r \<noteq> f" "\<lambda>x. opens x \<noteq> Some f" for H f
  by unfold_locales (auto simp: token_record_simps)

lemma family_dead_law: "family_dead f s = all_tokens (\<lambda>h a. True) (\<lambda>h r. rt_family_id r \<noteq> f) s"
  by (force simp: family_dead_def all_tokens_def)

text \<open>The token was rotated out at \<open>u\<close>, and its record is still there.\<close>

definition rotated_out :: "string \<Rightarrow> string \<Rightarrow> real \<Rightarrow> string \<Rightarrow> real \<Rightarrow> refresh_token \<Rightarrow> bool" where
  "rotated_out h f E c u r \<longleftrightarrow> rt_family_id r = f \<and> rt_client_id r = c \<and> rt_family_expires_at r = E
     \<and> rt_expires_at r = E \<and> rt_used r \<and> rt_used_at r = u \<and> rt_token_hash r = h"

definition spent :: "string \<Rightarrow> string \<Rightarrow> real \<Rightarrow> string \<Rightarrow> real \<Rightarrow> token_store \<Rightarrow> bool" where
  "spent h f E c u s \<longleftrightarrow>
     (\<exists>r. dget (refresh_tokens s) h = Some r \<and> rotated_out h f E c u r) \<or> family_dead f s"

text \<open>The operation draws no refresh token that hashes to \<open>h\<close>.\<close>

fun draws_refresh :: "(string \<Rightarrow> string) \<Rightarrow> token_op \<Rightarrow> string option" where
  "draws_refresh H (Issue_oauth cid fam acc fr t0 t1 t2) = Some (H fr)"
| "draws_refresh H (Refresh t c acc fr now tm tc) = Some (H fr)"
| "draws_refresh H _ = None"

text \<open>No other family comes to use the key.\<close>

interpretation keyed: token_law H "\<lambda>k a. True" "\<lambda>k r. k = h \<longrightarrow> rt_family_id r = f"
    "\<lambda>x. draws_refresh H x \<noteq> Some h" for H h f
  by unfold_locales (auto simp: token_record_simps)

lemma rotated_out_forget [simp]: "rotated_out h f E c u (forget_replay now r) = rotated_out h f E c u r"
  by (simp add: rotated_out_def)

lemma spent_keep:
  assumes "spent h f E c u s" "dict_ok (refresh_tokens s)" "refresh_tokens s' = dkeep K (refresh_tokens s)"
    and "\<And>r. rotated_out h f E c u r \<Longrightarrow> \<not> K r \<Longrightarrow> family_dead f s'"
  shows "spent h f E c u s'"
  using assms by (fastforce simp: spent_def family_dead_def dget_dkeep)

lemma spent_same: "spent h f E c u s \<Longrightarrow> refresh_tokens s' = refresh_tokens s \<Longrightarrow> spent h f E c u s'"
  by (simp add: spent_def family_dead_def)

lemma spent_cleanup:
  assumes "spent h f E c u s" "dict_ok (refresh_tokens s)" "family_law f E c s"
  shows "spent h f E c u (cleanup now s)"
proof -
  let ?s = "s\<lparr>refresh_tokens := dkeep (\<lambda>r. \<not> rt_expired now r) (refresh_tokens s)\<rparr>"
  have dead: "family_dead f ?s" if "E < now"
    using all_tokensD(2) [OF assms(3)] that
    by (force simp: family_dead_def family_refresh_def rt_expired_def)
  have "spent h f E c u ?s"
    by (rule spent_keep [OF assms(1,2)], simp, rule dead) (auto simp: rotated_out_def rt_expired_def)
  then show ?thesis
    by (force simp: spent_def family_dead_def in_dmap)
qed

text \<open>
  The invariant of the run: besides \<open>spent\<close> what \<open>wf_store\<close> says of the
  tables and of this family.
\<close>

definition spent_inv :: "string \<Rightarrow> string \<Rightarrow> real \<Rightarrow> string \<Rightarrow> real \<Rightarrow> token_store \<Rightarrow> bool" where
  "spent_inv h f E c u s \<longleftrightarrow> tables_ok s \<and> all_tokens filed_access filed_refresh s \<and> family_law f E c s
     \<and> all_tokens (\<lambda>k a. True) (\<lambda>k r. k = h \<longrightarrow> rt_family_id r = f) s \<and> spent h f E c u s"

text \<open>The table just before the cleanup that ends a rotation.\<close>

lemma rotate_pair_before_cleanup:
  assumes ok: "dict_ok (refresh_tokens s)" and law: "family_law f E c s"
    and rt: "dget (refresh_tokens s) (H t) = Some rt" "rt_client_id rt = c'"
  obtains g d where
    "refresh_tokens (snd (rotate_pair H t rt c' acc fr now tm tc s)) = refresh_tokens (cleanup tc (s\<lparr>refresh_tokens := d\<rparr>))"
    "dict_ok d" "family_law f E c (s\<lparr>refresh_tokens := d\<rparr>)"
    "H fr \<noteq> H t \<Longrightarrow> dget d (H t) = Some ((rotate now rt)\<lparr>rt_replay := Some g\<rparr>)"
    "\<And>k. k \<noteq> H t \<Longrightarrow> k \<noteq> H fr \<Longrightarrow> dget d k = dget (refresh_tokens s) k"
proof -
  obtain g where g: "refresh_tokens (snd (rotate_pair H t rt c' acc fr now tm tc s)) =
     dmap (forget_replay tc) (dkeep (\<lambda>r. \<not> rt_expired tc r)
       (let d = dset (H fr) (new_refresh H c' (rt_family_id rt) (rt_family_expires_at rt)
                               (refresh_token_ttl s) fr tm)
                  (dset (H t) (rotate now rt) (refresh_tokens s))
        in if H fr = H t then d else dset (H t) ((rotate now rt)\<lparr>rt_replay := Some g\<rparr>) d))"
    (is "_ = dmap _ (dkeep _ ?d)") using rotate_pair_sel(3) by blast
  have old: "family_refresh f E c k q" if "(k, q) \<in> set (refresh_tokens s)" for k q
    using law that by (auto simp: all_tokens_def)
  have "family_refresh f E c k q" if "(k, q) \<in> set ?d" for k q
    using that old dget_in [OF rt(1)] rt(2)
    by (force simp: Let_def family_refresh_def token_record_simps split: if_splits dest!: in_dset)
  then have "family_law f E c (s\<lparr>refresh_tokens := ?d\<rparr>)" using law by (auto simp: all_tokens_def)
  then show ?thesis using that [of ?d g] g ok by (simp add: Let_def)
qed

lemma spent_rotate:
  assumes inv: "spent_inv h f E c u s" and rt: "dget (refresh_tokens s) (H t) = Some rt" "\<not> rt_used rt"
    and c: "rt_client_id rt = c'" and fr: "H fr \<noteq> h"
  shows "spent h f E c u (snd (rotate_pair H t rt c' acc fr now tm tc s))"
proof (cases "family_dead f s")
  case True
  then have "all_tokens (\<lambda>h a. True) (\<lambda>h r. rt_family_id r \<noteq> f) s" by (simp add: family_dead_law)
  from dead.rotate_pair_law [where f = f and H = H, OF this rt(1) c, of acc fr now tm tc] show ?thesis
    by (simp add: spent_def family_dead_law)
next
  case False
  with inv obtain r where r: "dget (refresh_tokens s) h = Some r" "rotated_out h f E c u r"
    by (auto simp: spent_inv_def spent_def)
  with rt have "H t \<noteq> h" by (auto simp: rotated_out_def)
  have ok: "dict_ok (refresh_tokens s)" "family_law f E c s" using inv by (auto simp: spent_inv_def tables_ok_def)
  obtain g d where d: "refresh_tokens (snd (rotate_pair H t rt c' acc fr now tm tc s)) =
      refresh_tokens (cleanup tc (s\<lparr>refresh_tokens := d\<rparr>))"
    "dict_ok d" "family_law f E c (s\<lparr>refresh_tokens := d\<rparr>)"
    "\<And>k. k \<noteq> H t \<Longrightarrow> k \<noteq> H fr \<Longrightarrow> dget d k = dget (refresh_tokens s) k"
    using rotate_pair_before_cleanup [where H = H, OF ok rt(1) c] by blast
  have "spent h f E c u (s\<lparr>refresh_tokens := d\<rparr>)" using r d(4) [of h] \<open>H t \<noteq> h\<close> fr by (auto simp: spent_def)
  then have "spent h f E c u (cleanup tc (s\<lparr>refresh_tokens := d\<rparr>))" using d(2,3) by (intro spent_cleanup) simp_all
  then show ?thesis by (rule spent_same) (rule d(1))
qed

text \<open>A rotation makes its token a spent one.\<close>

lemma spent_by_rotation:
  assumes wf: "wf_store s" and rt: "dget (refresh_tokens s) (H t) = Some rt" "rt_client_id rt = c"
    and s1: "s1 = snd (rotate_pair H t rt c acc fr now tm tc s)" and step: "s1 = snd (refresh H t c acc fr now tm tc s)"
    and fr: "H fr \<noteq> H t"
  shows "spent_inv (H t) (rt_family_id rt) (rt_family_expires_at rt) c now s1"
proof -
  let ?f = "rt_family_id rt" and ?E = "rt_family_expires_at rt"
  have filed: "all_tokens filed_access filed_refresh s" and tab: "tables_ok s" "dict_ok (refresh_tokens s)"
    using wf by (auto simp: wf_store_def tables_ok_def)
  obtain E' c' where "family_law ?f E' c' s" using wf unfolding wf_store_def by blast
  moreover from this have "E' = ?E" "c' = c"
    using all_tokensD(2) [OF _ dget_in [OF rt(1)]] rt(2) by (fastforce simp: family_refresh_def)+
  ultimately have law: "family_law ?f ?E c s" by simp
  obtain g d where d: "refresh_tokens s1 = refresh_tokens (cleanup tc (s\<lparr>refresh_tokens := d\<rparr>))"
    "dict_ok d" "family_law ?f ?E c (s\<lparr>refresh_tokens := d\<rparr>)"
    "H fr \<noteq> H t \<Longrightarrow> dget d (H t) = Some ((rotate now rt)\<lparr>rt_replay := Some g\<rparr>)"
    unfolding s1 using rotate_pair_before_cleanup [where H = H, OF tab(2) law rt] by blast
  have "rt_token_hash rt = H t"
    using all_tokensD(2) [OF filed dget_in [OF rt(1)]] by (simp add: filed_refresh_def)
  then have "rotated_out (H t) ?f ?E c now ((rotate now rt)\<lparr>rt_replay := Some g\<rparr>)"
    using rt(2) by (simp add: rotated_out_def rotate_def)
  with d(4) fr have "spent (H t) ?f ?E c now (s\<lparr>refresh_tokens := d\<rparr>)" by (simp add: spent_def)
  then have "spent (H t) ?f ?E c now (cleanup tc (s\<lparr>refresh_tokens := d\<rparr>))"
    using d(2,3) by (intro spent_cleanup) simp_all
  then have "spent (H t) ?f ?E c now s1" by (rule spent_same) (rule d(1))
  moreover have "r = rt" if "(H t, r) \<in> set (refresh_tokens s)" for r
    using dget_ok [OF tab(2), of "H t" r] rt(1) that by simp
  then have "all_tokens (\<lambda>k a. True) (\<lambda>k r. k = H t \<longrightarrow> rt_family_id r = ?f) s"
    by (auto simp: all_tokens_def)
  then have "all_tokens (\<lambda>k a. True) (\<lambda>k r. k = H t \<longrightarrow> rt_family_id r = ?f) s1"
    unfolding step by (rule keyed.refresh_law) (simp add: fr)
  moreover have "family_law ?f ?E c s1" unfolding step by (rule fam.refresh_law [OF law]) simp
  moreover have "tables_ok s1" using tables_ok_step [OF tab(1), of H "Refresh t c acc fr now tm tc"] step by simp
  moreover have "all_tokens filed_access filed_refresh s1" unfolding step by (rule filed.refresh_law [OF filed]) simp
  ultimately show ?thesis by (simp add: spent_inv_def)
qed

lemma spent_drop_idle:
  assumes inv: "spent_inv h f E c u s" and rt: "dget (refresh_tokens s) k = Some rt" "\<not> rt_used rt"
  shows "spent h f E c u (drop_refresh (rt_token_hash rt) s)"
proof -
  have "rt_token_hash rt = k"
    using inv dget_in [OF rt(1)] by (force simp: spent_inv_def all_tokens_def filed_refresh_def)
  moreover have "h \<noteq> k" if "dget (refresh_tokens s) h = Some r" "rotated_out h f E c u r" for r
    using that rt by (auto simp: rotated_out_def)
  moreover have "spent h f E c u s" using inv by (simp add: spent_inv_def)
  ultimately show ?thesis by (auto simp: spent_def family_dead_def)
qed

lemma spent_sign_in:
  assumes inv: "spent_inv h f E c u s" and fr: "H fr \<noteq> h" and fam: "fam \<noteq> Some f"
  shows "spent h f E c u (snd (issue_oauth H c' fam acc fr t0 t1 t2 s))"
proof -
  let ?m = "snd (mint_oauth H c' fam (t0 + of_int SESSION_LIFETIME) acc fr t1 s)"
  have "spent h f E c u s" using inv by (simp add: spent_inv_def)
  then have "spent h f E c u ?m"
  proof (cases fam)
    case (Some g)
    with \<open>spent h f E c u s\<close> fr fam show ?thesis
      by (auto simp: spent_def family_dead_def new_refresh_def dest!: in_dset)
  qed (simp add: spent_same)
  moreover have "dict_ok (refresh_tokens ?m)"
    using inv by (auto simp: spent_inv_def tables_ok_def split: option.splits)
  moreover have "family_law f E c ?m"
    using inv fam by (intro all_tokens_mint)
      (auto simp: spent_inv_def family_access_def family_refresh_def token_record_simps)
  ultimately show ?thesis by (simp add: issue_oauth_def split_beta spent_cleanup)
qed

lemma revoke_refresh_tokens:
  "refresh_tokens (snd (revoke H t now s)) = refresh_tokens s
   \<or> (\<exists>g. refresh_tokens (snd (revoke H t now s)) = dkeep (\<lambda>r. rt_family_id r \<noteq> g) (refresh_tokens s))"
  by (auto simp: revoke_def revoke_oauth_def Let_def split: option.splits)

lemma spent_revoke:
  assumes "spent_inv h f E c u s"
  shows "spent h f E c u (snd (revoke H t now s))"
proof -
  have sp: "spent h f E c u s" "dict_ok (refresh_tokens s)"
    using assms by (auto simp: spent_inv_def tables_ok_def)
  consider "refresh_tokens (snd (revoke H t now s)) = refresh_tokens s"
    | g where "refresh_tokens (snd (revoke H t now s)) = dkeep (\<lambda>r. rt_family_id r \<noteq> g) (refresh_tokens s)"
    using revoke_refresh_tokens [of H t now s] by blast
  then show ?thesis
  proof cases
    case (2 g)
    then show ?thesis
      by (rule spent_keep [OF sp]) (auto simp: rotated_out_def family_dead_def 2)
  qed (rule spent_same [OF sp(1)])
qed

lemma spent_revoke_clients:
  assumes inv: "spent_inv h f E c u s"
    and rts: "refresh_tokens s' = dkeep (\<lambda>r. rt_client_id r \<notin> C) (refresh_tokens s)"
  shows "spent h f E c u s'"
proof (rule spent_keep [OF _ _ rts])
  fix r assume "rotated_out h f E c u r" "\<not> rt_client_id r \<notin> C"
  then have "c \<in> C" by (simp add: rotated_out_def)
  then show "family_dead f s'"
    using inv by (force simp: family_dead_def rts spent_inv_def all_tokens_def family_refresh_def)
qed (use inv in \<open>auto simp: spent_inv_def tables_ok_def\<close>)

lemma spent_revoke_family:
  assumes "spent_inv h f E c u s"
  shows "spent h f E c u (revoke_family g s)"
  by (rule spent_keep [of _ _ _ _ _ s])
     (use assms in \<open>auto simp: spent_inv_def tables_ok_def rotated_out_def family_dead_def\<close>)

lemma spent_step:
  assumes inv: "spent_inv h f E c u s" and new: "opens x \<noteq> Some f" "draws_refresh H x \<noteq> Some h"
  shows "spent h f E c u (token_step H x s)"
proof -
  have sp: "spent h f E c u s" and ok: "dict_ok (refresh_tokens s)" and law: "family_law f E c s"
    using inv by (auto simp: spent_inv_def tables_ok_def)
  show ?thesis
  proof (cases x)
    case (Issue cid name t tc now te)
    have "spent h f E c u (cleanup te s')"
      if "refresh_tokens s' = refresh_tokens s \<or> refresh_tokens s' = refresh_tokens (cleanup tc s)"
        "oauth_tokens s' = oauth_tokens s \<or> oauth_tokens s' = oauth_tokens (cleanup tc s)" for s'
    proof (rule spent_cleanup)
      show "spent h f E c u s'" using that(1) spent_same [OF sp] spent_same [OF spent_cleanup [OF sp ok law]] by blast
      show "dict_ok (refresh_tokens s')" using that(1) ok by (auto simp del: dkeys_dmap)
      show "family_law f E c s'" using that law fam.cleanup_law [OF law, of tc] by (auto simp: all_tokens_def)
    qed
    moreover have "spent h f E c u (cleanup tc s)" by (rule spent_cleanup [OF sp ok law])
    ultimately show ?thesis using Issue by (simp add: issue_def count_named_def Let_def)
  next
    case (Refresh t c' acc fr now tm tc)
    show ?thesis
    proof (cases rule: refresh_cases [of H t c' acc fr now tm tc s])
      case (idle rt)
      then show ?thesis using Refresh spent_drop_idle [OF inv] by simp
    next
      case (rotated rt)
      then show ?thesis using Refresh new spent_rotate [where H = H, OF inv rotated(1,3,2)] by simp
    qed (use Refresh sp spent_revoke_family [OF inv] in simp_all)
  next
    case (Validate t now)
    then show ?thesis using spent_same [OF sp]
      by (auto simp: validate_def validate_oauth_def Let_def split: option.splits)
  next
    case (Revoke_named pre cid now)
    then show ?thesis using sp spent_revoke [OF inv]
      by (cases rule: revoke_named_cases [of H pre cid now s]) auto
  next
    case (Revoke_client cid)
    then show ?thesis using spent_revoke_clients [OF inv, of "token_step H x s" "{cid}"] by simp
  next
    case (Prune known)
    then show ?thesis
      by (simp add: prune_unknown_clients_def Let_def del: map_map)
         (rule spent_revoke_clients [OF inv revoke_clients_sel(3)])
  next
    case (Issue_oauth c' fam acc fr t0 t1 t2)
    then show ?thesis using new spent_sign_in [OF inv] by simp
  next
    case (Set_writable w)
    then show ?thesis using spent_same [OF sp] by simp
  qed (simp_all add: spent_revoke [OF inv] spent_revoke_family [OF inv] count_named_def list_named_def Let_def
         spent_cleanup [OF sp ok law])
qed

lemma spent_inv_run:
  "spent_inv h f E c u s \<Longrightarrow> \<forall>x \<in> set ops. opens x \<noteq> Some f \<and> draws_refresh H x \<noteq> Some h \<Longrightarrow>
     spent_inv h f E c u (token_run H ops s)"
proof (rule token_run_invariant)
  fix x s assume inv: "spent_inv h f E c u s" and x: "opens x \<noteq> Some f \<and> draws_refresh H x \<noteq> Some h"
  have "of_family f E c x" using x by (cases x) auto
  then have "family_law f E c (token_step H x s)" using inv fam.step_law by (simp add: spent_inv_def)
  moreover have "all_tokens (\<lambda>k a. True) (\<lambda>k r. k = h \<longrightarrow> rt_family_id r = f) (token_step H x s)"
    using inv x by (intro keyed.step_law) (simp_all add: spent_inv_def)
  ultimately show "spent_inv h f E c u (token_step H x s)"
    using inv x spent_step [OF inv] tables_ok_step filed.step_law unfolding spent_inv_def by blast
qed

text \<open>A second presentation of a spent token, its grace over.\<close>

lemma spent_replayed:
  assumes inv: "spent_inv h f E c u s" and h: "H tok = h" and late: "now - u > REFRESH_REUSE_GRACE"
  shows "(\<exists>e. fst (refresh H tok c acc fr now tm tc s) = Inl e)
     \<and> family_dead f (snd (refresh H tok c acc fr now tm tc s))"
proof (cases "\<exists>r. dget (refresh_tokens s) h = Some r \<and> rotated_out h f E c u r")
  case True
  then obtain r where r: "dget (refresh_tokens s) (H tok) = Some r" "rotated_out h f E c u r"
    using h by auto
  then show ?thesis using late
    by (cases "now < E") (auto simp: refresh_def rotated_out_def family_dead_def split: option.splits)
next
  case False
  then have dead: "family_dead f s" using inv by (auto simp: spent_inv_def spent_def)
  have "dget (refresh_tokens s) h = None"
  proof (rule ccontr)
    assume "dget (refresh_tokens s) h \<noteq> None"
    then obtain r where "(h, r) \<in> set (refresh_tokens s)" by (auto dest: dget_in)
    with inv dead show False by (force simp: spent_inv_def all_tokens_def family_dead_def)
  qed
  with dead h show ?thesis by (simp add: refresh_def)
qed

lemma rotate_pair_keeps_grant:
  assumes "dict_ok (refresh_tokens s)" "H fr \<noteq> H t" "tc \<le> rt_family_expires_at rt" "tc - now \<le> REFRESH_REUSE_GRACE"
  shows "dget (refresh_tokens (snd (rotate_pair H t rt c acc fr now tm tc s))) (H t) =
    Some ((rotate now rt)\<lparr>rt_replay := Some (fst (rotate_pair H t rt c acc fr now tm tc s))\<rparr>)"
  using assms
  by (simp add: rotate_pair_def Let_def split_beta dget_dkeep rt_expired_def forget_replay_def rotate_def)

subsection \<open>The end of a revoked token\<close>

fun draws_token :: "(string \<Rightarrow> string) \<Rightarrow> string \<Rightarrow> token_op \<Rightarrow> bool" where
  "draws_token H tok (Issue cid name t tc now te) \<longleftrightarrow> t = tok"
| "draws_token H tok (Issue_oauth cid fam acc fr t0 t1 t2) \<longleftrightarrow> H acc = H tok"
| "draws_token H tok (Refresh t c acc fr now tm tc) \<longleftrightarrow> H acc = H tok"
| "draws_token H tok _ \<longleftrightarrow> False"

interpretation ending: token_law H "\<lambda>h a. h = H tok \<longrightarrow> at_expires_at a \<le> At D" "\<lambda>h r. True"
    "\<lambda>x. \<not> draws_token H tok x" for H tok D
  by unfold_locales (auto simp: token_record_simps intro: order_trans [OF cut_short_le(1)])

text \<open>Every record the store has of the token ends by \<open>D\<close>.\<close>

definition ends_by :: "(string \<Rightarrow> string) \<Rightarrow> string \<Rightarrow> real \<Rightarrow> token_store \<Rightarrow> bool" where
  "ends_by H tok D s \<longleftrightarrow> (\<forall>a. (tok, a) \<in> set (tokens s) \<longrightarrow> at_expires_at a \<le> At D)
     \<and> all_tokens (\<lambda>h a. h = H tok \<longrightarrow> at_expires_at a \<le> At D) (\<lambda>h r. True) s"

lemma ends_by_step:
  assumes "ends_by H tok D s" "\<not> draws_token H tok x"
  shows "ends_by H tok D (token_step H x s)"
proof -
  have "at_expires_at a \<le> At D" if "(tok, a) \<in> set (tokens (token_step H x s))" for a
  proof -
    from in_tokens_step [OF that] assms(2)
    have "(tok, a) \<in> set (tokens s) \<or> (\<exists>now b. (tok, b) \<in> set (tokens s) \<and> a = cut_short now b)"
      by auto
    with assms(1) show ?thesis by (auto simp: ends_by_def intro: order_trans [OF cut_short_le(1)])
  qed
  moreover have "all_tokens (\<lambda>h a. h = H tok \<longrightarrow> at_expires_at a \<le> At D) (\<lambda>h r. True) (token_step H x s)"
    using assms by (intro ending.step_law) (auto simp: ends_by_def)
  ultimately show ?thesis by (simp add: ends_by_def)
qed

lemma ends_by_run:
  "ends_by H tok D s \<Longrightarrow> \<forall>x \<in> set ops. \<not> draws_token H tok x \<Longrightarrow> ends_by H tok D (token_run H ops s)"
  by (rule token_run_invariant [where A = "\<lambda>x. \<not> draws_token H tok x"]) (auto intro: ends_by_step)

lemma ends_by_refused:
  assumes "ends_by H tok D s" "D < now"
  shows "fst (validate H tok now s) = None"
proof -
  have late: "at_expired now a" if "at_expires_at a \<le> At D" for a
    using le_less_trans [OF that, of "At now"] assms(2) by (simp add: at_expired_def)
  show ?thesis using assms(1) late
    by (auto simp: validate_def validate_oauth_def ends_by_def all_tokens_def split: option.splits dest!: dget_in)
qed

lemma revoke_ends_by:
  assumes ok: "tables_ok s" and one: "dget (tokens s) tok = None \<or> dget (oauth_tokens s) (H tok) = None"
    and rev: "revoke H tok now s = (True, s')"
  shows "ends_by H tok (now + REVOKE_GRACE_SECONDS) s'"
proof (cases "dget (tokens s) tok")
  case None
  then have "(tok, a) \<notin> set (tokens s)" for a by (rule dget_None_in)
  with None rev ok show ?thesis
    by (auto simp: revoke_def revoke_oauth_def Let_def ends_by_def all_tokens_def tables_ok_def in_dset_ok cut_short_le
             split: option.splits)
next
  case (Some a)
  with one have "(H tok, b) \<notin> set (oauth_tokens s)" for b
    using dget_None_in [of "tokens s"] dget_None_in [of "oauth_tokens s"] by auto
  with Some rev ok show ?thesis
    by (auto simp: revoke_def Let_def ends_by_def all_tokens_def tables_ok_def in_dset_ok cut_short_le split: if_splits)
qed

subsection \<open>The cap on named tokens\<close>

abbreviation named_tokens :: "string \<Rightarrow> token_store \<Rightarrow> nat" where
  "named_tokens cid s \<equiv> dcount (is_named_of cid) (tokens s)"

lemma is_named_of_record [simp]:
  "is_named_of c \<lparr>at_token = t, at_client_id = cid, at_expires_at = e, at_name = n, at_created_at = k, at_family_id = f\<rparr>
     \<longleftrightarrow> cid = c \<and> n \<noteq> None"
  by (simp add: is_named_of_def)

lemma named_issue:
  assumes "named_tokens c s \<le> NAMED_TOKEN_CAP"
  shows "named_tokens c (snd (issue cid name t tc now te s)) \<le> NAMED_TOKEN_CAP"
proof -
  let ?C = "is_named_of c"
  have le: "dcount ?C (dkeep K (dset t a d)) \<le> NAMED_TOKEN_CAP"
    if "dcount ?C d < NAMED_TOKEN_CAP \<or> \<not> ?C a" "dcount ?C d \<le> NAMED_TOKEN_CAP" for K a d
    using that dcount_dkeep_le [of ?C K "dset t a d"] dcount_dset_le [of ?C t a d] dcount_dset_not [of ?C a t d]
    by linarith
  have clean: "dcount ?C (dkeep K (tokens s)) \<le> NAMED_TOKEN_CAP" for K
    using assms dcount_dkeep_le [of ?C K "tokens s"] by linarith
  show ?thesis
  proof (cases name)
    case None
    then show ?thesis using assms by (simp add: issue_def Let_def) (rule le, simp_all)
  next
    case (Some n)
    then show ?thesis using clean
      by (simp add: issue_def Let_def count_named_def) (intro conjI impI le, auto)
  qed
qed

lemma named_revoke:
  "dict_ok (tokens s) \<Longrightarrow> named_tokens c (snd (revoke H t now s)) = named_tokens c s"
  by (auto simp: revoke_def revoke_oauth_def Let_def is_named_of_def split: option.splits
           intro!: dcount_dset_same)

lemma named_cap_step:
  assumes "tables_ok s" "named_tokens c s \<le> NAMED_TOKEN_CAP"
  shows "named_tokens c (token_step H x s) \<le> NAMED_TOKEN_CAP"
proof -
  have keep: "dcount P (dkeep K (tokens s)) \<le> NAMED_TOKEN_CAP" "dcount P (dpop k (tokens s)) \<le> NAMED_TOKEN_CAP"
    if "dcount P (tokens s) \<le> NAMED_TOKEN_CAP" for K k P
    using that dcount_dkeep_le [of P K "tokens s"] dcount_dpop_le [of P k "tokens s"] by linarith+
  have ok: "dict_ok (tokens s)" using assms(1) by (simp add: tables_ok_def)
  show ?thesis
  proof (cases x)
    case (Refresh t c' acc fr now tm tc)
    then show ?thesis using assms(2) keep
      by (cases rule: refresh_cases [of H t c' acc fr now tm tc s]) (auto simp: rotate_pair_sel)
  next
    case (Revoke_named pre cid now)
    then show ?thesis using assms(2) named_revoke [OF ok]
      by (cases rule: revoke_named_cases [of H pre cid now s]) auto
  qed (use assms(2) keep in \<open>auto simp: named_issue named_revoke [OF ok] issue_oauth_def prune_unknown_clients_def
         validate_def validate_oauth_def count_named_def list_named_def Let_def split_beta
         split: option.splits\<close>)
qed

lemma named_cap_run:
  "tables_ok s \<Longrightarrow> named_tokens c s \<le> NAMED_TOKEN_CAP \<Longrightarrow> named_tokens c (token_run H xs s) \<le> NAMED_TOKEN_CAP"
  by (induction xs arbitrary: s) (auto intro: named_cap_step tables_ok_step)

end
