(* ===== verification/Token_File.thy ===== *)
theory Token_File
  imports Token_Session
begin

text \<open>
  The SQLite file of the token store: the start-up migration bounds every row and changes
  nothing on a file that the current code wrote, and while the file takes every write it
  mirrors the tables in memory, so that a restart never brings back a token.
\<close>

subsection \<open>The migration\<close>

definition bounded_rows :: "token_db \<Rightarrow> bool" where
  "bounded_rows d \<longleftrightarrow>
     (\<forall>r \<in> set (dvals (refresh_rows d)). \<exists>e. rr_family_expires_at r = Some e \<and> rr_expires_at r \<le> e)
     \<and> (\<forall>a \<in> set (dvals (oauth_rows d)). \<forall>f e. at_family_id a = Some f \<longrightarrow>
           e \<in> set (family_ends (refresh_rows d) f) \<longrightarrow> at_expires_at a \<le> At e)"

lemma dmap_id: "(\<And>v. v \<in> set (dvals d) \<Longrightarrow> f v = v) \<Longrightarrow> dmap f d = d"
  by (induction d) auto

lemma set_family_ends:
  "set (family_ends rows f) = {e. \<exists>r \<in> set (dvals rows). rr_family_id r = f \<and> rr_family_expires_at r = Some e}"
  by (auto simp: family_ends_def split: option.splits if_splits)

lemma bound_legacy_id:
  assumes "bounded_rows d"
  shows "bound_legacy_sessions d = d"
proof -
  have rows: "dmap cap_row (dmap (stamp_row (refresh_rows d)) (refresh_rows d)) = refresh_rows d"
  proof -
    have "dmap (stamp_row (refresh_rows d)) (refresh_rows d) = refresh_rows d"
      by (rule dmap_id) (use assms in \<open>auto simp: bounded_rows_def stamp_row_def\<close>)
    moreover have "dmap cap_row (refresh_rows d) = refresh_rows d"
      by (rule dmap_id) (use assms in \<open>fastforce simp: bounded_rows_def cap_row_def min_def\<close>)
    ultimately show ?thesis by simp
  qed
  have "cap_access (refresh_rows d) a = a" if "a \<in> set (dvals (oauth_rows d))" for a
  proof (cases "at_family_id a")
    case (Some f)
    show ?thesis
    proof (cases "family_ends (refresh_rows d) f")
      case (Cons e es)
      then have "Min (set (e # es)) \<in> set (family_ends (refresh_rows d) f)"
        using Min_in [of "set (e # es)"] by simp
      with that assms Some have "at_expires_at a \<le> At (Min (set (e # es)))"
        unfolding bounded_rows_def by blast
      with Cons Some show ?thesis by (simp add: cap_access_def min_def)
    qed (simp add: cap_access_def Some)
  qed (simp add: cap_access_def)
  then have "dmap (cap_access (refresh_rows d)) (oauth_rows d) = oauth_rows d" by (rule dmap_id)
  with rows show ?thesis by (simp add: bound_legacy_sessions_def Let_def)
qed

lemma cap_access_le:
  "at_family_id (cap_access rows a) = Some f \<Longrightarrow> e \<in> set (family_ends rows f) \<Longrightarrow>
     at_expires_at (cap_access rows a) \<le> At e"
proof -
  assume f: "at_family_id (cap_access rows a) = Some f" and e: "e \<in> set (family_ends rows f)"
  have fam: "at_family_id a = Some f" using f by (auto simp: cap_access_def split: option.splits list.splits)
  from e obtain x xs where es: "family_ends rows f = x # xs" by (cases "family_ends rows f") auto
  have "at_expires_at (cap_access rows a) \<le> At (Min (set (x # xs)))"
    by (simp add: cap_access_def fam es)
  also have "\<dots> \<le> At e" using e es by (simp add: Min_le_iff)
  finally show ?thesis .
qed

lemma in_dvals_dmap: "v \<in> set (dvals (dmap f d)) \<longleftrightarrow> (\<exists>u \<in> set (dvals d). v = f u)"
  by (induction d) auto

lemma stamped_and_capped:
  "\<exists>e. rr_family_expires_at (cap_row (stamp_row rows r)) = Some e \<and> rr_expires_at (cap_row (stamp_row rows r)) \<le> e"
  by (simp add: cap_row_def stamp_row_def split: option.splits)

lemma bounded_after_migration: "bounded_rows (bound_legacy_sessions d)"
  unfolding bounded_rows_def
proof (intro conjI ballI allI impI)
  fix r assume "r \<in> set (dvals (refresh_rows (bound_legacy_sessions d)))"
  then show "\<exists>e. rr_family_expires_at r = Some e \<and> rr_expires_at r \<le> e"
    using stamped_and_capped by (force simp: bound_legacy_sessions_def Let_def in_dvals_dmap simp del: set_map)
next
  fix a f e assume "a \<in> set (dvals (oauth_rows (bound_legacy_sessions d)))" "at_family_id a = Some f"
    "e \<in> set (family_ends (refresh_rows (bound_legacy_sessions d)) f)"
  then show "at_expires_at a \<le> At e"
    by (auto simp: bound_legacy_sessions_def Let_def in_dvals_dmap cap_access_le simp del: set_map)
qed

lemma family_first_le:
  assumes "r \<in> set (dvals rows)"
  shows "family_first rows (rr_family_id r) \<le> rr_created_at r"
proof -
  have "rr_created_at r \<in> set [rr_created_at q. q \<leftarrow> dvals rows, rr_family_id q = rr_family_id r]"
    using assms by force
  then show ?thesis by (simp add: family_first_def)
qed

subsection \<open>The mirror\<close>

definition mirrors :: "token_db \<Rightarrow> token_store \<Rightarrow> bool" where
  "mirrors d s \<longleftrightarrow> refresh_rows d = dmap row_of (refresh_tokens s)
     \<and> dict_ok (oauth_rows d) \<and> set (oauth_rows d) \<subseteq> set (oauth_tokens s)
     \<and> dict_ok (named_rows d) \<and> set (named_rows d) \<subseteq> set (tokens s)
     \<and> (\<forall>a \<in> set (dvals (named_rows d)). at_name a \<noteq> None)"

definition mirrored :: "token_store \<Rightarrow> bool" where
  "mirrored s \<longleftrightarrow> tables_ok s \<and> db_writable s \<and> (\<exists>d. db s = Some d \<and> mirrors d s)"

lemma mirroredE:
  assumes "mirrored s"
  obtains d where "db s = Some d" "db_writable s" "mirrors d s" "tables_ok s"
  using assms by (auto simp: mirrored_def)

lemma db_write_some: "db s = Some d \<Longrightarrow> db_writable s \<Longrightarrow> db_write f s = s\<lparr>db := Some (f d)\<rparr>"
  by (simp add: db_write_def)

lemma dmap_dset: "dmap f (dset k v d) = dset k (f v) (dmap f d)"
  by (induction d) auto

lemma dmap_dpop: "dmap f (dpop k d) = dpop k (dmap f d)"
  by (induction d) auto

lemma dmap_dkeep: "dmap f (dkeep (\<lambda>v. P (f v)) d) = dkeep P (dmap f d)"
  by (induction d) auto

lemma dmap_dmap [simp]: "dmap f (dmap g d) = dmap (\<lambda>v. f (g v)) d"
  by (induction d) auto

lemma dmap_drop_keys: "dmap f (drop_keys ks d) = drop_keys ks (dmap f d)"
  by (induction d) (auto simp: drop_keys_def)

lemma row_of_sel [simp]:
  "rr_family_id (row_of r) = rt_family_id r" "rr_client_id (row_of r) = rt_client_id r"
  "rr_expires_at (row_of r) = rt_expires_at r" "rr_family_expires_at (row_of r) = Some (rt_family_expires_at r)"
  "row_of (forget_replay now r) = row_of r" "row_of (r\<lparr>rt_replay := g\<rparr>) = row_of r"
  by (simp_all add: row_of_def)

lemma subset_dset: "set d' \<subseteq> set d \<Longrightarrow> dict_ok d \<Longrightarrow> dict_ok d' \<Longrightarrow> set (dset k v d') \<subseteq> set (dset k v d)"
  by (auto simp: in_dset_ok)

lemma mirrored_cleanup: "mirrored s \<Longrightarrow> mirrored (cleanup now s)"
proof (elim mirroredE)
  fix d assume d: "db s = Some d" and w: "db_writable s" and m: "mirrors d s" and ok: "tables_ok s"
  let ?n = "dwhere (\<lambda>a. at_expired now a \<and> at_name a \<noteq> None) (tokens s)"
  let ?o = "dwhere (at_expired now) (oauth_tokens s)"
  let ?r = "dwhere (rt_expired now) (refresh_tokens s)"
  let ?d = "d\<lparr>named_rows := drop_keys ?n (named_rows d), oauth_rows := drop_keys ?o (oauth_rows d),
    refresh_rows := drop_keys ?r (refresh_rows d)\<rparr>"
  have db: "db (cleanup now s) = Some ?d" "db_writable (cleanup now s)"
    by (simp_all add: cleanup_def cleanup_named_def cleanup_oauth_def cleanup_refresh_def Let_def db_write_def d w)
  have "drop_keys ?r (refresh_rows d) = dmap row_of (dkeep (\<lambda>r. \<not> rt_expired now r) (refresh_tokens s))"
    using m ok drop_keys_dwhere [of "refresh_tokens s" "rt_expired now"]
    by (simp add: mirrors_def tables_ok_def dmap_drop_keys [symmetric])
  moreover have "set (drop_keys ?o (oauth_rows d)) \<subseteq> set (dkeep (\<lambda>a. \<not> at_expired now a) (oauth_tokens s))"
    using m by (auto simp: mirrors_def in_dwhere)
  moreover have "set (drop_keys ?n (named_rows d)) \<subseteq> set (dkeep (\<lambda>a. \<not> at_expired now a) (tokens s))"
    using m by (fastforce simp: mirrors_def in_dwhere)
  ultimately have "mirrors ?d (cleanup now s)"
    using m by (auto simp: mirrors_def)
  moreover have "tables_ok (cleanup now s)"
    using tables_ok_step [OF ok, of "\<lambda>t. t" "Count_named [] now"] by (simp add: count_named_def Let_def)
  ultimately show "mirrored (cleanup now s)" using db by (auto simp: mirrored_def)
qed

text \<open>Statements that select rows by a column take the same rows from file and memory.\<close>

lemma mirrors_keep:
  assumes "mirrors d s" "refresh_tokens s' = dkeep (\<lambda>r. Q (row_of r)) (refresh_tokens s)"
    "oauth_tokens s' = dkeep P (oauth_tokens s)" "tokens s' = tokens s"
  shows "mirrors (d\<lparr>refresh_rows := dkeep Q (refresh_rows d), oauth_rows := dkeep P (oauth_rows d)\<rparr>) s'"
  using assms by (auto simp: mirrors_def dmap_dkeep)

lemma mirroredI:
  "db s = Some d \<Longrightarrow> db_writable s \<Longrightarrow> mirrors d s \<Longrightarrow> tables_ok s \<Longrightarrow> mirrored s"
  by (auto simp: mirrored_def)

lemma mirrors_other:
  "mirrors d s \<Longrightarrow> refresh_tokens s' = refresh_tokens s \<Longrightarrow> oauth_tokens s' = oauth_tokens s \<Longrightarrow>
     tokens s' = tokens s \<Longrightarrow> mirrors d s'"
  by (simp add: mirrors_def)

lemma mirrored_mint:
  assumes "mirrored s"
  shows "mirrored (snd (mint_oauth H c fam e acc fr now s))"
proof -
  obtain d where d: "db s = Some d" "db_writable s" "mirrors d s" "tables_ok s" using assms by (rule mirroredE)
  let ?a = "new_access H c fam e acc now"
  let ?d = "d\<lparr>oauth_rows := dset (H acc) ?a (oauth_rows d)\<rparr>"
  let ?s = "snd (mint_oauth H c fam e acc fr now s)"
  have tab: "tables_ok ?s" using d(4) by (auto simp: tables_ok_def split: option.splits)
  have sub: "set (dset (H acc) ?a (oauth_rows d)) \<subseteq> set (dset (H acc) ?a (oauth_tokens s))"
    using d(3,4) by (intro subset_dset) (auto simp: mirrors_def tables_ok_def)
  have at: "at_token ?a = H acc" by (simp add: new_access_def)
  show ?thesis
  proof (cases fam)
    case None
    then have "db ?s = Some ?d" "db_writable ?s"
      using d at by (simp_all add: mint_oauth_def Let_def persist_oauth_def db_write_def)
    moreover have "mirrors ?d ?s" using None d(3) sub by (simp add: mirrors_def)
    ultimately show ?thesis using tab by (rule mirroredI)
  next
    case (Some f)
    let ?r = "new_refresh H c f e (refresh_token_ttl s) fr now"
    let ?d' = "?d\<lparr>refresh_rows := dset (H fr) (row_of ?r) (refresh_rows d)\<rparr>"
    have "rt_token_hash ?r = H fr" by (simp add: new_refresh_def)
    then have "db ?s = Some ?d'" "db_writable ?s"
      using d at Some by (simp_all add: mint_oauth_def Let_def persist_oauth_def persist_refresh_def db_write_def)
    moreover have "mirrors ?d' ?s" using Some d(3) sub by (simp add: mirrors_def dmap_dset)
    ultimately show ?thesis using tab by (rule mirroredI)
  qed
qed

lemma mirrored_revoke_family: "mirrored s \<Longrightarrow> mirrored (revoke_family f s)"
proof (elim mirroredE)
  fix d assume d: "db s = Some d" "db_writable s" "mirrors d s" "tables_ok s"
  show "mirrored (revoke_family f s)"
  proof (rule mirroredI)
    show "mirrors (d\<lparr>refresh_rows := dkeep (\<lambda>r. rr_family_id r \<noteq> f) (refresh_rows d),
        oauth_rows := dkeep (\<lambda>a. at_family_id a \<noteq> Some f) (oauth_rows d)\<rparr>) (revoke_family f s)"
      using d(3) by (rule mirrors_keep) simp_all
  qed (use d in \<open>simp_all add: revoke_family_def db_write_def tables_ok_def\<close>)
qed

lemma mirrored_revoke_client: "mirrored s \<Longrightarrow> mirrored (snd (revoke_client c s))"
proof (elim mirroredE)
  fix d assume d: "db s = Some d" "db_writable s" "mirrors d s" "tables_ok s"
  show "mirrored (snd (revoke_client c s))"
  proof (rule mirroredI)
    show "mirrors (d\<lparr>refresh_rows := dkeep (\<lambda>r. rr_client_id r \<noteq> c) (refresh_rows d),
        oauth_rows := dkeep (\<lambda>a. at_client_id a \<noteq> c) (oauth_rows d)\<rparr>) (snd (revoke_client c s))"
      using d(3) by (rule mirrors_keep) simp_all
  qed (use d in \<open>simp_all add: revoke_client_def db_write_def tables_ok_def\<close>)
qed

lemma mirrored_revoke_clients: "mirrored s \<Longrightarrow> mirrored (fold (\<lambda>c s. snd (revoke_client c s)) cs s)"
  by (induction cs arbitrary: s) (auto intro: mirrored_revoke_client)

lemma mirrored_drop:
  assumes "mirrored s"
  shows "mirrored (drop_refresh h s)" "mirrored (drop_oauth h s)"
proof -
  obtain d where d: "db s = Some d" "db_writable s" "mirrors d s" "tables_ok s" using assms by (rule mirroredE)
  show "mirrored (drop_refresh h s)"
    by (rule mirroredI [of _ "d\<lparr>refresh_rows := dpop h (refresh_rows d)\<rparr>"])
       (use d in \<open>auto simp: drop_refresh_def db_write_def tables_ok_def mirrors_def dmap_dpop\<close>)
  show "mirrored (drop_oauth h s)"
    by (rule mirroredI [of _ "d\<lparr>oauth_rows := dpop h (oauth_rows d)\<rparr>"])
       (use d in \<open>auto simp: drop_oauth_def db_write_def tables_ok_def mirrors_def\<close>)
qed

lemma dset_same: "dget d k = Some v \<Longrightarrow> dset k v d = d"
  by (induction d) (auto split: if_splits)

lemma mirrored_replay:
  assumes "mirrored s" "dget (refresh_tokens s) k = Some rt"
  shows "mirrored (s\<lparr>refresh_tokens := dset k (rt\<lparr>rt_replay := g\<rparr>) (refresh_tokens s)\<rparr>)"
proof -
  obtain d where d: "db s = Some d" "db_writable s" "mirrors d s" "tables_ok s" using assms(1) by (rule mirroredE)
  have "dmap row_of (dset k (rt\<lparr>rt_replay := g\<rparr>) (refresh_tokens s)) = dmap row_of (refresh_tokens s)"
    using assms(2) by (simp add: dmap_dset dset_same)
  then show ?thesis by (intro mirroredI [of _ d]) (use d in \<open>auto simp: mirrors_def tables_ok_def\<close>)
qed

lemma mirrored_rotate:
  assumes "mirrored s" and hash: "rt_token_hash rt = H t"
  shows "mirrored (snd (rotate_pair H t rt c acc fr now tm tc s))"
proof -
  obtain d where d: "db s = Some d" "db_writable s" "mirrors d s" "tables_ok s" using assms(1) by (rule mirroredE)
  let ?rt1 = "rotate now rt"
  let ?s1 = "persist_refresh ?rt1 (s\<lparr>refresh_tokens := dset (H t) ?rt1 (refresh_tokens s)\<rparr>)"
  let ?m = "mint_oauth H c (Some (rt_family_id rt)) (rt_family_expires_at rt) acc fr tm ?s1"
  have "mirrored ?s1"
    by (rule mirroredI [of _ "d\<lparr>refresh_rows := dset (H t) (row_of ?rt1) (refresh_rows d)\<rparr>"])
       (use d hash in \<open>auto simp: persist_refresh_def rotate_def db_write_def mirrors_def tables_ok_def dmap_dset\<close>)
  then have m: "mirrored (snd ?m)" by (rule mirrored_mint)
  show ?thesis
  proof (cases "H fr = H t")
    case True
    with mirrored_cleanup [OF m] show ?thesis by (simp add: rotate_pair_def Let_def split_beta)
  next
    case False
    then have "dget (refresh_tokens (snd ?m)) (H t) = Some ?rt1" by simp
    from mirrored_cleanup [OF mirrored_replay [OF m this]] False show ?thesis
      by (simp add: rotate_pair_def Let_def split_beta)
  qed
qed

lemma unnamed_has_no_row:
  assumes "mirrors d s" "tables_ok s" "dget (tokens s) t = Some a" "at_name a = None"
  shows "(t, b) \<notin> set (named_rows d)"
proof
  assume b: "(t, b) \<in> set (named_rows d)"
  with assms(1) have "(t, b) \<in> set (tokens s)" by (auto simp: mirrors_def)
  with assms(2,3) have "b = a" using dget_ok [of "tokens s" t b] by (simp add: tables_ok_def)
  with b assms(1,4) show False by (force simp: mirrors_def)
qed

text \<open>The rows of one token, written and taken out.\<close>

lemma mirrored_revoke:
  assumes "mirrored s"
  shows "mirrored (snd (revoke H t now s))"
proof -
  obtain d where d: "db s = Some d" "db_writable s" "mirrors d s" "tables_ok s" using assms by (rule mirroredE)
  have tab: "tables_ok (snd (revoke H t now s))" using tables_ok_step [OF d(4), of H "Revoke t now"] by simp
  show ?thesis
  proof (cases "dget (tokens s) t")
    case (Some a)
    let ?d = "if at_name a = None then d else d\<lparr>named_rows := dpop t (named_rows d)\<rparr>"
    have "at_name a = None \<longrightarrow> (\<forall>b. (t, b) \<notin> set (named_rows d))"
      using unnamed_has_no_row [OF d(3,4) Some] by blast
    then have "mirrors ?d (snd (revoke H t now s))"
      using Some d(3,4) by (auto simp: mirrors_def revoke_def Let_def tables_ok_def in_dset_ok)
    then show ?thesis using d Some tab
      by (intro mirroredI [of _ ?d]) (simp_all add: revoke_def Let_def unpersist_def db_write_def)
  next
    case None
    show ?thesis
    proof (cases "dget (oauth_tokens s) (H t)")
      case None
      with \<open>dget (tokens s) t = None\<close> assms show ?thesis by (simp add: revoke_def revoke_oauth_def)
    next
      case (Some a)
      let ?d = "d\<lparr>oauth_rows := dpop (H t) (oauth_rows d)\<rparr>"
      let ?s = "s\<lparr>oauth_tokens := dset (H t) (cut_short now a) (oauth_tokens s), db := Some ?d\<rparr>"
      have m: "mirrors ?d ?s" using d(3,4) by (auto simp: mirrors_def tables_ok_def in_dset_ok)
      show ?thesis
      proof (cases "at_family_id a")
        case no: None
        then have "snd (revoke H t now s) = ?s"
          using None Some d(1,2) by (simp add: revoke_def revoke_oauth_def Let_def db_write_def)
        with m d tab show ?thesis by (intro mirroredI [of _ ?d]) simp_all
      next
        case fam: (Some f)
        let ?d' = "?d\<lparr>refresh_rows := dkeep (\<lambda>r. rr_family_id r \<noteq> f) (refresh_rows d)\<rparr>"
        have "snd (revoke H t now s) =
            ?s\<lparr>refresh_tokens := dkeep (\<lambda>r. rt_family_id r \<noteq> f) (refresh_tokens s), db := Some ?d'\<rparr>"
          using None Some fam d(1,2) by (simp add: revoke_def revoke_oauth_def Let_def db_write_def)
        moreover have "mirrors ?d' (?s\<lparr>refresh_tokens := dkeep (\<lambda>r. rt_family_id r \<noteq> f) (refresh_tokens s), db := Some ?d'\<rparr>)"
          using m by (auto simp: mirrors_def dmap_dkeep [symmetric])
        ultimately show ?thesis using d tab by (intro mirroredI [of _ ?d']) simp_all
      qed
    qed
  qed
qed

lemma mirrored_validate:
  assumes "mirrored s"
  shows "mirrored (snd (validate H t now s))"
proof -
  obtain d where d: "db s = Some d" "db_writable s" "mirrors d s" "tables_ok s" using assms by (rule mirroredE)
  have tab: "tables_ok (snd (validate H t now s))" using tables_ok_step [OF d(4), of H "Validate t now"] by simp
  show ?thesis
  proof (cases "dget (tokens s) t")
    case None
    then show ?thesis using assms mirrored_drop(2)
      by (auto simp: validate_def validate_oauth_def split: option.splits)
  next
    case (Some a)
    show ?thesis
    proof (cases "at_expired now a")
      case True
      let ?d = "if at_name a = None then d else d\<lparr>named_rows := dpop t (named_rows d)\<rparr>"
      have "at_name a = None \<longrightarrow> (\<forall>b. (t, b) \<notin> set (named_rows d))"
        using unnamed_has_no_row [OF d(3,4) Some] by blast
      then have "mirrors ?d (snd (validate H t now s))"
        using Some True d(3,4) by (auto simp: mirrors_def validate_def Let_def)
      then show ?thesis using d Some True tab
        by (intro mirroredI [of _ ?d]) (simp_all add: validate_def Let_def unpersist_def db_write_def)
    qed (use Some assms in \<open>simp add: validate_def\<close>)
  qed
qed

text \<open>The conditions on one operation: the file takes writes, and a drawn session bearer is new.\<close>

fun files :: "token_op \<Rightarrow> token_store \<Rightarrow> bool" where
  "files (Set_writable w) s \<longleftrightarrow> w"
| "files (Issue cid name t tc now te) s \<longleftrightarrow> dget (tokens s) t = None"
| "files _ s \<longleftrightarrow> True"

fun filed_run :: "(string \<Rightarrow> string) \<Rightarrow> token_op list \<Rightarrow> token_store \<Rightarrow> bool" where
  "filed_run H [] s \<longleftrightarrow> True"
| "filed_run H (x # xs) s \<longleftrightarrow> files x s \<and> filed_run H xs (token_step H x s)"

lemma mirrored_add:
  assumes "mirrored s" "dget (tokens s) t = None" "at_token a = t"
  shows "mirrored (if at_name a = None then s\<lparr>tokens := dset t a (tokens s)\<rparr>
                   else persist a (s\<lparr>tokens := dset t a (tokens s)\<rparr>))"
proof -
  obtain d where d: "db s = Some d" "db_writable s" "mirrors d s" "tables_ok s" using assms(1) by (rule mirroredE)
  let ?d = "if at_name a = None then d else d\<lparr>named_rows := dset t a (named_rows d)\<rparr>"
  have new: "(t, b) \<notin> set (named_rows d)" for b
    using d(3) dget_None_in [OF assms(2)] by (auto simp: mirrors_def)
  have "set (named_rows d) \<subseteq> set (dset t a (tokens s))"
    "set (dset t a (named_rows d)) \<subseteq> set (dset t a (tokens s))"
    using d(3,4) new by (auto simp: in_dset_ok mirrors_def tables_ok_def)
  then have m: "mirrors ?d (s\<lparr>tokens := dset t a (tokens s)\<rparr>)"
    using d(3) by (auto simp: mirrors_def dest: in_dset)
  have tab: "tables_ok (s\<lparr>tokens := dset t a (tokens s)\<rparr>)"
    using d(4) assms(3) by (auto simp: tables_ok_def dest: in_dset)
  show ?thesis
  proof (cases "at_name a")
    case None
    with m tab d show ?thesis by (auto intro: mirroredI)
  next
    case (Some n)
    have "mirrors ?d (persist a (s\<lparr>tokens := dset t a (tokens s)\<rparr>))" using m by (simp add: mirrors_def)
    moreover have "tables_ok (persist a (s\<lparr>tokens := dset t a (tokens s)\<rparr>))" using tab by (simp add: tables_ok_def)
    ultimately show ?thesis
      using Some d assms(3) by (auto simp: persist_def db_write_def intro: mirroredI)
  qed
qed

lemma mirrored_issue:
  assumes "mirrored s" "dget (tokens s) t = None"
  shows "mirrored (snd (issue cid name t tc now te s))"
proof -
  have "dget (tokens (cleanup tc s)) t = None" using assms(2) by (simp add: dget_dkeep_None)
  note add = mirrored_add [OF assms] mirrored_add [OF mirrored_cleanup [OF assms(1)] this]
  show ?thesis
  proof (cases name)
    case None
    then show ?thesis using add(1) [of "\<lparr>at_token = t, at_client_id = cid, at_expires_at = At (now + of_int TOKEN_TTL),
        at_name = None, at_created_at = now, at_family_id = None\<rparr>"] mirrored_cleanup
      by (simp add: issue_def Let_def)
  next
    case (Some n)
    let ?a = "\<lambda>e. \<lparr>at_token = t, at_client_id = cid, at_expires_at = e,
        at_name = Some n, at_created_at = now, at_family_id = None\<rparr>"
    have "mirrored (cleanup te (persist (?a e) ((cleanup tc s)\<lparr>tokens := dset t (?a e) (tokens (cleanup tc s))\<rparr>)))" for e
      using add(2) [of "?a e"] by (simp add: mirrored_cleanup)
    then show ?thesis using Some mirrored_cleanup [OF assms(1)]
      by (simp add: issue_def Let_def count_named_def)
  qed
qed

lemma mirrored_step:
  assumes m: "mirrored s" and filed: "all_tokens filed_access filed_refresh s" and ok: "files x s"
  shows "mirrored (token_step H x s)"
proof (cases x)
  case (Refresh t c acc fr now tm tc)
  show ?thesis
  proof (cases rule: refresh_cases [of H t c acc fr now tm tc s])
    case (rotated rt)
    have "rt_token_hash rt = H t"
      using all_tokensD(2) [OF filed dget_in [OF rotated(1)]] by (simp add: filed_refresh_def)
    with rotated mirrored_rotate [OF m] Refresh show ?thesis by simp
  qed (use Refresh m mirrored_revoke_family mirrored_drop in simp_all)
next
  case (Revoke_named pre cid now)
  then show ?thesis using m mirrored_revoke
    by (cases rule: revoke_named_cases [of H pre cid now s]) auto
next
  case (Set_writable w)
  with m ok show ?thesis by (auto simp: mirrored_def mirrors_def tables_ok_def)
qed (use m ok in \<open>simp_all add: mirrored_issue issue_oauth_def split_beta mirrored_mint mirrored_cleanup
       mirrored_validate mirrored_revoke mirrored_revoke_family mirrored_revoke_client prune_unknown_clients_def
       Let_def mirrored_revoke_clients count_named_def list_named_def\<close>)

lemma mirrored_run:
  "mirrored s \<Longrightarrow> all_tokens filed_access filed_refresh s \<Longrightarrow> filed_run H ops s \<Longrightarrow> mirrored (token_run H ops s)"
  by (induction ops arbitrary: s) (auto intro: mirrored_step filed.step_law)

lemma mirror_bounded:
  assumes wf: "wf_store s" and m: "mirrors d s"
  shows "bounded_rows d"
  unfolding bounded_rows_def
proof (intro conjI ballI allI impI)
  fix r assume "r \<in> set (dvals (refresh_rows d))"
  with m obtain q where "q \<in> set (dvals (refresh_tokens s))" "r = row_of q"
    by (auto simp: mirrors_def in_dvals_dmap simp del: set_map)
  then obtain h where "(h, q) \<in> set (refresh_tokens s)" "r = row_of q" by auto
  then show "\<exists>e. rr_family_expires_at r = Some e \<and> rr_expires_at r \<le> e"
    using wf by (force simp: wf_store_def all_tokens_def filed_refresh_def)
next
  fix a f e assume a: "a \<in> set (dvals (oauth_rows d))" "at_family_id a = Some f"
    and e: "e \<in> set (family_ends (refresh_rows d) f)"
  obtain E c where law: "family_law f E c s" using wf unfolding wf_store_def by blast
  obtain h where h: "(h, a) \<in> set (oauth_tokens s)" using a(1) m by (auto simp: mirrors_def)
  obtain q where "q \<in> set (dvals (refresh_tokens s))" "rt_family_id q = f" "rt_family_expires_at q = e"
    using e m by (auto simp: set_family_ends mirrors_def in_dvals_dmap simp del: set_map)
  then obtain k where q: "(k, q) \<in> set (refresh_tokens s)" "rt_family_id q = f" "rt_family_expires_at q = e"
    by auto
  show "at_expires_at a \<le> At e"
    using all_tokensD(1) [OF law h] all_tokensD(2) [OF law q(1)] a(2) q(2,3)
    by (simp add: family_access_def family_refresh_def)
qed

lemma load_row_of: "load_refresh (row_of r) = r\<lparr>rt_used_at := 0, rt_replay := None\<rparr>"
  by (cases r) (simp add: load_refresh_def row_of_def)

lemma restart_tables:
  assumes "wf_store s" "mirrors d s"
  shows "tokens (init_db now d s0) = dkeep (\<lambda>a. At now < at_expires_at a) (named_rows d)"
    and "oauth_tokens (init_db now d s0) = dkeep (\<lambda>a. At now < at_expires_at a) (oauth_rows d)"
    and "refresh_tokens (init_db now d s0) =
           dmap (\<lambda>r. r\<lparr>rt_used_at := 0, rt_replay := None\<rparr>) (dkeep (\<lambda>r. now < rt_expires_at r) (refresh_tokens s))"
proof -
  have "dkeep (\<lambda>r. now < rr_expires_at r) (refresh_rows d) = dmap row_of (dkeep (\<lambda>r. now < rt_expires_at r) (refresh_tokens s))"
    using assms(2) by (simp add: mirrors_def dmap_dkeep [symmetric])
  then show "tokens (init_db now d s0) = dkeep (\<lambda>a. At now < at_expires_at a) (named_rows d)"
    "oauth_tokens (init_db now d s0) = dkeep (\<lambda>a. At now < at_expires_at a) (oauth_rows d)"
    "refresh_tokens (init_db now d s0) =
       dmap (\<lambda>r. r\<lparr>rt_used_at := 0, rt_replay := None\<rparr>) (dkeep (\<lambda>r. now < rt_expires_at r) (refresh_tokens s))"
    by (simp_all add: init_db_def Let_def bound_legacy_id [OF mirror_bounded [OF assms]] load_row_of)
qed

lemma mirrored_new_store: "mirrored \<lparr>tokens = [], oauth_tokens = [], refresh_tokens = [],
    db = Some \<lparr>named_rows = [], oauth_rows = [], refresh_rows = []\<rparr>, db_writable = True,
    named_token_ttl = n, refresh_token_ttl = r\<rparr>"
  by (simp add: mirrored_def mirrors_def tables_ok_def)

text \<open>The two rows a sign-in writes.\<close>

lemma sign_in_rows:
  assumes d0: "db s = Some d0" "db_writable s" and d: "db (snd (issue_oauth H c (Some f) acc fr t0 t1 t2 s)) = Some d"
    and wf: "mirrored s" "t2 \<le> t0 + 86400" "t2 \<le> t1 + 86400" "t2 \<le> t1 + of_int (refresh_token_ttl s)"
  shows "dget (oauth_rows d) (H acc) = Some (new_access H c (Some f) (t0 + 86400) acc t1)"
    and "dget (refresh_rows d) (H fr) = Some (row_of (new_refresh H c f (t0 + 86400) (refresh_token_ttl s) fr t1))"
proof -
  let ?a = "new_access H c (Some f) (t0 + 86400) acc t1"
  let ?r = "new_refresh H c f (t0 + 86400) (refresh_token_ttl s) fr t1"
  let ?m = "snd (mint_oauth H c (Some f) (t0 + 86400) acc fr t1 s)"
  have day: "of_int SESSION_LIFETIME = (86400 :: real)" "of_int TOKEN_TTL = (86400 :: real)"
    by (simp_all add: token_consts)
  have m: "mirrored ?m" using wf(1) by (rule mirrored_mint)
  have ok: "dict_ok (oauth_tokens ?m)" "dict_ok (refresh_tokens ?m)" using m by (auto simp: mirrored_def tables_ok_def)
  have fresh: "\<not> at_expired t2 ?a" "\<not> rt_expired t2 ?r"
    using wf by (auto simp: new_access_def new_refresh_def at_expired_def rt_expired_def day)
  have "at_token ?a = H acc" "rt_token_hash ?r = H fr" by (simp_all add: new_access_def new_refresh_def)
  then have dm: "db ?m = Some (d0\<lparr>oauth_rows := dset (H acc) ?a (oauth_rows d0),
      refresh_rows := dset (H fr) (row_of ?r) (refresh_rows d0)\<rparr>)" "db_writable ?m"
    using d0 by (simp_all add: mint_oauth_def Let_def persist_oauth_def persist_refresh_def db_write_def)
  have gone: "H acc \<notin> set (dwhere (at_expired t2) (oauth_tokens ?m))"
    "H fr \<notin> set (dwhere (rt_expired t2) (refresh_tokens ?m))"
    using not_in_dwhere [OF ok(1), of "H acc" ?a "at_expired t2"] not_in_dwhere [OF ok(2), of "H fr" ?r "rt_expired t2"]
      fresh by simp_all
  have d_eq: "d = d0\<lparr>oauth_rows := drop_keys (dwhere (at_expired t2) (oauth_tokens ?m)) (dset (H acc) ?a (oauth_rows d0)),
      refresh_rows := drop_keys (dwhere (rt_expired t2) (refresh_tokens ?m)) (dset (H fr) (row_of ?r) (refresh_rows d0)),
      named_rows := drop_keys (dwhere (\<lambda>a. at_expired t2 a \<and> at_name a \<noteq> None) (tokens ?m)) (named_rows d0)\<rparr>"
    using d dm by (cases d0) (auto simp: issue_oauth_def split_beta day cleanup_def cleanup_named_def
      cleanup_oauth_def cleanup_refresh_def Let_def db_write_def)
  show "dget (oauth_rows d) (H acc) = Some ?a" "dget (refresh_rows d) (H fr) = Some (row_of ?r)"
    unfolding d_eq using gone by (simp_all del: mint_oauth_sel)
qed

end
