(* ===== verification/Token_Props.thy ===== *)
theory Token_Props
  imports Token_Ends Token_File
begin

text \<open>
  The properties of the token store, each applied at a concrete store in its witness.
\<close>

text \<open>The concrete store and operations of the witnesses: an empty store, and \<open>H\<close> the identity.\<close>

definition empty_store :: token_store where
  "empty_store = \<lparr>tokens = [], oauth_tokens = [], refresh_tokens = [],
     db = Some \<lparr>named_rows = [], oauth_rows = [], refresh_rows = []\<rparr>, db_writable = True,
     named_token_ttl = NAMED_TOKEN_TTL, refresh_token_ttl = REFRESH_TOKEN_TTL\<rparr>"

lemma empty_store_wf: "wf_store empty_store" "tables_ok empty_store" "unused_family f empty_store"
  "mirrored empty_store"
  by (simp_all add: wf_store_def tables_ok_def all_tokens_def empty_store_def unused_family_def mirrored_new_store)

definition signed_in :: token_store where
  "signed_in = snd (issue_oauth (\<lambda>t. t) ''c'' (Some ''f'') ''a1'' ''r1'' 0 0 0 empty_store)"

lemma signed_in_wf: "wf_store signed_in" "tables_ok signed_in"
proof -
  show "wf_store signed_in"
    using wf_store_step [OF empty_store_wf(1), of "Issue_oauth ''c'' (Some ''f'') ''a1'' ''r1'' 0 0 0" "\<lambda>t. t"]
    by (simp add: signed_in_def empty_store_wf)
  then show "tables_ok signed_in" by (simp add: wf_store_def)
qed

text \<open>
  C30: Every operation of the store keeps it well formed, along runs of any length whose
  sign-ins draw unused family ids: the tables are dictionaries, each record is filed under
  its own token or hash, all tokens of a refresh family belong to one client, carry the
  same end, and no access or refresh token of the family outlives it.
\<close>

theorem store_stays_well_formed:
  "wf_store s \<Longrightarrow> fresh_run H ops s \<Longrightarrow> wf_store (token_run H ops s)"
  by (rule wf_store_run)

lemma store_stays_well_formed_witness:
  "wf_store (token_run (\<lambda>t. t) [Issue_oauth ''c'' (Some ''f'') ''a'' ''r'' 0 0 0, Refresh ''r'' ''c'' ''a2'' ''r2'' 5 5 5]
     empty_store)"
  by (rule store_stays_well_formed [OF empty_store_wf(1)]) (simp add: empty_store_wf)

text \<open>
  C4: A sign-in ends for good 24 hours after it, however often it is refreshed and whatever
  else the store does in between: later no bearer of its family is accepted, and a refresh
  with any of its refresh tokens fails, and when the right client presents it, takes the
  whole family out of the store.
\<close>

theorem session_ends_after_a_day:
  assumes "unused_family f s" "\<forall>x \<in> set ops. opens x \<noteq> Some f"
    and "s' = token_run H ops (snd (issue_oauth H c (Some f) acc fr t0 t1 t2 s))"
  shows "(dget (tokens s') tok = None \<and> dget (oauth_tokens s') (H tok) = Some a \<and> at_family_id a = Some f
            \<and> t0 + 86400 < now \<longrightarrow> fst (validate H tok now s') = None)
    \<and> (dget (refresh_tokens s') (H tok) = Some rt \<and> rt_family_id rt = f \<and> t0 + 86400 \<le> now \<longrightarrow>
         refresh H tok cid acc' fr' now tm tc s' =
           (if cid = c then (Inl (Expired f), revoke_family f s') else (Inl Invalid, s')))"
proof -
  have law: "family_law f (t0 + of_int SESSION_LIFETIME) c s'"
    unfolding assms(3) using assms(1,2) by (intro fam.run_law issue_oauth_family_law not_opening)
  have "t0 + of_int SESSION_LIFETIME = t0 + 86400" by (simp add: SESSION_LIFETIME_def)
  with law have "family_law f (t0 + 86400) c s'" by simp
  then show ?thesis by (auto intro: family_bearer_over [where H = H] simp: family_refresh_over [where H = H])
qed

lemma session_ends_after_a_day_witness:
  "fst (validate (\<lambda>t. t) ''a1'' 86401 signed_in) = None
   \<and> fst (refresh (\<lambda>t. t) ''r1'' ''c'' ''a2'' ''r2'' 86400 86400 86400 signed_in) = Inl (Expired ''f'')"
proof -
  let ?a = "new_access (\<lambda>t. t) ''c'' (Some ''f'') 86400 ''a1'' 0"
  let ?r = "new_refresh (\<lambda>t. t) ''c'' ''f'' 86400 86400 ''r1'' 0"
  have "dget (tokens signed_in) ''a1'' = None" "dget (oauth_tokens signed_in) ''a1'' = Some ?a"
    "dget (refresh_tokens signed_in) ''r1'' = Some ?r" "at_family_id ?a = Some ''f''" "rt_family_id ?r = ''f''"
    by code_simp+
  then show ?thesis
    using session_ends_after_a_day [where f = "''f''" and s = empty_store and ops = "[]" and H = "\<lambda>t. t"
      and c = "''c''" and acc = "''a1''" and fr = "''r1''" and ?t0.0 = 0 and ?t1.0 = 0 and ?t2.0 = 0
      and tok = "''a1''" and a = ?a and now = 86401 and rt = ?r]
      session_ends_after_a_day [where f = "''f''" and s = empty_store and ops = "[]" and H = "\<lambda>t. t"
      and c = "''c''" and acc = "''a1''" and fr = "''r1''" and ?t0.0 = 0 and ?t1.0 = 0 and ?t2.0 = 0
      and tok = "''r1''" and a = ?a and now = 86400 and rt = ?r and cid = "''c''"]
    by (simp add: empty_store_wf signed_in_def [symmetric])
qed

text \<open>
  C5: Reuse detection.  Once a refresh token has been rotated out, presenting it again more
  than 60 seconds later fails whatever happened in between, as long as no other token drawn
  has its hash and no sign-in reuses the family id; and after that attempt no refresh token
  of the session is left, the thief's included.
\<close>

theorem replayed_refresh_kills_session:
  assumes "wf_store s" "dget (refresh_tokens s) (H tok) = Some rt"
    "refresh H tok c acc fr now tm tc s = (Inr g, s1)" "\<not> rt_used rt" "H fr \<noteq> H tok"
    and "\<forall>x \<in> set ops. opens x \<noteq> Some (rt_family_id rt) \<and> draws_refresh H x \<noteq> Some (H tok)"
    and "60 < now' - now"
  shows "\<exists>e s'. refresh H tok c acc' fr' now' tm' tc' (token_run H ops s1) = (Inl e, s')
    \<and> family_dead (rt_family_id rt) s'"
proof -
  have rt: "rt_client_id rt = c" "s1 = snd (rotate_pair H tok rt c acc fr now tm tc s)"
    "s1 = snd (refresh H tok c acc fr now tm tc s)"
    using assms(2,3,4) by (auto simp: refresh_def split_beta split: if_splits option.splits)
  note inv = spent_by_rotation [where H = H, OF assms(1,2) rt assms(5)]
  from spent_replayed [where H = H, OF spent_inv_run [where H = H, OF inv assms(6)] refl, of now'] assms(7)
  show ?thesis by (simp add: REFRESH_REUSE_GRACE_def) (metis prod.collapse)
qed

lemma replayed_refresh_kills_session_witness:
  "\<exists>e s'. refresh (\<lambda>t. t) ''r1'' ''c'' ''a3'' ''r3'' 100 100 100
      (token_run (\<lambda>t. t) [Refresh ''r2'' ''c'' ''a4'' ''r4'' 20 20 20]
        (snd (refresh (\<lambda>t. t) ''r1'' ''c'' ''a2'' ''r2'' 10 10 10 signed_in))) = (Inl e, s') \<and> family_dead ''f'' s'"
proof -
  let ?r = "new_refresh (\<lambda>t. t) ''c'' ''f'' 86400 86400 ''r1'' 0"
  let ?g = "\<lparr>g_access_token = ''a2'', g_expires_in = 86390, g_refresh_token = Some ''r2''\<rparr>"
  have "fst (refresh (\<lambda>t. t) ''r1'' ''c'' ''a2'' ''r2'' 10 10 10 signed_in) = Inr ?g" by code_simp
  then have "refresh (\<lambda>t. t) ''r1'' ''c'' ''a2'' ''r2'' 10 10 10 signed_in =
      (Inr ?g, snd (refresh (\<lambda>t. t) ''r1'' ''c'' ''a2'' ''r2'' 10 10 10 signed_in))"
    by (metis prod.collapse)
  moreover have "dget (refresh_tokens signed_in) ''r1'' = Some ?r" by code_simp
  ultimately show ?thesis
    using replayed_refresh_kills_session [where s = signed_in and tok = "''r1''" and H = "\<lambda>t. t" and rt = ?r
        and now' = 100 and ops = "[Refresh ''r2'' ''c'' ''a4'' ''r4'' 20 20 20]", OF signed_in_wf(1)]
    by (fastforce simp: new_refresh_def)
qed

text \<open>
  A refresh is idempotent within the grace of 60 seconds: the client that lost the
  response and presents its old token again gets the very pair of the first call, and the
  second call changes nothing.
\<close>

theorem lost_response_is_replayed:
  assumes "refresh H tok c acc fr now tm tc s = (Inr g, s1)" "dict_ok (refresh_tokens s)" "H fr \<noteq> H tok"
    and "dget (refresh_tokens s) (H tok) = Some rt" "\<not> rt_used rt"
    and "tc - now \<le> 60" "tc \<le> rt_family_expires_at rt" "now' - now \<le> 60" "now' < rt_family_expires_at rt"
  shows "refresh H tok c acc' fr' now' tm' tc' s1 = (Inr g, s1)"
proof -
  have c: "rt_client_id rt = c" and s1: "s1 = snd (rotate_pair H tok rt c acc fr now tm tc s)"
    and g: "g = fst (rotate_pair H tok rt c acc fr now tm tc s)"
    using assms(1,4,5) by (auto simp: refresh_def split_beta split: if_splits)
  have "dget (refresh_tokens s1) (H tok) = Some ((rotate now rt)\<lparr>rt_replay := Some g\<rparr>)"
    unfolding s1 g using assms by (intro rotate_pair_keeps_grant) (simp_all add: REFRESH_REUSE_GRACE_def)
  then show ?thesis using c assms(8,9) by (simp add: refresh_def rotate_def REFRESH_REUSE_GRACE_def)
qed

lemma lost_response_is_replayed_witness:
  "refresh (\<lambda>t. t) ''r1'' ''c'' ''x'' ''y'' 40 40 40
      (snd (refresh (\<lambda>t. t) ''r1'' ''c'' ''a2'' ''r2'' 10 10 11 signed_in))
    = (Inr \<lparr>g_access_token = ''a2'', g_expires_in = 86390, g_refresh_token = Some ''r2''\<rparr>,
       snd (refresh (\<lambda>t. t) ''r1'' ''c'' ''a2'' ''r2'' 10 10 11 signed_in))"
proof -
  let ?r = "new_refresh (\<lambda>t. t) ''c'' ''f'' 86400 86400 ''r1'' 0"
  let ?g = "\<lparr>g_access_token = ''a2'', g_expires_in = 86390, g_refresh_token = Some ''r2''\<rparr>"
  have "fst (refresh (\<lambda>t. t) ''r1'' ''c'' ''a2'' ''r2'' 10 10 11 signed_in) = Inr ?g" by code_simp
  then have "refresh (\<lambda>t. t) ''r1'' ''c'' ''a2'' ''r2'' 10 10 11 signed_in =
      (Inr ?g, snd (refresh (\<lambda>t. t) ''r1'' ''c'' ''a2'' ''r2'' 10 10 11 signed_in))"
    by (metis prod.collapse)
  moreover have "dget (refresh_tokens signed_in) ''r1'' = Some ?r" by code_simp
  moreover have "dict_ok (refresh_tokens signed_in)" using signed_in_wf(2) by (simp add: tables_ok_def)
  ultimately show ?thesis
    by (intro lost_response_is_replayed [where s = signed_in and tok = "''r1''" and H = "\<lambda>t. t" and rt = ?r
        and now = 10 and tc = 11 and fr = "''r2''"]) (simp_all add: new_refresh_def)
qed

text \<open>
  C6: A revocation is final: eight seconds after a successful \<open>revoke\<close> the token is
  refused, and stays refused whatever the store does next, as long as the same value (or,
  for an OAuth bearer, one with the same digest) is not drawn again.
\<close>

theorem revoked_token_stays_refused:
  assumes "tables_ok s" "dget (tokens s) tok = None \<or> dget (oauth_tokens s) (H tok) = None"
    and "revoke H tok now s = (True, s1)" "\<forall>x \<in> set ops. \<not> draws_token H tok x" "now + 8 < now'"
  shows "fst (validate H tok now' (token_run H ops s1)) = None"
  using ends_by_refused [OF ends_by_run [OF revoke_ends_by [OF assms(1-3)] assms(4)], of now'] assms(5)
  by (simp add: REVOKE_GRACE_SECONDS_def)

lemma revoked_token_stays_refused_witness:
  "fst (validate (\<lambda>t. t) ''a1'' 109 (token_run (\<lambda>t. t) [Refresh ''r1'' ''c'' ''a2'' ''r2'' 101 101 101]
     (snd (revoke (\<lambda>t. t) ''a1'' 100 signed_in)))) = None"
proof -
  have "fst (revoke (\<lambda>t. t) ''a1'' 100 signed_in) = True" by code_simp
  then have "revoke (\<lambda>t. t) ''a1'' 100 signed_in = (True, snd (revoke (\<lambda>t. t) ''a1'' 100 signed_in))"
    by (metis prod.collapse)
  moreover have "dget (tokens signed_in) ''a1'' = None" by code_simp
  ultimately show ?thesis
    by (intro revoked_token_stays_refused [where now = 100 and s = signed_in, OF signed_in_wf(2)]) simp_all
qed

text \<open>
  No client ever holds more than three named tokens, whatever is issued, revoked or
  expires: the cap of \<open>issue\<close> is an invariant of every run.
\<close>

theorem named_token_cap:
  assumes "tables_ok s" "dcount (is_named_of cid) (tokens s) \<le> 3"
  shows "dcount (is_named_of cid) (tokens (token_run H ops s)) \<le> 3"
  using named_cap_run [OF assms(1), of cid H ops] assms(2) by (simp add: NAMED_TOKEN_CAP_def)

lemma named_token_cap_witness:
  "dcount (is_named_of ''c'') (tokens (token_run (\<lambda>t. t)
     [Issue ''c'' (Some ''n'') ''t1'' 0 0 0, Issue ''c'' (Some ''n'') ''t2'' 0 0 0,
      Issue ''c'' (Some ''n'') ''t3'' 0 0 0, Issue ''c'' (Some ''n'') ''t4'' 0 0 0] empty_store)) \<le> 3"
  by (rule named_token_cap [OF empty_store_wf(2)]) (simp add: empty_store_def)

text \<open>
  C7: A restart never brings a token back.  While the file takes every write, reading it at
  start-up gives a subset of the bearers in memory, unchanged, and exactly the refresh tokens
  that were in memory and not expired, without their retry pairs: what was revoked, rotated
  out or expired before the restart is so after it.
\<close>

theorem restart_never_resurrects:
  assumes "mirrored s0" "wf_store s0" "fresh_run H ops s0" "filed_run H ops s0"
    and "s = token_run H ops s0" "db s = Some d"
  shows "set (tokens (init_db now d e)) \<subseteq> set (tokens s)
    \<and> set (oauth_tokens (init_db now d e)) \<subseteq> set (oauth_tokens s)
    \<and> refresh_tokens (init_db now d e) =
        dmap (\<lambda>r. r\<lparr>rt_used_at := 0, rt_replay := None\<rparr>) (dkeep (\<lambda>r. now < rt_expires_at r) (refresh_tokens s))"
proof -
  have "wf_store s" unfolding assms(5) using assms(2,3) by (rule wf_store_run)
  have "mirrored s" unfolding assms(5) using assms(1,2,4) by (intro mirrored_run) (auto simp: wf_store_def)
  then have "mirrors d s" using assms(6) by (auto simp: mirrored_def)
  then show ?thesis using restart_tables [OF \<open>wf_store s\<close>, of d now e] by (auto simp: mirrors_def)
qed

lemma restart_never_resurrects_witness:
  "refresh_tokens (init_db 30 (the (db (token_run (\<lambda>t. t) [Issue_oauth ''c'' (Some ''f'') ''a1'' ''r1'' 0 0 0,
     Refresh ''r1'' ''c'' ''a2'' ''r2'' 10 10 10] empty_store))) empty_store) =
   dmap (\<lambda>r. r\<lparr>rt_used_at := 0, rt_replay := None\<rparr>) (dkeep (\<lambda>r. 30 < rt_expires_at r)
     (refresh_tokens (token_run (\<lambda>t. t) [Issue_oauth ''c'' (Some ''f'') ''a1'' ''r1'' 0 0 0,
     Refresh ''r1'' ''c'' ''a2'' ''r2'' 10 10 10] empty_store)))"
proof -
  let ?ops = "[Issue_oauth ''c'' (Some ''f'') ''a1'' ''r1'' 0 0 0, Refresh ''r1'' ''c'' ''a2'' ''r2'' 10 10 10]"
  let ?s = "token_run (\<lambda>t. t) ?ops empty_store"
  have "mirrored ?s"
    by (rule mirrored_run [OF empty_store_wf(4)]) (use empty_store_wf(1) in \<open>auto simp: wf_store_def\<close>)
  then have "db ?s = Some (the (db ?s))" by (auto simp: mirrored_def)
  then show ?thesis
    using restart_never_resurrects [OF empty_store_wf(4,1), of "\<lambda>t. t" ?ops ?s "the (db ?s)" 30 empty_store]
    by (simp add: empty_store_wf)
qed



text \<open>
  The start-up migration bounds every refresh row of an old file by the end of its
  family, and every bearer by the ends of its family's rows; a row that had no end gets one
  at most 24 hours after it was created; no row is added or taken away; and running the
  migration again changes nothing.
\<close>

theorem migration_bounds_sessions:
  "(\<forall>r \<in> set (dvals (refresh_rows (bound_legacy_sessions d))).
      \<exists>e. rr_family_expires_at r = Some e \<and> rr_expires_at r \<le> e)
   \<and> (\<forall>h r r'. dget (refresh_rows d) h = Some r \<and> rr_family_expires_at r = None
        \<and> dget (refresh_rows (bound_legacy_sessions d)) h = Some r' \<longrightarrow> rr_expires_at r' \<le> rr_created_at r + 86400)
   \<and> (\<forall>h a f e. dget (oauth_rows (bound_legacy_sessions d)) h = Some a \<and> at_family_id a = Some f
        \<and> e \<in> set (family_ends (refresh_rows (bound_legacy_sessions d)) f) \<longrightarrow> at_expires_at a \<le> At e)
   \<and> dkeys (refresh_rows (bound_legacy_sessions d)) = dkeys (refresh_rows d)
   \<and> dkeys (oauth_rows (bound_legacy_sessions d)) = dkeys (oauth_rows d)
   \<and> bound_legacy_sessions (bound_legacy_sessions d) = bound_legacy_sessions d"
proof (intro conjI allI impI)
  let ?d = "bound_legacy_sessions d"
  note b = bounded_after_migration [of d, unfolded bounded_rows_def]
  show "\<forall>r \<in> set (dvals (refresh_rows ?d)). \<exists>e. rr_family_expires_at r = Some e \<and> rr_expires_at r \<le> e"
    using b by blast
  show "bound_legacy_sessions ?d = ?d" by (rule bound_legacy_id) (rule bounded_after_migration)
  show "dkeys (refresh_rows ?d) = dkeys (refresh_rows d)" "dkeys (oauth_rows ?d) = dkeys (oauth_rows d)"
    by (simp_all add: bound_legacy_sessions_def Let_def)
  fix h r r' assume r: "dget (refresh_rows d) h = Some r \<and> rr_family_expires_at r = None
    \<and> dget (refresh_rows ?d) h = Some r'"
  then have "r' = cap_row (stamp_row (refresh_rows d) r)" by (auto simp: bound_legacy_sessions_def Let_def)
  moreover have "r \<in> set (dvals (refresh_rows d))" using r dget_in by force
  ultimately show "rr_expires_at r' \<le> rr_created_at r + 86400"
    using r family_first_le [of r "refresh_rows d"] by (simp add: cap_row_def stamp_row_def SESSION_LIFETIME_def)
next
  fix h a f e assume a: "dget (oauth_rows (bound_legacy_sessions d)) h = Some a \<and> at_family_id a = Some f
    \<and> e \<in> set (family_ends (refresh_rows (bound_legacy_sessions d)) f)"
  then have "a \<in> set (dvals (oauth_rows (bound_legacy_sessions d)))" using dget_in by force
  then show "at_expires_at a \<le> At e"
    using a bounded_after_migration [of d] unfolding bounded_rows_def by blast
qed

lemma migration_bounds_sessions_witness:
  "bound_legacy_sessions (bound_legacy_sessions
     \<lparr>named_rows = [], oauth_rows = [(''h'', new_access (\<lambda>t. t) ''c'' (Some ''f'') 900000 ''h'' 850000)],
      refresh_rows = [(''r'', \<lparr>rr_token_hash = ''r'', rr_client_id = ''c'', rr_family_id = ''f'',
        rr_expires_at = 999999, rr_created_at = 0, rr_used = False, rr_family_expires_at = None\<rparr>)]\<rparr>)
   = bound_legacy_sessions
     \<lparr>named_rows = [], oauth_rows = [(''h'', new_access (\<lambda>t. t) ''c'' (Some ''f'') 900000 ''h'' 850000)],
      refresh_rows = [(''r'', \<lparr>rr_token_hash = ''r'', rr_client_id = ''c'', rr_family_id = ''f'',
        rr_expires_at = 999999, rr_created_at = 0, rr_used = False, rr_family_expires_at = None\<rparr>)]\<rparr>"
  by (rule migration_bounds_sessions [THEN conjunct2, THEN conjunct2, THEN conjunct2, THEN conjunct2, THEN conjunct2])

text \<open>
  Logging out of an OAuth session: revoking a bearer of a refresh family succeeds, takes
  every refresh token of the family out of the store and no other, cuts the presented bearer
  to eight seconds, and leaves every other bearer as it was, the other bearers of the same
  family included.
\<close>

theorem logout_of_oauth_session:
  assumes "dget (tokens s) tok = None" "dget (oauth_tokens s) (H tok) = Some a" "at_family_id a = Some f"
    and "revoke H tok now s = (ok, s')"
  shows "ok \<and> tokens s' = tokens s \<and> refresh_tokens s' = dkeep (\<lambda>r. rt_family_id r \<noteq> f) (refresh_tokens s)
    \<and> dget (oauth_tokens s') (H tok) = Some (cut_short now a)
    \<and> at_expires_at (cut_short now a) \<le> At (now + 8)
    \<and> (\<forall>h. h \<noteq> H tok \<longrightarrow> dget (oauth_tokens s') h = dget (oauth_tokens s) h)"
  using assms cut_short_le(2) [of now a]
  by (auto simp: revoke_def revoke_oauth_def Let_def REVOKE_GRACE_SECONDS_def)

lemma logout_of_oauth_session_witness:
  "validate (\<lambda>t. t) ''a1'' 5000
     (snd (revoke (\<lambda>t. t) ''a2'' 20 (snd (refresh (\<lambda>t. t) ''r1'' ''c'' ''a2'' ''r2'' 10 10 10 signed_in))))
   = (Some ''c'', snd (revoke (\<lambda>t. t) ''a2'' 20 (snd (refresh (\<lambda>t. t) ''r1'' ''c'' ''a2'' ''r2'' 10 10 10 signed_in))))"
proof -
  let ?s = "snd (refresh (\<lambda>t. t) ''r1'' ''c'' ''a2'' ''r2'' 10 10 10 signed_in)"
  let ?a = "\<lambda>t. new_access (\<lambda>t. t) ''c'' (Some ''f'') 86400 t"
  have s: "dget (tokens ?s) ''a2'' = None" "dget (oauth_tokens ?s) ''a2'' = Some (?a ''a2'' 10)"
    "dget (tokens ?s) ''a1'' = None" "dget (oauth_tokens ?s) ''a1'' = Some (?a ''a1'' 0)"
    "at_family_id (?a ''a2'' 10) = Some ''f''" "\<not> at_expired 5000 (?a ''a1'' 0)"
    by code_simp+
  have "revoke (\<lambda>t. t) ''a2'' 20 ?s = (fst (revoke (\<lambda>t. t) ''a2'' 20 ?s), snd (revoke (\<lambda>t. t) ''a2'' 20 ?s))"
    by simp
  from logout_of_oauth_session [OF s(1,2,5) this] show ?thesis
    using s(3,4,6) by (simp add: validate_def validate_oauth_def) (simp add: new_access_def)
qed

text \<open>
  \<open>prune_unknown_clients\<close> leaves exactly the OAuth tokens of the known clients,
  each as it was, touches no other token, and returns the number of distinct clients it
  found tokens of and does not know.
\<close>

theorem prune_keeps_known_clients:
  "prune_unknown_clients known s = (n, s') \<Longrightarrow>
     oauth_tokens s' = dkeep (\<lambda>a. at_client_id a \<in> set known) (oauth_tokens s)
     \<and> refresh_tokens s' = dkeep (\<lambda>r. rt_client_id r \<in> set known) (refresh_tokens s)
     \<and> tokens s' = tokens s
     \<and> n = card ((at_client_id ` set (dvals (oauth_tokens s)) \<union> rt_client_id ` set (dvals (refresh_tokens s))) - set known)"
proof (intro conjI)
  let ?owners = "remdups (map at_client_id (dvals (oauth_tokens s)) @ map rt_client_id (dvals (refresh_tokens s)))"
  let ?stale = "[cid \<leftarrow> ?owners. cid \<notin> set known]"
  assume "prune_unknown_clients known s = (n, s')"
  then have s': "s' = fold (\<lambda>c s. snd (revoke_client c s)) ?stale s" and n: "n = length ?stale"
    by (simp_all add: prune_unknown_clients_def Let_def)
  have set_stale: "set ?stale = (at_client_id ` set (dvals (oauth_tokens s)) \<union> rt_client_id ` set (dvals (refresh_tokens s))) - set known"
    by auto
  have same: "dkeep P d = dkeep Q d" if "\<And>v. v \<in> set (dvals d) \<Longrightarrow> P v = Q v" for P Q and d :: "('k, 'v) dict"
    unfolding dkeep_def by (rule filter_cong) (use that in auto)
  show "oauth_tokens s' = dkeep (\<lambda>a. at_client_id a \<in> set known) (oauth_tokens s)"
    unfolding s' revoke_clients_sel set_stale by (rule same) auto
  show "refresh_tokens s' = dkeep (\<lambda>r. rt_client_id r \<in> set known) (refresh_tokens s)"
    unfolding s' revoke_clients_sel set_stale by (rule same) auto
  show "tokens s' = tokens s" unfolding s' by (rule revoke_clients_sel(1))
  have "n = card (set ?stale)" unfolding n by (rule distinct_card [symmetric]) simp
  then show "n = card ((at_client_id ` set (dvals (oauth_tokens s)) \<union> rt_client_id ` set (dvals (refresh_tokens s))) - set known)"
    unfolding set_stale .
qed

lemma prune_keeps_known_clients_witness:
  "oauth_tokens (snd (prune_unknown_clients [''d''] signed_in)) = []"
proof -
  have "prune_unknown_clients [''d''] signed_in =
    (fst (prune_unknown_clients [''d''] signed_in), snd (prune_unknown_clients [''d''] signed_in))" by simp
  from prune_keeps_known_clients [OF this]
  have "oauth_tokens (snd (prune_unknown_clients [''d''] signed_in)) =
    dkeep (\<lambda>a. at_client_id a \<in> set [''d'']) (oauth_tokens signed_in)" by simp
  also have "\<dots> = []" by code_simp
  finally show ?thesis .
qed

end
