(* ===== verification/Single_Use.thy ===== *)
theory Single_Use
  imports Prelude
begin

text \<open>
  The contract that every single-use ticket of the program keeps: OAuth authorization
  codes (\<open>CodeStore\<close>), WebAuthn challenges (\<open>ChallengeStore\<close>), upload links
  (\<open>UploadLinkStore\<close>), registration slugs (\<open>DynamicSlugStore\<close>) and pending
  confirmations (\<open>ConfirmationStore\<close>).  A store is a state type with an operation
  that redeems a ticket and other operations that may mint new ones.  From the laws of
  one step the locale derives what a run of any length promises: a ticket that is not
  minted again is redeemed at most once.
\<close>

datatype ('k, 'a, 'o) ticket_op = Redeem 'k 'a | Other 'o

text \<open>
  The outcomes of a run: for every redemption its ticket and what it returned, in order.
\<close>

fun ticket_run ::
  "('k \<Rightarrow> 'a \<Rightarrow> 's \<Rightarrow> 'r option \<times> 's) \<Rightarrow> ('o \<Rightarrow> 's \<Rightarrow> 's) \<Rightarrow> ('k, 'a, 'o) ticket_op list \<Rightarrow> 's
     \<Rightarrow> ('k \<times> 'r option) list" where
  "ticket_run redeem other [] s = []"
| "ticket_run redeem other (Redeem k a # xs) s =
     (case redeem k a s of (r, s') \<Rightarrow> (k, r) # ticket_run redeem other xs s')"
| "ticket_run redeem other (Other x # xs) s = ticket_run redeem other xs (other x s)"

definition redemptions :: "'k \<Rightarrow> ('k \<times> 'r option) list \<Rightarrow> nat" where
  "redemptions k rs = length [p \<leftarrow> rs. fst p = k \<and> snd p \<noteq> None]"

lemma redemptions_simps [simp]:
  "redemptions k [] = 0"
  "redemptions k ((k', r) # rs) = (if k' = k \<and> r \<noteq> None then Suc (redemptions k rs) else redemptions k rs)"
  by (simp_all add: redemptions_def)

locale single_use =
  fixes redeem :: "'k \<Rightarrow> 'a \<Rightarrow> 's \<Rightarrow> 'r option \<times> 's"
    and other :: "'o \<Rightarrow> 's \<Rightarrow> 's"
    and mints :: "'o \<Rightarrow> 'k \<Rightarrow> bool"
    and live :: "'s \<Rightarrow> 'k \<Rightarrow> bool"
  assumes redeem_live: "redeem k a s = (Some r, s') \<Longrightarrow> live s k"
    and redeem_spends: "redeem k a s = (Some r, s') \<Longrightarrow> \<not> live s' k"
    and redeem_keeps_dead: "\<not> live s k \<Longrightarrow> \<not> live (snd (redeem k' a s)) k"
    and other_keeps_dead: "\<not> live s k \<Longrightarrow> \<not> mints x k \<Longrightarrow> \<not> live (other x s) k"
begin

lemma dead_stays_dead:
  "\<not> live s k \<Longrightarrow> (\<forall>x. Other x \<in> set xs \<longrightarrow> \<not> mints x k) \<Longrightarrow>
     redemptions k (ticket_run redeem other xs s) = 0"
proof (induction xs arbitrary: s)
  case (Cons x xs)
  show ?case
  proof (cases x)
    case (Redeem k' a)
    obtain r s' where r: "redeem k' a s = (r, s')" by (cases "redeem k' a s")
    have dead: "\<not> live s' k" using redeem_keeps_dead [OF Cons.prems(1), of k' a] r by simp
    have "k' = k \<Longrightarrow> r = None" using redeem_live r Cons.prems(1) by (cases r) auto
    with Cons.IH [OF dead] Cons.prems(2) Redeem r show ?thesis by auto
  next
    case (Other y)
    have "\<not> live (other y s) k" using other_keeps_dead Cons.prems Other by auto
    from Cons.IH [OF this] Cons.prems(2) Other show ?thesis by auto
  qed
qed simp

theorem at_most_once:
  "(\<forall>x. Other x \<in> set xs \<longrightarrow> \<not> mints x k) \<Longrightarrow> redemptions k (ticket_run redeem other xs s) \<le> 1"
proof (induction xs arbitrary: s)
  case (Cons x xs)
  show ?case
  proof (cases x)
    case (Redeem k' a)
    obtain r s' where r: "redeem k' a s = (r, s')" by (cases "redeem k' a s")
    show ?thesis
    proof (cases "k' = k \<and> r \<noteq> None")
      case True
      then have "\<not> live s' k" using redeem_spends r by auto
      then show ?thesis using dead_stays_dead [of s' k xs] Cons.prems Redeem r by auto
    next
      case False
      then show ?thesis using Cons Redeem r by auto
    qed
  qed (use Cons in auto)
qed simp

end

text \<open>
  Tickets with a deadline: a redemption carries the clock reading it was made at, and
  succeeds only while the ticket is fresh.
\<close>

locale expiring_single_use = single_use +
  fixes clock :: "'b \<Rightarrow> real"
    and fresh :: "'c \<Rightarrow> 'a \<Rightarrow> real \<Rightarrow> bool"
  assumes redeem_fresh: "redeem k a s = (Some r, s') \<Longrightarrow> fresh s k (clock a)"
begin

lemma stale_refused: "\<not> fresh s k (clock a) \<Longrightarrow> fst (redeem k a s) = None"
  using redeem_fresh by (cases "redeem k a s"; cases "fst (redeem k a s)") auto

end

end
