(* ===== verification/Py_Str.thy ===== *)
theory Py_Str
  imports Prelude "HOL-Library.Sublist"
begin

text \<open>
  The operations of Python's \<open>str\<close> the program uses, on lists of characters.  A
  character is one of the first 256 code points, so header values, which the server decodes
  as Latin-1, are covered exactly: \<open>py_space\<close>, \<open>py_isdigit\<close> and
  \<open>py_lower\<close> follow Python on that range (\<open>isdigit\<close> accepts the superscripts
  two, three and one, which \<open>int\<close> refuses).
\<close>

abbreviation ord :: "char \<Rightarrow> int" where
  "ord c \<equiv> of_char c"

definition py_space :: "char \<Rightarrow> bool" where
  "py_space c \<longleftrightarrow> ord c \<in> {9, 10, 11, 12, 13, 28, 29, 30, 31, 32, 133, 160}"

definition lstrip :: "(char \<Rightarrow> bool) \<Rightarrow> string \<Rightarrow> string" where
  "lstrip P s = dropWhile P s"

definition rstrip :: "(char \<Rightarrow> bool) \<Rightarrow> string \<Rightarrow> string" where
  "rstrip P s = rev (dropWhile P (rev s))"

definition py_strip :: "string \<Rightarrow> string" where
  "py_strip s = rstrip py_space (lstrip py_space s)"

definition ascii_digit :: "char \<Rightarrow> bool" where
  "ascii_digit c \<longleftrightarrow> 48 \<le> ord c \<and> ord c \<le> 57"

definition digit_char :: "char \<Rightarrow> bool" where
  "digit_char c \<longleftrightarrow> ascii_digit c \<or> ord c \<in> {178, 179, 185}"

definition py_isdigit :: "string \<Rightarrow> bool" where
  "py_isdigit s \<longleftrightarrow> s \<noteq> [] \<and> list_all digit_char s"

definition py_isascii :: "string \<Rightarrow> bool" where
  "py_isascii s \<longleftrightarrow> list_all (\<lambda>c. ord c < 128) s"

definition lower_char :: "char \<Rightarrow> char" where
  "lower_char c = (if (65 \<le> ord c \<and> ord c \<le> 90) \<or> (192 \<le> ord c \<and> ord c \<le> 222 \<and> ord c \<noteq> 215)
     then char_of (ord c + 32) else c)"

definition py_lower :: "string \<Rightarrow> string" where
  "py_lower s = map lower_char s"

definition decimal :: "string \<Rightarrow> int" where
  "decimal s = foldl (\<lambda>n c. 10 * n + (ord c - 48)) 0 s"

text \<open>\<open>int(s)\<close> of a string of digits; None is the \<open>ValueError\<close>.\<close>

definition int_of_digits :: "string \<Rightarrow> int option" where
  "int_of_digits s = (if s \<noteq> [] \<and> list_all ascii_digit s then Some (decimal s) else None)"

fun split_on :: "char \<Rightarrow> string \<Rightarrow> string list" where
  "split_on c [] = [[]]"
| "split_on c (x # xs) =
     (if x = c then [] # split_on c xs
      else case split_on c xs of w # ws \<Rightarrow> (x # w) # ws | [] \<Rightarrow> [[x]])"

text \<open>\<open>partition\<close> and \<open>rpartition\<close>; the Boolean says whether the separator is there.\<close>

definition partition_on :: "char \<Rightarrow> string \<Rightarrow> string \<times> bool \<times> string" where
  "partition_on c s =
     (case dropWhile (\<lambda>x. x \<noteq> c) s of
        [] \<Rightarrow> (s, False, [])
      | _ # t \<Rightarrow> (takeWhile (\<lambda>x. x \<noteq> c) s, True, t))"

definition rpartition_on :: "char \<Rightarrow> string \<Rightarrow> string \<times> bool \<times> string" where
  "rpartition_on c s =
     (case partition_on c (rev s) of
        (a, False, b) \<Rightarrow> ([], False, s)
      | (a, True, b) \<Rightarrow> (rev b, True, rev a))"

fun join :: "string \<Rightarrow> string list \<Rightarrow> string" where
  "join sep [] = []"
| "join sep [w] = w"
| "join sep (w # v # ws) = w @ sep @ join sep (v # ws)"

text \<open>\<open>p in s\<close>.\<close>

fun contains :: "string \<Rightarrow> string \<Rightarrow> bool" where
  "contains [] p \<longleftrightarrow> p = []"
| "contains (c # s) p \<longleftrightarrow> prefix p (c # s) \<or> contains s p"

definition count_char :: "char \<Rightarrow> string \<Rightarrow> nat" where
  "count_char c s = length [x \<leftarrow> s. x = c]"

abbreviation startswith :: "string \<Rightarrow> string \<Rightarrow> bool" where
  "startswith s p \<equiv> prefix p s"

abbreviation endswith :: "string \<Rightarrow> string \<Rightarrow> bool" where
  "endswith s p \<equiv> suffix p s"

text \<open>\<open>str(n)\<close> of an integer that is not negative.\<close>

function show_int :: "int \<Rightarrow> string" where
  "show_int n = (if n < 10 then [char_of (48 + n)] else show_int (n div 10) @ [char_of (48 + n mod 10)])"
  by auto
termination by (relation "measure nat") auto

declare show_int.simps [simp del]

text \<open>\<open>repr(s)\<close>.\<close>

definition repr_char :: "char \<Rightarrow> char \<Rightarrow> string" where
  "repr_char q c =
     (let n = ord c; hex = (\<lambda>d. if d < 10 then char_of (48 + d) else char_of (87 + d) :: char)
      in if c = q \<or> n = 92 then [CHR 0x5C, c]
         else if n = 9 then [CHR 0x5C, CHR ''t''] else if n = 10 then [CHR 0x5C, CHR ''n''] else if n = 13 then [CHR 0x5C, CHR ''r'']
         else if n < 32 \<or> (127 \<le> n \<and> n \<le> 160) \<or> n = 173 then [CHR 0x5C, CHR ''x'', hex (n div 16), hex (n mod 16)]
         else [c])"

definition py_repr :: "string \<Rightarrow> string" where
  "py_repr s =
     (let q = (if CHR 0x27 \<in> set s \<and> CHR 0x22 \<notin> set s then CHR 0x22 else CHR 0x27)
      in q # concat (map (repr_char q) s) @ [q])"

subsection \<open>Lemmas\<close>

lemma split_on_not_Nil [simp]: "split_on c s \<noteq> []"
  by (induction s) (auto split: list.splits)

lemma split_on_no_sep: "c \<notin> set s \<Longrightarrow> split_on c s = [s]"
  by (induction s) auto

lemma split_on_append:
  "c \<notin> set s \<Longrightarrow> split_on c (s @ c # t) = s # split_on c t"
  by (induction s) auto

lemma split_on_append_general: "split_on c (s @ c # t) = split_on c s @ split_on c t"
proof (induction s)
  case (Cons x s)
  show ?case
  proof (cases "x = c")
    case False
    obtain w ws where "split_on c s = w # ws" by (cases "split_on c s") auto
    with Cons False show ?thesis by simp
  qed (use Cons in simp)
qed simp

lemma split_on_parts: "w \<in> set (split_on c s) \<Longrightarrow> c \<notin> set w"
proof (induction s arbitrary: w)
  case (Cons x s)
  show ?case
  proof (cases "x = c")
    case True
    then show ?thesis using Cons by auto
  next
    case False
    obtain v vs where v: "split_on c s = v # vs" by (cases "split_on c s") auto
    then have "c \<notin> set v" "\<And>u. u \<in> set vs \<Longrightarrow> c \<notin> set u" using Cons.IH by auto
    with Cons.prems False v show ?thesis by auto
  qed
qed simp

lemma join_split: "join [c] (split_on c s) = s"
proof (induction s)
  case (Cons x s)
  obtain w ws where w: "split_on c s = w # ws" by (cases "split_on c s") auto
  show ?case
  proof (cases "x = c")
    case True
    with w Cons show ?thesis by simp
  next
    case False
    with w Cons show ?thesis by (cases ws) auto
  qed
qed simp

lemma partition_on_no_sep: "c \<notin> set s \<Longrightarrow> partition_on c s = (s, False, [])"
proof -
  assume "c \<notin> set s"
  then have "dropWhile (\<lambda>x. x \<noteq> c) s = []" by (auto simp: dropWhile_eq_Nil_conv)
  then show ?thesis by (simp only: partition_on_def list.case)
qed

lemma partition_on_first: "c \<notin> set s \<Longrightarrow> partition_on c (s @ c # t) = (s, True, t)"
proof -
  assume "c \<notin> set s"
  then have "dropWhile (\<lambda>x. x \<noteq> c) (s @ c # t) = c # t" "takeWhile (\<lambda>x. x \<noteq> c) (s @ c # t) = s"
    by (subst dropWhile_append2, auto) (subst takeWhile_append2, auto)
  then show ?thesis by (simp add: partition_on_def)
qed

lemma rpartition_on_no_sep: "c \<notin> set s \<Longrightarrow> rpartition_on c s = ([], False, s)"
  by (simp add: rpartition_on_def partition_on_no_sep)

lemma rpartition_on_last: "c \<notin> set t \<Longrightarrow> rpartition_on c (s @ c # t) = (s, True, t)"
  using partition_on_first [of c "rev t" "rev s"] by (simp add: rpartition_on_def)

lemma rstrip_suffix: "\<exists>w. s = rstrip P s @ w \<and> list_all P w"
proof -
  have "rev s = takeWhile P (rev s) @ dropWhile P (rev s)" by simp
  then have "s = rstrip P s @ rev (takeWhile P (rev s))" by (metis rev_append rev_rev_ident rstrip_def)
  moreover have "list_all P (rev (takeWhile P (rev s)))"
    by (auto simp: list_all_iff dest: set_takeWhileD)
  ultimately show ?thesis by blast
qed

lemma rstrip_id: "s = [] \<or> \<not> P (last s) \<Longrightarrow> rstrip P s = s"
  by (cases s rule: rev_cases) (auto simp: rstrip_def)

lemma lstrip_id: "s = [] \<or> \<not> P (hd s) \<Longrightarrow> lstrip P s = s"
  by (cases s) (auto simp: lstrip_def)

lemma py_strip_id: "s = [] \<or> \<not> py_space (hd s) \<and> \<not> py_space (last s) \<Longrightarrow> py_strip s = s"
  using lstrip_id [of s py_space] rstrip_id [of s py_space] by (auto simp: py_strip_def)

lemma rstrip_ends: "rstrip P s = [] \<or> \<not> P (last (rstrip P s))"
  using hd_dropWhile [of P "rev s"] by (auto simp: rstrip_def last_rev)

lemma py_strip_hd: "py_strip s = [] \<or> \<not> py_space (hd (py_strip s))"
proof (cases "lstrip py_space s")
  case (Cons c t)
  then have "\<not> py_space c" using hd_dropWhile [of py_space s] by (auto simp: lstrip_def)
  moreover have "hd (rstrip py_space (c # t)) = c" if "rstrip py_space (c # t) \<noteq> []"
    using rstrip_suffix [of "c # t" py_space] that by (cases "rstrip py_space (c # t)") auto
  ultimately show ?thesis by (auto simp: py_strip_def Cons)
qed (simp add: py_strip_def rstrip_def)

lemma py_strip_twice [simp]: "py_strip (py_strip s) = py_strip s"
  using py_strip_hd [of s] rstrip_ends [of py_space "lstrip py_space s"]
  by (intro py_strip_id) (auto simp: py_strip_def)

end
