(* ===== verification/Auth_Codes.thy ===== *)
theory Auth_Codes
  imports Single_Use Py_Str
begin

text \<open>
  OAuth authorization codes: \<open>verify_pkce\<close> and the class \<open>CodeStore\<close> of
  \<open>auth.py\<close>.  \<open>S256\<close> is the base64url SHA-256 of the verifier without
  padding (hashlib and base64); its value is compared as it is, so nothing is assumed of it.
  The two exceptions the function can raise on text that is not ASCII are values of
  \<open>pkce_crash\<close>.
\<close>

record auth_code =
  ac_code :: string
  ac_client_id :: string
  ac_redirect_uri :: string
  ac_code_challenge :: string
  ac_code_challenge_method :: string
  ac_expires_at :: real

datatype pkce_crash = UnicodeEncodeError | CompareTypeError

definition verify_pkce ::
  "(string \<Rightarrow> string) \<Rightarrow> string \<Rightarrow> string \<Rightarrow> string \<Rightarrow> pkce_crash + bool" where
  "verify_pkce S256 code_verifier code_challenge method =
     (if method \<noteq> ''S256'' then Inr False
      else if code_verifier = [] \<or> code_challenge = [] then Inr False
      else if \<not> py_isascii code_verifier then Inl UnicodeEncodeError
      else if \<not> py_isascii code_challenge then Inl CompareTypeError
      else Inr (S256 code_verifier = code_challenge))"

definition CODE_TTL :: real where "CODE_TTL = 60"

type_synonym code_store = "(string, auth_code) dict"

definition ac_expired :: "real \<Rightarrow> auth_code \<Rightarrow> bool" where
  "ac_expired now ac \<longleftrightarrow> ac_expires_at ac < now"

definition code_cleanup :: "real \<Rightarrow> code_store \<Rightarrow> code_store" where
  "code_cleanup now s = dkeep (\<lambda>ac. \<not> ac_expired now ac) s"

text \<open>\<open>issue\<close>: \<open>code\<close> is the value drawn, \<open>now\<close> and \<open>tc\<close> the clock readings.\<close>

definition code_issue ::
  "string \<Rightarrow> string \<Rightarrow> string \<Rightarrow> string \<Rightarrow> string \<Rightarrow> real \<Rightarrow> real \<Rightarrow> code_store \<Rightarrow> string \<times> code_store" where
  "code_issue client_id redirect_uri challenge method code now tc s =
     (let ac = \<lparr>ac_code = code, ac_client_id = client_id, ac_redirect_uri = redirect_uri,
                ac_code_challenge = challenge, ac_code_challenge_method = method,
                ac_expires_at = now + CODE_TTL\<rparr>
      in (code, code_cleanup tc (dset code ac s)))"

definition code_consume ::
  "(string \<Rightarrow> string) \<Rightarrow> string \<Rightarrow> string \<Rightarrow> string \<Rightarrow> string \<Rightarrow> real \<Rightarrow> code_store
     \<Rightarrow> (pkce_crash + bool) \<times> code_store" where
  "code_consume S256 code client_id redirect_uri verifier now s =
     (case dget s code of
        None \<Rightarrow> (Inr False, s)
      | Some ac \<Rightarrow>
          let s' = dpop code s
          in if ac_expired now ac then (Inr False, s')
             else if ac_client_id ac \<noteq> client_id then (Inr False, s')
             else if ac_redirect_uri ac \<noteq> redirect_uri then (Inr False, s')
             else (verify_pkce S256 verifier (ac_code_challenge ac) (ac_code_challenge_method ac), s'))"

subsection \<open>Codes as single-use tickets\<close>

text \<open>The arguments of one redemption: client, redirect URI, verifier and clock reading.\<close>

type_synonym code_claim = "string \<times> string \<times> string \<times> real"

definition redeem_code ::
  "(string \<Rightarrow> string) \<Rightarrow> string \<Rightarrow> code_claim \<Rightarrow> code_store \<Rightarrow> unit option \<times> code_store" where
  "redeem_code S256 code a s =
     (case a of (cid, uri, v, now) \<Rightarrow>
        case code_consume S256 code cid uri v now s of
          (r, s') \<Rightarrow> (if r = Inr True then Some () else None, s'))"

datatype code_op = Issue_code string string string string string real real

fun code_other :: "code_op \<Rightarrow> code_store \<Rightarrow> code_store" where
  "code_other (Issue_code cid uri ch m code now tc) s = snd (code_issue cid uri ch m code now tc s)"

fun code_mints :: "code_op \<Rightarrow> string \<Rightarrow> bool" where
  "code_mints (Issue_code cid uri ch m code now tc) k \<longleftrightarrow> k = code"

definition code_live :: "code_store \<Rightarrow> string \<Rightarrow> bool" where
  "code_live s k \<longleftrightarrow> k \<in> set (dkeys s)"

definition code_fresh :: "code_store \<Rightarrow> string \<Rightarrow> real \<Rightarrow> bool" where
  "code_fresh s k now \<longleftrightarrow> (case dget s k of None \<Rightarrow> False | Some ac \<Rightarrow> \<not> ac_expired now ac)"

lemma code_live_dget: "code_live s k \<longleftrightarrow> dget s k \<noteq> None"
  by (simp add: code_live_def map_of_eq_None_iff)

lemma redeem_code_some:
  assumes "redeem_code S256 k a s = (Some r, s')"
  obtains ac where "dget s k = Some ac" "\<not> ac_expired (snd (snd (snd a))) ac" "s' = dpop k s"
    "ac_client_id ac = fst a" "ac_redirect_uri ac = fst (snd a)"
    "verify_pkce S256 (fst (snd (snd a))) (ac_code_challenge ac) (ac_code_challenge_method ac) = Inr True"
  using assms that
  by (auto simp: redeem_code_def code_consume_def Let_def split: prod.splits option.splits if_splits)

lemma redeem_code_state: "snd (redeem_code S256 k a s) = dpop k s \<or> snd (redeem_code S256 k a s) = s"
  by (auto simp: redeem_code_def code_consume_def Let_def split: prod.splits option.splits if_splits)

interpretation codes: expiring_single_use "redeem_code S256" code_other code_mints code_live
    "\<lambda>a. snd (snd (snd a))" code_fresh for S256
proof unfold_locales
  fix k a s r s' assume r: "redeem_code S256 k a s = (Some r, s')"
  show "code_live s k" "\<not> code_live s' k" "code_fresh s k (snd (snd (snd a)))"
    using r by (auto elim!: redeem_code_some simp: code_live_dget code_fresh_def)
next
  fix s k k' a assume "\<not> code_live s k"
  then show "\<not> code_live (snd (redeem_code S256 k' a s)) k"
    using redeem_code_state [of S256 k' a s] by (auto simp: code_live_dget)
next
  fix s k x assume "\<not> code_live s k" "\<not> code_mints x k"
  then show "\<not> code_live (code_other x s) k"
    by (cases x) (auto simp: code_live_dget code_issue_def code_cleanup_def Let_def dget_dkeep_None)
qed

text \<open>
  An authorization code is exchanged at most once, whatever other codes are issued or
  tried in between and however often it is presented: a failed attempt, even one that
  raises, burns it too.
\<close>

theorem code_redeemed_at_most_once:
  assumes "\<forall>x. Other x \<in> set ops \<longrightarrow> \<not> code_mints x code"
  shows "redemptions code (ticket_run (redeem_code S256) code_other ops s) \<le> 1"
  using assms by (rule codes.at_most_once)

lemma code_redeemed_at_most_once_witness:
  "redemptions ''k'' (ticket_run (redeem_code (\<lambda>v. v)) code_other
     [Redeem ''k'' (''c'', ''u'', ''v'', 5), Redeem ''k'' (''c'', ''u'', ''v'', 6)]
     (snd (code_issue ''c'' ''u'' ''v'' ''S256'' ''k'' 0 0 []))) \<le> 1"
  by (rule code_redeemed_at_most_once) simp

text \<open>
  A code is exchanged exactly for the client, the redirect URI and the PKCE verifier it
  was issued for, within 60 seconds; the code is out of the store afterwards, whatever the
  outcome.
\<close>

theorem code_exchange:
  assumes "snd (code_issue cid uri challenge method code t0 tc s0) = s" "dict_ok s0" "tc \<le> t0 + 60"
  shows "(fst (code_consume S256 code cid' uri' v now s) = Inr True \<longleftrightarrow>
      now \<le> t0 + 60 \<and> cid' = cid \<and> uri' = uri \<and> method = ''S256'' \<and> v \<noteq> [] \<and> challenge \<noteq> []
      \<and> py_isascii v \<and> py_isascii challenge \<and> S256 v = challenge)
    \<and> dget (snd (code_consume S256 code cid' uri' v now s)) code = None"
proof -
  have "dget s code = Some \<lparr>ac_code = code, ac_client_id = cid, ac_redirect_uri = uri,
      ac_code_challenge = challenge, ac_code_challenge_method = method, ac_expires_at = t0 + CODE_TTL\<rparr>"
    using assms by (auto simp: code_issue_def code_cleanup_def dget_dkeep Let_def ac_expired_def CODE_TTL_def)
  then show ?thesis
    by (auto simp: code_consume_def verify_pkce_def ac_expired_def CODE_TTL_def Let_def)
qed

lemma code_exchange_witness:
  "fst (code_consume (\<lambda>v. v) ''k'' ''c'' ''u'' ''v'' 59 (snd (code_issue ''c'' ''u'' ''v'' ''S256'' ''k'' 0 0 [])))
     = Inr True"
  using code_exchange [OF refl, of "[]" 0 0 "\<lambda>v. v" "''k''" "''c''" "''u''" "''v''" 59 "''c''" "''u''" "''v''" "''S256''"]
  by (simp add: py_isascii_def)

end
