(* ===== verification/Client_Store.thy ===== *)
theory Client_Store
  imports Token_Session Py_Str
begin

text \<open>
  The client registry (class \<open>ClientStore\<close> of \<open>auth.py\<close>): OAuth clients in
  memory, the JSON file they share with the command-line tool, two-factor codes with replay
  protection, and the callback that removes the tokens of clients the file dropped.

  \<open>disk\<close> is the file: what \<open>stat\<close> says of it and its content, None when it
  does not exist.  Another process changes it between operations (\<open>Cli_writes\<close>).  A
  save takes the new file's \<open>stat\<close> result as an argument.  The callback the server
  registers is \<open>TokenStore.prune_unknown_clients\<close>; \<open>pruned\<close> is the token
  store it works on, None while no callback is registered.  \<open>V\<close> is
  \<open>pyotp.TOTP(seed).verify(code, for_time=t)\<close>.
\<close>

type_synonym file_sig = "nat \<times> nat \<times> nat"

record client =
  cl_client_id :: string
  cl_secret_hash :: string
  cl_name :: string
  cl_created_at :: real
  cl_totp_secret :: string
  cl_owner :: "string option"
  cl_source :: "string option"
  cl_logo_uri :: "string option"
  cl_client_uri :: "string option"

text \<open>One object of the file's \<open>clients\<close> list: None where the key is missing.\<close>

record client_row =
  cr_client_id :: "string option"
  cr_secret_hash :: "string option"
  cr_name :: "string option"
  cr_created_at :: "real option"
  cr_totp_secret :: "string option"
  cr_owner :: "string option"
  cr_source :: "string option"
  cr_logo_uri :: "string option"
  cr_client_uri :: "string option"

datatype json_file = Broken | Rows "client_row list"

record client_store =
  clients :: "(string, client) dict"
  disk :: "(file_sig \<times> json_file) option"
  disk_sig :: "file_sig option"
  last_totp_step :: "(string, int) dict"
  pruned :: "token_store option"

datatype totp_result = TOTP_OK | TOTP_INVALID | TOTP_REPLAY

subsection \<open>The file\<close>

definition truthy :: "string option \<Rightarrow> bool" where
  "truthy v \<longleftrightarrow> v \<noteq> None \<and> v \<noteq> Some []"

definition stat_sig :: "client_store \<Rightarrow> file_sig option" where
  "stat_sig s = map_option fst (disk s)"

definition row_of_client :: "client \<Rightarrow> client_row" where
  "row_of_client c = \<lparr>cr_client_id = Some (cl_client_id c), cr_secret_hash = Some (cl_secret_hash c),
     cr_name = Some (cl_name c), cr_created_at = Some (cl_created_at c),
     cr_totp_secret = Some (cl_totp_secret c), cr_owner = cl_owner c, cr_source = cl_source c,
     cr_logo_uri = (if truthy (cl_logo_uri c) then cl_logo_uri c else None),
     cr_client_uri = (if truthy (cl_client_uri c) then cl_client_uri c else None)\<rparr>"

definition save :: "file_sig \<Rightarrow> client_store \<Rightarrow> client_store" where
  "save sig s = s\<lparr>disk := Some (sig, Rows (map row_of_client (dvals (clients s)))), disk_sig := Some sig\<rparr>"

text \<open>A row without a seed and without an owner, or with a field missing, is dropped.\<close>

definition client_of_row :: "client_row \<Rightarrow> client option" where
  "client_of_row r =
     (if \<not> truthy (cr_totp_secret r) \<and> \<not> truthy (cr_owner r) then None
      else case (cr_client_id r, cr_secret_hash r, cr_name r, cr_created_at r) of
        (Some i, Some h, Some n, Some t) \<Rightarrow>
          Some \<lparr>cl_client_id = i, cl_secret_hash = h, cl_name = n, cl_created_at = t,
                cl_totp_secret = (case cr_totp_secret r of Some x \<Rightarrow> x | None \<Rightarrow> []),
                cl_owner = cr_owner r, cl_source = cr_source r,
                cl_logo_uri = cr_logo_uri r, cl_client_uri = cr_client_uri r\<rparr>
      | _ \<Rightarrow> None)"

definition load_rows :: "client_row list \<Rightarrow> (string, client) dict" where
  "load_rows rows = fold (\<lambda>r d. case client_of_row r of None \<Rightarrow> d | Some c \<Rightarrow> dset (cl_client_id c) c d) rows []"

text \<open>
  \<open>_load\<close>: None is the exception on a broken file.  \<open>sig\<close> is the stat result
  of the save that follows when a row was dropped.
\<close>

definition load :: "file_sig \<Rightarrow> client_store \<Rightarrow> client_store option" where
  "load sig s =
     (case disk s of
        None \<Rightarrow> Some (s\<lparr>disk_sig := None\<rparr>)
      | Some (sig0, Broken) \<Rightarrow> None
      | Some (sig0, Rows rows) \<Rightarrow>
          (let s1 = s\<lparr>clients := load_rows rows, disk_sig := Some sig0\<rparr>
           in Some (if list_ex (\<lambda>r. client_of_row r = None) rows then save sig s1 else s1)))"

definition maybe_reload :: "file_sig \<Rightarrow> client_store \<Rightarrow> client_store" where
  "maybe_reload sig s =
     (if stat_sig s = None \<or> stat_sig s = disk_sig s then s
      else case load sig s of
        None \<Rightarrow> s\<lparr>disk_sig := stat_sig s\<rparr>
      | Some s1 \<Rightarrow>
          if \<exists>k \<in> set (dkeys (clients s)). k \<notin> set (dkeys (clients s1)) then
            s1\<lparr>pruned := map_option (\<lambda>ts. snd (prune_unknown_clients (dkeys (clients s1)) ts)) (pruned s1)\<rparr>
          else s1)"

subsection \<open>Operations\<close>

definition create_client ::
  "(string \<Rightarrow> string) \<Rightarrow> string \<Rightarrow> string \<Rightarrow> string \<Rightarrow> string \<Rightarrow> real \<Rightarrow> file_sig \<Rightarrow> file_sig \<Rightarrow> client_store
     \<Rightarrow> (string \<times> string \<times> string) \<times> client_store" where
  "create_client H name client_id client_secret seed now sig sig' s =
     (let s1 = maybe_reload sig s;
          c = \<lparr>cl_client_id = client_id, cl_secret_hash = H client_secret, cl_name = name,
               cl_created_at = now, cl_totp_secret = seed, cl_owner = None, cl_source = None,
               cl_logo_uri = None, cl_client_uri = None\<rparr>
      in ((client_id, client_secret, seed),
          save sig' (s1\<lparr>clients := dset client_id c (clients s1)\<rparr>)))"

definition verify_secret ::
  "(string \<Rightarrow> string) \<Rightarrow> string \<Rightarrow> string \<Rightarrow> file_sig \<Rightarrow> client_store \<Rightarrow> bool \<times> client_store" where
  "verify_secret H client_id client_secret sig s =
     (let s1 = maybe_reload sig s
      in ((case dget (clients s1) client_id of
             None \<Rightarrow> False
           | Some c \<Rightarrow> cl_secret_hash c = H client_secret), s1))"

definition client_exists :: "string \<Rightarrow> file_sig \<Rightarrow> client_store \<Rightarrow> bool \<times> client_store" where
  "client_exists client_id sig s =
     (let s1 = maybe_reload sig s in (client_id \<in> set (dkeys (clients s1)), s1))"

definition get_client :: "string \<Rightarrow> file_sig \<Rightarrow> client_store \<Rightarrow> client option \<times> client_store" where
  "get_client client_id sig s =
     (let s1 = maybe_reload sig s in (dget (clients s1) client_id, s1))"

definition get_client_name :: "string \<Rightarrow> file_sig \<Rightarrow> client_store \<Rightarrow> string option \<times> client_store" where
  "get_client_name client_id sig s =
     (let s1 = maybe_reload sig s in (map_option cl_name (dget (clients s1) client_id), s1))"

definition list_clients :: "file_sig \<Rightarrow> client_store
     \<Rightarrow> (string \<times> string \<times> real \<times> string option \<times> string option) list \<times> client_store" where
  "list_clients sig s =
     (let s1 = maybe_reload sig s
      in (map (\<lambda>c. (cl_client_id c, cl_name c, cl_created_at c, cl_owner c, cl_source c)) (dvals (clients s1)), s1))"

definition list_derived :: "string \<Rightarrow> file_sig \<Rightarrow> client_store \<Rightarrow> client list \<times> client_store" where
  "list_derived owner sig s =
     (let s1 = maybe_reload sig s in ([c \<leftarrow> dvals (clients s1). cl_owner c = Some owner], s1))"

text \<open>The seed a client's codes are checked against, and the key its spent steps are filed under.\<close>

definition totp_seed :: "(string, client) dict \<Rightarrow> string \<Rightarrow> client \<Rightarrow> (string \<times> string) option" where
  "totp_seed d client_id c =
     (case cl_owner c of
        Some ow \<Rightarrow>
          (case dget d ow of
             None \<Rightarrow> None
           | Some o' \<Rightarrow> if cl_totp_secret o' = [] then None else Some (cl_totp_secret o', ow))
      | None \<Rightarrow> if cl_totp_secret c = [] then None else Some (cl_totp_secret c, client_id))"

text \<open>The first of the three offsets whose time verifies, as a step.\<close>

definition match_step :: "(string \<Rightarrow> string \<Rightarrow> real \<Rightarrow> bool) \<Rightarrow> string \<Rightarrow> string \<Rightarrow> real \<Rightarrow> int option" where
  "match_step V seed c now =
     map_option (\<lambda>offset. \<lfloor>now / 30\<rfloor> + offset) (find (\<lambda>offset. V seed c (now + of_int offset * 30)) [-1, 0, 1])"

definition check_totp ::
  "(string \<Rightarrow> string \<Rightarrow> real \<Rightarrow> bool) \<Rightarrow> string \<Rightarrow> string \<Rightarrow> real \<Rightarrow> file_sig \<Rightarrow> client_store
     \<Rightarrow> totp_result \<times> client_store" where
  "check_totp V client_id c now sig s =
     (let s1 = maybe_reload sig s
      in case dget (clients s1) client_id of
           None \<Rightarrow> (TOTP_INVALID, s1)
         | Some cl \<Rightarrow>
             if c = [] \<or> \<not> py_isdigit c \<or> length c \<noteq> 6 then (TOTP_INVALID, s1)
             else case totp_seed (clients s1) client_id cl of
               None \<Rightarrow> (TOTP_INVALID, s1)
             | Some (seed, replay_key) \<Rightarrow>
                 (case match_step V seed c now of
                    None \<Rightarrow> (TOTP_INVALID, s1)
                  | Some step \<Rightarrow>
                      (case dget (last_totp_step s1) replay_key of
                         Some l \<Rightarrow>
                           if step \<le> l then (TOTP_REPLAY, s1)
                           else (TOTP_OK, s1\<lparr>last_totp_step := dset replay_key step (last_totp_step s1)\<rparr>)
                       | None \<Rightarrow>
                           (TOTP_OK, s1\<lparr>last_totp_step := dset replay_key step (last_totp_step s1)\<rparr>))))"

definition verify_totp ::
  "(string \<Rightarrow> string \<Rightarrow> real \<Rightarrow> bool) \<Rightarrow> string \<Rightarrow> string \<Rightarrow> real \<Rightarrow> file_sig \<Rightarrow> client_store
     \<Rightarrow> bool \<times> client_store" where
  "verify_totp V client_id c now sig s =
     (case check_totp V client_id c now sig s of (r, s') \<Rightarrow> (r = TOTP_OK, s'))"

definition revoke_stored :: "string \<Rightarrow> file_sig \<Rightarrow> file_sig \<Rightarrow> client_store \<Rightarrow> bool \<times> client_store" where
  "revoke_stored client_id sig sig' s =
     (let s1 = maybe_reload sig s
      in case dget (clients s1) client_id of
           None \<Rightarrow> (False, s1)
         | Some c \<Rightarrow>
             let d = dpop client_id (clients s1);
                 derived = map cl_client_id [x \<leftarrow> dvals d. cl_owner x = Some client_id];
                 d' = (if cl_owner c = None then drop_keys derived d else d)
             in (True, save sig' (s1\<lparr>clients := d'\<rparr>)))"

text \<open>\<open>create_dynamic\<close>: \<open>Inl ()\<close> is the \<open>ValueError\<close> on an unknown owner.\<close>

definition create_dynamic ::
  "(string \<Rightarrow> string) \<Rightarrow> string \<Rightarrow> string \<Rightarrow> string \<Rightarrow> string option \<Rightarrow> string option \<Rightarrow> string \<Rightarrow> string \<Rightarrow> real
     \<Rightarrow> file_sig \<Rightarrow> file_sig \<Rightarrow> client_store \<Rightarrow> (unit + string \<times> string) \<times> client_store" where
  "create_dynamic H owner name source logo uri client_id client_secret now sig sig' s =
     (let s1 = maybe_reload sig s
      in if owner \<notin> set (dkeys (clients s1)) then (Inl (), s1)
         else
           let c = \<lparr>cl_client_id = client_id, cl_secret_hash = H client_secret, cl_name = name,
                    cl_created_at = now, cl_totp_secret = [], cl_owner = Some owner,
                    cl_source = Some source, cl_logo_uri = logo, cl_client_uri = uri\<rparr>
           in (Inr (client_id, client_secret),
               save sig' (s1\<lparr>clients := dset client_id c (clients s1)\<rparr>)))"

end
