(* ===== verification/Client_Props.thy ===== *)
theory Client_Props
  imports Client_Store
begin

text \<open>
  What the client registry promises: a two-factor code step is spent once per seed owner
  over any run, a client the file dropped loses its tokens at the next operation, revoking
  an owner takes its derived clients with it, and a save reads back.
\<close>

subsection \<open>Runs\<close>

datatype client_op =
    Cli_writes "(file_sig \<times> json_file) option"
  | Create_client string string string string real file_sig file_sig
  | Create_dynamic string string string "string option" "string option" string string real file_sig file_sig
  | Revoke_stored string file_sig file_sig
  | Check_totp string string real file_sig
  | Look_up string file_sig

fun client_step ::
  "(string \<Rightarrow> string \<Rightarrow> real \<Rightarrow> bool) \<Rightarrow> (string \<Rightarrow> string) \<Rightarrow> client_op \<Rightarrow> client_store \<Rightarrow> client_store" where
  "client_step V H (Cli_writes f) s = s\<lparr>disk := f\<rparr>"
| "client_step V H (Create_client n i sec seed now sig sig') s = snd (create_client H n i sec seed now sig sig' s)"
| "client_step V H (Create_dynamic ow n src l u i sec now sig sig') s =
     snd (create_dynamic H ow n src l u i sec now sig sig' s)"
| "client_step V H (Revoke_stored i sig sig') s = snd (revoke_stored i sig sig' s)"
| "client_step V H (Check_totp i c now sig) s = snd (check_totp V i c now sig s)"
| "client_step V H (Look_up i sig) s = snd (get_client i sig s)"

text \<open>The seed owner and the step an accepted code spends.\<close>

fun spends :: "(string \<Rightarrow> string \<Rightarrow> real \<Rightarrow> bool) \<Rightarrow> client_op \<Rightarrow> client_store \<Rightarrow> (string \<times> int) option" where
  "spends V (Check_totp i c now sig) s =
     (let d = clients (maybe_reload sig s)
      in if fst (check_totp V i c now sig s) \<noteq> TOTP_OK then None
         else case dget d i of
           None \<Rightarrow> None
         | Some cl \<Rightarrow>
             (case totp_seed d i cl of
                None \<Rightarrow> None
              | Some (seed, key) \<Rightarrow> map_option (Pair key) (match_step V seed c now)))"
| "spends V _ s = None"

fun spent_steps ::
  "(string \<Rightarrow> string \<Rightarrow> real \<Rightarrow> bool) \<Rightarrow> (string \<Rightarrow> string) \<Rightarrow> string \<Rightarrow> client_op list \<Rightarrow> client_store \<Rightarrow> int list" where
  "spent_steps V H k [] s = []"
| "spent_steps V H k (x # xs) s =
     (case spends V x s of
        Some (k', n) \<Rightarrow> if k' = k then [n] else []
      | None \<Rightarrow> []) @ spent_steps V H k xs (client_step V H x s)"

lemma save_sel [simp]:
  "last_totp_step (save sig s) = last_totp_step s" "clients (save sig s) = clients s" "pruned (save sig s) = pruned s"
  by (simp_all add: save_def)

lemma load_steps: "load sig s = Some s1 \<Longrightarrow> last_totp_step s1 = last_totp_step s"
  by (auto simp: load_def Let_def split: option.splits json_file.splits if_splits)

lemma maybe_reload_steps [simp]: "last_totp_step (maybe_reload sig s) = last_totp_step s"
  by (auto simp: maybe_reload_def load_steps split: option.splits)

lemma step_keeps_steps:
  "(\<forall>i c now sig. x \<noteq> Check_totp i c now sig) \<Longrightarrow> last_totp_step (client_step V H x s) = last_totp_step s"
  by (cases x) (auto simp: create_client_def create_dynamic_def revoke_stored_def get_client_def Let_def
                     split: option.splits)

lemma check_totp_steps:
  "last_totp_step (snd (check_totp V i c now sig s)) =
     (case spends V (Check_totp i c now sig) s of
        None \<Rightarrow> last_totp_step s
      | Some (k, n) \<Rightarrow> dset k n (last_totp_step s))"
  by (auto simp: check_totp_def Let_def split: option.splits)

lemma spends_newer:
  assumes "spends V x s = Some (k, n)" "dget (last_totp_step s) k = Some l"
  shows "l < n"
  using assms by (cases x) (auto simp: check_totp_def Let_def split: option.splits if_splits)

lemma client_step_steps:
  "last_totp_step (client_step V H x s) =
     (case spends V x s of
        None \<Rightarrow> last_totp_step s
      | Some (k, n) \<Rightarrow> dset k n (last_totp_step s))"
proof (cases x)
  case (Check_totp i c now sig)
  then show ?thesis by (simp only: client_step.simps check_totp_steps)
qed (simp_all only: step_keeps_steps client_op.distinct simp_thms spends.simps option.case)

lemma spent_steps_newer:
  "dget (last_totp_step s) k = Some l \<Longrightarrow> n \<in> set (spent_steps V H k xs s) \<Longrightarrow> l < n"
proof (induction xs arbitrary: s l)
  case (Cons x xs)
  show ?case
  proof (cases "spends V x s")
    case None
    with Cons.IH [of "client_step V H x s" l] Cons.prems show ?thesis by (simp add: client_step_steps)
  next
    case (Some p)
    obtain k' m where p: "p = (k', m)" by (cases p)
    show ?thesis
    proof (cases "k' = k")
      case True
      with Some p Cons.prems(1) have "l < m" using spends_newer by blast
      moreover have "dget (last_totp_step (client_step V H x s)) k = Some m"
        using Some p True by (simp add: client_step_steps)
      ultimately show ?thesis
        using Cons.IH [of "client_step V H x s" m] Cons.prems(2) Some p True by auto
    next
      case False
      with Some p Cons.IH [of "client_step V H x s" l] Cons.prems show ?thesis by (simp add: client_step_steps)
    qed
  qed
qed simp


subsection \<open>Clients the file dropped\<close>

lemma prune_sel:
  "oauth_tokens (snd (prune_unknown_clients known ts)) =
     dkeep (\<lambda>a. at_client_id a \<notin> (at_client_id ` set (dvals (oauth_tokens ts)) \<union> rt_client_id ` set (dvals (refresh_tokens ts))) - set known)
       (oauth_tokens ts)"
  "refresh_tokens (snd (prune_unknown_clients known ts)) =
     dkeep (\<lambda>r. rt_client_id r \<notin> (at_client_id ` set (dvals (oauth_tokens ts)) \<union> rt_client_id ` set (dvals (refresh_tokens ts))) - set known)
       (refresh_tokens ts)"
  by (simp_all add: prune_unknown_clients_def Let_def set_diff_eq image_comp [symmetric] del: map_map)

text \<open>No OAuth token of the client is left.\<close>

definition no_oauth_of :: "string \<Rightarrow> token_store \<Rightarrow> bool" where
  "no_oauth_of cid ts \<longleftrightarrow>
     (\<forall>a \<in> set (dvals (oauth_tokens ts)). at_client_id a \<noteq> cid)
     \<and> (\<forall>r \<in> set (dvals (refresh_tokens ts)). rt_client_id r \<noteq> cid)"

lemma prune_no_oauth: "cid \<notin> set known \<Longrightarrow> no_oauth_of cid (snd (prune_unknown_clients known ts))"
  by (force simp: no_oauth_of_def prune_sel)

lemma load_some:
  assumes "disk s = Some (sig0, Rows rows)"
  shows "\<exists>s1. load sig s = Some s1 \<and> clients s1 = load_rows rows \<and> pruned s1 = pruned s"
  using assms by (simp add: load_def Let_def)

lemma in_load_rows:
  assumes "cid \<in> set (dkeys (load_rows rows))"
  obtains r c where "r \<in> set rows" "client_of_row r = Some c" "cl_client_id c = cid"
proof -
  have "cid \<in> set (dkeys (fold (\<lambda>r d. case client_of_row r of None \<Rightarrow> d | Some c \<Rightarrow> dset (cl_client_id c) c d) rows d)) \<Longrightarrow>
    cid \<in> set (dkeys d) \<or> (\<exists>r \<in> set rows. \<exists>c. client_of_row r = Some c \<and> cl_client_id c = cid)" for d
  proof (induction rows arbitrary: d)
    case (Cons r rows)
    show ?case using Cons.prems Cons.IH [of "case client_of_row r of None \<Rightarrow> d | Some c \<Rightarrow> dset (cl_client_id c) c d"]
      by (auto split: option.splits simp: dom_update)
  qed simp
  from this [of "[]"] assms that show ?thesis by (auto simp: load_rows_def)
qed

lemma dropped_from_rows:
  assumes "\<forall>r \<in> set rows. cr_client_id r \<noteq> Some cid"
  shows "cid \<notin> set (dkeys (load_rows rows))"
proof
  assume "cid \<in> set (dkeys (load_rows rows))"
  then obtain r c where "r \<in> set rows" "client_of_row r = Some c" "cl_client_id c = cid" by (rule in_load_rows)
  then have "cr_client_id r = Some cid" by (auto simp: client_of_row_def split: option.splits if_splits)
  with \<open>r \<in> set rows\<close> assms show False by blast
qed

lemma file_drops_client:
  assumes "disk s = Some (sig0, Rows rows)" "disk_sig s \<noteq> Some sig0" "\<forall>r \<in> set rows. cr_client_id r \<noteq> Some cid"
  shows "cid \<notin> set (dkeys (clients (maybe_reload sig s)))"
proof -
  obtain s1 where "load sig s = Some s1" "clients s1 = load_rows rows" using load_some [OF assms(1)] by blast
  moreover have "stat_sig s = Some sig0" using assms(1) by (simp add: stat_sig_def)
  moreover have "stat_sig s \<noteq> disk_sig s" using calculation assms(2) by metis
  ultimately show ?thesis using dropped_from_rows[OF assms(3)] by (simp add: maybe_reload_def)
qed

text \<open>
  A client removed with the command-line tool is cut off at the server's next look at
  the registry: when the file was rewritten without it, a lookup no longer finds it, its
  secret is refused, its codes are invalid, and every OAuth bearer and refresh token it
  held is out of the token store.
\<close>

theorem dropped_client_is_cut_off:
  assumes "cid \<in> set (dkeys (clients s))" "disk s = Some (sig0, Rows rows)" "disk_sig s \<noteq> Some sig0"
    and "\<forall>r \<in> set rows. cr_client_id r \<noteq> Some cid" "pruned s = Some ts"
  shows "fst (get_client cid sig s) = None \<and> fst (verify_secret H cid secret sig s) = False
    \<and> fst (check_totp V cid c now sig s) = TOTP_INVALID
    \<and> (\<exists>ts'. pruned (snd (get_client cid sig s)) = Some ts' \<and> no_oauth_of cid ts')"
proof -
  obtain s1 where s1: "load sig s = Some s1" "clients s1 = load_rows rows" "pruned s1 = pruned s"
    using load_some [OF assms(2)] by blast
  have gone: "cid \<notin> set (dkeys (clients s1))" unfolding s1(2) using assms(4) by (rule dropped_from_rows)
  have r: "maybe_reload sig s =
      s1\<lparr>pruned := Some (snd (prune_unknown_clients (dkeys (clients s1)) ts))\<rparr>"
    using assms(1,2,3,5) s1 gone by (auto simp: maybe_reload_def stat_sig_def)
  have "dget (clients s1) cid = None" using gone by (simp add: map_of_eq_None_iff)
  then show ?thesis
    by (simp add: get_client_def verify_secret_def check_totp_def r prune_no_oauth [OF gone])
qed

definition sample_client :: "string \<Rightarrow> string option \<Rightarrow> client" where
  "sample_client i owner = \<lparr>cl_client_id = i, cl_secret_hash = ''h'', cl_name = ''n'', cl_created_at = 0,
     cl_totp_secret = (if owner = None then ''SEED'' else []), cl_owner = owner, cl_source = None,
     cl_logo_uri = None, cl_client_uri = None\<rparr>"

definition sample_registry :: client_store where
  "sample_registry = \<lparr>clients = [(''c'', sample_client ''c'' None), (''d'', sample_client ''d'' (Some ''c''))],
     disk = Some ((9, 9, 9), Rows []), disk_sig = Some (1, 1, 1), last_totp_step = [],
     pruned = Some \<lparr>tokens = [], oauth_tokens = [(''h'', new_access (\<lambda>t. t) ''c'' None 99 ''h'' 0)],
       refresh_tokens = [], db = None, db_writable = True, named_token_ttl = 0, refresh_token_ttl = 60\<rparr>\<rparr>"

lemma dropped_client_is_cut_off_witness:
  "fst (verify_secret (\<lambda>x. x) ''c'' ''h'' (0, 0, 0) sample_registry) = False"
proof -
  have "\<exists>ts. pruned sample_registry = Some ts" by (simp add: sample_registry_def)
  then obtain ts where "pruned sample_registry = Some ts" ..
  then show ?thesis
    using dropped_client_is_cut_off [of "''c''" sample_registry "(9, 9, 9)" "[]" ts "(0, 0, 0)" "\<lambda>x. x" "''h''"
        "\<lambda>s c t. True" "''123456''" 0] by (simp add: sample_registry_def)
qed

subsection \<open>Revoking and saving\<close>

definition registry_ok :: "client_store \<Rightarrow> bool" where
  "registry_ok s \<longleftrightarrow> dict_ok (clients s) \<and> (\<forall>(k, c) \<in> set (clients s). cl_client_id c = k)"

lemma load_rows_ok: "dict_ok (load_rows rows) \<and> (\<forall>(k, c) \<in> set (load_rows rows). cl_client_id c = k)"
proof -
  have "dict_ok d \<and> (\<forall>(k, c) \<in> set d. cl_client_id c = k) \<Longrightarrow>
    dict_ok (fold (\<lambda>r d. case client_of_row r of None \<Rightarrow> d | Some c \<Rightarrow> dset (cl_client_id c) c d) rows d) \<and>
    (\<forall>(k, c) \<in> set (fold (\<lambda>r d. case client_of_row r of None \<Rightarrow> d | Some c \<Rightarrow> dset (cl_client_id c) c d) rows d).
      cl_client_id c = k)" for d
  proof (induction rows arbitrary: d)
    case (Cons r rows)
    show ?case
      using Cons.prems by (simp, intro Cons.IH) (auto split: option.splits dest!: in_dset)
  qed simp
  from this [of "[]"] show ?thesis by (simp add: load_rows_def)
qed

lemma registry_ok_reload:
  assumes "registry_ok s"
  shows "registry_ok (maybe_reload sig s)"
proof (cases "load sig s")
  case None
  with assms show ?thesis by (simp add: maybe_reload_def registry_ok_def)
next
  case (Some s1)
  with assms have "registry_ok s1"
    using load_rows_ok [THEN conjunct1] load_rows_ok [THEN conjunct2, THEN bspec]
    by (fastforce simp: registry_ok_def load_def Let_def split: option.splits json_file.splits if_splits)
  with assms Some show ?thesis by (auto simp: maybe_reload_def registry_ok_def)
qed

text \<open>
  Revoking a client provisioned on the command line removes it and every client derived
  from it, from memory and from the file alike, and leaves every other client as it was;
  revoking a derived client removes that one alone.
\<close>

theorem revoke_takes_derived_clients:
  assumes "registry_ok s" "revoke_stored cid sig sig' s = (True, s')"
    and "dget (clients (maybe_reload sig s)) cid = Some c"
  shows "dget (clients s') k =
      (case dget (clients (maybe_reload sig s)) k of
         None \<Rightarrow> None
       | Some x \<Rightarrow> if k = cid \<or> cl_owner c = None \<and> cl_owner x = Some cid then None else Some x)
    \<and> disk s' = Some (sig', Rows (map row_of_client (dvals (clients s'))))"
proof -
  let ?d = "clients (maybe_reload sig s)"
  let ?derived = "map cl_client_id [x \<leftarrow> dvals (dpop cid ?d). cl_owner x = Some cid]"
  have ok: "dict_ok ?d" "\<And>k x. (k, x) \<in> set ?d \<Longrightarrow> cl_client_id x = k"
    using registry_ok_reload [OF assms(1), of sig] by (auto simp: registry_ok_def)
  have derived: "k \<in> set ?derived \<longleftrightarrow> (\<exists>x. dget ?d k = Some x \<and> k \<noteq> cid \<and> cl_owner x = Some cid)"
    using ok dget_ok [OF ok(1)] by (force simp: image_iff)
  have s': "clients s' = (if cl_owner c = None then drop_keys ?derived (dpop cid ?d) else dpop cid ?d)"
    using assms(2,3) by (auto simp: revoke_stored_def Let_def)
  have "disk s' = Some (sig', Rows (map row_of_client (dvals (clients s'))))"
    using assms(2,3) by (auto simp: revoke_stored_def Let_def save_def)
  moreover have "dget (clients s') k =
      (case dget ?d k of
         None \<Rightarrow> None
       | Some x \<Rightarrow> if k = cid \<or> cl_owner c = None \<and> cl_owner x = Some cid then None else Some x)"
    unfolding s' using derived by (auto split: option.splits simp del: set_map list.set_map)
  ultimately show ?thesis by simp
qed

lemma revoke_takes_derived_clients_witness:
  "dget (clients (snd (revoke_stored ''c'' (2, 2, 2) (3, 3, 3) (sample_registry\<lparr>disk_sig := Some (9, 9, 9)\<rparr>)))) ''d'' = None"
proof -
  let ?s = "sample_registry\<lparr>disk_sig := Some (9, 9, 9)\<rparr>"
  have r: "maybe_reload (2, 2, 2) ?s = ?s" by (simp add: maybe_reload_def stat_sig_def sample_registry_def)
  have c: "dget (clients (maybe_reload (2, 2, 2) ?s)) ''c'' = Some (sample_client ''c'' None)"
    unfolding r by (simp add: sample_registry_def)
  have ok: "registry_ok ?s" by (simp add: registry_ok_def sample_registry_def sample_client_def)
  have "fst (revoke_stored ''c'' (2, 2, 2) (3, 3, 3) ?s)" using c by (simp add: revoke_stored_def Let_def)
  then have "revoke_stored ''c'' (2, 2, 2) (3, 3, 3) ?s = (True, snd (revoke_stored ''c'' (2, 2, 2) (3, 3, 3) ?s))"
    by (metis (full_types) prod.collapse)
  from revoke_takes_derived_clients [OF ok this c, of "''d''"] show ?thesis
    unfolding r by (simp add: sample_registry_def sample_client_def)
qed

lemma client_of_saved_row:
  assumes "cl_totp_secret c \<noteq> [] \<or> truthy (cl_owner c)"
  shows "client_of_row (row_of_client c) =
    Some (c\<lparr>cl_logo_uri := (if truthy (cl_logo_uri c) then cl_logo_uri c else None),
            cl_client_uri := (if truthy (cl_client_uri c) then cl_client_uri c else None)\<rparr>)"
  using assms by (cases c) (auto simp: client_of_row_def row_of_client_def truthy_def)

text \<open>
  What a save writes is what the next load reads: the same clients under the same ids
  in the same order, with an empty logo or home page read back as none.
\<close>

theorem saved_registry_reads_back:
  assumes "registry_ok s" "\<forall>c \<in> set (dvals (clients s)). cl_totp_secret c \<noteq> [] \<or> truthy (cl_owner c)"
  shows "map_option clients (load sig' (save sig s)) =
    Some (dmap (\<lambda>c. c\<lparr>cl_logo_uri := (if truthy (cl_logo_uri c) then cl_logo_uri c else None),
                      cl_client_uri := (if truthy (cl_client_uri c) then cl_client_uri c else None)\<rparr>) (clients s))"
proof -
  let ?n = "\<lambda>c. c\<lparr>cl_logo_uri := (if truthy (cl_logo_uri c) then cl_logo_uri c else None),
                  cl_client_uri := (if truthy (cl_client_uri c) then cl_client_uri c else None)\<rparr>"
  let ?f = "\<lambda>r d. case client_of_row r of None \<Rightarrow> d | Some c \<Rightarrow> dset (cl_client_id c) c d"
  have "fold ?f (map row_of_client (dvals d)) e = e @ dmap ?n d"
    if "dict_ok (e @ dmap ?n d)" "\<forall>(k, c) \<in> set d. cl_client_id c = k"
      "\<forall>c \<in> set (dvals d). cl_totp_secret c \<noteq> [] \<or> truthy (cl_owner c)" for d e
    using that
  proof (induction d arbitrary: e)
    case (Cons p d)
    obtain k c where p: "p = (k, c)" by (cases p)
    have "?f (row_of_client c) e = e @ [(k, ?n c)]"
      using Cons.prems p by (simp add: client_of_saved_row dset_new)
    moreover have "fold ?f (map row_of_client (dvals d)) (e @ [(k, ?n c)]) = (e @ [(k, ?n c)]) @ dmap ?n d"
      by (rule Cons.IH) (use Cons.prems p in auto)
    ultimately show ?case using p by simp
  qed simp
  from this [of "[]" "clients s"] have "load_rows (map row_of_client (dvals (clients s))) = dmap ?n (clients s)"
    using assms by (simp add: load_rows_def registry_ok_def)
  then show ?thesis by (simp add: load_def save_def Let_def)
qed

lemma saved_registry_reads_back_witness:
  "map_option clients (load (2, 2, 2) (save (1, 1, 1) sample_registry)) = Some (clients sample_registry)"
proof -
  have "registry_ok sample_registry" by (simp add: registry_ok_def sample_registry_def sample_client_def)
  from saved_registry_reads_back [OF this, of "(2, 2, 2)" "(1, 1, 1)"] show ?thesis
    by (simp add: sample_registry_def sample_client_def truthy_def)
qed

end
