(* ===== verification/Rate_Limit.thy ===== *)
theory Rate_Limit
  imports Prelude
begin

text \<open>
  The sliding-window limiter in front of the sign-in endpoints (class \<open>RateLimiter\<close> of
  \<open>ratelimit.py\<close>), refined by a log of the accepted requests: the buckets, their
  lazy pruning and the garbage collection never change an answer.  The lock makes each call
  atomic; the clock is monotonic.
\<close>

record rate_limiter =
  rl_limit :: nat
  rl_window :: real
  rl_buckets :: "(string, real list) dict"
  rl_last_gc :: real

definition rate_limiter_init :: "nat \<Rightarrow> real \<Rightarrow> rate_limiter" where
  "rate_limiter_init limit window =
     \<lparr>rl_limit = limit, rl_window = window, rl_buckets = [], rl_last_gc = 0\<rparr>"

definition prune_bucket :: "real \<Rightarrow> real list \<Rightarrow> real list" where
  "prune_bucket cutoff events = dropWhile (\<lambda>t. t \<le> cutoff) events"

definition collect_stale_buckets :: "real \<Rightarrow> rate_limiter \<Rightarrow> rate_limiter" where
  "collect_stale_buckets cutoff s =
     s\<lparr>rl_buckets := dkeep (\<lambda>b. b \<noteq> []) (dmap (prune_bucket cutoff) (rl_buckets s))\<rparr>"

definition rate_check :: "string \<Rightarrow> real \<Rightarrow> rate_limiter \<Rightarrow> bool \<times> rate_limiter" where
  "rate_check key now s =
     (let cutoff = now - rl_window s;
          events = prune_bucket cutoff (case dget (rl_buckets s) key of Some b \<Rightarrow> b | None \<Rightarrow> []);
          s1 = s\<lparr>rl_buckets := dset key events (rl_buckets s)\<rparr>
      in if rl_limit s \<le> length events then (False, s1)
         else
           let s2 = s1\<lparr>rl_buckets := dset key (events @ [now]) (rl_buckets s1)\<rparr>
           in (True,
               if 1024 < length (rl_buckets s2) \<or> rl_window s \<le> now - rl_last_gc s2
               then (collect_stale_buckets cutoff s2)\<lparr>rl_last_gc := now\<rparr> else s2))"

text \<open>\<open>retry_after\<close>: \<open>t1\<close> and \<open>t2\<close> are its two clock readings.\<close>

definition retry_after :: "string \<Rightarrow> real \<Rightarrow> real \<Rightarrow> rate_limiter \<Rightarrow> int \<times> rate_limiter" where
  "retry_after key t1 t2 s =
     (case dget (rl_buckets s) key of
        None \<Rightarrow> (0, s)
      | Some b \<Rightarrow>
          if b = [] then (0, s)
          else
            let events = prune_bucket (t1 - rl_window s) b
            in if events = [] then (0, s\<lparr>rl_buckets := dpop key (rl_buckets s)\<rparr>)
               else (max 0 (py_int (rl_window s - (t2 - hd events)) + 1),
                     s\<lparr>rl_buckets := dset key events (rl_buckets s)\<rparr>))"

subsection \<open>The specification\<close>

text \<open>The accepted requests so far, oldest first; a request passes while fewer than the limit
  were accepted for its key within the window.\<close>

type_synonym rate_log = "(string \<times> real) list"

definition accepted_of :: "string \<Rightarrow> rate_log \<Rightarrow> real list" where
  "accepted_of key lg = map snd [e \<leftarrow> lg. fst e = key]"

definition spec_check :: "nat \<Rightarrow> real \<Rightarrow> string \<Rightarrow> real \<Rightarrow> rate_log \<Rightarrow> bool \<times> rate_log" where
  "spec_check limit window key now lg =
     (if length [t \<leftarrow> accepted_of key lg. now - window < t] < limit then (True, lg @ [(key, now)]) else (False, lg))"

fun rate_run :: "(string \<times> real) list \<Rightarrow> rate_limiter \<Rightarrow> bool list" where
  "rate_run [] s = []"
| "rate_run ((key, now) # xs) s = (case rate_check key now s of (ok, s') \<Rightarrow> ok # rate_run xs s')"

fun spec_run :: "nat \<Rightarrow> real \<Rightarrow> (string \<times> real) list \<Rightarrow> rate_log \<Rightarrow> bool list" where
  "spec_run limit window [] lg = []"
| "spec_run limit window ((key, now) # xs) lg =
     (case spec_check limit window key now lg of (ok, lg') \<Rightarrow> ok # spec_run limit window xs lg')"

text \<open>The requests of a run that passed.\<close>

definition passed :: "(string \<times> real) list \<Rightarrow> bool list \<Rightarrow> (string \<times> real) list" where
  "passed xs oks = map fst [p \<leftarrow> zip xs oks. snd p]"

subsection \<open>The refinement\<close>

definition bucket :: "string \<Rightarrow> rate_limiter \<Rightarrow> real list" where
  "bucket key s = (case dget (rl_buckets s) key of Some b \<Rightarrow> b | None \<Rightarrow> [])"

text \<open>A bucket and the accepted requests of its key agree on the window that ends now.\<close>

definition bucket_ok :: "real \<Rightarrow> real \<Rightarrow> real list \<Rightarrow> real list \<Rightarrow> bool" where
  "bucket_ok now w b l \<longleftrightarrow> sorted b \<and> (\<forall>t \<in> set b. t \<le> now) \<and>
     filter (\<lambda>t. now - w < t) b = filter (\<lambda>t. now - w < t) l"

definition refines :: "real \<Rightarrow> rate_limiter \<Rightarrow> rate_log \<Rightarrow> bool" where
  "refines now s lg \<longleftrightarrow> dict_ok (rl_buckets s) \<and>
     (\<forall>key. bucket_ok now (rl_window s) (bucket key s) (accepted_of key lg))"

lemma prune_sorted: "sorted ts \<Longrightarrow> prune_bucket c ts = filter (\<lambda>t. c < t) ts"
proof (induction ts)
  case (Cons t ts)
  show ?case
  proof (cases "t \<le> c")
    case False
    then have "\<forall>u \<in> set (t # ts). c < u" using Cons.prems by force
    then have "filter (\<lambda>t. c < t) (t # ts) = t # ts" by (simp add: filter_id_conv)
    with False show ?thesis by (simp add: prune_bucket_def)
  qed (use Cons in \<open>simp add: prune_bucket_def\<close>)
qed (simp add: prune_bucket_def)

lemma filter_later: "(c :: real) \<le> d \<Longrightarrow> filter (\<lambda>t. d < t) (filter (\<lambda>t. c < t) ts) = filter (\<lambda>t. d < t) ts"
  by (induction ts) auto

lemma bucket_ok_later:
  assumes "bucket_ok t0 w b l" "t0 \<le> now"
  shows "bucket_ok now w b l"
proof -
  have "filter (\<lambda>t. now - w < t) b = filter (\<lambda>t. now - w < t) (filter (\<lambda>t. t0 - w < t) b)"
    using assms(2) by (simp only: filter_later)
  also have "\<dots> = filter (\<lambda>t. now - w < t) (filter (\<lambda>t. t0 - w < t) l)"
    using assms(1) by (simp only: bucket_ok_def)
  also have "\<dots> = filter (\<lambda>t. now - w < t) l" using assms(2) by (simp only: filter_later)
  finally show ?thesis using assms by (force simp: bucket_ok_def)
qed

lemma bucket_ok_filter:
  assumes "bucket_ok now w b l"
  shows "bucket_ok now w (filter (\<lambda>t. now - w < t) b) l"
proof -
  have "sorted b" "\<forall>t \<in> set b. t \<le> now" using assms by (simp_all add: bucket_ok_def)
  then have "sorted (filter (\<lambda>t. now - w < t) b)" "\<forall>t \<in> set (filter (\<lambda>t. now - w < t) b). t \<le> now"
    by (auto simp: sorted_wrt_filter)
  moreover have "filter (\<lambda>t. now - w < t) (filter (\<lambda>t. now - w < t) b) = filter (\<lambda>t. now - w < t) l"
    using assms by (simp only: bucket_ok_def filter_later)
  ultimately show ?thesis by (simp only: bucket_ok_def simp_thms)
qed

lemma bucket_ok_snoc: "bucket_ok now w b l \<Longrightarrow> bucket_ok now w (b @ [now]) (l @ [now])"
  by (auto simp: bucket_ok_def sorted_append)

lemma bucket_ok_prune: "bucket_ok now w b l \<Longrightarrow> prune_bucket (now - w) b = filter (\<lambda>t. now - w < t) b"
  by (simp add: bucket_ok_def prune_sorted)

lemma bucket_ok_pruned: "bucket_ok now w b l \<Longrightarrow> bucket_ok now w (prune_bucket (now - w) b) l"
  using bucket_ok_filter bucket_ok_prune by metis

lemma prune_Nil [simp]: "prune_bucket c [] = []"
  by (simp add: prune_bucket_def)

lemma accepted_of_snoc: "accepted_of key (lg @ [(k, t)]) = accepted_of key lg @ (if k = key then [t] else [])"
  by (simp add: accepted_of_def)

lemma bucket_collect:
  assumes "dict_ok (rl_buckets s)"
  shows "bucket key (collect_stale_buckets c s) = prune_bucket c (bucket key s)"
proof -
  have "dict_ok (dmap (prune_bucket c) (rl_buckets s))" using assms by simp
  then show ?thesis
    by (cases "dget (rl_buckets s) key")
       (simp_all add: bucket_def collect_stale_buckets_def dget_dkeep)
qed

lemma collect_sel [simp]:
  "rl_limit (collect_stale_buckets c s) = rl_limit s" "rl_window (collect_stale_buckets c s) = rl_window s"
  by (simp_all add: collect_stale_buckets_def)

lemma collect_dict [simp]: "dict_ok (rl_buckets s) \<Longrightarrow> dict_ok (rl_buckets (collect_stale_buckets c s))"
  unfolding collect_stale_buckets_def using dict_ok_dkeep [of "dmap (prune_bucket c) (rl_buckets s)"] by simp

lemma refines_collect:
  "refines now s lg \<Longrightarrow> c = now - rl_window s \<Longrightarrow> refines now (collect_stale_buckets c s) lg"
  by (auto simp: refines_def bucket_collect intro: bucket_ok_pruned)

text \<open>One check answers as the specification does, and keeps the correspondence.\<close>

lemma rate_check_refines:
  assumes R: "refines t0 s lg" and t: "t0 \<le> now"
    and check: "rate_check key now s = (ok, s')" and spec: "spec_check (rl_limit s) (rl_window s) key now lg = (ok', lg')"
  shows "ok = ok' \<and> refines now s' lg' \<and> rl_limit s' = rl_limit s \<and> rl_window s' = rl_window s"
proof -
  let ?c = "now - rl_window s"
  let ?e = "filter (\<lambda>t. ?c < t) (bucket key s)"
  have R: "dict_ok (rl_buckets s)" "bucket_ok now (rl_window s) (bucket k s) (accepted_of k lg)" for k
    using R t by (auto simp: refines_def intro: bucket_ok_later)
  have e: "prune_bucket ?c (case dget (rl_buckets s) key of Some b \<Rightarrow> b | None \<Rightarrow> []) = ?e"
    using bucket_ok_prune [OF R(2)] by (simp add: bucket_def)
  have eq: "?e = filter (\<lambda>t. ?c < t) (accepted_of key lg)" using R(2) by (simp add: bucket_ok_def)
  let ?s1 = "s\<lparr>rl_buckets := dset key ?e (rl_buckets s)\<rparr>"
  let ?s2 = "s\<lparr>rl_buckets := dset key (?e @ [now]) (dset key ?e (rl_buckets s))\<rparr>"
  have b: "bucket k ?s1 = (if k = key then ?e else bucket k s)"
    "bucket k ?s2 = (if k = key then ?e @ [now] else bucket k s)" for k by (simp_all add: bucket_def)
  note be = bucket_ok_filter [OF R(2)]
  have r1: "refines now ?s1 lg" unfolding refines_def b using R be by simp
  have r2: "refines now ?s2 (lg @ [(key, now)])"
    unfolding refines_def b accepted_of_snoc using R be bucket_ok_snoc by simp
  show ?thesis
  proof (cases "rl_limit s \<le> length ?e")
    case True
    then have "s' = ?s1" "\<not> ok" using check by (auto simp: rate_check_def Let_def e)
    moreover have "\<not> ok'" "lg' = lg" using spec True eq by (auto simp: spec_check_def split: if_splits)
    ultimately show ?thesis using r1 by auto
  next
    case False
    let ?gc = "(collect_stale_buckets ?c ?s2)\<lparr>rl_last_gc := now\<rparr>"
    have "s' = ?s2 \<or> s' = ?gc" "ok"
      using check False by (auto simp: rate_check_def Let_def e split: if_splits)
    moreover have "ok'" "lg' = lg @ [(key, now)]" using spec False eq by (auto simp: spec_check_def split: if_splits)
    moreover have "refines now (collect_stale_buckets ?c ?s2) (lg @ [(key, now)])" by (rule refines_collect [OF r2]) simp
    then have "refines now ?gc (lg @ [(key, now)])" by (simp add: refines_def bucket_def)
    ultimately show ?thesis using r2 by auto
  qed
qed

lemma rate_run_refines:
  "refines t0 s lg \<Longrightarrow> sorted (t0 # map snd xs) \<Longrightarrow>
     rate_run xs s = spec_run (rl_limit s) (rl_window s) xs lg"
proof (induction xs arbitrary: s lg t0)
  case (Cons x xs)
  obtain key now where x: "x = (key, now)" by (cases x)
  obtain ok s' where c: "rate_check key now s = (ok, s')" by (cases "rate_check key now s")
  obtain ok' lg' where sp: "spec_check (rl_limit s) (rl_window s) key now lg = (ok', lg')"
    by (cases "spec_check (rl_limit s) (rl_window s) key now lg")
  have "t0 \<le> now" using Cons.prems(2) x by simp
  from rate_check_refines [OF Cons.prems(1) this c sp]
  have r: "ok = ok'" "refines now s' lg'" "rl_limit s' = rl_limit s" "rl_window s' = rl_window s" by auto
  have "rate_run xs s' = spec_run (rl_limit s) (rl_window s) xs lg'"
    using Cons.IH [OF r(2)] Cons.prems(2) r(3,4) x by simp
  with x c sp r(1) show ?case by simp
qed simp

subsection \<open>The properties\<close>

text \<open>
  C27: The limiter is its specification: for any sequence of requests in clock order, with any
  mix of keys, it answers exactly as the log that counts the accepted requests of the key
  within the window; pruning and garbage collection are never visible.
\<close>

theorem limiter_refines_log:
  "sorted (t0 # map snd xs) \<Longrightarrow> rate_run xs (rate_limiter_init limit window) = spec_run limit window xs []"
  using rate_run_refines [of t0 "rate_limiter_init limit window" "[]" xs]
  by (simp add: refines_def rate_limiter_init_def bucket_def bucket_ok_def accepted_of_def)

lemma limiter_refines_log_witness:
  "rate_run [(''a'', 1), (''a'', 2), (''b'', 2), (''a'', 3), (''a'', 12)] (rate_limiter_init 2 10) =
     [True, True, True, False, True]"
proof -
  have "sorted (0 # map snd [(''a'', 1 :: real), (''a'', 2), (''b'', 2), (''a'', 3), (''a'', 12)])" by simp
  from limiter_refines_log [OF this, of 2 10] show ?thesis by (simp add: spec_check_def accepted_of_def)
qed

lemma length_filter_imp: "(\<And>t. P t \<Longrightarrow> Q t) \<Longrightarrow> length (filter P ts) \<le> length (filter Q ts)"
  by (induction ts) (auto simp: le_SucI)

lemma spec_window:
  assumes "\<forall>x. length [t \<leftarrow> accepted_of key lg. x - window < t \<and> t \<le> x] \<le> limit"
    and "sorted (map snd xs)" "\<forall>t \<in> set (accepted_of key lg). \<forall>u \<in> set (map snd xs). t \<le> u"
  shows "length [t \<leftarrow> accepted_of key (lg @ passed xs (spec_run limit window xs lg)). x - window < t \<and> t \<le> x] \<le> limit"
  using assms
proof (induction xs arbitrary: lg)
  case (Cons y xs)
  obtain k now where y: "y = (k, now)" by (cases y)
  let ?lg' = "lg @ [(k, now)]"
  show ?case
  proof (cases "length [t \<leftarrow> accepted_of k lg. now - window < t] < limit")
    case False
    then show ?thesis using Cons.IH [of lg] Cons.prems y by (simp add: spec_check_def passed_def)
  next
    case True
    have w: "\<forall>x. length [t \<leftarrow> accepted_of key ?lg'. x - window < t \<and> t \<le> x] \<le> limit"
    proof
      fix x
      show "length [t \<leftarrow> accepted_of key ?lg'. x - window < t \<and> t \<le> x] \<le> limit"
      proof (cases "k = key \<and> x - window < now \<and> now \<le> x")
        case now: True
        have "length [t \<leftarrow> accepted_of key lg. x - window < t \<and> t \<le> x] \<le> length [t \<leftarrow> accepted_of key lg. now - window < t]"
          using now by (intro length_filter_imp) simp
        with True now show ?thesis by (simp add: accepted_of_snoc)
      next
        case False
        with Cons.prems(1) show ?thesis by (auto simp: accepted_of_snoc)
      qed
    qed
    have "\<forall>t \<in> set (accepted_of key ?lg'). \<forall>u \<in> set (map snd xs). t \<le> u"
      using Cons.prems(2,3) y by (auto simp: accepted_of_snoc)
    from Cons.IH [OF w _ this] Cons.prems(2) True y show ?thesis
      by (simp add: spec_check_def passed_def)
  qed
qed (simp add: passed_def)

text \<open>
  The limit holds in every window, not only in aligned ones: of the requests of one key
  that pass, at most \<open>limit\<close> fall into any period of \<open>window\<close> seconds.
\<close>

theorem limit_in_every_window:
  assumes "sorted (t0 # map snd xs)"
  shows "length [t \<leftarrow> accepted_of key (passed xs (rate_run xs (rate_limiter_init limit window))).
           x - window < t \<and> t \<le> x] \<le> limit"
proof -
  have "rate_run xs (rate_limiter_init limit window) = spec_run limit window xs []"
    using rate_run_refines [of t0 "rate_limiter_init limit window" "[]" xs] assms
    by (simp add: refines_def rate_limiter_init_def bucket_def bucket_ok_def accepted_of_def)
  with spec_window [where key = key and lg = "[]" and window = window and limit = limit and xs = xs and x = x] assms show ?thesis by (simp add: accepted_of_def)
qed

lemma limit_in_every_window_witness:
  "length [t \<leftarrow> accepted_of ''a'' (passed [(''a'', 1), (''a'', 2), (''a'', 3)]
     (rate_run [(''a'', 1), (''a'', 2), (''a'', 3)] (rate_limiter_init 2 10))). 5 - 10 < t \<and> t \<le> 5] \<le> 2"
  by (rule limit_in_every_window [of 0]) simp

end
