(* ===== verification/Totp_Lockout.thy ===== *)
theory Totp_Lockout
  imports Prelude
begin

text \<open>
  The two-factor brute-force lockout (class \<open>TotpLockout\<close> of \<open>ratelimit.py\<close>):
  strikes per (client, source) and per client, and the sources that entered a valid code
  lately.  \<open>strikes_at\<close> and \<open>good_at\<close> read the state at a time, and each
  operation is characterised by what it does to these readings: the garbage collection and
  the lazy deletions never show.
\<close>

datatype strike_key = Src string string | Client string

record totp_lockout =
  tl_per_source :: nat
  tl_per_client :: nat
  tl_lockout :: real
  tl_known_good_ttl :: real
  tl_strikes :: "(strike_key, nat \<times> real) dict"
  tl_known_good :: "(strike_key, real) dict"

definition totp_lockout_init :: "nat \<Rightarrow> nat \<Rightarrow> real \<Rightarrow> real \<Rightarrow> totp_lockout" where
  "totp_lockout_init per_source per_client lockout known_good =
     \<lparr>tl_per_source = per_source, tl_per_client = per_client, tl_lockout = lockout,
      tl_known_good_ttl = known_good, tl_strikes = [], tl_known_good = []\<rparr>"

definition src_key :: "string \<Rightarrow> string option \<Rightarrow> strike_key" where
  "src_key client_id ip = Src client_id (case ip of None \<Rightarrow> ''-'' | Some a \<Rightarrow> if a = [] then ''-'' else a)"

definition count_locked :: "strike_key \<Rightarrow> real \<Rightarrow> totp_lockout \<Rightarrow> nat \<times> totp_lockout" where
  "count_locked key now s =
     (case dget (tl_strikes s) key of
        None \<Rightarrow> (0, s)
      | Some (count, until) \<Rightarrow>
          if until \<le> now then (0, s\<lparr>tl_strikes := dpop key (tl_strikes s)\<rparr>) else (count, s))"

definition is_known_good :: "strike_key \<Rightarrow> real \<Rightarrow> totp_lockout \<Rightarrow> bool \<times> totp_lockout" where
  "is_known_good key now s =
     (case dget (tl_known_good s) key of
        None \<Rightarrow> (False, s)
      | Some until \<Rightarrow>
          if until \<le> now then (False, s\<lparr>tl_known_good := dpop key (tl_known_good s)\<rparr>) else (True, s))"

definition locked :: "string \<Rightarrow> string option \<Rightarrow> real \<Rightarrow> totp_lockout \<Rightarrow> bool \<times> totp_lockout" where
  "locked client_id ip now s =
     (let src = src_key client_id ip; (n, s1) = count_locked src now s
      in if tl_per_source s \<le> n then (True, s1)
         else let (good, s2) = is_known_good src now s1
              in if good then (False, s2)
                 else let (m, s3) = count_locked (Client client_id) now s2 in (tl_per_client s \<le> m, s3))"

definition add_strike :: "real \<Rightarrow> strike_key \<Rightarrow> totp_lockout \<Rightarrow> totp_lockout" where
  "add_strike now key s =
     (let (n, s1) = count_locked key now s
      in s1\<lparr>tl_strikes := dset key (n + 1, now + tl_lockout s) (tl_strikes s1)\<rparr>)"

definition record_failure :: "string \<Rightarrow> string option \<Rightarrow> real \<Rightarrow> totp_lockout \<Rightarrow> totp_lockout" where
  "record_failure client_id ip now s =
     (let s1 = fold (add_strike now) [Client client_id, src_key client_id ip] s
      in if 4096 < length (tl_strikes s1)
         then s1\<lparr>tl_strikes := dkeep (\<lambda>(n, until). \<not> until \<le> now) (tl_strikes s1)\<rparr> else s1)"

text \<open>Python's \<open>min\<close> takes the first key with the least value.\<close>

fun oldest_key :: "('k, real) dict \<Rightarrow> 'k \<Rightarrow> real \<Rightarrow> 'k" where
  "oldest_key [] k v = k"
| "oldest_key ((k', v') # d) k v = (if v' < v then oldest_key d k' v' else oldest_key d k v)"

fun min_key :: "('k, real) dict \<Rightarrow> 'k option" where
  "min_key [] = None"
| "min_key ((k, v) # d) = Some (oldest_key d k v)"

lemma oldest_key_in: "oldest_key d k v = k \<or> oldest_key d k v \<in> set (dkeys d)"
  by (induction d k v rule: oldest_key.induct) auto

lemma min_key_in: "min_key d = Some k \<Longrightarrow> k \<in> set (dkeys d)"
proof (induction d rule: min_key.induct)
  case (2 k' v' d)
  then show ?case using oldest_key_in [of d k' v'] by auto
qed simp

lemma length_dpop_less: "k \<in> set (dkeys d) \<Longrightarrow> length (dpop k d) < length d"
proof (induction d)
  case (Cons p d)
  then show ?case using length_delete_le [of k d] by (cases p) (auto simp: le_imp_less_Suc)
qed simp

text \<open>The loop that forgets the oldest sources until at most \<open>n\<close> are left.\<close>

function trim_oldest :: "nat \<Rightarrow> ('k, real) dict \<Rightarrow> ('k, real) dict" where
  "trim_oldest n d =
     (if n < length d then
        (case min_key d of Some k \<Rightarrow> trim_oldest n (dpop k d) | None \<Rightarrow> d)
      else d)"
  by auto
termination
  by (relation "measure (\<lambda>(n, d). length d)") (auto dest!: min_key_in intro: length_dpop_less)

declare trim_oldest.simps [simp del]

definition record_success :: "string \<Rightarrow> string option \<Rightarrow> real \<Rightarrow> totp_lockout \<Rightarrow> totp_lockout" where
  "record_success client_id ip now s =
     (let src = src_key client_id ip;
          good = dset src (now + tl_known_good_ttl s) (tl_known_good s)
      in s\<lparr>tl_strikes := dpop src (tl_strikes s),
           tl_known_good :=
             (if 4096 < length good then trim_oldest 4096 (dkeep (\<lambda>until. \<not> until \<le> now) good) else good)\<rparr>)"

subsection \<open>What each operation does to the readings\<close>

definition strikes_at :: "totp_lockout \<Rightarrow> strike_key \<Rightarrow> real \<Rightarrow> nat" where
  "strikes_at s key now =
     (case dget (tl_strikes s) key of None \<Rightarrow> 0 | Some (n, until) \<Rightarrow> if until \<le> now then 0 else n)"

definition good_at :: "totp_lockout \<Rightarrow> strike_key \<Rightarrow> real \<Rightarrow> bool" where
  "good_at s key now = (case dget (tl_known_good s) key of None \<Rightarrow> False | Some until \<Rightarrow> now < until)"

definition lockout_ok :: "totp_lockout \<Rightarrow> bool" where
  "lockout_ok s \<longleftrightarrow> dict_ok (tl_strikes s) \<and> dict_ok (tl_known_good s)"

text \<open>Two states that read the same from a time on.\<close>

definition reads_same :: "real \<Rightarrow> totp_lockout \<Rightarrow> totp_lockout \<Rightarrow> bool" where
  "reads_same now s s' \<longleftrightarrow> (\<forall>key t. now \<le> t \<longrightarrow> strikes_at s' key t = strikes_at s key t \<and> good_at s' key t = good_at s key t)
     \<and> (lockout_ok s \<longrightarrow> lockout_ok s')
     \<and> tl_per_source s' = tl_per_source s \<and> tl_per_client s' = tl_per_client s \<and> tl_lockout s' = tl_lockout s
     \<and> tl_known_good_ttl s' = tl_known_good_ttl s \<and> length (tl_known_good s') \<le> length (tl_known_good s)"

lemma reads_same_refl [simp]: "reads_same now s s"
  by (simp add: reads_same_def)

lemma reads_same_trans: "reads_same now s s' \<Longrightarrow> reads_same now s' s'' \<Longrightarrow> reads_same now s s''"
  by (auto simp: reads_same_def)

lemma count_locked_reads:
  "fst (count_locked key now s) = strikes_at s key now" "reads_same now s (snd (count_locked key now s))"
  by (auto simp: count_locked_def strikes_at_def reads_same_def good_at_def lockout_ok_def split: option.splits)

lemma is_known_good_reads:
  "fst (is_known_good key now s) = good_at s key now" "reads_same now s (snd (is_known_good key now s))"
  by (auto simp: is_known_good_def strikes_at_def reads_same_def good_at_def lockout_ok_def length_delete_le
           split: option.splits)

lemma locked_reads:
  "fst (locked client_id ip now s) =
     (tl_per_source s \<le> strikes_at s (src_key client_id ip) now
      \<or> \<not> good_at s (src_key client_id ip) now \<and> tl_per_client s \<le> strikes_at s (Client client_id) now)"
  "reads_same now s (snd (locked client_id ip now s))"
proof -
  let ?src = "src_key client_id ip"
  let ?s1 = "snd (count_locked ?src now s)"
  let ?s2 = "snd (is_known_good ?src now ?s1)"
  let ?s3 = "snd (count_locked (Client client_id) now ?s2)"
  have r1: "reads_same now s ?s1" by (rule count_locked_reads)
  have r2: "reads_same now s ?s2" using r1 is_known_good_reads(2) by (rule reads_same_trans)
  have r3: "reads_same now s ?s3" using r2 count_locked_reads(2) by (rule reads_same_trans)
  have g: "good_at ?s1 ?src now = good_at s ?src now" using r1 by (simp add: reads_same_def)
  have c: "strikes_at ?s2 (Client client_id) now = strikes_at s (Client client_id) now"
    using r2 by (simp add: reads_same_def)
  show "fst (locked client_id ip now s) =
     (tl_per_source s \<le> strikes_at s ?src now
      \<or> \<not> good_at s ?src now \<and> tl_per_client s \<le> strikes_at s (Client client_id) now)"
    using g c by (auto simp: locked_def Let_def split_beta count_locked_reads is_known_good_reads)
  show "reads_same now s (snd (locked client_id ip now s))"
    using r1 r2 r3 by (simp add: locked_def Let_def split_beta)
qed

lemma add_strike_reads:
  "strikes_at (add_strike now key s) k t =
     (if k = key then if now + tl_lockout s \<le> t then 0 else strikes_at s key now + 1
      else strikes_at s k t)"
  "good_at (add_strike now key s) k t = good_at s k t"
  "lockout_ok s \<Longrightarrow> lockout_ok (add_strike now key s)"
  "tl_lockout (add_strike now key s) = tl_lockout s" "tl_known_good (add_strike now key s) = tl_known_good s"
  "tl_per_source (add_strike now key s) = tl_per_source s" "tl_per_client (add_strike now key s) = tl_per_client s"
  by (auto simp: add_strike_def count_locked_def strikes_at_def good_at_def lockout_ok_def Let_def split: option.splits)

lemma strikes_at_gc:
  assumes "dict_ok (tl_strikes s)" "now \<le> t"
  shows "strikes_at (s\<lparr>tl_strikes := dkeep (\<lambda>(n, until). \<not> until \<le> now) (tl_strikes s)\<rparr>) k t = strikes_at s k t"
  using assms by (auto simp: strikes_at_def dget_dkeep split: option.splits)

lemma src_not_client [simp]: "src_key c ip \<noteq> Client c'" "Client c' \<noteq> src_key c ip"
  by (simp_all add: src_key_def)

lemma record_failure_reads:
  assumes ok: "lockout_ok s" and t: "now \<le> t"
  shows "strikes_at (record_failure c ip now s) k t =
     (if k \<in> {Client c, src_key c ip}
      then if now + tl_lockout s \<le> t then 0 else strikes_at s k now + 1
      else strikes_at s k t)"
    and "good_at (record_failure c ip now s) k u = good_at s k u"
    and "lockout_ok (record_failure c ip now s)" "tl_known_good (record_failure c ip now s) = tl_known_good s"
    "tl_per_source (record_failure c ip now s) = tl_per_source s" "tl_per_client (record_failure c ip now s) = tl_per_client s"
    "tl_lockout (record_failure c ip now s) = tl_lockout s"
proof -
  let ?s1 = "add_strike now (src_key c ip) (add_strike now (Client c) s)"
  let ?gc = "?s1\<lparr>tl_strikes := dkeep (\<lambda>(n, until). \<not> until \<le> now) (tl_strikes ?s1)\<rparr>"
  have ok1: "lockout_ok ?s1" using ok by (intro add_strike_reads(3))
  have cases: "record_failure c ip now s = ?s1 \<or> record_failure c ip now s = ?gc"
    by (simp add: record_failure_def Let_def)
  have r1: "strikes_at ?s1 k t =
     (if k \<in> {Client c, src_key c ip} then if now + tl_lockout s \<le> t then 0 else strikes_at s k now + 1
      else strikes_at s k t)"
    by (auto simp: add_strike_reads)
  have "strikes_at ?gc k t = strikes_at ?s1 k t"
    using ok1 t by (intro strikes_at_gc) (simp_all add: lockout_ok_def)
  with r1 cases show "strikes_at (record_failure c ip now s) k t =
     (if k \<in> {Client c, src_key c ip} then if now + tl_lockout s \<le> t then 0 else strikes_at s k now + 1
      else strikes_at s k t)"
    by (elim disjE) simp_all
  have "lockout_ok ?gc" using ok1 by (simp add: lockout_ok_def)
  with ok1 cases show "lockout_ok (record_failure c ip now s)" by auto
  show "good_at (record_failure c ip now s) k u = good_at s k u"
    using cases by (elim disjE) (simp_all add: good_at_def add_strike_reads)
  show "tl_known_good (record_failure c ip now s) = tl_known_good s"
    "tl_per_source (record_failure c ip now s) = tl_per_source s" "tl_per_client (record_failure c ip now s) = tl_per_client s"
    "tl_lockout (record_failure c ip now s) = tl_lockout s"
    using cases by (elim disjE, simp_all add: add_strike_reads)+
qed

lemma trim_oldest_length: "length (trim_oldest n d) \<le> max n (length d)" "length (trim_oldest n d) \<le> n \<or> d = []"
proof -
  have "length (trim_oldest n d) \<le> n \<or> d = []"
  proof (induction n d rule: trim_oldest.induct)
    case (1 n d)
    show ?case
    proof (cases "n < length d")
      case True
      then obtain k where k: "min_key d = Some k" by (cases d) auto
      have "length (trim_oldest n (dpop k d)) \<le> n \<or> dpop k d = []" using 1 [OF True k] .
      then have "length (trim_oldest n (dpop k d)) \<le> n"
        by (auto simp: trim_oldest.simps [of n "[]"])
      with True k show ?thesis by (subst trim_oldest.simps) simp
    next
      case False
      then show ?thesis by (subst trim_oldest.simps) simp
    qed
  qed
  then show "length (trim_oldest n d) \<le> n \<or> d = []" .
  then show "length (trim_oldest n d) \<le> max n (length d)" by (auto simp: trim_oldest.simps [of n "[]"])
qed

lemma record_success_reads:
  assumes "lockout_ok s"
  shows "strikes_at (record_success c ip now s) k t = (if k = src_key c ip then 0 else strikes_at s k t)"
    "tl_per_source (record_success c ip now s) = tl_per_source s" "tl_per_client (record_success c ip now s) = tl_per_client s"
    "tl_lockout (record_success c ip now s) = tl_lockout s"
  by (simp_all add: record_success_def Let_def strikes_at_def)

lemma trim_oldest_dict: "dict_ok d \<Longrightarrow> dict_ok (trim_oldest n d)"
proof (induction n d rule: trim_oldest.induct)
  case (1 n d)
  show ?case
  proof (cases "n < length d")
    case True
    then obtain k where "min_key d = Some k" by (cases d) auto
    with 1 True show ?thesis by (subst trim_oldest.simps) simp
  qed (use 1 in \<open>subst trim_oldest.simps, simp\<close>)
qed

lemma record_success_ok: "lockout_ok s \<Longrightarrow> lockout_ok (record_success c ip now s)"
  by (simp add: lockout_ok_def record_success_def Let_def trim_oldest_dict)

subsection \<open>Runs\<close>

datatype lockout_op = Fail string "string option" real | Success string "string option" real | Check string "string option" real

fun lockout_step :: "lockout_op \<Rightarrow> totp_lockout \<Rightarrow> totp_lockout" where
  "lockout_step (Fail c ip now) s = record_failure c ip now s"
| "lockout_step (Success c ip now) s = record_success c ip now s"
| "lockout_step (Check c ip now) s = snd (locked c ip now s)"

fun op_time :: "lockout_op \<Rightarrow> real" where
  "op_time (Fail c ip now) = now"
| "op_time (Success c ip now) = now"
| "op_time (Check c ip now) = now"

definition lockout_run :: "lockout_op list \<Rightarrow> totp_lockout \<Rightarrow> totp_lockout" where
  "lockout_run ops s = fold lockout_step ops s"

fun fails_client :: "string \<Rightarrow> lockout_op \<Rightarrow> bool" where
  "fails_client c (Fail c' ip now) \<longleftrightarrow> c' = c"
| "fails_client c _ \<longleftrightarrow> False"

fun fails_source :: "strike_key \<Rightarrow> lockout_op \<Rightarrow> bool" where
  "fails_source k (Fail c ip now) \<longleftrightarrow> src_key c ip = k"
| "fails_source k _ \<longleftrightarrow> False"

fun clears :: "strike_key \<Rightarrow> lockout_op \<Rightarrow> bool" where
  "clears k (Success c ip now) \<longleftrightarrow> src_key c ip = k"
| "clears k _ \<longleftrightarrow> False"

lemma lockout_step_ok [simp]:
  assumes "lockout_ok s"
  shows "lockout_ok (lockout_step x s)" "tl_per_source (lockout_step x s) = tl_per_source s"
    "tl_per_client (lockout_step x s) = tl_per_client s" "tl_lockout (lockout_step x s) = tl_lockout s"
proof -
  have "lockout_ok (lockout_step x s) \<and> tl_per_source (lockout_step x s) = tl_per_source s
    \<and> tl_per_client (lockout_step x s) = tl_per_client s \<and> tl_lockout (lockout_step x s) = tl_lockout s"
  proof (cases x)
    case (Fail c ip now)
    with record_failure_reads(3,5,6,7) [OF assms order_refl] show ?thesis by simp
  next
    case (Success c ip now)
    with assms show ?thesis by (simp add: record_success_ok record_success_reads)
  next
    case (Check c ip now)
    with locked_reads(2) [of now s c ip] assms show ?thesis by (simp add: reads_same_def)
  qed
  then show "lockout_ok (lockout_step x s)" "tl_per_source (lockout_step x s) = tl_per_source s"
    "tl_per_client (lockout_step x s) = tl_per_client s" "tl_lockout (lockout_step x s) = tl_lockout s"
    by simp_all
qed

lemma strikes_at_mono: "t \<le> u \<Longrightarrow> strikes_at s k u \<le> strikes_at s k t"
  by (auto simp: strikes_at_def split: option.splits)

abbreviation adds_strike :: "strike_key \<Rightarrow> lockout_op \<Rightarrow> bool" where
  "adds_strike k x \<equiv> (case k of Client c \<Rightarrow> fails_client c x | Src c ip \<Rightarrow> fails_source k x)"

lemma strikes_step_ge:
  assumes ok: "lockout_ok s" and t: "op_time x \<le> t" "t < op_time x + tl_lockout s" and k: "\<not> clears k x"
  shows "strikes_at s k t + (if adds_strike k x then 1 else 0) \<le> strikes_at (lockout_step x s) k t"
proof (cases x)
  case (Fail c ip now)
  have "strikes_at s k t \<le> strikes_at s k now" using t Fail by (simp add: strikes_at_mono)
  then show ?thesis using record_failure_reads(1) [OF ok, of now t c ip k] t Fail by (auto split: strike_key.splits)
next
  case (Check c ip now)
  then show ?thesis using locked_reads(2) [of now s c ip] t by (auto simp: reads_same_def split: strike_key.splits)
next
  case (Success c ip now)
  then show ?thesis using record_success_reads(1) [OF ok] k by (auto split: strike_key.splits)
qed

lemma strikes_run_ge:
  assumes "lockout_ok s" "\<forall>x \<in> set ops. op_time x \<le> t \<and> t < op_time x + tl_lockout s \<and> \<not> clears k x"
  shows "strikes_at s k t + length [x \<leftarrow> ops. adds_strike k x] \<le> strikes_at (lockout_run ops s) k t"
  using assms
proof (induction ops arbitrary: s)
  case (Cons x xs)
  have "strikes_at s k t + (if adds_strike k x then 1 else 0) \<le> strikes_at (lockout_step x s) k t"
    using Cons.prems by (intro strikes_step_ge) auto
  moreover have "strikes_at (lockout_step x s) k t + length [x \<leftarrow> xs. adds_strike k x]
      \<le> strikes_at (lockout_run xs (lockout_step x s)) k t"
    using Cons.prems by (intro Cons.IH) auto
  ultimately show ?case by (auto simp: lockout_run_def split: if_splits)
qed (simp add: lockout_run_def)

lemma lockout_run_ok [simp]:
  assumes "lockout_ok s"
  shows "lockout_ok (lockout_run ops s)" "tl_per_source (lockout_run ops s) = tl_per_source s"
    "tl_per_client (lockout_run ops s) = tl_per_client s"
proof -
  have "lockout_ok (lockout_run ops s) \<and> tl_per_source (lockout_run ops s) = tl_per_source s
    \<and> tl_per_client (lockout_run ops s) = tl_per_client s"
    using assms by (induction ops arbitrary: s) (simp_all add: lockout_run_def)
  then show "lockout_ok (lockout_run ops s)" "tl_per_source (lockout_run ops s) = tl_per_source s"
    "tl_per_client (lockout_run ops s) = tl_per_client s" by simp_all
qed

subsection \<open>The properties\<close>

text \<open>
  C28: Guessing is stopped.  When within one cooldown a source has entered the per-source
  number of wrong codes for a client, with no valid one in between, it is locked out for
  the client; and when the client has taken the per-client number of wrong codes, from
  whatever mix of sources, every source without a recent valid code is locked out, valid
  codes entered elsewhere notwithstanding.
\<close>

theorem wrong_codes_lock_out:
  assumes "lockout_ok s" "\<forall>x \<in> set ops. op_time x \<le> now \<and> now < op_time x + tl_lockout s"
  shows "(tl_per_source s \<le> length [x \<leftarrow> ops. fails_source (src_key c ip) x]
           \<and> (\<forall>x \<in> set ops. \<not> clears (src_key c ip) x) \<longrightarrow> fst (locked c ip now (lockout_run ops s)))
    \<and> (tl_per_client s \<le> length [x \<leftarrow> ops. fails_client c x]
           \<and> \<not> good_at (lockout_run ops s) (src_key c ip) now \<longrightarrow> fst (locked c ip now (lockout_run ops s)))"
proof -
  let ?k = "src_key c ip"
  have adds: "adds_strike ?k x = fails_source ?k x" for x by (simp add: src_key_def)
  have "length [x \<leftarrow> ops. fails_source ?k x] \<le> strikes_at (lockout_run ops s) ?k now"
    if "\<forall>x \<in> set ops. \<not> clears ?k x"
    using strikes_run_ge [OF assms(1), of ops now ?k] assms(2) that by (simp add: adds)
  moreover have "\<not> clears (Client c) x" for x by (cases x) simp_all
  then have "length [x \<leftarrow> ops. fails_client c x] \<le> strikes_at (lockout_run ops s) (Client c) now"
    using strikes_run_ge [OF assms(1), of ops now "Client c"] assms(2) by simp
  ultimately show ?thesis using assms(1) by (auto simp: locked_reads)
qed

lemma wrong_codes_lock_out_witness:
  "fst (locked ''c'' (Some ''i'') 5 (lockout_run [Fail ''c'' (Some ''i'') 1, Fail ''c'' (Some ''j'') 2, Fail ''c'' (Some ''i'') 3]
     (totp_lockout_init 2 10 300 1000)))"
  using wrong_codes_lock_out [of "totp_lockout_init 2 10 300 1000"
      "[Fail ''c'' (Some ''i'') 1, Fail ''c'' (Some ''j'') 2, Fail ''c'' (Some ''i'') 3]" 5 "''c''" "Some ''i''"]
  by (simp add: totp_lockout_init_def lockout_ok_def src_key_def)

lemma good_source_run:
  assumes "lockout_ok s" "\<forall>x \<in> set ops. op_time x \<le> now \<and> \<not> fails_source (src_key c ip) x
      \<and> (\<forall>c' ip' u. x \<noteq> Success c' ip' u)"
    and "good_at s (src_key c ip) now" "strikes_at s (src_key c ip) now < n"
  shows "good_at (lockout_run ops s) (src_key c ip) now \<and> strikes_at (lockout_run ops s) (src_key c ip) now < n"
  using assms
proof (induction ops arbitrary: s)
  case (Cons x xs)
  let ?k = "src_key c ip"
  have "good_at (lockout_step x s) ?k now \<and> strikes_at (lockout_step x s) ?k now < n"
  proof (cases x)
    case (Fail c' ip' u)
    then have "u \<le> now" "src_key c' ip' \<noteq> ?k" using Cons.prems(2) by auto
    with record_failure_reads(1,2) [OF Cons.prems(1), of u now c' ip' ?k] Cons.prems(3,4) Fail
    show ?thesis by simp
  next
    case (Check c' ip' u)
    then have "u \<le> now" using Cons.prems(2) by auto
    with locked_reads(2) [of u s c' ip'] Cons.prems(3,4) Check show ?thesis by (simp add: reads_same_def)
  qed (use Cons.prems(2) in auto)
  then show ?case using Cons by (simp add: lockout_run_def)
qed (simp add: lockout_run_def)



lemma known_good_bounded_step:
  assumes "length (tl_known_good s) \<le> 4096"
  shows "length (tl_known_good (lockout_step x s)) \<le> 4096"
proof (cases x)
  case (Success c ip now)
  have "length (trim_oldest 4096 d) \<le> 4096" for d :: "(strike_key, real) dict"
    using trim_oldest_length(2) [of 4096 d] by (auto simp: trim_oldest.simps [of 4096 "[]"])
  with Success show ?thesis by (simp add: record_success_def Let_def)
next
  case (Check c ip now)
  then show ?thesis using locked_reads(2) [of now s c ip] assms by (simp add: reads_same_def)
next
  case (Fail c ip now)
  then show ?thesis using assms by (simp add: record_failure_def add_strike_reads Let_def)
qed

text \<open>
  The memory of known-good sources is bounded: whatever is recorded, at most 4096 of
  them are kept, so the trimming loop of \<open>record_success\<close> ends and does its work.
\<close>

theorem known_good_sources_bounded:
  "length (tl_known_good (lockout_run ops (totp_lockout_init a b l g))) \<le> 4096"
proof -
  have "length (tl_known_good s) \<le> 4096 \<Longrightarrow> length (tl_known_good (lockout_run ops s)) \<le> 4096" for s
    by (induction ops arbitrary: s) (simp_all add: lockout_run_def known_good_bounded_step)
  then show ?thesis by (simp add: totp_lockout_init_def)
qed

end
