(* ===== verification/Ip_Addr.thy ===== *)
theory Ip_Addr
  imports Py_Str "HOL-Library.Word"
begin

text \<open>
  The part of Python's standard module \<open>ipaddress\<close> (as of 3.11) that the program uses:
  parsing and printing of IPv4 and IPv6 addresses, networks, membership and
  \<open>is_global\<close>.  An IPv6 address keeps its scope id.
\<close>

unbundle bit_operations_syntax

datatype ip_addr = V4 "32 word" | V6 "128 word" "string option"

subsection \<open>Parsing\<close>

definition parse_octet :: "string \<Rightarrow> int option" where
  "parse_octet s =
     (if s = [] \<or> \<not> list_all ascii_digit s \<or> 3 < length s \<or> (s \<noteq> ''0'' \<and> hd s = CHR ''0'') then None
      else if 255 < decimal s then None else Some (decimal s))"

definition v4_of_string :: "string \<Rightarrow> 32 word option" where
  "v4_of_string s =
     (case map parse_octet (split_on CHR ''.'' s) of
        [Some a, Some b, Some c, Some d] \<Rightarrow> Some (word_of_int (((a * 256 + b) * 256 + c) * 256 + d))
      | _ \<Rightarrow> None)"

definition hex_value :: "char \<Rightarrow> int option" where
  "hex_value c =
     (if 48 \<le> ord c \<and> ord c \<le> 57 then Some (ord c - 48)
      else if 65 \<le> ord c \<and> ord c \<le> 70 then Some (ord c - 55)
      else if 97 \<le> ord c \<and> ord c \<le> 102 then Some (ord c - 87)
      else None)"

definition parse_hextet :: "string \<Rightarrow> int option" where
  "parse_hextet s =
     (if s = [] \<or> 4 < length s \<or> list_ex (\<lambda>c. hex_value c = None) s then None
      else Some (foldl (\<lambda>n c. 16 * n + the (hex_value c)) 0 s))"

definition hex_char :: "int \<Rightarrow> char" where
  "hex_char d = char_of (if d < 10 then 48 + d else 87 + d)"

function show_hex :: "int \<Rightarrow> string" where
  "show_hex n = (if n < 16 then [hex_char n] else show_hex (n div 16) @ [hex_char (n mod 16)])"
  by auto
termination by (relation "measure nat") auto

declare show_hex.simps [simp del]

definition hextets_value :: "int list \<Rightarrow> int" where
  "hextets_value hs = foldl (\<lambda>n h. n * 65536 + h) 0 hs"

text \<open>An IPv4-style last part is replaced by its two hextets.\<close>

definition expand_v4_tail :: "string list \<Rightarrow> string list option" where
  "expand_v4_tail parts =
     (if CHR ''.'' \<in> set (last parts) then
        (case v4_of_string (last parts) of
           None \<Rightarrow> None
         | Some w \<Rightarrow> Some (butlast parts @ [show_hex (uint w div 65536), show_hex (uint w mod 65536)]))
      else Some parts)"

definition all_some :: "'a option list \<Rightarrow> 'a list option" where
  "all_some xs = (if None \<in> set xs then None else Some (map the xs))"

definition v6_of_parts :: "string list \<Rightarrow> int option" where
  "v6_of_parts parts =
     (if 9 < length parts then None
      else case [i \<leftarrow> [1..<length parts - 1]. parts ! i = []] of
        [] \<Rightarrow>
          if length parts \<noteq> 8 \<or> hd parts = [] \<or> last parts = [] then None
          else map_option hextets_value (all_some (map parse_hextet parts))
      | [skip] \<Rightarrow>
          (let hi = (if hd parts = [] then skip - 1 else skip);
               lo = (let n = length parts - skip - 1 in if last parts = [] then n - 1 else n)
           in if (hd parts = [] \<and> hi \<noteq> 0) \<or> (last parts = [] \<and> lo \<noteq> 0) \<or> 8 \<le> hi + lo then None
              else case (all_some (map parse_hextet (take hi parts)),
                         all_some (map parse_hextet (drop (length parts - lo) parts))) of
                (Some hs, Some ls) \<Rightarrow> Some (hextets_value (hs @ replicate (8 - (hi + lo)) 0 @ ls))
              | _ \<Rightarrow> None)
      | _ \<Rightarrow> None)"

definition v6_of_string :: "string \<Rightarrow> 128 word option" where
  "v6_of_string s =
     (let parts = split_on CHR '':'' s
      in if length parts < 3 then None
         else case expand_v4_tail parts of
           None \<Rightarrow> None
         | Some ps \<Rightarrow> map_option word_of_int (v6_of_parts ps))"

text \<open>\<open>ip_address\<close>; None is the \<open>ValueError\<close>.\<close>

definition ip_address :: "string \<Rightarrow> ip_addr option" where
  "ip_address s =
     (if CHR ''/'' \<in> set s then None
      else case v4_of_string s of
        Some w \<Rightarrow> Some (V4 w)
      | None \<Rightarrow>
          (case partition_on CHR ''%'' s of
             (addr, sep, scope) \<Rightarrow>
               if sep \<and> (scope = [] \<or> CHR ''%'' \<in> set scope) then None
               else map_option (\<lambda>w. V6 w (if sep then Some scope else None)) (v6_of_string addr)))"

subsection \<open>Printing\<close>

definition octets :: "32 word \<Rightarrow> int list" where
  "octets w = map (\<lambda>k. uint w div 256 ^ k mod 256) [3, 2, 1, 0]"

definition hextets :: "128 word \<Rightarrow> int list" where
  "hextets w = map (\<lambda>k. uint w div 65536 ^ k mod 65536) [7, 6, 5, 4, 3, 2, 1, 0]"

text \<open>
  The first longest run of zero hextets, as (start, length): the loop of
  \<open>_compress_hextets\<close>, with the current run's length and the index.
\<close>

fun zero_run :: "int list \<Rightarrow> nat \<Rightarrow> nat \<Rightarrow> nat \<times> nat \<Rightarrow> nat \<times> nat" where
  "zero_run [] i cur best = best"
| "zero_run (h # hs) i cur best =
     (if h = 0 then
        zero_run hs (Suc i) (Suc cur) (if snd best < Suc cur then (i - cur, Suc cur) else best)
      else zero_run hs (Suc i) 0 best)"

definition compress_hextets :: "int list \<Rightarrow> string list" where
  "compress_hextets hs =
     (let (start, len) = zero_run hs 0 0 (0, 0); ss = map show_hex hs
      in if 1 < len then
           (if start = 0 then [[]] else []) @ take start ss @ [[]] @ drop (start + len) ss
             @ (if start + len = length ss then [[]] else [])
         else ss)"

definition ip_str :: "ip_addr \<Rightarrow> string" where
  "ip_str a =
     (case a of
        V4 w \<Rightarrow> join ''.'' (map show_int (octets w))
      | V6 w scope \<Rightarrow> join '':'' (compress_hextets (hextets w))
          @ (case scope of None \<Rightarrow> [] | Some z \<Rightarrow> CHR ''%'' # z))"

subsection \<open>Networks\<close>

datatype ip_net = Net4 "32 word" nat | Net6 "128 word" nat

definition prefix_mask :: "nat \<Rightarrow> 'a::len word" where
  "prefix_mask p = NOT (mask (LENGTH('a) - p))"

definition in_net :: "ip_addr \<Rightarrow> ip_net \<Rightarrow> bool" where
  "in_net a n =
     (case (a, n) of
        (V4 w, Net4 net p) \<Rightarrow> w AND prefix_mask p = net
      | (V6 w _, Net6 net p) \<Rightarrow> w AND prefix_mask p = net
      | _ \<Rightarrow> False)"

definition parse_prefix :: "nat \<Rightarrow> string \<Rightarrow> nat option" where
  "parse_prefix width s =
     (case int_of_digits s of Some p \<Rightarrow> if p \<le> int width then Some (nat p) else None | None \<Rightarrow> None)"

text \<open>An IPv4 mask in dotted form is a netmask or a hostmask.\<close>

definition prefix_of_mask :: "32 word \<Rightarrow> nat option" where
  "prefix_of_mask w =
     (case find (\<lambda>p. prefix_mask p = w) [0..<33] of
        Some p \<Rightarrow> Some p
      | None \<Rightarrow> find (\<lambda>p. prefix_mask p = NOT w) [0..<33])"

definition v4_prefix :: "string \<Rightarrow> nat option" where
  "v4_prefix s =
     (case parse_prefix 32 s of
        Some p \<Rightarrow> Some p
      | None \<Rightarrow> (case v4_of_string s of None \<Rightarrow> None | Some w \<Rightarrow> prefix_of_mask w))"

text \<open>\<open>ip_network(rule, strict=False)\<close> of a rule with a slash.\<close>

definition ip_network :: "string \<Rightarrow> ip_net option" where
  "ip_network rule =
     (case split_on CHR ''/'' rule of
        [addr, len] \<Rightarrow>
          (case (v4_of_string addr, v4_prefix len) of
             (Some w, Some p) \<Rightarrow> Some (Net4 (w AND prefix_mask p) p)
           | _ \<Rightarrow>
             (case (ip_address addr, parse_prefix 128 len) of
                (Some (V6 w _), Some p) \<Rightarrow> Some (Net6 (w AND prefix_mask p) p)
              | _ \<Rightarrow> None))
      | _ \<Rightarrow> None)"

subsection \<open>Global addresses\<close>

definition v4_private :: "32 word \<Rightarrow> bool" where
  "v4_private w \<longleftrightarrow>
     list_ex (\<lambda>(net, p). w AND prefix_mask p = net)
       [(0x00000000, 8), (0x0A000000, 8), (0x7F000000, 8), (0xA9FE0000, 16), (0xAC100000, 12),
        (0xC0000000, 24), (0xC00000AA, 31), (0xC0000200, 24), (0xC0A80000, 16), (0xC6120000, 15),
        (0xC6336400, 24), (0xCB007100, 24), (0xF0000000, 4), (0xFFFFFFFF, 32)]
     \<and> w \<noteq> 0xC0000009 \<and> w \<noteq> 0xC000000A"

definition v4_global :: "32 word \<Rightarrow> bool" where
  "v4_global w \<longleftrightarrow> w AND prefix_mask 10 \<noteq> 0x64400000 \<and> \<not> v4_private w"

definition v6_private :: "128 word \<Rightarrow> bool" where
  "v6_private w \<longleftrightarrow>
     list_ex (\<lambda>(net, p). w AND prefix_mask p = net)
       [(0x1, 128), (0x0, 128), (0x0000FFFF00000000, 96), (0x0064FF9B000100000000000000000000, 48),
        (0x01000000000000000000000000000000, 64), (0x20010000000000000000000000000000, 23),
        (0x20010DB8000000000000000000000000, 32), (0x20020000000000000000000000000000, 16),
        (0xFC000000000000000000000000000000, 7), (0xFE800000000000000000000000000000, 10)]
     \<and> \<not> list_ex (\<lambda>(net, p). w AND prefix_mask p = net)
       [(0x20010001000000000000000000000001, 128), (0x20010001000000000000000000000002, 128),
        (0x20010003000000000000000000000000, 32), (0x20010004011200000000000000000000, 48),
        (0x20010020000000000000000000000000, 28), (0x20010030000000000000000000000000, 28)]"

definition is_global :: "ip_addr \<Rightarrow> bool" where
  "is_global a =
     (case a of
        V4 w \<Rightarrow> v4_global w
      | V6 w _ \<Rightarrow>
          if drop_bit 32 w = 0xFFFF then \<not> v4_private (word_of_int (uint w mod 2 ^ 32))
          else \<not> v6_private w)"

end
