(* ===== verification/Forwarded.thy ===== *)
theory Forwarded
  imports Ip_Addr
begin

text \<open>
  Which client address, host and scheme a request is taken to come from (the second half of
  \<open>ratelimit.py\<close>), and the Host allowlist that runs before every route
  (\<open>hostguard.py\<close>).  A request is what the functions read of a Starlette request: the
  TCP peer, the headers (lower-case names, the first value of each; None for an object
  without a \<open>headers\<close> mapping) and the URL scheme.  The warned headers are the module's
  global \<open>_warned_headers\<close>; the warning itself is a log line and not modelled.
\<close>

record request =
  rq_peer :: "string option"
  rq_headers :: "(string, string) dict option"
  rq_scheme :: string

definition rq_header :: "request \<Rightarrow> string \<Rightarrow> string option" where
  "rq_header r name = (case rq_headers r of None \<Rightarrow> None | Some h \<Rightarrow> dget h name)"

definition given :: "string option \<Rightarrow> bool" where
  "given v \<longleftrightarrow> v \<noteq> None \<and> v \<noteq> Some []"

lemma given_simps [simp]: "given None = False" "given (Some s) \<longleftrightarrow> s \<noteq> []"
  by (simp_all add: given_def)

subsection \<open>Addresses\<close>

definition parsed_str :: "string \<Rightarrow> string option" where
  "parsed_str s = map_option ip_str (ip_address s)"

text \<open>The two later tries of \<open>_coerce_ip\<close>: a bracketed address, and \<open>host:port\<close>.\<close>

definition bracketed :: "string \<Rightarrow> string option" where
  "bracketed raw =
     (if startswith raw ''['' \<and> CHR '']'' \<in> set raw
      then parsed_str (tl (takeWhile (\<lambda>c. c \<noteq> CHR '']'') raw)) else None)"

definition host_port :: "string \<Rightarrow> string option" where
  "host_port raw =
     (if count_char CHR '':'' raw = 1 then
        (case rpartition_on CHR '':'' raw of
           (host, _, port) \<Rightarrow> if host \<noteq> [] \<and> py_isdigit port then parsed_str host else None)
      else None)"

definition coerce_ip :: "string \<Rightarrow> string option" where
  "coerce_ip value =
     (let raw = py_strip value
      in if raw = [] then None
         else case parsed_str raw of
           Some a \<Rightarrow> Some a
         | None \<Rightarrow> (case bracketed raw of Some a \<Rightarrow> Some a | None \<Rightarrow> host_port raw))"

text \<open>
  One rule of \<open>trusted_proxies\<close>.  The address of a rule without a slash is printed and
  parsed again, which gives it back.
\<close>

definition rule_matches :: "ip_addr \<Rightarrow> string \<Rightarrow> bool" where
  "rule_matches ip raw_rule =
     (let rule = py_strip raw_rule
      in if rule = [] then False
         else if CHR ''/'' \<in> set rule then
           (case ip_network rule of None \<Rightarrow> False | Some n \<Rightarrow> in_net ip n)
         else case coerce_ip rule of
           None \<Rightarrow> False
         | Some rule_ip \<Rightarrow> ip_address rule_ip = Some ip)"

definition is_trusted_proxy :: "string \<Rightarrow> string list \<Rightarrow> bool" where
  "is_trusted_proxy ip_value trusted =
     (case ip_address ip_value of None \<Rightarrow> False | Some ip \<Rightarrow> list_ex (rule_matches ip) trusted)"

definition is_local_peer :: "string \<Rightarrow> bool" where
  "is_local_peer ip_value = (case ip_address ip_value of None \<Rightarrow> False | Some ip \<Rightarrow> \<not> is_global ip)"

definition peer_is_trusted :: "request \<Rightarrow> string list \<Rightarrow> string option \<times> bool" where
  "peer_is_trusted r trusted =
     (let direct = (case rq_peer r of None \<Rightarrow> None | Some p \<Rightarrow> coerce_ip p)
      in (direct, case direct of None \<Rightarrow> False | Some d \<Rightarrow> d \<noteq> [] \<and> is_trusted_proxy d trusted))"

definition warn_ignored :: "string \<Rightarrow> string list \<Rightarrow> string list" where
  "warn_ignored header warned = (if header \<in> set warned then warned else header # warned)"

subsection \<open>The three readings of a request\<close>

definition hop_chain :: "string \<Rightarrow> string \<Rightarrow> string list" where
  "hop_chain fwd direct = [ip. part \<leftarrow> split_on CHR '','' fwd, Some ip \<leftarrow> [coerce_ip part]] @ [direct]"

definition own_address :: "request \<Rightarrow> string list \<Rightarrow> string" where
  "own_address r trusted =
     (case fst (peer_is_trusted r trusted) of
        Some d \<Rightarrow> d
      | None \<Rightarrow> (case rq_peer r of None \<Rightarrow> ''unknown'' | Some p \<Rightarrow> if p = [] then ''unknown'' else p))"

definition client_ip :: "request \<Rightarrow> string list \<Rightarrow> string list \<Rightarrow> string \<times> string list" where
  "client_ip r trusted warned =
     (let (direct, peer_trusted) = peer_is_trusted r trusted;
          fwd = rq_header r ''x-forwarded-for'';
          warned' = (if \<not> peer_trusted \<and> given fwd then warn_ignored ''X-Forwarded-For'' warned else warned)
      in (if peer_trusted \<and> given fwd then
            (case find (\<lambda>hop. \<not> is_trusted_proxy hop trusted) (rev (hop_chain (the fwd) (the direct))) of
               Some hop \<Rightarrow> hop
             | None \<Rightarrow> own_address r trusted)
          else own_address r trusted, warned'))"

definition forwarded_host :: "request \<Rightarrow> string list \<Rightarrow> string \<Rightarrow> string list \<Rightarrow> string \<times> string list" where
  "forwarded_host r trusted dflt warned =
     (let host = rq_header r ''host'';
          host_header = (if given host then the host else dflt);
          fwd = rq_header r ''x-forwarded-host''
      in if \<not> given fwd then (host_header, warned)
         else if snd (peer_is_trusted r trusted) then
           (let parts = [p. q \<leftarrow> split_on CHR '','' (the fwd), p \<leftarrow> [py_strip q], p \<noteq> []]
            in (if parts \<noteq> [] then last parts else host_header, warned))
         else (host_header, warn_ignored ''X-Forwarded-Host'' warned))"

definition forwarded_scheme :: "request \<Rightarrow> string list \<Rightarrow> string list \<Rightarrow> string \<times> string list" where
  "forwarded_scheme r trusted warned =
     (let own = (if rq_scheme r = [] then ''http'' else rq_scheme r);
          fwd = rq_header r ''x-forwarded-proto'';
          (direct, peer_trusted) = peer_is_trusted r trusted
      in if \<not> given fwd then (own, warned)
         else if trusted \<noteq> [] \<and> \<not> peer_trusted
              \<and> \<not> (case direct of None \<Rightarrow> False | Some d \<Rightarrow> d \<noteq> [] \<and> is_local_peer d)
         then (own, warn_ignored ''X-Forwarded-Proto'' warned)
         else (let claim = py_strip (hd (split_on CHR '','' (the fwd)))
               in (if claim = [] then own else claim), warned))"

subsection \<open>The Host allowlist\<close>

definition host_allowed :: "string option \<Rightarrow> string list \<Rightarrow> bool" where
  "host_allowed host allowed_hosts =
     (case host of
        None \<Rightarrow> False
      | Some h \<Rightarrow>
          h \<noteq> [] \<and> list_ex (\<lambda>allowed. h = allowed
            \<or> endswith allowed '':*'' \<and> startswith h (butlast (butlast allowed) @ '':'')) allowed_hosts)"

record host_guard =
  hg_allowed_hosts :: "string list"
  hg_trusted_proxies :: "string list"
  hg_enabled :: bool
  hg_exempt_paths :: "string list"

datatype guard_outcome = To_app | Rejected string "string option"

text \<open>
  \<open>__call__\<close>: \<open>kind\<close> and \<open>path\<close> are the ASGI scope's \<open>type\<close> and
  \<open>path\<close>; \<open>Rejected\<close> is the 421 answer, with the header and value it names.
\<close>

definition host_guard_call ::
  "host_guard \<Rightarrow> string \<Rightarrow> string option \<Rightarrow> request \<Rightarrow> string list \<Rightarrow> guard_outcome \<times> string list" where
  "host_guard_call g kind path r warned =
     (if kind \<noteq> ''http'' \<or> \<not> hg_enabled g \<or> path \<in> Some ` set (hg_exempt_paths g) then (To_app, warned)
      else
        let raw_host = rq_header r ''host''
        in if \<not> host_allowed raw_host (hg_allowed_hosts g) then (Rejected ''Host'' raw_host, warned)
           else if hg_trusted_proxies g \<noteq> [] \<and> given (rq_header r ''x-forwarded-host'') then
             (let (effective, warned') = forwarded_host r (hg_trusted_proxies g) ''localhost'' warned
              in if \<not> host_allowed (Some effective) (hg_allowed_hosts g)
                 then (Rejected ''X-Forwarded-Host'' (Some effective), warned')
                 else (To_app, warned'))
           else (To_app, warned))"

end
