(* ===== verification/Forwarded_Props.thy ===== *)
theory Forwarded_Props
  imports Forwarded
begin

text \<open>What can and cannot be forged through the forwarding headers.\<close>

lemma find_append_case: "find P (xs @ ys) = (case find P xs of Some x \<Rightarrow> Some x | None \<Rightarrow> find P ys)"
  by (induction xs) auto

definition hops :: "string \<Rightarrow> string list" where
  "hops fwd = [ip. part \<leftarrow> split_on CHR '','' fwd, Some ip \<leftarrow> [coerce_ip part]]"

lemma hop_chain_hops: "hop_chain fwd d = hops fwd @ [d]"
  by (simp add: hop_chain_def hops_def)

lemma hops_append: "hops (a @ '','' @ b) = hops a @ hops b"
  by (simp add: hops_def split_on_append_general)

lemma peer_is_trusted_cong: "rq_peer r' = rq_peer r \<Longrightarrow> peer_is_trusted r' trusted = peer_is_trusted r trusted"
  by (simp add: peer_is_trusted_def)

lemma trusted_direct:
  "snd (peer_is_trusted r trusted) \<Longrightarrow> is_trusted_proxy (the (fst (peer_is_trusted r trusted))) trusted"
  by (auto simp: peer_is_trusted_def Let_def split: option.splits)

lemma client_ip_trusted:
  assumes "snd (peer_is_trusted r trusted)" "rq_header r ''x-forwarded-for'' = Some fwd" "fwd \<noteq> []"
  shows "fst (client_ip r trusted warned) =
    (case find (\<lambda>hop. \<not> is_trusted_proxy hop trusted) (rev (hops fwd)) of
       Some hop \<Rightarrow> hop | None \<Rightarrow> own_address r trusted)"
  using assms trusted_direct [OF assms(1)]
  by (auto simp: client_ip_def Let_def split_beta hop_chain_hops)

text \<open>
  C26: The client address cannot be forged.  From a peer that is not a declared proxy the
  headers do not count at all; from a declared proxy, whatever a client puts before the
  entries the proxies appended changes nothing once these name one address that is not a
  proxy, and the answer is then never a proxy's address.
\<close>

theorem client_ip_cannot_be_forged:
  assumes "rq_peer r' = rq_peer r"
  shows "(\<not> snd (peer_is_trusted r trusted) \<longrightarrow> fst (client_ip r' trusted w') = fst (client_ip r trusted w))
    \<and> (snd (peer_is_trusted r trusted) \<and> rq_header r ''x-forwarded-for'' = Some fwd
        \<and> rq_header r' ''x-forwarded-for'' = Some (forged @ '','' @ fwd)
        \<and> (\<exists>hop \<in> set (hops fwd). \<not> is_trusted_proxy hop trusted) \<longrightarrow>
         fst (client_ip r' trusted w') = fst (client_ip r trusted w)
         \<and> \<not> is_trusted_proxy (fst (client_ip r trusted w)) trusted)"
proof (intro conjI impI)
  assume "\<not> snd (peer_is_trusted r trusted)"
  then show "fst (client_ip r' trusted w') = fst (client_ip r trusted w)"
    using assms by (simp add: client_ip_def Let_def split_beta peer_is_trusted_cong [OF assms] own_address_def
          split: option.split)
next
  let ?P = "\<lambda>hop. \<not> is_trusted_proxy hop trusted"
  assume a: "snd (peer_is_trusted r trusted) \<and> rq_header r ''x-forwarded-for'' = Some fwd
    \<and> rq_header r' ''x-forwarded-for'' = Some (forged @ '','' @ fwd) \<and> (\<exists>hop \<in> set (hops fwd). ?P hop)"
  then obtain hop where hop: "find ?P (rev (hops fwd)) = Some hop"
    using find_None_iff [of ?P "rev (hops fwd)"] by (cases "find ?P (rev (hops fwd))") auto
  have "fwd \<noteq> []" using a by (auto simp: hops_def coerce_ip_def py_strip_def lstrip_def rstrip_def)
  with a hop have r: "fst (client_ip r trusted w) = hop" by (simp add: client_ip_trusted)
  have "snd (peer_is_trusted r' trusted)" using a peer_is_trusted_cong [OF assms, of trusted] by simp
  then have "fst (client_ip r' trusted w') = hop"
    using a hop by (simp add: client_ip_trusted hops_append [simplified] find_append_case)
  with r show "fst (client_ip r' trusted w') = fst (client_ip r trusted w)" by simp
  show "\<not> is_trusted_proxy (fst (client_ip r trusted w)) trusted"
    using hop r by (auto simp: find_Some_iff)
qed

definition sample_request :: "string \<Rightarrow> string \<Rightarrow> request" where
  "sample_request peer fwd = \<lparr>rq_peer = Some peer, rq_headers = Some [(''host'', ''b''), (''x-forwarded-for'', fwd),
     (''x-forwarded-host'', fwd)], rq_scheme = ''http''\<rparr>"

lemma client_ip_cannot_be_forged_witness:
  "fst (client_ip (sample_request ''10.0.0.1'' ''1.1.1.1,8.8.8.8'') [''10.0.0.0/8''] []) =
   fst (client_ip (sample_request ''10.0.0.1'' ''8.8.8.8'') [''10.0.0.0/8''] [])"
proof -
  have t: "snd (peer_is_trusted (sample_request ''10.0.0.1'' ''8.8.8.8'') [''10.0.0.0/8''])" by code_simp
  have h: "\<not> is_trusted_proxy ''8.8.8.8'' [''10.0.0.0/8'']" "''8.8.8.8'' \<in> set (hops ''8.8.8.8'')" by code_simp+
  show ?thesis
    using client_ip_cannot_be_forged [of "sample_request ''10.0.0.1'' ''1.1.1.1,8.8.8.8''"
        "sample_request ''10.0.0.1'' ''8.8.8.8''" "[''10.0.0.0/8'']" "[]" "[]" "''8.8.8.8''" "''1.1.1.1''"] t h
    by (auto simp: sample_request_def rq_header_def)
qed

text \<open>
  C25: Every hostname the program derives from a request that passes the Host guard is on the
  allowlist: the OAuth issuer, the passkey relying party and the dashboard URLs all read
  \<open>forwarded_host\<close>, and while the guard is on and the path not exempt, a request for
  which that is not an allowed host never reaches the application.
\<close>

theorem derived_host_is_allowed:
  assumes "host_guard_call g ''http'' path r w = (To_app, w')" "hg_enabled g" "path \<notin> Some ` set (hg_exempt_paths g)"
  shows "host_allowed (Some (fst (forwarded_host r (hg_trusted_proxies g) dflt w''))) (hg_allowed_hosts g)
    \<and> host_allowed (rq_header r ''host'') (hg_allowed_hosts g)"
proof -
  have raw: "host_allowed (rq_header r ''host'') (hg_allowed_hosts g)"
    using assms by (auto simp: host_guard_call_def Let_def split: if_splits)
  then obtain h where h: "rq_header r ''host'' = Some h" "h \<noteq> []" by (auto simp: host_allowed_def split: option.splits)
  have untrusted: "\<not> snd (peer_is_trusted r [])"
    by (auto simp: peer_is_trusted_def is_trusted_proxy_def Let_def split: option.splits)
  show ?thesis
  proof (cases "hg_trusted_proxies g \<noteq> [] \<and> given (rq_header r ''x-forwarded-host'')")
    case True
    have "fst (forwarded_host r (hg_trusted_proxies g) dflt w'') = fst (forwarded_host r (hg_trusted_proxies g) ''localhost'' w)"
      using h True by (simp add: forwarded_host_def Let_def)
    moreover have "host_allowed (Some (fst (forwarded_host r (hg_trusted_proxies g) ''localhost'' w))) (hg_allowed_hosts g)"
      using assms raw True by (auto simp: host_guard_call_def Let_def split_beta split: if_splits)
    ultimately show ?thesis using raw by simp
  next
    case False
    then have "fst (forwarded_host r (hg_trusted_proxies g) dflt w'') = h"
      using h untrusted by (auto simp: forwarded_host_def Let_def)
    with raw h show ?thesis by simp
  qed
qed

lemma derived_host_is_allowed_witness:
  "host_allowed (Some (fst (forwarded_host (sample_request ''8.8.8.8'' ''evil'') [''10.0.0.0/8''] ''localhost'' []))) [''b'']"
proof -
  let ?g = "\<lparr>hg_allowed_hosts = [''b''], hg_trusted_proxies = [''10.0.0.0/8''], hg_enabled = True, hg_exempt_paths = [''/health'']\<rparr>"
  have "host_guard_call ?g ''http'' (Some ''/app'') (sample_request ''8.8.8.8'' ''evil'') [] = (To_app, [''X-Forwarded-Host''])"
    by code_simp
  from derived_host_is_allowed [OF this, of "''localhost''" "[]"] show ?thesis by simp
qed

text \<open>
  An internet peer that is not a declared proxy cannot claim a scheme, nor choose the
  host, once proxies are declared: both are then the connection's own.
\<close>

theorem undeclared_peer_cannot_claim_https:
  assumes "fst (peer_is_trusted r trusted) = Some d" "ip_address d = Some a" "is_global a"
    and "\<not> is_trusted_proxy d trusted" "trusted \<noteq> []" "rq_header r ''host'' = Some h" "h \<noteq> []"
  shows "fst (forwarded_scheme r trusted w) = (if rq_scheme r = [] then ''http'' else rq_scheme r)
    \<and> fst (forwarded_host r trusted dflt w) = h"
proof -
  have "\<not> snd (peer_is_trusted r trusted)" using assms(1,4) by (auto simp: peer_is_trusted_def Let_def)
  moreover have "\<not> is_local_peer d" using assms(2,3) by (simp add: is_local_peer_def)
  ultimately show ?thesis using assms
    by (auto simp: forwarded_scheme_def forwarded_host_def Let_def split_beta)
qed

lemma undeclared_peer_cannot_claim_https_witness:
  "fst (forwarded_host (sample_request ''8.8.8.8'' ''evil'') [''10.0.0.0/8''] ''localhost'' []) = ''b''"
proof -
  have a: "fst (peer_is_trusted (sample_request ''8.8.8.8'' ''evil'') [''10.0.0.0/8'']) = Some ''8.8.8.8''"
    "ip_address ''8.8.8.8'' = Some (V4 0x08080808)" "is_global (V4 0x08080808)"
    "\<not> is_trusted_proxy ''8.8.8.8'' [''10.0.0.0/8'']" by code_simp+
  have "rq_header (sample_request ''8.8.8.8'' ''evil'') ''host'' = Some ''b''" by (simp add: sample_request_def rq_header_def)
  from undeclared_peer_cannot_claim_https [OF a _ this] show ?thesis by simp
qed

end
