(* ===== verification/Redirects.thy ===== *)
theory Redirects
  imports Ip_Addr
begin

text \<open>
  Which OAuth redirect URIs are trusted (\<open>is_trusted_redirect_uri\<close> of
  \<open>auth.py\<close>), with the part of \<open>urllib.parse\<close> it relies on: the scheme and
  the network location \<open>urlsplit\<close> cuts out, and the \<open>hostname\<close> property.
\<close>

subsection \<open>urllib.parse\<close>

definition ascii_alpha :: "char \<Rightarrow> bool" where
  "ascii_alpha c \<longleftrightarrow> 65 \<le> ord c \<and> ord c \<le> 90 \<or> 97 \<le> ord c \<and> ord c \<le> 122"

definition scheme_char :: "char \<Rightarrow> bool" where
  "scheme_char c \<longleftrightarrow> ascii_alpha c \<or> ascii_digit c \<or> c \<in> {CHR ''+'', CHR ''-'', CHR ''.''}"

definition c0_or_space :: "char \<Rightarrow> bool" where
  "c0_or_space c \<longleftrightarrow> ord c \<le> 32"

definition url_clean :: "string \<Rightarrow> string" where
  "url_clean s = [c \<leftarrow> lstrip c0_or_space s. ord c \<notin> {9, 10, 13}]"

text \<open>The scheme and what follows it; no scheme is the empty one.\<close>

definition split_scheme :: "string \<Rightarrow> string \<times> string" where
  "split_scheme url =
     (case partition_on CHR '':'' url of
        (s, True, rest) \<Rightarrow>
          if s \<noteq> [] \<and> ascii_alpha (hd s) \<and> list_all scheme_char s then (py_lower s, rest) else ([], url)
      | _ \<Rightarrow> ([], url))"

definition netloc_end :: "char \<Rightarrow> bool" where
  "netloc_end c \<longleftrightarrow> c \<in> {CHR ''/'', CHR ''?'', CHR ''#''}"

definition cut_netloc :: "string \<Rightarrow> string" where
  "cut_netloc rest =
     (if startswith rest ''//'' then takeWhile (\<lambda>c. \<not> netloc_end c) (drop 2 rest) else [])"

definition bracketed_host_ok :: "string \<Rightarrow> bool" where
  "bracketed_host_ok h =
     (if startswith h ''v'' then
        (case partition_on CHR ''.'' (tl h) of
           (a, dot, b) \<Rightarrow> dot \<and> a \<noteq> [] \<and> list_all (\<lambda>c. hex_value c \<noteq> None) a \<and> b \<noteq> [])
      else case ip_address h of Some (V6 w z) \<Rightarrow> True | _ \<Rightarrow> False)"

definition netloc_ok :: "string \<Rightarrow> bool" where
  "netloc_ok n \<longleftrightarrow>
     (CHR ''['' \<in> set n \<longleftrightarrow> CHR '']'' \<in> set n)
     \<and> (CHR ''['' \<in> set n \<longrightarrow>
          bracketed_host_ok (fst (partition_on CHR '']'' (snd (snd (partition_on CHR ''['' n))))))"

text \<open>\<open>urlparse\<close> as (scheme, netloc); None is its \<open>ValueError\<close>.\<close>

definition urlparse :: "string \<Rightarrow> (string \<times> string) option" where
  "urlparse s =
     (case split_scheme (url_clean s) of
        (scheme, rest) \<Rightarrow>
          let n = cut_netloc rest in if netloc_ok n then Some (scheme, n) else None)"

text \<open>The \<open>hostname\<close> property; the empty string stands for None.\<close>

definition url_hostname :: "string \<Rightarrow> string" where
  "url_hostname netloc =
     (let hostinfo = snd (snd (rpartition_on CHR ''@'' netloc));
          (_, have_open, bracketed) = partition_on CHR ''['' hostinfo;
          h = (if have_open then fst (partition_on CHR '']'' bracketed)
               else fst (partition_on CHR '':'' hostinfo));
          (name, percent, zone) = partition_on CHR ''%'' h
      in py_lower name @ (if percent then CHR ''%'' # zone else []))"

subsection \<open>The check\<close>

definition TRUSTED_CUSTOM_SCHEME_PREFIXES :: "string list" where
  "TRUSTED_CUSTOM_SCHEME_PREFIXES = [''vscode://'', ''vscode-insiders://'', ''cursor://'']"

definition TRUSTED_LOOPBACK_HOSTS :: "string list" where
  "TRUSTED_LOOPBACK_HOSTS = [''localhost'', ''127.0.0.1'', ''::1'']"

definition origin_admits :: "string \<Rightarrow> string \<Rightarrow> bool" where
  "origin_admits uri origin =
     (let o' = py_strip origin
      in origin \<noteq> [] \<and> o' \<noteq> [] \<and> startswith uri (if endswith o' ''/'' then o' else o' @ ''/''))"

definition is_trusted_redirect_uri :: "string \<Rightarrow> string list \<Rightarrow> bool" where
  "is_trusted_redirect_uri redirect_uri allowed_origins =
     (let uri = py_strip redirect_uri
      in if uri = [] then False
         else if list_ex (\<lambda>p. startswith uri p) TRUSTED_CUSTOM_SCHEME_PREFIXES then True
         else case urlparse uri of
           None \<Rightarrow> False
         | Some (scheme, netloc) \<Rightarrow>
             if scheme = ''http'' then py_lower (py_strip (url_hostname netloc)) \<in> set TRUSTED_LOOPBACK_HOSTS
             else list_ex (origin_admits uri) allowed_origins)"

subsection \<open>Plain URLs\<close>

text \<open>A character that neither ends nor structures a network location, printable and not a space.\<close>

definition user_char :: "char \<Rightarrow> bool" where
  "user_char c \<longleftrightarrow> 33 \<le> ord c \<and> ord c < 127 \<and> \<not> netloc_end c \<and> c \<noteq> CHR ''['' \<and> c \<noteq> CHR '']''"

lemma scheme_char_user: "scheme_char c \<Longrightarrow> user_char c \<and> c \<noteq> CHR ''@'' \<and> c \<noteq> CHR '':'' \<and> c \<noteq> CHR ''%''"
  by (auto simp: scheme_char_def user_char_def ascii_alpha_def ascii_digit_def netloc_end_def)

lemma user_char_clean: "user_char c \<Longrightarrow> \<not> py_space c \<and> \<not> c0_or_space c \<and> ord c \<notin> {9, 10, 13}"
  by (auto simp: user_char_def py_space_def c0_or_space_def)

lemma url_clean_id: "list_all (\<lambda>c. 33 \<le> ord c) s \<Longrightarrow> url_clean s = s"
  by (cases s) (auto simp: url_clean_def lstrip_def c0_or_space_def list_all_iff filter_id_conv)

lemma takeWhile_netloc: "list_all user_char n \<Longrightarrow> takeWhile (\<lambda>c. \<not> netloc_end c) (n @ CHR ''/'' # t) = n"
  by (induction n) (auto simp: user_char_def netloc_end_def)

lemma printable_strip: "list_all (\<lambda>c. 33 \<le> ord c \<and> ord c < 127) s \<Longrightarrow> py_strip s = s"
proof (cases "s = []")
  case False
  assume s: "list_all (\<lambda>c. 33 \<le> ord c \<and> ord c < 127) s"
  have "\<not> py_space c" if "c \<in> set s" for c using s that by (auto simp: list_all_iff py_space_def)
  with False show ?thesis by (intro py_strip_id) simp
qed (simp add: py_strip_def lstrip_def rstrip_def)

lemma ord_lower: "ord (lower_char c) = (if (65 \<le> ord c \<and> ord c \<le> 90) \<or> (192 \<le> ord c \<and> ord c \<le> 222 \<and> ord c \<noteq> 215)
    then ord c + 32 else ord c)"
  by (auto simp: lower_char_def)

lemma scheme_char_lower: "scheme_char c \<Longrightarrow> scheme_char (lower_char c) \<and> lower_char (lower_char c) = lower_char c"
proof -
  assume c: "scheme_char c"
  have "lower_char (lower_char c) = lower_char c"
    using ord_lower [of c] by (subst (1) lower_char_def) auto
  moreover have "scheme_char (lower_char c)"
  proof (cases "65 \<le> ord c \<and> ord c \<le> 90")
    case True
    then have "ascii_alpha (lower_char c)" using ord_lower [of c] by (simp add: ascii_alpha_def)
    then show ?thesis by (simp add: scheme_char_def)
  next
    case False
    then have "lower_char c = c" using c
      by (auto simp: lower_char_def scheme_char_def ascii_alpha_def ascii_digit_def)
    with c show ?thesis by simp
  qed
  ultimately show ?thesis by simp
qed

lemma lower_host: "list_all scheme_char h \<Longrightarrow> py_lower (py_strip (py_lower h)) = py_lower h"
proof -
  assume h: "list_all scheme_char h"
  then have "list_all scheme_char (py_lower h)" by (auto simp: list_all_iff py_lower_def scheme_char_lower)
  then have "33 \<le> ord c \<and> ord c < 127" if "c \<in> set (py_lower h)" for c
    using that scheme_char_user [of c] by (simp add: list_all_iff user_char_def)
  then have "list_all (\<lambda>c. 33 \<le> ord c \<and> ord c < 127) (py_lower h)" by (simp add: list_all_iff)
  then have "py_strip (py_lower h) = py_lower h" by (rule printable_strip)
  then show ?thesis using h by (auto simp: py_lower_def list_all_iff scheme_char_lower)
qed

text \<open>The host of a plain network location with userinfo.\<close>

lemma hostname_of_plain:
  assumes "list_all scheme_char host"
  shows "url_hostname (user @ ''@'' @ host) = py_lower host" "url_hostname host = py_lower host"
proof -
  have no: "CHR ''@'' \<notin> set host" "CHR ''['' \<notin> set host" "CHR '':'' \<notin> set host" "CHR ''%'' \<notin> set host"
    using assms scheme_char_user by (auto simp: list_all_iff user_char_def)
  have "rpartition_on CHR ''@'' (user @ CHR ''@'' # host) = (user, True, host)" by (rule rpartition_on_last) (rule no(1))
  then show "url_hostname (user @ ''@'' @ host) = py_lower host"
    using no by (simp add: url_hostname_def partition_on_no_sep Let_def)
  show "url_hostname host = py_lower host"
    using no by (simp add: url_hostname_def partition_on_no_sep rpartition_on_no_sep Let_def)
qed

lemma urlparse_plain:
  assumes "list_all user_char n" "list_all (\<lambda>c. 33 \<le> ord c \<and> ord c < 127) path" "scheme \<noteq> []"
    "ascii_alpha (hd scheme)" "list_all scheme_char scheme"
  shows "urlparse (scheme @ ''://'' @ n @ ''/'' @ path) = Some (py_lower scheme, n)"
proof -
  have clean: "url_clean (scheme @ ''://'' @ n @ ''/'' @ path) = scheme @ ''://'' @ n @ ''/'' @ path"
    by (rule url_clean_id) (use assms scheme_char_user in \<open>auto simp: list_all_iff user_char_def\<close>)
  have "CHR '':'' \<notin> set scheme" using assms(5) scheme_char_user by (auto simp: list_all_iff)
  then have "partition_on CHR '':'' (scheme @ CHR '':'' # ''//'' @ n @ ''/'' @ path) = (scheme, True, ''//'' @ n @ ''/'' @ path)"
    by (rule partition_on_first)
  then have "split_scheme (scheme @ ''://'' @ n @ ''/'' @ path) = (py_lower scheme, ''//'' @ n @ ''/'' @ path)"
    using assms(3-5) by (simp add: split_scheme_def)
  moreover have "cut_netloc (''//'' @ n @ ''/'' @ path) = n"
    using takeWhile_netloc [OF assms(1)] by (simp add: cut_netloc_def)
  moreover have "netloc_ok n" using assms(1) by (auto simp: netloc_ok_def list_all_iff user_char_def)
  ultimately show ?thesis unfolding urlparse_def clean by simp
qed

text \<open>
  The userinfo trick is refused: in a plain HTTP redirect URI the part before the last
  at-sign counts for nothing, and the URI is trusted exactly when the real host behind it is
  a loopback host, whatever origins are allowed.
\<close>

theorem userinfo_does_not_count:
  assumes "list_all user_char user" "list_all scheme_char host" "list_all (\<lambda>c. 33 \<le> ord c \<and> ord c < 127) path"
  shows "is_trusted_redirect_uri (''http://'' @ user @ ''@'' @ host @ ''/'' @ path) origins
     \<longleftrightarrow> py_lower host \<in> set TRUSTED_LOOPBACK_HOSTS"
proof -
  let ?n = "user @ ''@'' @ host" and ?u = "''http://'' @ user @ ''@'' @ host @ ''/'' @ path"
  have n: "list_all user_char ?n" using assms(1,2) scheme_char_user by (auto simp: list_all_iff user_char_def netloc_end_def)
  have "list_all (\<lambda>c. 33 \<le> ord c \<and> ord c < 127) ?u"
    using n assms(3) by (auto simp: list_all_iff user_char_def)
  then have strip: "py_strip ?u = ?u" by (rule printable_strip)
  have "ascii_alpha (hd ''http'')" "list_all scheme_char ''http''" "py_lower ''http'' = ''http''" by code_simp+
  then have parse: "urlparse ?u = Some (''http'', ?n)"
    using urlparse_plain [OF n assms(3), of "''http''"] by simp
  show ?thesis
    unfolding is_trusted_redirect_uri_def Let_def strip parse
    by (simp add: TRUSTED_CUSTOM_SCHEME_PREFIXES_def hostname_of_plain [OF assms(2), simplified] lower_host [OF assms(2)])
qed

lemma userinfo_does_not_count_witness:
  "\<not> is_trusted_redirect_uri ''http://localhost:1@attacker.example/cb'' [''https://claude.ai'']"
proof -
  have "list_all user_char ''localhost:1''" "list_all scheme_char ''attacker.example''"
    "list_all (\<lambda>c. 33 \<le> ord c \<and> ord c < 127) ''cb''" "py_lower ''attacker.example'' \<notin> set TRUSTED_LOOPBACK_HOSTS"
    by code_simp+
  then show ?thesis using userinfo_does_not_count [of "''localhost:1''" "''attacker.example''" "''cb''" "[''https://claude.ai'']"]
    by simp
qed

lemma prefix_same_authority:
  assumes "prefix (h @ CHR ''/'' # x) (n @ CHR ''/'' # y)" "CHR ''/'' \<notin> set h" "CHR ''/'' \<notin> set n"
  shows "h = n"
  using assms
proof (induction h arbitrary: n)
  case Nil
  then show ?case by (cases n) auto
next
  case (Cons c h)
  then show ?case by (cases n) auto
qed

text \<open>
  An HTTPS redirect URI is trusted exactly when its authority, userinfo and port
  included, is that of an allowed origin: no look-alike host that merely begins like one,
  and no allowed host put before an at-sign, gets through.
\<close>

theorem https_redirect_needs_allowed_origin:
  assumes "list_all user_char n" "list_all (\<lambda>c. 33 \<le> ord c \<and> ord c < 127) path"
    and "\<forall>h \<in> set hosts. list_all user_char h \<and> h \<noteq> []"
  shows "is_trusted_redirect_uri (''https://'' @ n @ ''/'' @ path) (map (\<lambda>h. ''https://'' @ h) hosts) \<longleftrightarrow> n \<in> set hosts"
proof -
  let ?u = "''https://'' @ n @ ''/'' @ path"
  have "list_all (\<lambda>c. 33 \<le> ord c \<and> ord c < 127) ?u"
    using assms(1,2) by (auto simp: list_all_iff user_char_def)
  then have strip: "py_strip ?u = ?u" by (rule printable_strip)
  have "ascii_alpha (hd ''https'')" "list_all scheme_char ''https''" "py_lower ''https'' = ''https''" by code_simp+
  then have parse: "urlparse ?u = Some (''https'', n)"
    using urlparse_plain [OF assms(1,2), of "''https''"] by simp
  have admits: "origin_admits ?u (''https://'' @ h) \<longleftrightarrow> h = n" if h: "h \<in> set hosts" for h
  proof -
    have hu: "list_all user_char h" "h \<noteq> []" using assms(3) h by auto
    then have "py_strip (''https://'' @ h) = ''https://'' @ h"
      by (intro printable_strip) (auto simp: list_all_iff user_char_def)
    moreover have slash: "CHR ''/'' \<notin> set h" "CHR ''/'' \<notin> set n"
      using hu assms(1) by (auto simp: list_all_iff user_char_def netloc_end_def)
    then have "\<not> suffix ''/'' (''https://'' @ h)" using hu(2) by (auto simp: suffix_def append_eq_append_conv2 Cons_eq_append_conv)
    moreover have "prefix (h @ ''/'') (n @ ''/'' @ path) \<longleftrightarrow> h = n"
      using prefix_same_authority [of h "[]" n path] slash by auto
    ultimately show ?thesis by (simp add: origin_admits_def Let_def)
  qed
  show ?thesis
    unfolding is_trusted_redirect_uri_def Let_def strip parse
    using admits by (auto simp: TRUSTED_CUSTOM_SCHEME_PREFIXES_def list_ex_iff)
qed

lemma https_redirect_needs_allowed_origin_witness:
  "\<not> is_trusted_redirect_uri ''https://claude.ai.evil.example/cb'' [''https://claude.ai'']"
proof -
  have "list_all user_char ''claude.ai.evil.example''" "list_all (\<lambda>c. 33 \<le> ord c \<and> ord c < 127) ''cb''"
    "list_all user_char ''claude.ai''" by code_simp+
  then show ?thesis
    using https_redirect_needs_allowed_origin [of "''claude.ai.evil.example''" "''cb''" "[''claude.ai'']"] by simp
qed

end
