(* ===== verification/Dyn_Slugs.thy ===== *)
theory Dyn_Slugs
  imports Single_Use
begin

text \<open>
  The bootstrap slugs of OAuth dynamic client registration (\<open>dashboard/dyn_reg.py\<close>):
  the table \<open>oauth_dynamic_slugs\<close>, keyed by its primary key, and the statements the
  store runs on it.  A statement that selects rows by several columns is a filter of the
  table; \<open>consume\<close> runs its UPDATE in an immediate transaction, so it is one step.
\<close>

record dynamic_slug =
  ds_slug :: string
  ds_label :: string
  ds_owner :: string
  ds_created_at :: real
  ds_expires_at :: real
  ds_used_at :: "real option"
  ds_client :: "string option"

type_synonym slug_table = "(string, dynamic_slug) dict"

definition SLUG_TTL_SECONDS :: real where "SLUG_TTL_SECONDS = 15 * 60"

text \<open>\<open>mint\<close>: None is SQLite's error on a slug that is already there.\<close>

definition slug_mint :: "string \<Rightarrow> string \<Rightarrow> string \<Rightarrow> real \<Rightarrow> slug_table \<Rightarrow> dynamic_slug option \<times> slug_table" where
  "slug_mint owner label slug now t =
     (let row = \<lparr>ds_slug = slug, ds_label = label, ds_owner = owner, ds_created_at = now,
                 ds_expires_at = now + SLUG_TTL_SECONDS, ds_used_at = None, ds_client = None\<rparr>
      in if slug \<in> set (dkeys t) then (None, t) else (Some row, dset slug row t))"

definition slugs_for_owner :: "string \<Rightarrow> slug_table \<Rightarrow> dynamic_slug list" where
  "slugs_for_owner owner t =
     take 50 (sort_key (\<lambda>r. - ds_created_at r) [r \<leftarrow> dvals t. ds_owner r = owner])"

definition slug_delete_unused :: "string \<Rightarrow> string \<Rightarrow> slug_table \<Rightarrow> bool \<times> slug_table" where
  "slug_delete_unused slug owner t =
     (let hit = (\<lambda>r. ds_slug r = slug \<and> ds_owner r = owner \<and> ds_used_at r = None)
      in (0 < dcount hit t, dkeep (\<lambda>r. \<not> hit r) t))"

definition slug_prune_expired :: "real \<Rightarrow> slug_table \<Rightarrow> nat \<times> slug_table" where
  "slug_prune_expired now t =
     (let hit = (\<lambda>r. ds_used_at r = None \<and> ds_expires_at r < now)
      in (dcount hit t, dkeep (\<lambda>r. \<not> hit r) t))"

definition slug_load :: "string \<Rightarrow> slug_table \<Rightarrow> dynamic_slug option" where
  "slug_load slug t = dget t slug"

text \<open>\<open>consume\<close>: None is \<open>SlugAlreadyConsumed\<close>, with the transaction rolled back.\<close>

definition slug_consume :: "string \<Rightarrow> string \<Rightarrow> real \<Rightarrow> slug_table \<Rightarrow> dynamic_slug option \<times> slug_table" where
  "slug_consume slug client_id now t =
     (case dget t slug of
        None \<Rightarrow> (None, t)
      | Some r \<Rightarrow>
          if ds_used_at r = None \<and> now < ds_expires_at r then
            (let t' = dset slug (r\<lparr>ds_used_at := Some now, ds_client := Some client_id\<rparr>) t
             in (slug_load slug t', t'))
          else (None, t))"

definition slug_find_by_client :: "string \<Rightarrow> slug_table \<Rightarrow> dynamic_slug option" where
  "slug_find_by_client client_id t = find (\<lambda>r. ds_client r = Some client_id) (dvals t)"

subsection \<open>Slugs as single-use tickets\<close>

datatype slug_op = Slug_mint string string string real | Slug_delete string string | Slug_prune real

fun slug_other :: "slug_op \<Rightarrow> slug_table \<Rightarrow> slug_table" where
  "slug_other (Slug_mint owner label slug now) t = snd (slug_mint owner label slug now t)"
| "slug_other (Slug_delete slug owner) t = snd (slug_delete_unused slug owner t)"
| "slug_other (Slug_prune now) t = snd (slug_prune_expired now t)"

fun slug_mints :: "slug_op \<Rightarrow> string \<Rightarrow> bool" where
  "slug_mints (Slug_mint owner label slug now) k \<longleftrightarrow> k = slug"
| "slug_mints _ k \<longleftrightarrow> False"

definition redeem_slug :: "string \<Rightarrow> string \<times> real \<Rightarrow> slug_table \<Rightarrow> dynamic_slug option \<times> slug_table" where
  "redeem_slug slug a t = slug_consume slug (fst a) (snd a) t"

definition slug_live :: "slug_table \<Rightarrow> string \<Rightarrow> bool" where
  "slug_live t k \<longleftrightarrow> (\<exists>r. (k, r) \<in> set t \<and> ds_used_at r = None)"

definition slug_fresh :: "slug_table \<Rightarrow> string \<Rightarrow> real \<Rightarrow> bool" where
  "slug_fresh t k now \<longleftrightarrow> (case dget t k of None \<Rightarrow> False | Some r \<Rightarrow> now < ds_expires_at r)"

text \<open>
  The table's primary key makes it a dictionary; the laws of the contract hold on tables
  where it is one, so the interpretation is over the type of such tables' operations,
  guarded by \<open>slug_ok\<close>.
\<close>

lemma dget_dset_self_in: "(k, r) \<in> set (dset k v t) \<Longrightarrow> dict_ok t \<Longrightarrow> r = v"
  by (simp add: in_dset_ok)

definition redeem_slug_ok :: "string \<Rightarrow> string \<times> real \<Rightarrow> slug_table \<Rightarrow> dynamic_slug option \<times> slug_table" where
  "redeem_slug_ok slug a t = (if dict_ok t then redeem_slug slug a t else (None, t))"

interpretation slugs: expiring_single_use redeem_slug_ok slug_other slug_mints slug_live snd slug_fresh
proof unfold_locales
  fix k a t r t' assume "redeem_slug_ok k a t = (Some r, t')"
  then obtain q where q: "dict_ok t" "dget t k = Some q" "ds_used_at q = None" "snd a < ds_expires_at q"
    "t' = dset k (q\<lparr>ds_used_at := Some (snd a), ds_client := Some (fst a)\<rparr>) t"
    by (auto simp: redeem_slug_ok_def redeem_slug_def slug_consume_def Let_def split: if_splits option.splits)
  show "slug_live t k" using q(2,3) by (auto simp: slug_live_def dest: dget_in)
  show "\<not> slug_live t' k" using q(1,5) by (auto simp: slug_live_def in_dset_ok)
  show "slug_fresh t k (snd a)" using q(2,4) by (simp add: slug_fresh_def)
next
  fix t k k' a assume "\<not> slug_live t k"
  then show "\<not> slug_live (snd (redeem_slug_ok k' a t)) k"
    by (auto simp: slug_live_def redeem_slug_ok_def redeem_slug_def slug_consume_def Let_def in_dset_ok
             split: option.splits)
next
  fix t k x assume "\<not> slug_live t k" "\<not> slug_mints x k"
  then show "\<not> slug_live (slug_other x t) k"
    by (cases x) (auto simp: slug_live_def slug_mint_def slug_delete_unused_def slug_prune_expired_def Let_def
                       dest!: in_dset)
qed

text \<open>The operations keep the primary key, so the guard is never met on a table of the program.\<close>

lemma slug_ok_other: "dict_ok t \<Longrightarrow> dict_ok (slug_other x t)"
  by (cases x) (auto simp: slug_mint_def slug_delete_unused_def slug_prune_expired_def Let_def)

lemma slug_ok_redeem: "dict_ok t \<Longrightarrow> dict_ok (snd (redeem_slug k a t))"
  by (auto simp: redeem_slug_def slug_consume_def Let_def split: option.splits)

lemma slug_run_guard:
  "dict_ok t \<Longrightarrow> ticket_run redeem_slug_ok slug_other xs t = ticket_run redeem_slug slug_other xs t"
proof (induction xs arbitrary: t)
  case (Cons x xs)
  show ?case
  proof (cases x)
    case (Redeem k a)
    have "redeem_slug_ok k a t = redeem_slug k a t" using Cons.prems by (simp add: redeem_slug_ok_def)
    moreover have "dict_ok (snd (redeem_slug k a t))" using Cons.prems by (rule slug_ok_redeem)
    ultimately show ?thesis using Cons.IH Redeem by (simp add: split_beta)
  qed (use Cons in \<open>simp add: slug_ok_other\<close>)
qed simp

text \<open>
  A registration slug registers at most one client, whichever claims race and whatever
  the dashboard mints, deletes or prunes in between.
\<close>

theorem slug_registers_one_client:
  assumes "dict_ok t" "\<forall>x. Other x \<in> set ops \<longrightarrow> \<not> slug_mints x slug"
  shows "redemptions slug (ticket_run redeem_slug slug_other ops t) \<le> 1"
  using slugs.at_most_once [OF assms(2), of t] by (simp add: slug_run_guard [OF assms(1)])

lemma slug_registers_one_client_witness:
  "redemptions ''s'' (ticket_run redeem_slug slug_other [Redeem ''s'' (''a'', 5), Redeem ''s'' (''b'', 5)]
     (snd (slug_mint ''o'' ''l'' ''s'' 0 []))) \<le> 1"
  by (rule slug_registers_one_client) (simp_all add: slug_mint_def Let_def)

end
