(* ===== verification/Py_Val.thy ===== *)
theory Py_Val
  imports Py_Str
begin

text \<open>
  The Python values that tool arguments, configuration entries and JSON results are made
  of, with their truth value and \<open>str\<close>.  A mapping is an association list in insertion
  order.
\<close>

datatype pyval =
    PNone
  | PBool bool
  | PInt int
  | PFloat real
  | PStr string
  | PList "pyval list"
  | PDict "(string \<times> pyval) list"

fun truth :: "pyval \<Rightarrow> bool" where
  "truth PNone = False"
| "truth (PBool b) = b"
| "truth (PInt n) \<longleftrightarrow> n \<noteq> 0"
| "truth (PFloat x) \<longleftrightarrow> x \<noteq> 0"
| "truth (PStr s) \<longleftrightarrow> s \<noteq> []"
| "truth (PList xs) \<longleftrightarrow> xs \<noteq> []"
| "truth (PDict d) \<longleftrightarrow> d \<noteq> []"

definition show_signed :: "int \<Rightarrow> string" where
  "show_signed n = (if n < 0 then CHR ''-'' # show_int (- n) else show_int n)"

text \<open>\<open>str\<close> of the scalar values; the program never prints a float or a container.\<close>

fun py_str :: "pyval \<Rightarrow> string" where
  "py_str PNone = ''None''"
| "py_str (PBool b) = (if b then ''True'' else ''False'')"
| "py_str (PInt n) = show_signed n"
| "py_str (PStr s) = s"
| "py_str _ = []"

text \<open>\<open>isinstance(v, dict)\<close>, and \<open>v.get(key)\<close> of a mapping.\<close>

definition is_dict :: "pyval \<Rightarrow> bool" where
  "is_dict v = (case v of PDict d \<Rightarrow> True | _ \<Rightarrow> False)"

definition dict_arg :: "pyval \<Rightarrow> string \<Rightarrow> pyval" where
  "dict_arg v key = (case v of PDict d \<Rightarrow> (case dget d key of Some x \<Rightarrow> x | None \<Rightarrow> PNone) | _ \<Rightarrow> PNone)"

end
