(* ===== verification/Confirm_Calls.thy ===== *)
theory Confirm_Calls
  imports Single_Use Py_Val
begin

text \<open>
  Human approval of dangerous calls: the dashboard's pending approvals
  (\<open>dashboard/confirmations.py\<close>) and the elicitation dialog of destructive tools
  (\<open>confirm.py\<close>).
\<close>

subsection \<open>Pending approvals\<close>

text \<open>
  A future is done once it has a result or is cancelled.  Futures are objects of their own:
  the engine keeps the one it awaits while the store drops its entry, so the store holds
  references into a heap of futures.
\<close>

datatype future = Waiting | Approved bool | Cancelled

record confirmation_store =
  cs_futures :: "future list"
  cs_pending :: "(string, nat \<times> string) dict"

definition confirmation_create ::
  "string \<Rightarrow> string \<Rightarrow> confirmation_store \<Rightarrow> nat \<times> confirmation_store" where
  "confirmation_create call_id session_id s =
     (let f = length (cs_futures s)
      in (f, s\<lparr>cs_futures := cs_futures s @ [Waiting], cs_pending := dset call_id (f, session_id) (cs_pending s)\<rparr>))"

definition confirmation_resolve ::
  "string \<Rightarrow> string \<Rightarrow> bool \<Rightarrow> confirmation_store \<Rightarrow> bool \<times> confirmation_store" where
  "confirmation_resolve call_id session_id approved s =
     (case dget (cs_pending s) call_id of
        None \<Rightarrow> (False, s)
      | Some (f, sess) \<Rightarrow>
          if sess \<noteq> session_id then (False, s)
          else if cs_futures s ! f \<noteq> Waiting then (False, s)
          else (True, s\<lparr>cs_futures := (cs_futures s)[f := Approved approved],
                        cs_pending := dpop call_id (cs_pending s)\<rparr>))"

definition confirmation_cancel :: "string \<Rightarrow> confirmation_store \<Rightarrow> confirmation_store" where
  "confirmation_cancel call_id s =
     (case dget (cs_pending s) call_id of
        None \<Rightarrow> s
      | Some (f, sess) \<Rightarrow>
          s\<lparr>cs_pending := dpop call_id (cs_pending s),
            cs_futures := (if cs_futures s ! f = Waiting then (cs_futures s)[f := Cancelled] else cs_futures s)\<rparr>)"

definition pending_for :: "string \<Rightarrow> confirmation_store \<Rightarrow> string list" where
  "pending_for session_id s = dwhere (\<lambda>(f, sess). sess = session_id) (cs_pending s)"

datatype confirmation_op = Create_call string string | Cancel_call string | Resolve_call string string bool

fun confirmation_step :: "confirmation_op \<Rightarrow> confirmation_store \<Rightarrow> confirmation_store" where
  "confirmation_step (Create_call c sess) s = snd (confirmation_create c sess s)"
| "confirmation_step (Cancel_call c) s = confirmation_cancel c s"
| "confirmation_step (Resolve_call c sess a) s = snd (confirmation_resolve c sess a s)"

definition confirmation_run :: "confirmation_op list \<Rightarrow> confirmation_store \<Rightarrow> confirmation_store" where
  "confirmation_run ops s = fold confirmation_step ops s"

definition redeem_call :: "string \<Rightarrow> string \<times> bool \<Rightarrow> confirmation_store \<Rightarrow> bool option \<times> confirmation_store" where
  "redeem_call c a s =
     (case confirmation_resolve c (fst a) (snd a) s of (ok, s') \<Rightarrow> (if ok then Some (snd a) else None, s'))"

fun call_mints :: "confirmation_op \<Rightarrow> string \<Rightarrow> bool" where
  "call_mints (Create_call c sess) k \<longleftrightarrow> k = c"
| "call_mints _ k \<longleftrightarrow> False"

definition call_live :: "confirmation_store \<Rightarrow> string \<Rightarrow> bool" where
  "call_live s k \<longleftrightarrow> dget (cs_pending s) k \<noteq> None"

interpretation calls: single_use redeem_call confirmation_step call_mints call_live
proof unfold_locales
  fix k a s r s' assume "redeem_call k a s = (Some r, s')"
  then show "call_live s k" "\<not> call_live s' k"
    by (auto simp: redeem_call_def confirmation_resolve_def call_live_def split: option.splits if_splits)
next
  fix s k k' a assume "\<not> call_live s k"
  then show "\<not> call_live (snd (redeem_call k' a s)) k"
    by (auto simp: redeem_call_def confirmation_resolve_def call_live_def split: option.splits if_splits)
next
  fix s k x assume "\<not> call_live s k" "\<not> call_mints x k"
  then show "\<not> call_live (confirmation_step x s) k"
    by (cases x) (auto simp: confirmation_create_def confirmation_cancel_def confirmation_resolve_def call_live_def
                       Let_def split: option.splits)
qed

text \<open>Every pending entry refers to a future of the heap, and no two to the same one.\<close>

definition pending_ok :: "confirmation_store \<Rightarrow> bool" where
  "pending_ok s \<longleftrightarrow> (\<forall>c f sess. dget (cs_pending s) c = Some (f, sess) \<longrightarrow> f < length (cs_futures s))
     \<and> (\<forall>c c' f sess sess'. dget (cs_pending s) c = Some (f, sess) \<and> dget (cs_pending s) c' = Some (f, sess') \<longrightarrow> c = c')"

lemma pending_ok_step: "pending_ok s \<Longrightarrow> pending_ok (confirmation_step x s)"
proof (cases x)
  case (Create_call c sess)
  assume "pending_ok s"
  then show ?thesis using Create_call
    by (auto simp: pending_ok_def confirmation_create_def Let_def) (metis less_SucI less_irrefl)+
qed (auto simp: pending_ok_def confirmation_cancel_def confirmation_resolve_def split: option.splits if_splits)

lemma nth_upd: "f < length xs \<Longrightarrow> xs[a := v] ! f = (if a = f then v else xs ! f)"
  by (cases "a = f") auto

lemma approval_needs_session:
  assumes "pending_ok s" "f < length (cs_futures s)" "cs_futures s ! f = Waiting"
    "\<forall>c sess'. dget (cs_pending s) c = Some (f, sess') \<longrightarrow> c = call \<and> sess' = sess"
    "x \<noteq> Resolve_call call sess True"
  shows "cs_futures (confirmation_step x s) ! f \<noteq> Approved True"
  using assms
  by (cases x) (auto simp: confirmation_create_def confirmation_cancel_def confirmation_resolve_def Let_def
      nth_append nth_upd split: option.splits if_splits)

lemma future_settled:
  "f < length (cs_futures s) \<Longrightarrow> cs_futures s ! f \<noteq> Waiting \<Longrightarrow>
     cs_futures (confirmation_step x s) ! f = cs_futures s ! f \<and> f < length (cs_futures (confirmation_step x s))"
  by (cases x) (auto simp: confirmation_create_def confirmation_cancel_def confirmation_resolve_def Let_def
      nth_append nth_upd split: option.splits if_splits)

lemma future_settled_run:
  "f < length (cs_futures s) \<Longrightarrow> cs_futures s ! f \<noteq> Waiting \<Longrightarrow>
     cs_futures (confirmation_run ops s) ! f = cs_futures s ! f"
proof (induction ops arbitrary: s)
  case (Cons x xs)
  from Cons.IH [of "confirmation_step x s"] future_settled [OF Cons.prems, of x] Cons.prems
  show ?case by (simp add: confirmation_run_def)
qed (simp add: confirmation_run_def)

definition only_entry :: "nat \<Rightarrow> string \<Rightarrow> string \<Rightarrow> confirmation_store \<Rightarrow> bool" where
  "only_entry f call sess s \<longleftrightarrow> f < length (cs_futures s)
     \<and> (\<forall>c sess'. dget (cs_pending s) c = Some (f, sess') \<longrightarrow> c = call \<and> sess' = sess)"

lemma only_entry_step: "only_entry f call sess s \<Longrightarrow> only_entry f call sess (confirmation_step x s)"
  by (cases x) (auto simp: only_entry_def confirmation_create_def confirmation_cancel_def confirmation_resolve_def Let_def
      split: option.splits if_splits)

lemma approved_run:
  "only_entry f call sess s \<Longrightarrow> pending_ok s \<Longrightarrow> cs_futures s ! f = Waiting \<Longrightarrow>
     cs_futures (confirmation_run ops s) ! f = Approved True \<Longrightarrow> Resolve_call call sess True \<in> set ops"
proof (induction ops arbitrary: s)
  case (Cons x xs)
  let ?s = "confirmation_step x s"
  have run: "confirmation_run (x # xs) s = confirmation_run xs ?s" by (simp add: confirmation_run_def)
  show ?case
  proof (cases "x = Resolve_call call sess True")
    case False
    have "cs_futures ?s ! f \<noteq> Approved True"
      using Cons.prems False by (intro approval_needs_session [of s f call sess]) (auto simp: only_entry_def)
    moreover have "f < length (cs_futures ?s)" using only_entry_step [OF Cons.prems(1), of x] by (simp add: only_entry_def)
    ultimately have "cs_futures ?s ! f = Waiting"
      using Cons.prems(4) future_settled_run [of f ?s xs] by (auto simp: run)
    from Cons.IH [OF only_entry_step [OF Cons.prems(1)] pending_ok_step [OF Cons.prems(2)] this] Cons.prems(4)
    show ?thesis by (simp add: run)
  qed simp
qed (simp add: confirmation_run_def)

text \<open>
  A dangerous call is approved only by its own session: if the future handed to the
  engine ever resolves to yes, then the session the call belongs to has approved exactly
  that call; no other session, no other call and no cancellation resolves it.
\<close>

theorem approval_comes_from_own_session:
  assumes "pending_ok s" "confirmation_create call sess s = (f, s1)"
    and "cs_futures (confirmation_run ops s1) ! f = Approved True"
  shows "Resolve_call call sess True \<in> set ops"
proof (rule approved_run [OF _ _ _ assms(3)])
  have "dget (cs_pending s) c \<noteq> Some (length (cs_futures s), sess')" for c sess'
    using assms(1) by (auto simp: pending_ok_def)
  then show "only_entry f call sess s1" using assms(2)
    by (auto simp: only_entry_def confirmation_create_def Let_def split: if_splits)
  show "pending_ok s1" using pending_ok_step [OF assms(1), of "Create_call call sess"] assms(2) by simp
  show "cs_futures s1 ! f = Waiting" using assms(2) by (auto simp: confirmation_create_def Let_def)
qed

lemma approval_comes_from_own_session_witness:
  "Resolve_call ''k'' ''me'' True \<in> set [Resolve_call ''k'' ''you'' True, Resolve_call ''k'' ''me'' True]"
proof (rule approval_comes_from_own_session)
  show "pending_ok \<lparr>cs_futures = [], cs_pending = []\<rparr>" by (simp add: pending_ok_def)
  show "confirmation_create ''k'' ''me'' \<lparr>cs_futures = [], cs_pending = []\<rparr> =
    (0, \<lparr>cs_futures = [Waiting], cs_pending = [(''k'', (0, ''me''))]\<rparr>)" by (simp add: confirmation_create_def Let_def)
  show "cs_futures (confirmation_run [Resolve_call ''k'' ''you'' True, Resolve_call ''k'' ''me'' True]
    \<lparr>cs_futures = [Waiting], cs_pending = [(''k'', (0, ''me''))]\<rparr>) ! 0 = Approved True"
    by (simp add: confirmation_run_def confirmation_resolve_def)
qed

subsection \<open>The dialog of destructive tools\<close>

definition DEFAULT_CONFIRM_TOOLS :: "string list" where
  "DEFAULT_CONFIRM_TOOLS =
     [''bmc_power_off'', ''bmc_power_reset'', ''proxmox_snapshot_rollback'', ''proxmox_snapshot_delete'',
      ''proxmox_backup_restore'', ''beaconmcp_self_update'']"

text \<open>\<open>kw.get(k)\<close> on the tool's arguments.\<close>

definition kw_get :: "(string, pyval) dict \<Rightarrow> string \<Rightarrow> pyval" where
  "kw_get kw k = (case dget kw k of None \<Rightarrow> PNone | Some v \<Rightarrow> v)"

definition confirm_message :: "string \<Rightarrow> (string, pyval) dict \<Rightarrow> string" where
  "confirm_message tool kw =
     (let device = (if truth (kw_get kw ''device_id'') then py_str (kw_get kw ''device_id'') else ''the server'');
          vm = ''VM '' @ py_str (kw_get kw ''vmid'') @ '' on '' @ py_str (kw_get kw ''node'')
      in if tool = ''bmc_power_off'' then
           ''Power off '' @ device @ '' via its BMC'' @ (if truth (kw_get kw ''force'') then '' (hard power cut)'' else []) @ ''?''
         else if tool = ''bmc_power_reset'' then ''Hard reset '' @ device @ '' via its BMC?''
         else if tool = ''proxmox_snapshot_rollback'' then
           ''Roll back '' @ vm @ '' to snapshot '' @ py_str (kw_get kw ''snapname'') @ ''? Changes since then are lost.''
         else if tool = ''proxmox_snapshot_delete'' then
           ''Delete snapshot '' @ py_str (kw_get kw ''snapname'') @ '' of '' @ vm @ ''?''
         else if tool = ''proxmox_backup_restore'' then
           ''Restore '' @ py_str (kw_get kw ''archive'') @ '' over '' @ vm @ ''? This overwrites it.''
         else if tool = ''beaconmcp_self_update'' then
           ''Update BeaconMCP'' @ (if truth (case dget kw ''restart'' of None \<Rightarrow> PBool True | Some v \<Rightarrow> v)
                                then '' and restart the server?'' else ''?'')
         else ''Run '' @ tool @ ''?'')"

text \<open>What the client declared: no session, no elicitation, or its form and url modes.\<close>

datatype elicitation = No_session | Not_declared | Declared (has_form: bool) (has_url: bool)

definition supports_form :: "elicitation \<Rightarrow> bool" where
  "supports_form e = (case e of Declared form url \<Rightarrow> form \<or> \<not> url | _ \<Rightarrow> False)"

definition needs_confirmation :: "string \<Rightarrow> (string, pyval) dict \<Rightarrow> string list \<Rightarrow> bool" where
  "needs_confirmation tool kw tools \<longleftrightarrow>
     (if tool \<notin> set tools \<or> truth (kw_get kw ''dry_run'') then False
      else if tool = ''proxmox_backup_restore'' \<and> \<not> truth (kw_get kw ''force'') then False
      else True)"

text \<open>How the dialog ended; the exceptions the function raises.\<close>

datatype dialog = Dialog_failed | Answered (dialog_action: string) (dialog_confirm: bool)
datatype confirm_error = ConfirmationDeclined | ConfirmationUnavailable

text \<open>
  \<open>confirm_destructive\<close>: \<open>ctx\<close> is None outside a request (no context, or one
  without a request), and \<open>answer\<close> is what the client makes of the message.
\<close>

definition confirm_destructive ::
  "elicitation option \<Rightarrow> string \<Rightarrow> (string, pyval) dict \<Rightarrow> string list \<Rightarrow> (string \<Rightarrow> dialog)
     \<Rightarrow> confirm_error + (string, pyval) dict" where
  "confirm_destructive ctx tool kwargs tools answer =
     (case ctx of
        None \<Rightarrow> Inr kwargs
      | Some e \<Rightarrow>
          if \<not> needs_confirmation tool kwargs tools then Inr kwargs
          else if \<not> supports_form e then Inr kwargs
          else case answer (confirm_message tool kwargs) of
            Dialog_failed \<Rightarrow> Inl ConfirmationUnavailable
          | Answered action confirm \<Rightarrow>
              if action \<noteq> ''accept'' \<or> \<not> confirm then Inl ConfirmationDeclined
              else if tool = ''beaconmcp_self_update'' then Inr (dset ''confirm'' (PBool True) kwargs)
              else Inr kwargs)"

text \<open>
  Where the client can show a dialog, a listed destructive tool runs only after the user
  accepted and ticked yes: anything else, a failed dialog included, raises and runs nothing;
  and the arguments the tool then gets are the caller's own, but for the self-update's
  confirmation flag.
\<close>

theorem destructive_tool_runs_only_on_yes:
  assumes "confirm_destructive (Some e) tool kwargs tools answer = Inr kwargs'"
    and "supports_form e" "tool \<in> set tools" "\<not> truth (kw_get kwargs ''dry_run'')"
    and "tool = ''proxmox_backup_restore'' \<longrightarrow> truth (kw_get kwargs ''force'')"
  shows "answer (confirm_message tool kwargs) = Answered ''accept'' True
    \<and> (\<forall>k. k \<noteq> ''confirm'' \<or> tool \<noteq> ''beaconmcp_self_update'' \<longrightarrow> dget kwargs' k = dget kwargs k)"
  using assms by (auto simp: confirm_destructive_def needs_confirmation_def split: dialog.splits if_splits)

lemma destructive_tool_runs_only_on_yes_witness:
  "(\<lambda>m :: string. Answered ''accept'' True) (confirm_message ''bmc_power_reset'' []) = Answered ''accept'' True"
  by (rule destructive_tool_runs_only_on_yes [of "Declared True False" "''bmc_power_reset''" "[]" DEFAULT_CONFIRM_TOOLS
        "\<lambda>m. Answered ''accept'' True" "[]", THEN conjunct1])
     (simp_all add: confirm_destructive_def supports_form_def needs_confirmation_def kw_get_def DEFAULT_CONFIRM_TOOLS_def)

end
