(* ===== verification/Passkeys.thy ===== *)
theory Passkeys
  imports Single_Use Py_Val Forwarded
begin

text \<open>
  Passkeys (\<open>dashboard/passkeys.py\<close>): the relying party derived from a request, the
  \<open>passkeys\<close> table, the single-use challenges and the four ceremonies of
  \<open>PasskeyService\<close>.  The WebAuthn library is a parameter: \<open>wa_register\<close> and
  \<open>wa_authenticate\<close> are its two verification functions, None standing for an exception;
  the challenge bytes it draws are an argument.  A credential is the JSON object the browser
  sends.
\<close>

subsection \<open>Relying party\<close>

definition pk_host :: "request \<Rightarrow> string \<Rightarrow> string list \<Rightarrow> string" where
  "pk_host r netloc trusted =
     fst (forwarded_host r trusted (if netloc = [] then ''localhost'' else netloc) [])"

definition rp_id_for :: "request \<Rightarrow> string \<Rightarrow> string list \<Rightarrow> string" where
  "rp_id_for r netloc trusted =
     (let host = pk_host r netloc trusted
      in if startswith host ''['' \<and> CHR '']'' \<in> set host then tl (takeWhile (\<lambda>c. c \<noteq> CHR '']'') host)
         else if CHR '':'' \<in> set host then fst (rpartition_on CHR '':'' host) else host)"

definition origin_for :: "request \<Rightarrow> string \<Rightarrow> string list \<Rightarrow> string" where
  "origin_for r netloc trusted = fst (forwarded_scheme r trusted []) @ ''://'' @ pk_host r netloc trusted"

definition is_secure_context :: "request \<Rightarrow> string \<Rightarrow> string list \<Rightarrow> bool" where
  "is_secure_context r netloc trusted \<longleftrightarrow>
     fst (forwarded_scheme r trusted []) = ''https''
     \<or> rp_id_for r netloc trusted \<in> set [''localhost'', ''127.0.0.1'', ''::1'']"

subsection \<open>Storage\<close>

record passkey =
  pk_credential_id :: string
  pk_client_id :: string
  pk_public_key :: string
  pk_sign_count :: int
  pk_transports :: "string list"
  pk_label :: string
  pk_created_at :: real
  pk_last_used_at :: "real option"
  pk_backed_up :: bool

type_synonym passkey_table = "(string, passkey) dict"

definition CHALLENGE_TTL_SECONDS :: real where "CHALLENGE_TTL_SECONDS = 180"
definition MAX_PASSKEYS_PER_CLIENT :: nat where "MAX_PASSKEYS_PER_CLIENT = 10"

text \<open>\<open>add\<close>: None is SQLite's error on a credential that is already there.\<close>

definition passkey_add ::
  "string \<Rightarrow> string \<Rightarrow> string \<Rightarrow> int \<Rightarrow> string list \<Rightarrow> string \<Rightarrow> bool \<Rightarrow> real \<Rightarrow> passkey_table
     \<Rightarrow> passkey option \<times> passkey_table" where
  "passkey_add credential_id client_id public_key sign_count transports label backed_up now t =
     (let p = \<lparr>pk_credential_id = credential_id, pk_client_id = client_id, pk_public_key = public_key,
               pk_sign_count = sign_count, pk_transports = transports, pk_label = label,
               pk_created_at = now, pk_last_used_at = None, pk_backed_up = backed_up\<rparr>
      in if credential_id \<in> set (dkeys t) then (None, t) else (Some p, dset credential_id p t))"

definition passkeys_of :: "string \<Rightarrow> passkey_table \<Rightarrow> passkey list" where
  "passkeys_of client_id t = sort_key (\<lambda>p. - pk_created_at p) [p \<leftarrow> dvals t. pk_client_id p = client_id]"

definition passkey_get :: "string \<Rightarrow> passkey_table \<Rightarrow> passkey option" where
  "passkey_get credential_id t = dget t credential_id"

definition passkey_count :: "string \<Rightarrow> passkey_table \<Rightarrow> nat" where
  "passkey_count client_id t = dcount (\<lambda>p. pk_client_id p = client_id) t"

definition passkey_touch :: "string \<Rightarrow> int \<Rightarrow> real \<Rightarrow> passkey_table \<Rightarrow> passkey_table" where
  "passkey_touch credential_id sign_count now t =
     (case dget t credential_id of
        None \<Rightarrow> t
      | Some p \<Rightarrow> dset credential_id (p\<lparr>pk_sign_count := sign_count, pk_last_used_at := Some now\<rparr>) t)"

definition passkey_delete :: "string \<Rightarrow> string \<Rightarrow> passkey_table \<Rightarrow> bool \<times> passkey_table" where
  "passkey_delete credential_id client_id t =
     (case dget t credential_id of
        None \<Rightarrow> (False, t)
      | Some p \<Rightarrow> if pk_client_id p = client_id then (True, dpop credential_id t) else (False, t))"

definition passkey_delete_all :: "string \<Rightarrow> passkey_table \<Rightarrow> nat \<times> passkey_table" where
  "passkey_delete_all client_id t = (passkey_count client_id t, dkeep (\<lambda>p. pk_client_id p \<noteq> client_id) t)"

subsection \<open>Challenges\<close>

record challenge =
  ch_purpose :: string
  ch_challenge :: string
  ch_client_id :: string
  ch_session_id :: "string option"
  ch_expires_at :: real

type_synonym challenge_store = "(string, challenge) dict"

definition prune_challenges :: "real \<Rightarrow> challenge_store \<Rightarrow> challenge_store" where
  "prune_challenges now s = dkeep (\<lambda>c. \<not> ch_expires_at c < now) s"

text \<open>\<open>state\<close> is the value drawn; \<open>tp\<close> and \<open>now\<close> the clock readings.\<close>

definition challenge_issue ::
  "real \<Rightarrow> string \<Rightarrow> string \<Rightarrow> string \<Rightarrow> string option \<Rightarrow> string \<Rightarrow> real \<Rightarrow> real \<Rightarrow> challenge_store \<Rightarrow> challenge_store" where
  "challenge_issue ttl purpose ch client_id session_id state tp now s =
     dset state \<lparr>ch_purpose = purpose, ch_challenge = ch, ch_client_id = client_id,
                 ch_session_id = session_id, ch_expires_at = now + ttl\<rparr> (prune_challenges tp s)"

definition challenge_consume ::
  "string \<Rightarrow> string \<Rightarrow> real \<Rightarrow> real \<Rightarrow> challenge_store \<Rightarrow> challenge option \<times> challenge_store" where
  "challenge_consume state purpose tp now s =
     (let s1 = prune_challenges tp s; s2 = dpop state s1
      in (case dget s1 state of
            None \<Rightarrow> None
          | Some c \<Rightarrow> if ch_purpose c \<noteq> purpose then None else if ch_expires_at c < now then None else Some c, s2))"

datatype challenge_op = Issue_challenge real string string string "string option" string real real

fun challenge_other :: "challenge_op \<Rightarrow> challenge_store \<Rightarrow> challenge_store" where
  "challenge_other (Issue_challenge ttl p ch c sess st tp now) s = challenge_issue ttl p ch c sess st tp now s"

fun challenge_mints :: "challenge_op \<Rightarrow> string \<Rightarrow> bool" where
  "challenge_mints (Issue_challenge ttl p ch c sess st tp now) k \<longleftrightarrow> k = st"

definition redeem_challenge ::
  "string \<Rightarrow> string \<times> real \<times> real \<Rightarrow> challenge_store \<Rightarrow> challenge option \<times> challenge_store" where
  "redeem_challenge state a s = challenge_consume state (fst a) (fst (snd a)) (snd (snd a)) s"

definition challenge_live :: "challenge_store \<Rightarrow> string \<Rightarrow> bool" where
  "challenge_live s k \<longleftrightarrow> k \<in> set (dkeys s)"

lemma challenge_live_dget: "challenge_live s k \<longleftrightarrow> dget s k \<noteq> None"
  by (simp add: challenge_live_def map_of_eq_None_iff)

interpretation challenges: single_use redeem_challenge challenge_other challenge_mints challenge_live
proof unfold_locales
  fix k a s r s' assume r: "redeem_challenge k a s = (Some r, s')"
  then have "dget (prune_challenges (fst (snd a)) s) k \<noteq> None" "s' = dpop k (prune_challenges (fst (snd a)) s)"
    by (auto simp: redeem_challenge_def challenge_consume_def Let_def split: option.splits if_splits)
  then show "challenge_live s k" "\<not> challenge_live s' k"
    using dget_dkeep_None [of s k "\<lambda>c. \<not> ch_expires_at c < fst (snd a)"]
    by (cases "dget s k"; auto simp: challenge_live_dget prune_challenges_def)+
next
  fix s k k' a assume "\<not> challenge_live s k"
  then show "\<not> challenge_live (snd (redeem_challenge k' a s)) k"
    by (auto simp: redeem_challenge_def challenge_consume_def Let_def challenge_live_dget prune_challenges_def dget_dkeep_None)
next
  fix s k x assume "\<not> challenge_live s k" "\<not> challenge_mints x k"
  then show "\<not> challenge_live (challenge_other x s) k"
    by (cases x) (auto simp: challenge_issue_def challenge_live_dget prune_challenges_def dget_dkeep_None)
qed

subsection \<open>Ceremonies\<close>

definition default_label :: "string \<Rightarrow> string" where
  "default_label user_agent =
     (let ua = py_lower user_agent
      in if contains ua ''iphone'' \<or> contains ua ''ipad'' \<or> contains ua ''ios'' then ''iPhone / iPad''
         else if contains ua ''android'' then ''Android''
         else if contains ua ''mac os'' \<or> contains ua ''macintosh'' then ''Mac''
         else if contains ua ''windows'' then ''Windows''
         else if contains ua ''linux'' then ''Linux''
         else ''Passkey'')"

datatype passkey_error =
    Pk_unavailable | Pk_too_many | Pk_expired | Pk_other_session | Pk_rejected | Pk_already_registered
  | Pk_none_registered | Pk_malformed | Pk_unknown | Pk_other_client | Pk_AttributeError

text \<open>The library's answers: a verified registration, and the new signature counter.\<close>

record wa_registered =
  wr_credential_id :: string
  wr_public_key :: string
  wr_sign_count :: int
  wr_backed_up :: bool

type_synonym credential = "(string, pyval) dict"
type_synonym wa_register = "credential \<Rightarrow> string \<Rightarrow> string \<Rightarrow> string \<Rightarrow> wa_registered option"
type_synonym wa_authenticate = "credential \<Rightarrow> string \<Rightarrow> string \<Rightarrow> string \<Rightarrow> string \<Rightarrow> int \<Rightarrow> int option"

record passkey_service =
  ps_installed :: bool
  ps_table :: "passkey_table option"
  ps_challenges :: challenge_store
  ps_trusted :: "string list"

definition pk_available :: "passkey_service \<Rightarrow> bool" where
  "pk_available s \<longleftrightarrow> ps_installed s \<and> ps_table s \<noteq> None"

text \<open>A request with its URL's network location, and the clock readings of one ceremony.\<close>

definition registration_options ::
  "request \<Rightarrow> string \<Rightarrow> string \<Rightarrow> string option \<Rightarrow> string \<Rightarrow> string \<Rightarrow> real \<Rightarrow> real \<Rightarrow> passkey_service
     \<Rightarrow> (passkey_error + string \<times> string list \<times> string) \<times> passkey_service" where
  "registration_options r netloc client_id session_id ch state tp now s =
     (case ps_table s of
        None \<Rightarrow> (Inl Pk_unavailable, s)
      | Some t \<Rightarrow>
          if \<not> ps_installed s then (Inl Pk_unavailable, s)
          else
            let existing = passkeys_of client_id t
            in if MAX_PASSKEYS_PER_CLIENT \<le> length existing then (Inl Pk_too_many, s)
               else (Inr (rp_id_for r netloc (ps_trusted s), map pk_credential_id existing, state),
                     s\<lparr>ps_challenges := challenge_issue CHALLENGE_TTL_SECONDS ''register'' ch client_id session_id
                                          state tp now (ps_challenges s)\<rparr>))"

definition string_items :: "pyval \<Rightarrow> string list" where
  "string_items v = (case v of PList xs \<Rightarrow> [t. PStr t \<leftarrow> xs] | _ \<Rightarrow> [])"

text \<open>
  \<open>(credential.get("response") or {}).get("transports")\<close>: None when the response is
  something that has no \<open>get\<close>.
\<close>

definition response_transports :: "credential \<Rightarrow> string list option" where
  "response_transports cred =
     (case dget cred ''response'' of
        None \<Rightarrow> Some []
      | Some (PDict d) \<Rightarrow> Some (case dget d ''transports'' of Some v \<Rightarrow> string_items v | None \<Rightarrow> [])
      | Some v \<Rightarrow> if truth v then None else Some [])"

definition verify_registration ::
  "wa_register \<Rightarrow> request \<Rightarrow> string \<Rightarrow> string \<Rightarrow> credential \<Rightarrow> string option \<Rightarrow> string option \<Rightarrow> real \<Rightarrow> real \<Rightarrow> real
     \<Rightarrow> passkey_service \<Rightarrow> (passkey_error + passkey) \<times> passkey_service" where
  "verify_registration wa r netloc state cred label session_id tp now ta s =
     (case ps_table s of
        None \<Rightarrow> (Inl Pk_unavailable, s)
      | Some t \<Rightarrow>
          if \<not> ps_installed s then (Inl Pk_unavailable, s)
          else
            let (pending, cs) = challenge_consume state ''register'' tp now (ps_challenges s);
                s1 = s\<lparr>ps_challenges := cs\<rparr>
            in case pending of
                 None \<Rightarrow> (Inl Pk_expired, s1)
               | Some p \<Rightarrow>
                   if ch_session_id p \<noteq> None \<and> ch_session_id p \<noteq> session_id then (Inl Pk_other_session, s1)
                   else case wa cred (ch_challenge p) (rp_id_for r netloc (ps_trusted s)) (origin_for r netloc (ps_trusted s)) of
                     None \<Rightarrow> (Inl Pk_rejected, s1)
                   | Some v \<Rightarrow>
                       if passkey_get (wr_credential_id v) t \<noteq> None then (Inl Pk_already_registered, s1)
                       else case response_transports cred of
                         None \<Rightarrow> (Inl Pk_AttributeError, s1)
                       | Some transports \<Rightarrow>
                         let given_label = take 60 (py_strip (case label of Some l \<Rightarrow> l | None \<Rightarrow> []));
                             ua = (case rq_header r ''user-agent'' of Some u \<Rightarrow> u | None \<Rightarrow> []);
                             lbl = (if given_label = [] then default_label ua else given_label);
                             (added, t') = passkey_add (wr_credential_id v) (ch_client_id p) (wr_public_key v)
                                (wr_sign_count v) transports lbl (wr_backed_up v) ta t
                         in (case added of Some k \<Rightarrow> Inr k | None \<Rightarrow> Inl Pk_already_registered,
                             s1\<lparr>ps_table := Some t'\<rparr>))"

definition authentication_options ::
  "request \<Rightarrow> string \<Rightarrow> string \<Rightarrow> string \<Rightarrow> string \<Rightarrow> real \<Rightarrow> real \<Rightarrow> passkey_service
     \<Rightarrow> (passkey_error + string \<times> string list \<times> string) \<times> passkey_service" where
  "authentication_options r netloc client_id ch state tp now s =
     (case ps_table s of
        None \<Rightarrow> (Inl Pk_unavailable, s)
      | Some t \<Rightarrow>
          if \<not> ps_installed s then (Inl Pk_unavailable, s)
          else
            let creds = passkeys_of client_id t
            in if creds = [] then (Inl Pk_none_registered, s)
               else (Inr (rp_id_for r netloc (ps_trusted s), map pk_credential_id creds, state),
                     s\<lparr>ps_challenges := challenge_issue CHALLENGE_TTL_SECONDS ''authenticate'' ch client_id None
                                          state tp now (ps_challenges s)\<rparr>))"

definition raw_credential_id :: "credential \<Rightarrow> string option" where
  "raw_credential_id cred =
     (let get = (\<lambda>k. case dget cred k of Some x \<Rightarrow> x | None \<Rightarrow> PNone);
          raw_id = (if truth (get ''id'') then get ''id'' else get ''rawId'')
      in case raw_id of PStr i \<Rightarrow> if i = [] then None else Some i | _ \<Rightarrow> None)"

text \<open>\<open>tt\<close> and \<open>tl\<close> are the readings stored by \<open>touch\<close> and in the record returned.\<close>

definition verify_authentication ::
  "wa_authenticate \<Rightarrow> request \<Rightarrow> string \<Rightarrow> string \<Rightarrow> credential \<Rightarrow> real \<Rightarrow> real \<Rightarrow> real \<Rightarrow> real
     \<Rightarrow> passkey_service \<Rightarrow> (passkey_error + passkey) \<times> passkey_service" where
  "verify_authentication wa r netloc state cred tp now t1 t2 s =
     (case ps_table s of
        None \<Rightarrow> (Inl Pk_unavailable, s)
      | Some t \<Rightarrow>
          if \<not> ps_installed s then (Inl Pk_unavailable, s)
          else
            let (pending, cs) = challenge_consume state ''authenticate'' tp now (ps_challenges s);
                s1 = s\<lparr>ps_challenges := cs\<rparr>
            in case pending of
                 None \<Rightarrow> (Inl Pk_expired, s1)
               | Some p \<Rightarrow>
                   (case raw_credential_id cred of
                      None \<Rightarrow> (Inl Pk_malformed, s1)
                    | Some raw \<Rightarrow>
                        (case passkey_get raw t of
                           None \<Rightarrow> (Inl Pk_unknown, s1)
                         | Some rec \<Rightarrow>
                             if pk_client_id rec \<noteq> ch_client_id p then (Inl Pk_other_client, s1)
                             else case wa cred (ch_challenge p) (rp_id_for r netloc (ps_trusted s))
                                    (origin_for r netloc (ps_trusted s)) (pk_public_key rec) (pk_sign_count rec) of
                               None \<Rightarrow> (Inl Pk_rejected, s1)
                             | Some n \<Rightarrow>
                                 (Inr (rec\<lparr>pk_sign_count := n, pk_last_used_at := Some t2\<rparr>),
                                  s1\<lparr>ps_table := Some (passkey_touch (pk_credential_id rec) n t1 t)\<rparr>))))"


subsection \<open>Runs of the service\<close>

datatype passkey_op =
    Reg_options request string string "string option" string string real real
  | Reg_verify request string string credential "string option" "string option" real real real
  | Auth_options request string string string string real real
  | Auth_verify request string string credential real real real real
  | Remove_passkey string string
  | Remove_all_of string

definition on_table :: "(passkey_table \<Rightarrow> passkey_table) \<Rightarrow> passkey_service \<Rightarrow> passkey_service" where
  "on_table f s = s\<lparr>ps_table := map_option f (ps_table s)\<rparr>"

fun passkey_step :: "wa_register \<Rightarrow> wa_authenticate \<Rightarrow> passkey_op \<Rightarrow> passkey_service \<Rightarrow> passkey_service" where
  "passkey_step wr wa (Reg_options r n cid sess ch st tp now) s = snd (registration_options r n cid sess ch st tp now s)"
| "passkey_step wr wa (Reg_verify r n st cred l sess tp now ta) s = snd (verify_registration wr r n st cred l sess tp now ta s)"
| "passkey_step wr wa (Auth_options r n cid ch st tp now) s = snd (authentication_options r n cid ch st tp now s)"
| "passkey_step wr wa (Auth_verify r n st cred tp now t1 t2) s = snd (verify_authentication wa r n st cred tp now t1 t2 s)"
| "passkey_step wr wa (Remove_passkey i cid) s = on_table (\<lambda>t. snd (passkey_delete i cid t)) s"
| "passkey_step wr wa (Remove_all_of cid) s = on_table (\<lambda>t. snd (passkey_delete_all cid t)) s"

definition passkey_run :: "wa_register \<Rightarrow> wa_authenticate \<Rightarrow> passkey_op list \<Rightarrow> passkey_service \<Rightarrow> passkey_service" where
  "passkey_run wr wa ops s = fold (passkey_step wr wa) ops s"

text \<open>A challenge of the store was issued by one of \<open>ops\<close>, with that operation's data.\<close>

definition issued_by :: "passkey_op list \<Rightarrow> string \<Rightarrow> challenge \<Rightarrow> bool" where
  "issued_by ops st c \<longleftrightarrow>
     (ch_purpose c = ''register'' \<and>
        (\<exists>r n tp now. Reg_options r n (ch_client_id c) (ch_session_id c) (ch_challenge c) st tp now \<in> set ops
                      \<and> ch_expires_at c = now + CHALLENGE_TTL_SECONDS))
   \<or> (ch_purpose c = ''authenticate'' \<and>
        (\<exists>r n tp now. Auth_options r n (ch_client_id c) (ch_challenge c) st tp now \<in> set ops
                      \<and> ch_expires_at c = now + CHALLENGE_TTL_SECONDS))"

lemma issued_by_mono: "issued_by ops st c \<Longrightarrow> set ops \<subseteq> set ops' \<Longrightarrow> issued_by ops' st c"
  unfolding issued_by_def by blast

definition challenges_issued :: "passkey_op list \<Rightarrow> challenge_store \<Rightarrow> bool" where
  "challenges_issued ops s \<longleftrightarrow> (\<forall>(st, c) \<in> set s. issued_by ops st c)"

lemma challenge_store_step:
  "p \<in> set (ps_challenges (passkey_step wr wa x s)) \<Longrightarrow>
     p \<in> set (ps_challenges s) \<or> issued_by [x] (fst p) (snd p)"
  by (cases x)
     (auto simp: registration_options_def verify_registration_def authentication_options_def verify_authentication_def
        challenge_issue_def challenge_consume_def prune_challenges_def on_table_def issued_by_def Let_def
        split: option.splits if_splits prod.splits dest!: in_dset)


lemma passkey_run_snoc: "passkey_run wr wa (ops @ [x]) s = passkey_step wr wa x (passkey_run wr wa ops s)"
  by (simp add: passkey_run_def)

lemma challenges_issued_run:
  assumes "ps_challenges s = []"
  shows "challenges_issued ops (ps_challenges (passkey_run wr wa ops s))"
proof (induction ops rule: rev_induct)
  case Nil then show ?case by (simp add: challenges_issued_def passkey_run_def assms)
next
  case (snoc x xs)
  show ?case unfolding challenges_issued_def
  proof (clarify)
    fix st c assume "(st, c) \<in> set (ps_challenges (passkey_run wr wa (xs @ [x]) s))"
    then have "(st, c) \<in> set (ps_challenges (passkey_run wr wa xs s)) \<or> issued_by [x] st c"
      using challenge_store_step [of "(st, c)" wr wa x] by (auto simp: passkey_run_snoc)
    then show "issued_by (xs @ [x]) st c"
      using snoc by (auto simp: challenges_issued_def intro: issued_by_mono)
  qed
qed

lemma challenge_consumed:
  assumes "challenge_consume st purpose tp now s = (Some c, s')"
  shows "(st, c) \<in> set s \<and> ch_purpose c = purpose \<and> now \<le> ch_expires_at c"
proof -
  have "dget (prune_challenges tp s) st = Some c" "ch_purpose c = purpose" "now \<le> ch_expires_at c"
    using assms by (auto simp: challenge_consume_def Let_def split: option.splits if_splits)
  then show ?thesis by (auto simp: prune_challenges_def dest!: dget_in)
qed

lemma ps_trusted_step [simp]: "ps_trusted (passkey_step wr wa x s) = ps_trusted s"
  by (cases x)
     (auto simp: registration_options_def verify_registration_def authentication_options_def verify_authentication_def
        on_table_def Let_def split: option.splits if_splits prod.splits)

lemma ps_trusted_run: "ps_trusted (passkey_run wr wa ops s) = ps_trusted s"
  by (induction ops rule: rev_induct) (simp_all add: passkey_run_snoc, simp add: passkey_run_def)

lemma authenticated:
  assumes "fst (verify_authentication wa r n st cred tp now t1 t2 s) = Inr p"
  shows "\<exists>t c cs i rec k. ps_table s = Some t \<and> challenge_consume st ''authenticate'' tp now (ps_challenges s) = (Some c, cs)
     \<and> raw_credential_id cred = Some i \<and> dget t i = Some rec \<and> pk_client_id rec = ch_client_id c
     \<and> wa cred (ch_challenge c) (rp_id_for r n (ps_trusted s)) (origin_for r n (ps_trusted s)) (pk_public_key rec)
         (pk_sign_count rec) = Some k
     \<and> p = rec\<lparr>pk_sign_count := k, pk_last_used_at := Some t2\<rparr>"
  using assms unfolding verify_authentication_def Let_def passkey_get_def
  by (simp split: option.splits if_splits prod.splits)

text \<open>
  C34: A passkey sign-in is bound to its client, its origin and its challenge: over any history
  of the service, a verified assertion comes from a stored credential of the very client its
  challenge was issued to, the library accepted it for that challenge, the relying party of
  the request, and the stored key and counter, and the challenge was drawn for signing in at
  most 180 seconds before; a registration challenge never signs anyone in.
\<close>

theorem passkey_sign_in_is_bound:
  assumes "ps_challenges s0 = []" "s = passkey_run wr wa ops s0"
    and "fst (verify_authentication wa r n st cred tp now t1 t2 s) = Inr p"
  shows "\<exists>r' n' ch tp' now' t i rec. Auth_options r' n' (pk_client_id p) ch st tp' now' \<in> set ops \<and> now \<le> now' + 180
     \<and> ps_table s = Some t \<and> raw_credential_id cred = Some i \<and> dget t i = Some rec \<and> pk_client_id rec = pk_client_id p
     \<and> wa cred ch (rp_id_for r n (ps_trusted s0)) (origin_for r n (ps_trusted s0)) (pk_public_key rec) (pk_sign_count rec)
         = Some (pk_sign_count p)"
proof -
  obtain t c cs i rec k where h: "ps_table s = Some t"
    "challenge_consume st ''authenticate'' tp now (ps_challenges s) = (Some c, cs)"
    "raw_credential_id cred = Some i" "dget t i = Some rec" "pk_client_id rec = ch_client_id c"
    "wa cred (ch_challenge c) (rp_id_for r n (ps_trusted s)) (origin_for r n (ps_trusted s)) (pk_public_key rec)
       (pk_sign_count rec) = Some k" "p = rec\<lparr>pk_sign_count := k, pk_last_used_at := Some t2\<rparr>"
    using authenticated [OF assms(3)] by blast
  have c: "(st, c) \<in> set (ps_challenges s)" "ch_purpose c = ''authenticate''" "now \<le> ch_expires_at c"
    using challenge_consumed [OF h(2)] by auto
  have "issued_by ops st c" using challenges_issued_run [OF assms(1), of ops wr wa] c(1) assms(2)
    by (auto simp: challenges_issued_def)
  then obtain r' n' tp' now' where "Auth_options r' n' (ch_client_id c) (ch_challenge c) st tp' now' \<in> set ops"
    "ch_expires_at c = now' + CHALLENGE_TTL_SECONDS" using c(2) by (auto simp: issued_by_def)
  with c(3) h assms(2) show ?thesis
    by (simp add: CHALLENGE_TTL_SECONDS_def ps_trusted_run) blast
qed


text \<open>A browser's request to the host \<open>h\<close>, and a service that holds one passkey of \<open>c\<close>.\<close>

definition sample_request :: request where
  "sample_request = \<lparr>rq_peer = None, rq_headers = Some [(''host'', ''h'')], rq_scheme = ''https''\<rparr>"

definition sample_passkey :: passkey where
  "sample_passkey = \<lparr>pk_credential_id = ''k'', pk_client_id = ''c'', pk_public_key = ''key'', pk_sign_count = 0,
     pk_transports = [], pk_label = ''Mac'', pk_created_at = 0, pk_last_used_at = None, pk_backed_up = True\<rparr>"

definition sample_service :: passkey_service where
  "sample_service = \<lparr>ps_installed = True, ps_table = Some [(''k'', sample_passkey)], ps_challenges = [], ps_trusted = []\<rparr>"

lemmas passkey_eval = passkey_run_def authentication_options_def verify_authentication_def registration_options_def
  verify_registration_def challenge_issue_def challenge_consume_def prune_challenges_def passkeys_of_def passkey_get_def
  raw_credential_id_def sample_service_def sample_passkey_def CHALLENGE_TTL_SECONDS_def MAX_PASSKEYS_PER_CLIENT_def Let_def

lemma passkey_sign_in_is_bound_witness:
  "\<exists>ch now'. Auth_options sample_request [] ''c'' ch ''st'' 0 now' \<in> set [Auth_options sample_request [] ''c'' ''ch'' ''st'' 0 0]
     \<and> 100 \<le> now' + 180"
proof -
  let ?ops = "[Auth_options sample_request [] ''c'' ''ch'' ''st'' 0 0]"
  let ?wa = "\<lambda>cred ch rp origin key n. if ch = ''ch'' \<and> key = ''key'' then Some (n + 1) else None"
  have "fst (verify_authentication ?wa sample_request [] ''st'' [(''id'', PStr ''k'')] 100 100 100 100
       (passkey_run (\<lambda>_ _ _ _. None) ?wa ?ops sample_service))
    = Inr (sample_passkey\<lparr>pk_sign_count := 1, pk_last_used_at := Some 100\<rparr>)"
    by (simp add: passkey_eval)
  from passkey_sign_in_is_bound [OF _ refl this] show ?thesis by (auto simp: sample_service_def sample_passkey_def)
qed

text \<open>
  A sign-in challenge and a registration challenge are used at most once each, whichever
  of the two ceremonies presents it, whatever is issued in between.
\<close>

theorem challenge_used_at_most_once:
  assumes "\<forall>x. Other x \<in> set ops \<longrightarrow> \<not> challenge_mints x st"
  shows "redemptions st (ticket_run redeem_challenge challenge_other ops s) \<le> 1"
  using assms by (rule challenges.at_most_once)

lemma challenge_used_at_most_once_witness:
  "redemptions ''s'' (ticket_run redeem_challenge challenge_other
     [Redeem ''s'' (''register'', 5, 5), Redeem ''s'' (''authenticate'', 6, 6)]
     (challenge_issue 180 ''register'' ''ch'' ''c'' None ''s'' 0 0 [])) \<le> 1"
  by (rule challenge_used_at_most_once) simp

text \<open>The row a completed registration writes, with its label and transports left open.\<close>

definition fresh_passkey :: "wa_registered \<Rightarrow> string \<Rightarrow> string list \<Rightarrow> string \<Rightarrow> real \<Rightarrow> passkey" where
  "fresh_passkey v cid transports l ta =
     \<lparr>pk_credential_id = wr_credential_id v, pk_client_id = cid, pk_public_key = wr_public_key v,
      pk_sign_count = wr_sign_count v, pk_transports = transports, pk_label = l, pk_created_at = ta,
      pk_last_used_at = None, pk_backed_up = wr_backed_up v\<rparr>"

lemma registered:
  assumes "ps_table (snd (verify_registration wr r n st cred l sess tp now ta s)) \<noteq> ps_table s"
  shows "\<exists>t c cs v tr lb. ps_table s = Some t \<and> challenge_consume st ''register'' tp now (ps_challenges s) = (Some c, cs)
     \<and> (ch_session_id c = None \<or> ch_session_id c = sess)
     \<and> wr cred (ch_challenge c) (rp_id_for r n (ps_trusted s)) (origin_for r n (ps_trusted s)) = Some v
     \<and> ps_table (snd (verify_registration wr r n st cred l sess tp now ta s))
         = Some (dset (wr_credential_id v) (fresh_passkey v (ch_client_id c) tr lb ta) t)"
proof -
  obtain t where t: "ps_table s = Some t" "ps_installed s"
    using assms by (cases "ps_table s"; cases "ps_installed s") (auto simp: verify_registration_def)
  obtain pc cs where pc: "challenge_consume st ''register'' tp now (ps_challenges s) = (pc, cs)" by fastforce
  obtain c where c: "pc = Some c" using assms t pc by (cases pc) (auto simp: verify_registration_def)
  have own: "ch_session_id c = None \<or> ch_session_id c = sess"
    using assms t pc c by (cases "ch_session_id c \<noteq> None \<and> ch_session_id c \<noteq> sess") (auto simp: verify_registration_def)
  obtain v where v: "wr cred (ch_challenge c) (rp_id_for r n (ps_trusted s)) (origin_for r n (ps_trusted s)) = Some v"
    using assms t pc c own
    by (cases "wr cred (ch_challenge c) (rp_id_for r n (ps_trusted s)) (origin_for r n (ps_trusted s))")
       (auto simp: verify_registration_def)
  obtain tr where tr: "dget t (wr_credential_id v) = None" "response_transports cred = Some tr"
    using assms t pc c own v
    by (cases "dget t (wr_credential_id v)"; cases "response_transports cred")
       (auto simp: verify_registration_def passkey_get_def)
  have own': "(ch_session_id c \<noteq> None \<and> ch_session_id c \<noteq> sess) = False" using own by auto
  show ?thesis
    using t pc c own v tr
    by (simp add: own' verify_registration_def passkey_get_def passkey_add_def fresh_passkey_def map_of_eq_None_iff Let_def del: not_None_eq)
       blast
qed


text \<open>A stored credential was enrolled: by a ceremony begun for its client and finished in the same session.\<close>

definition enrolled ::
  "wa_register \<Rightarrow> string list \<Rightarrow> passkey_op list \<Rightarrow> string \<Rightarrow> passkey \<Rightarrow> bool" where
  "enrolled wr trusted ops i p \<longleftrightarrow>
     (\<exists>r n sess ch st tp now r' n' cred l sess' tp' now' ta v.
        Reg_options r n (pk_client_id p) sess ch st tp now \<in> set ops
      \<and> Reg_verify r' n' st cred l sess' tp' now' ta \<in> set ops
      \<and> (sess = None \<or> sess = sess') \<and> now' \<le> now + 180
      \<and> wr cred ch (rp_id_for r' n' trusted) (origin_for r' n' trusted) = Some v
      \<and> wr_credential_id v = i \<and> wr_public_key v = pk_public_key p)"

lemma enrolled_mono: "enrolled wr tr ops i p \<Longrightarrow> set ops \<subseteq> set ops' \<Longrightarrow> enrolled wr tr ops' i p"
  unfolding enrolled_def by (elim exE conjE) (intro exI conjI; (erule (1) subsetD | assumption))

lemma enrolled_same:
  "enrolled wr tr ops i p \<Longrightarrow> pk_client_id q = pk_client_id p \<Longrightarrow> pk_public_key q = pk_public_key p \<Longrightarrow> enrolled wr tr ops i q"
  by (simp add: enrolled_def)

text \<open>Every operation but a completed registration keeps the owner and key of what it leaves.\<close>

definition keeps_rows :: "passkey_table option \<Rightarrow> passkey_table option \<Rightarrow> bool" where
  "keeps_rows t t' \<longleftrightarrow> (\<forall>rows' i q. t' = Some rows' \<and> dget rows' i = Some q \<longrightarrow>
     (\<exists>rows p. t = Some rows \<and> dget rows i = Some p \<and> pk_client_id p = pk_client_id q \<and> pk_public_key p = pk_public_key q))"

definition rows_ok :: "passkey_table option \<Rightarrow> bool" where
  "rows_ok t \<longleftrightarrow> (\<forall>rows. t = Some rows \<longrightarrow> dict_ok rows \<and> (\<forall>i p. dget rows i = Some p \<longrightarrow> pk_credential_id p = i))"

lemma keeps_rows_refl: "keeps_rows t t"
  by (auto simp: keeps_rows_def)

lemma keeps_rows_touch: "rows_ok (Some t) \<Longrightarrow> keeps_rows (Some t) (Some (passkey_touch i n now t))"
  by (auto simp: keeps_rows_def passkey_touch_def split: option.splits if_splits)

lemma keeps_rows_delete: "keeps_rows t (map_option (\<lambda>t. snd (passkey_delete i cid t)) t)"
proof (cases t)
  case (Some z)
  then show ?thesis by (cases "dget z i") (auto simp: keeps_rows_def passkey_delete_def split: if_splits)
qed (simp add: keeps_rows_def)

lemma keeps_rows_delete_all: "rows_ok t \<Longrightarrow> keeps_rows t (map_option (\<lambda>t. snd (passkey_delete_all cid t)) t)"
  by (auto simp: keeps_rows_def passkey_delete_all_def rows_ok_def dget_dkeep split: option.splits if_splits)

lemma authentication_table:
  "ps_table (snd (verify_authentication wa r n st cred tp now t1 t2 s)) = ps_table s \<or>
   (\<exists>t i n'. ps_table s = Some t \<and>
      ps_table (snd (verify_authentication wa r n st cred tp now t1 t2 s)) = Some (passkey_touch i n' t1 t))"
  unfolding verify_authentication_def Let_def by (simp split: option.splits if_splits prod.splits) blast

lemma table_step:
  assumes "rows_ok (ps_table s)" "\<And>r n st cred l sess tp now ta. x \<noteq> Reg_verify r n st cred l sess tp now ta"
  shows "keeps_rows (ps_table s) (ps_table (passkey_step wr wa x s))"
proof (cases x)
  case (Auth_verify r n st cred tp now t1 t2)
  then show ?thesis using authentication_table [of wa r n st cred tp now t1 t2 s] assms(1)
    by (auto simp: keeps_rows_refl intro: keeps_rows_touch)
qed (use assms in \<open>auto simp: registration_options_def authentication_options_def on_table_def Let_def keeps_rows_refl
        keeps_rows_delete keeps_rows_delete_all split: option.splits\<close>)


lemma registration_table:
  "ps_table (snd (verify_registration wr r n st cred l sess tp now ta s)) = ps_table s \<or>
   (\<exists>t v cid tr lb. ps_table s = Some t \<and>
      ps_table (snd (verify_registration wr r n st cred l sess tp now ta s))
        = Some (dset (wr_credential_id v) (fresh_passkey v cid tr lb ta) t))"
  using registered [of wr r n st cred l sess tp now ta s] by blast

lemma rows_ok_touch: "rows_ok (Some t) \<Longrightarrow> rows_ok (Some (passkey_touch i n now t))"
  by (cases "dget t i") (auto simp: rows_ok_def passkey_touch_def simp del: map_of_eq_Some_iff)

lemma rows_ok_step: "rows_ok (ps_table s) \<Longrightarrow> rows_ok (ps_table (passkey_step wr wa x s))"
proof (cases x)
  case (Auth_verify r n st cred tp now t1 t2)
  assume "rows_ok (ps_table s)"
  with Auth_verify show ?thesis using authentication_table [of wa r n st cred tp now t1 t2 s]
    by (auto simp: rows_ok_touch)
next
  case (Reg_verify r n st cred l sess tp now ta)
  assume "rows_ok (ps_table s)"
  with Reg_verify show ?thesis using registration_table [of wr r n st cred l sess tp now ta s]
    by (auto simp: rows_ok_def fresh_passkey_def split: if_splits)
qed (auto simp: registration_options_def authentication_options_def on_table_def passkey_delete_def passkey_delete_all_def
       rows_ok_def dget_dkeep Let_def split: option.splits if_splits)

lemma rows_ok_run: "rows_ok (ps_table s) \<Longrightarrow> rows_ok (ps_table (passkey_run wr wa ops s))"
  by (induction ops rule: rev_induct) (auto simp: passkey_run_snoc rows_ok_step, auto simp: passkey_run_def)

lemma registration_enrolls:
  assumes "challenges_issued ops (ps_challenges s)"
    and "x = Reg_verify r n st cred l sess tp now ta" "ps_table (passkey_step wr wa x s) = Some rows" "dget rows i = Some p"
    and "\<not> (\<exists>t. ps_table s = Some t \<and> dget t i = Some p)"
  shows "enrolled wr (ps_trusted s) (ops @ [x]) i p"
proof -
  have "ps_table (snd (verify_registration wr r n st cred l sess tp now ta s)) \<noteq> ps_table s" using assms by auto
  from registered [OF this] obtain t c cs v tr lb where
    h: "ps_table s = Some t" "challenge_consume st ''register'' tp now (ps_challenges s) = (Some c, cs)"
      "ch_session_id c = None \<or> ch_session_id c = sess"
      "wr cred (ch_challenge c) (rp_id_for r n (ps_trusted s)) (origin_for r n (ps_trusted s)) = Some v"
      "ps_table (passkey_step wr wa x s) = Some (dset (wr_credential_id v) (fresh_passkey v (ch_client_id c) tr lb ta) t)"
    using assms(2) by auto
  have i: "i = wr_credential_id v" "p = fresh_passkey v (ch_client_id c) tr lb ta"
    using h(1,5) assms(3-5) by (auto split: if_splits)
  have c: "(st, c) \<in> set (ps_challenges s)" "ch_purpose c = ''register''" "now \<le> ch_expires_at c"
    using challenge_consumed [OF h(2)] by auto
  from assms(1) c(1) have "issued_by ops st c" by (auto simp: challenges_issued_def)
  then obtain r0 n0 tp0 now0 where
    o: "Reg_options r0 n0 (ch_client_id c) (ch_session_id c) (ch_challenge c) st tp0 now0 \<in> set ops"
    "ch_expires_at c = now0 + 180" using c(2) by (auto simp: issued_by_def CHALLENGE_TTL_SECONDS_def)
  have p: "Reg_options r0 n0 (pk_client_id p) (ch_session_id c) (ch_challenge c) st tp0 now0 \<in> set (ops @ [x])"
    "Reg_verify r n st cred l sess tp now ta \<in> set (ops @ [x])" "now \<le> now0 + 180"
    "wr_credential_id v = i" "wr_public_key v = pk_public_key p"
    using o i assms(2) c(3) by (simp_all add: fresh_passkey_def)
  from p h(3,4) show ?thesis unfolding enrolled_def by blast
qed

text \<open>
  Whose passkeys they are: over any history of the service, a stored credential of a client
  is either a row of the table it started with, with its owner and public key untouched by every
  sign-in and deletion since, or was enrolled: a registration begun for that very client and
  completed within 180 seconds by the same session, whose response the library verified for
  that challenge and origin; its key is the one the library returned.
\<close>

theorem passkeys_are_enrolled:
  assumes "ps_challenges s0 = []" "rows_ok (ps_table s0)"
    and "ps_table (passkey_run wr wa ops s0) = Some rows" "dget rows i = Some p"
  shows "enrolled wr (ps_trusted s0) ops i p \<or> (\<exists>rows0 p0. ps_table s0 = Some rows0 \<and> dget rows0 i = Some p0
     \<and> pk_client_id p0 = pk_client_id p \<and> pk_public_key p0 = pk_public_key p)"
  using assms(3,4)
proof (induction ops arbitrary: rows p rule: rev_induct)
  case Nil then show ?case by (auto simp: passkey_run_def)
next
  case (snoc x xs)
  let ?s = "passkey_run wr wa xs s0"
  have step: "ps_table (passkey_step wr wa x ?s) = Some rows" using snoc.prems(1) by (simp add: passkey_run_snoc)
  have up: "enrolled wr (ps_trusted s0) (xs @ [x]) i p" if "enrolled wr (ps_trusted s0) xs i p" for p
    using that by (rule enrolled_mono) auto
  show ?case
  proof (cases "\<exists>t q. ps_table ?s = Some t \<and> dget t i = Some q \<and> pk_client_id q = pk_client_id p \<and> pk_public_key q = pk_public_key p")
    case True
    then obtain t q where q: "ps_table ?s = Some t" "dget t i = Some q" "pk_client_id q = pk_client_id p" "pk_public_key q = pk_public_key p"
      by blast
    from snoc.IH [OF q(1,2)] show ?thesis using enrolled_same [of wr "ps_trusted s0" xs i q p] up q(3,4) by auto
  next
    case False
    then have "\<not> keeps_rows (ps_table ?s) (ps_table (passkey_step wr wa x ?s))"
      using step snoc.prems(2) unfolding keeps_rows_def by blast
    then obtain r n st cred l sess tp now ta where x: "x = Reg_verify r n st cred l sess tp now ta"
      using table_step [OF rows_ok_run [OF assms(2)], of x wr wa xs wr wa] by blast
    show ?thesis
      using registration_enrolls [OF challenges_issued_run [OF assms(1)] x step snoc.prems(2)] False
      by (auto simp: ps_trusted_run)
  qed
qed


definition enrol_ops :: "passkey_op list" where
  "enrol_ops = [Reg_options sample_request [] ''c'' (Some ''s1'') ''ch'' ''st'' 0 0,
     Reg_verify sample_request [] ''st'' [] (Some ''Phone'') (Some ''s1'') 10 10 10]"

definition sample_wr :: wa_register where
  "sample_wr cred ch rp origin =
     (if ch = ''ch'' then Some \<lparr>wr_credential_id = ''k2'', wr_public_key = ''p'', wr_sign_count = 0, wr_backed_up = True\<rparr> else None)"

lemma passkeys_are_enrolled_witness:
  "enrolled sample_wr [] enrol_ops ''k2'' (sample_passkey\<lparr>pk_credential_id := ''k2'', pk_public_key := ''p'',
      pk_label := ''Phone'', pk_created_at := 10\<rparr>)
   \<or> (\<exists>p0. dget [(''k'', sample_passkey)] ''k2'' = Some p0 \<and> pk_public_key p0 = ''p'')"
proof -
  let ?p = "sample_passkey\<lparr>pk_credential_id := ''k2'', pk_public_key := ''p'', pk_label := ''Phone'', pk_created_at := 10\<rparr>"
  have phone: "py_strip ''Phone'' = ''Phone''" by (rule py_strip_id) code_simp
  have "ps_table (passkey_run sample_wr (\<lambda>_ _ _ _ _ _. None) enrol_ops sample_service)
    = Some [(''k'', sample_passkey), (''k2'', ?p)]"
    by (simp add: passkey_eval enrol_ops_def sample_wr_def passkey_add_def response_transports_def phone)
  from passkeys_are_enrolled [OF _ _ this, of "''k2''" ?p] show ?thesis
    by (auto simp: sample_service_def rows_ok_def sample_passkey_def)
qed

end
