(* ===== verification/Transfers.thy ===== *)
theory Transfers
  imports Single_Use Py_Val Redirects Forwarded
begin

text \<open>
  One-shot upload links (\<open>transfers.py\<close>): the registry \<open>UploadLinkStore\<close>, the
  base URL of a link, and the endpoint that spends a link, stages the body and pushes it into
  the guest.  Link objects are shared by the two dictionaries of the registry and by the
  request that spends them, so they live in a heap (a list) and the dictionaries hold
  references.  Faults of the file system and the pusher are parameters; removing a staged
  file is assumed to succeed.
\<close>

subsection \<open>Links\<close>

datatype link_status = L_pending | L_uploading | L_success | L_error | L_expired

fun link_status_str :: "link_status \<Rightarrow> string" where
  "link_status_str L_pending = ''pending''"
| "link_status_str L_uploading = ''uploading''"
| "link_status_str L_success = ''success''"
| "link_status_str L_error = ''error''"
| "link_status_str L_expired = ''expired''"

type_synonym push_result = "(string, pyval) dict"

record upload_link =
  ul_link_id :: string
  ul_token :: string
  ul_node :: string
  ul_vmid :: int
  ul_dest :: string
  ul_max_bytes :: int
  ul_staging_dir :: string
  ul_verify_checksum :: bool
  ul_expires_at :: real
  ul_created_at :: real
  ul_status :: link_status
  ul_result :: "push_result option"
  ul_finished_at :: "real option"

definition link_public :: "upload_link \<Rightarrow> push_result" where
  "link_public l =
     [(''link_id'', PStr (ul_link_id l)), (''status'', PStr (link_status_str (ul_status l))),
      (''node'', PStr (ul_node l)), (''vmid'', PInt (ul_vmid l)), (''dest'', PStr (ul_dest l)),
      (''expires_at'', PInt (py_int (ul_expires_at l)))]
     @ (case ul_result l of None \<Rightarrow> [] | Some r \<Rightarrow> [(''result'', PDict r)])"

definition DEFAULT_TTL :: int where "DEFAULT_TTL = 600"
definition MIN_TTL :: int where "MIN_TTL = 60"
definition MAX_TTL :: int where "MAX_TTL = 3600"
definition MAX_PENDING_LINKS :: nat where "MAX_PENDING_LINKS = 50"
definition RESULT_TTL :: real where "RESULT_TTL = 3600"

record upload_store =
  us_links :: "upload_link list"
  us_by_token :: "(string, nat) dict"
  us_by_id :: "(string, nat) dict"

definition link_at :: "upload_store \<Rightarrow> nat \<Rightarrow> upload_link" where
  "link_at s f = us_links s ! f"

definition set_link :: "nat \<Rightarrow> upload_link \<Rightarrow> upload_store \<Rightarrow> upload_store" where
  "set_link f l s = s\<lparr>us_links := (us_links s)[f := l]\<rparr>"

text \<open>The body of the pruning loop, for one item of the snapshot it iterates over.\<close>

definition expire_link :: "real \<Rightarrow> nat \<Rightarrow> upload_store \<Rightarrow> upload_store" where
  "expire_link now f s =
     (let l = link_at s f
      in if ul_status l = L_pending \<and> ul_expires_at l \<le> now
         then (set_link f (l\<lparr>ul_status := L_expired, ul_finished_at := Some now\<rparr>) s)
                \<lparr>us_by_token := dpop (ul_token l) (us_by_token s)\<rparr>
         else s)"

definition drop_link :: "real \<Rightarrow> string \<Rightarrow> nat \<Rightarrow> upload_store \<Rightarrow> upload_store" where
  "drop_link now link_id f s =
     (case ul_finished_at (link_at s f) of
        None \<Rightarrow> s
      | Some t \<Rightarrow>
          if now - t > RESULT_TTL
          then s\<lparr>us_by_id := dpop link_id (us_by_id s), us_by_token := dpop (ul_token (link_at s f)) (us_by_token s)\<rparr>
          else s)"

definition prune_link :: "real \<Rightarrow> string \<times> nat \<Rightarrow> upload_store \<Rightarrow> upload_store" where
  "prune_link now item s = drop_link now (fst item) (snd item) (expire_link now (snd item) s)"

definition prune_links :: "real \<Rightarrow> upload_store \<Rightarrow> upload_store" where
  "prune_links now s = fold (prune_link now) (us_by_id s) s"

definition pending_links :: "upload_store \<Rightarrow> nat" where
  "pending_links s = dcount (\<lambda>f. ul_status (link_at s f) = L_pending) (us_by_id s)"

text \<open>
  What is asked of a link, and \<open>issue\<close>: \<open>link_id\<close> and \<open>token\<close> are the values drawn,
  \<open>now\<close> and \<open>tc\<close> the clock readings; None is the \<open>RuntimeError\<close>.
\<close>

record link_request =
  lr_node :: string
  lr_vmid :: int
  lr_dest :: string
  lr_max_bytes :: int
  lr_staging_dir :: string
  lr_verify_checksum :: bool
  lr_ttl :: int

definition clamp_ttl :: "int \<Rightarrow> int" where
  "clamp_ttl ttl = max MIN_TTL (min ttl MAX_TTL)"

definition new_link :: "link_request \<Rightarrow> string \<Rightarrow> string \<Rightarrow> real \<Rightarrow> real \<Rightarrow> upload_link" where
  "new_link q link_id token now tc =
     \<lparr>ul_link_id = link_id, ul_token = token, ul_node = lr_node q, ul_vmid = lr_vmid q, ul_dest = lr_dest q,
      ul_max_bytes = lr_max_bytes q, ul_staging_dir = lr_staging_dir q,
      ul_verify_checksum = lr_verify_checksum q, ul_expires_at = now + of_int (clamp_ttl (lr_ttl q)),
      ul_created_at = tc, ul_status = L_pending, ul_result = None, ul_finished_at = None\<rparr>"

definition link_issue ::
  "link_request \<Rightarrow> string \<Rightarrow> string \<Rightarrow> real \<Rightarrow> real \<Rightarrow> upload_store \<Rightarrow> nat option \<times> upload_store" where
  "link_issue q link_id token now tc s =
     (let s1 = prune_links now s
      in if MAX_PENDING_LINKS \<le> pending_links s1 then (None, s1)
         else
           let l = new_link q link_id token now tc;
               f = length (us_links s1)
           in (Some f, s1\<lparr>us_links := us_links s1 @ [l], us_by_token := dset token f (us_by_token s1),
                         us_by_id := dset link_id f (us_by_id s1)\<rparr>))"

definition link_claim :: "string \<Rightarrow> real \<Rightarrow> upload_store \<Rightarrow> nat option \<times> upload_store" where
  "link_claim token now s =
     (let s1 = prune_links now s; s2 = s1\<lparr>us_by_token := dpop token (us_by_token s1)\<rparr>
      in case dget (us_by_token s1) token of
           None \<Rightarrow> (None, s2)
         | Some f \<Rightarrow>
             if ul_status (link_at s2 f) \<noteq> L_pending then (None, s2)
             else (Some f, set_link f ((link_at s2 f)\<lparr>ul_status := L_uploading\<rparr>) s2))"

definition succeeded :: "push_result \<Rightarrow> bool" where
  "succeeded r \<longleftrightarrow> dget r ''status'' = Some (PStr ''success'')"

definition link_finish :: "nat \<Rightarrow> push_result \<Rightarrow> real \<Rightarrow> upload_store \<Rightarrow> upload_store" where
  "link_finish f r now s =
     set_link f ((link_at s f)\<lparr>ul_status := (if succeeded r then L_success else L_error), ul_result := Some r,
                              ul_finished_at := Some now\<rparr>) s"

definition link_get :: "string \<Rightarrow> real \<Rightarrow> upload_store \<Rightarrow> nat option \<times> upload_store" where
  "link_get link_id now s = (let s1 = prune_links now s in (dget (us_by_id s1) link_id, s1))"

subsection \<open>The base URL of a link\<close>

definition ip_is_loopback :: "ip_addr \<Rightarrow> bool" where
  "ip_is_loopback a = (case a of V4 w \<Rightarrow> in_net a (Net4 0x7F000000 8) | V6 w _ \<Rightarrow> w = 1)"

text \<open>None is the \<open>ValueError\<close> of \<open>urlsplit\<close>, which the function lets through.\<close>

definition is_loopback_url :: "string \<Rightarrow> bool option" where
  "is_loopback_url url =
     (case urlparse url of
        None \<Rightarrow> None
      | Some (scheme, netloc) \<Rightarrow>
          let host = py_lower (url_hostname netloc)
          in Some (if host = ''localhost'' \<or> endswith host ''.localhost'' then True
                   else case ip_address host of None \<Rightarrow> False | Some a \<Rightarrow> ip_is_loopback a))"

definition is_slash :: "char \<Rightarrow> bool" where
  "is_slash c \<longleftrightarrow> c = CHR ''/''"

definition public_base_url :: "string option \<Rightarrow> string option \<Rightarrow> string option option" where
  "public_base_url configured current_base =
     (let c = py_strip (case configured of None \<Rightarrow> [] | Some s \<Rightarrow> s)
      in if c \<noteq> [] then Some (Some (rstrip is_slash c))
         else case current_base of
           None \<Rightarrow> Some None
         | Some base \<Rightarrow>
             if base = [] then Some None
             else case is_loopback_url base of
               None \<Rightarrow> None
             | Some loopback \<Rightarrow> Some (if loopback then None else Some (rstrip is_slash base)))"

subsection \<open>The endpoint\<close>

text \<open>
  The body as the server yields it: its chunks, and how the stream ends.  An answer of the
  pusher: a dictionary, an exception, or the cancellation of the request.
\<close>

datatype stream_end = Stream_done | Stream_failed string | Stream_cancelled
datatype push_answer = Pushed push_result | Push_raised string | Push_cancelled

record upload_body =
  ub_chunks :: "string list"
  ub_end :: stream_end

text \<open>Faults of the staging area: creating the directory, opening, writing and
  renaming the part file.\<close>

record staging_faults =
  sf_mkdir :: "string option"
  sf_open :: "string option"
  sf_write :: "string option"
  sf_replace :: "string option"

text \<open>A call of the pusher: node, VM, content of the staged file, destination, checksum flag.\<close>

record push_call =
  pc_node :: string
  pc_vmid :: int
  pc_content :: string
  pc_dest :: string
  pc_verify :: bool

type_synonym pusher = "push_call \<Rightarrow> push_answer"

definition upload_error :: "string \<Rightarrow> push_result" where
  "upload_error message = [(''status'', PStr ''error''), (''error'', PStr message)]"

definition status_code :: "push_result \<Rightarrow> int" where
  "status_code r = (if succeeded r then 200 else if ''guest_status'' \<in> set (dkeys r) then 409 else 500)"

text \<open>Python refuses to convert a text of more than 4300 digits.\<close>

definition py_int_of_str :: "string \<Rightarrow> int option" where
  "py_int_of_str s = (if length s \<le> 4300 then int_of_digits s else None)"

text \<open>How the receiving loop ends: the bytes it counted with the file's content, or the reason it stopped.\<close>

datatype receive_end = Received string | Over_cap int | Receive_failed int string | Receive_cancelled

fun receive_chunks :: "int \<Rightarrow> string option \<Rightarrow> string list \<Rightarrow> stream_end \<Rightarrow> string \<Rightarrow> receive_end" where
  "receive_chunks cap wr [] e got =
     (case e of Stream_done \<Rightarrow> Received got | Stream_failed m \<Rightarrow> Receive_failed (int (length got)) m
      | Stream_cancelled \<Rightarrow> Receive_cancelled)"
| "receive_chunks cap wr (c # cs) e got =
     (let received = int (length got) + int (length c)
      in if cap < received then Over_cap received
         else case wr of
           Some m \<Rightarrow> Receive_failed received m
         | None \<Rightarrow> receive_chunks cap wr cs e (got @ c))"

text \<open>\<open>setdefault("bytes", received)\<close> and the link's id.\<close>

definition settle_result :: "int \<Rightarrow> string \<Rightarrow> push_result \<Rightarrow> push_result" where
  "settle_result received link_id r =
     dset ''link_id'' (PStr link_id) (if ''bytes'' \<in> set (dkeys r) then r else dset ''bytes'' (PInt received) r)"

datatype upload_outcome =
    Replied push_result int (pushed: "push_call option")
  | Escaped (pushed: "push_call option")

definition receive_and_push ::
  "pusher option \<Rightarrow> staging_faults \<Rightarrow> request \<Rightarrow> upload_body \<Rightarrow> upload_link \<Rightarrow> upload_outcome" where
  "receive_and_push pusher faults r body l =
     (let ctype = (case rq_header r ''content-type'' of Some h \<Rightarrow> h | None \<Rightarrow> []);
          declared = (case rq_header r ''content-length'' of Some h \<Rightarrow> h | None \<Rightarrow> []);
          failed = (\<lambda>received m. let res = settle_result received (ul_link_id l) (upload_error (''Upload failed: '' @ m))
                                 in Replied res (status_code res))
      in if startswith ctype ''multipart/form-data'' then
           Replied (upload_error ''Send the raw file as the request body (curl -T <file> <url>), not a multipart form.'') 415 None
         else if py_isdigit declared \<and> py_int_of_str declared = None then Escaped None
         else if py_isdigit declared \<and> ul_max_bytes l < the (py_int_of_str declared) then
           Replied (upload_error (''File is '' @ declared @ '' bytes, over the '' @ show_signed (ul_max_bytes l) @ '' byte transfer cap.'')) 413 None
         else case pusher of
           None \<Rightarrow> Replied (upload_error ''File transfer tools are not available on this server.'') 503 None
         | Some push \<Rightarrow>
             if sf_mkdir faults \<noteq> None then Escaped None
             else case sf_open faults of
               Some m \<Rightarrow> failed 0 m None
             | None \<Rightarrow>
                 (case receive_chunks (ul_max_bytes l) (sf_write faults) (ub_chunks body) (ub_end body) [] of
                    Over_cap n \<Rightarrow> Replied (upload_error (''Upload exceeded the '' @ show_signed (ul_max_bytes l) @ '' byte transfer cap.'')) 413 None
                  | Receive_failed n m \<Rightarrow> failed n m None
                  | Receive_cancelled \<Rightarrow> Escaped None
                  | Received content \<Rightarrow>
                      if content = [] then Replied (upload_error ''Empty request body.'') 400 None
                      else if sf_replace faults \<noteq> None then failed (int (length content)) (the (sf_replace faults)) None
                      else
                        let call = \<lparr>pc_node = ul_node l, pc_vmid = ul_vmid l, pc_content = content,
                                    pc_dest = ul_dest l, pc_verify = ul_verify_checksum l\<rparr>
                        in case push call of
                             Push_cancelled \<Rightarrow> Escaped (Some call)
                           | Push_raised m \<Rightarrow> failed (int (length content)) m (Some call)
                           | Pushed res \<Rightarrow>
                               let res' = settle_result (int (length content)) (ul_link_id l) res
                               in Replied res' (status_code res') (Some call)))"

text \<open>
  The whole endpoint: its reply (None when the exception escapes), the pusher's call, the audit
  event, and the registry.  \<open>now\<close> and \<open>tf\<close> are the clock readings of the claim and of the
  settlement.
\<close>

record upload_reply =
  up_response :: "(push_result \<times> int) option"
  up_pushed :: "push_call option"
  up_audit :: "push_result option"

definition audit_fields :: "upload_link \<Rightarrow> push_result \<Rightarrow> string \<Rightarrow> push_result" where
  "audit_fields l res ip =
     (let get = (\<lambda>k. case dget res k of Some v \<Rightarrow> v | None \<Rightarrow> PNone)
      in [(''link_id'', PStr (ul_link_id l)), (''node'', PStr (ul_node l)), (''vmid'', PInt (ul_vmid l)),
          (''dest'', PStr (ul_dest l)), (''status'', get ''status''), (''bytes'', get ''bytes''), (''ip'', PStr ip)])"

definition upload_endpoint ::
  "string list \<Rightarrow> pusher option \<Rightarrow> staging_faults \<Rightarrow> request \<Rightarrow> string \<Rightarrow> upload_body \<Rightarrow> real \<Rightarrow> real
     \<Rightarrow> upload_store \<Rightarrow> upload_reply \<times> upload_store" where
  "upload_endpoint trusted pusher faults r token body now tf s =
     (case (if token = [] then (None, s) else link_claim token now s) of
        (None, s1) \<Rightarrow>
          (\<lparr>up_response = Some (upload_error
              ''Unknown, expired or already used upload link. Mint a new one with proxmox_upload_link.'', 404),
            up_pushed = None, up_audit = None\<rparr>, s1)
      | (Some f, s1) \<Rightarrow>
          let l = link_at s1 f; out = receive_and_push pusher faults r body l;
              res = (case out of Replied res code p \<Rightarrow> res
                     | Escaped p \<Rightarrow> upload_error ''Upload interrupted (server shutting down).'')
          in (\<lparr>up_response = (case out of Replied res code p \<Rightarrow> Some (res, code) | Escaped p \<Rightarrow> None),
               up_pushed = pushed out,
               up_audit = Some (audit_fields l res (fst (client_ip r trusted [])))\<rparr>,
              link_finish f res tf s1))"


subsection \<open>Pruning\<close>

definition expired_link :: "real \<Rightarrow> upload_link \<Rightarrow> upload_link" where
  "expired_link now l =
     (if ul_status l = L_pending \<and> ul_expires_at l \<le> now then l\<lparr>ul_status := L_expired, ul_finished_at := Some now\<rparr> else l)"

lemma set_link_simps [simp]:
  "us_by_token (set_link f l s) = us_by_token s" "us_by_id (set_link f l s) = us_by_id s"
  "length (us_links (set_link f l s)) = length (us_links s)"
  "f < length (us_links s) \<Longrightarrow> link_at (set_link f l s) g = (if g = f then l else link_at s g)"
  by (simp_all add: set_link_def link_at_def)

lemma link_at_dicts [simp]:
  "link_at (s\<lparr>us_by_token := d\<rparr>) f = link_at s f" "link_at (s\<lparr>us_by_id := d'\<rparr>) f = link_at s f"
  by (simp_all add: link_at_def)

lemma prune_link_links:
  "snd p < length (us_links s) \<Longrightarrow>
     link_at (prune_link now p s) f = (if f = snd p then expired_link now (link_at s f) else link_at s f)"
  "length (us_links (prune_link now p s)) = length (us_links s)"
  by (auto simp: prune_link_def expire_link_def drop_link_def expired_link_def Let_def split: option.splits)

lemma prune_link_dicts:
  "set (us_by_token (prune_link now p s)) \<subseteq> set (us_by_token s)"
  "us_by_id (prune_link now p s) = us_by_id s \<or> us_by_id (prune_link now p s) = dpop (fst p) (us_by_id s)"
  "dict_ok (us_by_token s) \<Longrightarrow> dict_ok (us_by_token (prune_link now p s))"
  by (auto simp: prune_link_def expire_link_def drop_link_def Let_def split: option.splits)

lemma expired_link_twice [simp]: "expired_link now (expired_link now l) = expired_link now l"
  by (simp add: expired_link_def)

lemma prune_fold:
  "(\<forall>p \<in> set ps. snd p < length (us_links s)) \<Longrightarrow>
     (\<forall>f. link_at (fold (prune_link now) ps s) f = (if f \<in> snd ` set ps then expired_link now (link_at s f) else link_at s f))
     \<and> length (us_links (fold (prune_link now) ps s)) = length (us_links s)
     \<and> set (us_by_token (fold (prune_link now) ps s)) \<subseteq> set (us_by_token s)
     \<and> set (us_by_id (fold (prune_link now) ps s)) \<subseteq> set (us_by_id s)"
proof (induction ps arbitrary: s)
  case (Cons p ps)
  let ?s = "prune_link now p s"
  have ih: "\<forall>q \<in> set ps. snd q < length (us_links ?s)" using Cons.prems by (simp add: prune_link_links)
  have d: "set (us_by_token ?s) \<subseteq> set (us_by_token s)" "set (us_by_id ?s) \<subseteq> set (us_by_id s)"
    using prune_link_dicts [where now = now and p = p and s = s] by auto
  from Cons.IH [OF ih] d Cons.prems show ?case by (auto simp: prune_link_links)
qed simp


text \<open>
  The registry's invariant: every key refers to the link it names, a token only to a link that
  is still pending and is also listed by its id, so that the pruning loop sees it.
\<close>

definition upload_ok :: "upload_store \<Rightarrow> bool" where
  "upload_ok s \<longleftrightarrow>
     (\<forall>(i, f) \<in> set (us_by_id s). f < length (us_links s) \<and> ul_link_id (link_at s f) = i)
     \<and> (\<forall>(t, f) \<in> set (us_by_token s). f < length (us_links s) \<and> ul_token (link_at s f) = t
          \<and> ul_status (link_at s f) = L_pending \<and> ul_finished_at (link_at s f) = None
          \<and> (ul_link_id (link_at s f), f) \<in> set (us_by_id s))
     \<and> dict_ok (us_by_token s) \<and> dict_ok (us_by_id s)"

lemma upload_ok_link:
  "upload_ok s \<Longrightarrow> (t, f) \<in> set (us_by_token s) \<Longrightarrow>
     f < length (us_links s) \<and> ul_token (link_at s f) = t \<and> ul_status (link_at s f) = L_pending
     \<and> ul_finished_at (link_at s f) = None \<and> (ul_link_id (link_at s f), f) \<in> set (us_by_id s)"
  by (auto simp: upload_ok_def)

lemma upload_ok_id:
  "upload_ok s \<Longrightarrow> (i, f) \<in> set (us_by_id s) \<Longrightarrow> f < length (us_links s) \<and> ul_link_id (link_at s f) = i"
  by (auto simp: upload_ok_def)

lemma upload_okI:
  "(\<And>i f. (i, f) \<in> set (us_by_id s) \<Longrightarrow> f < length (us_links s) \<and> ul_link_id (link_at s f) = i) \<Longrightarrow>
   (\<And>t f. (t, f) \<in> set (us_by_token s) \<Longrightarrow> f < length (us_links s) \<and> ul_token (link_at s f) = t
      \<and> ul_status (link_at s f) = L_pending \<and> ul_finished_at (link_at s f) = None
      \<and> (ul_link_id (link_at s f), f) \<in> set (us_by_id s)) \<Longrightarrow>
   dict_ok (us_by_token s) \<Longrightarrow> dict_ok (us_by_id s) \<Longrightarrow> upload_ok s"
  by (auto simp: upload_ok_def)

lemma expired_link_keeps [simp]:
  "ul_link_id (expired_link now l) = ul_link_id l" "ul_token (expired_link now l) = ul_token l"
  by (auto simp: expired_link_def)

lemma expire_link_eq:
  "expire_link now f s = (if ul_status (link_at s f) = L_pending \<and> ul_expires_at (link_at s f) \<le> now
     then (set_link f (expired_link now (link_at s f)) s)\<lparr>us_by_token := dpop (ul_token (link_at s f)) (us_by_token s)\<rparr> else s)"
  by (auto simp: expire_link_def expired_link_def Let_def)

lemma upload_ok_expire: "upload_ok s \<Longrightarrow> f < length (us_links s) \<Longrightarrow> upload_ok (expire_link now f s)"
proof (rule upload_okI)
  fix i g assume "upload_ok s" "f < length (us_links s)" "(i, g) \<in> set (us_by_id (expire_link now f s))"
  then show "g < length (us_links (expire_link now f s)) \<and> ul_link_id (link_at (expire_link now f s) g) = i"
    using upload_ok_id [of s i g] by (auto simp: expire_link_eq split: if_splits)
next
  fix t g assume ok: "upload_ok s" "f < length (us_links s)" and g: "(t, g) \<in> set (us_by_token (expire_link now f s))"
  then have "(t, g) \<in> set (us_by_token s)" by (auto simp: expire_link_eq split: if_splits)
  from upload_ok_link [OF ok(1) this] g ok(2) show "g < length (us_links (expire_link now f s))
      \<and> ul_token (link_at (expire_link now f s) g) = t \<and> ul_status (link_at (expire_link now f s) g) = L_pending
      \<and> ul_finished_at (link_at (expire_link now f s) g) = None
      \<and> (ul_link_id (link_at (expire_link now f s) g), g) \<in> set (us_by_id (expire_link now f s))"
    by (auto simp: expire_link_eq split: if_splits)
qed (auto simp: upload_ok_def expire_link_eq)

lemma upload_ok_drop:
  assumes ok: "upload_ok s" and f: "(i, f) \<in> set (us_by_id s)"
  shows "upload_ok (drop_link now i f s)"
proof (cases "\<exists>u. ul_finished_at (link_at s f) = Some u \<and> now - u > RESULT_TTL")
  case True
  let ?s = "s\<lparr>us_by_id := dpop i (us_by_id s), us_by_token := dpop (ul_token (link_at s f)) (us_by_token s)\<rparr>"
  have other: "ul_link_id (link_at s g) \<noteq> i" if "(t, g) \<in> set (us_by_token s)" for t g
  proof
    assume "ul_link_id (link_at s g) = i"
    then have "(i, g) \<in> set (us_by_id s)" using upload_ok_link [OF ok that] by auto
    then have "g = f" using ok f by (auto simp: upload_ok_def dest: eq_key_imp_eq_value)
    then show False using upload_ok_link [OF ok that] True by auto
  qed
  have "upload_ok ?s"
  proof (rule upload_okI)
    fix t g assume "(t, g) \<in> set (us_by_token ?s)"
    then have "(t, g) \<in> set (us_by_token s)" by simp
    from upload_ok_link [OF ok this] other [OF this] show "g < length (us_links ?s) \<and> ul_token (link_at ?s g) = t
      \<and> ul_status (link_at ?s g) = L_pending \<and> ul_finished_at (link_at ?s g) = None
      \<and> (ul_link_id (link_at ?s g), g) \<in> set (us_by_id ?s)" by (simp add: link_at_def)
  qed (use ok in \<open>auto simp: upload_ok_def link_at_def\<close>)
  with True show ?thesis by (auto simp: drop_link_def)
next
  case False
  then have "drop_link now i f s = s" by (auto simp: drop_link_def split: option.splits)
  with ok show ?thesis by simp
qed

lemma expire_link_id [simp]: "us_by_id (expire_link now f s) = us_by_id s"
  by (simp add: expire_link_eq)

lemma upload_ok_prune_link: "upload_ok s \<Longrightarrow> p \<in> set (us_by_id s) \<Longrightarrow> upload_ok (prune_link now p s)"
  unfolding prune_link_def using upload_ok_id [of s "fst p" "snd p"]
  by (intro upload_ok_drop upload_ok_expire) auto

lemma upload_ok_fold:
  "upload_ok s \<Longrightarrow> set ps \<subseteq> set (us_by_id s) \<Longrightarrow> distinct (map fst ps) \<Longrightarrow> upload_ok (fold (prune_link now) ps s)"
proof (induction ps arbitrary: s)
  case (Cons p ps)
  have other: "\<forall>q \<in> set ps. fst q \<noteq> fst p" using Cons.prems(3) by (force simp: image_iff)
  have "set ps \<subseteq> set (us_by_id (prune_link now p s))"
  proof
    fix q assume "q \<in> set ps"
    then have "fst q \<noteq> fst p" "q \<in> set (us_by_id s)" using other Cons.prems(2) by auto
    then show "q \<in> set (us_by_id (prune_link now p s))"
      using prune_link_dicts(2) [of now p s] by auto
  qed
  with Cons show ?case by (simp add: upload_ok_prune_link)
qed simp

lemma upload_ok_prune: "upload_ok s \<Longrightarrow> upload_ok (prune_links now s)"
  unfolding prune_links_def by (rule upload_ok_fold) (auto simp: upload_ok_def)

lemma prune_links_links:
  assumes "upload_ok s"
  shows "link_at (prune_links now s) f =
     (if f \<in> snd ` set (us_by_id s) then expired_link now (link_at s f) else link_at s f)"
    "length (us_links (prune_links now s)) = length (us_links s)"
    "set (us_by_token (prune_links now s)) \<subseteq> set (us_by_token s)"
    "set (us_by_id (prune_links now s)) \<subseteq> set (us_by_id s)"
proof -
  have "\<forall>p \<in> set (us_by_id s). snd p < length (us_links s)" using assms by (auto simp: upload_ok_def)
  note h = prune_fold [OF this, of now, folded prune_links_def]
  from h show "link_at (prune_links now s) f =
     (if f \<in> snd ` set (us_by_id s) then expired_link now (link_at s f) else link_at s f)" by blast
  from h show "length (us_links (prune_links now s)) = length (us_links s)"
    "set (us_by_token (prune_links now s)) \<subseteq> set (us_by_token s)"
    "set (us_by_id (prune_links now s)) \<subseteq> set (us_by_id s)" by blast+
qed

lemma token_unexpired:
  assumes "upload_ok s" "(t, f) \<in> set (us_by_token (prune_links now s))"
  shows "now < ul_expires_at (link_at s f) \<and> ul_token (link_at s f) = t \<and> f < length (us_links s)
     \<and> ul_status (link_at s f) = L_pending \<and> link_at (prune_links now s) f = link_at s f"
proof -
  have in_s: "(t, f) \<in> set (us_by_token s)" using prune_links_links(3) [OF assms(1), of now] assms(2) by blast
  note old = upload_ok_link [OF assms(1) in_s]
  then have seen: "f \<in> snd ` set (us_by_id s)" by force
  have "ul_status (link_at (prune_links now s) f) = L_pending"
    using upload_ok_link [OF upload_ok_prune [OF assms(1)] assms(2)] by simp
  then show ?thesis using old seen prune_links_links(1) [OF assms(1), of now f]
    by (auto simp: expired_link_def split: if_splits)
qed


subsection \<open>The operations keep the invariant\<close>

lemma claimed:
  assumes "upload_ok s" "link_claim tok now s = (Some f, s')"
  shows "(tok, f) \<in> set (us_by_token s) \<and> f < length (us_links s) \<and> now < ul_expires_at (link_at s f)
     \<and> ul_token (link_at s f) = tok \<and> link_at s' f = (link_at s f)\<lparr>ul_status := L_uploading\<rparr>
     \<and> length (us_links s') = length (us_links s)"
proof -
  let ?p = "prune_links now s"
  have f: "(tok, f) \<in> set (us_by_token ?p)"
    and s': "s' = set_link f ((link_at ?p f)\<lparr>ul_status := L_uploading\<rparr>) (?p\<lparr>us_by_token := dpop tok (us_by_token ?p)\<rparr>)"
    using assms(2) by (auto simp: link_claim_def Let_def dest!: dget_in split: option.splits if_splits)
  note u = token_unexpired [OF assms(1) f]
  have "length (us_links ?p) = length (us_links s)" using prune_links_links(2) [OF assms(1)] .
  with u s' show ?thesis using f prune_links_links(3) [OF assms(1), of now] by auto
qed

lemma upload_ok_pop: "upload_ok s \<Longrightarrow> upload_ok (s\<lparr>us_by_token := dpop tok (us_by_token s)\<rparr>)"
  by (auto simp: upload_ok_def link_at_def)

lemma upload_ok_set:
  assumes "upload_ok s" "f < length (us_links s)" "\<And>t. (t, f) \<notin> set (us_by_token s)"
    and "ul_link_id l = ul_link_id (link_at s f)"
  shows "upload_ok (set_link f l s)"
proof (rule upload_okI)
  fix i g assume "(i, g) \<in> set (us_by_id (set_link f l s))"
  then show "g < length (us_links (set_link f l s)) \<and> ul_link_id (link_at (set_link f l s) g) = i"
    using upload_ok_id [OF assms(1), of i g] assms(2,4) by auto
next
  fix t g assume g: "(t, g) \<in> set (us_by_token (set_link f l s))"
  then have "g \<noteq> f" using assms(3) by auto
  with g upload_ok_link [OF assms(1), of t g] assms(2)
  show "g < length (us_links (set_link f l s)) \<and> ul_token (link_at (set_link f l s) g) = t
      \<and> ul_status (link_at (set_link f l s) g) = L_pending \<and> ul_finished_at (link_at (set_link f l s) g) = None
      \<and> (ul_link_id (link_at (set_link f l s) g), g) \<in> set (us_by_id (set_link f l s))"
    by simp
qed (use assms(1) in \<open>auto simp: upload_ok_def\<close>)

lemma upload_ok_claim: "upload_ok s \<Longrightarrow> upload_ok (snd (link_claim tok now s))"
proof -
  assume ok: "upload_ok s"
  let ?p = "prune_links now s"
  let ?q = "?p\<lparr>us_by_token := dpop tok (us_by_token ?p)\<rparr>"
  have p: "upload_ok ?p" using ok by (rule upload_ok_prune)
  have q: "upload_ok ?q" using p by (rule upload_ok_pop)
  show ?thesis
  proof (cases "dget (us_by_token ?p) tok")
    case (Some f)
    then have f: "(tok, f) \<in> set (us_by_token ?p)" by (rule dget_in)
    note l = upload_ok_link [OF p f]
    have "\<And>t. (t, f) \<notin> set (us_by_token ?q)" using upload_ok_link [OF p, of _ f] l by auto
    then have "upload_ok (set_link f ((link_at ?q f)\<lparr>ul_status := L_uploading\<rparr>) ?q)"
      using l by (intro upload_ok_set [OF q]) auto
    with q Some show ?thesis by (simp add: link_claim_def Let_def)
  qed (use q in \<open>simp add: link_claim_def Let_def\<close>)
qed

lemma upload_ok_finish:
  assumes "upload_ok s" "f < length (us_links s)" "ul_status (link_at s f) \<noteq> L_pending"
  shows "upload_ok (link_finish f r now s)"
  unfolding link_finish_def
proof (rule upload_ok_set [OF assms(1,2)])
  show "(t, f) \<notin> set (us_by_token s)" for t using upload_ok_link [OF assms(1), of t f] assms(3) by auto
qed simp

lemma upload_ok_get: "upload_ok s \<Longrightarrow> upload_ok (snd (link_get i now s))"
  by (simp add: link_get_def Let_def upload_ok_prune)


lemma upload_ok_append:
  assumes "upload_ok s" "ul_link_id l \<notin> set (dkeys (us_by_id s))" "ul_status l = L_pending" "ul_finished_at l = None"
  shows "upload_ok (s\<lparr>us_links := us_links s @ [l], us_by_token := dset (ul_token l) (length (us_links s)) (us_by_token s),
                      us_by_id := dset (ul_link_id l) (length (us_links s)) (us_by_id s)\<rparr>)" (is "upload_ok ?s")
proof (rule upload_okI)
  have at: "link_at ?s g = (if g = length (us_links s) then l else link_at s g)" if "g \<le> length (us_links s)" for g
    using that by (simp add: link_at_def nth_append)
  fix i g assume "(i, g) \<in> set (us_by_id ?s)"
  then have "(i, g) = (ul_link_id l, length (us_links s)) \<or> (i, g) \<in> set (us_by_id s)" by (auto dest: in_dset)
  then show "g < length (us_links ?s) \<and> ul_link_id (link_at ?s g) = i"
    using upload_ok_id [OF assms(1), of i g] at by auto
next
  have at: "link_at ?s g = (if g = length (us_links s) then l else link_at s g)" if "g \<le> length (us_links s)" for g
    using that by (simp add: link_at_def nth_append)
  fix t g assume "(t, g) \<in> set (us_by_token ?s)"
  then consider "(t, g) = (ul_token l, length (us_links s))" | "(t, g) \<in> set (us_by_token s)" by (auto dest: in_dset)
  then show "g < length (us_links ?s) \<and> ul_token (link_at ?s g) = t
      \<and> ul_status (link_at ?s g) = L_pending \<and> ul_finished_at (link_at ?s g) = None
      \<and> (ul_link_id (link_at ?s g), g) \<in> set (us_by_id ?s)"
  proof cases
    case 1 then show ?thesis using at assms(3,4) by simp
  next
    case 2
    note l = upload_ok_link [OF assms(1) 2]
    then have ne: "ul_link_id (link_at s g) \<noteq> ul_link_id l" using assms(2) by force
    from l at [of g] ne show ?thesis by (auto simp: in_dset_other)
  qed
qed (use assms(1) in \<open>auto simp: upload_ok_def\<close>)

lemma upload_ok_issue:
  assumes "upload_ok s" "link_id \<notin> set (dkeys (us_by_id s))"
  shows "upload_ok (snd (link_issue q link_id token now tc s))"
proof -
  let ?p = "prune_links now s"
  have "upload_ok ?p" using assms(1) by (rule upload_ok_prune)
  moreover have "link_id \<notin> set (dkeys (us_by_id ?p))" using prune_links_links(4) [OF assms(1), of now] assms(2) by auto
  ultimately show ?thesis using upload_ok_append [of ?p "new_link q link_id token now tc"]
    by (simp add: link_issue_def Let_def new_link_def)
qed

lemma upload_ok_endpoint: "upload_ok s \<Longrightarrow> upload_ok (snd (upload_endpoint tr pu fa r tok body now tf s))"
proof (cases "tok = []")
  case False
  assume ok: "upload_ok s"
  obtain fo s1 where c: "link_claim tok now s = (fo, s1)" by fastforce
  have ok1: "upload_ok s1" using upload_ok_claim [OF ok, of tok now] c by simp
  show ?thesis
  proof (cases fo)
    case (Some f)
    from claimed [OF ok c [unfolded Some]] have "f < length (us_links s1)" "ul_status (link_at s1 f) \<noteq> L_pending" by auto
    then have "upload_ok (link_finish f res tf s1)" for res using ok1 by (intro upload_ok_finish)
    with c Some False show ?thesis by (simp add: upload_endpoint_def Let_def)
  qed (use c ok1 False in \<open>simp add: upload_endpoint_def\<close>)
qed (simp add: upload_endpoint_def)


subsection \<open>A link is spent once\<close>

datatype link_op =
    Issue_link link_request string string real real
  | Look_up string real
  | Finish_link nat push_result real

fun link_other :: "link_op \<Rightarrow> upload_store \<Rightarrow> upload_store" where
  "link_other (Issue_link q i tok now tc) s = snd (link_issue q i tok now tc s)"
| "link_other (Look_up i now) s = snd (link_get i now s)"
| "link_other (Finish_link f r now) s = link_finish f r now s"

fun link_mints :: "link_op \<Rightarrow> string \<Rightarrow> bool" where
  "link_mints (Issue_link q i tok now tc) k \<longleftrightarrow> k = tok"
| "link_mints _ k \<longleftrightarrow> False"

definition link_live :: "upload_store \<Rightarrow> string \<Rightarrow> bool" where
  "link_live s k \<longleftrightarrow> k \<in> dom (dget (us_by_token s))"

lemma link_dead_prune: "\<not> link_live s k \<Longrightarrow> \<not> link_live (prune_links now s) k"
proof -
  have "\<not> link_live s k \<Longrightarrow> \<not> link_live (fold (prune_link now) ps s) k" for ps
  proof (induction ps arbitrary: s)
    case (Cons p ps)
    have "\<not> link_live (prune_link now p s) k" using Cons.prems
      by (auto simp: link_live_def prune_link_def expire_link_def drop_link_def domIff Let_def split: option.splits)
    with Cons.IH show ?case by simp
  qed simp
  then show "\<not> link_live s k \<Longrightarrow> \<not> link_live (prune_links now s) k" by (simp add: prune_links_def)
qed

interpretation upload_links: single_use link_claim link_other link_mints link_live
proof unfold_locales
  fix k a s r s' assume c: "link_claim k a s = (Some r, s')"
  then have "link_live (prune_links a s) k" "dget (us_by_token s') k = None"
    by (auto simp: link_claim_def link_live_def Let_def set_link_def split: option.splits if_splits)
  then show "link_live s k" "\<not> link_live s' k" using link_dead_prune [of s k a] by (auto simp: link_live_def)
next
  fix s k k' a assume "\<not> link_live s k"
  then have "\<not> link_live (prune_links a s) k" by (rule link_dead_prune)
  then show "\<not> link_live (snd (link_claim k' a s)) k"
    by (auto simp: link_claim_def link_live_def Let_def set_link_def domIff split: option.splits)
next
  fix s k x assume d: "\<not> link_live s k" "\<not> link_mints x k"
  show "\<not> link_live (link_other x s) k"
  proof (cases x)
    case (Issue_link q i tok now tc)
    with d link_dead_prune [OF d(1), of now] show ?thesis by (auto simp: link_issue_def link_live_def domIff Let_def)
  next
    case (Look_up i now)
    with link_dead_prune [OF d(1), of now] show ?thesis by (simp add: link_get_def Let_def)
  next
    case (Finish_link f r now)
    with d show ?thesis by (simp add: link_finish_def link_live_def)
  qed
qed

text \<open>
  An upload link is spent by the first request that presents it: over any sequence of
  claims, issues, look-ups and settlements its token is claimed successfully at most once.
\<close>

theorem upload_link_spent_once:
  assumes "\<forall>x. Other x \<in> set ops \<longrightarrow> \<not> link_mints x token"
  shows "redemptions token (ticket_run link_claim link_other ops s) \<le> 1"
  using assms by (rule upload_links.at_most_once)

text \<open>A request for a link into VM 101 of node \<open>pve\<close>, at most 4 bytes, for 10 minutes.\<close>

definition sample_link :: link_request where
  "sample_link = \<lparr>lr_node = ''pve'', lr_vmid = 101, lr_dest = ''/tmp/f'', lr_max_bytes = 4, lr_staging_dir = ''/stage'',
     lr_verify_checksum = True, lr_ttl = 600\<rparr>"

definition empty_store :: upload_store where
  "empty_store = \<lparr>us_links = [], us_by_token = [], us_by_id = []\<rparr>"

lemma upload_link_spent_once_witness:
  "redemptions ''t'' (ticket_run link_claim link_other [Redeem ''t'' 5, Redeem ''t'' 6]
     (snd (link_issue sample_link ''i'' ''t'' 0 0 empty_store))) \<le> 1"
  by (rule upload_link_spent_once) simp

subsection \<open>What an upload can push\<close>

datatype transfer_op =
    Mint link_request string string real real
  | Show_link string real
  | Upload "string list" "pusher option" staging_faults request string upload_body real real

fun transfer_step :: "transfer_op \<Rightarrow> upload_store \<Rightarrow> upload_store" where
  "transfer_step (Mint q i tok now tc) s = snd (link_issue q i tok now tc s)"
| "transfer_step (Show_link i now) s = snd (link_get i now s)"
| "transfer_step (Upload tr pu fa r tok body now tf) s = snd (upload_endpoint tr pu fa r tok body now tf s)"

definition transfer_run :: "transfer_op list \<Rightarrow> upload_store \<Rightarrow> upload_store" where
  "transfer_run ops s = fold transfer_step ops s"

text \<open>The link ids drawn along a history.\<close>

definition drawn_ids :: "transfer_op list \<Rightarrow> string list" where
  "drawn_ids ops = concat (map (\<lambda>x. case x of Mint q i tok now tc \<Rightarrow> [i] | _ \<Rightarrow> []) ops)"

text \<open>The data of a link that no operation changes.\<close>

definition link_terms :: "upload_link \<Rightarrow> string \<times> string \<times> string \<times> int \<times> string \<times> int \<times> bool \<times> real" where
  "link_terms l = (ul_link_id l, ul_token l, ul_node l, ul_vmid l, ul_dest l, ul_max_bytes l, ul_verify_checksum l, ul_expires_at l)"

definition minted :: "transfer_op list \<Rightarrow> upload_link \<Rightarrow> bool" where
  "minted ops l \<longleftrightarrow> (\<exists>q now tc. Mint q (ul_link_id l) (ul_token l) now tc \<in> set ops
     \<and> link_terms l = link_terms (new_link q (ul_link_id l) (ul_token l) now tc))"

lemma minted_mono: "minted ops l \<Longrightarrow> set ops \<subseteq> set ops' \<Longrightarrow> minted ops' l"
  unfolding minted_def by blast

lemma minted_terms: "minted ops l \<Longrightarrow> link_terms l' = link_terms l \<Longrightarrow> minted ops l'"
  by (simp add: minted_def link_terms_def)


lemma minted_snoc: "minted ops l \<Longrightarrow> link_terms l' = link_terms l \<Longrightarrow> minted (ops @ [x]) l'"
  using minted_terms minted_mono [of ops l' "ops @ [x]"] by auto

definition heap_minted :: "transfer_op list \<Rightarrow> upload_store \<Rightarrow> bool" where
  "heap_minted ops s \<longleftrightarrow> (\<forall>f < length (us_links s). minted ops (link_at s f))"

lemma link_terms_upd [simp]:
  "link_terms (expired_link now l) = link_terms l" "link_terms (l\<lparr>ul_status := st\<rparr>) = link_terms l"
  "link_terms (l\<lparr>ul_status := st, ul_result := res, ul_finished_at := u\<rparr>) = link_terms l"
  by (simp_all add: link_terms_def expired_link_def)

lemma prune_terms:
  "upload_ok s \<Longrightarrow> link_terms (link_at (prune_links now s) f) = link_terms (link_at s f)"
  by (simp add: prune_links_links)

lemma claim_terms:
  assumes "upload_ok s"
  shows "length (us_links (snd (link_claim tok now s))) = length (us_links s)
    \<and> link_terms (link_at (snd (link_claim tok now s)) f) = link_terms (link_at s f)"
proof (cases "fst (link_claim tok now s)")
  case (Some g)
  let ?p = "prune_links now s"
  from Some have g: "dget (us_by_token ?p) tok = Some g"
    and st: "snd (link_claim tok now s)
      = set_link g ((link_at ?p g)\<lparr>ul_status := L_uploading\<rparr>) (?p\<lparr>us_by_token := dpop tok (us_by_token ?p)\<rparr>)"
    by (auto simp: link_claim_def Let_def split: option.splits if_splits)
  have "g < length (us_links ?p)" using upload_ok_link [OF upload_ok_prune [OF assms] dget_in [OF g]] by simp
  then show ?thesis by (simp add: st prune_links_links(2) [OF assms] prune_terms [OF assms])
next
  case None
  then have "us_links (snd (link_claim tok now s)) = us_links (prune_links now s)"
    by (auto simp: link_claim_def Let_def split: option.splits if_splits)
  then show ?thesis using prune_links_links(2) [OF assms, of now] prune_terms [OF assms, of now f] by (simp add: link_at_def)
qed

lemma endpoint_terms:
  assumes "upload_ok s"
  shows "length (us_links (snd (upload_endpoint tr pu fa r tok body now tf s))) = length (us_links s)
    \<and> link_terms (link_at (snd (upload_endpoint tr pu fa r tok body now tf s)) f) = link_terms (link_at s f)"
proof (cases "tok = []")
  case False
  obtain fo s1 where c: "link_claim tok now s = (fo, s1)" by fastforce
  note t = claim_terms [OF assms, of tok now f, unfolded c]
  show ?thesis
  proof (cases fo)
    case (Some g)
    from claimed [OF assms c [unfolded Some]] have "g < length (us_links s1)" by auto
    with t c Some False show ?thesis by (auto simp: upload_endpoint_def link_finish_def Let_def)
  qed (use c t False in \<open>simp add: upload_endpoint_def\<close>)
qed (simp add: upload_endpoint_def)

lemma heap_minted_issue:
  assumes "upload_ok s" "heap_minted ops s"
  shows "heap_minted (ops @ [Mint q i tok now tc]) (snd (link_issue q i tok now tc s))"
  unfolding heap_minted_def
proof clarify
  let ?s = "snd (link_issue q i tok now tc s)" and ?ops = "ops @ [Mint q i tok now tc]"
  fix f assume f: "f < length (us_links ?s)"
  have old: "minted ?ops (link_at (prune_links now s) f)" if "f < length (us_links s)"
    using assms(2) that prune_terms [OF assms(1), of now f]
    by (intro minted_snoc [of ops "link_at s f"]) (simp_all add: heap_minted_def)
  have new: "minted ?ops (new_link q i tok now tc)" by (auto simp: minted_def new_link_def)
  show "minted ?ops (link_at ?s f)"
    using f old new prune_links_links(2) [OF assms(1), of now]
    by (auto simp: link_issue_def link_at_def nth_append Let_def split: if_splits)
qed

lemma heap_minted_step:
  assumes "upload_ok s" "heap_minted ops s"
  shows "heap_minted (ops @ [x]) (transfer_step x s)"
proof (cases x)
  case (Mint q i tok now tc)
  with heap_minted_issue [OF assms] show ?thesis by simp
next
  case (Show_link i now)
  then show ?thesis using assms(2) prune_terms [OF assms(1), of now] prune_links_links(2) [OF assms(1), of now]
    by (simp add: heap_minted_def link_get_def Let_def) (blast intro: minted_snoc)
next
  case (Upload tr pu fa r tok body now tf)
  then show ?thesis using assms(2) endpoint_terms [OF assms(1), of tr pu fa r tok body now tf]
    by (simp add: heap_minted_def) (blast intro: minted_snoc)
qed


lemma transfer_run_snoc: "transfer_run (ops @ [x]) s = transfer_step x (transfer_run ops s)"
  by (simp add: transfer_run_def)

lemma minted_drawn: "minted ops l \<Longrightarrow> ul_link_id l \<in> set (drawn_ids ops)"
  by (force simp: minted_def drawn_ids_def)

lemma transfer_reachable:
  "distinct (drawn_ids ops) \<Longrightarrow>
     upload_ok (transfer_run ops empty_store) \<and> heap_minted ops (transfer_run ops empty_store)"
proof (induction ops rule: rev_induct)
  case Nil then show ?case by (simp add: transfer_run_def upload_ok_def heap_minted_def empty_store_def)
next
  case (snoc x xs)
  let ?s = "transfer_run xs empty_store"
  have ih: "upload_ok ?s" "heap_minted xs ?s" using snoc by (auto simp: drawn_ids_def)
  have "upload_ok (transfer_step x ?s)"
  proof (cases x)
    case (Mint q i tok now tc)
    have "i \<notin> set (dkeys (us_by_id ?s))"
    proof
      assume "i \<in> set (dkeys (us_by_id ?s))"
      then obtain f where "(i, f) \<in> set (us_by_id ?s)" by auto
      from upload_ok_id [OF ih(1) this] ih(2) have "i \<in> set (drawn_ids xs)"
        by (auto simp: heap_minted_def dest: minted_drawn)
      then show False using snoc.prems Mint by (simp add: drawn_ids_def)
    qed
    with ih Mint show ?thesis by (simp add: upload_ok_issue)
  qed (use ih in \<open>simp_all add: upload_ok_get upload_ok_endpoint\<close>)
  with heap_minted_step [OF ih, of x] show ?case by (simp add: transfer_run_snoc)
qed

lemma received_all:
  "receive_chunks cap wr cs e got = Received c \<Longrightarrow>
     c = got @ concat cs \<and> e = Stream_done \<and> (int (length got) \<le> cap \<longrightarrow> int (length c) \<le> cap)"
proof (induction cs arbitrary: got)
  case Nil then show ?case by (auto split: stream_end.splits)
next
  case (Cons x xs)
  then have "\<not> cap < int (length got) + int (length x)" "receive_chunks cap wr xs e (got @ x) = Received c"
    by (auto simp: Let_def split: if_splits option.splits)
  with Cons.IH show ?case by fastforce
qed

lemma pushed_call:
  assumes "pushed (receive_and_push pu fa r body l) = Some c"
  shows "c = \<lparr>pc_node = ul_node l, pc_vmid = ul_vmid l, pc_content = concat (ub_chunks body), pc_dest = ul_dest l,
             pc_verify = ul_verify_checksum l\<rparr>
    \<and> concat (ub_chunks body) \<noteq> [] \<and> int (length (concat (ub_chunks body))) \<le> ul_max_bytes l \<and> ub_end body = Stream_done"
proof -
  obtain content where rc: "receive_chunks (ul_max_bytes l) (sf_write fa) (ub_chunks body) (ub_end body) [] = Received content"
    and c: "content \<noteq> []" "c = \<lparr>pc_node = ul_node l, pc_vmid = ul_vmid l, pc_content = content, pc_dest = ul_dest l,
             pc_verify = ul_verify_checksum l\<rparr>"
    using assms
    by (auto simp: receive_and_push_def Let_def split: if_splits option.splits receive_end.splits push_answer.splits)
  from received_all [OF rc] have e: "content = concat (ub_chunks body)" "ub_end body = Stream_done" by auto
  have "int (length content) \<le> ul_max_bytes l"
  proof (cases "0 \<le> ul_max_bytes l")
    case True then show ?thesis using conjunct2 [OF conjunct2 [OF received_all [OF rc]]] by simp
  next
    case False
    have "receive_chunks (ul_max_bytes l) (sf_write fa) (ub_chunks body) (ub_end body) [] \<noteq> Received content"
      using False c(1) e(1) by (cases "ub_chunks body") auto
    with rc show ?thesis by simp
  qed
  with c e show ?thesis by (simp del: length_concat)
qed

text \<open>
  C35: What an upload can put into a guest: over any history of the registry, when the endpoint
  pushes a file for a token, a link was minted earlier with that token and has not expired, the
  push goes to exactly the node, VM and path that mint named, and what is pushed is the whole
  request body, not empty and within that link's size cap.
\<close>

theorem upload_pushes_only_what_was_linked:
  assumes "distinct (drawn_ids ops)"
    and "up_pushed (fst (upload_endpoint trusted pusher faults r token body now tf (transfer_run ops empty_store))) = Some c"
  shows "\<exists>q i t0 tc. Mint q i token t0 tc \<in> set ops \<and> now < t0 + of_int (clamp_ttl (lr_ttl q))
     \<and> c = \<lparr>pc_node = lr_node q, pc_vmid = lr_vmid q, pc_content = concat (ub_chunks body), pc_dest = lr_dest q,
            pc_verify = lr_verify_checksum q\<rparr>
     \<and> concat (ub_chunks body) \<noteq> [] \<and> int (length (concat (ub_chunks body))) \<le> lr_max_bytes q \<and> ub_end body = Stream_done"
proof -
  let ?s = "transfer_run ops empty_store"
  obtain f s1 where cl: "link_claim token now ?s = (Some f, s1)"
    and p: "pushed (receive_and_push pusher faults r body (link_at s1 f)) = Some c"
    using assms(2)
    by (auto simp: upload_endpoint_def Let_def split: prod.splits option.splits if_splits)
  note ok = transfer_reachable [OF assms(1)]
  note l = claimed [OF conjunct1 [OF ok] cl]
  with ok have "minted ops (link_at ?s f)" by (auto simp: heap_minted_def)
  then obtain q t0 tc where m: "Mint q (ul_link_id (link_at ?s f)) token t0 tc \<in> set ops"
    "link_terms (link_at ?s f) = link_terms (new_link q (ul_link_id (link_at ?s f)) token t0 tc)"
    using l by (auto simp: minted_def)
  show ?thesis
    using m(1) m(2) l pushed_call [OF p]
    by (intro exI [of _ q] exI [of _ "ul_link_id (link_at ?s f)"] exI [of _ t0] exI [of _ tc])
       (simp add: link_terms_def new_link_def)
qed


definition plain_upload :: request where
  "plain_upload = \<lparr>rq_peer = None, rq_headers = Some [(''content-length'', ''3'')], rq_scheme = ''https''\<rparr>"

definition no_faults :: staging_faults where
  "no_faults = \<lparr>sf_mkdir = None, sf_open = None, sf_write = None, sf_replace = None\<rparr>"

definition accepting :: pusher where
  "accepting c = Pushed [(''status'', PStr ''success'')]"

lemmas transfer_eval = transfer_run_def empty_store_def link_issue_def prune_links_def pending_links_def link_claim_def
  upload_endpoint_def receive_and_push_def link_at_def set_link_def new_link_def link_finish_def Let_def
  expire_link_def drop_link_def prune_link_def clamp_ttl_def MIN_TTL_def MAX_TTL_def
  sample_link_def plain_upload_def no_faults_def accepting_def py_isdigit_def digit_char_def ascii_digit_def
  py_int_of_str_def int_of_digits_def decimal_def settle_result_def

lemma upload_pushes_only_what_was_linked_witness:
  "\<exists>q t0. Mint q ''i'' ''t'' t0 0 \<in> set [Mint sample_link ''i'' ''t'' 0 0] \<and> lr_node q = ''pve'' \<and> (599::real) < t0 + 600"
proof -
  let ?c = "\<lparr>pc_node = ''pve'', pc_vmid = 101, pc_content = ''abc'', pc_dest = ''/tmp/f'', pc_verify = True\<rparr>"
  have "up_pushed (fst (upload_endpoint [] (Some accepting) no_faults plain_upload ''t''
      \<lparr>ub_chunks = [''ab'', ''c''], ub_end = Stream_done\<rparr> 599 600
      (transfer_run [Mint sample_link ''i'' ''t'' 0 0] empty_store))) = Some ?c"
    by (simp add: transfer_eval MAX_PENDING_LINKS_def rq_header_def)
  from upload_pushes_only_what_was_linked [OF _ this] show ?thesis
    by (auto simp: drawn_ids_def sample_link_def clamp_ttl_def MIN_TTL_def MAX_TTL_def)
qed

lemma settled_code: "receive_and_push pu fa r body l = Replied res code p \<Longrightarrow> code = 200 \<longleftrightarrow> succeeded res"
  unfolding receive_and_push_def Let_def
  by (auto simp: status_code_def upload_error_def succeeded_def
           split: if_splits option.splits receive_end.splits push_answer.splits)

text \<open>
  A spent link always settles: whatever the request, the faults of the staging area and the
  pusher do, even when the exception escapes the endpoint or the request is cancelled, the link
  ends as a success exactly when the reply was 200 and as an error otherwise, with its result
  and the time recorded for \<open>proxmox_upload_link\<close> to report, and its token opens nothing any
  more.
\<close>

theorem spent_link_settles:
  assumes "upload_ok s" "fst (link_claim token now s) = Some f" "token \<noteq> []"
    and "upload_endpoint trusted pusher faults r token body now tf s = (reply, s')"
  shows "\<exists>res. ul_result (link_at s' f) = Some res \<and> ul_finished_at (link_at s' f) = Some tf
     \<and> ul_status (link_at s' f) = (if \<exists>res'. up_response reply = Some (res', 200) then L_success else L_error)
     \<and> (\<forall>res' code. up_response reply = Some (res', code) \<longrightarrow> res' = res)
     \<and> dget (us_by_token s') token = None"
proof -
  obtain s1 where cl: "link_claim token now s = (Some f, s1)" using assms(2) by (cases "link_claim token now s") auto
  note l = claimed [OF assms(1) cl]
  then have len: "f < length (us_links s1)" by simp
  have gone: "dget (us_by_token s1) token = None"
    using cl by (auto simp: link_claim_def Let_def split: option.splits if_splits)
  show ?thesis
  proof (cases "receive_and_push pusher faults r body (link_at s1 f)")
    case (Replied res code p)
    then have "s' = link_finish f res tf s1" "up_response reply = Some (res, code)"
      using assms(3,4) cl by (auto simp: upload_endpoint_def Let_def)
    with settled_code [OF Replied] len gone show ?thesis by (auto simp: link_finish_def)
  next
    case (Escaped p)
    then have "s' = link_finish f (upload_error ''Upload interrupted (server shutting down).'') tf s1" "up_response reply = None"
      using assms(3,4) cl by (auto simp: upload_endpoint_def Let_def)
    with len gone show ?thesis by (auto simp: link_finish_def succeeded_def upload_error_def)
  qed
qed


lemma spent_link_settles_witness:
  "\<exists>res. ul_result (link_at (snd (upload_endpoint [] None no_faults plain_upload ''t''
      \<lparr>ub_chunks = [], ub_end = Stream_done\<rparr> 5 6 (transfer_run [Mint sample_link ''i'' ''t'' 0 0] empty_store))) 0) = Some res"
proof -
  let ?s = "transfer_run [Mint sample_link ''i'' ''t'' 0 0] empty_store"
  have ok: "upload_ok ?s" using transfer_reachable [of "[Mint sample_link ''i'' ''t'' 0 0]"] by (simp add: drawn_ids_def)
  have c: "fst (link_claim ''t'' 5 ?s) = Some 0" by (simp add: transfer_eval MAX_PENDING_LINKS_def)
  from spent_link_settles [OF ok c _ prod.collapse [symmetric]] show ?thesis by fastforce
qed

subsection \<open>The cap on pending links\<close>

lemma pending_prune: "upload_ok s \<Longrightarrow> pending_links (prune_links now s) \<le> pending_links s"
proof -
  have step: "pending_links (prune_link now p s) \<le> pending_links s" if "snd p < length (us_links s)" for p s
  proof -
    have mono: "dcount P d \<le> dcount Q d" if "\<And>v. P v \<Longrightarrow> Q v" for P Q and d :: "(string, nat) dict"
      using that by (induction d) auto
    have "pending_links (prune_link now p s) \<le> dcount (\<lambda>f. ul_status (link_at (prune_link now p s) f) = L_pending) (us_by_id s)"
      using prune_link_dicts(2) [of now p s] by (auto simp: pending_links_def intro: dcount_dpop_le)
    also have "\<dots> \<le> pending_links s" unfolding pending_links_def
      by (rule mono) (auto simp: prune_link_links that expired_link_def split: if_splits)
    finally show ?thesis .
  qed
  have "pending_links (fold (prune_link now) ps s) \<le> pending_links s" if "\<forall>p \<in> set ps. snd p < length (us_links s)" for ps s
    using that
  proof (induction ps arbitrary: s)
    case (Cons p ps)
    then have "pending_links (fold (prune_link now) ps (prune_link now p s)) \<le> pending_links (prune_link now p s)"
      by (simp add: prune_link_links)
    also have "\<dots> \<le> pending_links s" using Cons.prems by (intro step) simp
    finally show ?case by simp
  qed simp
  moreover assume "upload_ok s"
  then have "\<forall>p \<in> set (us_by_id s). snd p < length (us_links s)" by (auto simp: upload_ok_def)
  ultimately show "pending_links (prune_links now s) \<le> pending_links s" unfolding prune_links_def by blast
qed

lemma dcount_cong: "(\<And>k v. (k, v) \<in> set d \<Longrightarrow> P v = Q v) \<Longrightarrow> dcount P d = dcount Q d"
  unfolding dcount_def by (rule arg_cong [where f = length], rule filter_cong) auto

lemma pending_issue:
  assumes "upload_ok s" "pending_links s \<le> 50"
  shows "pending_links (snd (link_issue q i tok now tc s)) \<le> 50"
proof -
  let ?p = "prune_links now s"
  have le: "pending_links ?p \<le> 50" using pending_prune [OF assms(1), of now] assms(2) by simp
  have refs: "f < length (us_links ?p)" if "(k, f) \<in> set (us_by_id ?p)" for k f
    using upload_ok_id [OF upload_ok_prune [OF assms(1)] that] by simp
  let ?l = "new_link q i tok now tc" and ?n = "length (us_links ?p)"
  let ?s = "?p\<lparr>us_links := us_links ?p @ [?l], us_by_token := dset tok ?n (us_by_token ?p), us_by_id := dset i ?n (us_by_id ?p)\<rparr>"
  have "pending_links ?s \<le> Suc (dcount (\<lambda>f. ul_status (link_at ?s f) = L_pending) (us_by_id ?p))"
    unfolding pending_links_def by (simp add: dcount_dset_le)
  also have "dcount (\<lambda>f. ul_status (link_at ?s f) = L_pending) (us_by_id ?p) = pending_links ?p"
    unfolding pending_links_def by (rule dcount_cong) (auto simp: link_at_def nth_append dest: refs)
  finally show ?thesis using le by (auto simp: link_issue_def Let_def MAX_PENDING_LINKS_def)
qed


lemma dcount_mono: "(\<And>v. P v \<Longrightarrow> Q v) \<Longrightarrow> dcount P d \<le> dcount Q d"
  by (induction d) auto

lemma pending_set:
  "f < length (us_links s) \<Longrightarrow> ul_status l \<noteq> L_pending \<Longrightarrow> pending_links (set_link f l s) \<le> pending_links s"
  unfolding pending_links_def set_link_simps(2) by (rule dcount_mono) (auto split: if_splits)

lemma pending_claim:
  assumes "upload_ok s"
  shows "pending_links (snd (link_claim tok now s)) \<le> pending_links s"
proof -
  let ?p = "prune_links now s"
  let ?q = "?p\<lparr>us_by_token := dpop tok (us_by_token ?p)\<rparr>"
  have q: "pending_links ?q = pending_links ?p" by (simp add: pending_links_def)
  show ?thesis
  proof (cases "fst (link_claim tok now s)")
    case (Some f)
    then have f: "dget (us_by_token ?p) tok = Some f"
      and st: "snd (link_claim tok now s) = set_link f ((link_at ?p f)\<lparr>ul_status := L_uploading\<rparr>) ?q"
      by (auto simp: link_claim_def Let_def split: option.splits if_splits)
    have "f < length (us_links ?q)" using upload_ok_link [OF upload_ok_prune [OF assms] dget_in [OF f]] by simp
    then have "pending_links (snd (link_claim tok now s)) \<le> pending_links ?q" unfolding st by (rule pending_set) simp
    with q pending_prune [OF assms, of now] show ?thesis by simp
  next
    case None
    then have "snd (link_claim tok now s) = ?q"
      by (auto simp: link_claim_def Let_def split: option.splits if_splits)
    with q pending_prune [OF assms, of now] show ?thesis by simp
  qed
qed

lemma pending_endpoint:
  assumes "upload_ok s"
  shows "pending_links (snd (upload_endpoint tr pu fa r tok body now tf s)) \<le> pending_links s"
proof (cases "tok = []")
  case False
  obtain fo s1 where c: "link_claim tok now s = (fo, s1)" by fastforce
  have le: "pending_links s1 \<le> pending_links s" using pending_claim [OF assms, of tok now] c by simp
  show ?thesis
  proof (cases fo)
    case (Some f)
    from claimed [OF assms c [unfolded Some]] have "f < length (us_links s1)" by simp
    then have "pending_links (link_finish f res tf s1) \<le> pending_links s1" for res
      unfolding link_finish_def by (rule pending_set) simp
    with le c Some False show ?thesis by (auto simp: upload_endpoint_def Let_def intro: order_trans)
  qed (use c le False in \<open>simp add: upload_endpoint_def\<close>)
qed (simp add: upload_endpoint_def)

text \<open>
  At most 50 upload links are pending at any time, over any history of mints, look-ups
  and uploads: a mint that would exceed the cap is refused.
\<close>

theorem pending_links_bounded:
  assumes "distinct (drawn_ids ops)"
  shows "pending_links (transfer_run ops empty_store) \<le> 50"
  using assms
proof (induction ops rule: rev_induct)
  case Nil then show ?case by (simp add: transfer_run_def pending_links_def empty_store_def)
next
  case (snoc x xs)
  let ?s = "transfer_run xs empty_store"
  have d: "distinct (drawn_ids xs)" using snoc.prems by (simp add: drawn_ids_def)
  have ok: "upload_ok ?s" "pending_links ?s \<le> 50" using transfer_reachable [OF d] snoc.IH [OF d] by auto
  show ?case
  proof (cases x)
    case (Mint q i tok now tc)
    with pending_issue [OF ok] show ?thesis by (simp add: transfer_run_snoc)
  next
    case (Show_link i now)
    with pending_prune [OF ok(1), of now] ok(2) show ?thesis by (simp add: transfer_run_snoc link_get_def Let_def)
  next
    case (Upload tr pu fa r tok body now tf)
    with pending_endpoint [OF ok(1), of tr pu fa r tok body now tf] ok(2) show ?thesis by (simp add: transfer_run_snoc)
  qed
qed

lemma pending_links_bounded_witness:
  "pending_links (transfer_run [Mint sample_link ''i'' ''t'' 0 0, Mint sample_link ''j'' ''u'' 1 1] empty_store) \<le> 50"
  by (rule pending_links_bounded) (simp add: drawn_ids_def)

end
