(* ===== verification/Dash_Sessions.thy ===== *)
theory Dash_Sessions
  imports Py_Val
begin

text \<open>
  Dashboard sessions: the encrypted session table (\<open>dashboard/session.py\<close>) and the
  double-submit CSRF check (\<open>dashboard/csrf.py\<close>).  Bytes are character lists.  AES-GCM
  is a pair of parameters (\<open>seal key nonce text\<close> and \<open>unseal key nonce blob\<close>, None
  for a failed decryption); nonces and session ids are arguments.
\<close>

subsection \<open>CSRF\<close>

text \<open>The request's cookie, its \<open>X-CSRF-Token\<close> header, content type and form field.\<close>

record csrf_request =
  cr_cookie :: "string option"
  cr_header :: "string option"
  cr_ctype :: string
  cr_form :: "pyval option"

text \<open>
  \<open>verify\<close>: None is the \<open>TypeError\<close> of \<open>compare_digest\<close> on text that is not ASCII.
\<close>

definition submitted_token :: "csrf_request \<Rightarrow> string option" where
  "submitted_token r =
     (case cr_header r of
        Some (c # h) \<Rightarrow> Some (c # h)
      | _ \<Rightarrow>
          if startswith (cr_ctype r) ''application/x-www-form-urlencoded''
             \<or> startswith (cr_ctype r) ''multipart/form-data''
          then (case cr_form r of Some (PStr v) \<Rightarrow> Some v | _ \<Rightarrow> None)
          else cr_header r)"

definition csrf_verify :: "csrf_request \<Rightarrow> bool option" where
  "csrf_verify r =
     (case cr_cookie r of
        None \<Rightarrow> Some False
      | Some cookie \<Rightarrow>
          if cookie = [] then Some False
          else case submitted_token r of
            None \<Rightarrow> Some False
          | Some s \<Rightarrow>
              if s = [] then Some False
              else if py_isascii cookie \<and> py_isascii s then Some (cookie = s) else None)"

lemma csrf_verify_True:
  "csrf_verify r = Some True \<Longrightarrow> \<exists>t. t \<noteq> [] \<and> cr_cookie r = Some t \<and> submitted_token r = Some t"
  by (auto simp: csrf_verify_def split: option.splits if_splits)

subsection \<open>The session table\<close>

definition SESSION_TTL_SECONDS :: real where "SESSION_TTL_SECONDS = 90 * 24 * 3600"

record session_row =
  sr_client_id :: string
  sr_secret_enc :: string
  sr_bearer :: "string option"
  sr_bearer_expires :: "real option"
  sr_created_at :: real
  sr_last_seen :: real
  sr_expires_at :: real
  sr_user_agent :: "string option"

record session =
  se_session_id :: string
  se_client_id :: string
  se_bearer :: "string option"
  se_bearer_expires :: "real option"
  se_created_at :: real
  se_last_seen :: real
  se_expires_at :: real

type_synonym session_table = "(string, session_row) dict"

text \<open>\<open>now or time.time()\<close>: an explicit 0 counts as no reading; \<open>clock\<close> is the reading made then.\<close>

definition session_now :: "real option \<Rightarrow> real \<Rightarrow> real" where
  "session_now now clock = (case now of None \<Rightarrow> clock | Some t \<Rightarrow> if t = 0 then clock else t)"

definition is_expired :: "session \<Rightarrow> real option \<Rightarrow> real \<Rightarrow> bool" where
  "is_expired s now clock \<longleftrightarrow> se_expires_at s \<le> session_now now clock"

definition bearer_valid :: "session \<Rightarrow> real option \<Rightarrow> real \<Rightarrow> bool" where
  "bearer_valid s now clock \<longleftrightarrow>
     (case (se_bearer s, se_bearer_expires s) of
        (Some b, Some e) \<Rightarrow> b \<noteq> [] \<and> e \<noteq> 0 \<and> session_now now clock < e
      | _ \<Rightarrow> False)"

type_synonym seal = "string \<Rightarrow> string \<Rightarrow> string \<Rightarrow> string"
type_synonym unseal = "string \<Rightarrow> string \<Rightarrow> string \<Rightarrow> string option"

definition session_encrypt :: "seal \<Rightarrow> string \<Rightarrow> string \<Rightarrow> string \<Rightarrow> string" where
  "session_encrypt seal key nonce plaintext = nonce @ seal key nonce plaintext"

definition session_decrypt :: "unseal \<Rightarrow> string \<Rightarrow> string \<Rightarrow> string option" where
  "session_decrypt unseal key blob =
     (if length blob < 12 + 16 then None else unseal key (take 12 blob) (drop 12 blob))"

definition session_of_row :: "string \<Rightarrow> session_row \<Rightarrow> session" where
  "session_of_row sid r =
     \<lparr>se_session_id = sid, se_client_id = sr_client_id r, se_bearer = sr_bearer r,
      se_bearer_expires = sr_bearer_expires r, se_created_at = sr_created_at r,
      se_last_seen = sr_last_seen r, se_expires_at = sr_expires_at r\<rparr>"

text \<open>\<open>create\<close>: None is SQLite's error on a session id that is already there.\<close>

definition session_create ::
  "seal \<Rightarrow> string \<Rightarrow> string \<Rightarrow> string \<Rightarrow> string \<Rightarrow> real \<Rightarrow> string option \<Rightarrow> string \<Rightarrow> string \<Rightarrow> real \<Rightarrow> session_table
     \<Rightarrow> session option \<times> session_table" where
  "session_create seal key client_id client_secret mcp_bearer bearer_ttl user_agent sid nonce now t =
     (let row = \<lparr>sr_client_id = client_id, sr_secret_enc = session_encrypt seal key nonce client_secret,
                 sr_bearer = Some mcp_bearer, sr_bearer_expires = Some (now + bearer_ttl), sr_created_at = now,
                 sr_last_seen = now, sr_expires_at = now + SESSION_TTL_SECONDS, sr_user_agent = user_agent\<rparr>
      in if sid \<in> set (dkeys t) then (None, t) else (Some (session_of_row sid row), dset sid row t))"

definition session_delete :: "string \<Rightarrow> session_table \<Rightarrow> string option \<times> session_table" where
  "session_delete sid t =
     (case dget t sid of None \<Rightarrow> (None, t) | Some r \<Rightarrow> (sr_bearer r, dpop sid t))"

definition session_load :: "string \<Rightarrow> real \<Rightarrow> session_table \<Rightarrow> session option \<times> session_table" where
  "session_load sid now t =
     (if sid = [] then (None, t)
      else case dget t sid of
        None \<Rightarrow> (None, t)
      | Some r \<Rightarrow>
          if is_expired (session_of_row sid r) None now then (None, snd (session_delete sid t))
          else (Some (session_of_row sid r), t))"

definition get_client_secret :: "unseal \<Rightarrow> string \<Rightarrow> string \<Rightarrow> session_table \<Rightarrow> string option" where
  "get_client_secret unseal key sid t =
     (case dget t sid of None \<Rightarrow> None | Some r \<Rightarrow> session_decrypt unseal key (sr_secret_enc r))"

definition session_update :: "string \<Rightarrow> (session_row \<Rightarrow> session_row) \<Rightarrow> session_table \<Rightarrow> session_table" where
  "session_update sid f t = (case dget t sid of None \<Rightarrow> t | Some r \<Rightarrow> dset sid (f r) t)"

definition update_bearer :: "string \<Rightarrow> string \<Rightarrow> real \<Rightarrow> real \<Rightarrow> real \<Rightarrow> session_table \<Rightarrow> session_table" where
  "update_bearer sid mcp_bearer ttl t1 t2 t =
     session_update sid (\<lambda>r. r\<lparr>sr_bearer := Some mcp_bearer, sr_bearer_expires := Some (t1 + ttl), sr_last_seen := t2\<rparr>) t"

definition session_touch :: "string \<Rightarrow> real \<Rightarrow> session_table \<Rightarrow> session_table" where
  "session_touch sid now t = session_update sid (\<lambda>r. r\<lparr>sr_last_seen := now\<rparr>) t"

definition session_delete_all :: "string \<Rightarrow> session_table \<Rightarrow> string list \<times> session_table" where
  "session_delete_all client_id t =
     ([b. r \<leftarrow> dvals t, sr_client_id r = client_id, Some b \<leftarrow> [sr_bearer r], b \<noteq> []],
      dkeep (\<lambda>r. sr_client_id r \<noteq> client_id) t)"

definition sessions_of :: "string \<Rightarrow> session_table \<Rightarrow> session list" where
  "sessions_of client_id t =
     map (\<lambda>(sid, r). session_of_row sid r)
       (sort_key (\<lambda>(sid, r). - sr_last_seen r) [p \<leftarrow> t. sr_client_id (snd p) = client_id])"

definition session_cleanup :: "real \<Rightarrow> session_table \<Rightarrow> nat \<times> session_table" where
  "session_cleanup now t = (dcount (\<lambda>r. sr_expires_at r < now) t, dkeep (\<lambda>r. \<not> sr_expires_at r < now) t)"

subsection \<open>Runs\<close>

datatype session_op =
    Create_session string string string real "string option" string string real
  | Load_session string real
  | Update_bearer string string real real real
  | Touch_session string real
  | Delete_session string
  | Delete_sessions_of string
  | Cleanup_sessions real

fun session_step :: "seal \<Rightarrow> string \<Rightarrow> session_op \<Rightarrow> session_table \<Rightarrow> session_table" where
  "session_step seal key (Create_session cid sec b ttl ua sid n now) t =
     snd (session_create seal key cid sec b ttl ua sid n now t)"
| "session_step seal key (Load_session sid now) t = snd (session_load sid now t)"
| "session_step seal key (Update_bearer sid b ttl t1 t2) t = update_bearer sid b ttl t1 t2 t"
| "session_step seal key (Touch_session sid now) t = session_touch sid now t"
| "session_step seal key (Delete_session sid) t = snd (session_delete sid t)"
| "session_step seal key (Delete_sessions_of cid) t = snd (session_delete_all cid t)"
| "session_step seal key (Cleanup_sessions now) t = snd (session_cleanup now t)"

definition session_run :: "seal \<Rightarrow> string \<Rightarrow> session_op list \<Rightarrow> session_table \<Rightarrow> session_table" where
  "session_run seal key ops t = fold (session_step seal key) ops t"

text \<open>
  A row is the work of a history: its client, secret, creation time and end are those of the
  sign-in that created it, its bearer the one of that sign-in or of a later refresh.
\<close>

definition row_from :: "seal \<Rightarrow> string \<Rightarrow> session_op list \<Rightarrow> string \<Rightarrow> session_row \<Rightarrow> bool" where
  "row_from seal key ops sid r \<longleftrightarrow>
     (\<exists>sec b0 ttl ua n now. Create_session (sr_client_id r) sec b0 ttl ua sid n now \<in> set ops
        \<and> sr_secret_enc r = session_encrypt seal key n sec
        \<and> sr_created_at r = now \<and> sr_expires_at r = now + SESSION_TTL_SECONDS
        \<and> (sr_bearer r = Some b0 \<and> sr_bearer_expires r = Some (now + ttl)
           \<or> (\<exists>b ttl t1 t2. Update_bearer sid b ttl t1 t2 \<in> set ops
                \<and> sr_bearer r = Some b \<and> sr_bearer_expires r = Some (t1 + ttl))))"

lemma row_from_mono: "row_from seal key ops sid r \<Longrightarrow> set ops \<subseteq> set ops' \<Longrightarrow> row_from seal key ops' sid r"
  unfolding row_from_def by blast

lemma row_from_seen: "row_from seal key ops sid r \<Longrightarrow> row_from seal key ops sid (r\<lparr>sr_last_seen := x\<rparr>)"
  by (simp add: row_from_def)

lemma row_from_bearer:
  "row_from seal key ops sid r \<Longrightarrow> row_from seal key (ops @ [Update_bearer sid b ttl t1 t2]) sid
     (r\<lparr>sr_bearer := Some b, sr_bearer_expires := Some (t1 + ttl), sr_last_seen := x\<rparr>)"
  unfolding row_from_def by (simp; blast)

definition rows_from :: "seal \<Rightarrow> string \<Rightarrow> session_op list \<Rightarrow> session_table \<Rightarrow> bool" where
  "rows_from seal key ops t \<longleftrightarrow> dict_ok t \<and> (\<forall>sid r. dget t sid = Some r \<longrightarrow> row_from seal key ops sid r)"

lemma row_from_snoc: "row_from seal key ops sid r \<Longrightarrow> row_from seal key (ops @ [x]) sid r"
  by (erule row_from_mono) auto

lemma rows_from_sub:
  assumes "rows_from seal key ops t" "dict_ok t'" "\<And>sid r. dget t' sid = Some r \<Longrightarrow> dget t sid = Some r"
  shows "rows_from seal key (ops @ [x]) t'"
  unfolding rows_from_def
proof (intro conjI allI impI)
  fix sid r assume "dget t' sid = Some r"
  then have "row_from seal key ops sid r" using assms(1,3) unfolding rows_from_def by blast
  then show "row_from seal key (ops @ [x]) sid r" by (rule row_from_snoc)
qed (rule assms(2))

lemma rows_from_update:
  assumes "rows_from seal key ops t" "\<And>r. row_from seal key ops sid r \<Longrightarrow> row_from seal key (ops @ [x]) sid (f r)"
  shows "rows_from seal key (ops @ [x]) (session_update sid f t)"
proof (cases "dget t sid")
  case None
  with rows_from_sub [OF assms(1), of t x] assms(1) show ?thesis by (simp add: session_update_def rows_from_def)
next
  case (Some r)
  then have "row_from seal key (ops @ [x]) sid (f r)" using assms unfolding rows_from_def by blast
  moreover have "row_from seal key (ops @ [x]) s q" if "dget t s = Some q" for s q
    using assms(1) that row_from_snoc unfolding rows_from_def by blast
  ultimately show ?thesis using assms(1) Some unfolding rows_from_def session_update_def by simp
qed

lemma rows_from_step:
  assumes "rows_from seal key ops t"
  shows "rows_from seal key (ops @ [x]) (session_step seal key x t)"
proof -
  have ok: "dict_ok t" using assms by (simp add: rows_from_def)
  note sub = rows_from_sub [OF assms, where x = x]
  show ?thesis
proof (cases x)
  case (Create_session cid sec b ttl ua sid n now)
  show ?thesis
  proof (cases "sid \<in> set (dkeys t)")
    case True
    with rows_from_sub [OF assms, of t x] assms Create_session show ?thesis
      by (simp add: session_create_def Let_def rows_from_def)
  next
    case False
    let ?r = "\<lparr>sr_client_id = cid, sr_secret_enc = session_encrypt seal key n sec, sr_bearer = Some b,
      sr_bearer_expires = Some (now + ttl), sr_created_at = now, sr_last_seen = now,
      sr_expires_at = now + SESSION_TTL_SECONDS, sr_user_agent = ua\<rparr>"
    have "row_from seal key (ops @ [x]) sid ?r" unfolding row_from_def Create_session by (simp, blast)
    moreover have "row_from seal key (ops @ [x]) s q" if "dget t s = Some q" for s q
      using assms that row_from_snoc unfolding rows_from_def by blast
    ultimately show ?thesis using assms False unfolding rows_from_def Create_session
      by (simp add: session_create_def Let_def)
  qed
next
  case (Load_session sid now)
  with ok show ?thesis
    by (intro sub) (auto simp: session_load_def session_delete_def simp del: map_of_eq_Some_iff split: option.splits if_splits)
next
  case (Update_bearer sid b ttl t1 t2)
  with rows_from_update [OF assms, of sid x] row_from_bearer show ?thesis by (simp add: update_bearer_def)
next
  case (Touch_session sid now)
  with rows_from_update [OF assms, of sid x] row_from_seen row_from_snoc show ?thesis by (simp add: session_touch_def)
next
  case (Delete_session sid)
  with ok show ?thesis
    by (intro sub) (auto simp: session_delete_def simp del: map_of_eq_Some_iff split: option.splits if_splits)
next
  case (Delete_sessions_of cid)
  with ok show ?thesis
    by (intro sub) (auto simp: session_delete_all_def dget_dkeep simp del: map_of_eq_Some_iff split: option.splits if_splits)
next
  case (Cleanup_sessions now)
  with ok show ?thesis
    by (intro sub) (auto simp: session_cleanup_def dget_dkeep simp del: map_of_eq_Some_iff split: option.splits if_splits)
qed
qed

lemma rows_from_run: "rows_from seal key ops (session_run seal key ops [])"
proof (induction ops rule: rev_induct)
  case (snoc x xs)
  from rows_from_step [OF snoc, of x] show ?case by (simp add: session_run_def)
qed (simp add: session_run_def rows_from_def)


text \<open>
  The contract of the cipher: what was sealed under a key and nonce unseals to itself under
  them, and a sealed text is at least as long as the tag.
\<close>

definition sealed_ok :: "seal \<Rightarrow> unseal \<Rightarrow> bool" where
  "sealed_ok seal unseal \<longleftrightarrow>
     (\<forall>key n p. unseal key n (seal key n p) = Some p \<and> 16 \<le> length (seal key n p))"

lemma decrypt_encrypt:
  "sealed_ok seal unseal \<Longrightarrow> length n = 12 \<Longrightarrow>
     session_decrypt unseal key (session_encrypt seal key n p) = Some p"
  by (simp add: session_decrypt_def session_encrypt_def sealed_ok_def not_less)

text \<open>
  What a session cookie stands for: over any history of the table, a session loads only
  for the client that signed in under that id, strictly less than 90 days after that sign-in,
  whatever was touched, refreshed or loaded since; its bearer is the one of the sign-in or of a
  later refresh of this session; and the client secret it keeps decrypts to the one presented
  at the sign-in.
\<close>

theorem session_is_its_sign_in:
  assumes "sealed_ok seal unseal" "\<forall>cid sec b ttl ua i n t0. Create_session cid sec b ttl ua i n t0 \<in> set ops \<longrightarrow> length n = 12"
    and "fst (session_load sid now (session_run seal key ops [])) = Some s"
  shows "\<exists>sec b0 ttl ua n t0. Create_session (se_client_id s) sec b0 ttl ua sid n t0 \<in> set ops
     \<and> se_created_at s = t0 \<and> now < t0 + 90 * 24 * 3600
     \<and> get_client_secret unseal key sid (session_run seal key ops []) = Some sec
     \<and> (se_bearer s = Some b0 \<or> (\<exists>b ttl t1 t2. Update_bearer sid b ttl t1 t2 \<in> set ops \<and> se_bearer s = Some b))"
proof -
  let ?t = "session_run seal key ops []"
  obtain r where r: "dget ?t sid = Some r" "s = session_of_row sid r" "now < sr_expires_at r"
    using assms(3) by (auto simp: session_load_def is_expired_def session_now_def session_of_row_def not_le
        simp del: map_of_eq_Some_iff split: if_splits option.splits)
  have "row_from seal key ops sid r" using rows_from_run [of seal key ops] r(1) unfolding rows_from_def by blast
  then obtain sec b0 ttl ua n t0 where c: "Create_session (sr_client_id r) sec b0 ttl ua sid n t0 \<in> set ops"
    "sr_secret_enc r = session_encrypt seal key n sec" "sr_created_at r = t0" "sr_expires_at r = t0 + SESSION_TTL_SECONDS"
    "sr_bearer r = Some b0 \<or> (\<exists>b ttl t1 t2. Update_bearer sid b ttl t1 t2 \<in> set ops \<and> sr_bearer r = Some b)"
    unfolding row_from_def by blast
  have nonce: "length n = 12" using assms(2) c(1) by blast
  have "get_client_secret unseal key sid ?t = Some sec"
    using r(1) c(2) nonce decrypt_encrypt [OF assms(1)]
    by (simp add: get_client_secret_def del: map_of_eq_Some_iff)
  with c r show ?thesis by (simp add: session_of_row_def SESSION_TTL_SECONDS_def) blast
qed

text \<open>A cipher that keeps the contract, for evaluation: the key, a tag of 16 characters and the text.\<close>

definition plain_seal :: seal where
  "plain_seal key n p = replicate 16 (CHR ''t'') @ p"

definition plain_unseal :: unseal where
  "plain_unseal key n b = (if startswith b (replicate 16 (CHR ''t'')) then Some (drop 16 b) else None)"

lemma plain_sealed_ok: "sealed_ok plain_seal plain_unseal"
  by (simp add: sealed_ok_def plain_seal_def plain_unseal_def)

definition sample_sessions :: "session_op list" where
  "sample_sessions = [Create_session ''c'' ''secret'' ''b'' 3600 None ''s'' ''nonce-123456'' 0, Touch_session ''s'' 9]"

lemma session_is_its_sign_in_witness:
  "\<exists>sec. get_client_secret plain_unseal ''k'' ''s'' (session_run plain_seal ''k'' sample_sessions []) = Some sec
     \<and> (\<exists>b ttl ua n t0. Create_session ''c'' sec b ttl ua ''s'' n t0 \<in> set sample_sessions)"
proof -
  have "fst (session_load ''s'' 100 (session_run plain_seal ''k'' sample_sessions []))
    = Some \<lparr>se_session_id = ''s'', se_client_id = ''c'', se_bearer = Some ''b'', se_bearer_expires = Some 3600,
            se_created_at = 0, se_last_seen = 9, se_expires_at = 7776000\<rparr>"
    by (simp add: session_run_def sample_sessions_def session_load_def session_create_def session_touch_def session_update_def
        session_of_row_def is_expired_def session_now_def SESSION_TTL_SECONDS_def Let_def)
  from session_is_its_sign_in [OF plain_sealed_ok _ this] show ?thesis
    by (fastforce simp: sample_sessions_def)
qed

end
