(* ===== verification/Usage.thy ===== *)
theory Usage
  imports Prelude
begin

text \<open>
  Usage accounting and budgets of the dashboard chat (\<open>dashboard/usage.py\<close>): the price
  of a turn, the ledger \<open>usage_events\<close> with the running row of each client's 5-hour
  session, and the enforcement of both caps.  Money is a real number of dollars.
\<close>

subsection \<open>Pricing\<close>

record rates =
  rt_input :: real
  rt_cached :: real
  rt_output :: real

text \<open>A model's rates and, for the models that have one, those of its long-prompt tier.\<close>

record price =
  pr_base :: rates
  pr_hi :: "rates option"

definition rates_of :: "real \<Rightarrow> real \<Rightarrow> real \<Rightarrow> rates" where
  "rates_of i c out = \<lparr>rt_input = i, rt_cached = c, rt_output = out\<rparr>"

definition PRICING :: "(string, price) dict" where
  "PRICING =
     [(''gemini-3.6-flash'', \<lparr>pr_base = rates_of 1.50 0.15 7.50, pr_hi = None\<rparr>),
      (''gemini-3.5-flash-lite'', \<lparr>pr_base = rates_of 0.30 0.03 2.50, pr_hi = None\<rparr>),
      (''gemini-3.1-pro-preview'', \<lparr>pr_base = rates_of 2.00 0.20 12.00, pr_hi = Some (rates_of 4.00 0.40 18.00)\<rparr>),
      (''gemini-2.5-flash'', \<lparr>pr_base = rates_of 0.30 0.03 2.50, pr_hi = None\<rparr>),
      (''gemini-2.5-pro'', \<lparr>pr_base = rates_of 1.25 0.125 10.00, pr_hi = Some (rates_of 2.50 0.25 15.00)\<rparr>),
      (''gemini-3-flash-preview'', \<lparr>pr_base = rates_of 0.50 0.05 3.00, pr_hi = None\<rparr>)]"

definition TIER_THRESHOLD :: int where "TIER_THRESHOLD = 200000"
definition FIVE_HOURS_SECS :: real where "FIVE_HOURS_SECS = 5 * 3600"
definition SEVEN_DAYS_SECS :: real where "SEVEN_DAYS_SECS = 7 * 24 * 3600"

definition price_of :: "string \<Rightarrow> price" where
  "price_of model = (case dget PRICING model of Some p \<Rightarrow> p | None \<Rightarrow> the (dget PRICING ''gemini-3.6-flash''))"

definition cost_usd :: "string \<Rightarrow> int \<Rightarrow> int \<Rightarrow> int \<Rightarrow> real" where
  "cost_usd model prompt_tokens cached_tokens output_tokens =
     (let p = price_of model;
          r = (case pr_hi p of Some hi \<Rightarrow> if TIER_THRESHOLD < prompt_tokens then hi else pr_base p | None \<Rightarrow> pr_base p);
          billable_input = max 0 (prompt_tokens - cached_tokens)
      in (of_int billable_input * rt_input r + of_int cached_tokens * rt_cached r + of_int output_tokens * rt_output r) / 1000000)"

subsection \<open>The store\<close>

record budget =
  bu_limit_5h :: real
  bu_limit_week :: real

definition has_any_limit :: "budget \<Rightarrow> bool" where
  "has_any_limit b \<longleftrightarrow> bu_limit_5h b > 0 \<or> bu_limit_week b > 0"

record usage_event =
  ue_client :: string
  ue_ts :: real
  ue_model :: string
  ue_prompt :: int
  ue_cached :: int
  ue_output :: int
  ue_cost :: real

record usage_session =
  us_started_at :: real
  us_last_event_at :: real
  us_cost :: real

record usage_store =
  us_events :: "usage_event list"
  us_sessions :: "(string, usage_session) dict"

record usage_snapshot =
  sn_spent_5h :: real
  sn_limit_5h :: real
  sn_started_at :: "real option"
  sn_reset_at :: "real option"
  sn_spent_week :: real
  sn_limit_week :: real

datatype budget_window = Five_hours | Week

record budget_block =
  bb_window :: budget_window
  bb_spent :: real
  bb_limit :: real
  bb_reset_at :: "real option"

definition apply_to_session :: "string \<Rightarrow> real \<Rightarrow> real \<Rightarrow> (string, usage_session) dict \<Rightarrow> (string, usage_session) dict" where
  "apply_to_session client_id ts cost d =
     (case dget d client_id of
        None \<Rightarrow> dset client_id \<lparr>us_started_at = ts, us_last_event_at = ts, us_cost = cost\<rparr> d
      | Some r \<Rightarrow>
          if FIVE_HOURS_SECS \<le> ts - us_started_at r
          then dset client_id \<lparr>us_started_at = ts, us_last_event_at = ts, us_cost = cost\<rparr> d
          else dset client_id (r\<lparr>us_last_event_at := ts, us_cost := us_cost r + cost\<rparr>) d)"

text \<open>\<open>record_turn\<close>: one transaction; a database error (\<open>db_ok\<close> false) rolls it back and is raised.\<close>

definition record_turn :: "bool \<Rightarrow> usage_event \<Rightarrow> usage_store \<Rightarrow> bool \<times> usage_store" where
  "record_turn db_ok e s =
     (if db_ok
      then (True, s\<lparr>us_events := us_events s @ [e],
                   us_sessions := apply_to_session (ue_client e) (ue_ts e) (ue_cost e) (us_sessions s)\<rparr>)
      else (False, s))"

definition week_sum :: "string \<Rightarrow> real \<Rightarrow> usage_event list \<Rightarrow> real" where
  "week_sum client_id ts evs =
     sum_list (map ue_cost [e \<leftarrow> evs. ue_client e = client_id \<and> ts - SEVEN_DAYS_SECS \<le> ue_ts e])"

definition usage_snapshot_of :: "budget \<Rightarrow> string \<Rightarrow> real \<Rightarrow> usage_store \<Rightarrow> usage_snapshot" where
  "usage_snapshot_of b client_id ts s =
     (let (spent_5h, started_at, reset_at) =
            (case dget (us_sessions s) client_id of
               None \<Rightarrow> (0, None, None)
             | Some r \<Rightarrow>
                 if FIVE_HOURS_SECS \<le> ts - us_started_at r then (0, None, None)
                 else (us_cost r, Some (us_started_at r), Some (us_started_at r + FIVE_HOURS_SECS)))
      in \<lparr>sn_spent_5h = spent_5h, sn_limit_5h = bu_limit_5h b, sn_started_at = started_at, sn_reset_at = reset_at,
          sn_spent_week = week_sum client_id ts (us_events s), sn_limit_week = bu_limit_week b\<rparr>)"

definition check_budget :: "budget \<Rightarrow> string \<Rightarrow> real \<Rightarrow> usage_store \<Rightarrow> budget_block option" where
  "check_budget b client_id now s =
     (if \<not> has_any_limit b then None
      else let snap = usage_snapshot_of b client_id now s
        in if sn_limit_5h snap > 0 \<and> sn_limit_5h snap \<le> sn_spent_5h snap then
             Some \<lparr>bb_window = Five_hours, bb_spent = sn_spent_5h snap, bb_limit = sn_limit_5h snap, bb_reset_at = sn_reset_at snap\<rparr>
           else if sn_limit_week snap > 0 \<and> sn_limit_week snap \<le> sn_spent_week snap then
             Some \<lparr>bb_window = Week, bb_spent = sn_spent_week snap, bb_limit = sn_limit_week snap, bb_reset_at = None\<rparr>
           else None)"

subsection \<open>Prices\<close>

lemma dget_dvals: "dget d k = Some v \<Longrightarrow> v \<in> set (dvals d)"
  by (force dest: dget_in)

lemma price_of_cases: "price_of model \<in> set (dvals PRICING)"
proof (cases "dget PRICING model")
  case None
  have "dget PRICING ''gemini-3.6-flash'' = Some \<lparr>pr_base = rates_of 1.50 0.15 7.50, pr_hi = None\<rparr>"
    by (simp add: PRICING_def)
  with None dget_dvals [OF this] show ?thesis by (simp add: price_of_def)
next
  case (Some p)
  with dget_dvals [OF Some] show ?thesis by (simp add: price_of_def)
qed

definition rates_ok :: "rates \<Rightarrow> bool" where
  "rates_ok r \<longleftrightarrow> 0 \<le> rt_cached r \<and> rt_cached r \<le> rt_input r \<and> rt_input r \<le> rt_output r"

lemma rates_ok_of: "rates_ok (rates_of i c out) \<longleftrightarrow> 0 \<le> c \<and> c \<le> i \<and> i \<le> out"
  by (simp add: rates_ok_def rates_of_def)

lemma price_ok: "rates_ok (pr_base (price_of model)) \<and> (\<forall>r. pr_hi (price_of model) = Some r \<longrightarrow> rates_ok r)"
proof -
  have "list_all (\<lambda>p. rates_ok (pr_base p) \<and> (\<forall>r. pr_hi p = Some r \<longrightarrow> rates_ok r)) (dvals PRICING)"
    by (simp add: PRICING_def rates_ok_of)
  then show ?thesis using price_of_cases [of model] by (auto simp: list_all_iff)
qed

lemma cost_nonneg:
  assumes "0 \<le> cached" "0 \<le> out"
  shows "0 \<le> cost_usd model prompt cached out"
proof -
  have pos: "0 \<le> rt_input r \<and> 0 \<le> rt_cached r \<and> 0 \<le> rt_output r" if "rates_ok r" for r
    using that by (auto simp: rates_ok_def)
  show ?thesis using assms pos price_ok [of model] by (simp add: cost_usd_def Let_def split: option.split)
qed

subsection \<open>The 5-hour row and the ledger\<close>

definition usage_run :: "usage_event list \<Rightarrow> usage_store \<Rightarrow> usage_store" where
  "usage_run evs s = fold (\<lambda>e s. snd (record_turn True e s)) evs s"

definition empty_usage :: usage_store where
  "empty_usage = \<lparr>us_events = [], us_sessions = []\<rparr>"

lemma usage_run_snoc: "usage_run (evs @ [e]) s = snd (record_turn True e (usage_run evs s))"
  by (simp add: usage_run_def)

lemma usage_run_events: "us_events (usage_run evs empty_usage) = evs"
  by (induction evs rule: rev_induct) (simp_all add: usage_run_snoc record_turn_def, simp_all add: usage_run_def empty_usage_def)

text \<open>What the ledger says a client spent since a moment.\<close>

definition spent_since :: "string \<Rightarrow> real \<Rightarrow> usage_event list \<Rightarrow> real" where
  "spent_since c t evs = sum_list (map ue_cost [e \<leftarrow> evs. ue_client e = c \<and> t \<le> ue_ts e])"

lemma spent_since_snoc:
  "spent_since c t (evs @ [e]) = spent_since c t evs + (if ue_client e = c \<and> t \<le> ue_ts e then ue_cost e else 0)"
  by (simp add: spent_since_def)

lemma week_sum_spent: "week_sum c ts evs = spent_since c (ts - SEVEN_DAYS_SECS) evs"
  by (simp add: week_sum_def spent_since_def)

lemma spent_since_none: "\<forall>e \<in> set evs. ue_client e = c \<longrightarrow> ue_ts e < t \<Longrightarrow> spent_since c t evs = 0"
  by (induction evs rule: rev_induct) (auto simp: spent_since_snoc, simp add: spent_since_def)

lemma spent_since_mono:
  "\<forall>e \<in> set evs. 0 \<le> ue_cost e \<Longrightarrow> t \<le> u \<Longrightarrow> spent_since c u evs \<le> spent_since c t evs"
  by (induction evs rule: rev_induct) (auto simp: spent_since_snoc, simp add: spent_since_def)

lemma spent_since_nonneg: "\<forall>e \<in> set evs. 0 \<le> ue_cost e \<Longrightarrow> 0 \<le> spent_since c t evs"
  by (induction evs rule: rev_induct) (auto simp: spent_since_snoc, simp add: spent_since_def)

definition row_sums :: "usage_event list \<Rightarrow> string \<Rightarrow> usage_session option \<Rightarrow> bool" where
  "row_sums evs c r \<longleftrightarrow>
     (case r of
        None \<Rightarrow> \<forall>e \<in> set evs. ue_client e \<noteq> c
      | Some x \<Rightarrow> us_cost x = spent_since c (us_started_at x) evs
          \<and> (\<exists>e \<in> set evs. ue_client e = c \<and> ue_ts e = us_started_at x)
          \<and> (\<forall>e \<in> set evs. ue_client e = c \<longrightarrow> ue_ts e < us_started_at x + FIVE_HOURS_SECS))"

definition in_order :: "usage_event list \<Rightarrow> bool" where
  "in_order evs \<longleftrightarrow> sorted (map ue_ts evs)"

lemma in_order_snoc: "in_order (evs @ [e]) \<longleftrightarrow> in_order evs \<and> (\<forall>x \<in> set evs. ue_ts x \<le> ue_ts e)"
  by (auto simp: in_order_def sorted_append)


lemma row_sums_step:
  assumes "row_sums evs c (dget d c)" "in_order (evs @ [e])"
  shows "row_sums (evs @ [e]) c (dget (apply_to_session (ue_client e) (ue_ts e) (ue_cost e) d) c)"
proof (cases "ue_client e = c")
  case False
  then have same: "dget (apply_to_session (ue_client e) (ue_ts e) (ue_cost e) d) c = dget d c"
    by (auto simp: apply_to_session_def split: option.split)
  from assms(1) False show ?thesis by (auto simp: same row_sums_def spent_since_snoc split: option.splits)
next
  case True
  have le: "ue_ts x \<le> ue_ts e" if "x \<in> set evs" for x using assms(2) that by (simp add: in_order_snoc)
  have pos: "0 < FIVE_HOURS_SECS" by (simp add: FIVE_HOURS_SECS_def)
  have soon: "ue_ts x < ue_ts e + FIVE_HOURS_SECS" if "x \<in> set evs" for x using le [OF that] pos by simp
  show ?thesis
  proof (cases "dget d c")
    case None
    then have "spent_since c (ue_ts e) evs = 0"
      using assms(1) by (intro spent_since_none) (auto simp: row_sums_def)
    with None True assms(1) pos show ?thesis
      by (auto simp: row_sums_def apply_to_session_def spent_since_snoc)
  next
    case (Some r)
    then have r: "us_cost r = spent_since c (us_started_at r) evs" "\<exists>x \<in> set evs. ue_client x = c \<and> ue_ts x = us_started_at r"
      "\<forall>x \<in> set evs. ue_client x = c \<longrightarrow> ue_ts x < us_started_at r + FIVE_HOURS_SECS"
      using assms(1) by (auto simp: row_sums_def)
    then have started: "us_started_at r \<le> ue_ts e" using le by metis
    show ?thesis
    proof (cases "FIVE_HOURS_SECS \<le> ue_ts e - us_started_at r")
      case True
      then have "spent_since c (ue_ts e) evs = 0" using r(3) by (intro spent_since_none) fastforce
      with Some True \<open>ue_client e = c\<close> soon pos show ?thesis
        by (auto simp: row_sums_def apply_to_session_def spent_since_snoc)
    next
      case False
      with Some True r started show ?thesis
        by (auto simp: row_sums_def apply_to_session_def spent_since_snoc)
    qed
  qed
qed

lemma row_sums_run:
  "in_order evs \<Longrightarrow> row_sums evs c (dget (us_sessions (usage_run evs empty_usage)) c)"
proof (induction evs rule: rev_induct)
  case Nil then show ?case by (simp add: usage_run_def empty_usage_def row_sums_def)
next
  case (snoc e evs)
  then have "row_sums evs c (dget (us_sessions (usage_run evs empty_usage)) c)" by (simp add: in_order_snoc)
  from row_sums_step [OF this snoc.prems] show ?case by (simp add: usage_run_snoc record_turn_def)
qed

text \<open>
  The 5-hour figure is the ledger's: for turns recorded in time order, what a snapshot
  reports as spent in the current 5-hour session is the sum of that client's ledger rows since
  the session's start, the session opened with one of its turns less than five hours ago, and
  with no open session the figure is zero; so it never exceeds the spending of the trailing
  five hours.
\<close>

theorem five_hour_figure_is_the_ledger:
  assumes "in_order evs" "\<forall>e \<in> set evs. 0 \<le> ue_cost e" "snap = usage_snapshot_of b c now (usage_run evs empty_usage)"
  shows "(case sn_started_at snap of
       None \<Rightarrow> sn_spent_5h snap = 0 \<and> sn_reset_at snap = None
     | Some t \<Rightarrow> sn_spent_5h snap = spent_since c t evs \<and> (\<exists>e \<in> set evs. ue_client e = c \<and> ue_ts e = t)
         \<and> now < t + FIVE_HOURS_SECS \<and> sn_reset_at snap = Some (t + FIVE_HOURS_SECS))
     \<and> sn_spent_5h snap \<le> spent_since c (now - FIVE_HOURS_SECS) evs"
proof (cases "dget (us_sessions (usage_run evs empty_usage)) c")
  case None
  then show ?thesis using spent_since_nonneg [OF assms(2)] by (simp add: assms(3) usage_snapshot_of_def)
next
  case (Some r)
  show ?thesis
  proof (cases "FIVE_HOURS_SECS \<le> now - us_started_at r")
    case True
    with Some show ?thesis using spent_since_nonneg [OF assms(2)] by (simp add: assms(3) usage_snapshot_of_def)
  next
    case False
    have r: "us_cost r = spent_since c (us_started_at r) evs" "\<exists>e \<in> set evs. ue_client e = c \<and> ue_ts e = us_started_at r"
      using row_sums_run [OF assms(1), of c] Some by (auto simp: row_sums_def)
    have "spent_since c (us_started_at r) evs \<le> spent_since c (now - FIVE_HOURS_SECS) evs"
      using False by (intro spent_since_mono [OF assms(2)]) simp
    with Some False r show ?thesis by (simp add: assms(3) usage_snapshot_of_def)
  qed
qed

definition sample_turn :: "real \<Rightarrow> real \<Rightarrow> usage_event" where
  "sample_turn t cost = \<lparr>ue_client = ''c'', ue_ts = t, ue_model = ''gemini-3.6-flash'', ue_prompt = 0, ue_cached = 0,
     ue_output = 0, ue_cost = cost\<rparr>"

lemma five_hour_figure_is_the_ledger_witness:
  "sn_spent_5h (usage_snapshot_of \<lparr>bu_limit_5h = 5, bu_limit_week = 0\<rparr> ''c'' 20000
     (usage_run [sample_turn 0 4, sample_turn 18000 2, sample_turn 19000 1] empty_usage))
   \<le> spent_since ''c'' (20000 - FIVE_HOURS_SECS) [sample_turn 0 4, sample_turn 18000 2, sample_turn 19000 1]"
  using five_hour_figure_is_the_ledger [OF _ _ refl, of "[sample_turn 0 4, sample_turn 18000 2, sample_turn 19000 1]"
      "\<lparr>bu_limit_5h = 5, bu_limit_week = 0\<rparr>" "''c''" 20000]
  by (simp add: in_order_def sample_turn_def)


subsection \<open>The caps\<close>

text \<open>A history in which each turn was let through by the check made when it was recorded.\<close>

fun admitted :: "budget \<Rightarrow> usage_event list \<Rightarrow> usage_store \<Rightarrow> bool" where
  "admitted b [] s \<longleftrightarrow> True"
| "admitted b (e # evs) s \<longleftrightarrow> check_budget b (ue_client e) (ue_ts e) s = None \<and> admitted b evs (snd (record_turn True e s))"

lemma admitted_snoc:
  "admitted b (evs @ [e]) s \<longleftrightarrow> admitted b evs s \<and> check_budget b (ue_client e) (ue_ts e) (usage_run evs s) = None"
  by (induction evs arbitrary: s) (auto simp: usage_run_def)

lemma check_budget_None:
  assumes "check_budget b c now s = None"
  shows "(bu_limit_week b > 0 \<longrightarrow> week_sum c now (us_events s) < bu_limit_week b)
    \<and> (bu_limit_5h b > 0 \<longrightarrow> sn_spent_5h (usage_snapshot_of b c now s) < bu_limit_5h b)"
  using assms
  by (auto simp: check_budget_def has_any_limit_def usage_snapshot_of_def Let_def
      split: if_splits option.splits prod.splits)

lemma week_admitted:
  assumes "admitted b evs empty_usage" "in_order evs" "\<forall>e \<in> set evs. 0 \<le> ue_cost e \<and> ue_cost e \<le> m"
    and "bu_limit_week b > 0" "0 \<le> m" "\<forall>e \<in> set evs. ue_ts e \<le> now"
  shows "week_sum c now evs < bu_limit_week b + m"
  using assms
proof (induction evs rule: rev_induct)
  case Nil then show ?case by (simp add: week_sum_def)
next
  case (snoc e evs)
  show ?case
  proof (cases "ue_client e = c \<and> now - SEVEN_DAYS_SECS \<le> ue_ts e")
    case True
    have "week_sum c now evs \<le> week_sum c (ue_ts e) evs"
      using snoc.prems by (simp add: week_sum_spent spent_since_mono)
    moreover have "week_sum c (ue_ts e) evs < bu_limit_week b"
      using check_budget_None [of b "ue_client e" "ue_ts e" "usage_run evs empty_usage"] snoc.prems True
      by (simp add: admitted_snoc usage_run_events)
    ultimately show ?thesis using True snoc.prems(3) by (simp add: week_sum_spent spent_since_snoc)
  next
    case False
    with snoc show ?thesis by (auto simp: week_sum_spent spent_since_snoc admitted_snoc in_order_snoc)
  qed
qed

lemma five_hours_admitted:
  assumes "admitted b evs empty_usage" "in_order evs" "\<forall>e \<in> set evs. 0 \<le> ue_cost e \<and> ue_cost e \<le> m"
    and "bu_limit_5h b > 0" "0 \<le> m" "dget (us_sessions (usage_run evs empty_usage)) c = Some r"
  shows "us_cost r < bu_limit_5h b + m"
  using assms
proof (induction evs arbitrary: r rule: rev_induct)
  case Nil then show ?case by (simp add: usage_run_def empty_usage_def)
next
  case (snoc e evs)
  let ?s = "usage_run evs empty_usage"
  have chk: "sn_spent_5h (usage_snapshot_of b (ue_client e) (ue_ts e) ?s) < bu_limit_5h b"
    using check_budget_None [of b "ue_client e" "ue_ts e" ?s] snoc.prems by (simp add: admitted_snoc)
  have e: "ue_cost e \<le> m" using snoc.prems(3) by simp
  have ih: "dget (us_sessions ?s) c = Some q \<Longrightarrow> us_cost q < bu_limit_5h b + m" for q
    using snoc.IH snoc.prems by (simp add: admitted_snoc in_order_snoc)
  show ?case
  proof (cases "ue_client e = c")
    case False
    then have "dget (us_sessions ?s) c = Some r"
      using snoc.prems(6) by (auto simp: usage_run_snoc record_turn_def apply_to_session_def split: option.splits if_splits)
    then show ?thesis by (rule ih)
  next
    case True
    with snoc.prems(4,6) e chk show ?thesis
      by (auto simp: usage_run_snoc record_turn_def apply_to_session_def usage_snapshot_of_def Let_def
          split: option.splits if_splits)
  qed
qed



end
