(* ===== verification/Git_Host.thy ===== *)
theory Git_Host
  imports Py_Val
begin

text \<open>
  The host a self-update works on (\<open>updates.py\<close>): processes, files and the clock are
  the world, threaded through every call as a value of type \<open>'w\<close>.  What a process does is
  a parameter; what the module makes of its answer is modelled here: the git and process
  wrappers, the default branch, the update target and its signature.
\<close>

subsection \<open>Text\<close>

definition line_break :: "char \<Rightarrow> bool" where
  "line_break c \<longleftrightarrow> ord c \<in> {10, 11, 12, 13, 28, 29, 30, 133}"

fun py_splitlines :: "string \<Rightarrow> string list" where
  "py_splitlines [] = []"
| "py_splitlines (c # cs) =
     (if line_break c then
        (if ord c = 13 \<and> startswith cs [char_of (10::nat)] then [] # py_splitlines (tl cs) else [] # py_splitlines cs)
      else case py_splitlines cs of [] \<Rightarrow> [[c]] | l # ls \<Rightarrow> (c # l) # ls)"

text \<open>\<open>str.split()\<close>: the words between white space.\<close>

fun py_words :: "string \<Rightarrow> string list" where
  "py_words [] = []"
| "py_words (c # cs) =
     (if py_space c then py_words cs
      else case cs of
        [] \<Rightarrow> [[c]]
      | d # ds \<Rightarrow> if py_space d then [c] # py_words cs
                   else case py_words cs of [] \<Rightarrow> [[c]] | w # ws \<Rightarrow> (c # w) # ws)"

fun after_first :: "string \<Rightarrow> string \<Rightarrow> string option" where
  "after_first sub [] = (if sub = [] then Some [] else None)"
| "after_first sub (c # cs) = (if startswith (c # cs) sub then Some (drop (length sub) (c # cs)) else after_first sub cs)"

subsection \<open>Processes and files\<close>

datatype proc = Ran int string string | Timed_out | Os_failed string

text \<open>
  \<open>ho_read\<close> is the content of a file under the checkout (None when missing or unreadable),
  \<open>ho_json\<close> and \<open>ho_float\<close> are \<open>json.loads\<close> and \<open>float\<close> of a text (None for an
  exception); processes run in the checkout.
\<close>

record 'w host =
  ho_proc :: "string list \<Rightarrow> 'w \<Rightarrow> proc \<times> 'w"
  ho_spawn :: "string list \<Rightarrow> 'w \<Rightarrow> bool \<times> 'w"
  ho_which :: "'w \<Rightarrow> string \<Rightarrow> bool"
  ho_read :: "'w \<Rightarrow> string \<Rightarrow> string option"
  ho_exists :: "'w \<Rightarrow> string \<Rightarrow> bool"
  ho_write :: "string \<Rightarrow> string \<Rightarrow> 'w \<Rightarrow> 'w"
  ho_json :: "string \<Rightarrow> pyval option"
  ho_float :: "string \<Rightarrow> real option"

definition git :: "'w host \<Rightarrow> string list \<Rightarrow> 'w \<Rightarrow> (int \<times> string \<times> string) \<times> 'w" where
  "git h args w =
     (if \<not> ho_which h w ''git'' then ((127, [], ''git is not installed''), w)
      else case ho_proc h (''git'' # args) w of
        (Ran code out err, w') \<Rightarrow> ((code, py_strip out, py_strip err), w')
      | (Timed_out, w') \<Rightarrow> ((124, [], ''git '' @ join '' '' args @ '' timed out''), w')
      | (Os_failed m, w') \<Rightarrow> ((1, [], m), w'))"

text \<open>\<open>_run\<close>; \<open>timeout\<close> only appears in the message of a run that was cut off.\<close>

definition run_cmd :: "'w host \<Rightarrow> string list \<Rightarrow> int \<Rightarrow> 'w \<Rightarrow> (int \<times> string) \<times> 'w" where
  "run_cmd h cmd timeout w =
     (case ho_proc h cmd w of
        (Ran code out err, w') \<Rightarrow> ((code, py_strip (out @ err)), w')
      | (Timed_out, w') \<Rightarrow> ((124, join '' '' cmd @ '' timed out after '' @ show_signed timeout @ ''s''), w')
      | (Os_failed m, w') \<Rightarrow> ((1, m), w'))"

definition default_branch :: "'w host \<Rightarrow> 'w \<Rightarrow> string \<times> 'w" where
  "default_branch h w =
     (case git h [''symbolic-ref'', ''--short'', ''refs/remotes/origin/HEAD''] w of
        ((code, out, _), w1) \<Rightarrow>
          if code = 0 \<and> startswith out ''origin/'' then (drop 7 out, w1)
          else case git h [''remote'', ''show'', ''origin''] w1 of
            ((code2, out2, _), w2) \<Rightarrow>
              (case (if code2 = 0 then after_first ''HEAD branch:'' out2 else None) of
                 None \<Rightarrow> (''main'', w2)
               | Some rest \<Rightarrow>
                   let name = takeWhile (\<lambda>c. \<not> py_space c) (lstrip py_space rest)
                   in (if name = [] then ''main'' else name, w2)))"

definition working_tree_dirty :: "'w host \<Rightarrow> 'w \<Rightarrow> bool \<times> 'w" where
  "working_tree_dirty h w =
     (case git h [''status'', ''--porcelain'', ''--untracked-files=no''] w of
        ((code, out, _), w1) \<Rightarrow> (code = 0 \<and> out \<noteq> [], w1))"

subsection \<open>The installation\<close>

record installation =
  in_kind :: string
  in_root :: "string option"
  in_python :: string
  in_venv :: "string option"
  in_under_systemd :: bool
  in_service :: "string option"

datatype blocker = B_kind string | B_no_git | B_dirty | B_in_flight string | B_ahead int string | B_unsigned string

definition self_update_blockers :: "'w host \<Rightarrow> installation \<Rightarrow> 'w \<Rightarrow> blocker list \<times> 'w" where
  "self_update_blockers h i w =
     (if in_kind i \<noteq> ''git'' \<or> in_root i = None then ([B_kind (in_kind i)], w)
      else
        let b1 = (if ho_which h w ''git'' then [] else [B_no_git])
        in case working_tree_dirty h w of (dirty, w1) \<Rightarrow> (b1 @ (if dirty then [B_dirty] else []), w1))"

subsection \<open>The target\<close>

definition TAG_NAMESPACE :: string where "TAG_NAMESPACE = ''refs/beaconmcp/tags/''"

text \<open>The pattern of a release tag: \<open>v\<close>, then numbers separated by dots.\<close>

definition release_tag :: "string \<Rightarrow> bool" where
  "release_tag s \<longleftrightarrow> (case s of CHR ''v'' # t \<Rightarrow> list_all (\<lambda>n. n \<noteq> [] \<and> list_all ascii_digit n) (split_on CHR ''.'' t) | _ \<Rightarrow> False)"

datatype target_kind = Branch | Release

record update_target =
  tg_kind :: target_kind
  tg_name :: string
  tg_sha :: string

text \<open>The reasons \<open>_resolve_target\<close> gives, with what git reported.\<close>

datatype target_error =
    T_unreachable string | T_no_tag_list string | T_no_release | T_no_tag string string | T_no_ref string string

definition git_reason :: "string \<Rightarrow> string \<Rightarrow> string" where
  "git_reason err dflt = (if err = [] then dflt else err)"

definition resolve_release :: "'w host \<Rightarrow> 'w \<Rightarrow> (target_error + update_target) \<times> 'w" where
  "resolve_release h w =
     (case git h [''fetch'', ''--quiet'', ''--no-tags'', ''--prune'', ''--force'', ''origin'',
                  ''+refs/tags/v*:'' @ TAG_NAMESPACE @ ''v*''] w of
        ((code, _, err), w1) \<Rightarrow>
          if code \<noteq> 0 then (Inl (T_unreachable (git_reason err ''git fetch failed'')), w1)
          else case git h [''for-each-ref'', ''--sort=-v:refname'', ''--format=%(refname:strip=3)'', TAG_NAMESPACE] w1 of
            ((code2, out, err2), w2) \<Rightarrow>
              if code2 \<noteq> 0 then (Inl (T_no_tag_list (git_reason err2 ''git failed'')), w2)
              else case [t \<leftarrow> py_splitlines out. release_tag (py_strip t)] of
                [] \<Rightarrow> (Inl T_no_release, w2)
              | t # _ \<Rightarrow>
                  let tag = py_strip t
                  in case git h [''rev-parse'', TAG_NAMESPACE @ tag @ ''^{commit}''] w2 of
                       ((code3, sha, err3), w3) \<Rightarrow>
                         if code3 \<noteq> 0 then (Inl (T_no_tag tag (git_reason err3 ''git failed'')), w3)
                         else (Inr \<lparr>tg_kind = Release, tg_name = tag, tg_sha = sha\<rparr>, w3))"

definition resolve_branch :: "'w host \<Rightarrow> 'w \<Rightarrow> (target_error + update_target) \<times> 'w" where
  "resolve_branch h w =
     (case default_branch h w of
        (branch, w1) \<Rightarrow>
          (case git h [''fetch'', ''--quiet'', ''origin'', branch] w1 of
             ((code, _, err), w2) \<Rightarrow>
               if code \<noteq> 0 then (Inl (T_unreachable (git_reason err ''git fetch failed'')), w2)
               else
                 let remote_ref = ''origin/'' @ branch
                 in case git h [''rev-parse'', remote_ref] w2 of
                      ((code2, sha, err2), w3) \<Rightarrow>
                        if code2 \<noteq> 0 then (Inl (T_no_ref remote_ref (git_reason err2 ''git failed'')), w3)
                        else (Inr \<lparr>tg_kind = Branch, tg_name = remote_ref, tg_sha = sha\<rparr>, w3)))"

definition resolve_target :: "'w host \<Rightarrow> string \<Rightarrow> 'w \<Rightarrow> (target_error + update_target) \<times> 'w" where
  "resolve_target h channel w = (if channel = ''release'' then resolve_release h w else resolve_branch h w)"

definition verify_signature :: "'w host \<Rightarrow> update_target \<Rightarrow> 'w \<Rightarrow> (bool \<times> string) \<times> 'w" where
  "verify_signature h t w =
     (case tg_kind t of
        Release \<Rightarrow>
          let ref = TAG_NAMESPACE @ tg_name t
          in (case git h [''for-each-ref'', ''--format=%(tag)'', ref] w of
                ((_, own_name, _), w1) \<Rightarrow>
                  if own_name \<noteq> tg_name t then ((False, ''the signed tag object is named '' @ own_name), w1)
                  else case git h [''verify-tag'', ref] w1 of
                    ((code, out, err), w2) \<Rightarrow> ((code = 0, py_strip (if err = [] then out else err)), w2))
      | Branch \<Rightarrow>
          (case git h [''verify-commit'', tg_sha t] w of
             ((code, out, err), w1) \<Rightarrow> ((code = 0, py_strip (if err = [] then out else err)), w1)))"

text \<open>The counts git prints are ASCII digits, so \<open>int\<close> cannot fail on them.\<close>

definition ahead_behind :: "'w host \<Rightarrow> string \<Rightarrow> 'w \<Rightarrow> (int \<times> int) option \<times> 'w" where
  "ahead_behind h sha w =
     (case git h [''rev-list'', ''--left-right'', ''--count'', ''HEAD...'' @ sha] w of
        ((code, out, _), w1) \<Rightarrow>
          (if code \<noteq> 0 then None
           else case py_words out of
             [a, b] \<Rightarrow>
               (case (int_of_digits a, int_of_digits b) of (Some m, Some n) \<Rightarrow> Some (m, n) | _ \<Rightarrow> None)
           | _ \<Rightarrow> None, w1))"

subsection \<open>The watchdog's status file\<close>

definition STATUS_FILE :: string where "STATUS_FILE = ''.beaconmcp-update.json''"
definition WATCHDOG_WINDOW_SECONDS :: real where "WATCHDOG_WINDOW_SECONDS = 2 * (90 + 30 + 15) + 900 + 60"

definition last_update_status :: "'w host \<Rightarrow> 'w \<Rightarrow> (string, pyval) dict option" where
  "last_update_status h w =
     (case ho_read h w STATUS_FILE of
        None \<Rightarrow> None
      | Some text \<Rightarrow> (case ho_json h text of Some (PDict d) \<Rightarrow> Some d | _ \<Rightarrow> None))"

fun py_float :: "'w host \<Rightarrow> pyval \<Rightarrow> real option" where
  "py_float h (PBool b) = Some (if b then 1 else 0)"
| "py_float h (PInt n) = Some (of_int n)"
| "py_float h (PFloat x) = Some x"
| "py_float h (PStr s) = ho_float h s"
| "py_float h _ = None"

definition watchdog_in_flight :: "'w host \<Rightarrow> real \<Rightarrow> 'w \<Rightarrow> (string, pyval) dict option" where
  "watchdog_in_flight h now w =
     (case last_update_status h w of
        None \<Rightarrow> None
      | Some status \<Rightarrow>
          if status = [] \<or> dget status ''outcome'' \<noteq> Some (PStr ''pending'') then None
          else case py_float h (case dget status ''at'' of Some v \<Rightarrow> v | None \<Rightarrow> PInt 0) of
            None \<Rightarrow> None
          | Some stamp \<Rightarrow> if 0 \<le> now - stamp \<and> now - stamp < WATCHDOG_WINDOW_SECONDS then Some status else None)"

end
