(* ===== verification/Self_Update.thy ===== *)
theory Self_Update
  imports Git_Host "HOL-Library.Char_ord" "HOL-Library.List_Lexorder"
begin

text \<open>
  Checking for an update and applying one (\<open>updates.py\<close>).  The texts shown to the
  operator are values of the datatypes \<open>blocker\<close> and \<open>update_message\<close>; a step of the
  report keeps its name and whether it succeeded.  \<open>yaml.safe_load\<close> is the parameter
  \<open>yaml\<close> (None for an exception, mapping keys as text).
\<close>

subsection \<open>New settings of the incoming revision\<close>

definition env_char :: "char \<Rightarrow> bool" where
  "env_char c \<longleftrightarrow> 65 \<le> ord c \<and> ord c \<le> 90 \<or> ascii_digit c \<or> c = CHR ''_''"

definition after_export :: "string \<Rightarrow> string" where
  "after_export line =
     (if startswith line ''export'' \<and> drop 6 line \<noteq> [] \<and> py_space (hd (drop 6 line))
      then lstrip py_space (drop 6 line) else line)"

text \<open>The pattern \<open>^\s*(?:export\s+)?([A-Z][A-Z0-9_]*)\s*=\<close> on one line.\<close>

definition assigned_name :: "string \<Rightarrow> string option" where
  "assigned_name raw =
     (let line = after_export (lstrip py_space raw);
          name = takeWhile env_char line;
          rest = lstrip py_space (drop (length name) line)
      in if name \<noteq> [] \<and> 65 \<le> ord (hd name) \<and> ord (hd name) \<le> 90 \<and> startswith rest ''=''
         then Some name else None)"

definition env_line :: "string \<Rightarrow> string" where
  "env_line raw =
     (let line = lstrip py_space raw
      in if startswith line ''#'' then lstrip py_space (lstrip (\<lambda>c. c = CHR ''#'') line) else line)"

definition env_names :: "string \<Rightarrow> string list" where
  "env_names text = [name. raw \<leftarrow> py_splitlines text, Some name \<leftarrow> [assigned_name (env_line raw)]]"

text \<open>The walk of \<open>_yaml_paths\<close>; the paths come in visiting order, as a list.\<close>

fun yaml_walk :: "string \<Rightarrow> pyval \<Rightarrow> string list" and yaml_entries :: "string \<Rightarrow> (string \<times> pyval) list \<Rightarrow> string list"
  and yaml_items :: "string \<Rightarrow> pyval list \<Rightarrow> string list" where
  "yaml_walk pre (PDict d) = yaml_entries pre d"
| "yaml_walk pre (PList xs) = yaml_items pre xs"
| "yaml_walk pre _ = []"
| "yaml_entries pre [] = []"
| "yaml_entries pre ((k, v) # d) =
     (let path = (if pre = [] then k else pre @ ''.'' @ k) in path # yaml_walk path v @ yaml_entries pre d)"
| "yaml_items pre [] = []"
| "yaml_items pre (v # xs) = yaml_walk pre v @ yaml_items pre xs"

definition yaml_paths :: "(string \<Rightarrow> pyval option) \<Rightarrow> string \<Rightarrow> string list" where
  "yaml_paths yaml text = (case yaml text of None \<Rightarrow> [] | Some v \<Rightarrow> yaml_walk [] v)"

record config_drift =
  cd_env :: "string list"
  cd_keys :: "string list"

text \<open>What the check needs of the process: its environment's names and the configuration file.\<close>

record update_env =
  up_environ :: "string list"
  up_config :: "string option"
  up_yaml :: "string \<Rightarrow> pyval option"

fun fresh_names :: "string list \<Rightarrow> string list \<Rightarrow> string list \<Rightarrow> string list" where
  "fresh_names known [] acc = acc"
| "fresh_names known (n # ns) acc =
     fresh_names known ns (if n \<notin> set known \<and> n \<notin> set acc then acc @ [n] else acc)"

definition new_yaml_keys :: "string list \<Rightarrow> string list \<Rightarrow> string list" where
  "new_yaml_keys new have =
     [p \<leftarrow> sort (remdups [p \<leftarrow> new. p \<notin> set have]). \<not> list_ex (\<lambda>q. startswith q (p @ ''.'')) have]"

definition config_drift_of :: "'w host \<Rightarrow> update_env \<Rightarrow> string \<Rightarrow> 'w \<Rightarrow> config_drift \<times> 'w" where
  "config_drift_of h e ref w =
     (case git h [''show'', ref @ '':.env.example''] w of
        ((code, new_env, _), w1) \<Rightarrow>
          let local_env = (case ho_read h w1 ''.env'' of Some t \<Rightarrow> t | None \<Rightarrow> []);
              env = (if code = 0 then fresh_names (env_names local_env @ up_environ e) (env_names new_env) [] else [])
          in case git h [''show'', ref @ '':beaconmcp.yaml.example''] w1 of
               ((code2, new_yaml, _), w2) \<Rightarrow>
                 let local_yaml = (case up_config e of
                                     Some t \<Rightarrow> t
                                   | None \<Rightarrow> (case ho_read h w2 ''beaconmcp.yaml'' of Some t \<Rightarrow> t | None \<Rightarrow> []));
                     keys = (if code2 = 0
                             then new_yaml_keys (yaml_paths (up_yaml e) new_yaml) (yaml_paths (up_yaml e) local_yaml) else [])
                 in (\<lparr>cd_env = env, cd_keys = keys\<rparr>, w2))"

subsection \<open>The check\<close>

record update_settings =
  st_channel :: string
  st_require_signed :: bool

datatype check_error = E_kind string | E_head string | E_target target_error | E_compare string

record update_info =
  uf_checked_at :: real
  uf_available :: bool
  uf_error :: "check_error option"
  uf_current_ref :: "string option"
  uf_latest_ref :: "string option"
  uf_behind :: int
  uf_commits :: "(string \<times> string \<times> string) list"
  uf_drift :: config_drift
  uf_can_self_update :: bool
  uf_blockers :: "blocker list"
  uf_release_tag :: "string option"
  uf_signature_ok :: "bool option"

definition unit_sep :: char where "unit_sep = char_of (31 :: nat)"

definition log_commits :: "string \<Rightarrow> (string \<times> string \<times> string) list" where
  "log_commits out = [(a, b, c). line \<leftarrow> py_splitlines out, [a, b, c] \<leftarrow> [split_on unit_sep line]]"

definition in_flight_blocker :: "(string, pyval) dict \<Rightarrow> blocker" where
  "in_flight_blocker status = B_in_flight (take 12 (py_str (case dget status ''to'' of Some v \<Rightarrow> v | None \<Rightarrow> PStr [])))"

text \<open>
  The part of \<open>_check_uncached\<close> after the commit log: drift, blockers, signature, verdict.
\<close>

definition check_target ::
  "'w host \<Rightarrow> update_env \<Rightarrow> update_settings \<Rightarrow> installation \<Rightarrow> update_target \<Rightarrow> int \<Rightarrow> real \<Rightarrow> update_info \<Rightarrow> 'w
     \<Rightarrow> update_info \<times> 'w" where
  "check_target h e st i t ahead now info w =
     (let (drift, w1) = config_drift_of h e (tg_sha t) w;
          (b0, w2) = self_update_blockers h i w1;
          b1 = (case watchdog_in_flight h now w2 of None \<Rightarrow> [] | Some s \<Rightarrow> [in_flight_blocker s]);
          b2 = (if ahead \<noteq> 0 then [B_ahead ahead (tg_name t)] else []);
          (sig, w3) = (if st_require_signed st then (case verify_signature h t w2 of ((ok, _), w') \<Rightarrow> (Some ok, w')) else (None, w2));
          b3 = (if sig = Some False then [B_unsigned (tg_name t)] else []);
          bs = b0 @ b1 @ b2 @ b3
      in (info\<lparr>uf_drift := drift, uf_blockers := bs, uf_signature_ok := sig, uf_can_self_update := bs = []\<rparr>, w3))"

definition check_uncached ::
  "'w host \<Rightarrow> update_env \<Rightarrow> update_settings \<Rightarrow> installation \<Rightarrow> real \<Rightarrow> real \<Rightarrow> 'w \<Rightarrow> update_info \<times> 'w" where
  "check_uncached h e st i t0 now w =
     (let info = \<lparr>uf_checked_at = t0, uf_available = False, uf_error = None, uf_current_ref = None, uf_latest_ref = None,
                  uf_behind = 0, uf_commits = [], uf_drift = \<lparr>cd_env = [], cd_keys = []\<rparr>, uf_can_self_update = False,
                  uf_blockers = [], uf_release_tag = None, uf_signature_ok = None\<rparr>
      in if in_kind i \<noteq> ''git'' \<or> in_root i = None
         then (case self_update_blockers h i w of (bs, w1) \<Rightarrow> (info\<lparr>uf_error := Some (E_kind (in_kind i)), uf_blockers := bs\<rparr>, w1))
         else case git h [''rev-parse'', ''--short'', ''HEAD''] w of
           ((code, head, err), w1) \<Rightarrow>
             if code \<noteq> 0 then (info\<lparr>uf_error := Some (E_head (git_reason err ''git failed''))\<rparr>, w1)
             else
               let info1 = info\<lparr>uf_current_ref := Some head\<rparr>;
                   w2 = (if st_channel st = ''branch'' then snd (default_branch h w1) else w1)
               in case resolve_target h (st_channel st) w2 of
                    (Inl err, w3) \<Rightarrow>
                      (case self_update_blockers h i w3 of (bs, w4) \<Rightarrow> (info1\<lparr>uf_error := Some (E_target err), uf_blockers := bs\<rparr>, w4))
                  | (Inr t, w3) \<Rightarrow>
                      let info2 = info1\<lparr>uf_latest_ref := Some (take 7 (tg_sha t)),
                                       uf_release_tag := (if tg_kind t = Release then Some (tg_name t) else None)\<rparr>
                      in case ahead_behind h (tg_sha t) w3 of
                           (None, w4) \<Rightarrow>
                             (case self_update_blockers h i w4 of (bs, w5) \<Rightarrow>
                                (info2\<lparr>uf_error := Some (E_compare (tg_name t)), uf_blockers := bs\<rparr>, w5))
                         | (Some (ahead, behind), w4) \<Rightarrow>
                             let info3 = info2\<lparr>uf_behind := behind, uf_available := 0 < behind\<rparr>
                             in if \<not> 0 < behind then (info3, w4)
                                else case git h [''log'', ''--no-merges'', ''--max-count=20'',
                                                 ''--pretty=format:%h'' @ [unit_sep] @ ''%s'' @ [unit_sep] @ ''%aI'', ''HEAD..'' @ tg_sha t] w4 of
                                  ((code2, commits, _), w5) \<Rightarrow>
                                    check_target h e st i t ahead now
                                      (info3\<lparr>uf_commits := (if code2 = 0 then log_commits commits else [])\<rparr>) w5)"

subsection \<open>The cache\<close>

definition CHECK_TTL_SECONDS :: real where "CHECK_TTL_SECONDS = 6 * 3600"
definition FAILED_CHECK_TTL_SECONDS :: real where "FAILED_CHECK_TTL_SECONDS = 15 * 60"

definition fresh_check :: "update_info option \<Rightarrow> real \<Rightarrow> update_info option" where
  "fresh_check cached now =
     (case cached of
        None \<Rightarrow> None
      | Some u \<Rightarrow>
          if now - uf_checked_at u < (if uf_error u \<noteq> None then FAILED_CHECK_TTL_SECONDS else CHECK_TTL_SECONDS)
          then Some u else None)"

text \<open>
  \<open>check_for_update\<close> with its global cache: \<open>n1\<close> is the reading before the lock, and
  \<open>cached2\<close> and \<open>n2\<close> the cache and the clock once the lock is held.
\<close>

definition check_for_update ::
  "'w host \<Rightarrow> update_env \<Rightarrow> update_settings \<Rightarrow> installation \<Rightarrow> bool \<Rightarrow> update_info option \<Rightarrow> real \<Rightarrow> update_info option
     \<Rightarrow> real \<Rightarrow> real \<Rightarrow> real \<Rightarrow> 'w \<Rightarrow> (update_info \<times> update_info option) \<times> 'w" where
  "check_for_update h e st i force cached n1 cached2 n2 t0 now w =
     (case (if force then None else fresh_check cached n1) of
        Some hit \<Rightarrow> ((hit, cached), w)
      | None \<Rightarrow>
          (case (if force then None else fresh_check cached2 n2) of
             Some hit \<Rightarrow> ((hit, cached2), w)
           | None \<Rightarrow> (case check_uncached h e st i t0 now w of (info, w1) \<Rightarrow> ((info, Some info), w1))))"


subsection \<open>Applying an update\<close>

datatype rollback_end = Rb_failed | Rb_deps_failed | Rb_clean

datatype update_message =
    M_none | M_busy | M_blocked "blocker list" | M_in_flight blocker | M_no_head | M_no_target target_error
  | M_no_compare string | M_up_to_date | M_unsigned string | M_no_fast_forward string
  | M_pip_failed rollback_end | M_startup_failed rollback_end | M_updated string

record update_result =
  ur_ok :: bool
  ur_steps :: "(string \<times> bool) list"
  ur_from_ref :: "string option"
  ur_to_ref :: "string option"
  ur_rolled_back :: bool
  ur_restart_scheduled :: bool
  ur_restart_in :: int
  ur_message :: update_message
  ur_drift :: config_drift

definition blank_result :: update_result where
  "blank_result = \<lparr>ur_ok = False, ur_steps = [], ur_from_ref = None, ur_to_ref = None, ur_rolled_back = False,
     ur_restart_scheduled = False, ur_restart_in = 0, ur_message = M_none, ur_drift = \<lparr>cd_env = [], cd_keys = []\<rparr>\<rparr>"

definition add_step :: "string \<Rightarrow> bool \<Rightarrow> update_result \<Rightarrow> update_result" where
  "add_step name ok r = r\<lparr>ur_steps := ur_steps r @ [(name, ok)]\<rparr>"

definition pip_command :: "'w host \<Rightarrow> installation \<Rightarrow> 'w \<Rightarrow> string list" where
  "pip_command h i w =
     (let fallback = [in_python i, ''-m'', ''pip'']
      in case in_venv i of
           None \<Rightarrow> fallback
         | Some v \<Rightarrow> if ho_exists h w (v @ ''/bin/pip'') then [v @ ''/bin/pip'']
                     else if ho_exists h w (v @ ''/Scripts/pip.exe'') then [v @ ''/Scripts/pip.exe''] else fallback)"

definition CONSTRAINTS_FILE :: string where "CONSTRAINTS_FILE = ''constraints.txt''"

definition pip_install_command :: "'w host \<Rightarrow> installation \<Rightarrow> 'w \<Rightarrow> string list" where
  "pip_install_command h i w =
     pip_command h i w @ [''install'', ''-e'', ''.'']
     @ (if ho_read h w CONSTRAINTS_FILE \<noteq> None then [''-c'', CONSTRAINTS_FILE] else [])"

definition startup_check_command :: "installation \<Rightarrow> string option \<Rightarrow> string list" where
  "startup_check_command i config_path =
     [in_python i, ''-m'', ''beaconmcp'', ''check-startup''] @ (case config_path of None \<Rightarrow> [] | Some p \<Rightarrow> [''--config'', p])"

record watchdog =
  wd_health_url :: string
  wd_root :: string
  wd_from_sha :: string
  wd_to_sha :: string
  wd_python :: string
  wd_pip :: "string list"
  wd_wait :: int
  wd_settle :: int

datatype restart_mode = Watched | Unwatched

text \<open>\<open>script\<close> is the shell text of the watchdog, \<open>stamp\<close> the nanosecond clock reading in the unit's name.\<close>

definition watchdog_command :: "string \<Rightarrow> int \<Rightarrow> int \<Rightarrow> string \<Rightarrow> watchdog \<Rightarrow> string list" where
  "watchdog_command script stamp delay service d =
     [''systemd-run'', ''--quiet'', ''--collect'', ''--unit=beaconmcp-update-'' @ show_signed stamp,
      ''--setenv=GIT_TERMINAL_PROMPT=0'', ''/bin/sh'', ''-c'', script, ''beaconmcp-update'',
      show_signed delay, service, wd_health_url d, wd_root d, wd_from_sha d, wd_to_sha d, wd_python d,
      wd_root d @ ''/'' @ STATUS_FILE, show_signed (wd_wait d), show_signed (wd_settle d)] @ wd_pip d"

definition schedule_restart ::
  "'w host \<Rightarrow> string \<Rightarrow> int \<Rightarrow> string \<Rightarrow> int \<Rightarrow> watchdog option \<Rightarrow> 'w \<Rightarrow> restart_mode option \<times> 'w" where
  "schedule_restart h script stamp service delay wd w =
     (if \<not> ho_which h w ''systemctl'' then (None, w)
      else
        let (started, w1) =
              (case wd of
                 None \<Rightarrow> (False, w)
               | Some d \<Rightarrow>
                   if \<not> ho_which h w ''systemd-run'' then (False, w)
                   else case run_cmd h (watchdog_command script stamp delay service d) 30 w of
                     ((code, _), w') \<Rightarrow> (code = 0, w'))
        in if started then (Some Watched, w1)
           else case ho_spawn h [''sh'', ''-c'', ''sleep \"$1\"; systemctl restart \"$2\"'', ''sh'', show_signed delay, service] w1 of
             (spawned, w2) \<Rightarrow> (if spawned then Some Unwatched else None, w2))"

text \<open>What the server recorded at startup and was asked: settings, health URL, restart or not.\<close>

record update_call =
  uc_settings :: update_settings
  uc_health_url :: "string option"
  uc_restart :: bool
  uc_restart_delay :: int
  uc_config_path :: "string option"
  uc_script :: string

text \<open>The rollback: back to \<open>from_ref\<close>, then its dependencies.\<close>

definition rollback ::
  "'w host \<Rightarrow> installation \<Rightarrow> string \<Rightarrow> (rollback_end \<Rightarrow> update_message) \<Rightarrow> update_result \<Rightarrow> 'w \<Rightarrow> update_result \<times> 'w" where
  "rollback h i from_ref reason r w =
     (case git h [''reset'', ''--hard'', from_ref] w of
        ((code, _, _), w1) \<Rightarrow>
          let r1 = add_step ''rollback'' (code = 0) (r\<lparr>ur_rolled_back := (code = 0)\<rparr>)
          in if code \<noteq> 0 then (r1\<lparr>ur_ok := False, ur_message := reason Rb_failed\<rparr>, w1)
             else case run_cmd h (pip_install_command h i w1) 900 w1 of
               ((pip_code, _), w2) \<Rightarrow>
                 ((add_step ''rollback-pip-install'' (pip_code = 0) r1)
                    \<lparr>ur_ok := False, ur_message := reason (if pip_code = 0 then Rb_clean else Rb_deps_failed)\<rparr>, w2))"

text \<open>The restart and its status file, once the new revision starts; \<open>now\<close> is the clock in whole seconds.\<close>

definition json_status :: "int \<Rightarrow> string \<Rightarrow> string \<Rightarrow> string \<Rightarrow> string" where
  "json_status at_time from_sha to_sha outcome =
     ''{\"at\": '' @ show_signed at_time @ '', \"from\": \"'' @ from_sha @ ''\", \"to\": \"'' @ to_sha @ ''\", \"outcome\": \"'' @ outcome @ ''\"}''
     @ [char_of (10::nat)]"

definition restart_stage ::
  "'w host \<Rightarrow> installation \<Rightarrow> update_call \<Rightarrow> string \<Rightarrow> string \<Rightarrow> string \<Rightarrow> int \<Rightarrow> int \<Rightarrow> update_result \<Rightarrow> 'w
     \<Rightarrow> update_result \<times> 'w" where
  "restart_stage h i c dir from_ref to_sha stamp now r w =
     (case in_service i of
        None \<Rightarrow> (r, w)
      | Some service \<Rightarrow>
          if \<not> (uc_restart c \<and> service \<noteq> [] \<and> in_under_systemd i) then (r, w)
          else
            let wd = (case uc_health_url c of
                        None \<Rightarrow> None
                      | Some url \<Rightarrow> if url = [] then None
                          else Some \<lparr>wd_health_url = url, wd_root = dir, wd_from_sha = from_ref, wd_to_sha = to_sha,
                                     wd_python = in_python i, wd_pip = pip_command h i w, wd_wait = 90, wd_settle = 30\<rparr>);
                (mode, w1) = schedule_restart h (uc_script c) stamp service (uc_restart_delay c) wd w;
                w2 = (case mode of
                        None \<Rightarrow> w1
                      | Some m \<Rightarrow> ho_write h STATUS_FILE
                          (json_status now from_ref to_sha (if m = Watched then ''pending'' else ''unwatched'')) w1)
            in (add_step ''restart'' (mode \<noteq> None)
                  (r\<lparr>ur_restart_scheduled := mode \<noteq> None, ur_restart_in := (if mode \<noteq> None then uc_restart_delay c else 0)\<rparr>), w2))"

text \<open>From the moment the checkout has moved: dependencies, startup gate, drift, restart.\<close>

definition moved_stage ::
  "'w host \<Rightarrow> update_env \<Rightarrow> installation \<Rightarrow> update_call \<Rightarrow> string \<Rightarrow> string \<Rightarrow> string \<Rightarrow> update_target \<Rightarrow> int \<Rightarrow> int
     \<Rightarrow> update_result \<Rightarrow> 'w \<Rightarrow> update_result \<times> 'w" where
  "moved_stage h e i c dir from_ref to_sha t stamp now r w =
     (case run_cmd h (pip_install_command h i w) 900 w of
        ((code, _), w1) \<Rightarrow>
          if code \<noteq> 0 then rollback h i from_ref M_pip_failed (add_step ''pip-install'' False r) w1
          else
            let r1 = add_step ''pip-install'' True r
            in case run_cmd h (startup_check_command i (uc_config_path c)) 180 w1 of
                 ((code2, _), w2) \<Rightarrow>
                   if code2 \<noteq> 0 then rollback h i from_ref M_startup_failed (add_step ''check-startup'' False r1) w2
                   else
                     let (drift, w3) = config_drift_of h e ''HEAD'' w2;
                         r2 = (add_step ''check-startup'' True r1)\<lparr>ur_drift := drift, ur_ok := True\<rparr>;
                         (r3, w4) = restart_stage h i c dir from_ref to_sha stamp now r2 w3
                     in (r3\<lparr>ur_message := M_updated (tg_name t)\<rparr>, w4))"

text \<open>The fast-forward to the resolved commit.\<close>

definition merge_stage ::
  "'w host \<Rightarrow> update_env \<Rightarrow> installation \<Rightarrow> update_call \<Rightarrow> string \<Rightarrow> string \<Rightarrow> update_target \<Rightarrow> int \<Rightarrow> int
     \<Rightarrow> update_result \<Rightarrow> 'w \<Rightarrow> update_result \<times> 'w" where
  "merge_stage h e i c dir from_ref t stamp now r w =
     (case git h [''merge'', ''--ff-only'', tg_sha t] w of
        ((code, _, _), w1) \<Rightarrow>
          if code \<noteq> 0 then ((add_step ''git-update'' False r)\<lparr>ur_message := M_no_fast_forward (tg_name t)\<rparr>, w1)
          else case git h [''rev-parse'', ''HEAD''] w1 of
            ((code2, to_ref, _), w2) \<Rightarrow>
              let to_sha = (if code2 = 0 then to_ref else tg_sha t)
              in moved_stage h e i c dir from_ref to_sha t stamp now
                   (add_step ''git-update'' True (r\<lparr>ur_to_ref := Some (take 12 to_sha)\<rparr>)) w2)"

definition signature_stage ::
  "'w host \<Rightarrow> update_env \<Rightarrow> installation \<Rightarrow> update_call \<Rightarrow> string \<Rightarrow> string \<Rightarrow> update_target \<Rightarrow> int \<Rightarrow> int
     \<Rightarrow> update_result \<Rightarrow> 'w \<Rightarrow> update_result \<times> 'w" where
  "signature_stage h e i c dir from_ref t stamp now r w =
     (if st_require_signed (uc_settings c) then
        case verify_signature h t w of
          ((ok, _), w1) \<Rightarrow>
            let r1 = add_step ''verify-signature'' ok r
            in if \<not> ok then (r1\<lparr>ur_message := M_unsigned (tg_name t)\<rparr>, w1)
               else merge_stage h e i c dir from_ref t stamp now r1 w1
      else merge_stage h e i c dir from_ref t stamp now r w)"

text \<open>
  \<open>_apply_update_locked\<close>: \<open>t0\<close> is the clock reading of the preflight, \<open>stamp\<close> and \<open>now\<close> those
  of the restart.
\<close>

definition apply_update_locked ::
  "'w host \<Rightarrow> update_env \<Rightarrow> installation \<Rightarrow> update_call \<Rightarrow> real \<Rightarrow> int \<Rightarrow> int \<Rightarrow> 'w \<Rightarrow> update_result \<times> 'w" where
  "apply_update_locked h e i c t0 stamp now w =
     (case self_update_blockers h i w of
        (blockers, w1) \<Rightarrow>
          if blockers \<noteq> [] \<or> in_root i = None
          then ((add_step ''preflight'' False blank_result)\<lparr>ur_message := M_blocked blockers\<rparr>, w1)
          else case watchdog_in_flight h t0 w1 of
            Some s \<Rightarrow> ((add_step ''preflight'' False blank_result)\<lparr>ur_message := M_in_flight (in_flight_blocker s)\<rparr>, w1)
          | None \<Rightarrow>
              let r0 = add_step ''preflight'' True blank_result
              in case git h [''rev-parse'', ''HEAD''] w1 of
                   ((code, from_ref, _), w2) \<Rightarrow>
                     if code \<noteq> 0 then ((add_step ''read-head'' False r0)\<lparr>ur_message := M_no_head\<rparr>, w2)
                     else
                       let r1 = r0\<lparr>ur_from_ref := Some (take 12 from_ref)\<rparr>
                       in case resolve_target h (st_channel (uc_settings c)) w2 of
                            (Inl err, w3) \<Rightarrow> ((add_step ''fetch'' False r1)\<lparr>ur_message := M_no_target err\<rparr>, w3)
                          | (Inr t, w3) \<Rightarrow>
                              let r2 = add_step ''fetch'' True r1
                              in case ahead_behind h (tg_sha t) w3 of
                                   (None, w4) \<Rightarrow> ((add_step ''compare'' False r2)\<lparr>ur_message := M_no_compare (tg_name t)\<rparr>, w4)
                                 | (Some (_, behind), w4) \<Rightarrow>
                                     if behind = 0
                                     then (r2\<lparr>ur_ok := True, ur_to_ref := ur_from_ref r2, ur_message := M_up_to_date\<rparr>, w4)
                                     else signature_stage h e i c (the (in_root i)) from_ref t stamp now r2 w4)"

text \<open>\<open>apply_update\<close>: \<open>busy\<close> when another update holds the lock.\<close>

definition apply_update ::
  "bool \<Rightarrow> 'w host \<Rightarrow> update_env \<Rightarrow> installation \<Rightarrow> update_call \<Rightarrow> real \<Rightarrow> int \<Rightarrow> int \<Rightarrow> 'w \<Rightarrow> update_result \<times> 'w" where
  "apply_update busy h e i c t0 stamp now w =
     (if busy then (add_step ''preflight'' False (blank_result\<lparr>ur_message := M_busy\<rparr>), w)
      else apply_update_locked h e i c t0 stamp now w)"

end
