(* ===== verification/Update_Props.thy ===== *)
theory Update_Props
  imports Self_Update
begin

text \<open>
  What a self-update does to the checkout: it lands on a revision that starts, or it undoes
  itself; and where signatures are required, only a verified target lands.
\<close>

subsection \<open>What git promises\<close>

text \<open>
  \<open>head w\<close> is the commit the checkout is at.  A fast-forward that succeeds ends at the given
  commit or where it was (when it already contained it), a hard reset that succeeds ends at
  the given commit, either one that fails moves nothing, no other git command the module
  issues moves the checkout, \<open>rev-parse HEAD\<close> reads it, and neither do the processes that are
  not git, detached ones included (they act later).
\<close>

definition git_contract :: "'w host \<Rightarrow> ('w \<Rightarrow> string) \<Rightarrow> bool" where
  "git_contract h head \<longleftrightarrow>
     (\<forall>args w. args \<noteq> [] \<and> hd args \<notin> {''merge'', ''reset''} \<longrightarrow> head (snd (ho_proc h (''git'' # args) w)) = head w)
   \<and> (\<forall>sha w p w'. ho_proc h [''git'', ''merge'', ''--ff-only'', sha] w = (p, w') \<longrightarrow>
        p \<noteq> Timed_out \<and> (if \<exists>out err. p = Ran 0 out err then head w' \<in> {sha, head w} else head w' = head w))
   \<and> (\<forall>sha w p w'. ho_proc h [''git'', ''reset'', ''--hard'', sha] w = (p, w') \<and> py_strip sha = sha \<longrightarrow>
        p \<noteq> Timed_out \<and> head w' = (if \<exists>out err. p = Ran 0 out err then sha else head w))
   \<and> (\<forall>w out err w'. ho_proc h [''git'', ''rev-parse'', ''HEAD''] w = (Ran 0 out err, w') \<longrightarrow> py_strip out = head w)
   \<and> (\<forall>cmd w. cmd \<noteq> [] \<and> hd cmd \<noteq> ''git'' \<longrightarrow> head (snd (ho_proc h cmd w)) = head w)
   \<and> (\<forall>cmd w. head (snd (ho_spawn h cmd w)) = head w) \<and> (\<forall>f text w. head (ho_write h f text w) = head w)"

named_theorems keeps_head \<open>operations that do not move the checkout\<close>

lemma git_keeps_head:
  assumes "git_contract h head" "args \<noteq> []" "hd args \<noteq> ''merge''" "hd args \<noteq> ''reset''"
  shows "head (snd (git h args w)) = head w"
proof -
  have "head (snd (ho_proc h (''git'' # args) w)) = head w"
    using assms by (auto simp: git_contract_def)
  then show ?thesis by (auto simp: git_def split: prod.splits proc.splits)
qed

lemma git_keeps_head' [keeps_head]:
  "git_contract h head \<Longrightarrow> git h args w = (x, w') \<Longrightarrow> args \<noteq> [] \<Longrightarrow> hd args \<noteq> ''merge'' \<Longrightarrow> hd args \<noteq> ''reset'' \<Longrightarrow>
     head w' = head w"
  using git_keeps_head [of h head args w] by simp

lemma merge_head:
  assumes "git_contract h head" "git h [''merge'', ''--ff-only'', sha] w = ((code, out, err), w')"
  shows "if code = 0 then head w' \<in> {sha, head w} else head w' = head w"
proof -
  obtain p w1 where p: "ho_proc h [''git'', ''merge'', ''--ff-only'', sha] w = (p, w1)" by fastforce
  then have "p \<noteq> Timed_out" "if \<exists>out err. p = Ran 0 out err then head w1 \<in> {sha, head w} else head w1 = head w"
    using assms(1) unfolding git_contract_def by blast+
  with p assms(2) show ?thesis by (auto simp: git_def split: if_splits proc.splits)
qed

lemma reset_head:
  assumes "git_contract h head" "git h [''reset'', ''--hard'', sha] w = ((code, out, err), w')" "py_strip sha = sha"
  shows "head w' = (if code = 0 then sha else head w)"
proof -
  obtain p w1 where p: "ho_proc h [''git'', ''reset'', ''--hard'', sha] w = (p, w1)" by fastforce
  then have "p \<noteq> Timed_out" "head w1 = (if \<exists>out err. p = Ran 0 out err then sha else head w)"
    using assms(1,3) unfolding git_contract_def by blast+
  with p assms(2) show ?thesis by (auto simp: git_def split: if_splits proc.splits)
qed

lemma rev_parse_head:
  assumes "git_contract h head" "git h [''rev-parse'', ''HEAD''] w = ((0, out, err), w')"
  shows "out = head w"
proof -
  obtain o' e' where "ho_proc h [''git'', ''rev-parse'', ''HEAD''] w = (Ran 0 o' e', w')" "out = py_strip o'"
    using assms(2) by (auto simp: git_def split: if_splits proc.splits prod.splits)
  with assms(1) show ?thesis unfolding git_contract_def by blast
qed

lemma py_strip_Nil: "py_strip [] = []"
  by (rule py_strip_id) simp

lemma git_stripped:
  assumes "git h [''rev-parse'', ''HEAD''] w = ((code, out, err), w')"
  shows "py_strip out = out"
  using assms by (auto simp: git_def py_strip_Nil split: if_splits proc.splits prod.splits)

lemma run_keeps_head [keeps_head]:
  assumes "git_contract h head" "run_cmd h cmd n w = (x, w')" "cmd \<noteq> []" "hd cmd \<noteq> ''git''"
  shows "head w' = head w"
proof -
  have "head (snd (ho_proc h cmd w)) = head w" using assms(1,3,4) unfolding git_contract_def by blast
  with assms(2) show ?thesis by (auto simp: run_cmd_def split: prod.splits proc.splits)
qed

lemma default_branch_head [keeps_head]:
  assumes "git_contract h head" "default_branch h w = (b, w')"
  shows "head w' = head w"
  using assms(2) git_keeps_head' [OF assms(1)]
  by (auto simp: default_branch_def Let_def split: prod.splits if_splits option.splits)

lemma blockers_head [keeps_head]:
  assumes "git_contract h head" "self_update_blockers h i w = (b, w')"
  shows "head w' = head w"
  using assms(2) git_keeps_head' [OF assms(1)]
  by (auto simp: self_update_blockers_def working_tree_dirty_def Let_def split: prod.splits if_splits)

lemma resolve_head [keeps_head]:
  assumes "git_contract h head" "resolve_target h ch w = (x, w')"
  shows "head w' = head w"
proof (cases "ch = ''release''")
  case True
  with assms(2) have "resolve_release h w = (x, w')" by (simp add: resolve_target_def)
  then show ?thesis using git_keeps_head' [OF assms(1)]
    by (auto simp: resolve_release_def Let_def split: prod.splits if_splits list.splits)
next
  case False
  with assms(2) have "resolve_branch h w = (x, w')" by (simp add: resolve_target_def)
  then show ?thesis using git_keeps_head' [OF assms(1)] default_branch_head [OF assms(1)]
    by (auto simp: resolve_branch_def Let_def split: prod.splits if_splits)
qed

lemma verify_head [keeps_head]:
  assumes "git_contract h head" "verify_signature h t w = (x, w')"
  shows "head w' = head w"
  using assms(2) git_keeps_head' [OF assms(1)]
  by (auto simp: verify_signature_def Let_def split: prod.splits if_splits target_kind.splits)

lemma ahead_behind_head [keeps_head]:
  assumes "git_contract h head" "ahead_behind h sha w = (x, w')"
  shows "head w' = head w"
  using assms(2) git_keeps_head' [OF assms(1)] by (auto simp: ahead_behind_def split: prod.splits)

lemma drift_head [keeps_head]:
  assumes "git_contract h head" "config_drift_of h e ref w = (x, w')"
  shows "head w' = head w"
  using assms(2) git_keeps_head' [OF assms(1)] by (auto simp: config_drift_of_def Let_def split: prod.splits)


lemma schedule_head [keeps_head]:
  assumes "git_contract h head" "schedule_restart h script stamp service delay wd w = (m, w')"
  shows "head w' = head w"
proof -
  have sp: "head (snd (ho_spawn h cmd w)) = head w" for cmd w using assms(1) unfolding git_contract_def by blast
  have rc: "run_cmd h (watchdog_command script stamp delay service d) 30 v = (x, v') \<Longrightarrow> head v' = head v" for d v x v'
    using run_keeps_head [OF assms(1), of "watchdog_command script stamp delay service d"] by (simp add: watchdog_command_def)
  have sp': "ho_spawn h cmd v = (x, v') \<Longrightarrow> head v' = head v" for cmd v x v' using sp [of cmd v] by simp
  show ?thesis using assms(2) rc sp'
    by (auto simp: schedule_restart_def Let_def split: if_splits option.splits prod.splits)
qed

lemma restart_stage_effect:
  assumes "git_contract h head" "restart_stage h i c dir from_ref to_sha stamp now r w = (r', w')"
  shows "head w' = head w \<and> ur_ok r' = ur_ok r \<and> set (ur_steps r) \<subseteq> set (ur_steps r')
    \<and> ur_rolled_back r' = ur_rolled_back r"
proof -
  have wr: "\<And>f text v. head (ho_write h f text v) = head v" using assms(1) unfolding git_contract_def by blast
  show ?thesis using assms(2) schedule_head [OF assms(1)] wr
    by (auto simp: restart_stage_def Let_def add_step_def split: option.splits if_splits prod.splits)
qed

text \<open>The interpreter and the pip found for it are not called git.\<close>

lemma pip_not_git: "in_python i \<noteq> ''git'' \<Longrightarrow> pip_install_command h i w \<noteq> [] \<and> hd (pip_install_command h i w) \<noteq> ''git''"
proof -
  assume py: "in_python i \<noteq> ''git''"
  have "v @ ''/bin/pip'' \<noteq> ''git''" "v @ ''/Scripts/pip.exe'' \<noteq> ''git''" for v :: string
    using arg_cong [of "v @ ''/bin/pip''" "''git''" length] arg_cong [of "v @ ''/Scripts/pip.exe''" "''git''" length] by auto
  with py show ?thesis by (auto simp: pip_install_command_def pip_command_def Let_def split: option.splits)
qed

text \<open>What is asked of the names a run uses: the interpreter is not git, a commit has no white space around it.\<close>

definition names_ok :: "installation \<Rightarrow> string \<Rightarrow> bool" where
  "names_ok i from_ref \<longleftrightarrow> in_python i \<noteq> ''git'' \<and> py_strip from_ref = from_ref"

lemma names_okD: "names_ok i c \<Longrightarrow> in_python i \<noteq> ''git''" "names_ok i c \<Longrightarrow> py_strip c = c"
  by (simp_all add: names_ok_def)

lemma rollback_effect:
  assumes "git_contract h head" "names_ok i from_ref" "rollback h i from_ref reason r w = (r', w')"
  shows "\<not> ur_ok r' \<and> ur_restart_scheduled r' = ur_restart_scheduled r
    \<and> (head w' = from_ref \<or> head w' = head w \<and> (''rollback'', False) \<in> set (ur_steps r'))"
proof -
  obtain code out err w1 where g: "git h [''reset'', ''--hard'', from_ref] w = ((code, out, err), w1)"
    by (metis prod.collapse)
  note hd1 = reset_head [OF assms(1) g names_okD(2) [OF assms(2)]]
  show ?thesis
  proof (cases "code = 0")
    case True
    obtain pc po w2 where p: "run_cmd h (pip_install_command h i w1) 900 w1 = ((pc, po), w2)" by (metis prod.collapse)
    have "head w2 = head w1" using run_keeps_head [OF assms(1) p] by (simp add: pip_not_git [OF names_okD(1) [OF assms(2)]])
    with assms(3) g p True hd1 show ?thesis by (auto simp: rollback_def Let_def add_step_def)
  next
    case False
    with assms(3) g hd1 show ?thesis by (auto simp: rollback_def Let_def add_step_def)
  qed
qed

text \<open>How a run of the update may end, \<open>from\<close> being the commit it started at.\<close>

definition update_end :: "('w \<Rightarrow> string) \<Rightarrow> string \<Rightarrow> update_result \<Rightarrow> 'w \<Rightarrow> bool" where
  "update_end head from_ref r w \<longleftrightarrow>
     (\<not> ur_ok r \<longrightarrow> head w = from_ref \<or> (''rollback'', False) \<in> set (ur_steps r))
   \<and> (ur_ok r \<and> head w \<noteq> from_ref \<longrightarrow> (''check-startup'', True) \<in> set (ur_steps r))
   \<and> (ur_restart_scheduled r \<longrightarrow> ur_ok r \<and> (''check-startup'', True) \<in> set (ur_steps r))"

lemma moved_stage_end:
  assumes "git_contract h head" "names_ok i from_ref" "\<not> ur_restart_scheduled r"
    and "moved_stage h e i c dir from_ref to_sha t stamp now r w = (r', w')"
  shows "update_end head from_ref r' w' \<and> head w' \<in> {from_ref, head w}"
proof -
  obtain pc po w1 where p: "run_cmd h (pip_install_command h i w) 900 w = ((pc, po), w1)" by (metis prod.collapse)
  have h1: "head w1 = head w" using run_keeps_head [OF assms(1) p] by (simp add: pip_not_git [OF names_okD(1) [OF assms(2)]])
  show ?thesis
  proof (cases "pc = 0")
    case False
    then have "rollback h i from_ref M_pip_failed (add_step ''pip-install'' False r) w1 = (r', w')"
      using assms(4) p by (simp add: moved_stage_def)
    from rollback_effect [OF assms(1,2) this] assms(3) h1 show ?thesis by (auto simp: update_end_def add_step_def)
  next
    case True
    obtain sc so w2 where s: "run_cmd h (startup_check_command i (uc_config_path c)) 180 w1 = ((sc, so), w2)" by (metis prod.collapse)
    have h2: "head w2 = head w" using run_keeps_head [OF assms(1) s] names_okD(1) [OF assms(2)] h1 by (simp add: startup_check_command_def)
    show ?thesis
    proof (cases "sc = 0")
      case False
      then have "rollback h i from_ref M_startup_failed
          (add_step ''check-startup'' False (add_step ''pip-install'' True r)) w2 = (r', w')"
        using assms(4) p s True by (simp add: moved_stage_def Let_def)
      from rollback_effect [OF assms(1,2) this] assms(3) h2 show ?thesis by (auto simp: update_end_def add_step_def)
    next
      case ok: True
      obtain dr w3 where d: "config_drift_of h e ''HEAD'' w2 = (dr, w3)" by fastforce
      let ?r2 = "(add_step ''check-startup'' True (add_step ''pip-install'' True r))\<lparr>ur_drift := dr, ur_ok := True\<rparr>"
      obtain r3 w4 where re: "restart_stage h i c dir from_ref to_sha stamp now ?r2 w3 = (r3, w4)" by fastforce
      have "r' = r3\<lparr>ur_message := M_updated (tg_name t)\<rparr>" "w' = w4"
        using assms(4) p s d re True ok by (simp_all add: moved_stage_def Let_def)
      with restart_stage_effect [OF assms(1) re] drift_head [OF assms(1) d] h2
      show ?thesis by (auto simp: update_end_def add_step_def)
    qed
  qed
qed

lemma merge_stage_end:
  assumes "git_contract h head" "names_ok i from_ref" "\<not> ur_restart_scheduled r" "\<not> ur_ok r" "head w = from_ref"
    and "merge_stage h e i c dir from_ref t stamp now r w = (r', w')"
  shows "update_end head from_ref r' w' \<and> head w' \<in> {from_ref, tg_sha t}"
proof -
  obtain code out err w1 where g: "git h [''merge'', ''--ff-only'', tg_sha t] w = ((code, out, err), w1)" by (metis prod.collapse)
  note m = merge_head [OF assms(1) g]
  show ?thesis
  proof (cases "code = 0")
    case False
    with assms(3-6) g m show ?thesis by (auto simp: merge_stage_def update_end_def add_step_def)
  next
    case True
    obtain code2 out2 err2 w2 where g2: "git h [''rev-parse'', ''HEAD''] w1 = ((code2, out2, err2), w2)" by (metis prod.collapse)
    have h2: "head w2 = head w1" using git_keeps_head' [OF assms(1) g2] by simp
    let ?to = "if code2 = 0 then out2 else tg_sha t"
    have "moved_stage h e i c dir from_ref ?to t stamp now (add_step ''git-update'' True (r\<lparr>ur_to_ref := Some (take 12 ?to)\<rparr>)) w2 = (r', w')"
      using assms(6) g g2 True by (simp add: merge_stage_def Let_def)
    from moved_stage_end [OF assms(1,2) _ this] assms(3,5) h2 m True show ?thesis by (auto simp: add_step_def)
  qed
qed


lemma filter_head: "[t \<leftarrow> ls. P t] = x # xs \<Longrightarrow> P x"
  by (induction ls) (auto split: if_splits)

lemma release_named:
  assumes "fst (resolve_target h ''release'' w) = Inr t"
  shows "tg_kind t = Release \<and> release_tag (tg_name t)"
proof -
  from assms have r: "fst (resolve_release h w) = Inr t" by (simp add: resolve_target_def)
  then show ?thesis unfolding resolve_release_def Let_def
    by (auto split: prod.splits if_splits list.splits dest: filter_head)
qed

lemma signature_stage_end:
  assumes "git_contract h head" "names_ok i from_ref" "\<not> ur_restart_scheduled r" "\<not> ur_ok r" "head w = from_ref"
    and "signature_stage h e i c dir from_ref t stamp now r w = (r', w')"
  shows "update_end head from_ref r' w' \<and> head w' \<in> {from_ref, tg_sha t}
    \<and> (st_require_signed (uc_settings c) \<and> head w' \<noteq> from_ref \<longrightarrow> fst (fst (verify_signature h t w)))"
proof (cases "st_require_signed (uc_settings c)")
  case True
  obtain ok d w1 where v: "verify_signature h t w = ((ok, d), w1)" by (metis prod.collapse)
  have h1: "head w1 = from_ref" using verify_head [OF assms(1) v] assms(5) by simp
  show ?thesis
  proof (cases ok)
    case False
    with assms(3-6) v h1 True show ?thesis by (auto simp: signature_stage_def update_end_def add_step_def Let_def)
  next
    case ok: True
    then have "merge_stage h e i c dir from_ref t stamp now (add_step ''verify-signature'' True r) w1 = (r', w')"
      using assms(6) v True by (simp add: signature_stage_def Let_def)
    from merge_stage_end [OF assms(1,2) _ _ h1 this] assms(3,4) v ok show ?thesis by (auto simp: add_step_def)
  qed
next
  case False
  with assms(6) have "merge_stage h e i c dir from_ref t stamp now r w = (r', w')" by (simp add: signature_stage_def)
  from merge_stage_end [OF assms(1-5) this] False show ?thesis by auto
qed

lemma blank_simps [simp]:
  "ur_ok blank_result = False" "ur_restart_scheduled blank_result = False" "ur_steps blank_result = []"
  "ur_ok (add_step n b r) = ur_ok r" "ur_restart_scheduled (add_step n b r) = ur_restart_scheduled r"
  by (simp_all add: blank_result_def add_step_def)

lemma applied_end:
  assumes "git_contract h head" "in_python i \<noteq> ''git''" "apply_update_locked h e i c t0 stamp now w = (r, w')"
  shows "update_end head (head w) r w' \<and>
    (head w' = head w \<or> (\<exists>t w1 w2. fst (resolve_target h (st_channel (uc_settings c)) w1) = Inr t \<and> head w' = tg_sha t
        \<and> (st_require_signed (uc_settings c) \<longrightarrow> fst (fst (verify_signature h t w2)))))"
proof -
  have stay: ?thesis if "head w' = head w" "\<not> ur_restart_scheduled r" using that by (simp add: update_end_def)
  obtain bs w1 where b: "self_update_blockers h i w = (bs, w1)" by fastforce
  note h1 = blockers_head [OF assms(1) b]
  show ?thesis
  proof (cases "bs \<noteq> [] \<or> in_root i = None \<or> watchdog_in_flight h t0 w1 \<noteq> None")
    case True
    with assms(3) b have "w' = w1" "\<not> ur_restart_scheduled r"
      by (auto simp: apply_update_locked_def Let_def split: if_splits option.splits)
    with h1 stay show ?thesis by simp
  next
    case free: False
    obtain code from_ref err w2 where g: "git h [''rev-parse'', ''HEAD''] w1 = ((code, from_ref, err), w2)" by (metis prod.collapse)
    have h2: "head w2 = head w1" using git_keeps_head' [OF assms(1) g] by simp
    show ?thesis
    proof (cases "code = 0")
      case False
      with assms(3) b g free have "w' = w2" "\<not> ur_restart_scheduled r" by (auto simp: apply_update_locked_def Let_def)
      with h1 h2 stay show ?thesis by simp
    next
      case True
      have from_ref: "from_ref = head w" using rev_parse_head [OF assms(1)] g True h1 by auto
      have names: "names_ok i from_ref" using assms(2) git_stripped [OF g] by (simp add: names_ok_def)
      obtain tr w3 where tr: "resolve_target h (st_channel (uc_settings c)) w2 = (tr, w3)" by fastforce
      note h3 = resolve_head [OF assms(1) tr]
      show ?thesis
      proof (cases tr)
        case (Inl te)
        with assms(3) b g free True tr have "w' = w3" "\<not> ur_restart_scheduled r"
          by (auto simp: apply_update_locked_def Let_def)
        with h1 h2 h3 stay show ?thesis by simp
      next
        case (Inr t)
        obtain cnt w4 where ab: "ahead_behind h (tg_sha t) w3 = (cnt, w4)" by fastforce
        note h4 = ahead_behind_head [OF assms(1) ab]
        let ?r2 = "add_step ''fetch'' True ((add_step ''preflight'' True blank_result)\<lparr>ur_from_ref := Some (take 12 from_ref)\<rparr>)"
        show ?thesis
        proof (cases "\<exists>a b. cnt = Some (a, b) \<and> b \<noteq> 0")
          case False
          with assms(3) b g free True tr Inr ab have "w' = w4" "\<not> ur_restart_scheduled r"
            by (auto simp: apply_update_locked_def Let_def split: option.splits if_splits)
          with h1 h2 h3 h4 stay show ?thesis by simp
        next
          case go: True
          then have "signature_stage h e i c (the (in_root i)) from_ref t stamp now ?r2 w4 = (r, w')"
            using assms(3) b g free True tr Inr ab by (auto simp: apply_update_locked_def Let_def)
          from signature_stage_end [OF assms(1) names _ _ _ this] h1 h2 h3 h4 from_ref
          have e: "update_end head (head w) r w'" "head w' \<in> {head w, tg_sha t}"
            "st_require_signed (uc_settings c) \<and> head w' \<noteq> head w \<longrightarrow> fst (fst (verify_signature h t w4))" by auto
          have "fst (resolve_target h (st_channel (uc_settings c)) w2) = Inr t" using tr Inr by simp
          with e show ?thesis by blast
        qed
      qed
    qed
  qed
qed


lemma resolved_release_named:
  "st_channel st = ''release'' \<Longrightarrow> fst (resolve_target h (st_channel st) w) = Inr t \<Longrightarrow>
     tg_kind t = Release \<and> release_tag (tg_name t)"
  using release_named by metis

lemma release_verified:
  "tg_kind t = Release \<Longrightarrow> fst (fst (verify_signature h t w)) \<Longrightarrow>
     fst (snd (fst (git h [''for-each-ref'', ''--format=%(tag)'', TAG_NAMESPACE @ tg_name t] w))) = tg_name t"
  by (auto simp: verify_signature_def Let_def split: prod.splits if_splits)

subsection \<open>The two promises\<close>

text \<open>
  C1: A self-update undoes itself: when git keeps its contract, an update that does not succeed
  leaves the checkout at the commit it started from, unless the report says that the rollback
  itself failed; when it succeeds and the checkout moved, the startup check of the new code
  passed; and a restart is only ever scheduled after such a success.
\<close>

theorem update_undoes_itself:
  assumes "git_contract h head" "in_python i \<noteq> ''git''" "apply_update busy h e i c t0 stamp now w = (r, w')"
  shows "(\<not> ur_ok r \<longrightarrow> head w' = head w \<or> (''rollback'', False) \<in> set (ur_steps r))
    \<and> (ur_ok r \<and> head w' \<noteq> head w \<longrightarrow> (''check-startup'', True) \<in> set (ur_steps r))
    \<and> (ur_restart_scheduled r \<longrightarrow> ur_ok r \<and> (''check-startup'', True) \<in> set (ur_steps r))"
proof (cases busy)
  case True
  with assms(3) show ?thesis by (auto simp: apply_update_def blank_result_def add_step_def)
next
  case False
  with assms(3) have "apply_update_locked h e i c t0 stamp now w = (r, w')" by (simp add: apply_update_def)
  from applied_end [OF assms(1,2) this] show ?thesis by (simp add: update_end_def)
qed


subsection \<open>A host to evaluate on\<close>

text \<open>
  A checkout at \<open>old\<close> whose remote offers the tag \<open>v2\<close> at \<open>new\<close>; the world is the commit
  the checkout is at, and \<open>starts\<close> says whether the new code passes its startup check.
\<close>

definition toy_proc :: "bool \<Rightarrow> string list \<Rightarrow> string \<Rightarrow> proc \<times> string" where
  "toy_proc starts cmd w =
     (case cmd of
        [] \<Rightarrow> (Ran 1 [] [], w)
      | prog # args \<Rightarrow>
          if prog \<noteq> ''git'' then (Ran (if starts \<or> last cmd \<noteq> ''check-startup'' then 0 else 1) [] [], w)
          else if args = [''merge'', ''--ff-only'', ''new''] then (Ran 0 [] [], ''new'')
          else if args \<noteq> [] \<and> hd args = ''merge'' then (Ran 1 [] [], w)
          else if length args = 3 \<and> take 2 args = [''reset'', ''--hard''] then (Ran 0 [] [], args ! 2)
          else if args = [''rev-parse'', ''HEAD''] then (Ran 0 w [], w)
          else if args \<noteq> [] \<and> hd args = ''rev-parse'' then (Ran 0 ''new'' [], w)
          else if args \<noteq> [] \<and> hd args = ''rev-list'' then (Ran 0 ''0 1'' [], w)
          else if args \<noteq> [] \<and> hd args = ''for-each-ref'' then (Ran 0 ''v2'' [], w)
          else (Ran 0 [] [], w))"

definition toy_host :: "bool \<Rightarrow> string host" where
  "toy_host starts = \<lparr>ho_proc = toy_proc starts, ho_spawn = (\<lambda>cmd w. (True, w)), ho_which = (\<lambda>w p. True),
     ho_read = (\<lambda>w f. None), ho_exists = (\<lambda>w f. False), ho_write = (\<lambda>f t w. w), ho_json = (\<lambda>t. None), ho_float = (\<lambda>s. None)\<rparr>"

definition toy_head :: "string \<Rightarrow> string" where
  "toy_head w = py_strip w"


lemma toy_contract: "git_contract (toy_host b) toy_head"
  unfolding git_contract_def
proof (intro conjI allI impI)
  fix args :: "string list" and w
  assume "args \<noteq> [] \<and> hd args \<notin> {''merge'', ''reset''}"
  then show "toy_head (snd (ho_proc (toy_host b) (''git'' # args) w)) = toy_head w"
    by (cases args) (auto simp: toy_host_def toy_proc_def)
next
  fix sha w p w' assume h: "ho_proc (toy_host b) [''git'', ''merge'', ''--ff-only'', sha] w = (p, w')"
  have new: "py_strip ''new'' = ''new''" by (rule py_strip_id) code_simp
  show "p \<noteq> Timed_out" using h by (auto simp: toy_host_def toy_proc_def split: if_splits)
  show "if \<exists>out err. p = Ran 0 out err then toy_head w' \<in> {sha, toy_head w} else toy_head w' = toy_head w"
    using h by (auto simp: toy_host_def toy_proc_def toy_head_def new split: if_splits)
next
  fix sha w p w' assume h: "ho_proc (toy_host b) [''git'', ''reset'', ''--hard'', sha] w = (p, w') \<and> py_strip sha = sha"
  show "p \<noteq> Timed_out" using h by (auto simp: toy_host_def toy_proc_def split: if_splits)
  show "toy_head w' = (if \<exists>out err. p = Ran 0 out err then sha else toy_head w)"
    using h by (auto simp: toy_host_def toy_proc_def toy_head_def split: if_splits)
next
  fix w out err w' assume "ho_proc (toy_host b) [''git'', ''rev-parse'', ''HEAD''] w = (Ran 0 out err, w')"
  then show "py_strip out = toy_head w" by (auto simp: toy_host_def toy_proc_def toy_head_def)
next
  fix cmd :: "string list" and w assume "cmd \<noteq> [] \<and> hd cmd \<noteq> ''git''"
  then show "toy_head (snd (ho_proc (toy_host b) cmd w)) = toy_head w"
    by (cases cmd) (auto simp: toy_host_def toy_proc_def)
qed (simp_all add: toy_host_def)


definition toy_env :: update_env where
  "toy_env = \<lparr>up_environ = [], up_config = None, up_yaml = (\<lambda>t. None)\<rparr>"

definition toy_install :: installation where
  "toy_install = \<lparr>in_kind = ''git'', in_root = Some ''/opt'', in_python = ''py'', in_venv = None, in_under_systemd = False,
     in_service = None\<rparr>"

definition toy_call :: update_call where
  "toy_call = \<lparr>uc_settings = \<lparr>st_channel = ''release'', st_require_signed = True\<rparr>, uc_health_url = None, uc_restart = True,
     uc_restart_delay = 5, uc_config_path = None, uc_script = []\<rparr>"


lemma toy_update_fails:
  "(\<lambda>(r, w). (ur_ok r, w)) (apply_update False (toy_host False) toy_env toy_install toy_call 0 0 0 ''old'') = (False, ''old'')"
  by code_simp

lemma toy_update_lands:
  "(\<lambda>(r, w). (ur_ok r, w)) (apply_update False (toy_host True) toy_env toy_install toy_call 0 0 0 ''old'') = (True, ''new'')"
  by code_simp

lemma toy_names: "toy_head ''old'' = ''old''" "toy_head ''new'' = ''new''"
  unfolding toy_head_def by (rule py_strip_id; code_simp)+

lemma update_undoes_itself_witness:
  "toy_head (snd (apply_update False (toy_host False) toy_env toy_install toy_call 0 0 0 ''old'')) = ''old''
   \<or> (''rollback'', False) \<in> set (ur_steps (fst (apply_update False (toy_host False) toy_env toy_install toy_call 0 0 0 ''old'')))"
  using update_undoes_itself [OF toy_contract [of False] _ prod.collapse [symmetric],
      of toy_install False toy_env toy_call 0 0 0 "''old''"] toy_update_fails
  by (auto simp: toy_install_def toy_names split_beta)


text \<open>
  A status that git cannot give (an error or a timeout) reads as a clean checkout, so the
  preflight passes; the rollback's hard reset then has no promise to keep uncommitted work.
\<close>

lemma unreadable_status_is_clean:
  assumes "ho_which h w ''git''" "in_kind i = ''git''" "in_root i = Some dir"
    and "fst (ho_proc h [''git'', ''status'', ''--porcelain'', ''--untracked-files=no''] w) = Timed_out"
  shows "fst (self_update_blockers h i w) = []"
  using assms by (auto simp: self_update_blockers_def working_tree_dirty_def git_def split: prod.splits)

end
