(* ===== verification/Config_Values.thy ===== *)
theory Config_Values
  imports Py_Val Ip_Addr
begin

text \<open>
  The helpers of the configuration loader (\<open>config.py\<close>) on YAML values: references to
  environment variables, required fields, booleans, the proxy list and host names with a
  port.  An operation of Python that raises is a value of \<open>cfg_error\<close>.  How Python prints a
  float or a container, reads a float and expands a home directory, and which paths exist,
  are parameters in the record \<open>cfg_env\<close>.
\<close>

subsection \<open>Errors\<close>

text \<open>The loader's own exception with what it complains about, and Python's.\<close>

datatype cfg_error =
    Missing_field string string
  | Unset_variable string "string list"
  | Empty_variable string "string list"
  | Duplicate string string
  | Bad_ssh string
  | Bad_value string
  | No_capability
  | Bad_jump_host string string
  | Py_attribute_error | Py_type_error | Py_value_error | Py_key_error

definition ebind :: "'e + 'a \<Rightarrow> ('a \<Rightarrow> 'e + 'b) \<Rightarrow> 'e + 'b" where
  "ebind m f = (case m of Inl e \<Rightarrow> Inl e | Inr x \<Rightarrow> f x)"

definition check :: "bool \<Rightarrow> 'e \<Rightarrow> 'e + 'a \<Rightarrow> 'e + 'a" where
  "check ok e k = (if ok then k else Inl e)"

fun emap :: "('a \<Rightarrow> 'e + 'b) \<Rightarrow> 'a list \<Rightarrow> 'e + 'b list" where
  "emap f [] = Inr []"
| "emap f (x # xs) = ebind (f x) (\<lambda>y. ebind (emap f xs) (\<lambda>ys. Inr (y # ys)))"

named_theorems result_simps \<open>rewriting computations that may raise\<close>

lemma ebind_simps [simp, result_simps]: "ebind (Inr x) f = f x" "ebind (Inl e) f = Inl e"
  by (simp_all add: ebind_def)

lemma ebind_Inr [result_simps]: "ebind m f = Inr y \<longleftrightarrow> (\<exists>x. m = Inr x \<and> f x = Inr y)"
  by (cases m) auto

lemma check_Inr [result_simps]: "check ok e k = Inr y \<longleftrightarrow> ok \<and> k = Inr y"
  by (simp add: check_def)

lemma check_simps [simp]: "check True e k = k" "check False e k = Inl e"
  by (simp_all add: check_def)

lemma emap_Inr: "emap f xs = Inr ys \<Longrightarrow> list_all2 (\<lambda>x y. f x = Inr y) xs ys"
  by (induction xs arbitrary: ys) (auto simp: ebind_Inr)

subsection \<open>Values\<close>

record cfg_env =
  ce_environ :: "(string, string) dict"
  ce_show :: "pyval \<Rightarrow> string"
  ce_float :: "string \<Rightarrow> real option"
  ce_expand :: "string \<Rightarrow> string"
  ce_exists :: "string \<Rightarrow> bool"

definition cfg_str :: "cfg_env \<Rightarrow> pyval \<Rightarrow> string" where
  "cfg_str e v = (case v of PFloat x \<Rightarrow> ce_show e v | PList xs \<Rightarrow> ce_show e v | PDict d \<Rightarrow> ce_show e v | _ \<Rightarrow> py_str v)"

text \<open>\<open>v.get(key)\<close> and \<open>v.get(key) or default\<close>.\<close>

definition pv_get :: "pyval \<Rightarrow> string \<Rightarrow> cfg_error + pyval" where
  "pv_get v key = (case v of PDict d \<Rightarrow> Inr (case dget d key of Some x \<Rightarrow> x | None \<Rightarrow> PNone) | _ \<Rightarrow> Inl Py_attribute_error)"

definition pv_get_dflt :: "pyval \<Rightarrow> string \<Rightarrow> pyval \<Rightarrow> cfg_error + pyval" where
  "pv_get_dflt v key dflt = (case v of PDict d \<Rightarrow> Inr (case dget d key of Some x \<Rightarrow> x | None \<Rightarrow> dflt) | _ \<Rightarrow> Inl Py_attribute_error)"

definition pv_or :: "pyval \<Rightarrow> pyval \<Rightarrow> pyval" where
  "pv_or v w = (if truth v then v else w)"

definition pv_get_or :: "pyval \<Rightarrow> string \<Rightarrow> pyval \<Rightarrow> cfg_error + pyval" where
  "pv_get_or v key dflt = ebind (pv_get v key) (\<lambda>x. Inr (pv_or x dflt))"

text \<open>Iteration: a list yields its items, a mapping its keys, a text its characters.\<close>

definition pv_iter :: "pyval \<Rightarrow> cfg_error + pyval list" where
  "pv_iter v =
     (case v of PList xs \<Rightarrow> Inr xs | PDict d \<Rightarrow> Inr (map (PStr \<circ> fst) d) | PStr s \<Rightarrow> Inr (map (\<lambda>c. PStr [c]) s)
      | _ \<Rightarrow> Inl Py_type_error)"

text \<open>\<open>int(v)\<close>: digits with single underscores between them, a sign and white space around.\<close>

fun digits_grouped :: "bool \<Rightarrow> string \<Rightarrow> bool" where
  "digits_grouped prev [] \<longleftrightarrow> prev"
| "digits_grouped prev (c # cs) \<longleftrightarrow> (if c = CHR ''_'' then prev \<and> digits_grouped False cs
     else ascii_digit c \<and> digits_grouped True cs)"

definition int_of_text :: "string \<Rightarrow> int option" where
  "int_of_text s =
     (let t = py_strip s;
          neg = (t \<noteq> [] \<and> hd t = CHR ''-'');
          body = (if t \<noteq> [] \<and> hd t \<in> {CHR ''-'', CHR ''+''} then tl t else t)
      in if digits_grouped False body \<and> length [c \<leftarrow> body. c \<noteq> CHR ''_''] \<le> 4300
         then Some ((if neg then - 1 else 1) * decimal [c \<leftarrow> body. c \<noteq> CHR ''_'']) else None)"

definition pv_int :: "pyval \<Rightarrow> cfg_error + int" where
  "pv_int v =
     (case v of PInt n \<Rightarrow> Inr n | PBool b \<Rightarrow> Inr (if b then 1 else 0) | PFloat x \<Rightarrow> Inr (py_int x)
      | PStr s \<Rightarrow> (case int_of_text s of Some n \<Rightarrow> Inr n | None \<Rightarrow> Inl Py_value_error)
      | _ \<Rightarrow> Inl Py_type_error)"

definition pv_float :: "cfg_env \<Rightarrow> pyval \<Rightarrow> cfg_error + real" where
  "pv_float e v =
     (case v of PInt n \<Rightarrow> Inr (of_int n) | PBool b \<Rightarrow> Inr (if b then 1 else 0) | PFloat x \<Rightarrow> Inr x
      | PStr s \<Rightarrow> (case ce_float e s of Some x \<Rightarrow> Inr x | None \<Rightarrow> Inl Py_value_error)
      | _ \<Rightarrow> Inl Py_type_error)"

subsection \<open>References to environment variables\<close>

definition env_name_start :: "char \<Rightarrow> bool" where
  "env_name_start c \<longleftrightarrow> 65 \<le> ord c \<and> ord c \<le> 90 \<or> c = CHR ''_''"

definition env_name_char :: "char \<Rightarrow> bool" where
  "env_name_char c \<longleftrightarrow> env_name_start c \<or> ascii_digit c"

text \<open>The pattern of a reference: dollar, brace, name, brace; \<open>$\<close> also matches before a final newline.\<close>

definition env_ref :: "string \<Rightarrow> string option" where
  "env_ref s =
     (if \<not> startswith s ''${'' then None
      else
        let body = drop 2 s; name = takeWhile env_name_char body; rest = drop (length name) body
        in if name \<noteq> [] \<and> env_name_start (hd name) \<and> (rest = ''}'' \<or> rest = CHR ''}'' # [char_of (10::nat)])
           then Some name else None)"

fun resolve_env :: "(string, string) dict \<Rightarrow> string list \<Rightarrow> pyval \<Rightarrow> cfg_error + pyval"
  and resolve_entries :: "(string, string) dict \<Rightarrow> string list \<Rightarrow> (string \<times> pyval) list \<Rightarrow> cfg_error + (string \<times> pyval) list"
  and resolve_items :: "(string, string) dict \<Rightarrow> string list \<Rightarrow> int \<Rightarrow> pyval list \<Rightarrow> cfg_error + pyval list" where
  "resolve_env env crumbs (PDict d) = ebind (resolve_entries env crumbs d) (\<lambda>d'. Inr (PDict d'))"
| "resolve_env env crumbs (PList xs) = ebind (resolve_items env crumbs 0 xs) (\<lambda>ys. Inr (PList ys))"
| "resolve_env env crumbs (PStr s) =
     (case env_ref s of
        None \<Rightarrow> Inr (PStr s)
      | Some name \<Rightarrow>
          (case dget env name of
             None \<Rightarrow> Inl (Unset_variable name crumbs)
           | Some v \<Rightarrow> if v = [] then Inl (Empty_variable name crumbs) else Inr (PStr v)))"
| "resolve_env env crumbs PNone = Inr PNone"
| "resolve_env env crumbs (PBool b) = Inr (PBool b)"
| "resolve_env env crumbs (PInt n) = Inr (PInt n)"
| "resolve_env env crumbs (PFloat x) = Inr (PFloat x)"
| "resolve_entries env crumbs [] = Inr []"
| "resolve_entries env crumbs ((k, v) # d) =
     ebind (resolve_env env (crumbs @ [k]) v) (\<lambda>v'. ebind (resolve_entries env crumbs d) (\<lambda>d'. Inr ((k, v') # d')))"
| "resolve_items env crumbs i [] = Inr []"
| "resolve_items env crumbs i (v # xs) =
     ebind (resolve_env env (crumbs @ [''['' @ show_int i @ '']'']) v)
       (\<lambda>v'. ebind (resolve_items env crumbs (i + 1) xs) (\<lambda>ys. Inr (v' # ys)))"

subsection \<open>Fields\<close>

text \<open>\<open>_required\<close>: \<open>key not in obj\<close> is a search in a text or a list.\<close>

definition required :: "cfg_env \<Rightarrow> pyval \<Rightarrow> string \<Rightarrow> string \<Rightarrow> cfg_error + string" where
  "required e obj key ctx =
     (case obj of
        PDict d \<Rightarrow>
          (case dget d key of
             None \<Rightarrow> Inl (Missing_field ctx key)
           | Some v \<Rightarrow> if v = PNone \<or> v = PStr [] then Inl (Missing_field ctx key) else Inr (cfg_str e v))
      | PStr s \<Rightarrow> if contains s key then Inl Py_type_error else Inl (Missing_field ctx key)
      | PList xs \<Rightarrow> if PStr key \<in> set xs then Inl Py_type_error else Inl (Missing_field ctx key)
      | _ \<Rightarrow> Inl Py_type_error)"

definition TRUE_STRINGS :: "string list" where "TRUE_STRINGS = [''1'', ''true'', ''yes'', ''on'']"
definition FALSE_STRINGS :: "string list" where "FALSE_STRINGS = [[], ''0'', ''false'', ''no'', ''off'']"

definition cfg_bool :: "cfg_env \<Rightarrow> pyval \<Rightarrow> bool" where
  "cfg_bool e v = (case v of PBool b \<Rightarrow> b | _ \<Rightarrow> py_lower (py_strip (cfg_str e v)) \<in> set TRUE_STRINGS)"

datatype verify_mode = Verify bool | Bundle string

definition verify_ssl :: "cfg_env \<Rightarrow> pyval \<Rightarrow> cfg_error + verify_mode" where
  "verify_ssl e v =
     (case v of
        PBool b \<Rightarrow> Inr (Verify b)
      | PNone \<Rightarrow> Inr (Verify False)
      | _ \<Rightarrow>
          let raw = py_strip (cfg_str e v); path = ce_expand e raw
          in if py_lower raw \<in> set TRUE_STRINGS then Inr (Verify True)
             else if py_lower raw \<in> set FALSE_STRINGS then Inr (Verify False)
             else if ce_exists e path then Inr (Bundle path)
             else Inl (Bad_value ''proxmox.verify_ssl''))"

definition CLOUDFLARE_PROXY_CIDRS :: "string list" where
  "CLOUDFLARE_PROXY_CIDRS =
     [''173.245.48.0/20'', ''103.21.244.0/22'', ''103.22.200.0/22'', ''103.31.4.0/22'', ''141.101.64.0/18'',
      ''108.162.192.0/18'', ''190.93.240.0/20'', ''188.114.96.0/20'', ''197.234.240.0/22'', ''198.41.128.0/17'',
      ''162.158.0.0/15'', ''104.16.0.0/13'', ''104.24.0.0/14'', ''172.64.0.0/13'', ''131.0.72.0/22'',
      ''2400:cb00::/32'', ''2606:4700::/32'', ''2803:f800::/32'', ''2405:b500::/32'', ''2405:8100::/32'',
      ''2a06:98c0::/29'', ''2c0f:f248::/32'']"

text \<open>Appending what has not been seen, the loop of \<open>_parse_trusted_proxies\<close>.\<close>

definition add_new :: "string \<Rightarrow> string list \<Rightarrow> string list" where
  "add_new x out = (if x \<in> set out then out else out @ [x])"

fun proxy_items :: "pyval list \<Rightarrow> string list \<Rightarrow> cfg_error + string list" where
  "proxy_items [] out = Inr out"
| "proxy_items (PStr s # xs) out =
     (let token = py_strip s
      in if token = [] then proxy_items xs out
         else if py_lower token = ''cloudflare'' then proxy_items xs (fold add_new CLOUDFLARE_PROXY_CIDRS out)
         else proxy_items xs (add_new token out))"
| "proxy_items (v # xs) out = Inl (Bad_value ''server.trusted_proxies'')"

definition parse_trusted_proxies :: "pyval \<Rightarrow> cfg_error + string list" where
  "parse_trusted_proxies v =
     (case v of PNone \<Rightarrow> Inr [] | PList xs \<Rightarrow> proxy_items xs [] | _ \<Rightarrow> Inl (Bad_value ''server.trusted_proxies''))"

definition strip_port :: "string \<Rightarrow> string" where
  "strip_port host =
     (if host = [] then host
      else if startswith host ''['' then
        (if CHR '']'' \<in> set host then takeWhile (\<lambda>c. c \<noteq> CHR '']'') host @ '']'' else host)
      else case rpartition_on CHR '':'' host of
        (head, sep, tail) \<Rightarrow> if sep \<and> py_isdigit tail then head else host)"

end
