(* ===== verification/Config_Build.thy ===== *)
theory Config_Build
  imports Config_Values
begin

text \<open>
  The configuration (\<open>config.py\<close>): its dataclasses, the construction of a configuration from
  the resolved YAML (\<open>Config._build\<close>, one definition per section), the legacy environment,
  the accessors and the redacted view.  Paths are kept as the text they are made from.
\<close>

subsection \<open>Data\<close>

record pve_node =
  pn_name :: string
  pn_host :: string
  pn_token_id :: string
  pn_token_secret :: string

record bmc_device =
  bd_id :: string
  bd_type :: string
  bd_host :: string
  bd_user :: string
  bd_password :: string
  bd_jump_host :: pyval
  bd_verify_tls :: bool

text \<open>A credential is the YAML value given for it, None when it was left out or empty.\<close>

record ssh_host =
  sh_name :: string
  sh_host :: string
  sh_user :: string
  sh_port :: int
  sh_password :: "pyval option"
  sh_key_file :: "pyval option"
  sh_known_hosts :: "pyval option"
  sh_strict :: "bool option"

record ssh_defaults =
  sd_user :: string
  sd_port :: int
  sd_password :: "pyval option"
  sd_key_file :: "pyval option"

record ssh_config =
  sc_hosts :: "ssh_host list"
  sc_vmid_to_ip :: pyval
  sc_defaults :: "ssh_defaults option"
  sc_inherit :: bool
  sc_known_hosts :: "pyval option"
  sc_strict :: "bool option"

record server_config =
  sv_host :: pyval
  sv_port :: int
  sv_allowed_hosts :: "pyval list"
  sv_allowed_origins :: "pyval list"
  sv_trusted_proxies :: "string list"
  sv_clients_file :: string
  sv_session_key :: pyval
  sv_allow_dynamic_registration :: bool
  sv_transfers_dir :: string
  sv_transfers_max_mb :: int
  sv_tokens_db :: "string option"
  sv_audit_log :: "string option"
  sv_named_token_ttl :: "int option"
  sv_refresh_token_ttl :: "int option"
  sv_confirm_tools :: "string list option"

record features_config =
  fc_dashboard_enabled :: bool
  fc_gemini_api_key :: pyval
  fc_limit_5h_usd :: real
  fc_limit_week_usd :: real
  fc_public_url :: pyval
  fc_mcp_mode :: string
  fc_ssh_enabled :: bool
  fc_updates_enabled :: bool
  fc_allow_self_update :: bool
  fc_update_channel :: string
  fc_require_signed :: bool

record config =
  cf_server :: server_config
  cf_pve_nodes :: "pve_node list"
  cf_bmc_devices :: "bmc_device list"
  cf_ssh :: "ssh_config option"
  cf_features :: features_config
  cf_verify_ssl :: verify_mode
  cf_infrastructure :: pyval

definition MAX_REFRESH_TOKEN_TTL :: int where "MAX_REFRESH_TOKEN_TTL = 3600 * 24"

definition UPDATE_CHANNELS :: "string list" where "UPDATE_CHANNELS = [''branch'', ''release'']"

text \<open>\<open>x or None\<close>.\<close>

definition or_none :: "pyval \<Rightarrow> pyval option" where
  "or_none v = (if truth v then Some v else None)"

definition opt_bool :: "cfg_env \<Rightarrow> pyval \<Rightarrow> bool option" where
  "opt_bool e v = (if v = PNone then None else Some (cfg_bool e v))"

subsection \<open>Nodes and management controllers\<close>

definition build_node :: "cfg_env \<Rightarrow> pyval \<Rightarrow> cfg_error + pve_node" where
  "build_node e n =
     ebind (required e n ''name'' ''proxmox.nodes'') (\<lambda>name.
     ebind (required e n ''host'' ''proxmox.nodes'') (\<lambda>host.
     ebind (required e n ''token_id'' ''proxmox.nodes'') (\<lambda>token_id.
     ebind (required e n ''token_secret'' ''proxmox.nodes'') (\<lambda>token_secret.
       Inr \<lparr>pn_name = name, pn_host = host, pn_token_id = token_id, pn_token_secret = token_secret\<rparr>))))"

definition build_device :: "cfg_env \<Rightarrow> string \<Rightarrow> pyval \<Rightarrow> cfg_error + bmc_device" where
  "build_device e device_id d =
     (let ctx = ''bmc.devices['' @ device_id @ '']''
      in ebind (required e d ''type'' ctx) (\<lambda>type.
         ebind (required e d ''host'' ctx) (\<lambda>host.
         ebind (required e d ''user'' ctx) (\<lambda>user.
         ebind (required e d ''password'' ctx) (\<lambda>password.
         ebind (pv_get d ''jump_host'') (\<lambda>jump.
         ebind (pv_get_dflt d ''verify_tls'' (PBool False)) (\<lambda>tls.
           Inr \<lparr>bd_id = device_id, bd_type = type, bd_host = host, bd_user = user, bd_password = password,
                bd_jump_host = jump, bd_verify_tls = cfg_bool e tls\<rparr>)))))))"

fun build_devices :: "cfg_env \<Rightarrow> string list \<Rightarrow> pyval list \<Rightarrow> cfg_error + bmc_device list" where
  "build_devices e seen [] = Inr []"
| "build_devices e seen (d # ds) =
     ebind (required e d ''id'' ''bmc.devices'') (\<lambda>device_id.
       check (device_id \<notin> set seen) (Duplicate ''bmc.devices'' device_id)
         (ebind (build_device e device_id d) (\<lambda>x.
          ebind (build_devices e (device_id # seen) ds) (\<lambda>xs. Inr (x # xs)))))"

subsection \<open>SSH\<close>

text \<open>\<open>key in v\<close>.\<close>

definition pv_has :: "pyval \<Rightarrow> string \<Rightarrow> cfg_error + bool" where
  "pv_has v key =
     (case v of PDict d \<Rightarrow> Inr (key \<in> set (dkeys d)) | PStr s \<Rightarrow> Inr (contains s key) | PList xs \<Rightarrow> Inr (PStr key \<in> set xs)
      | _ \<Rightarrow> Inl Py_type_error)"

definition legacy_ssh :: "pyval \<Rightarrow> cfg_error + bool" where
  "legacy_ssh ssh_raw =
     ebind (pv_has ssh_raw ''hosts'') (\<lambda>hosts.
     ebind (pv_has ssh_raw ''defaults'') (\<lambda>dflts.
     ebind (pv_has ssh_raw ''user'') (\<lambda>user.
     ebind (pv_has ssh_raw ''password'') (\<lambda>password.
       Inr (\<not> hosts \<and> \<not> dflts \<and> (user \<or> password))))))"

definition build_ssh_defaults :: "cfg_env \<Rightarrow> pyval \<Rightarrow> cfg_error + ssh_defaults option" where
  "build_ssh_defaults e raw =
     (if \<not> truth raw then Inr None
      else check (is_dict raw) (Bad_ssh ''defaults'')
        (ebind (pv_get raw ''password'') (\<lambda>pw.
         ebind (pv_get raw ''key_file'') (\<lambda>kf.
           check ((or_none pw = None) \<noteq> (or_none kf = None)) (Bad_ssh ''defaults credentials'')
             (ebind (required e raw ''user'' ''ssh.defaults'') (\<lambda>user.
              ebind (pv_get_dflt raw ''port'' (PInt 22)) (\<lambda>port_raw.
              ebind (pv_int port_raw) (\<lambda>port.
                Inr (Some \<lparr>sd_user = user, sd_port = port, sd_password = or_none pw, sd_key_file = or_none kf\<rparr>)))))))))"

definition build_ssh_host :: "cfg_env \<Rightarrow> string \<Rightarrow> pyval \<Rightarrow> cfg_error + ssh_host" where
  "build_ssh_host e name h =
     (let ctx = ''ssh.hosts['' @ name @ '']''
      in ebind (pv_get h ''password'') (\<lambda>pw.
         ebind (pv_get h ''key_file'') (\<lambda>kf.
           check ((or_none pw = None) \<noteq> (or_none kf = None)) (Bad_ssh ''host credentials'')
             (ebind (required e h ''host'' ctx) (\<lambda>addr.
              ebind (pv_get h ''strict_host_key_checking'') (\<lambda>strict.
              ebind (required e h ''user'' ctx) (\<lambda>user.
              ebind (pv_get_dflt h ''port'' (PInt 22)) (\<lambda>port_raw.
              ebind (pv_int port_raw) (\<lambda>port.
              ebind (pv_get h ''known_hosts'') (\<lambda>kh.
                Inr \<lparr>sh_name = name, sh_host = addr, sh_user = user, sh_port = port, sh_password = or_none pw,
                     sh_key_file = or_none kf, sh_known_hosts = or_none kh, sh_strict = opt_bool e strict\<rparr>))))))))))"

fun build_ssh_hosts :: "cfg_env \<Rightarrow> string list \<Rightarrow> pyval list \<Rightarrow> cfg_error + ssh_host list" where
  "build_ssh_hosts e seen [] = Inr []"
| "build_ssh_hosts e seen (h # hs) =
     check (is_dict h) (Bad_ssh ''entry'')
       (ebind (required e h ''name'' ''ssh.hosts'') (\<lambda>name.
          check (name \<notin> set seen) (Duplicate ''ssh.hosts'' name)
            (ebind (build_ssh_host e name h) (\<lambda>x.
             ebind (build_ssh_hosts e (name # seen) hs) (\<lambda>xs. Inr (x # xs))))))"

text \<open>The entries synthesized for Proxmox nodes that no entry so far names or addresses.\<close>

definition inherited_host :: "ssh_defaults \<Rightarrow> pve_node \<Rightarrow> ssh_host" where
  "inherited_host d n =
     \<lparr>sh_name = pn_name n, sh_host = pn_host n, sh_user = sd_user d, sh_port = sd_port d, sh_password = sd_password d,
      sh_key_file = sd_key_file d, sh_known_hosts = None, sh_strict = None\<rparr>"

fun inherit_nodes :: "ssh_defaults \<Rightarrow> pve_node list \<Rightarrow> ssh_host list \<Rightarrow> ssh_host list" where
  "inherit_nodes d [] hosts = hosts"
| "inherit_nodes d (n # ns) hosts =
     (if pn_name n \<in> sh_name ` set hosts \<or> pn_host n \<in> sh_host ` set hosts then inherit_nodes d ns hosts
      else inherit_nodes d ns (hosts @ [inherited_host d n]))"

definition build_ssh :: "cfg_env \<Rightarrow> pve_node list \<Rightarrow> pyval \<Rightarrow> cfg_error + ssh_config option" where
  "build_ssh e nodes ssh_raw =
     (if \<not> truth ssh_raw then Inr None
      else ebind (legacy_ssh ssh_raw) (\<lambda>legacy.
        check (\<not> legacy) (Bad_ssh ''legacy shape'')
       (ebind (pv_get ssh_raw ''defaults'') (\<lambda>dflts_raw.
        ebind (build_ssh_defaults e dflts_raw) (\<lambda>dflts.
        ebind (pv_get_dflt ssh_raw ''inherit_proxmox_nodes'' (PBool False)) (\<lambda>inherit_raw.
          let inherit = cfg_bool e inherit_raw
          in check (\<not> (inherit \<and> dflts = None)) (Bad_ssh ''inherit without defaults'')
            (ebind (pv_get_or ssh_raw ''hosts'' (PList [])) (\<lambda>hosts_raw.
               case hosts_raw of
                 PList hs \<Rightarrow>
                   check (\<not> (hs = [] \<and> \<not> inherit)) (Bad_ssh ''no hosts'')
                     (ebind (build_ssh_hosts e [] hs) (\<lambda>hosts.
                      ebind (pv_get ssh_raw ''vmid_to_ip'') (\<lambda>vmid_to_ip.
                      ebind (pv_get ssh_raw ''known_hosts'') (\<lambda>known_hosts.
                      ebind (pv_get ssh_raw ''strict_host_key_checking'') (\<lambda>strict.
                        Inr (Some \<lparr>sc_hosts = (case dflts of Some d \<Rightarrow> if inherit then inherit_nodes d nodes hosts else hosts | None \<Rightarrow> hosts),
                                   sc_vmid_to_ip = vmid_to_ip, sc_defaults = dflts, sc_inherit = inherit,
                                   sc_known_hosts = or_none known_hosts, sc_strict = opt_bool e strict\<rparr>))))))
               | _ \<Rightarrow> Inl (Bad_ssh ''hosts'')))))))))"


subsection \<open>Server and features\<close>

text \<open>\<open>Path(v)\<close> takes a text only.\<close>

definition pv_path :: "pyval \<Rightarrow> cfg_error + string" where
  "pv_path v = (case v of PStr s \<Rightarrow> Inr s | _ \<Rightarrow> Inl Py_type_error)"

definition opt_int :: "pyval \<Rightarrow> cfg_error + int option" where
  "opt_int v = (if v = PNone then Inr None else ebind (pv_int v) (\<lambda>n. Inr (Some n)))"

definition opt_str :: "cfg_env \<Rightarrow> (string \<Rightarrow> string) \<Rightarrow> pyval \<Rightarrow> string option" where
  "opt_str e f v = (if truth v then Some (f (cfg_str e v)) else None)"

definition server_limits :: "server_config \<Rightarrow> cfg_error + server_config" where
  "server_limits s =
     check (case sv_named_token_ttl s of None \<Rightarrow> True | Some n \<Rightarrow> 0 \<le> n) (Bad_value ''server.named_token_ttl'')
       (check (case sv_refresh_token_ttl s of None \<Rightarrow> True | Some n \<Rightarrow> 0 < n \<and> n \<le> MAX_REFRESH_TOKEN_TTL)
          (Bad_value ''server.refresh_token_ttl'') (Inr s))"

definition build_server :: "cfg_env \<Rightarrow> pyval \<Rightarrow> cfg_error + server_config" where
  "build_server e srv =
     ebind (pv_get_dflt srv ''host'' (PStr ''0.0.0.0'')) (\<lambda>host.
     ebind (pv_get_dflt srv ''port'' (PInt 8420)) (\<lambda>port_raw.
     ebind (pv_int port_raw) (\<lambda>port.
     ebind (pv_get_or srv ''allowed_hosts'' (PList [])) (\<lambda>hosts_raw.
     ebind (pv_iter hosts_raw) (\<lambda>hosts.
     ebind (pv_get_or srv ''allowed_origins'' (PList [])) (\<lambda>origins_raw.
     ebind (pv_iter origins_raw) (\<lambda>origins.
     ebind (pv_get srv ''trusted_proxies'') (\<lambda>proxies_raw.
     ebind (parse_trusted_proxies proxies_raw) (\<lambda>proxies.
     ebind (pv_get_dflt srv ''clients_file'' (PStr ''/opt/beaconmcp/clients.json'')) (\<lambda>clients_raw.
     ebind (pv_path clients_raw) (\<lambda>clients.
     ebind (pv_get srv ''session_key'') (\<lambda>session_key.
     ebind (pv_get_dflt srv ''allow_dynamic_registration'' (PBool False)) (\<lambda>dyn.
     ebind (pv_get_or srv ''transfers_dir'' (PStr ''~/.cache/beaconmcp/transfers'')) (\<lambda>transfers_raw.
     ebind (pv_path transfers_raw) (\<lambda>transfers.
     ebind (pv_get_dflt srv ''transfers_max_mb'' (PInt 500)) (\<lambda>max_raw.
     ebind (pv_int max_raw) (\<lambda>max_mb.
     ebind (pv_get srv ''tokens_db'') (\<lambda>tokens_db.
     ebind (pv_get srv ''audit_log'') (\<lambda>audit_log.
     ebind (pv_get srv ''named_token_ttl'') (\<lambda>named_raw.
     ebind (opt_int named_raw) (\<lambda>named.
     ebind (pv_get srv ''refresh_token_ttl'') (\<lambda>refresh_raw.
     ebind (opt_int refresh_raw) (\<lambda>refresh.
     ebind (pv_get srv ''confirm_tools'') (\<lambda>confirm.
       server_limits
         \<lparr>sv_host = host, sv_port = port, sv_allowed_hosts = hosts, sv_allowed_origins = origins,
          sv_trusted_proxies = proxies, sv_clients_file = clients, sv_session_key = session_key,
          sv_allow_dynamic_registration = cfg_bool e dyn, sv_transfers_dir = ce_expand e transfers,
          sv_transfers_max_mb = max_mb, sv_tokens_db = opt_str e (ce_expand e) tokens_db, sv_audit_log = opt_str e id audit_log,
          sv_named_token_ttl = named, sv_refresh_token_ttl = refresh,
          sv_confirm_tools = (case confirm of PList ts \<Rightarrow> Some (map (cfg_str e) ts) | _ \<Rightarrow> None)\<rparr>))))))))))))))))))))))))"

text \<open>\<open>(v or "local").strip().lower()\<close> of a value that must be a text.\<close>

definition pv_mode :: "pyval \<Rightarrow> cfg_error + string" where
  "pv_mode v = (case pv_or v (PStr ''local'') of PStr s \<Rightarrow> Inr (py_lower (py_strip s)) | _ \<Rightarrow> Inl Py_attribute_error)"

definition build_features :: "cfg_env \<Rightarrow> pyval \<Rightarrow> cfg_error + features_config" where
  "build_features e feat =
     ebind (pv_get_or feat ''dashboard'' (PDict [])) (\<lambda>dash.
     ebind (pv_get_or dash ''limits'' (PDict [])) (\<lambda>limits.
     ebind (pv_get_dflt dash ''enabled'' (PBool True)) (\<lambda>enabled.
     ebind (pv_get_or dash ''gemini_api_key'' (PStr [])) (\<lambda>gemini.
     ebind (pv_get_dflt limits ''per_5h_usd'' (PFloat 2)) (\<lambda>l5_raw.
     ebind (pv_float e l5_raw) (\<lambda>l5.
     ebind (pv_get_dflt limits ''per_week_usd'' (PFloat 10)) (\<lambda>lw_raw.
     ebind (pv_float e lw_raw) (\<lambda>lw.
     ebind (pv_get dash ''public_url'') (\<lambda>public_url.
     ebind (pv_get dash ''mcp_mode'') (\<lambda>mode_raw.
     ebind (pv_mode mode_raw) (\<lambda>mode.
     ebind (pv_get_or feat ''updates'' (PDict [])) (\<lambda>updates.
     ebind (pv_get_or updates ''channel'' (PStr ''branch'')) (\<lambda>channel_raw.
       let channel = py_lower (py_strip (cfg_str e channel_raw))
       in check (channel \<in> set UPDATE_CHANNELS) (Bad_value ''features.updates.channel'')
         (ebind (pv_get_or feat ''ssh'' (PDict [])) (\<lambda>ssh.
          ebind (pv_get_dflt ssh ''enabled'' (PBool True)) (\<lambda>ssh_enabled.
          ebind (pv_get_dflt updates ''enabled'' (PBool True)) (\<lambda>up_enabled.
          ebind (pv_get_dflt updates ''allow_self_update'' (PBool True)) (\<lambda>allow.
          ebind (pv_get_dflt updates ''require_signed'' (PBool False)) (\<lambda>signed.
            Inr \<lparr>fc_dashboard_enabled = cfg_bool e enabled, fc_gemini_api_key = gemini, fc_limit_5h_usd = l5,
                 fc_limit_week_usd = lw, fc_public_url = public_url, fc_mcp_mode = mode, fc_ssh_enabled = cfg_bool e ssh_enabled,
                 fc_updates_enabled = cfg_bool e up_enabled, fc_allow_self_update = cfg_bool e allow,
                 fc_update_channel = channel, fc_require_signed = cfg_bool e signed\<rparr>)))))))))))))))))))"

subsection \<open>The whole configuration\<close>

definition ssh_hosts_of :: "ssh_config option \<Rightarrow> ssh_host list" where
  "ssh_hosts_of s = (case s of None \<Rightarrow> [] | Some c \<Rightarrow> sc_hosts c)"

text \<open>
  Every jump host that is given names an SSH host; a list or a mapping cannot be looked up in
  a set, any other value that is no text never equals a name.
\<close>

definition hashable :: "pyval \<Rightarrow> bool" where
  "hashable v = (case v of PList xs \<Rightarrow> False | PDict d \<Rightarrow> False | _ \<Rightarrow> True)"

fun check_jump_hosts :: "ssh_host list \<Rightarrow> bmc_device list \<Rightarrow> cfg_error option" where
  "check_jump_hosts hosts [] = None"
| "check_jump_hosts hosts (d # ds) =
     (if \<not> truth (bd_jump_host d) then check_jump_hosts hosts ds
      else if \<not> hashable (bd_jump_host d) then Some Py_type_error
      else if bd_jump_host d \<notin> PStr ` sh_name ` set hosts then Some (Bad_jump_host (bd_id d) (py_str (bd_jump_host d)))
      else check_jump_hosts hosts ds)"

definition build_config :: "cfg_env \<Rightarrow> pyval \<Rightarrow> cfg_error + config" where
  "build_config e raw =
     ebind (pv_get_or raw ''proxmox'' (PDict [])) (\<lambda>proxmox.
     ebind (pv_get_or proxmox ''nodes'' (PList [])) (\<lambda>nodes_raw.
     ebind (pv_iter nodes_raw) (\<lambda>nodes_items.
     ebind (emap (build_node e) nodes_items) (\<lambda>nodes.
     ebind (pv_get_or raw ''bmc'' (PDict [])) (\<lambda>bmc.
     ebind (pv_get_or bmc ''devices'' (PList [])) (\<lambda>bmc_raw.
     ebind (pv_iter bmc_raw) (\<lambda>bmc_items.
     ebind (build_devices e [] bmc_items) (\<lambda>devices.
     ebind (pv_get raw ''ssh'') (\<lambda>ssh_raw.
     ebind (build_ssh e nodes ssh_raw) (\<lambda>ssh.
     ebind (pv_get_or raw ''server'' (PDict [])) (\<lambda>srv_raw.
     ebind (build_server e srv_raw) (\<lambda>server.
     ebind (pv_get_or raw ''features'' (PDict [])) (\<lambda>feat_raw.
     ebind (build_features e feat_raw) (\<lambda>features.
       check (nodes \<noteq> [] \<or> devices \<noteq> [] \<or> ssh_hosts_of ssh \<noteq> []) No_capability
        (case check_jump_hosts (ssh_hosts_of ssh) devices of
           Some err \<Rightarrow> Inl err
         | None \<Rightarrow>
             ebind (pv_get_dflt proxmox ''verify_ssl'' (PBool False)) (\<lambda>verify_raw.
             ebind (verify_ssl e verify_raw) (\<lambda>verify.
             ebind (pv_get_or raw ''infrastructure'' (PDict [])) (\<lambda>infra.
               Inr \<lparr>cf_server = server, cf_pve_nodes = nodes, cf_bmc_devices = devices, cf_ssh = ssh, cf_features = features,
                    cf_verify_ssl = verify, cf_infrastructure = infra\<rparr>))))))))))))))))))"

text \<open>\<open>_from_yaml\<close>: \<open>raw\<close> is what \<open>yaml.safe_load\<close> returned.\<close>

definition from_yaml :: "cfg_env \<Rightarrow> pyval \<Rightarrow> cfg_error + config" where
  "from_yaml e raw =
     (let r = pv_or raw (PDict [])
      in check (is_dict r) (Bad_value ''top level'')
           (ebind (resolve_env (ce_environ e) [] r) (\<lambda>resolved. build_config e resolved)))"

text \<open>\<open>_from_legacy_env\<close>: \<open>infra\<close> is the YAML of the infrastructure file, when it exists.\<close>

definition env_get :: "cfg_env \<Rightarrow> string \<Rightarrow> string \<Rightarrow> string" where
  "env_get e name dflt = (case dget (ce_environ e) name of Some v \<Rightarrow> v | None \<Rightarrow> dflt)"

definition legacy_node :: "cfg_env \<Rightarrow> int \<Rightarrow> pyval list" where
  "legacy_node e i =
     (let host = env_get e (''PVE'' @ show_int i @ ''_HOST'') []; tid = env_get e (''PVE'' @ show_int i @ ''_TOKEN_ID'') [];
          sec = env_get e (''PVE'' @ show_int i @ ''_TOKEN_SECRET'') []
      in if host \<noteq> [] \<and> tid \<noteq> [] \<and> sec \<noteq> []
         then [PDict [(''name'', PStr (''pve'' @ show_int i)), (''host'', PStr host), (''token_id'', PStr tid), (''token_secret'', PStr sec)]]
         else [])"

definition from_legacy_env :: "cfg_env \<Rightarrow> pyval option \<Rightarrow> cfg_error + config" where
  "from_legacy_env e infra =
     (let verify = PBool (py_lower (py_strip (env_get e ''PVE_VERIFY_SSL'' ''false'')) = ''true'');
          ilo = env_get e ''ILO_HOST'' [];
          bmc = (if ilo = [] then []
                 else [(''bmc'', PDict [(''devices'', PList [PDict [(''id'', PStr ''ilo''), (''type'', PStr ''hp_ilo''), (''host'', PStr ilo),
                          (''user'', PStr (env_get e ''ILO_USER'' [])), (''password'', PStr (env_get e ''ILO_PASSWORD'' []))]])])]);
          inf = (case infra of None \<Rightarrow> [] | Some v \<Rightarrow> [(''infrastructure'', pv_or v (PDict []))])
      in build_config e (PDict ([(''version'', PInt 1),
           (''proxmox'', PDict [(''nodes'', PList (concat (map (legacy_node e) [1..9]))), (''verify_ssl'', verify)])] @ bmc @ inf)))"

subsection \<open>Accessors\<close>

definition get_node :: "config \<Rightarrow> string \<Rightarrow> pve_node option" where
  "get_node c name = find (\<lambda>n. pn_name n = name) (cf_pve_nodes c)"

definition get_node_host :: "config \<Rightarrow> string \<Rightarrow> string option" where
  "get_node_host c name = map_option (\<lambda>n. strip_port (pn_host n)) (get_node c name)"

definition get_bmc_device :: "config \<Rightarrow> string \<Rightarrow> bmc_device option" where
  "get_bmc_device c device_id = find (\<lambda>d. bd_id d = device_id) (cf_bmc_devices c)"

definition get_ssh_host :: "config \<Rightarrow> string \<Rightarrow> ssh_host option" where
  "get_ssh_host c name = find (\<lambda>h. sh_name h = name) (ssh_hosts_of (cf_ssh c))"

definition get_ssh_host_by_address :: "config \<Rightarrow> string \<Rightarrow> ssh_host option" where
  "get_ssh_host_by_address c address = find (\<lambda>h. sh_host h = address) (ssh_hosts_of (cf_ssh c))"

subsection \<open>The redacted view\<close>

text \<open>The view is printed as a mapping; a secret that is no text can make it raise.\<close>

definition mask :: "pyval \<Rightarrow> cfg_error + pyval" where
  "mask v =
     (if \<not> truth v then Inr (PStr [])
      else case v of
        PStr s \<Rightarrow> Inr (PStr (if length s \<le> 4 then ''***'' else take 2 s @ ''***'' @ drop (length s - 2) s))
      | PList xs \<Rightarrow> if length xs \<le> 4 then Inr (PStr ''***'') else Inl Py_type_error
      | PDict d \<Rightarrow> if length d \<le> 4 then Inr (PStr ''***'') else Inl Py_type_error
      | _ \<Rightarrow> Inl Py_type_error)"

definition opt_val :: "pyval option \<Rightarrow> pyval" where
  "opt_val v = (case v of Some x \<Rightarrow> x | None \<Rightarrow> PNone)"

definition redact_server :: "server_config \<Rightarrow> cfg_error + pyval" where
  "redact_server s =
     ebind (mask (pv_or (sv_session_key s) (PStr []))) (\<lambda>key. Inr (PDict
       [(''host'', sv_host s), (''port'', PInt (sv_port s)), (''allowed_hosts'', PList (sv_allowed_hosts s)),
        (''allowed_origins'', PList (sv_allowed_origins s)), (''trusted_proxies'', PList (map PStr (sv_trusted_proxies s))),
        (''clients_file'', PStr (sv_clients_file s)), (''session_key'', key),
        (''allow_dynamic_registration'', PBool (sv_allow_dynamic_registration s)),
        (''transfers_dir'', PStr (sv_transfers_dir s)), (''transfers_max_mb'', PInt (sv_transfers_max_mb s)),
        (''tokens_db'', PStr (case sv_tokens_db s of Some p \<Rightarrow> p | None \<Rightarrow> ''(default: tokens.db beside clients_file)'')),
        (''audit_log'', PStr (case sv_audit_log s of Some p \<Rightarrow> if p \<noteq> [] then p else ''(default: /opt/beaconmcp/audit.log)''
                               | None \<Rightarrow> ''(default: /opt/beaconmcp/audit.log)'')),
        (''named_token_ttl'', case sv_named_token_ttl s of None \<Rightarrow> PStr ''(default: 30 days)''
                               | Some n \<Rightarrow> if n = 0 then PStr ''0 (never expires, revoke-only)'' else PInt n),
        (''refresh_token_ttl'', case sv_refresh_token_ttl s of None \<Rightarrow> PStr ''(default: 24 h)'' | Some n \<Rightarrow> PInt n),
        (''confirm_tools'', case sv_confirm_tools s of None \<Rightarrow> PStr ''(default list)'' | Some ts \<Rightarrow> PList (map PStr ts))]))"

definition redact_node :: "pve_node \<Rightarrow> cfg_error + pyval" where
  "redact_node n =
     ebind (mask (PStr (pn_token_secret n))) (\<lambda>sec. Inr (PDict
       [(''name'', PStr (pn_name n)), (''host'', PStr (pn_host n)), (''token_id'', PStr (pn_token_id n)), (''token_secret'', sec)]))"

definition redact_device :: "bmc_device \<Rightarrow> cfg_error + pyval" where
  "redact_device d =
     ebind (mask (PStr (bd_password d))) (\<lambda>pw. Inr (PDict
       [(''id'', PStr (bd_id d)), (''type'', PStr (bd_type d)), (''host'', PStr (bd_host d)), (''user'', PStr (bd_user d)),
        (''password'', pw), (''jump_host'', bd_jump_host d), (''verify_tls'', PBool (bd_verify_tls d))]))"

definition redact_host :: "ssh_host \<Rightarrow> cfg_error + pyval" where
  "redact_host h =
     ebind (case sh_password h of None \<Rightarrow> Inr PNone | Some p \<Rightarrow> if truth p then mask p else Inr PNone) (\<lambda>pw. Inr (PDict
       [(''name'', PStr (sh_name h)), (''host'', PStr (sh_host h)), (''port'', PInt (sh_port h)), (''user'', PStr (sh_user h)),
        (''password'', pw), (''key_file'', opt_val (sh_key_file h))]))"

definition redact_ssh :: "ssh_config option \<Rightarrow> cfg_error + pyval" where
  "redact_ssh s =
     (case s of None \<Rightarrow> Inr PNone
      | Some c \<Rightarrow> ebind (emap redact_host (sc_hosts c)) (\<lambda>hosts. Inr (PDict
          [(''vmid_to_ip'', sc_vmid_to_ip c), (''known_hosts'', opt_val (sc_known_hosts c)),
           (''strict_host_key_checking'', opt_val (map_option PBool (sc_strict c))), (''hosts'', PList hosts)])))"

definition redact_features :: "features_config \<Rightarrow> cfg_error + pyval" where
  "redact_features f =
     ebind (mask (fc_gemini_api_key f)) (\<lambda>key. Inr (PDict
       [(''dashboard'', PDict
           [(''enabled'', PBool (fc_dashboard_enabled f)), (''gemini_api_key'', key), (''limit_5h_usd'', PFloat (fc_limit_5h_usd f)),
            (''limit_week_usd'', PFloat (fc_limit_week_usd f)), (''public_url'', fc_public_url f), (''mcp_mode'', PStr (fc_mcp_mode f))]),
        (''ssh_enabled'', PBool (fc_ssh_enabled f)),
        (''updates'', PDict
           [(''enabled'', PBool (fc_updates_enabled f)), (''allow_self_update'', PBool (fc_allow_self_update f)),
            (''channel'', PStr (fc_update_channel f)), (''require_signed'', PBool (fc_require_signed f))])]))"

definition redacted :: "config \<Rightarrow> cfg_error + pyval" where
  "redacted c =
     ebind (redact_server (cf_server c)) (\<lambda>server.
     ebind (emap redact_node (cf_pve_nodes c)) (\<lambda>nodes.
     ebind (emap redact_device (cf_bmc_devices c)) (\<lambda>devices.
     ebind (redact_ssh (cf_ssh c)) (\<lambda>ssh.
     ebind (redact_features (cf_features c)) (\<lambda>features. Inr (PDict
       [(''server'', server),
        (''proxmox'', PDict [(''verify_ssl'', case cf_verify_ssl c of Verify b \<Rightarrow> PBool b | Bundle p \<Rightarrow> PStr p), (''nodes'', PList nodes)]),
        (''bmc'', PDict [(''devices'', PList devices)]), (''ssh'', ssh), (''features'', features),
        (''infrastructure'', cf_infrastructure c)]))))))"

end
