(* ===== verification/Ssh_Pins.thy ===== *)
theory Ssh_Pins
  imports Py_Val
begin

text \<open>
  Host keys on first use (\<open>ssh/client.py\<close>): the managed known-hosts file, the keys
  \<open>_pinned_keys\<close> reads from it for one target, and \<open>_TofuClient\<close>, which records
  the key of a target it does not know.  The file is its decoded text, None when it does not
  exist.  \<open>impk\<close> and \<open>expk\<close> stand for \<open>asyncssh.import_public_key\<close> (None is
  the error) and the first two fields of \<open>export_public_key\<close>.
\<close>

subsection \<open>Reading the file\<close>

fun split_by :: "(char \<Rightarrow> bool) \<Rightarrow> string \<Rightarrow> string list" where
  "split_by P [] = [[]]"
| "split_by P (x # xs) =
     (if P x then [] # split_by P xs
      else case split_by P xs of w # ws \<Rightarrow> (x # w) # ws | [] \<Rightarrow> [[x]])"

text \<open>\<open>s.split()\<close>, and the lines of a text file with universal newlines.\<close>

definition py_words :: "string \<Rightarrow> string list" where
  "py_words s = [w \<leftarrow> split_by py_space s. w \<noteq> []]"

definition is_newline :: "char \<Rightarrow> bool" where
  "is_newline c \<longleftrightarrow> ord c \<in> {10, 13}"

abbreviation LF :: char where "LF \<equiv> CHR 0x0A"

definition known_host_pattern :: "string \<Rightarrow> int \<Rightarrow> string" where
  "known_host_pattern host port = (if port = 22 then host else ''['' @ host @ '']:'' @ show_signed port)"

definition line_key :: "(string \<Rightarrow> string \<Rightarrow> 'k option) \<Rightarrow> string \<Rightarrow> string \<Rightarrow> 'k list" where
  "line_key impk pat raw =
     (case py_words raw of
        names # ty # blob # rest \<Rightarrow>
          if startswith names ''#'' \<or> startswith names ''@'' then []
          else if pat \<notin> set (split_on CHR '','' names) then []
          else (case impk ty blob of Some k \<Rightarrow> [k] | None \<Rightarrow> [])
      | _ \<Rightarrow> [])"

definition pinned_keys :: "(string \<Rightarrow> string \<Rightarrow> 'k option) \<Rightarrow> string option \<Rightarrow> string \<Rightarrow> int \<Rightarrow> 'k list" where
  "pinned_keys impk file host port =
     (case file of None \<Rightarrow> []
      | Some text \<Rightarrow> concat (map (line_key impk (known_host_pattern host port)) (split_by is_newline text)))"

subsection \<open>The check of a presented key\<close>

text \<open>The entry that records a key.\<close>

definition pin_entry :: "('k \<Rightarrow> string \<times> string) \<Rightarrow> string \<Rightarrow> int \<Rightarrow> 'k \<Rightarrow> string" where
  "pin_entry expk host port key =
     known_host_pattern host port @ '' '' @ fst (expk key) @ '' '' @ snd (expk key) @ [LF]"

text \<open>
  \<open>_TofuClient.validate_host_public_key\<close>: its result, its flag \<open>changed\<close> and the
  file; None when the entry cannot be written (an \<open>OSError\<close>).
\<close>

definition validate_host_public_key ::
  "(string \<Rightarrow> string \<Rightarrow> 'k option) \<Rightarrow> ('k \<Rightarrow> string \<times> string) \<Rightarrow> string option \<Rightarrow> string \<Rightarrow> int \<Rightarrow> 'k \<Rightarrow> bool
   \<Rightarrow> (bool \<times> bool \<times> string option) option" where
  "validate_host_public_key impk expk file host port key writable =
     (let pinned = pinned_keys impk file host port
      in if key \<in> set pinned then Some (True, False, file)
         else if pinned \<noteq> [] then Some (False, True, file)
         else if writable
              then Some (True, False, Some ((case file of Some t \<Rightarrow> t | None \<Rightarrow> []) @ pin_entry expk host port key))
              else None)"

subsection \<open>Connections\<close>

text \<open>
  Connections under way share the file: each holds its target and the trusted keys it read
  when it started.  A connection succeeds only when the key is one of those (\<open>trusts\<close>,
  the check of asyncssh) or when \<open>validate_host_public_key\<close> accepts it, at any later moment.
\<close>

record 'k pin_state =
  ps_file :: "string option"
  ps_open :: "(nat, string \<times> int \<times> 'k list) dict"
  ps_accepted :: "((string \<times> int) \<times> 'k) list"

definition pin_start :: "string option \<Rightarrow> 'k pin_state" where
  "pin_start file = \<lparr>ps_file = file, ps_open = [], ps_accepted = []\<rparr>"

definition pin_begin :: "(string \<Rightarrow> string \<Rightarrow> 'k option) \<Rightarrow> nat \<Rightarrow> string \<Rightarrow> int \<Rightarrow> 'k pin_state \<Rightarrow> 'k pin_state" where
  "pin_begin impk i host port s =
     s\<lparr>ps_open := dset i (host, port, pinned_keys impk (ps_file s) host port) (ps_open s)\<rparr>"

definition pin_close :: "nat \<Rightarrow> 'k pin_state \<Rightarrow> 'k pin_state" where
  "pin_close i s = s\<lparr>ps_open := dpop i (ps_open s)\<rparr>"

definition pin_accept :: "nat \<Rightarrow> string \<Rightarrow> int \<Rightarrow> 'k \<Rightarrow> string option \<Rightarrow> 'k pin_state \<Rightarrow> 'k pin_state" where
  "pin_accept i host port key file s =
     (pin_close i s)\<lparr>ps_file := file, ps_accepted := ps_accepted s @ [((host, port), key)]\<rparr>"

text \<open>A name that the file's format can hold: no white space, comma or bracket, no comment or marker.\<close>

definition plain :: "string \<Rightarrow> bool" where
  "plain w \<longleftrightarrow> w \<noteq> [] \<and> list_all (\<lambda>c. \<not> py_space c) w"

definition plain_host :: "string \<Rightarrow> bool" where
  "plain_host h \<longleftrightarrow> plain h \<and> CHR '','' \<notin> set h \<and> CHR ''['' \<notin> set h \<and> hd h \<notin> {CHR ''#'', CHR ''@''}"

inductive pin_step ::
  "(string \<Rightarrow> string \<Rightarrow> 'k option) \<Rightarrow> ('k \<Rightarrow> string \<times> string) \<Rightarrow> ('k list \<Rightarrow> 'k \<Rightarrow> bool) \<Rightarrow> 'k pin_state \<Rightarrow> 'k pin_state \<Rightarrow> bool"
  for impk expk trusts where
  step_begin: "plain_host h \<Longrightarrow> pin_step impk expk trusts s (pin_begin impk i h p s)"
| step_trusted: "dget (ps_open s) i = Some (h, p, ks) \<Longrightarrow> trusts ks k \<Longrightarrow>
     pin_step impk expk trusts s (pin_accept i h p k (ps_file s) s)"
| step_validated: "dget (ps_open s) i = Some (h, p, ks) \<Longrightarrow>
     validate_host_public_key impk expk (ps_file s) h p k w = Some (True, ch, f) \<Longrightarrow>
     pin_step impk expk trusts s (pin_accept i h p k f s)"
| step_refused: "dget (ps_open s) i = Some (h, p, ks) \<Longrightarrow>
     validate_host_public_key impk expk (ps_file s) h p k w = Some (False, ch, f) \<Longrightarrow>
     pin_step impk expk trusts s ((pin_close i s)\<lparr>ps_file := f\<rparr>)"
| step_failed: "pin_step impk expk trusts s (pin_close i s)"

inductive pin_run ::
  "(string \<Rightarrow> string \<Rightarrow> 'k option) \<Rightarrow> ('k \<Rightarrow> string \<times> string) \<Rightarrow> ('k list \<Rightarrow> 'k \<Rightarrow> bool) \<Rightarrow> 'k pin_state \<Rightarrow> 'k pin_state \<Rightarrow> bool"
  for impk expk trusts s0 where
  run_nil: "pin_run impk expk trusts s0 s0"
| run_step: "pin_run impk expk trusts s0 s \<Longrightarrow> pin_step impk expk trusts s s' \<Longrightarrow> pin_run impk expk trusts s0 s'"

subsection \<open>Appending an entry\<close>

definition codec_ok :: "(string \<Rightarrow> string \<Rightarrow> 'k option) \<Rightarrow> ('k \<Rightarrow> string \<times> string) \<Rightarrow> bool" where
  "codec_ok impk expk \<longleftrightarrow> (\<forall>k. impk (fst (expk k)) (snd (expk k)) = Some k \<and> plain (fst (expk k)) \<and> plain (snd (expk k)))"

definition whole_lines :: "string option \<Rightarrow> bool" where
  "whole_lines file = (case file of None \<Rightarrow> True | Some t \<Rightarrow> t = [] \<or> is_newline (last t))"

lemma split_by_not_Nil [simp]: "split_by P s \<noteq> []"
  by (induction s) (auto split: list.splits)

lemma split_by_append: "P c \<Longrightarrow> split_by P (s @ c # t) = split_by P s @ split_by P t"
proof (induction s)
  case (Cons x s)
  obtain w ws where "split_by P s = w # ws" by (cases "split_by P s") auto
  with Cons show ?case by simp
qed simp

lemma split_by_none: "list_all (\<lambda>c. \<not> P c) s \<Longrightarrow> split_by P s = [s]"
  by (induction s) auto

lemma py_words_plain: "plain w \<Longrightarrow> py_words w = [w]"
  by (simp add: py_words_def plain_def split_by_none)

lemma py_words_Cons: "plain w \<Longrightarrow> py_words (w @ CHR '' '' # t) = w # py_words t"
proof -
  assume w: "plain w"
  have "split_by py_space (w @ CHR '' '' # t) = split_by py_space w @ split_by py_space t"
    by (rule split_by_append) (simp add: py_space_def)
  with w show ?thesis by (simp add: py_words_def plain_def split_by_none)
qed

lemma plain_no_newline: "plain w \<Longrightarrow> list_all (\<lambda>c. \<not> is_newline c) w"
  unfolding plain_def list_all_iff py_space_def is_newline_def by blast

lemma line_key_Nil [simp]: "line_key impk pat [] = []"
  by (simp add: line_key_def py_words_def)

subsection \<open>Targets and their patterns\<close>

lemma digit_of_int: "0 \<le> d \<Longrightarrow> d < 10 \<Longrightarrow> ord (char_of (48 + d)) = 48 + d"
  by (simp add: of_char_of)

lemma show_int_digits: "0 \<le> n \<Longrightarrow> list_all ascii_digit (show_int n)"
proof (induction n rule: show_int.induct)
  case (1 n)
  show ?case
  proof (cases "n < 10")
    case True
    then show ?thesis using 1 by (subst show_int.simps) (simp add: ascii_digit_def of_char_of)
  next
    case False
    have "list_all ascii_digit (show_int (n div 10))" using 1 False by simp
    moreover have "0 \<le> n mod 10" "n mod 10 < 10" by simp_all
    ultimately show ?thesis using False by (subst show_int.simps) (simp add: ascii_digit_def of_char_of)
  qed
qed

lemma decimal_snoc: "decimal (s @ [c]) = 10 * decimal s + (ord c - 48)"
  by (simp add: decimal_def)

lemma decimal_show_int: "0 \<le> n \<Longrightarrow> decimal (show_int n) = n"
proof (induction n rule: show_int.induct)
  case (1 n)
  show ?case
  proof (cases "n < 10")
    case True
    then show ?thesis using 1 by (subst show_int.simps) (simp add: decimal_def of_char_of)
  next
    case False
    have "decimal (show_int (n div 10)) = n div 10" using 1 False by simp
    moreover have "ord (char_of (48 + n mod 10)) = 48 + n mod 10" by (rule digit_of_int) simp_all
    ultimately show ?thesis using False by (subst show_int.simps) (simp add: decimal_snoc)
  qed
qed

lemma show_signed_chars: "c \<in> set (show_signed n) \<Longrightarrow> ascii_digit c \<or> c = CHR ''-''"
proof -
  assume c: "c \<in> set (show_signed n)"
  have "list_all ascii_digit (show_int (- n))" if "n < 0" using that by (intro show_int_digits) simp
  moreover have "list_all ascii_digit (show_int n)" if "\<not> n < 0" using that by (intro show_int_digits) simp
  ultimately show ?thesis using c by (auto simp: show_signed_def list_all_iff split: if_splits)
qed

lemma Cons_not_in: "x # xs = ys \<Longrightarrow> x \<in> set ys" "ys = x # xs \<Longrightarrow> x \<in> set ys"
  by auto

lemma show_signed_inj: "show_signed m = show_signed n \<Longrightarrow> m = n"
proof -
  have minus: "CHR ''-'' \<notin> set (show_int k)" if "0 \<le> k" for k
    using show_int_digits[OF that] by (auto simp: list_all_iff ascii_digit_def)
  assume eq: "show_signed m = show_signed n"
  show "m = n"
  proof (cases "m < 0")
    case True
    have "n < 0"
    proof (rule ccontr)
      assume "\<not> n < 0"
      with True eq have "CHR ''-'' # show_int (- m) = show_int n" by (simp add: show_signed_def)
      from Cons_not_in(1)[OF this] minus[of n] \<open>\<not> n < 0\<close> show False by (simp only: not_less simp_thms)
    qed
    with True eq have "show_int (- m) = show_int (- n)" by (simp add: show_signed_def)
    moreover have "0 \<le> - m" "0 \<le> - n" using True \<open>n < 0\<close> by simp_all
    ultimately have "- m = - n" by (metis decimal_show_int)
    then show ?thesis by simp
  next
    case False
    have "\<not> n < 0"
    proof
      assume "n < 0"
      with False eq have "CHR ''-'' # show_int (- n) = show_int m" by (simp add: show_signed_def)
      from Cons_not_in(1)[OF this] minus[of m] False show False by (simp only: not_less simp_thms)
    qed
    with False eq have "show_int m = show_int n" by (simp add: show_signed_def)
    moreover have "0 \<le> m" "0 \<le> n" using False \<open>\<not> n < 0\<close> by simp_all
    ultimately show ?thesis by (metis decimal_show_int)
  qed
qed

lemma port_chars: "c \<in> set (show_signed n) \<Longrightarrow> \<not> py_space c \<and> c \<noteq> CHR '','' \<and> c \<noteq> CHR '':''"
  using show_signed_chars[of c n] by (auto simp: ascii_digit_def py_space_def)

lemma pattern_plain: "plain_host h \<Longrightarrow> plain (known_host_pattern h p)"
  using port_chars[of _ p]
  by (auto simp: plain_host_def known_host_pattern_def plain_def list_all_iff py_space_def)

lemma pattern_no_comma: "plain_host h \<Longrightarrow> CHR '','' \<notin> set (known_host_pattern h p)"
  using port_chars[of _ p] by (auto simp: plain_host_def known_host_pattern_def)

lemma pattern_no_marker:
  "plain_host h \<Longrightarrow> \<not> startswith (known_host_pattern h p) ''#'' \<and> \<not> startswith (known_host_pattern h p) ''@''"
  by (cases h) (auto simp: plain_host_def known_host_pattern_def plain_def)

lemma pattern_inj:
  assumes "plain_host h" "plain_host h'" "known_host_pattern h p = known_host_pattern h' p'"
  shows "h = h' \<and> p = p'"
proof -
  have bracket: "h \<noteq> ''['' @ w" if "plain_host h" for h w using that by (auto simp: plain_host_def)
  consider "p = 22" "p' = 22" | "p \<noteq> 22" "p' \<noteq> 22" | "p = 22" "p' \<noteq> 22" | "p \<noteq> 22" "p' = 22" by blast
  then show ?thesis
  proof cases
    case 2
    let ?f = "\<lambda>h p. rpartition_on CHR '':'' (known_host_pattern h p)"
    have "?f h p = (''['' @ h @ '']'', True, show_signed p)" if "p \<noteq> 22" for h p
      using rpartition_on_last[of "CHR '':''" "show_signed p" "''['' @ h @ '']''"] port_chars[of _ p] that
      by (auto simp: known_host_pattern_def)
    with 2 assms(3) have "''['' @ h @ '']'' = ''['' @ h' @ '']'' \<and> show_signed p = show_signed p'" by (metis prod.inject)
    then show ?thesis using show_signed_inj by simp
  qed (use assms bracket in \<open>auto simp: known_host_pattern_def\<close>)
qed

subsection \<open>What an entry adds\<close>

lemma entry_words:
  assumes "codec_ok impk expk" "plain_host h"
  shows "py_words (known_host_pattern h p @ '' '' @ fst (expk k) @ '' '' @ snd (expk k)) =
         [known_host_pattern h p, fst (expk k), snd (expk k)]"
proof -
  have "plain (fst (expk k))" "plain (snd (expk k))" using assms(1) by (auto simp: codec_ok_def)
  then show ?thesis using pattern_plain[OF assms(2)] by (simp add: py_words_Cons py_words_plain)
qed

lemma line_key_entry:
  assumes "codec_ok impk expk" "plain_host h" "plain_host h'"
  shows "line_key impk (known_host_pattern h' p') (known_host_pattern h p @ '' '' @ fst (expk k) @ '' '' @ snd (expk k)) =
         (if (h', p') = (h, p) then [k] else [])"
  using pattern_no_marker[OF assms(2), of p] pattern_no_comma[OF assms(2), of p] pattern_inj[OF assms(3,2), of p' p] assms(1)
  unfolding line_key_def entry_words[OF assms(1,2)]
  by (auto simp: split_on_no_sep codec_ok_def)

definition file_text :: "string option \<Rightarrow> string" where
  "file_text file = (case file of Some t \<Rightarrow> t | None \<Rightarrow> [])"

lemma pinned_keys_text:
  "pinned_keys impk file h p = concat (map (line_key impk (known_host_pattern h p)) (split_by is_newline (file_text file)))"
  by (simp add: pinned_keys_def file_text_def split: option.split)

lemma pinned_keys_append:
  assumes "codec_ok impk expk" "plain_host h" "plain_host h'" "whole_lines file"
  shows "pinned_keys impk (Some (file_text file @ pin_entry expk h p k)) h' p' =
         pinned_keys impk file h' p' @ (if (h', p') = (h, p) then [k] else [])"
proof -
  let ?e = "known_host_pattern h p @ '' '' @ fst (expk k) @ '' '' @ snd (expk k)"
  let ?keys = "\<lambda>t. concat (map (line_key impk (known_host_pattern h' p')) (split_by is_newline t))"
  have "plain (fst (expk k))" "plain (snd (expk k))" using assms(1) by (auto simp: codec_ok_def)
  then have "list_all (\<lambda>c. \<not> is_newline c) ?e"
    using pattern_plain[OF assms(2), of p] by (simp add: plain_no_newline) (simp add: is_newline_def)
  then have e: "split_by is_newline (?e @ [LF]) = [?e, []]"
    by (subst split_by_append) (simp_all add: split_by_none is_newline_def)
  have entry: "pin_entry expk h p k = ?e @ [LF]" by (simp add: pin_entry_def)
  have keys_e: "?keys (?e @ [LF]) = (if (h', p') = (h, p) then [k] else [])"
    unfolding e using line_key_entry[OF assms(1,2,3), of p' p k] by simp
  have "?keys (file_text file @ ?e @ [LF]) = ?keys (file_text file) @ ?keys (?e @ [LF])"
  proof (cases "file_text file" rule: rev_cases)
    case (snoc t c)
    then have "is_newline c" using assms(4) by (auto simp: whole_lines_def file_text_def split: option.splits)
    then show ?thesis using split_by_append[of is_newline c t] by (simp add: snoc)
  qed simp
  then show ?thesis by (simp only: pinned_keys_text entry keys_e file_text_def[of "Some _"] option.case)
qed

lemma whole_lines_entry: "whole_lines (Some (t @ pin_entry expk h p k))"
  by (simp add: whole_lines_def pin_entry_def is_newline_def)

subsection \<open>The first key stays\<close>

definition trusts_only :: "('k list \<Rightarrow> 'k \<Rightarrow> bool) \<Rightarrow> bool" where
  "trusts_only trusts \<longleftrightarrow> (\<forall>ks k. trusts ks k \<longrightarrow> k \<in> set ks)"

text \<open>How the keys of a target may develop from those it had at first.\<close>

definition pin_grows :: "'k list \<Rightarrow> 'k list \<Rightarrow> bool" where
  "pin_grows ks0 ks \<longleftrightarrow> ks = ks0 \<or> ks0 = [] \<and> (\<exists>k. ks = [k])"

definition pin_inv :: "(string \<Rightarrow> string \<Rightarrow> 'k option) \<Rightarrow> string option \<Rightarrow> 'k pin_state \<Rightarrow> bool" where
  "pin_inv impk file0 s \<longleftrightarrow>
     whole_lines (ps_file s) \<and>
     (\<forall>h p. plain_host h \<longrightarrow> pin_grows (pinned_keys impk file0 h p) (pinned_keys impk (ps_file s) h p)) \<and>
     (\<forall>i h p ks. dget (ps_open s) i = Some (h, p, ks) \<longrightarrow> plain_host h \<and> set ks \<subseteq> set (pinned_keys impk (ps_file s) h p)) \<and>
     (\<forall>h p k. ((h, p), k) \<in> set (ps_accepted s) \<longrightarrow> plain_host h \<and> k \<in> set (pinned_keys impk (ps_file s) h p))"

lemma pin_grows_append: "pin_grows ks0 ks \<Longrightarrow> (b \<Longrightarrow> ks = []) \<Longrightarrow> pin_grows ks0 (ks @ (if b then [k] else []))"
  by (auto simp: pin_grows_def)

lemma pin_inv_start: "whole_lines file0 \<Longrightarrow> pin_inv impk file0 (pin_start file0)"
  by (simp add: pin_inv_def pin_start_def pin_grows_def)

lemma validate_cases:
  assumes "validate_host_public_key impk expk file h p k w = Some (ok, ch, f)"
  obtains (known) "ok" "f = file" "k \<in> set (pinned_keys impk file h p)"
  | (changed) "\<not> ok" "f = file"
  | (recorded) "ok" "pinned_keys impk file h p = []" "f = Some (file_text file @ pin_entry expk h p k)"
proof (cases "k \<in> set (pinned_keys impk file h p)")
  case True
  with assms show ?thesis by (intro known) (simp_all add: validate_host_public_key_def)
next
  case unknown: False
  show ?thesis
  proof (cases "pinned_keys impk file h p = []")
    case True
    with assms show ?thesis by (intro recorded; cases w) (simp_all add: validate_host_public_key_def file_text_def)
  next
    case False
    with assms unknown show ?thesis by (intro changed) (simp_all add: validate_host_public_key_def)
  qed
qed

lemma pin_inv_close: "pin_inv impk file0 s \<Longrightarrow> pin_inv impk file0 (pin_close i s)"
  by (simp add: pin_inv_def pin_close_def)

lemma pin_inv_begin: "pin_inv impk file0 s \<Longrightarrow> plain_host h \<Longrightarrow> pin_inv impk file0 (pin_begin impk i h p s)"
  by (simp add: pin_inv_def pin_begin_def)

lemma pin_inv_known:
  assumes "pin_inv impk file0 s" "plain_host h" "k \<in> set (pinned_keys impk (ps_file s) h p)"
  shows "pin_inv impk file0 (pin_accept i h p k (ps_file s) s)"
  using assms by (simp add: pin_inv_def pin_accept_def pin_close_def)

lemma pin_inv_recorded:
  assumes "pin_inv impk file0 s" "codec_ok impk expk" "plain_host h" "pinned_keys impk (ps_file s) h p = []"
  shows "pin_inv impk file0 (pin_accept i h p k (Some (file_text (ps_file s) @ pin_entry expk h p k)) s)"
proof -
  let ?f = "Some (file_text (ps_file s) @ pin_entry expk h p k)"
  have lines: "whole_lines (ps_file s)" using assms(1) by (simp add: pin_inv_def)
  have keys: "pinned_keys impk ?f h' p' = pinned_keys impk (ps_file s) h' p' @ (if (h', p') = (h, p) then [k] else [])"
    if "plain_host h'" for h' p'
    by (rule pinned_keys_append[OF assms(2,3) that lines])
  have grows: "pin_grows (pinned_keys impk file0 h' p') (pinned_keys impk ?f h' p')" if "plain_host h'" for h' p'
    unfolding keys[OF that] using assms(1,4) that by (intro pin_grows_append) (auto simp: pin_inv_def)
  show ?thesis
    using assms(1,3) grows
    by (auto simp: pin_inv_def pin_accept_def pin_close_def whole_lines_entry keys subset_iff split: if_splits)
qed

lemma pin_inv_step:
  assumes "pin_step impk expk trusts s s'" "codec_ok impk expk" "trusts_only trusts" "pin_inv impk file0 s"
  shows "pin_inv impk file0 s'"
  using assms(1)
proof cases
  case (step_begin h i p)
  then show ?thesis using assms(4) by (simp add: pin_inv_begin)
next
  case (step_trusted i h p ks k)
  have "k \<in> set ks" using step_trusted(3) assms(3) unfolding trusts_only_def by blast
  moreover have "plain_host h" "set ks \<subseteq> set (pinned_keys impk (ps_file s) h p)"
    using step_trusted(2) assms(4) by (auto simp: pin_inv_def)
  ultimately show ?thesis unfolding step_trusted(1) using pin_inv_known[OF assms(4)] by blast
next
  case (step_validated i h p ks k w ch f)
  have h: "plain_host h" using step_validated(2) assms(4) by (auto simp: pin_inv_def)
  from step_validated(3) show ?thesis
  proof (cases rule: validate_cases)
    case known
    then show ?thesis unfolding step_validated(1) using pin_inv_known[OF assms(4) h] by simp
  next
    case recorded
    then show ?thesis unfolding step_validated(1) using pin_inv_recorded[OF assms(4,2) h] by simp
  qed simp
next
  case (step_refused i h p ks k w ch f)
  from step_refused(3) have "f = ps_file s" by (cases rule: validate_cases) auto
  then show ?thesis unfolding step_refused(1) using pin_inv_close[OF assms(4), of i] by (simp add: pin_close_def)
next
  case (step_failed i)
  then show ?thesis using pin_inv_close[OF assms(4)] by simp
qed

lemma pin_inv_run:
  assumes "pin_run impk expk trusts s0 s" "codec_ok impk expk" "trusts_only trusts" "pin_inv impk file0 s0"
  shows "pin_inv impk file0 s"
  using assms(1,4) by induction (auto intro: pin_inv_step[OF _ assms(2,3)])


subsection \<open>Examples\<close>

definition toy_import :: "string \<Rightarrow> string \<Rightarrow> bool option" where
  "toy_import ty blob = (if blob = ''AAAA'' then Some True else if blob = ''BBBB'' then Some False else None)"

definition toy_export :: "bool \<Rightarrow> string \<times> string" where
  "toy_export k = (''ssh-ed25519'', if k then ''AAAA'' else ''BBBB'')"

lemma toy_codec: "codec_ok toy_import toy_export"
proof -
  let ?P = "\<lambda>k. toy_import (fst (toy_export k)) (snd (toy_export k)) = Some k \<and>
      plain (fst (toy_export k)) \<and> plain (snd (toy_export k))"
  have "?P True" by code_simp
  moreover have "?P False" by code_simp
  ultimately have "?P k" for k by (cases k) simp_all
  then show ?thesis unfolding codec_ok_def by blast
qed

definition toy_trusts :: "bool list \<Rightarrow> bool \<Rightarrow> bool" where
  "toy_trusts ks k \<longleftrightarrow> k \<in> set ks"

text \<open>Two first connections overlap; the second presents the key the first has recorded.\<close>

definition toy_end :: "bool pin_state" where
  "toy_end =
     (let s2 = pin_begin toy_import 2 ''nas'' 2222 (pin_begin toy_import 1 ''nas'' 2222 (pin_start None));
          s3 = pin_accept 1 ''nas'' 2222 True (Some (pin_entry toy_export ''nas'' 2222 True)) s2
      in pin_accept 2 ''nas'' 2222 True (ps_file s3) s3)"

lemma toy_pin_run: "pin_run toy_import toy_export toy_trusts (pin_start None) toy_end"
proof -
  let ?R = "pin_run toy_import toy_export toy_trusts (pin_start None)"
  let ?s2 = "pin_begin toy_import 2 ''nas'' 2222 (pin_begin toy_import 1 ''nas'' 2222 (pin_start None))"
  let ?s3 = "pin_accept 1 ''nas'' 2222 True (Some (pin_entry toy_export ''nas'' 2222 True)) ?s2"
  have h: "plain_host ''nas''" by code_simp
  have b: "?R ?s2" by (rule run_step[OF run_step[OF run_nil step_begin[OF h]] step_begin[OF h]])
  have f: "pin_step toy_import toy_export toy_trusts ?s2 ?s3"
    by (rule step_validated[where ks = "[]" and w = True and ch = False]) code_simp+
  have e: "pin_step toy_import toy_export toy_trusts ?s3 toy_end"
    unfolding toy_end_def Let_def
    by (rule step_validated[where ks = "[]" and w = True and ch = False]) code_simp+
  show ?thesis by (rule run_step[OF run_step[OF b f] e])
qed


text \<open>
  A file without a final newline (edited by hand): the entry joins its last line, so the new
  target stays unknown and the key of the last line is lost.
\<close>

lemma entry_joins_an_open_line:
  "let f = Some (''web ssh-ed25519 AAAA'' @ pin_entry toy_export ''nas'' 22 False)
   in pinned_keys toy_import (Some ''web ssh-ed25519 AAAA'') ''web'' 22 = [True] \<and>
      validate_host_public_key toy_import toy_export (Some ''web ssh-ed25519 AAAA'') ''nas'' 22 False True = Some (True, False, f) \<and>
      pinned_keys toy_import f ''nas'' 22 = [] \<and> pinned_keys toy_import f ''web'' 22 = []"
  by code_simp

end
