(* ===== verification/Ssh_Client.thy ===== *)
theory Ssh_Client
  imports Config_Build Ssh_Pins
begin

text \<open>
  The SSH client (\<open>ssh/client.py\<close>): the host-key policy of a host, the resolution of an
  identifier to a declared host, the options of a connection, the cache of connections and the
  sessions of background commands.  What asyncssh does is a parameter of each operation.
\<close>

subsection \<open>Errors\<close>

datatype ssh_error =
    Ssh_not_configured
  | No_template string
  | Bad_template pyval
  | No_host_at string string
  | Not_declared string "string list" bool
  | Host_key_changed string string string
  | Host_key_not_verifiable
  | Python_error cfg_error
  | Connect_error string

subsection \<open>Host-key policy\<close>

datatype hostkey_policy = Known_hosts_file string | System_known_hosts | Any_key | First_use string

definition TOFU_KNOWN_HOSTS_NAME :: string where "TOFU_KNOWN_HOSTS_NAME = ''ssh_known_hosts''"

text \<open>\<open>Path(p).parent / name\<close> of a path without doubled or trailing slashes.\<close>

definition sibling_path :: "string \<Rightarrow> string \<Rightarrow> string" where
  "sibling_path p name =
     (case rpartition_on CHR ''/'' p of (head, sep, tail) \<Rightarrow> if sep then head @ ''/'' @ name else name)"

definition tofu_known_hosts_path :: "cfg_env \<Rightarrow> config \<Rightarrow> string" where
  "tofu_known_hosts_path e c =
     (let clients = (case dget (ce_environ e) ''BEACONMCP_CLIENTS_FILE'' of Some s \<Rightarrow> if s \<noteq> [] then s else sv_clients_file (cf_server c)
                     | None \<Rightarrow> sv_clients_file (cf_server c))
      in sibling_path (ce_expand e clients) TOFU_KNOWN_HOSTS_NAME)"

definition host_key_policy :: "cfg_env \<Rightarrow> config \<Rightarrow> ssh_host \<Rightarrow> ssh_error + hostkey_policy" where
  "host_key_policy e c spec =
     (let known_hosts = pv_or (opt_val (sh_known_hosts spec)) (case cf_ssh c of Some s \<Rightarrow> opt_val (sc_known_hosts s) | None \<Rightarrow> PNone);
          strict = (case sh_strict spec of Some b \<Rightarrow> Some b | None \<Rightarrow> (case cf_ssh c of Some s \<Rightarrow> sc_strict s | None \<Rightarrow> None))
      in if truth known_hosts
         then (case known_hosts of PStr s \<Rightarrow> Inr (Known_hosts_file (ce_expand e s)) | _ \<Rightarrow> Inl (Python_error Py_type_error))
         else if strict = Some True then Inr System_known_hosts
         else if strict = Some False then Inr Any_key
         else Inr (First_use (tofu_known_hosts_path e c)))"

subsection \<open>Resolution\<close>

text \<open>
  \<open>template.format(id=identifier)\<close>: the text, a \<open>KeyError\<close> or \<open>IndexError\<close>, or
  another error.  \<open>fld\<close> formats the rest of the template from a field with an attribute,
  an index, a conversion or a format specification on.
\<close>

datatype fmt_result = Fmt_text string | Fmt_lookup | Fmt_error

definition fmt_cons :: "string \<Rightarrow> fmt_result \<Rightarrow> fmt_result" where
  "fmt_cons s r = (case r of Fmt_text t \<Rightarrow> Fmt_text (s @ t) | _ \<Rightarrow> r)"

definition field_char :: "char \<Rightarrow> bool" where
  "field_char c \<longleftrightarrow> c \<notin> set ''{}:![.''"

function format_id :: "(string \<Rightarrow> string \<Rightarrow> fmt_result) \<Rightarrow> string \<Rightarrow> string \<Rightarrow> fmt_result" where
  "format_id fld ident [] = Fmt_text []"
| "format_id fld ident (c # s) =
     (if c = CHR ''{'' then
        (if s \<noteq> [] \<and> hd s = CHR ''{'' then fmt_cons ''{'' (format_id fld ident (tl s))
         else let name = takeWhile field_char s; rest = dropWhile field_char s
              in if rest = [] \<or> hd rest = CHR ''{'' then Fmt_error
                 else if hd rest = CHR ''}'' then
                   (if name = ''id'' then fmt_cons ident (format_id fld ident (tl rest))
                    else if list_all ascii_digit name \<and> decimal name \<ge> 2 ^ 63 then Fmt_error
                    else Fmt_lookup)
                 else fld ident s)
      else if c = CHR ''}'' then
        (if s \<noteq> [] \<and> hd s = CHR ''}'' then fmt_cons ''}'' (format_id fld ident (tl s)) else Fmt_error)
      else fmt_cons [c] (format_id fld ident s))"
  by pat_completeness auto
termination
proof (relation "measure (\<lambda>(fld, ident, s). length s)", goal_cases)
  case (3 fld ident c s name rest)
  have "length (tl rest) \<le> length s" using 3(4) length_dropWhile_le[of field_char s] by simp
  then show ?case by simp
qed (auto simp: less_Suc_eq_le)

definition resolve_vmid :: "(string \<Rightarrow> string \<Rightarrow> fmt_result) \<Rightarrow> config \<Rightarrow> string \<Rightarrow> ssh_error + ssh_host" where
  "resolve_vmid fld c ident =
     (let template = (case cf_ssh c of Some s \<Rightarrow> sc_vmid_to_ip s | None \<Rightarrow> PNone)
      in if \<not> truth template then Inl (No_template ident)
         else case template of
           PStr t \<Rightarrow>
             (case format_id fld ident t of
                Fmt_lookup \<Rightarrow> Inl (Bad_template template)
              | Fmt_error \<Rightarrow> Inl (Python_error Py_value_error)
              | Fmt_text ip \<Rightarrow>
                  (case get_ssh_host_by_address c ip of Some h \<Rightarrow> Inr h | None \<Rightarrow> Inl (No_host_at ident ip)))
         | _ \<Rightarrow> Inl (Python_error Py_attribute_error))"

definition resolve :: "(string \<Rightarrow> string \<Rightarrow> fmt_result) \<Rightarrow> config \<Rightarrow> string \<Rightarrow> ssh_error + ssh_host" where
  "resolve fld c ident =
     (if ssh_hosts_of (cf_ssh c) = [] then Inl Ssh_not_configured
      else case get_ssh_host c ident of
        Some h \<Rightarrow> Inr h
      | None \<Rightarrow>
          if py_isdigit ident then resolve_vmid fld c ident
          else (case get_ssh_host_by_address c ident of
                  Some h \<Rightarrow> Inr h
                | None \<Rightarrow> Inl (Not_declared ident (map sh_name (ssh_hosts_of (cf_ssh c)))
                                 (ident \<in> pn_name ` set (cf_pve_nodes c)))))"

definition resolve_host :: "(string \<Rightarrow> string \<Rightarrow> fmt_result) \<Rightarrow> config \<Rightarrow> string \<Rightarrow> ssh_error + string" where
  "resolve_host fld c ident = ebind (resolve fld c ident) (\<lambda>h. Inr (sh_host h))"

subsection \<open>Opening a connection\<close>

text \<open>What \<open>known_hosts\<close> is passed to \<open>asyncssh.connect\<close>, and the other options.\<close>

datatype 'k known_hosts = Default_file | No_check | Key_file string | Only_keys "'k list"

record 'k connect_kwargs =
  ck_host :: string
  ck_port :: int
  ck_username :: string
  ck_known_hosts :: "'k known_hosts"
  ck_tofu_client :: bool
  ck_password :: "pyval option"
  ck_client_key :: "string option"

definition known_hosts_option :: "(string \<Rightarrow> string \<Rightarrow> 'k option) \<Rightarrow> string option \<Rightarrow> ssh_host \<Rightarrow> hostkey_policy \<Rightarrow> 'k known_hosts" where
  "known_hosts_option impk file spec policy =
     (case policy of
        Known_hosts_file path \<Rightarrow> Key_file path
      | Any_key \<Rightarrow> No_check
      | First_use path \<Rightarrow> Only_keys (pinned_keys impk file (sh_host spec) (sh_port spec))
      | System_known_hosts \<Rightarrow> Default_file)"

text \<open>\<open>file\<close> is the managed known-hosts file; the last field is \<open>os.path.expanduser\<close> of a text.\<close>

definition connect_options ::
  "cfg_env \<Rightarrow> (string \<Rightarrow> string \<Rightarrow> 'k option) \<Rightarrow> string option \<Rightarrow> ssh_host \<Rightarrow> hostkey_policy \<Rightarrow> ssh_error + 'k connect_kwargs" where
  "connect_options e impk file spec policy =
     (let password = (case sh_password spec of Some v \<Rightarrow> if truth v then Some v else None | None \<Rightarrow> None);
          kw = \<lparr>ck_host = sh_host spec, ck_port = sh_port spec, ck_username = sh_user spec,
                ck_known_hosts = known_hosts_option impk file spec policy,
                ck_tofu_client = (case policy of First_use p \<Rightarrow> True | _ \<Rightarrow> False),
                ck_password = password, ck_client_key = None\<rparr>
      in if password \<noteq> None then Inr kw
         else case sh_key_file spec of
           Some (PStr k) \<Rightarrow> Inr (if k = [] then kw else kw\<lparr>ck_client_key := Some (ce_expand e k)\<rparr>)
         | Some v \<Rightarrow> if truth v then Inl (Python_error Py_type_error) else Inr kw
         | None \<Rightarrow> Inr kw)"

text \<open>\<open>attempt\<close> is \<open>asyncssh.connect\<close> with the flag that its \<open>_TofuClient\<close> ended with.\<close>

definition connect_to_host ::
  "cfg_env \<Rightarrow> (string \<Rightarrow> string \<Rightarrow> 'k option) \<Rightarrow> string option \<Rightarrow> ('k connect_kwargs \<Rightarrow> (ssh_error + 'c) \<times> bool) \<Rightarrow>
   ssh_host \<Rightarrow> hostkey_policy \<Rightarrow> ssh_error + 'c" where
  "connect_to_host e impk file attempt spec policy =
     ebind (connect_options e impk file spec policy) (\<lambda>kw.
       case attempt kw of
         (Inr conn, changed) \<Rightarrow> Inr conn
       | (Inl err, changed) \<Rightarrow>
           (case policy of
              First_use path \<Rightarrow>
                if err = Host_key_not_verifiable \<and> changed
                then Inl (Host_key_changed (sh_name spec) (known_host_pattern (sh_host spec) (sh_port spec)) path) else Inl err
            | _ \<Rightarrow> Inl err))"

subsection \<open>Cached connections\<close>

definition CONNECTION_TTL :: real where "CONNECTION_TTL = 300"

text \<open>
  \<open>_get_connection\<close>: \<open>now\<close> and \<open>later\<close> are its two readings of the clock,
  \<open>gone\<close> is \<open>is_closed()\<close> (None when it raises), \<open>connect\<close> is
  \<open>_connect_to_host\<close>.  The result comes with the cache and the connection that was closed.
\<close>

definition fresh_connection ::
  "cfg_env \<Rightarrow> config \<Rightarrow> (ssh_host \<Rightarrow> hostkey_policy \<Rightarrow> ssh_error + 'c) \<Rightarrow> real \<Rightarrow> ssh_host \<Rightarrow> (string, 'c \<times> real) dict \<Rightarrow>
   (ssh_error + 'c) \<times> (string, 'c \<times> real) dict" where
  "fresh_connection e c connect later spec cache =
     (case ebind (host_key_policy e c spec) (connect spec) of
        Inl err \<Rightarrow> (Inl err, cache)
      | Inr conn \<Rightarrow> (Inr conn, dset (sh_name spec) (conn, later) cache))"

definition get_connection ::
  "cfg_env \<Rightarrow> (string \<Rightarrow> string \<Rightarrow> fmt_result) \<Rightarrow> config \<Rightarrow> (ssh_host \<Rightarrow> hostkey_policy \<Rightarrow> ssh_error + 'c) \<Rightarrow> ('c \<Rightarrow> bool option) \<Rightarrow>
   real \<Rightarrow> real \<Rightarrow> string \<Rightarrow> (string, 'c \<times> real) dict \<Rightarrow> (ssh_error + 'c) \<times> (string, 'c \<times> real) dict \<times> 'c list" where
  "get_connection e fld c connect gone now later ident cache =
     (case resolve fld c ident of
        Inl err \<Rightarrow> (Inl err, cache, [])
      | Inr spec \<Rightarrow>
          (case dget cache (sh_name spec) of
             None \<Rightarrow> (case fresh_connection e c connect later spec cache of (r, cache') \<Rightarrow> (r, cache', []))
           | Some (conn, created) \<Rightarrow>
               if now - created < CONNECTION_TTL \<and> gone conn = Some False then (Inr conn, cache, [])
               else (case fresh_connection e c connect later spec (dpop (sh_name spec) cache) of
                       (r, cache') \<Rightarrow> (r, cache', [conn]))))"

subsection \<open>Running commands\<close>

text \<open>What awaiting \<open>conn.run\<close> gives: a result, a timeout, or an exception.\<close>

datatype run_outcome = Ran string string "int option" | Run_timed_out | Run_raised string

datatype exec_result = Exec_done string string "int option" | Exec_timeout int | Exec_error string

text \<open>\<open>exec_command\<close>: None is the \<open>SSHNotConfiguredError\<close> it lets through; \<open>run\<close> is the command.\<close>

definition exec_command :: "ssh_error + 'c \<Rightarrow> ('c \<Rightarrow> run_outcome) \<Rightarrow> string \<Rightarrow> int \<Rightarrow> exec_result option" where
  "exec_command conn run host timeout =
     (case conn of
        Inl Ssh_not_configured \<Rightarrow> None
      | Inl err \<Rightarrow> Some (Exec_error host)
      | Inr x \<Rightarrow>
          (case run x of
             Ran out err rc \<Rightarrow> Some (Exec_done out err rc)
           | Run_timed_out \<Rightarrow> Some (Exec_timeout timeout)
           | Run_raised msg \<Rightarrow> Some (Exec_error host)))"

datatype exec_status = Ex_running | Ex_completed | Ex_timeout | Ex_failed

record exec_session =
  xs_exec_id :: string
  xs_host :: string
  xs_command :: string
  xs_status :: exec_status
  xs_stdout :: string
  xs_stderr :: string
  xs_exit_code :: "int option"
  xs_started_at :: real

definition SSH_SESSION_TTL :: real where "SSH_SESSION_TTL = 3600"

definition prune_ssh_sessions :: "real \<Rightarrow> (string, exec_session) dict \<Rightarrow> (string, exec_session) dict" where
  "prune_ssh_sessions now d = dkeep (\<lambda>s. \<not> (xs_status s \<noteq> Ex_running \<and> now - xs_started_at s > SSH_SESSION_TTL)) d"

text \<open>\<open>exec_command_async\<close> up to the task it starts, and the body of that task.\<close>

definition exec_start :: "real \<Rightarrow> real \<Rightarrow> string \<Rightarrow> string \<Rightarrow> string \<Rightarrow> (string, exec_session) dict \<Rightarrow> (string, exec_session) dict" where
  "exec_start now started exec_id host command d =
     dset exec_id \<lparr>xs_exec_id = exec_id, xs_host = host, xs_command = command, xs_status = Ex_running, xs_stdout = [],
                   xs_stderr = [], xs_exit_code = None, xs_started_at = started\<rparr> (prune_ssh_sessions now d)"

definition exec_task :: "ssh_error + 'c \<Rightarrow> (ssh_error \<Rightarrow> string) \<Rightarrow> ('c \<Rightarrow> run_outcome) \<Rightarrow> exec_session \<Rightarrow> exec_session" where
  "exec_task conn show_error run s =
     (case conn of
        Inl err \<Rightarrow> s\<lparr>xs_status := Ex_failed, xs_stderr := show_error err\<rparr>
      | Inr x \<Rightarrow>
          (case run x of
             Ran out err rc \<Rightarrow> s\<lparr>xs_stdout := out, xs_stderr := err, xs_exit_code := rc, xs_status := Ex_completed\<rparr>
           | Run_timed_out \<Rightarrow> s\<lparr>xs_status := Ex_timeout\<rparr>
           | Run_raised msg \<Rightarrow> s\<lparr>xs_status := Ex_failed, xs_stderr := msg\<rparr>))"

end
