(* ===== verification/Config_Props.thy ===== *)
theory Config_Props
  imports Config_Build
begin

text \<open>
  What a configuration that loads promises: its shape, the environment references it
  needed, and what its redacted view can reveal.
\<close>

subsection \<open>Shape\<close>

definition one_credential :: "ssh_host \<Rightarrow> bool" where
  "one_credential h \<longleftrightarrow> (sh_password h = None) \<noteq> (sh_key_file h = None)"

definition config_hosts :: "config \<Rightarrow> ssh_host list" where
  "config_hosts c = ssh_hosts_of (cf_ssh c)"

definition config_ok :: "config \<Rightarrow> bool" where
  "config_ok c \<longleftrightarrow>
     distinct (map sh_name (config_hosts c)) \<and> distinct (map bd_id (cf_bmc_devices c)) \<and>
     (\<forall>h \<in> set (config_hosts c). one_credential h) \<and>
     (\<forall>d \<in> set (cf_bmc_devices c). truth (bd_jump_host d) \<longrightarrow> (\<exists>h \<in> set (config_hosts c). bd_jump_host d = PStr (sh_name h))) \<and>
     (case sv_refresh_token_ttl (cf_server c) of None \<Rightarrow> True | Some n \<Rightarrow> 0 < n \<and> n \<le> MAX_REFRESH_TOKEN_TTL) \<and>
     (case sv_named_token_ttl (cf_server c) of None \<Rightarrow> True | Some n \<Rightarrow> 0 \<le> n) \<and>
     fc_update_channel (cf_features c) \<in> set UPDATE_CHANNELS \<and>
     (cf_pve_nodes c \<noteq> [] \<or> cf_bmc_devices c \<noteq> [] \<or> config_hosts c \<noteq> [])"

lemma build_device_id: "build_device e i d = Inr x \<Longrightarrow> bd_id x = i"
  by (auto simp: build_device_def result_simps Let_def)

lemma build_devices_ids:
  "build_devices e seen ds = Inr xs \<Longrightarrow> distinct (map bd_id xs) \<and> set (map bd_id xs) \<inter> set seen = {}"
proof (induction e seen ds arbitrary: xs rule: build_devices.induct)
  case (2 e seen d ds)
  from "2.prems" obtain i x ys where *: "i \<notin> set seen" "build_device e i d = Inr x"
      "build_devices e (i # seen) ds = Inr ys" "xs = x # ys"
    by (auto simp: result_simps)
  from "2.IH"[OF *(3)] build_device_id[OF *(2)] * show ?case by auto
qed simp

lemma build_ssh_host_shape: "build_ssh_host e name h = Inr x \<Longrightarrow> sh_name x = name \<and> one_credential x"
  by (auto simp: build_ssh_host_def result_simps Let_def one_credential_def)

lemma build_ssh_hosts_shape:
  "build_ssh_hosts e seen hs = Inr xs \<Longrightarrow>
   distinct (map sh_name xs) \<and> set (map sh_name xs) \<inter> set seen = {} \<and> (\<forall>x \<in> set xs. one_credential x)"
proof (induction e seen hs arbitrary: xs rule: build_ssh_hosts.induct)
  case (2 e seen h hs)
  from "2.prems" obtain n x ys where *: "n \<notin> set seen" "build_ssh_host e n h = Inr x"
      "build_ssh_hosts e (n # seen) hs = Inr ys" "xs = x # ys"
    by (auto simp: result_simps)
  from "2.IH"[OF *(3)] build_ssh_host_shape[OF *(2)] * show ?case by auto
qed simp

lemma inherit_nodes_shape:
  assumes "(sd_password d = None) \<noteq> (sd_key_file d = None)" "distinct (map sh_name hosts)" "\<forall>h \<in> set hosts. one_credential h"
  shows "distinct (map sh_name (inherit_nodes d ns hosts)) \<and> (\<forall>h \<in> set (inherit_nodes d ns hosts). one_credential h)"
  using assms by (induction d ns hosts rule: inherit_nodes.induct) (auto simp: inherited_host_def one_credential_def)

lemma build_ssh_defaults_shape:
  "build_ssh_defaults e raw = Inr (Some d) \<Longrightarrow> (sd_password d = None) \<noteq> (sd_key_file d = None)"
  by (auto simp: build_ssh_defaults_def result_simps split: if_splits)

lemma list_case_Inr:
  "(case v of PList xs \<Rightarrow> f xs | _ \<Rightarrow> Inl err) = Inr y \<longleftrightarrow> (\<exists>xs. v = PList xs \<and> f xs = Inr y)"
  by (cases v) auto

lemma build_ssh_shape:
  assumes "build_ssh e nodes raw = Inr s"
  shows "distinct (map sh_name (ssh_hosts_of s)) \<and> (\<forall>h \<in> set (ssh_hosts_of s). one_credential h)"
proof (cases s)
  case (Some c)
  have "truth raw" using assms Some by (cases "truth raw") (simp_all add: build_ssh_def)
  with assms Some have "\<exists>hs hosts dflts_raw dflts inherit. build_ssh_hosts e [] hs = Inr hosts \<and>
      build_ssh_defaults e dflts_raw = Inr dflts \<and>
      sc_hosts c = (case dflts of Some d \<Rightarrow> if inherit then inherit_nodes d nodes hosts else hosts | None \<Rightarrow> hosts)"
    by (simp add: build_ssh_def Let_def ebind_Inr check_Inr list_case_Inr) (elim exE conjE, metis ssh_config.select_convs(1))
  then obtain hs hosts dflts_raw dflts inherit where
      h: "build_ssh_hosts e [] hs = Inr hosts" and d: "build_ssh_defaults e dflts_raw = Inr dflts"
    and c: "sc_hosts c = (case dflts of Some d \<Rightarrow> if inherit then inherit_nodes d nodes hosts else hosts | None \<Rightarrow> hosts)"
    by blast
  from build_ssh_hosts_shape[OF h] build_ssh_defaults_shape[of e dflts_raw] d inherit_nodes_shape[of _ hosts nodes]
  show ?thesis by (auto simp: Some c ssh_hosts_of_def split: option.split)
qed (simp add: ssh_hosts_of_def)

lemma check_jump_hosts_None:
  "check_jump_hosts hosts ds = None \<Longrightarrow> d \<in> set ds \<Longrightarrow> truth (bd_jump_host d) \<Longrightarrow>
   \<exists>h \<in> set hosts. bd_jump_host d = PStr (sh_name h)"
  by (induction hosts ds rule: check_jump_hosts.induct) (auto split: if_splits)

lemma build_server_shape:
  "build_server e srv = Inr s \<Longrightarrow>
   (case sv_named_token_ttl s of None \<Rightarrow> True | Some n \<Rightarrow> 0 \<le> n) \<and>
   (case sv_refresh_token_ttl s of None \<Rightarrow> True | Some n \<Rightarrow> 0 < n \<and> n \<le> MAX_REFRESH_TOKEN_TTL)"
proof -
  have limits: "server_limits t = Inr s \<Longrightarrow> ?thesis" for t
    by (simp only: server_limits_def check_Inr sum.inject) blast
  assume "build_server e srv = Inr s"
  then show ?thesis unfolding build_server_def ebind_Inr by (elim exE conjE) (rule limits)
qed

lemma build_features_shape: "build_features e feat = Inr f \<Longrightarrow> fc_update_channel f \<in> set UPDATE_CHANNELS"
  unfolding build_features_def ebind_Inr Let_def check_Inr by (elim exE conjE) (simp only: sum.inject, auto)

lemma build_config_parts:
  assumes "build_config e raw = Inr c"
  obtains items nodes ssh_raw srv_raw feat_raw where
    "build_devices e [] items = Inr (cf_bmc_devices c)" "build_ssh e nodes ssh_raw = Inr (cf_ssh c)"
    "build_server e srv_raw = Inr (cf_server c)" "build_features e feat_raw = Inr (cf_features c)"
    "cf_pve_nodes c \<noteq> [] \<or> cf_bmc_devices c \<noteq> [] \<or> ssh_hosts_of (cf_ssh c) \<noteq> []"
    "check_jump_hosts (ssh_hosts_of (cf_ssh c)) (cf_bmc_devices c) = None"
  using assms unfolding build_config_def ebind_Inr check_Inr
  by (elim exE conjE, split option.splits) (auto simp: ebind_Inr)

lemma build_config_ok:
  assumes "build_config e raw = Inr c"
  shows "config_ok c"
proof -
  from build_config_parts[OF assms] obtain items nodes ssh_raw srv_raw feat_raw where
    *: "build_devices e [] items = Inr (cf_bmc_devices c)" "build_ssh e nodes ssh_raw = Inr (cf_ssh c)"
    "build_server e srv_raw = Inr (cf_server c)" "build_features e feat_raw = Inr (cf_features c)"
    "cf_pve_nodes c \<noteq> [] \<or> cf_bmc_devices c \<noteq> [] \<or> ssh_hosts_of (cf_ssh c) \<noteq> []"
    "check_jump_hosts (ssh_hosts_of (cf_ssh c)) (cf_bmc_devices c) = None"
    by blast
  from build_devices_ids[OF *(1)] build_ssh_shape[OF *(2)] build_server_shape[OF *(3)] build_features_shape[OF *(4)] *(5)
       check_jump_hosts_None[OF *(6)]
  show ?thesis unfolding config_ok_def config_hosts_def by blast
qed

text \<open>
  C37: A configuration that loads is well formed: SSH names and BMC ids are unique, every SSH
  host has exactly one of a password and a key file (the entries synthesized for Proxmox nodes
  too), every jump host that is given is a declared SSH host, a refresh lifetime lies in (0,
  24 h] and a token lifetime is not negative, the update channel is one of the two that exist,
  and at least one capability is configured.
\<close>

theorem loaded_config_well_formed:
  assumes "from_yaml e raw = Inr c"
  shows "config_ok c"
proof -
  from assms obtain raw' where "build_config e raw' = Inr c" by (auto simp: from_yaml_def Let_def result_simps)
  then show ?thesis by (rule build_config_ok)
qed

subsection \<open>Environment references\<close>

text \<open>The variables that a YAML tree refers to.\<close>

fun env_refs :: "pyval \<Rightarrow> string list" and entry_refs :: "(string \<times> pyval) list \<Rightarrow> string list"
  and item_refs :: "pyval list \<Rightarrow> string list" where
  "env_refs (PDict d) = entry_refs d"
| "env_refs (PList xs) = item_refs xs"
| "env_refs (PStr s) = (case env_ref s of None \<Rightarrow> [] | Some n \<Rightarrow> [n])"
| "env_refs PNone = []"
| "env_refs (PBool b) = []"
| "env_refs (PInt n) = []"
| "env_refs (PFloat x) = []"
| "entry_refs [] = []"
| "entry_refs ((k, v) # d) = env_refs v @ entry_refs d"
| "item_refs [] = []"
| "item_refs (v # xs) = env_refs v @ item_refs xs"

definition usable :: "(string, string) dict \<Rightarrow> string \<Rightarrow> bool" where
  "usable env n \<longleftrightarrow> (case dget env n of None \<Rightarrow> False | Some s \<Rightarrow> s \<noteq> [])"

definition blames :: "(string, string) dict \<Rightarrow> string list \<Rightarrow> cfg_error \<Rightarrow> bool" where
  "blames env ns err \<longleftrightarrow>
     (\<exists>n w. n \<in> set ns \<and> (err = Unset_variable n w \<and> dget env n = None \<or> err = Empty_variable n w \<and> dget env n = Some []))"

lemma blames_append: "blames env ns err \<or> blames env ms err \<Longrightarrow> blames env (ns @ ms) err"
  by (auto simp: blames_def)

definition resolves_or_blames :: "(string, string) dict \<Rightarrow> string list \<Rightarrow> cfg_error + 'a \<Rightarrow> bool" where
  "resolves_or_blames env ns r \<longleftrightarrow>
     (case r of Inr _ \<Rightarrow> \<forall>n \<in> set ns. usable env n | Inl err \<Rightarrow> blames env ns err)"

lemma resolves_or_blames_bind:
  assumes "resolves_or_blames env ns a" "\<And>x. a = Inr x \<Longrightarrow> resolves_or_blames env ms (f x)"
  shows "resolves_or_blames env (ns @ ms) (ebind a f)"
  using assms by (cases a; cases "ebind a f") (auto simp: resolves_or_blames_def intro: blames_append)

lemma resolves_or_blames_map: "resolves_or_blames env ns (ebind r (\<lambda>x. Inr (f x))) = resolves_or_blames env ns r"
  by (cases r) (simp_all add: resolves_or_blames_def)

lemma resolve_env_total:
  "resolves_or_blames env (env_refs v) (resolve_env env crumbs v)"
  "resolves_or_blames env (entry_refs d) (resolve_entries env crumbs d)"
  "resolves_or_blames env (item_refs xs) (resolve_items env crumbs i xs)"
  by (induction env crumbs v and env crumbs d and env crumbs i xs
        rule: resolve_env_resolve_entries_resolve_items.induct)
     (auto simp: resolves_or_blames_map intro!: resolves_or_blames_bind,
      auto simp: resolves_or_blames_def usable_def blames_def split: option.split)

text \<open>
  C38: A YAML file with a placeholder whose environment variable is unset or empty does not load,
  and the error names such a variable of the file, as unset or as empty according to the
  environment: a secret that was never filled in is not read as a blank one.
\<close>

theorem unfilled_placeholder_is_refused:
  assumes "is_dict raw" "n \<in> set (env_refs raw)" "dget (ce_environ e) n = None \<or> dget (ce_environ e) n = Some []"
  shows "\<exists>err. from_yaml e raw = Inl err \<and> blames (ce_environ e) (env_refs raw) err"
proof -
  obtain d where d: "raw = PDict d" using assms(1) by (auto simp: is_dict_def split: pyval.splits)
  have "d \<noteq> []" using assms(2) by (auto simp: d)
  then have r: "pv_or raw (PDict []) = raw" by (simp add: d pv_or_def)
  show ?thesis
  proof (cases "resolve_env (ce_environ e) [] raw")
    case (Inl err)
    with resolve_env_total(1)[of "ce_environ e" raw "[]"] show ?thesis
      by (auto simp: from_yaml_def r assms(1) resolves_or_blames_def)
  next
    case (Inr v)
    with resolve_env_total(1)[of "ce_environ e" raw "[]"] assms(2,3) show ?thesis
      by (auto simp: resolves_or_blames_def usable_def)
  qed
qed

subsection \<open>The redacted view\<close>

text \<open>What the mask leaves of a secret; a value that the mask refuses is left alone.\<close>

definition cover :: "pyval \<Rightarrow> pyval" where
  "cover v = (case mask v of Inr w \<Rightarrow> w | Inl _ \<Rightarrow> v)"

definition cover_text :: "string \<Rightarrow> string" where
  "cover_text s = (if length s \<le> 4 then if s = [] then [] else ''***'' else take 2 s @ ''***'' @ drop (length s - 2) s)"

definition cover_host :: "ssh_host \<Rightarrow> ssh_host" where
  "cover_host h = h\<lparr>sh_password := map_option (\<lambda>p. if truth p then cover p else p) (sh_password h)\<rparr>"

definition cover_config :: "config \<Rightarrow> config" where
  "cover_config c = c
     \<lparr>cf_server := (cf_server c)\<lparr>sv_session_key := cover (pv_or (sv_session_key (cf_server c)) (PStr []))\<rparr>,
      cf_pve_nodes := map (\<lambda>n. n\<lparr>pn_token_secret := cover_text (pn_token_secret n)\<rparr>) (cf_pve_nodes c),
      cf_bmc_devices := map (\<lambda>d. d\<lparr>bd_password := cover_text (bd_password d)\<rparr>) (cf_bmc_devices c),
      cf_ssh := map_option (\<lambda>s. s\<lparr>sc_hosts := map cover_host (sc_hosts s), sc_defaults := None, sc_inherit := False\<rparr>) (cf_ssh c),
      cf_features := (cf_features c)\<lparr>fc_gemini_api_key := cover (fc_gemini_api_key (cf_features c))\<rparr>\<rparr>"

lemma mask_text: "mask (PStr s) = Inr (PStr (cover_text s))"
  by (simp add: mask_def cover_text_def)

lemma cover_text_idem: "cover_text (cover_text s) = cover_text s"
  by (auto simp: cover_text_def)

lemma mask_cover: "mask (cover v) = mask v"
  by (cases v) (auto simp: cover_def mask_text cover_text_idem, auto simp: mask_def)

lemma mask_nonempty: "mask v = Inr w \<Longrightarrow> truth v \<Longrightarrow> truth w"
  by (auto simp: mask_def split: pyval.splits if_splits)

lemma truth_cover: "truth v \<Longrightarrow> truth (cover v)"
  by (cases "mask v") (auto simp: cover_def mask_nonempty)

lemma cover_truth_or: "mask (pv_or (cover (pv_or v (PStr []))) (PStr [])) = mask (pv_or v (PStr []))"
proof (cases "truth v")
  case True
  then show ?thesis using truth_cover[OF True] by (simp add: pv_or_def mask_cover)
next
  case False
  then show ?thesis by (simp add: pv_or_def cover_def mask_text) (simp add: cover_text_def mask_def)
qed

lemma redact_host_cover: "redact_host (cover_host h) = redact_host h"
  by (cases "sh_password h") (simp_all add: redact_host_def cover_host_def truth_cover mask_cover)

lemma emap_map: "emap f (map g xs) = emap (\<lambda>x. f (g x)) xs"
  by (induction xs) simp_all

lemma redacted_cover: "redacted (cover_config c) = redacted c"
proof -
  have "redact_server ((cf_server c)\<lparr>sv_session_key := cover (pv_or (sv_session_key (cf_server c)) (PStr []))\<rparr>)
      = redact_server (cf_server c)"
    by (simp add: redact_server_def cover_truth_or)
  moreover have "emap redact_node (cf_pve_nodes (cover_config c)) = emap redact_node (cf_pve_nodes c)"
    by (simp add: cover_config_def emap_map redact_node_def[abs_def] mask_text cover_text_idem)
  moreover have "emap redact_device (cf_bmc_devices (cover_config c)) = emap redact_device (cf_bmc_devices c)"
    by (simp add: cover_config_def emap_map redact_device_def[abs_def] mask_text cover_text_idem)
  moreover have "redact_ssh (cf_ssh (cover_config c)) = redact_ssh (cf_ssh c)"
    by (simp add: cover_config_def redact_ssh_def emap_map redact_host_cover split: option.split)
  moreover have "redact_features (cf_features (cover_config c)) = redact_features (cf_features c)"
    by (simp add: cover_config_def redact_features_def mask_cover)
  ultimately show ?thesis by (simp add: redacted_def) (simp add: cover_config_def)
qed

text \<open>
  C39: The redacted view depends on a secret only through its mask: two configurations that agree
  once every credential (session key, token secrets, BMC and SSH passwords, model API key, and
  the SSH defaults as a whole) is replaced by what the mask leaves of it print the same view.
\<close>

theorem redacted_view_hides_secrets:
  assumes "cover_config c = cover_config c'"
  shows "redacted c = redacted c'"
  using redacted_cover[of c] redacted_cover[of c'] assms by simp

subsection \<open>Examples\<close>

definition demo_env :: cfg_env where
  "demo_env = \<lparr>ce_environ = [(''PVE_SECRET'', ''s3cr3t-one''), (''BLANK'', [])], ce_show = \<lambda>v. ''?'', ce_float = \<lambda>s. None,
               ce_expand = id, ce_exists = \<lambda>p. False\<rparr>"

definition demo_yaml :: "string \<Rightarrow> pyval" where
  "demo_yaml ref = PDict
     [(''proxmox'', PDict [(''nodes'', PList [PDict
          [(''name'', PStr ''pve1''), (''host'', PStr ''pve1.lan:8006''), (''token_id'', PStr ''root@pam!mcp''), (''token_secret'', PStr ref)]])]),
      (''ssh'', PDict [(''inherit_proxmox_nodes'', PBool True),
          (''defaults'', PDict [(''user'', PStr ''root''), (''key_file'', PStr ''/root/.ssh/id'')])]),
      (''bmc'', PDict [(''devices'', PList [PDict [(''id'', PStr ''ilo''), (''type'', PStr ''hp_ilo''), (''host'', PStr ''ilo.lan''),
          (''user'', PStr ''admin''), (''password'', PStr ''pass-word''), (''jump_host'', PStr ''pve1'')]])]),
      (''server'', PDict [(''refresh_token_ttl'', PInt 3600)]),
      (''infrastructure'', PDict [(''pdu_password'', PStr ref)])]"

lemma demo_loads: "\<exists>c. from_yaml demo_env (demo_yaml ''${PVE_SECRET}'') = Inr c"
proof -
  have "(case from_yaml demo_env (demo_yaml ''${PVE_SECRET}'') of Inr c \<Rightarrow> True | Inl _ \<Rightarrow> False)" by code_simp
  then show ?thesis by (simp split: sum.splits)
qed

lemma loaded_config_well_formed_witness:
  "\<exists>c. from_yaml demo_env (demo_yaml ''${PVE_SECRET}'') = Inr c \<and> config_ok c"
proof -
  obtain c where "from_yaml demo_env (demo_yaml ''${PVE_SECRET}'') = Inr c" using demo_loads by blast
  with loaded_config_well_formed[OF this] show ?thesis by blast
qed

lemma unfilled_placeholder_is_refused_witness:
  "\<exists>err. from_yaml demo_env (demo_yaml ''${BLANK}'') = Inl err \<and>
     blames (ce_environ demo_env) (env_refs (demo_yaml ''${BLANK}'')) err"
proof (rule unfilled_placeholder_is_refused)
  show "is_dict (demo_yaml ''${BLANK}'')" by code_simp
  show "''BLANK'' \<in> set (env_refs (demo_yaml ''${BLANK}''))" by code_simp
  show "dget (ce_environ demo_env) ''BLANK'' = None \<or> dget (ce_environ demo_env) ''BLANK'' = Some []" by code_simp
qed

definition demo_node :: "string \<Rightarrow> pve_node" where
  "demo_node secret = \<lparr>pn_name = ''pve1'', pn_host = ''pve1.lan'', pn_token_id = ''root@pam!mcp'', pn_token_secret = secret\<rparr>"

lemma redacted_view_hides_secrets_witness:
  "\<exists>c. from_yaml demo_env (demo_yaml ''${PVE_SECRET}'') = Inr c \<and>
     redacted (c\<lparr>cf_pve_nodes := [demo_node ''s3-first-9k'']\<rparr>) =
     redacted (c\<lparr>cf_pve_nodes := [demo_node ''s3-other-secret-9k'']\<rparr>)"
proof -
  obtain c where c: "from_yaml demo_env (demo_yaml ''${PVE_SECRET}'') = Inr c" using demo_loads by blast
  have "redacted (c\<lparr>cf_pve_nodes := [demo_node ''s3-first-9k'']\<rparr>) =
     redacted (c\<lparr>cf_pve_nodes := [demo_node ''s3-other-secret-9k'']\<rparr>)"
    by (rule redacted_view_hides_secrets) (simp add: cover_config_def demo_node_def cover_text_def)
  with c show ?thesis by blast
qed

text \<open>
  The parts that a loaded configuration prints as they are: a secret that \<open>infrastructure\<close>
  refers to is resolved on loading and shown whole.
\<close>

lemma infrastructure_is_printed_whole:
  "redacted c = Inr v \<Longrightarrow> \<exists>d. v = PDict d \<and> dget d ''infrastructure'' = Some (cf_infrastructure c)"
  by (auto simp: redacted_def result_simps)

lemma infrastructure_secret_is_shown:
  "(case from_yaml demo_env (demo_yaml ''${PVE_SECRET}'') of
      Inl _ \<Rightarrow> False | Inr c \<Rightarrow> cf_infrastructure c = PDict [(''pdu_password'', PStr ''s3cr3t-one'')])"
  by code_simp

text \<open>An inherited node keeps the API port in the address that SSH will dial.\<close>

lemma inherited_address_keeps_api_port:
  "(case from_yaml demo_env (demo_yaml ''${PVE_SECRET}'') of
      Inl _ \<Rightarrow> False | Inr c \<Rightarrow> map sh_host (config_hosts c) = [''pve1.lan:8006''] \<and> get_node_host c ''pve1'' = Some ''pve1.lan'')"
  by code_simp

lemma bare_ipv6_loses_its_last_group: "strip_port ''fe80::1'' = ''fe80:''"
  by code_simp

end
