(* ===== verification/Ssh_Props.thy ===== *)
theory Ssh_Props
  imports Ssh_Client Config_Props
begin

text \<open>
  What the SSH client promises: which hosts an identifier can reach, which connection it is
  given, and when a host key goes unchecked.
\<close>

subsection \<open>Which host\<close>

lemma find_prop: "find P xs = Some x \<Longrightarrow> x \<in> set xs \<and> P x"
  by (auto simp: find_Some_iff)

lemma get_ssh_host_by_address_Some: "get_ssh_host_by_address c a = Some h \<Longrightarrow> h \<in> set (config_hosts c) \<and> sh_host h = a"
  unfolding get_ssh_host_by_address_def config_hosts_def by (rule find_prop)

lemma get_ssh_host_Some: "get_ssh_host c n = Some h \<Longrightarrow> h \<in> set (config_hosts c) \<and> sh_name h = n"
  unfolding get_ssh_host_def config_hosts_def by (rule find_prop)

text \<open>The host an identifier may stand for: by name, by its VMID address, by its address.\<close>

definition stands_for :: "(string \<Rightarrow> string \<Rightarrow> fmt_result) \<Rightarrow> config \<Rightarrow> string \<Rightarrow> ssh_host \<Rightarrow> bool" where
  "stands_for fld c ident h \<longleftrightarrow>
     h \<in> set (config_hosts c) \<and>
     (sh_name h = ident \<or>
      py_isdigit ident \<and> (\<exists>s t. cf_ssh c = Some s \<and> sc_vmid_to_ip s = PStr t \<and> format_id fld ident t = Fmt_text (sh_host h)) \<or>
      \<not> py_isdigit ident \<and> sh_host h = ident)"

lemma resolve_vmid_Inr:
  assumes "resolve_vmid fld c ident = Inr h"
  shows "h \<in> set (config_hosts c) \<and>
    (\<exists>s t. cf_ssh c = Some s \<and> sc_vmid_to_ip s = PStr t \<and> format_id fld ident t = Fmt_text (sh_host h))"
  using assms
  by (auto simp: resolve_vmid_def Let_def split: option.splits if_splits pyval.splits fmt_result.splits
        dest: get_ssh_host_by_address_Some)

lemma resolve_Inr: "resolve fld c ident = Inr h \<Longrightarrow> stands_for fld c ident h"
  by (auto simp: resolve_def stands_for_def split: option.splits if_splits
        dest: get_ssh_host_Some get_ssh_host_by_address_Some resolve_vmid_Inr)

subsection \<open>Which connection\<close>

text \<open>Any sequence of calls; each connection that asyncssh opens belongs to the host it was opened for.\<close>

inductive cache_run :: "cfg_env \<Rightarrow> (string \<Rightarrow> string \<Rightarrow> fmt_result) \<Rightarrow> config \<Rightarrow> ('c \<Rightarrow> ssh_host) \<Rightarrow> (string, 'c \<times> real) dict \<Rightarrow> bool"
  for e fld c owner where
  cache_empty: "cache_run e fld c owner []"
| cache_call: "cache_run e fld c owner cache \<Longrightarrow> (\<And>h pol x. connect h pol = Inr x \<Longrightarrow> owner x = h) \<Longrightarrow>
     cache_run e fld c owner (fst (snd (get_connection e fld c connect gone now later ident cache)))"

definition cache_ok :: "config \<Rightarrow> ('c \<Rightarrow> ssh_host) \<Rightarrow> (string, 'c \<times> real) dict \<Rightarrow> bool" where
  "cache_ok c owner cache \<longleftrightarrow>
     (\<forall>name conn t. dget cache name = Some (conn, t) \<longrightarrow> owner conn \<in> set (config_hosts c) \<and> sh_name (owner conn) = name)"

lemma fresh_connection_ok:
  assumes "\<And>h pol x. connect h pol = Inr x \<Longrightarrow> owner x = h" "spec \<in> set (config_hosts c)" "cache_ok c owner cache"
  shows "cache_ok c owner (snd (fresh_connection e c connect later spec cache))"
    and "fst (fresh_connection e c connect later spec cache) = Inr conn \<Longrightarrow> owner conn = spec"
proof -
  have own: "owner x = spec" if "ebind (host_key_policy e c spec) (connect spec) = Inr x" for x
    using that assms(1) by (auto simp: ebind_Inr)
  then show "cache_ok c owner (snd (fresh_connection e c connect later spec cache))"
    using assms(2,3) by (auto simp: fresh_connection_def cache_ok_def split: sum.split)
  show "fst (fresh_connection e c connect later spec cache) = Inr conn \<Longrightarrow> owner conn = spec"
    using own by (auto simp: fresh_connection_def split: sum.splits)
qed

lemma cache_ok_pop: "cache_ok c owner cache \<Longrightarrow> cache_ok c owner (dpop name cache)"
  by (simp add: cache_ok_def)

lemma get_connection_cases:
  obtains (refused) err where "get_connection e fld c connect gone now later ident cache = (Inl err, cache, [])"
  | (cached) spec conn t where "resolve fld c ident = Inr spec" "dget cache (sh_name spec) = Some (conn, t)"
      "now - t < CONNECTION_TTL" "gone conn = Some False"
      "get_connection e fld c connect gone now later ident cache = (Inr conn, cache, [])"
  | (fresh) spec cache0 cl where "resolve fld c ident = Inr spec" "cache0 = cache \<or> cache0 = dpop (sh_name spec) cache"
      "get_connection e fld c connect gone now later ident cache =
         (fst (fresh_connection e c connect later spec cache0), snd (fresh_connection e c connect later spec cache0), cl)"
proof (cases "resolve fld c ident")
  case (Inl err)
  then show ?thesis by (intro refused) (simp add: get_connection_def)
next
  case (Inr spec)
  show ?thesis
  proof (cases "dget cache (sh_name spec)")
    case None
    then show ?thesis by (intro fresh[OF Inr, of cache "[]"]) (simp_all add: get_connection_def Inr split: prod.split)
  next
    case (Some entry)
    obtain conn t where e: "entry = (conn, t)" by fastforce
    show ?thesis
    proof (cases "now - t < CONNECTION_TTL \<and> gone conn = Some False")
      case True
      with Some e show ?thesis by (intro cached[OF Inr Some[unfolded e]]) (simp_all add: get_connection_def Inr)
    next
      case False
      with Some e show ?thesis
        by (intro fresh[OF Inr, of "dpop (sh_name spec) cache" "[conn]"]) (simp_all add: get_connection_def Inr split: prod.split)
    qed
  qed
qed

lemma cache_run_ok: "cache_run e fld c owner cache \<Longrightarrow> cache_ok c owner cache"
proof (induction rule: cache_run.induct)
  case cache_empty
  show ?case by (simp add: cache_ok_def)
next
  case (cache_call cache connect gone now later ident)
  show ?case
  proof (cases rule: get_connection_cases[of e fld c connect gone now later ident cache])
    case (fresh spec cache0 cl)
    have "spec \<in> set (config_hosts c)" using resolve_Inr[OF fresh(1)] by (simp add: stands_for_def)
    moreover have "cache_ok c owner cache0" using fresh(2) cache_call.IH cache_ok_pop by blast
    ultimately show ?thesis using fresh(3) fresh_connection_ok(1)[of connect owner spec c cache0] cache_call.hyps(2) by simp
  qed (use cache_call.IH in simp_all)
qed

text \<open>
  With a configuration that was built, whatever calls came before, the connection a call is
  given was opened for the very host its identifier stands for: a declared host, found by its
  name, by the address its VMID formats to, or by its address; a reused connection was open
  and less than five minutes old.  No identifier reaches an undeclared machine or a connection
  with another host's credentials.
\<close>

theorem connection_is_to_the_declared_host:
  assumes "build_config e raw = Inr c" "cache_run e' fld c owner cache"
    and "\<And>h pol x. connect h pol = Inr x \<Longrightarrow> owner x = h"
    and "get_connection e' fld c connect gone now later ident cache = (Inr conn, cache', cl)"
  shows "resolve fld c ident = Inr (owner conn) \<and> stands_for fld c ident (owner conn) \<and>
    (dget cache' (sh_name (owner conn)) = Some (conn, later) \<or>
     (\<exists>t. dget cache (sh_name (owner conn)) = Some (conn, t) \<and> now - t < 300 \<and> gone conn = Some False))"
proof -
  have ok: "cache_ok c owner cache" by (rule cache_run_ok[OF assms(2)])
  have names: "distinct (map sh_name (config_hosts c))" using build_config_ok[OF assms(1)] by (simp add: config_ok_def)
  show ?thesis
  proof (cases rule: get_connection_cases[of e' fld c connect gone now later ident cache])
    case (refused err)
    then show ?thesis using assms(4) by simp
  next
    case (cached spec x t)
    have x: "x = conn" using cached(5) assms(4) by simp
    have "owner conn \<in> set (config_hosts c)" "sh_name (owner conn) = sh_name spec"
      using ok cached(2) by (auto simp: cache_ok_def x)
    moreover have "spec \<in> set (config_hosts c)" using resolve_Inr[OF cached(1)] by (simp add: stands_for_def)
    ultimately have "owner conn = spec" using names by (auto simp: distinct_map dest: inj_onD)
    then show ?thesis using cached resolve_Inr[OF cached(1)] by (auto simp: x CONNECTION_TTL_def)
  next
    case (fresh spec cache0 cl')
    have spec: "spec \<in> set (config_hosts c)" using resolve_Inr[OF fresh(1)] by (simp add: stands_for_def)
    have ok0: "cache_ok c owner cache0" using fresh(2) ok cache_ok_pop by blast
    have r: "fst (fresh_connection e' c connect later spec cache0) = Inr conn"
        "snd (fresh_connection e' c connect later spec cache0) = cache'"
      using fresh(3) assms(4) by simp_all
    have own: "owner conn = spec" by (rule fresh_connection_ok(2)[OF assms(3) spec ok0 r(1)])
    have "dget cache' (sh_name spec) = Some (conn, later)"
      using r by (auto simp: fresh_connection_def split: sum.splits)
    then show ?thesis using own fresh(1) resolve_Inr[OF fresh(1)] by simp
  qed
qed

subsection \<open>Which host key\<close>

text \<open>
  Host keys go unchecked only on an explicit word: a connection is opened without host-key
  verification exactly when no known-hosts file is set for the host or for SSH as a whole and
  the setting that applies to the host (its own, else the general one) is
  \<open>strict_host_key_checking: false\<close>.
\<close>

theorem unchecked_only_on_request:
  assumes "host_key_policy e c spec = Inr pol"
  shows "known_hosts_option impk file spec pol = No_check \<longleftrightarrow>
    \<not> truth (opt_val (sh_known_hosts spec)) \<and> (\<forall>s. cf_ssh c = Some s \<longrightarrow> \<not> truth (opt_val (sc_known_hosts s))) \<and>
    (sh_strict spec = Some False \<or> sh_strict spec = None \<and> (\<exists>s. cf_ssh c = Some s \<and> sc_strict s = Some False))"
  using assms
  by (auto simp: host_key_policy_def known_hosts_option_def Let_def pv_or_def split: if_splits option.splits pyval.splits)

subsection \<open>Examples\<close>

text \<open>Two calls for the same node, the second of which reuses the connection of the first.\<close>

definition demo_call :: "config \<Rightarrow> real \<Rightarrow> (string, ssh_host \<times> real) dict \<Rightarrow>
    (ssh_error + ssh_host) \<times> (string, ssh_host \<times> real) dict \<times> ssh_host list" where
  "demo_call c now cache =
     get_connection demo_env (\<lambda>s i. Fmt_error) c (\<lambda>h pol. Inr h) (\<lambda>x. Some False) now (now + 1) ''pve1'' cache"

lemma demo_calls:
  "\<exists>c h. build_config demo_env (demo_yaml ''tok-secret'') = Inr c \<and>
     fst (demo_call c 100 (fst (snd (demo_call c 0 [])))) = Inr h"
proof -
  have "(case build_config demo_env (demo_yaml ''tok-secret'') of Inl _ \<Rightarrow> False
         | Inr c \<Rightarrow> (case fst (demo_call c 100 (fst (snd (demo_call c 0 [])))) of Inr h \<Rightarrow> True | Inl _ \<Rightarrow> False))"
    by code_simp
  then show ?thesis by (simp split: sum.splits)
qed

lemma connection_is_to_the_declared_host_witness:
  "\<exists>c h. build_config demo_env (demo_yaml ''tok-secret'') = Inr c \<and>
     fst (demo_call c 100 (fst (snd (demo_call c 0 [])))) = Inr h \<and> stands_for (\<lambda>s i. Fmt_error) c ''pve1'' h"
proof -
  obtain c h where c: "build_config demo_env (demo_yaml ''tok-secret'') = Inr c"
    and h: "fst (demo_call c 100 (fst (snd (demo_call c 0 [])))) = Inr h"
    using demo_calls by blast
  let ?cache = "fst (snd (demo_call c 0 []))"
  have run: "cache_run demo_env (\<lambda>s i. Fmt_error) c id ?cache"
    unfolding demo_call_def by (rule cache_call[OF cache_empty]) simp
  obtain cache' cl where "demo_call c 100 ?cache = (Inr h, cache', cl)" using h by (metis prod.collapse)
  then have "get_connection demo_env (\<lambda>s i. Fmt_error) c (\<lambda>h pol. Inr h) (\<lambda>x. Some False) 100 (100 + 1) ''pve1'' ?cache
      = (Inr h, cache', cl)"
    by (simp only: demo_call_def)
  from connection_is_to_the_declared_host[OF c run _ this] c h show ?thesis by auto
qed

definition any_host :: "bool option \<Rightarrow> ssh_host" where
  "any_host strict = \<lparr>sh_name = ''lab'', sh_host = ''10.0.0.9'', sh_user = ''root'', sh_port = 22, sh_password = None,
     sh_key_file = Some (PStr ''id''), sh_known_hosts = None, sh_strict = strict\<rparr>"

lemma unchecked_only_on_request_witness:
  "\<exists>c pol. build_config demo_env (demo_yaml ''tok-secret'') = Inr c \<and>
     host_key_policy demo_env c (any_host (Some False)) = Inr pol \<and>
     known_hosts_option toy_import None (any_host (Some False)) pol = No_check"
proof -
  have "(case build_config demo_env (demo_yaml ''tok-secret'') of Inl _ \<Rightarrow> False
         | Inr c \<Rightarrow> host_key_policy demo_env c (any_host (Some False)) = Inr Any_key \<and>
             (\<forall>s \<in> set_option (cf_ssh c). sc_known_hosts s = None))"
    by code_simp
  then obtain c where c: "build_config demo_env (demo_yaml ''tok-secret'') = Inr c"
    and p: "host_key_policy demo_env c (any_host (Some False)) = Inr Any_key"
    and s: "\<forall>s \<in> set_option (cf_ssh c). sc_known_hosts s = None"
    by (auto split: sum.splits)
  have "\<forall>s. cf_ssh c = Some s \<longrightarrow> \<not> truth (opt_val (sc_known_hosts s))" using s by (auto simp: opt_val_def)
  moreover have "\<not> truth (opt_val (sh_known_hosts (any_host (Some False))))" "sh_strict (any_host (Some False)) = Some False"
    by (simp_all add: any_host_def opt_val_def)
  ultimately show ?thesis using unchecked_only_on_request[OF p, of toy_import None] c p by blast
qed

end
