(* ===== verification/Chat_Gate.thy ===== *)
theory Chat_Gate
  imports Py_Val
begin

text \<open>
  Which tool calls of a chat turn, or of a panel, need a human's approval
  (\<open>dashboard/chat.py\<close>), and the \<open>ssh_run\<close> tool (\<open>ssh/tools.py\<close>) whose polling
  form is let through.
\<close>

subsection \<open>The gate of the model's calls\<close>

definition NEEDS_CONFIRMATION :: "string list" where
  "NEEDS_CONFIRMATION =
     [''ssh_run'', ''proxmox_run'', ''proxmox_write_file'', ''proxmox_upload_file'', ''proxmox_download_file'',
      ''proxmox_delete_transfer'', ''proxmox_upload_link'', ''proxmox_fetch_url'', ''vm_bulk_action'', ''proxmox_vm_stop'',
      ''proxmox_vm_restart'', ''proxmox_vm_migrate'', ''proxmox_snapshot_rollback'', ''proxmox_snapshot_delete'',
      ''proxmox_backup_restore'', ''proxmox_vm_clone'', ''proxmox_backup_create'', ''bmc_power_off'', ''bmc_power_reset'',
      ''ssh_exec_command'', ''ssh_exec_command_async'', ''proxmox_exec_command'', ''proxmox_exec_command_async'']"

definition CONFIRM_WHEN_ARG_PRESENT :: "(string, string) dict" where
  "CONFIRM_WHEN_ARG_PRESENT =
     [(''proxmox_vm_config'', ''updates''), (''beaconmcp_self_update'', ''confirm''), (''proxmox_vm_create'', ''config'')]"

definition DRY_RUN_AWARE :: "string list" where
  "DRY_RUN_AWARE = [''proxmox_snapshot_create'', ''proxmox_snapshot_rollback'', ''proxmox_snapshot_delete'']"

definition requires_confirmation :: "string \<Rightarrow> pyval \<Rightarrow> bool" where
  "requires_confirmation name args =
     (case dget CONFIRM_WHEN_ARG_PRESENT name of
        Some arg \<Rightarrow> is_dict args \<and> truth (dict_arg args arg)
      | None \<Rightarrow>
          if name \<notin> set NEEDS_CONFIRMATION then False
          else if is_dict args \<and> name \<in> {''ssh_run'', ''proxmox_run''} \<and>
                  truth (dict_arg args ''exec_id'') \<and> \<not> truth (dict_arg args ''command'') then False
          else if is_dict args \<and> name = ''proxmox_upload_link'' \<and> truth (dict_arg args ''link_id'') then False
          else if is_dict args \<and> name \<in> set DRY_RUN_AWARE \<and> dict_arg args ''dry_run'' = PBool True then False
          else True)"

subsection \<open>The calls a panel may make by itself\<close>

definition PANEL_CALL_EXEMPT :: "string list" where
  "PANEL_CALL_EXEMPT = [''proxmox_vm_start'', ''proxmox_vm_stop'', ''proxmox_vm_restart'']"

definition PANEL_CONFIG_KEYS :: "string list" where
  "PANEL_CONFIG_KEYS = [''cores'', ''sockets'', ''memory'', ''balloon'', ''cpulimit'', ''cpuunits'']"

definition panel_call_allowed :: "string \<Rightarrow> pyval \<Rightarrow> bool" where
  "panel_call_allowed name args =
     (if name \<in> set PANEL_CALL_EXEMPT then True
      else if name = ''proxmox_vm_config'' then
        (let updates = (if is_dict args then dict_arg args ''updates'' else PNone)
         in if \<not> truth updates then True
            else case updates of PDict d \<Rightarrow> set (dkeys d) \<subseteq> set PANEL_CONFIG_KEYS | _ \<Rightarrow> False)
      else \<not> requires_confirmation name args)"

subsection \<open>The shell tool\<close>

text \<open>
  \<open>ssh_run\<close> up to the command it starts: what it polls, refuses or starts, and how long it
  then waits for it (None: not at all).
\<close>

datatype ssh_run_action =
    Poll_session string
  | Missing_arguments
  | Start_command string string "int option"

definition ssh_run :: "string \<Rightarrow> string \<Rightarrow> int \<Rightarrow> bool \<Rightarrow> string \<Rightarrow> ssh_run_action" where
  "ssh_run host command timeout wait exec_id =
     (if exec_id \<noteq> [] then Poll_session exec_id
      else if host = [] \<or> command = [] then Missing_arguments
      else Start_command host command (if wait then Some (min (max timeout 1) 600) else None))"

text \<open>The arguments of a call, as texts with the tool's defaults.\<close>

definition text_arg :: "pyval \<Rightarrow> string \<Rightarrow> string" where
  "text_arg args key = (case dict_arg args key of PStr s \<Rightarrow> s | _ \<Rightarrow> [])"

definition text_args :: "pyval \<Rightarrow> string list \<Rightarrow> bool" where
  "text_args args keys \<longleftrightarrow>
     (case args of PDict d \<Rightarrow> (\<forall>k \<in> set keys. case dget d k of None \<Rightarrow> True | Some v \<Rightarrow> (case v of PStr s \<Rightarrow> True | _ \<Rightarrow> False))
      | _ \<Rightarrow> False)"

end
