(* ===== verification/Chat_Engine.thy ===== *)
theory Chat_Engine
  imports Chat_Gate Confirm_Calls
begin

text \<open>
  A chat turn (\<open>GeminiChatEngine\<close> in \<open>dashboard/chat.py\<close>): the rounds of the
  function-calling loop, the gate before each tool, the retries, and the message that is kept.
  The model's stream, the MCP session and the approval callback are the parameters of the
  record \<open>chat_host\<close>, over a state \<open>'w\<close> of the world.  Durations and previews of the
  tool cards are left out.  Beside its events a turn lists its actions: the streams it asks
  for, the answers it gets to its approval requests and the tools it calls.
\<close>

subsection \<open>Data\<close>

type_synonym args = "(string, pyval) dict"

record fcall =
  fc_id :: string
  fc_name :: string
  fc_args :: args

record tcall =
  tc_id :: string
  tc_name :: string
  tc_args :: pyval

record tresponse =
  tr_id :: string
  tr_name :: string
  tr_payload :: pyval

text \<open>A part of a streamed chunk; an absent text or id is empty.\<close>

record gpart =
  gp_text :: string
  gp_thought :: bool
  gp_fcall :: "fcall option"
  gp_tcall :: "tcall option"
  gp_tresponse :: "tresponse option"

record usage_meta =
  um_prompt :: int
  um_cached :: int
  um_output :: int

record chunk =
  ck_usage :: "usage_meta option"
  ck_parts :: "gpart list"

record chat_exc =
  ex_type :: string
  ex_msg :: string

text \<open>The answer of a tool: its payload for the model, its error flag, the panel it names.\<close>

record call_result =
  cr_payload :: pyval
  cr_is_error :: bool
  cr_uri :: "string option"

datatype content =
    User_text string
  | Model_text string
  | Model_parts "gpart list"
  | Tool_responses "(string \<times> string \<times> pyval) list"

datatype chat_event =
    Text_delta string
  | Thinking_delta string
  | Tool_call_start string string pyval
  | Tool_call_end string string "string option"
  | Tool_confirm_required string string args
  | Error_event string
  | Usage_accumulated string int int int

datatype chat_action = Streamed | Asked string string args bool | Called string args

record chat_message =
  cm_role :: string
  cm_content :: string

record turn_input =
  ti_history :: "chat_message list"
  ti_user_text :: string
  ti_app_block :: string
  ti_model :: string
  ti_remote :: bool

record 'w chat_host =
  ch_open :: "'w \<Rightarrow> bool \<times> 'w"
  ch_list_tools :: "'w \<Rightarrow> (string, string option) dict option \<times> 'w"
  ch_stream :: "string \<Rightarrow> content list \<Rightarrow> 'w \<Rightarrow> (chunk list \<times> chat_exc option) \<times> 'w"
  ch_call :: "string \<Rightarrow> args \<Rightarrow> 'w \<Rightarrow> (string + call_result) \<times> 'w"
  ch_confirm :: "(string \<Rightarrow> string \<Rightarrow> args \<Rightarrow> 'w \<Rightarrow> bool option \<times> 'w) option"

subsection \<open>The contents of the first request\<close>

definition history_content :: "chat_message \<Rightarrow> content list" where
  "history_content m =
     (if cm_role m = ''user'' \<and> cm_content m \<noteq> [] then [User_text (cm_content m)]
      else if cm_role m = ''assistant'' \<and> cm_content m \<noteq> [] then [Model_text (cm_content m)]
      else [])"

definition build_contents :: "turn_input \<Rightarrow> content list" where
  "build_contents t =
     concat (map history_content (ti_history t)) @ (if ti_app_block t \<noteq> [] then [User_text (ti_app_block t)] else [])
     @ [User_text (ti_user_text t)]"

subsection \<open>Reading the stream\<close>

text \<open>The state of a turn, and what a round has collected so far.\<close>

record turn_state =
  ts_events :: "chat_event list"
  ts_acts :: "chat_action list"
  ts_contents :: "content list"
  ts_seen :: "string list"
  ts_names :: "(string, string) dict"
  ts_prompt :: int
  ts_cached :: int
  ts_output :: int
  ts_visible :: bool

record round_state =
  rd_turn :: turn_state
  rd_parts :: "gpart list"
  rd_calls :: "(string \<times> fcall \<times> gpart) list"
  rd_visible :: bool
  rd_usage :: "usage_meta option"

definition emit :: "chat_event list \<Rightarrow> turn_state \<Rightarrow> turn_state" where
  "emit es s = s\<lparr>ts_events := ts_events s @ es\<rparr>"

definition act :: "chat_action \<Rightarrow> turn_state \<Rightarrow> turn_state" where
  "act a s = s\<lparr>ts_acts := ts_acts s @ [a]\<rparr>"

definition text_gpart :: "string \<Rightarrow> bool \<Rightarrow> gpart" where
  "text_gpart s th = \<lparr>gp_text = s, gp_thought = th, gp_fcall = None, gp_tcall = None, gp_tresponse = None\<rparr>"

definition paragraph_break :: string where
  "paragraph_break = [CHR 0x0A, CHR 0x0A]"

definition fresh_id :: "string \<Rightarrow> string \<Rightarrow> turn_state \<Rightarrow> string" where
  "fresh_id given pre s = (if given \<noteq> [] then given else pre @ show_int (int (length (ts_seen s))))"

definition read_text :: "gpart \<Rightarrow> round_state \<Rightarrow> round_state" where
  "read_text p r =
     (if gp_text p = [] then r
      else if gp_thought p then
        r\<lparr>rd_turn := emit [Thinking_delta (gp_text p)] (rd_turn r), rd_parts := rd_parts r @ [text_gpart (gp_text p) True]\<rparr>
      else
        let gap = ts_visible (rd_turn r) \<and> \<not> rd_visible r
        in r\<lparr>rd_turn := (emit ((if gap then [Text_delta paragraph_break] else []) @ [Text_delta (gp_text p)]) (rd_turn r))
                          \<lparr>ts_visible := True\<rparr>,
             rd_visible := True,
             rd_parts := rd_parts r @ (if gap then [text_gpart paragraph_break False] else []) @ [text_gpart (gp_text p) False]\<rparr>)"

definition read_fcall :: "gpart \<Rightarrow> round_state \<Rightarrow> round_state" where
  "read_fcall p r =
     (case gp_fcall p of None \<Rightarrow> r
      | Some fc \<Rightarrow> r\<lparr>rd_calls := rd_calls r @ [(fresh_id (fc_id fc) ''fc_'' (rd_turn r), fc, p)]\<rparr>)"

definition read_tcall :: "gpart \<Rightarrow> round_state \<Rightarrow> round_state" where
  "read_tcall p r =
     (case gp_tcall p of None \<Rightarrow> r
      | Some tc \<Rightarrow>
          let s = rd_turn r; i = fresh_id (tc_id tc) ''tc_'' s
          in r\<lparr>rd_turn :=
                 (if i \<in> set (ts_seen s) then s
                  else emit [Tool_call_start i (tc_name tc) (if is_dict (tc_args tc) then tc_args tc else PDict [])]
                         (s\<lparr>ts_seen := i # ts_seen s, ts_names := dset i (tc_name tc) (ts_names s)\<rparr>)),
               rd_parts := rd_parts r @ [p]\<rparr>)"

text \<open>\<open>_tool_response_is_error\<close>.\<close>

definition response_is_error :: "pyval \<Rightarrow> bool" where
  "response_is_error payload \<longleftrightarrow>
     is_dict payload \<and>
     (truth (dict_arg payload ''error'') \<or>
      (let st = dict_arg payload ''status'' in truth st \<and> py_lower (py_str st) \<in> {''error'', ''failed'', ''failure''}) \<or>
      (case dict_arg payload ''url_retrieval_status'' of PStr s \<Rightarrow> endswith s ''_ERROR'' | _ \<Rightarrow> False))"

definition read_tresponse :: "gpart \<Rightarrow> round_state \<Rightarrow> round_state" where
  "read_tresponse p r =
     (case gp_tresponse p of None \<Rightarrow> r
      | Some tr \<Rightarrow>
          let s = rd_turn r; i = fresh_id (tr_id tr) ''tr_'' s;
              name = (case dget (ts_names s) i of Some n \<Rightarrow> if n \<noteq> [] then n else tr_name tr | None \<Rightarrow> tr_name tr);
              s1 = (if i \<in> set (ts_seen s) then s
                    else emit [Tool_call_start i name (PDict [])] (s\<lparr>ts_seen := i # ts_seen s\<rparr>))
          in r\<lparr>rd_turn := emit [Tool_call_end i (if response_is_error (tr_payload tr) then ''error'' else ''ok'') None] s1,
               rd_parts := rd_parts r @ [p]\<rparr>)"

definition read_part :: "gpart \<Rightarrow> round_state \<Rightarrow> round_state" where
  "read_part p r = read_tresponse p (read_tcall p (read_fcall p (read_text p r)))"

definition read_chunk :: "chunk \<Rightarrow> round_state \<Rightarrow> round_state" where
  "read_chunk c r =
     fold read_part (ck_parts c) (case ck_usage c of None \<Rightarrow> r | Some u \<Rightarrow> r\<lparr>rd_usage := Some u\<rparr>)"

definition round_start :: "turn_state \<Rightarrow> round_state" where
  "round_start s = \<lparr>rd_turn = s, rd_parts = [], rd_calls = [], rd_visible = False, rd_usage = None\<rparr>"

definition add_usage :: "usage_meta option \<Rightarrow> turn_state \<Rightarrow> turn_state" where
  "add_usage u s =
     (case u of None \<Rightarrow> s
      | Some m \<Rightarrow> s\<lparr>ts_prompt := ts_prompt s + um_prompt m, ts_cached := ts_cached s + um_cached m,
                    ts_output := ts_output s + um_output m\<rparr>)"

definition usage_event :: "turn_input \<Rightarrow> turn_state \<Rightarrow> chat_event" where
  "usage_event t s = Usage_accumulated (ti_model t) (ts_prompt s) (ts_cached s) (ts_output s)"

subsection \<open>One tool call\<close>

definition rejected_payload :: pyval where
  "rejected_payload = PDict [(''error'', PStr ''user_rejected''),
     (''message'', PStr ''The user rejected this tool call from the dashboard.'')]"

definition ask_approval :: "'w chat_host \<Rightarrow> string \<Rightarrow> string \<Rightarrow> args \<Rightarrow> turn_state \<Rightarrow> 'w \<Rightarrow> bool \<times> turn_state \<times> 'w" where
  "ask_approval h i name a s w =
     (if \<not> requires_confirmation name (PDict a) then (True, s, w)
      else
        let s1 = emit [Tool_confirm_required i name a] s
        in case ch_confirm h of
             None \<Rightarrow> (False, s1, w)
           | Some f \<Rightarrow>
               (case f i name a w of
                  (answer, w1) \<Rightarrow> let ok = (answer = Some True) in (ok, act (Asked i name a ok) s1, w1)))"

definition call_tool :: "'w chat_host \<Rightarrow> (string, string option) dict \<Rightarrow> string \<Rightarrow> string \<Rightarrow> args \<Rightarrow> turn_state \<Rightarrow> 'w
     \<Rightarrow> pyval \<times> turn_state \<times> 'w" where
  "call_tool h panels i name a s w =
     (case ch_call h name a w of
        (Inl err, w1) \<Rightarrow> (PDict [(''error'', PStr err)], emit [Tool_call_end i ''error'' None] (act (Called name a) s), w1)
      | (Inr res, w1) \<Rightarrow>
          let status = (if cr_is_error res then ''error'' else ''ok'');
              declared = (case dget panels name of Some u \<Rightarrow> u | None \<Rightarrow> None);
              uri = (case cr_uri res of Some u \<Rightarrow> Some u | None \<Rightarrow> declared)
          in (cr_payload res,
              emit [Tool_call_end i status (if status = ''ok'' then uri else None)] (act (Called name a) s), w1))"

definition run_call :: "'w chat_host \<Rightarrow> (string, string option) dict \<Rightarrow> string \<times> fcall \<times> gpart \<Rightarrow> turn_state \<Rightarrow> 'w
     \<Rightarrow> (string \<times> string \<times> pyval) \<times> turn_state \<times> 'w" where
  "run_call h panels c s w =
     (case c of (i, fc, part) \<Rightarrow>
        let name = fc_name fc; a = fc_args fc;
            s1 = emit [Tool_call_start i (if name \<noteq> [] then name else ''?'') (PDict a)] (s\<lparr>ts_seen := List.insert i (ts_seen s)\<rparr>)
        in case ask_approval h i name a s1 w of
             (approved, s2, w2) \<Rightarrow>
               if \<not> approved then ((fc_id fc, name, rejected_payload), emit [Tool_call_end i ''rejected'' None] s2, w2)
               else (case call_tool h panels i name a s2 w2 of (payload, s3, w3) \<Rightarrow> ((fc_id fc, name, payload), s3, w3)))"

fun run_calls :: "'w chat_host \<Rightarrow> (string, string option) dict \<Rightarrow> (string \<times> fcall \<times> gpart) list \<Rightarrow> turn_state \<Rightarrow> 'w
     \<Rightarrow> (string \<times> string \<times> pyval) list \<times> turn_state \<times> 'w" where
  "run_calls h panels [] s w = ([], s, w)"
| "run_calls h panels (c # cs) s w =
     (case run_call h panels c s w of
        (resp, s1, w1) \<Rightarrow> (case run_calls h panels cs s1 w1 of (resps, s2, w2) \<Rightarrow> (resp # resps, s2, w2)))"

subsection \<open>Rounds\<close>

definition MAX_TOOL_ROUNDS :: nat where "MAX_TOOL_ROUNDS = 50"
definition MAX_FUNCTION_CALLS_PER_ROUND :: nat where "MAX_FUNCTION_CALLS_PER_ROUND = 1"

datatype round_end = Model_done | Next_round | Raised chat_exc

definition chat_round :: "'w chat_host \<Rightarrow> turn_input \<Rightarrow> (string, string option) dict \<Rightarrow> turn_state \<Rightarrow> 'w
     \<Rightarrow> round_end \<times> turn_state \<times> 'w" where
  "chat_round h t panels s w =
     (case ch_stream h (ti_model t) (ts_contents s) w of
        ((chunks, fault), w1) \<Rightarrow>
          let r = fold read_chunk chunks (round_start (act Streamed s))
          in case fault of
               Some e \<Rightarrow> (Raised e, rd_turn r, w1)
             | None \<Rightarrow>
                 let s1 = add_usage (rd_usage r) (rd_turn r)
                 in if rd_calls r = [] then (Model_done, emit [usage_event t s1] s1, w1)
                    else
                      let chosen = take MAX_FUNCTION_CALLS_PER_ROUND (rd_calls r);
                          s2 = s1\<lparr>ts_contents := ts_contents s1 @ [Model_parts (rd_parts r @ map (snd \<circ> snd) chosen)]\<rparr>
                      in case run_calls h panels chosen s2 w1 of
                           (resps, s3, w2) \<Rightarrow> (Next_round, s3\<lparr>ts_contents := ts_contents s3 @ [Tool_responses resps]\<rparr>, w2))"

fun chat_rounds :: "nat \<Rightarrow> 'w chat_host \<Rightarrow> turn_input \<Rightarrow> (string, string option) dict \<Rightarrow> turn_state \<Rightarrow> 'w
     \<Rightarrow> chat_exc option \<times> turn_state \<times> 'w" where
  "chat_rounds 0 h t panels s w = (None, emit [usage_event t s, Error_event ''tool_loop_limit''] s, w)"
| "chat_rounds (Suc n) h t panels s w =
     (case chat_round h t panels s w of
        (Model_done, s1, w1) \<Rightarrow> (None, s1, w1)
      | (Raised e, s1, w1) \<Rightarrow> (Some e, s1, w1)
      | (Next_round, s1, w1) \<Rightarrow> chat_rounds n h t panels s1 w1)"

definition turn_start :: "turn_input \<Rightarrow> chat_action list \<Rightarrow> turn_state" where
  "turn_start t acts =
     \<lparr>ts_events = [], ts_acts = acts, ts_contents = build_contents t, ts_seen = [], ts_names = [],
      ts_prompt = 0, ts_cached = 0, ts_output = 0, ts_visible = False\<rparr>"

text \<open>\<open>_run\<close>, with the SDK installed.\<close>

definition run_once :: "'w chat_host \<Rightarrow> turn_input \<Rightarrow> chat_action list \<Rightarrow> 'w \<Rightarrow> chat_exc option \<times> turn_state \<times> 'w" where
  "run_once h t acts w =
     (let s = turn_start t acts
      in if ti_remote t then (None, emit [Error_event ''remote_mode_disabled''] s, w)
         else case ch_open h w of
           (opened, w1) \<Rightarrow>
             if \<not> opened then (None, emit [Error_event ''mcp_init_failed''] s, w1)
             else (case ch_list_tools h w1 of
                     (None, w2) \<Rightarrow> (None, emit [Error_event ''mcp_list_tools_failed''] s, w2)
                   | (Some panels, w2) \<Rightarrow>
                       if panels = [] then (None, emit [Error_event ''mcp_no_tools''] s, w2)
                       else chat_rounds MAX_TOOL_ROUNDS h t panels s w2))"

subsection \<open>Failures and retries\<close>

definition is_transient_error :: "chat_exc \<Rightarrow> bool" where
  "is_transient_error e \<longleftrightarrow>
     (let m = ex_msg e
      in contains m ''INTERNAL'' \<and> (contains m ''500'' \<or> contains m ''Internal error'') \<or>
         contains m ''UNAVAILABLE'' \<or> contains m ''503'' \<or> contains m ''DEADLINE_EXCEEDED'' \<or> contains m ''504'' \<or>
         ex_type e \<in> {''ReadTimeout'', ''WriteTimeout'', ''ConnectTimeout'', ''ConnectError''})"

definition classify_error :: "chat_exc \<Rightarrow> string \<Rightarrow> string" where
  "classify_error e model =
     (let m = ex_msg e; l = py_lower m
      in if contains m ''PERMISSION_DENIED'' \<or> contains m ''403'' \<and> contains l ''caller''
         then (if contains model ''preview'' then ''model_access_denied'' else ''permission_denied'')
         else if contains m ''NOT_FOUND'' \<or> contains m ''404'' \<and> contains l ''model'' then ''model_not_found''
         else if contains m ''RESOURCE_EXHAUSTED'' \<or> contains l ''quota'' then ''rate_limited''
         else if contains m ''INTERNAL'' \<and> (contains m ''500'' \<or> contains m ''Internal error'') then ''upstream_internal''
         else if contains m ''UNAVAILABLE'' \<or> contains m ''503'' then ''upstream_unavailable''
         else if contains m ''DEADLINE_EXCEEDED'' \<or> contains m ''504'' then ''upstream_timeout''
         else ''gemini_error'')"

text \<open>\<open>run\<close>: \<open>k\<close> retries are left; a retry starts the turn afresh.\<close>

fun run_attempts :: "nat \<Rightarrow> 'w chat_host \<Rightarrow> turn_input \<Rightarrow> chat_action list \<Rightarrow> 'w \<Rightarrow> turn_state \<times> 'w" where
  "run_attempts k h t acts w =
     (case run_once h t acts w of
        (None, s, w1) \<Rightarrow> (s, w1)
      | (Some e, s, w1) \<Rightarrow>
          (if ts_events s = [] \<and> is_transient_error e then
             (case k of
                Suc k' \<Rightarrow> run_attempts k' h t (ts_acts s) w1
              | 0 \<Rightarrow> (emit [Error_event (classify_error e (ti_model t))] s, w1))
           else (emit [Error_event (classify_error e (ti_model t))] s, w1)))"

definition run_turn :: "'w chat_host \<Rightarrow> turn_input \<Rightarrow> 'w \<Rightarrow> turn_state \<times> 'w" where
  "run_turn h t w = run_attempts 2 h t [] w"


subsection \<open>The callback of the chat route\<close>

text \<open>
  \<open>_confirm\<close> of \<open>api_chat_stream\<close> (\<open>dashboard/app.py\<close>) waits for its future while
  other requests use the store; \<open>others\<close> gives what they do until the future is done or five
  minutes have passed.  The list \<open>rw_waits\<close> records the waits for the statements.
\<close>

record 'v route_world =
  rw_store :: confirmation_store
  rw_waits :: "(string \<times> confirmation_op list) list"
  rw_rest :: 'v

definition route_confirm ::
  "(string \<Rightarrow> confirmation_store \<Rightarrow> 'v \<Rightarrow> confirmation_op list \<times> 'v) \<Rightarrow> string \<Rightarrow> string \<Rightarrow> string \<Rightarrow> args \<Rightarrow> 'v route_world
     \<Rightarrow> bool option \<times> 'v route_world" where
  "route_confirm others session i n a w =
     (let (f, cs) = confirmation_create i session (rw_store w);
          (ops, rest) = others i cs (rw_rest w);
          cs1 = confirmation_run ops cs;
          w1 = w\<lparr>rw_store := cs1, rw_waits := rw_waits w @ [(i, ops)], rw_rest := rest\<rparr>
      in case cs_futures cs1 ! f of
           Approved b \<Rightarrow> (Some b, w1)
         | _ \<Rightarrow> (Some False, w1\<lparr>rw_store := confirmation_cancel i cs1\<rparr>))"

end
