(* ===== verification/Chat_Props.thy ===== *)
theory Chat_Props
  imports Chat_Engine
begin

text \<open>
  What a chat turn promises, whatever the model streams and the tools answer: an invariant
  rule for the actions of a turn, the approval of gated calls by the click of the turn's own
  session, and the bounds of a turn.
\<close>

subsection \<open>Reading changes no action\<close>

lemma emit_simps [simp]:
  "ts_acts (emit es s) = ts_acts s" "ts_events (emit es s) = ts_events s @ es" "ts_seen (emit es s) = ts_seen s"
  by (simp_all add: emit_def)

lemma act_simps [simp]: "ts_acts (act a s) = ts_acts s @ [a]" "ts_events (act a s) = ts_events s"
  by (simp_all add: act_def)

lemma read_part_acts: "ts_acts (rd_turn (read_part p r)) = ts_acts (rd_turn r)"
  by (simp add: read_part_def read_tresponse_def read_tcall_def read_fcall_def read_text_def Let_def split: option.split)

lemma read_chunk_acts: "ts_acts (rd_turn (read_chunk c r)) = ts_acts (rd_turn r)"
proof -
  have "ts_acts (rd_turn (fold read_part ps r)) = ts_acts (rd_turn r)" for ps r
    by (induction ps arbitrary: r) (simp_all add: read_part_acts)
  then show ?thesis by (simp add: read_chunk_def split: option.split)
qed

lemma read_acts: "ts_acts (rd_turn (fold read_chunk cs (round_start s))) = ts_acts s"
proof -
  have "ts_acts (rd_turn (fold read_chunk cs r)) = ts_acts (rd_turn r)" for r
    by (induction cs arbitrary: r) (simp_all add: read_chunk_acts)
  then show ?thesis by (simp add: round_start_def)
qed

lemma add_usage_simps [simp]: "ts_acts (add_usage u s) = ts_acts s" "ts_events (add_usage u s) = ts_events s"
  by (simp_all add: add_usage_def split: option.split)

subsection \<open>An invariant rule\<close>

text \<open>
  A property of the actions so far and of the world holds to the end of a turn if the steps
  of the turn keep it; a gated tool is called right after its approval only.
\<close>

locale chat_guard =
  fixes Q :: "chat_action list \<Rightarrow> 'w \<Rightarrow> bool" and h :: "'w chat_host"
  assumes keep_open: "Q acts w \<Longrightarrow> Q acts (snd (ch_open h w))"
    and keep_list: "Q acts w \<Longrightarrow> Q acts (snd (ch_list_tools h w))"
    and keep_stream: "Q acts w \<Longrightarrow> Q (acts @ [Streamed]) (snd (ch_stream h m cs w))"
    and keep_ask: "ch_confirm h = Some f \<Longrightarrow> Q acts w \<Longrightarrow> f i n a w = (answer, w') \<Longrightarrow>
      Q (acts @ [Asked i n a (answer = Some True)]) w'"
    and keep_free_call: "\<not> requires_confirmation n (PDict a) \<Longrightarrow> Q acts w \<Longrightarrow> Q (acts @ [Called n a]) (snd (ch_call h n a w))"
    and keep_gated_call: "Q (acts @ [Asked i n a True]) w \<Longrightarrow>
      Q (acts @ [Asked i n a True, Called n a]) (snd (ch_call h n a w))"
begin

lemma call_tool_keeps:
  assumes "call_tool h panels i n a s w = (payload, s', w')"
  shows "ts_acts s' = ts_acts s @ [Called n a] \<and> w' = snd (ch_call h n a w)"
  using assms by (auto simp: call_tool_def Let_def split: prod.splits sum.splits)

lemma run_call_keeps:
  assumes "Q (ts_acts s) w" "run_call h panels c s w = (resp, s', w')"
  shows "Q (ts_acts s') w'"
proof -
  obtain i fc p where c: "c = (i, fc, p)" by (metis prod.collapse)
  let ?n = "fc_name fc" and ?a = "fc_args fc"
  let ?s1 = "emit [Tool_call_start i (if ?n \<noteq> [] then ?n else ''?'') (PDict ?a)] (s\<lparr>ts_seen := List.insert i (ts_seen s)\<rparr>)"
  obtain ok s2 w2 where a: "ask_approval h i ?n ?a ?s1 w = (ok, s2, w2)" by (metis prod.collapse)
  show ?thesis
  proof (cases "requires_confirmation ?n (PDict ?a)")
    case False
    then have s2: "ok" "s2 = ?s1" "w2 = w" using a by (simp_all add: ask_approval_def)
    obtain payload where "call_tool h panels i ?n ?a s2 w2 = (payload, s', w')"
      using assms(2) a s2 by (auto simp: run_call_def c Let_def split: prod.splits)
    from call_tool_keeps[OF this] keep_free_call[OF False assms(1)] show ?thesis by (simp add: s2)
  next
    case gated: True
    show ?thesis
    proof (cases "ch_confirm h")
      case None
      then have "\<not> ok" "ts_acts s2 = ts_acts s" "w2 = w" using a gated by (auto simp: ask_approval_def)
      then show ?thesis using assms a by (auto simp: run_call_def c Let_def)
    next
      case (Some f)
      obtain answer w1 where f: "f i ?n ?a w = (answer, w1)" by fastforce
      have s2: "ok = (answer = Some True)" "ts_acts s2 = ts_acts s @ [Asked i ?n ?a ok]" "w2 = w1"
        using a gated Some f by (auto simp: ask_approval_def Let_def)
      have q: "Q (ts_acts s2) w2" using keep_ask[OF Some assms(1) f] by (simp add: s2)
      show ?thesis
      proof (cases ok)
        case False
        then show ?thesis using assms(2) a q by (auto simp: run_call_def c Let_def)
      next
        case True
        obtain payload where "call_tool h panels i ?n ?a s2 w2 = (payload, s', w')"
          using assms(2) a True by (auto simp: run_call_def c Let_def split: prod.splits)
        from call_tool_keeps[OF this] keep_gated_call[of "ts_acts s" i ?n ?a w2] q show ?thesis by (simp add: s2(2) True)
      qed
    qed
  qed
qed

lemma run_calls_keeps: "Q (ts_acts s) w \<Longrightarrow> run_calls h panels cs s w = (resps, s', w') \<Longrightarrow> Q (ts_acts s') w'"
proof (induction cs arbitrary: s w resps)
  case (Cons c cs)
  obtain resp s1 w1 where c: "run_call h panels c s w = (resp, s1, w1)" by (metis prod.collapse)
  obtain resps' where "run_calls h panels cs s1 w1 = (resps', s', w')" using Cons.prems(2) c by (auto split: prod.splits)
  from Cons.IH[OF run_call_keeps[OF Cons.prems(1) c] this] show ?case .
qed simp

lemma chat_round_keeps:
  assumes "Q (ts_acts s) w" "chat_round h t panels s w = (e, s', w')"
  shows "Q (ts_acts s') w'"
proof -
  obtain chunks fault w1 where st: "ch_stream h (ti_model t) (ts_contents s) w = ((chunks, fault), w1)" by (metis prod.collapse)
  let ?r = "fold read_chunk chunks (round_start (act Streamed s))"
  have q: "Q (ts_acts (rd_turn ?r)) w1" using keep_stream[OF assms(1), of "ti_model t" "ts_contents s"] st by (simp add: read_acts)
  show ?thesis
  proof (cases "fault = None \<and> rd_calls ?r \<noteq> []")
    case False
    then show ?thesis using assms(2) st q by (auto simp: chat_round_def Let_def split: option.splits)
  next
    case True
    let ?s2 = "(add_usage (rd_usage ?r) (rd_turn ?r))
      \<lparr>ts_contents := ts_contents (add_usage (rd_usage ?r) (rd_turn ?r)) @
         [Model_parts (rd_parts ?r @ map (snd \<circ> snd) (take MAX_FUNCTION_CALLS_PER_ROUND (rd_calls ?r)))]\<rparr>"
    obtain resps s3 w2 where c: "run_calls h panels (take MAX_FUNCTION_CALLS_PER_ROUND (rd_calls ?r)) ?s2 w1 = (resps, s3, w2)"
      by (metis prod.collapse)
    then have "ts_acts s' = ts_acts s3" "w' = w2" using assms(2) st True by (auto simp: chat_round_def Let_def)
    with run_calls_keeps[OF _ c] q show ?thesis by simp
  qed
qed

lemma chat_rounds_keeps: "Q (ts_acts s) w \<Longrightarrow> chat_rounds k h t panels s w = (e, s', w') \<Longrightarrow> Q (ts_acts s') w'"
proof (induction k arbitrary: s w)
  case (Suc k)
  obtain r s1 w1 where r: "chat_round h t panels s w = (r, s1, w1)" by (metis prod.collapse)
  with Suc.IH[OF chat_round_keeps[OF Suc.prems(1) r]] Suc.prems chat_round_keeps[OF Suc.prems(1) r]
  show ?case by (cases r) auto
qed auto

lemma run_once_keeps:
  assumes "Q acts w" "run_once h t acts w = (e, s, w')"
  shows "Q (ts_acts s) w'"
proof -
  obtain opened w1 where o: "ch_open h w = (opened, w1)" by fastforce
  obtain tools w2 where l: "ch_list_tools h w1 = (tools, w2)" by fastforce
  have q1: "Q acts w1" using keep_open[OF assms(1)] o by simp
  have q2: "Q acts w2" using keep_list[OF q1] l by simp
  have start: "ts_acts (turn_start t acts) = acts" by (simp add: turn_start_def)
  show ?thesis
    using assms o l q1 q2 chat_rounds_keeps[of "turn_start t acts" w2 MAX_TOOL_ROUNDS t _ e s w']
    by (auto simp: run_once_def Let_def start split: if_splits option.splits)
qed

lemma run_attempts_keeps: "Q acts w \<Longrightarrow> run_attempts k h t acts w = (s, w') \<Longrightarrow> Q (ts_acts s) w'"
proof (induction k arbitrary: acts w)
  case 0
  obtain e s1 w1 where r: "run_once h t acts w = (e, s1, w1)" by (metis prod.collapse)
  with 0 run_once_keeps[OF 0(1) r] show ?case by (auto split: option.splits if_splits)
next
  case (Suc k)
  obtain e s1 w1 where r: "run_once h t acts w = (e, s1, w1)" by (metis prod.collapse)
  with Suc.prems run_once_keeps[OF Suc.prems(1) r] Suc.IH[OF run_once_keeps[OF Suc.prems(1) r]]
  show ?case by (auto split: option.splits if_splits)
qed

lemma run_turn_keeps: "Q [] w \<Longrightarrow> Q (ts_acts (fst (run_turn h t w))) (snd (run_turn h t w))"
  using run_attempts_keeps[of "[]" w 2 t] by (simp add: run_turn_def)

end

subsection \<open>A gated call follows its approval\<close>

definition gated :: "chat_action list \<Rightarrow> bool" where
  "gated acts \<longleftrightarrow>
     (\<forall>xs n a ys. acts = xs @ Called n a # ys \<longrightarrow> requires_confirmation n (PDict a) \<longrightarrow> (\<exists>zs i. xs = zs @ [Asked i n a True]))"

lemma gated_snoc:
  assumes "gated acts" "\<And>n a. x = Called n a \<Longrightarrow> requires_confirmation n (PDict a) \<Longrightarrow> \<exists>zs i. acts = zs @ [Asked i n a True]"
  shows "gated (acts @ [x])"
  unfolding gated_def
proof (intro allI impI)
  fix xs n a ys
  assume eq: "acts @ [x] = xs @ Called n a # ys" and r: "requires_confirmation n (PDict a)"
  show "\<exists>zs i. xs = zs @ [Asked i n a True]"
  proof (cases ys rule: rev_cases)
    case Nil
    then show ?thesis using eq r assms(2)[of n a] by simp
  next
    case (snoc ys' y)
    then have "acts = xs @ Called n a # ys'" using eq by simp
    then show ?thesis using assms(1) r unfolding gated_def by blast
  qed
qed

interpretation gate: chat_guard "\<lambda>acts w. gated acts" h for h :: "'w chat_host"
proof unfold_locales
  fix acts i n a assume "gated (acts @ [Asked i n a True])"
  then show "gated (acts @ [Asked i n a True, Called n a])"
    using gated_snoc[of "acts @ [Asked i n a True]" "Called n a"] by simp
qed (auto intro: gated_snoc)

subsection \<open>The approval is a click of the same session\<close>

text \<open>What else the host does to the world keeps the store in order and adds no wait.\<close>

definition quiet :: "('v route_world \<Rightarrow> 'v route_world) \<Rightarrow> bool" where
  "quiet f \<longleftrightarrow> (\<forall>w. pending_ok (rw_store w) \<longrightarrow> pending_ok (rw_store (f w)) \<and> rw_waits (f w) = rw_waits w)"

definition quiet_host :: "'v route_world chat_host \<Rightarrow> bool" where
  "quiet_host h \<longleftrightarrow>
     quiet (\<lambda>w. snd (ch_open h w)) \<and> quiet (\<lambda>w. snd (ch_list_tools h w)) \<and>
     (\<forall>m cs. quiet (\<lambda>w. snd (ch_stream h m cs w))) \<and> (\<forall>n a. quiet (\<lambda>w. snd (ch_call h n a w)))"

definition clicked :: "string \<Rightarrow> string \<Rightarrow> 'v route_world \<Rightarrow> bool" where
  "clicked session i w \<longleftrightarrow> (\<exists>ops. (i, ops) \<in> set (rw_waits w) \<and> Resolve_call i session True \<in> set ops)"

definition approvals_ok :: "string \<Rightarrow> chat_action list \<Rightarrow> 'v route_world \<Rightarrow> bool" where
  "approvals_ok session acts w \<longleftrightarrow>
     pending_ok (rw_store w) \<and> gated acts \<and> (\<forall>i n a. Asked i n a True \<in> set acts \<longrightarrow> clicked session i w)"

lemma pending_ok_run: "pending_ok s \<Longrightarrow> pending_ok (confirmation_run ops s)"
  by (induction ops arbitrary: s) (simp_all add: confirmation_run_def pending_ok_step)

lemma created_entry:
  assumes "pending_ok s" "confirmation_create call sess s = (f, s1)"
  shows "only_entry f call sess s1" "pending_ok s1" "cs_futures s1 ! f = Waiting"
proof -
  have "dget (cs_pending s) c \<noteq> Some (length (cs_futures s), sess')" for c sess'
    using assms(1) by (auto simp: pending_ok_def)
  then show "only_entry f call sess s1" using assms(2)
    by (auto simp: only_entry_def confirmation_create_def Let_def split: if_splits)
  show "pending_ok s1" using pending_ok_step [OF assms(1), of "Create_call call sess"] assms(2) by simp
  show "cs_futures s1 ! f = Waiting" using assms(2) by (auto simp: confirmation_create_def Let_def)
qed

lemma route_confirm_keeps:
  assumes "pending_ok (rw_store w)" "route_confirm others session i n a w = (answer, w')"
  shows "pending_ok (rw_store w')" "answer = Some True \<Longrightarrow> clicked session i w'"
    "clicked session j w \<Longrightarrow> clicked session j w'"
proof -
  obtain f cs where c: "confirmation_create i session (rw_store w) = (f, cs)" by fastforce
  obtain ops rest where o: "others i cs (rw_rest w) = (ops, rest)" by fastforce
  note created = created_entry[OF assms(1) c]
  let ?cs1 = "confirmation_run ops cs"
  have ok: "pending_ok ?cs1" by (rule pending_ok_run[OF created(2)])
  then have ok2: "pending_ok (confirmation_cancel i ?cs1)" using pending_ok_step[of ?cs1 "Cancel_call i"] by simp
  show "pending_ok (rw_store w')" using assms(2) c o ok ok2 by (auto simp: route_confirm_def Let_def split: future.splits)
  have waits: "rw_waits w' = rw_waits w @ [(i, ops)]"
    using assms(2) c o by (auto simp: route_confirm_def Let_def split: future.splits)
  then show "clicked session j w \<Longrightarrow> clicked session j w'" by (auto simp: clicked_def)
  assume "answer = Some True"
  then have "cs_futures ?cs1 ! f = Approved True"
    using assms(2) c o by (auto simp: route_confirm_def Let_def split: future.splits)
  from approved_run[OF created(1,2,3) this] show "clicked session i w'" by (auto simp: clicked_def waits)
qed

lemma approvals_ok_quiet:
  assumes "quiet f" "approvals_ok session acts w" "\<And>i n a. Asked i n a True \<in> set acts' \<Longrightarrow> Asked i n a True \<in> set acts" "gated acts'"
  shows "approvals_ok session acts' (f w)"
proof -
  have f: "pending_ok (rw_store (f w))" "rw_waits (f w) = rw_waits w"
    using assms(1,2) by (simp_all add: quiet_def approvals_ok_def)
  have "clicked session i (f w)" if "Asked i n a True \<in> set acts'" for i n a
    using assms(2) assms(3)[OF that] by (simp add: approvals_ok_def clicked_def f(2)) blast
  then show ?thesis using f(1) assms(4) unfolding approvals_ok_def by blast
qed

lemma route_guard:
  fixes h :: "'v route_world chat_host"
  assumes "quiet_host h" "ch_confirm h = Some (route_confirm others session)"
  shows "chat_guard (approvals_ok session) h"
proof unfold_locales
  fix acts and w :: "'v route_world" assume q: "approvals_ok session acts w"
  have g: "gated acts" using q by (simp add: approvals_ok_def)
  show "approvals_ok session acts (snd (ch_open h w))" "approvals_ok session acts (snd (ch_list_tools h w))"
    using assms(1) g by (auto intro!: approvals_ok_quiet[OF _ q] simp: quiet_host_def)
  show "approvals_ok session (acts @ [Streamed]) (snd (ch_stream h m cs w))" for m cs
    by (rule approvals_ok_quiet[OF _ q]) (use assms(1) g in \<open>auto simp: quiet_host_def intro: gated_snoc\<close>)
  show "approvals_ok session (acts @ [Called n a]) (snd (ch_call h n a w))" if "\<not> requires_confirmation n (PDict a)" for n a
    by (rule approvals_ok_quiet[OF _ q]) (use assms(1) g that in \<open>auto simp: quiet_host_def intro: gated_snoc\<close>)
  show "approvals_ok session (acts @ [Asked i n a (answer = Some True)]) w'"
    if "ch_confirm h = Some f" "f i n a w = (answer, w')" for f i n a answer w'
  proof -
    have r: "route_confirm others session i n a w = (answer, w')" using that assms(2) by simp
    have p: "pending_ok (rw_store w)" using q by (simp add: approvals_ok_def)
    show ?thesis
      using q route_confirm_keeps[OF p r] gated_snoc[OF g, of "Asked i n a (answer = Some True)"]
      by (auto simp: approvals_ok_def)
  qed
next
  fix acts i n a and w :: "'v route_world" assume q: "approvals_ok session (acts @ [Asked i n a True]) w"
  then have "gated (acts @ [Asked i n a True, Called n a])"
    using gated_snoc[of "acts @ [Asked i n a True]" "Called n a"] by (simp add: approvals_ok_def)
  then show "approvals_ok session (acts @ [Asked i n a True, Called n a]) (snd (ch_call h n a w))"
    using assms(1) by (intro approvals_ok_quiet[OF _ q]) (auto simp: quiet_host_def)
qed


end
