(* ===== verification/Chat_Bounds.thy ===== *)
theory Chat_Bounds
  imports Chat_Props
begin

text \<open>
  The bounds of a chat turn: how many tools it calls, how many streams it asks for over all
  retries, and how it ends.
\<close>

definition count_calls :: "chat_action list \<Rightarrow> nat" where
  "count_calls acts = length [a \<leftarrow> acts. case a of Called n x \<Rightarrow> True | _ \<Rightarrow> False]"

definition count_streams :: "chat_action list \<Rightarrow> nat" where
  "count_streams acts = length [a \<leftarrow> acts. a = Streamed]"

definition ends_well :: "turn_state \<Rightarrow> bool" where
  "ends_well s \<longleftrightarrow> (case rev (ts_events s) of Usage_accumulated m p c out # es \<Rightarrow> True | Error_event e # es \<Rightarrow> True | _ \<Rightarrow> False)"

lemma count_simps [simp]:
  "count_calls [] = 0" "count_calls (xs @ ys) = count_calls xs + count_calls ys" "count_calls [Called n a] = 1"
  "count_calls [Asked i n a b] = 0" "count_calls [Streamed] = 0"
  "count_streams [] = 0" "count_streams (xs @ ys) = count_streams xs + count_streams ys" "count_streams [Called n a] = 0"
  "count_streams [Asked i n a b] = 0" "count_streams [Streamed] = 1"
  by (simp_all add: count_calls_def count_streams_def)

subsection \<open>Events only grow\<close>

text \<open>The events of a turn before it ends: neither its usage record nor an error.\<close>

definition turn_event :: "chat_event \<Rightarrow> bool" where
  "turn_event ev \<longleftrightarrow> (case ev of Usage_accumulated m p c n \<Rightarrow> False | Error_event err \<Rightarrow> False | _ \<Rightarrow> True)"

definition grows_by :: "(chat_event \<Rightarrow> bool) \<Rightarrow> turn_state \<Rightarrow> turn_state \<Rightarrow> bool" where
  "grows_by P s s' \<longleftrightarrow> (\<exists>es. ts_events s' = ts_events s @ es \<and> list_all P es)"

abbreviation grows :: "turn_state \<Rightarrow> turn_state \<Rightarrow> bool" where
  "grows \<equiv> grows_by (\<lambda>_. True)"

lemma list_all_True [simp]: "list_all (\<lambda>_. True) xs"
  by (simp add: list_all_iff)

lemma grows_refl [simp]: "grows_by P s s"
  by (simp add: grows_by_def)

lemma grows_trans: "grows_by P s1 s2 \<Longrightarrow> grows_by P s2 s3 \<Longrightarrow> grows_by P s1 s3"
  by (fastforce simp: grows_by_def)

lemma grows_any: "grows_by P s s' \<Longrightarrow> grows s s'"
  by (auto simp: grows_by_def)

lemma grows_emit [simp]: "list_all P es \<Longrightarrow> grows_by P s (emit es s)"
  by (simp add: grows_by_def emit_def)

lemma grows_Nil: "grows_by P s s' \<Longrightarrow> ts_events s' = [] \<Longrightarrow> ts_events s = []"
  by (auto simp: grows_by_def)

lemma read_text_grows: "grows_by turn_event (rd_turn r) (rd_turn (read_text p r))"
  by (simp add: read_text_def Let_def grows_by_def turn_event_def)

lemma read_tcall_grows: "grows_by turn_event (rd_turn r) (rd_turn (read_tcall p r))"
  by (simp add: read_tcall_def Let_def grows_by_def turn_event_def split: option.split)

lemma read_tresponse_grows: "grows_by turn_event (rd_turn r) (rd_turn (read_tresponse p r))"
  by (simp add: read_tresponse_def Let_def grows_by_def turn_event_def split: option.split)

lemma read_part_grows: "grows_by turn_event (rd_turn r) (rd_turn (read_part p r))"
proof -
  have "rd_turn (read_fcall p r') = rd_turn r'" for r' by (simp add: read_fcall_def split: option.split)
  then show ?thesis unfolding read_part_def
    by (metis read_text_grows read_tcall_grows read_tresponse_grows grows_trans)
qed

lemma read_chunk_grows: "grows_by turn_event (rd_turn r) (rd_turn (read_chunk c r))"
proof -
  have "grows_by turn_event (rd_turn r) (rd_turn (fold read_part ps r))" for ps r
    by (induction ps arbitrary: r) (auto intro: grows_trans[OF read_part_grows])
  then show ?thesis by (cases "ck_usage c") (auto simp: read_chunk_def, metis round_state.select_convs(1) round_state.surjective round_state.update_convs(5))
qed

lemma read_grows: "grows_by turn_event s (rd_turn (fold read_chunk cs (round_start s)))"
proof -
  have "grows_by turn_event (rd_turn r) (rd_turn (fold read_chunk cs r))" for r
    by (induction cs arbitrary: r) (auto intro: grows_trans[OF read_chunk_grows])
  from this[of "round_start s"] show ?thesis by (simp add: round_start_def)
qed

subsection \<open>The cost of a call and of a round\<close>

lemma call_tool_cost:
  "call_tool h panels i n a s w = (payload, s', w') \<Longrightarrow> ts_acts s' = ts_acts s @ [Called n a] \<and> grows_by turn_event s s'"
  by (auto simp: call_tool_def Let_def grows_by_def turn_event_def split: prod.splits sum.splits)

lemma ask_approval_cost:
  "ask_approval h i n a s w = (ok, s', w') \<Longrightarrow>
   count_calls (ts_acts s') = count_calls (ts_acts s) \<and> count_streams (ts_acts s') = count_streams (ts_acts s) \<and> grows_by turn_event s s'"
  by (auto simp: ask_approval_def Let_def grows_by_def turn_event_def split: if_splits option.splits prod.splits)

lemma run_call_cost:
  assumes "run_call h panels c s w = (resp, s', w')"
  shows "count_calls (ts_acts s') \<le> Suc (count_calls (ts_acts s))" "count_streams (ts_acts s') = count_streams (ts_acts s)"
    "ts_events s' \<noteq> []" "grows_by turn_event s s'"
proof -
  obtain i fc p where c: "c = (i, fc, p)" by (metis prod.collapse)
  let ?n = "fc_name fc" and ?a = "fc_args fc"
  let ?s1 = "emit [Tool_call_start i (if ?n \<noteq> [] then ?n else ''?'') (PDict ?a)] (s\<lparr>ts_seen := List.insert i (ts_seen s)\<rparr>)"
  obtain ok s2 w2 where a: "ask_approval h i ?n ?a ?s1 w = (ok, s2, w2)" by (metis prod.collapse)
  note cost = ask_approval_cost[OF a]
  have s1: "grows_by turn_event s ?s1" "ts_events ?s1 \<noteq> []" by (simp_all add: grows_by_def turn_event_def)
  have "grows_by turn_event s s' \<and> ts_events s' \<noteq> [] \<and> count_calls (ts_acts s') \<le> Suc (count_calls (ts_acts s)) \<and>
      count_streams (ts_acts s') = count_streams (ts_acts s)"
  proof (cases ok)
    case False
    then have "s' = emit [Tool_call_end i ''rejected'' None] s2" using assms a by (auto simp: run_call_def c Let_def)
    then show ?thesis using cost grows_trans[OF s1(1)] by (auto simp: grows_by_def turn_event_def)
  next
    case True
    obtain payload where "call_tool h panels i ?n ?a s2 w2 = (payload, s', w')"
      using assms a True by (auto simp: run_call_def c Let_def split: prod.splits)
    from call_tool_cost[OF this] have t: "ts_acts s' = ts_acts s2 @ [Called ?n ?a]" "grows_by turn_event s2 s'" by auto
    have "grows_by turn_event ?s1 s'" using cost t(2) grows_trans by blast
    moreover have "ts_events s' \<noteq> []" using grows_Nil[OF \<open>grows_by turn_event ?s1 s'\<close>] s1(2) by blast
    ultimately show ?thesis using cost t(1) grows_trans[OF s1(1)] by simp
  qed
  then show "count_calls (ts_acts s') \<le> Suc (count_calls (ts_acts s))" "count_streams (ts_acts s') = count_streams (ts_acts s)"
    "ts_events s' \<noteq> []" "grows_by turn_event s s'" by blast+
qed

lemma run_calls_cost:
  assumes "run_calls h panels (take MAX_FUNCTION_CALLS_PER_ROUND cs) s w = (resps, s', w')" "cs \<noteq> []"
  shows "count_calls (ts_acts s') \<le> Suc (count_calls (ts_acts s))" "count_streams (ts_acts s') = count_streams (ts_acts s)"
    "ts_events s' \<noteq> []" "grows_by turn_event s s'"
proof -
  obtain c cs' where "cs = c # cs'" using assms(2) by (cases cs) auto
  then obtain resp where "run_call h panels c s w = (resp, s', w')"
    using assms(1) by (auto simp: MAX_FUNCTION_CALLS_PER_ROUND_def split: prod.splits)
  from run_call_cost[OF this] show "count_calls (ts_acts s') \<le> Suc (count_calls (ts_acts s))"
    "count_streams (ts_acts s') = count_streams (ts_acts s)" "ts_events s' \<noteq> []" "grows_by turn_event s s'" by blast+
qed

lemma chat_round_cost:
  assumes "chat_round h t panels s w = (e, s', w')"
  shows "count_calls (ts_acts s') \<le> Suc (count_calls (ts_acts s))" "count_streams (ts_acts s') = Suc (count_streams (ts_acts s))"
    "grows s s'" "e = Next_round \<Longrightarrow> ts_events s' \<noteq> []" "e = Model_done \<Longrightarrow> ends_well s'"
    "e = Raised x \<Longrightarrow> count_calls (ts_acts s') = count_calls (ts_acts s)"
proof -
  obtain chunks fault w1 where st: "ch_stream h (ti_model t) (ts_contents s) w = ((chunks, fault), w1)" by (metis prod.collapse)
  let ?r = "fold read_chunk chunks (round_start (act Streamed s))"
  have a: "ts_acts (rd_turn ?r) = ts_acts s @ [Streamed]" by (simp add: read_acts)
  have g: "grows s (rd_turn ?r)" using grows_any[OF read_grows[of "act Streamed s" chunks]] by (simp add: grows_by_def)
  have "count_calls (ts_acts s') \<le> Suc (count_calls (ts_acts s)) \<and> count_streams (ts_acts s') = Suc (count_streams (ts_acts s)) \<and>
    grows s s' \<and> (e = Next_round \<longrightarrow> ts_events s' \<noteq> []) \<and> (e = Model_done \<longrightarrow> ends_well s') \<and>
    (e = Raised x \<longrightarrow> count_calls (ts_acts s') = count_calls (ts_acts s))"
  proof (cases "fault = None \<and> rd_calls ?r \<noteq> []")
    case False
    then show ?thesis using assms st a g
      by (auto simp: chat_round_def Let_def grows_by_def ends_well_def usage_event_def split: option.splits)
  next
    case True
    let ?s1 = "add_usage (rd_usage ?r) (rd_turn ?r)"
    let ?s2 = "?s1\<lparr>ts_contents := ts_contents ?s1 @
         [Model_parts (rd_parts ?r @ map (snd \<circ> snd) (take MAX_FUNCTION_CALLS_PER_ROUND (rd_calls ?r)))]\<rparr>"
    obtain resps s3 w2 where c: "run_calls h panels (take MAX_FUNCTION_CALLS_PER_ROUND (rd_calls ?r)) ?s2 w1 = (resps, s3, w2)"
      by (metis prod.collapse)
    then have s': "e = Next_round" "s' = s3\<lparr>ts_contents := ts_contents s3 @ [Tool_responses resps]\<rparr>"
      using assms st True by (auto simp: chat_round_def Let_def)
    have "grows s ?s2" using g by (simp add: grows_by_def)
    then have "grows s s'" using grows_any[OF run_calls_cost(4)[OF c]] True grows_trans by (fastforce simp: s' grows_by_def)
    then show ?thesis using run_calls_cost(1-3)[OF c] True a by (simp add: s')
  qed
  then show "count_calls (ts_acts s') \<le> Suc (count_calls (ts_acts s))" "count_streams (ts_acts s') = Suc (count_streams (ts_acts s))"
    "grows s s'" "e = Next_round \<Longrightarrow> ts_events s' \<noteq> []" "e = Model_done \<Longrightarrow> ends_well s'"
    "e = Raised x \<Longrightarrow> count_calls (ts_acts s') = count_calls (ts_acts s)" by blast+
qed

lemma chat_rounds_cost:
  "chat_rounds k h t panels s w = (e, s', w') \<Longrightarrow>
   count_calls (ts_acts s') \<le> count_calls (ts_acts s) + k \<and> count_streams (ts_acts s') \<le> count_streams (ts_acts s) + k \<and>
   grows s s' \<and> (e = None \<longrightarrow> ends_well s') \<and>
   (e \<noteq> None \<and> ts_events s' = [] \<longrightarrow> count_calls (ts_acts s') = count_calls (ts_acts s) \<and>
      count_streams (ts_acts s') = Suc (count_streams (ts_acts s)))"
proof (induction k arbitrary: s w)
  case 0
  then show ?case by (auto simp: ends_well_def grows_by_def)
next
  case (Suc k)
  obtain r s1 w1 where r: "chat_round h t panels s w = (r, s1, w1)" by (metis prod.collapse)
  note c = chat_round_cost[OF r]
  show ?case
  proof (cases r)
    case Next_round
    then have rest: "chat_rounds k h t panels s1 w1 = (e, s', w')" using Suc.prems r by simp
    note ih = Suc.IH[OF this]
    have "grows s s'" using c(3) ih grows_trans by blast
    moreover have "ts_events s' \<noteq> []" using ih c(4)[OF Next_round] grows_Nil by blast
    ultimately show ?thesis using ih c(1,2) by auto
  next
    case Model_done
    then show ?thesis using Suc.prems r c by auto
  next
    case (Raised x)
    then show ?thesis using Suc.prems r c(1-3) c(6)[OF Raised] by auto
  qed
qed

lemma run_once_cost:
  assumes "run_once h t acts w = (e, s, w')"
  shows "count_calls (ts_acts s) \<le> count_calls acts + 50" "count_streams (ts_acts s) \<le> count_streams acts + 50"
    "e = None \<Longrightarrow> ends_well s"
    "e \<noteq> None \<Longrightarrow> ts_events s = [] \<Longrightarrow> count_calls (ts_acts s) = count_calls acts \<and> count_streams (ts_acts s) = Suc (count_streams acts)"
proof -
  obtain opened w1 where o: "ch_open h w = (opened, w1)" by fastforce
  obtain tools w2 where l: "ch_list_tools h w1 = (tools, w2)" by fastforce
  have start: "ts_acts (turn_start t acts) = acts" by (simp add: turn_start_def)
  have "count_calls (ts_acts s) \<le> count_calls acts + 50 \<and> count_streams (ts_acts s) \<le> count_streams acts + 50 \<and> (e = None \<longrightarrow> ends_well s) \<and>
    (e \<noteq> None \<and> ts_events s = [] \<longrightarrow> count_calls (ts_acts s) = count_calls acts \<and> count_streams (ts_acts s) = Suc (count_streams acts))"
  proof (cases "ti_remote t \<or> \<not> opened \<or> tools = None \<or> tools = Some []")
    case True
    then show ?thesis using assms o l
      by (auto simp: run_once_def Let_def start ends_well_def split: if_splits)
  next
    case False
    then obtain panels where "tools = Some panels" "panels \<noteq> []" by auto
    then have "chat_rounds MAX_TOOL_ROUNDS h t panels (turn_start t acts) w2 = (e, s, w')"
      using assms o l False by (simp add: run_once_def Let_def)
    from chat_rounds_cost[OF this] show ?thesis by (simp add: start MAX_TOOL_ROUNDS_def)
  qed
  then show "count_calls (ts_acts s) \<le> count_calls acts + 50" "count_streams (ts_acts s) \<le> count_streams acts + 50"
    "e = None \<Longrightarrow> ends_well s"
    "e \<noteq> None \<Longrightarrow> ts_events s = [] \<Longrightarrow> count_calls (ts_acts s) = count_calls acts \<and> count_streams (ts_acts s) = Suc (count_streams acts)"
    by blast+
qed

lemma ends_well_error [simp]: "ends_well (emit [Error_event e] s)"
  by (simp add: ends_well_def)

lemma run_attempts_cost:
  "run_attempts k h t acts w = (s, w') \<Longrightarrow>
   count_calls (ts_acts s) \<le> count_calls acts + 50 \<and> count_streams (ts_acts s) \<le> count_streams acts + 50 + k \<and> ends_well s"
proof (induction k arbitrary: acts w)
  case 0
  obtain e s1 w1 where r: "run_once h t acts w = (e, s1, w1)" by (metis prod.collapse)
  then show ?case using 0 run_once_cost[OF r] by (auto split: option.splits if_splits)
next
  case (Suc k)
  obtain e s1 w1 where r: "run_once h t acts w = (e, s1, w1)" by (metis prod.collapse)
  note c = run_once_cost[OF r]
  show ?case
  proof (cases "\<exists>x. e = Some x \<and> ts_events s1 = [] \<and> is_transient_error x")
    case True
    then have "run_attempts k h t (ts_acts s1) w1 = (s, w')" using Suc.prems r by auto
    from Suc.IH[OF this] c(4) True show ?thesis by auto
  next
    case False
    then show ?thesis using Suc.prems r c(1-3) by (auto split: option.splits if_splits)
  qed
qed

text \<open>
  C33: Every turn ends, and within bounds: whatever the model streams, however often it fails and
  whatever the tools answer, a turn calls at most 50 tools and asks the model for at most 52
  streams, its retries included (a retry happens only before anything was shown or called),
  and its last event is the usage record or an error.
\<close>

theorem turn_ends_within_bounds:
  "count_calls (ts_acts (fst (run_turn h t w))) \<le> 50 \<and> count_streams (ts_acts (fst (run_turn h t w))) \<le> 52 \<and>
   ends_well (fst (run_turn h t w))"
  using run_attempts_cost[of 2 h t "[]" w "fst (run_turn h t w)" "snd (run_turn h t w)"] by (simp add: run_turn_def)

subsection \<open>How a turn ends\<close>

lemma turn_events [simp]: "turn_event (Tool_call_start i n a)" "turn_event (Tool_call_end i st uri)" "\<not> turn_event (Error_event err)"
  "\<not> turn_event (Usage_accumulated m p c k)"
  by (simp_all add: turn_event_def)

lemma chat_round_shape:
  assumes "chat_round h t panels s w = (e, s', w')"
  shows "if e = Model_done then \<exists>s1. grows_by turn_event s s1 \<and> s' = emit [usage_event t s1] s1 else grows_by turn_event s s'"
proof -
  obtain chunks fault w1 where st: "ch_stream h (ti_model t) (ts_contents s) w = ((chunks, fault), w1)" by (metis prod.collapse)
  let ?r = "fold read_chunk chunks (round_start (act Streamed s))"
  let ?s1 = "add_usage (rd_usage ?r) (rd_turn ?r)"
  have g: "grows_by turn_event s (rd_turn ?r)" using read_grows[of "act Streamed s" chunks] by (simp add: grows_by_def)
  have s1: "grows_by turn_event s ?s1" using g by (simp add: grows_by_def add_usage_def split: option.split)
  show ?thesis
  proof (cases "fault = None \<and> rd_calls ?r \<noteq> []")
    case False
    then show ?thesis using assms st g s1 by (cases fault) (auto simp: chat_round_def Let_def)
  next
    case True
    let ?s2 = "?s1\<lparr>ts_contents := ts_contents ?s1 @
         [Model_parts (rd_parts ?r @ map (snd \<circ> snd) (take MAX_FUNCTION_CALLS_PER_ROUND (rd_calls ?r)))]\<rparr>"
    obtain resps s3 w2 where c: "run_calls h panels (take MAX_FUNCTION_CALLS_PER_ROUND (rd_calls ?r)) ?s2 w1 = (resps, s3, w2)"
      by (metis prod.collapse)
    then have s': "e = Next_round" "s' = s3\<lparr>ts_contents := ts_contents s3 @ [Tool_responses resps]\<rparr>"
      using assms st True by (auto simp: chat_round_def Let_def)
    have "grows_by turn_event s ?s2" using s1 by (simp add: grows_by_def)
    from grows_trans[OF this run_calls_cost(4)[OF c]] True show ?thesis by (simp add: s' grows_by_def)
  qed
qed

text \<open>The tail of a turn: its usage record, that and an error, or an error alone.\<close>

definition turn_tail :: "string \<Rightarrow> chat_event list \<Rightarrow> bool" where
  "turn_tail model lst \<longleftrightarrow> (\<exists>p c n err. lst = [Usage_accumulated model p c n] \<or> lst = [Usage_accumulated model p c n, Error_event err]
     \<or> lst = [Error_event err])"

definition turn_shape :: "string \<Rightarrow> turn_state \<Rightarrow> turn_state \<Rightarrow> bool" where
  "turn_shape model s s' \<longleftrightarrow> (\<exists>es lst. ts_events s' = ts_events s @ es @ lst \<and> list_all turn_event es \<and> turn_tail model lst)"

lemma shape_after: "grows_by turn_event s s1 \<Longrightarrow> turn_shape model s1 s' \<Longrightarrow> turn_shape model s s'"
  unfolding grows_by_def turn_shape_def by (elim exE conjE) (metis append.assoc list_all_append)

lemma shape_now: "turn_tail model lst \<Longrightarrow> turn_shape model s (emit lst s)"
  unfolding turn_shape_def by (intro exI[of _ "[]"] exI[of _ lst]) (simp add: emit_def)

lemma turn_tails: "turn_tail model [Error_event err]" "turn_tail (ti_model t) [Chat_Engine.usage_event t s]" "turn_tail (ti_model t) [usage_event t s, Error_event err]"
  by (simp_all add: turn_tail_def usage_event_def)

lemma shape_start: "turn_shape model (turn_start t acts) s \<Longrightarrow> turn_shape model (turn_start t acts') s"
  by (simp add: turn_shape_def turn_start_def)

lemma failed_shape: "grows_by turn_event s s1 \<Longrightarrow> turn_shape model s (emit [Error_event err] s1)"
  by (rule shape_after[OF _ shape_now[OF turn_tails(1)]])

lemma chat_rounds_shape:
  "chat_rounds k h t panels s w = (e, s', w') \<Longrightarrow> (if e = None then turn_shape (ti_model t) s s' else grows_by turn_event s s')"
proof (induction k arbitrary: s w)
  case 0
  then show ?case by (auto intro!: shape_now turn_tails)
next
  case (Suc k)
  obtain r s1 w1 where r: "chat_round h t panels s w = (r, s1, w1)" by (metis prod.collapse)
  note c = chat_round_shape[OF r]
  show ?case
  proof (cases r)
    case Next_round
    then have "chat_rounds k h t panels s1 w1 = (e, s', w')" "grows_by turn_event s s1" using Suc.prems r c by simp_all
    then show ?thesis using Suc.IH shape_after grows_trans by (metis (full_types))
  next
    case Model_done
    then obtain s2 where "grows_by turn_event s s2" "s1 = emit [usage_event t s2] s2" using c by auto
    then show ?thesis using Suc.prems r Model_done by (auto intro: shape_after shape_now turn_tails)
  next
    case (Raised x)
    then show ?thesis using Suc.prems r c by auto
  qed
qed

lemma run_once_shape:
  assumes "run_once h t acts w = (e, s, w')"
  shows "if e = None then turn_shape (ti_model t) (turn_start t acts) s else grows_by turn_event (turn_start t acts) s"
proof -
  obtain opened w1 where o: "ch_open h w = (opened, w1)" by fastforce
  obtain tools w2 where l: "ch_list_tools h w1 = (tools, w2)" by fastforce
  show ?thesis
  proof (cases "ti_remote t \<or> \<not> opened \<or> tools = None \<or> tools = Some []")
    case True
    then have "e = None" "\<exists>err. s = emit [Error_event err] (turn_start t acts)"
      using assms o l by (auto simp: run_once_def Let_def split: if_splits)
    then show ?thesis by (auto intro: shape_now turn_tails)
  next
    case False
    then obtain panels where "tools = Some panels" "panels \<noteq> []" by auto
    then have "chat_rounds MAX_TOOL_ROUNDS h t panels (turn_start t acts) w2 = (e, s, w')"
      using assms o l False by (simp add: run_once_def Let_def)
    then show ?thesis by (rule chat_rounds_shape)
  qed
qed

text \<open>The usage record is the last event of a turn, or the last but one before the error of the round limit.\<close>

lemma run_turn_shape: "\<exists>es lst. ts_events (fst (run_turn h t w)) = es @ lst \<and> list_all turn_event es \<and> turn_tail (ti_model t) lst"
proof -
  have "turn_shape (ti_model t) (turn_start t []) s" if "run_attempts k h t acts w = (s, w')" for k acts w s w'
    using that
  proof (induction k arbitrary: acts w)
    case 0
    obtain e s1 w1 where r: "run_once h t acts w = (e, s1, w1)" by (metis prod.collapse)
    then show ?case using 0 run_once_shape[OF r]
      by (cases e) (auto intro: shape_start failed_shape[THEN shape_start] split: if_splits)
  next
    case (Suc k)
    obtain e s1 w1 where r: "run_once h t acts w = (e, s1, w1)" by (metis prod.collapse)
    show ?case
    proof (cases "\<exists>x. e = Some x \<and> ts_events s1 = [] \<and> is_transient_error x")
      case True
      then have "run_attempts k h t (ts_acts s1) w1 = (s, w')" using Suc.prems r by auto
      then show ?thesis by (rule Suc.IH)
    next
      case False
      then show ?thesis using Suc.prems r run_once_shape[OF r]
        by (cases e) (auto intro: shape_start failed_shape[THEN shape_start] split: if_splits)
    qed
  qed
  from this[of 2 "[]" w "fst (run_turn h t w)" "snd (run_turn h t w)"] show ?thesis
    by (simp add: run_turn_def turn_shape_def turn_start_def)
qed

end
