(* ===== verification/Chat_Examples.thy ===== *)
theory Chat_Examples
  imports Chat_Bounds
begin

text \<open>
  A turn evaluated in full, the shell tool behind the gate, and what happens at the edges: a
  turn that fails late, and two turns that use the same call id.
\<close>

subsection \<open>A turn with one approved command\<close>

definition demo_fcall :: fcall where
  "demo_fcall = \<lparr>fc_id = [], fc_name = ''ssh_run'', fc_args = [(''host'', PStr ''pve1''), (''command'', PStr ''uptime'')]\<rparr>"

definition demo_stream :: "chat_exc option \<Rightarrow> string \<Rightarrow> content list \<Rightarrow> 'w \<Rightarrow> (chunk list \<times> chat_exc option) \<times> 'w" where
  "demo_stream late m cs w =
     (if length cs = 1 then
        (([\<lparr>ck_usage = Some \<lparr>um_prompt = 1000, um_cached = 0, um_output = 50\<rparr>,
            ck_parts = [\<lparr>gp_text = [], gp_thought = False, gp_fcall = Some demo_fcall, gp_tcall = None, gp_tresponse = None\<rparr>]\<rparr>], None), w)
      else (([\<lparr>ck_usage = None, ck_parts = [text_gpart ''up'' False]\<rparr>], late), w))"

definition demo_host :: "chat_exc option \<Rightarrow> unit route_world chat_host" where
  "demo_host late =
     \<lparr>ch_open = \<lambda>w. (True, w), ch_list_tools = \<lambda>w. (Some [(''ssh_run'', None)], w), ch_stream = demo_stream late,
      ch_call = \<lambda>n a w. (Inr \<lparr>cr_payload = PStr ''ok'', cr_is_error = False, cr_uri = None\<rparr>, w),
      ch_confirm = Some (route_confirm (\<lambda>i cs r. ([Resolve_call i ''me'' True], r)) ''me'')\<rparr>"

definition demo_world :: "unit route_world" where
  "demo_world = \<lparr>rw_store = \<lparr>cs_futures = [], cs_pending = []\<rparr>, rw_waits = [], rw_rest = ()\<rparr>"

definition demo_turn :: turn_input where
  "demo_turn = \<lparr>ti_history = [], ti_user_text = ''load?'', ti_app_block = [], ti_model = ''gemini'', ti_remote = False\<rparr>"

lemma demo_quiet: "quiet_host (demo_host late)"
  by (simp add: quiet_host_def quiet_def demo_host_def demo_stream_def)

lemma demo_acts:
  "ts_acts (fst (run_turn (demo_host None) demo_turn demo_world)) =
     [Streamed, Asked ''fc_0'' ''ssh_run'' (fc_args demo_fcall) True] @ Called ''ssh_run'' (fc_args demo_fcall) # [Streamed]"
  by code_simp


subsection \<open>The shell tool is behind the gate\<close>

text \<open>
  No call of \<open>ssh_run\<close> that starts a command passes the gate unasked, neither from the
  model nor from a panel: the only form that is let through, with an \<open>exec_id\<close> and no
  command, polls a command that runs already.
\<close>

theorem shell_is_never_ungated:
  assumes "text_args args [''host'', ''command'', ''exec_id'']"
    and "ssh_run (text_arg args ''host'') (text_arg args ''command'') timeout wait (text_arg args ''exec_id'') = Start_command host command limit"
  shows "requires_confirmation ''ssh_run'' args \<and> \<not> panel_call_allowed ''ssh_run'' args"
proof -
  have "text_arg args ''exec_id'' = []"
    using assms(2) by (auto simp: ssh_run_def split: if_splits)
  moreover obtain d where d: "args = PDict d" using assms(1) by (auto simp: text_args_def split: pyval.splits)
  moreover have "case dget d ''exec_id'' of None \<Rightarrow> True | Some v \<Rightarrow> (case v of PStr s \<Rightarrow> True | _ \<Rightarrow> False)"
    using assms(1) by (simp add: text_args_def d)
  ultimately have "\<not> truth (dict_arg args ''exec_id'')"
    by (auto simp: text_arg_def dict_arg_def split: option.splits pyval.splits)
  then have "requires_confirmation ''ssh_run'' args"
    by (simp add: requires_confirmation_def CONFIRM_WHEN_ARG_PRESENT_def NEEDS_CONFIRMATION_def DRY_RUN_AWARE_def)
  then show ?thesis by (simp add: panel_call_allowed_def PANEL_CALL_EXEMPT_def)
qed

lemma shell_is_never_ungated_witness:
  "requires_confirmation ''ssh_run'' (PDict [(''host'', PStr ''pve1''), (''command'', PStr ''reboot'')]) \<and>
   \<not> panel_call_allowed ''ssh_run'' (PDict [(''host'', PStr ''pve1''), (''command'', PStr ''reboot'')])"
proof (rule shell_is_never_ungated)
  let ?a = "PDict [(''host'', PStr ''pve1''), (''command'', PStr ''reboot'')]"
  show "text_args ?a [''host'', ''command'', ''exec_id'']" by code_simp
  show "ssh_run (text_arg ?a ''host'') (text_arg ?a ''command'') 60 False (text_arg ?a ''exec_id'') = Start_command ''pve1'' ''reboot'' None"
    by code_simp
qed

subsection \<open>Edges\<close>

text \<open>
  A turn whose second stream fails has used the tokens of the first, and reports no usage: the
  route has nothing to charge.
\<close>

lemma late_failure_loses_usage:
  "let s = fst (run_turn (demo_host (Some \<lparr>ex_type = ''APIError'', ex_msg = ''stream reset''\<rparr>)) demo_turn demo_world)
   in ts_prompt s = 1000 \<and> ts_output s = 50 \<and> list_all (\<lambda>e. case e of Usage_accumulated m p c out \<Rightarrow> False | _ \<Rightarrow> True) (ts_events s)"
  by code_simp

text \<open>
  The id of a call without one of its own counts the ids of its turn only, so two turns of a
  session both ask for \<open>fc_0\<close>: the yes meant for the first card approves the second call,
  and the first waits in vain.
\<close>

lemma same_id_approves_the_other_call:
  "let (f1, s1) = confirmation_create ''fc_0'' ''me'' \<lparr>cs_futures = [], cs_pending = []\<rparr>;
       (f2, s2) = confirmation_create ''fc_0'' ''me'' s1;
       (ok, s3) = confirmation_resolve ''fc_0'' ''me'' True s2
   in ok \<and> cs_futures s3 ! f1 = Waiting \<and> cs_futures s3 ! f2 = Approved True"
  by code_simp

text \<open>When the turn of another session ends, it cancels by id what this one is waiting for.\<close>

lemma same_id_cancels_the_other_session:
  "let (f1, s1) = confirmation_create ''fc_0'' ''me'' \<lparr>cs_futures = [], cs_pending = []\<rparr>;
       (f2, s2) = confirmation_create ''fc_0'' ''you'' s1
   in cs_futures (confirmation_cancel ''fc_0'' s2) ! f2 = Cancelled"
  by code_simp

end
