(* ===== verification/Oauth_Flow.thy ===== *)
theory Oauth_Flow
  imports Client_Store Auth_Codes Redirects Rate_Limit Totp_Lockout Passkeys
begin

text \<open>
  The OAuth endpoints of the server (\<open>_run_http\<close> in \<open>__main__.py\<close>) over the stores they
  share: authorization with a TOTP code or a passkey, the approval ticket, its exchange for an
  authorization code, and the token endpoint with its three grants.  A request comes with its
  decoded body, the client address that \<open>client_ip\<close> gives it, the values the handler draws,
  and its successive readings of the clock and of the registry file's stat signature
  (\<open>clk 0\<close>, \<open>clk 1\<close>, ...).  The token store is the one registered with the client
  store (\<open>pruned\<close>).  Pages (which read the registry again, without effect
  after the reading the handler made), audit records and counters are not modelled.
\<close>

subsection \<open>State and replies\<close>

record oauth_env =
  oe_hash :: "string \<Rightarrow> string"
  oe_s256 :: "string \<Rightarrow> string"
  oe_totp :: "string \<Rightarrow> string \<Rightarrow> real \<Rightarrow> bool"
  oe_origins :: "string list"
  oe_wa :: wa_authenticate
  oe_wr :: wa_register

text \<open>The normalized parameters of an authorization request.\<close>

record oauth_params =
  op_client_id :: string
  op_redirect_uri :: string
  op_state :: string
  op_challenge :: string
  op_method :: string

record oauth_state =
  os_clients :: client_store
  os_codes :: code_store
  os_lockout :: totp_lockout
  os_login_limiter :: rate_limiter
  os_token_limiter :: rate_limiter
  os_pending :: "(string, oauth_params \<times> real) dict"
  os_passkeys :: passkey_service

type_synonym form = "(string, string) dict"
type_synonym clock = "nat \<Rightarrow> real"
type_synonym sigs = "nat \<Rightarrow> file_sig"

datatype param_error =
    Unsupported_response_type | Unauthorized_client | Not_absolute | Not_https | Not_allowed | Pkce_required | Url_error

datatype oauth_reply =
    Param_refused param_error
  | Rate_limited int
  | Authorize_form bool
  | Locked_out
  | Totp_refused totp_result bool
  | Passkey_refused
  | Passkey_unknown_client
  | Passkey_options "string \<times> string list \<times> string"
  | Passkey_enrolled passkey
  | Ticket_given string
  | Ticket_refused
  | Code_redirect string string string
  | Invalid_client
  | Invalid_grant
  | Token_issued oauth_grant
  | Unsupported_grant
  | Server_error

definition bget :: "form \<Rightarrow> string \<Rightarrow> string" where
  "bget body k = (case dget body k of Some v \<Rightarrow> v | None \<Rightarrow> [])"

subsection \<open>Helpers\<close>

definition seed_owner :: "string \<Rightarrow> file_sig \<Rightarrow> oauth_state \<Rightarrow> string \<times> oauth_state" where
  "seed_owner client_id sig s =
     (case get_client client_id sig (os_clients s) of
        (c, cs) \<Rightarrow>
          (case c of None \<Rightarrow> client_id
           | Some cl \<Rightarrow> (case cl_owner cl of Some ow \<Rightarrow> if ow \<noteq> [] then ow else client_id | None \<Rightarrow> client_id),
           s\<lparr>os_clients := cs\<rparr>))"

definition totp_locked :: "string \<Rightarrow> string \<Rightarrow> file_sig \<Rightarrow> real \<Rightarrow> oauth_state \<Rightarrow> bool \<times> oauth_state" where
  "totp_locked client_id ip sig now s =
     (case seed_owner client_id sig s of
        (ow, s1) \<Rightarrow> (case locked ow (Some ip) now (os_lockout s1) of (b, l) \<Rightarrow> (b, s1\<lparr>os_lockout := l\<rparr>)))"

definition totp_record_failure :: "string \<Rightarrow> string \<Rightarrow> file_sig \<Rightarrow> real \<Rightarrow> oauth_state \<Rightarrow> oauth_state" where
  "totp_record_failure client_id ip sig now s =
     (case seed_owner client_id sig s of (ow, s1) \<Rightarrow> s1\<lparr>os_lockout := record_failure ow (Some ip) now (os_lockout s1)\<rparr>)"

definition totp_record_success :: "string \<Rightarrow> string \<Rightarrow> file_sig \<Rightarrow> real \<Rightarrow> oauth_state \<Rightarrow> oauth_state" where
  "totp_record_success client_id ip sig now s =
     (case seed_owner client_id sig s of (ow, s1) \<Rightarrow> s1\<lparr>os_lockout := record_success ow (Some ip) now (os_lockout s1)\<rparr>)"

definition check_code :: "oauth_env \<Rightarrow> string \<Rightarrow> string \<Rightarrow> real \<Rightarrow> file_sig \<Rightarrow> oauth_state \<Rightarrow> totp_result \<times> oauth_state" where
  "check_code e client_id c now sig s =
     (case check_totp (oe_totp e) client_id c now sig (os_clients s) of (r, cs) \<Rightarrow> (r, s\<lparr>os_clients := cs\<rparr>))"

text \<open>The login limiter, with the delay it announces when it refuses.\<close>

definition login_limit :: "string \<Rightarrow> clock \<Rightarrow> oauth_state \<Rightarrow> int option \<times> oauth_state" where
  "login_limit ip clk s =
     (case rate_check ip (clk 0) (os_login_limiter s) of
        (True, l) \<Rightarrow> (None, s\<lparr>os_login_limiter := l\<rparr>)
      | (False, l) \<Rightarrow> (case retry_after ip (clk 1) (clk 2) l of (n, l') \<Rightarrow> (Some n, s\<lparr>os_login_limiter := l'\<rparr>)))"

definition token_limit :: "string \<Rightarrow> clock \<Rightarrow> oauth_state \<Rightarrow> int option \<times> oauth_state" where
  "token_limit ip clk s =
     (case rate_check ip (clk 0) (os_token_limiter s) of
        (True, l) \<Rightarrow> (None, s\<lparr>os_token_limiter := l\<rparr>)
      | (False, l) \<Rightarrow> (case retry_after ip (clk 1) (clk 2) l of (n, l') \<Rightarrow> (Some n, s\<lparr>os_token_limiter := l'\<rparr>)))"

text \<open>\<open>_validate_authorize_params\<close>.\<close>

definition validate_authorize_params :: "oauth_env \<Rightarrow> form \<Rightarrow> file_sig \<Rightarrow> oauth_state \<Rightarrow> (param_error + oauth_params) \<times> oauth_state" where
  "validate_authorize_params e body sig s =
     (let cid = bget body ''client_id''; uri = bget body ''redirect_uri''; challenge = bget body ''code_challenge'';
          meth = bget body ''code_challenge_method''
      in if bget body ''response_type'' \<noteq> ''code'' then (Inl Unsupported_response_type, s)
         else if cid = [] then (Inl Unauthorized_client, s)
         else case client_exists cid sig (os_clients s) of
           (known, cs) \<Rightarrow>
             let s1 = s\<lparr>os_clients := cs\<rparr>
             in if \<not> known then (Inl Unauthorized_client, s1)
                else case urlparse uri of
                  None \<Rightarrow> (Inl Url_error, s1)
                | Some (scheme, netloc) \<Rightarrow>
                    if scheme \<notin> {''https'', ''http''} \<or> netloc = [] then (Inl Not_absolute, s1)
                    else if scheme = ''http'' \<and> url_hostname netloc \<notin> {''localhost'', ''127.0.0.1'', ''::1''} then (Inl Not_https, s1)
                    else if \<not> is_trusted_redirect_uri uri (oe_origins e) then (Inl Not_allowed, s1)
                    else if challenge = [] \<or> meth \<noteq> ''S256'' then (Inl Pkce_required, s1)
                    else (Inr \<lparr>op_client_id = cid, op_redirect_uri = uri, op_state = bget body ''state'',
                               op_challenge = challenge, op_method = meth\<rparr>, s1))"

subsection \<open>Approval tickets\<close>

definition PENDING_AUTHORIZATION_TTL :: real where "PENDING_AUTHORIZATION_TTL = 600"

definition prune_pending :: "real \<Rightarrow> oauth_state \<Rightarrow> oauth_state" where
  "prune_pending now s = s\<lparr>os_pending := dkeep (\<lambda>(p, until). \<not> until < now) (os_pending s)\<rparr>"

definition issue_pending :: "oauth_params \<Rightarrow> string \<Rightarrow> real \<Rightarrow> real \<Rightarrow> oauth_state \<Rightarrow> oauth_state" where
  "issue_pending p ticket t0 t1 s =
     (let s1 = prune_pending t0 s in s1\<lparr>os_pending := dset ticket (p, t1 + PENDING_AUTHORIZATION_TTL) (os_pending s1)\<rparr>)"

definition consume_pending :: "string \<Rightarrow> real \<Rightarrow> real \<Rightarrow> oauth_state \<Rightarrow> oauth_params option \<times> oauth_state" where
  "consume_pending ticket t0 t1 s =
     (let s1 = prune_pending t0 s
      in case dget (os_pending s1) ticket of
           None \<Rightarrow> (None, s1)
         | Some (p, until) \<Rightarrow> (if t1 \<le> until then Some p else None, s1\<lparr>os_pending := dpop ticket (os_pending s1)\<rparr>))"

definition peek_pending :: "string \<Rightarrow> real \<Rightarrow> real \<Rightarrow> oauth_state \<Rightarrow> oauth_params option \<times> oauth_state" where
  "peek_pending ticket t0 t1 s =
     (let s1 = prune_pending t0 s
      in (case dget (os_pending s1) ticket of
            None \<Rightarrow> None
          | Some (p, until) \<Rightarrow> if t1 \<le> until then Some p else None, s1))"

subsection \<open>Authorization\<close>

definition authorize_get :: "oauth_env \<Rightarrow> form \<Rightarrow> string \<Rightarrow> clock \<Rightarrow> sigs \<Rightarrow> oauth_state \<Rightarrow> oauth_reply \<times> oauth_state" where
  "authorize_get e query ip clk sg s =
     (case validate_authorize_params e query (sg 0) s of
        (Inl err, s1) \<Rightarrow> (Param_refused err, s1)
      | (Inr p, s1) \<Rightarrow> (case totp_locked (op_client_id p) ip (sg 1) (clk 0) s1 of (b, s2) \<Rightarrow> (Authorize_form b, s2)))"

definition authorize_post :: "oauth_env \<Rightarrow> form \<Rightarrow> string \<Rightarrow> string \<Rightarrow> clock \<Rightarrow> sigs \<Rightarrow> oauth_state \<Rightarrow> oauth_reply \<times> oauth_state" where
  "authorize_post e body ip ticket clk sg s =
     (case validate_authorize_params e body (sg 0) s of
        (Inl err, s1) \<Rightarrow> (Param_refused err, s1)
      | (Inr p, s1) \<Rightarrow>
          (case login_limit ip clk s1 of
             (Some n, s2) \<Rightarrow> (Rate_limited n, s2)
           | (None, s2) \<Rightarrow>
               (case totp_locked (op_client_id p) ip (sg 1) (clk 3) s2 of
                  (True, s3) \<Rightarrow> (Locked_out, s3)
                | (False, s3) \<Rightarrow>
                    (case check_code e (op_client_id p) (bget body ''totp'') (clk 4) (sg 2) s3 of
                       (r, s4) \<Rightarrow>
                         if r \<noteq> TOTP_OK then
                           let s5 = (if r = TOTP_INVALID then totp_record_failure (op_client_id p) ip (sg 3) (clk 5) s4 else s4)
                           in case totp_locked (op_client_id p) ip (sg 4) (clk 6) s5 of (b, s6) \<Rightarrow> (Totp_refused r b, s6)
                         else
                           (Ticket_given ticket,
                            issue_pending p ticket (clk 6) (clk 7) (totp_record_success (op_client_id p) ip (sg 3) (clk 5) s4))))))"

text \<open>\<open>_authorize_passkey_guard\<close>.\<close>

definition passkey_guard :: "string \<Rightarrow> clock \<Rightarrow> oauth_state \<Rightarrow> oauth_reply option \<times> oauth_state" where
  "passkey_guard ip clk s =
     (if \<not> pk_available (os_passkeys s) then (Some Passkey_refused, s)
      else case login_limit ip clk s of (Some n, s1) \<Rightarrow> (Some (Rate_limited n), s1) | (None, s1) \<Rightarrow> (None, s1))"

text \<open>\<open>client_id\<close> is the text of the body's field, \<open>ch\<close> and \<open>state\<close> the values drawn.\<close>

definition passkey_options ::
  "request \<Rightarrow> string \<Rightarrow> string \<Rightarrow> string \<Rightarrow> string \<Rightarrow> string \<Rightarrow> clock \<Rightarrow> sigs \<Rightarrow> oauth_state \<Rightarrow> oauth_reply \<times> oauth_state" where
  "passkey_options r netloc client_id ip ch state clk sg s =
     (case passkey_guard ip clk s of
        (Some blocked, s1) \<Rightarrow> (blocked, s1)
      | (None, s1) \<Rightarrow>
          (let cid = py_strip client_id
           in if cid = [] then (Passkey_unknown_client, s1)
              else case client_exists cid (sg 0) (os_clients s1) of
                (known, cs) \<Rightarrow>
                  if \<not> known then (Passkey_unknown_client, s1\<lparr>os_clients := cs\<rparr>)
                  else case seed_owner cid (sg 1) (s1\<lparr>os_clients := cs\<rparr>) of
                    (ow, s2) \<Rightarrow>
                      (case authentication_options r netloc ow ch state (clk 3) (clk 4) (os_passkeys s2) of
                         (Inl err, ps) \<Rightarrow> (Passkey_refused, s2\<lparr>os_passkeys := ps\<rparr>)
                       | (Inr opts, ps) \<Rightarrow> (Passkey_options opts, s2\<lparr>os_passkeys := ps\<rparr>))))"

text \<open>
  \<open>params\<close> and \<open>cred\<close> are None where the body has something else than a mapping.
\<close>

definition passkey_verify ::
  "oauth_env \<Rightarrow> request \<Rightarrow> string \<Rightarrow> form option \<Rightarrow> credential option \<Rightarrow> string \<Rightarrow> string \<Rightarrow> string \<Rightarrow> clock \<Rightarrow> sigs
     \<Rightarrow> oauth_state \<Rightarrow> oauth_reply \<times> oauth_state" where
  "passkey_verify e r netloc params cred state ip ticket clk sg s =
     (case passkey_guard ip clk s of
        (Some blocked, s1) \<Rightarrow> (blocked, s1)
      | (None, s1) \<Rightarrow>
          (case params of
             None \<Rightarrow> (Passkey_refused, s1)
           | Some body \<Rightarrow>
               (case validate_authorize_params e body (sg 0) s1 of
                  (Inl err, s2) \<Rightarrow> (Param_refused err, s2)
                | (Inr p, s2) \<Rightarrow>
                    (case cred of
                       None \<Rightarrow> (Passkey_refused, s2)
                     | Some c \<Rightarrow>
                         if state = [] then (Passkey_refused, s2)
                         else case verify_authentication (oe_wa e) r netloc state c (clk 3) (clk 4) (clk 5) (clk 6) (os_passkeys s2) of
                           (res, ps) \<Rightarrow>
                             let s3 = s2\<lparr>os_passkeys := ps\<rparr>
                             in case res of
                                  Inl err \<Rightarrow> (Passkey_refused, s3)
                                | Inr rec \<Rightarrow>
                                    (case seed_owner (op_client_id p) (sg 1) s3 of
                                       (ow, s4) \<Rightarrow>
                                         if pk_client_id rec \<noteq> ow then (Passkey_refused, s4)
                                         else (Ticket_given ticket,
                                               issue_pending p ticket (clk 8) (clk 9)
                                                 (totp_record_success (op_client_id p) ip (sg 2) (clk 7) s4)))))))"

text \<open>Enrolment on the confirmation screen, open to whoever holds a live ticket.\<close>

definition register_options ::
  "request \<Rightarrow> string \<Rightarrow> string \<Rightarrow> string \<Rightarrow> string \<Rightarrow> string \<Rightarrow> clock \<Rightarrow> sigs \<Rightarrow> oauth_state \<Rightarrow> oauth_reply \<times> oauth_state" where
  "register_options r netloc ticket ip ch state clk sg s =
     (case passkey_guard ip clk s of
        (Some blocked, s1) \<Rightarrow> (blocked, s1)
      | (None, s1) \<Rightarrow>
          (case peek_pending ticket (clk 3) (clk 4) s1 of
             (None, s2) \<Rightarrow> (Ticket_refused, s2)
           | (Some p, s2) \<Rightarrow>
               (case seed_owner (op_client_id p) (sg 0) s2 of
                  (ow, s3) \<Rightarrow>
                    (case get_client_name ow (sg 1) (os_clients s3) of
                       (nm, cs) \<Rightarrow>
                         (case registration_options r netloc ow None ch state (clk 5) (clk 6) (os_passkeys s3) of
                            (Inl err, ps) \<Rightarrow> (Passkey_refused, s3\<lparr>os_clients := cs, os_passkeys := ps\<rparr>)
                          | (Inr opts, ps) \<Rightarrow> (Passkey_options opts, s3\<lparr>os_clients := cs, os_passkeys := ps\<rparr>))))))"

definition register_verify ::
  "oauth_env \<Rightarrow> request \<Rightarrow> string \<Rightarrow> string \<Rightarrow> credential option \<Rightarrow> string \<Rightarrow> string \<Rightarrow> clock \<Rightarrow> oauth_state
     \<Rightarrow> oauth_reply \<times> oauth_state" where
  "register_verify e r netloc ticket cred state ip clk s =
     (case passkey_guard ip clk s of
        (Some blocked, s1) \<Rightarrow> (blocked, s1)
      | (None, s1) \<Rightarrow>
          (case peek_pending ticket (clk 3) (clk 4) s1 of
             (None, s2) \<Rightarrow> (Ticket_refused, s2)
           | (Some p, s2) \<Rightarrow>
               (case cred of
                  None \<Rightarrow> (Passkey_refused, s2)
                | Some c \<Rightarrow>
                    if state = [] then (Passkey_refused, s2)
                    else case verify_registration (oe_wr e) r netloc state c None None (clk 5) (clk 6) (clk 7) (os_passkeys s2) of
                      (Inl err, ps) \<Rightarrow>
                        (if err = Pk_AttributeError then Server_error else Passkey_refused, s2\<lparr>os_passkeys := ps\<rparr>)
                    | (Inr k, ps) \<Rightarrow> (Passkey_enrolled k, s2\<lparr>os_passkeys := ps\<rparr>))))"

text \<open>\<open>_authorize_redirect\<close>: the location carries the code and the client's state.\<close>

definition authorize_redirect :: "oauth_params \<Rightarrow> string \<Rightarrow> clock \<Rightarrow> oauth_state \<Rightarrow> oauth_reply \<times> oauth_state" where
  "authorize_redirect p drawn clk s =
     (case code_issue (op_client_id p) (op_redirect_uri p) (op_challenge p) (op_method p) drawn (clk 2) (clk 3) (os_codes s) of
        (c, codes) \<Rightarrow> (Code_redirect (op_redirect_uri p) c (op_state p), s\<lparr>os_codes := codes\<rparr>))"

definition authorize_finalize :: "string \<Rightarrow> string \<Rightarrow> clock \<Rightarrow> oauth_state \<Rightarrow> oauth_reply \<times> oauth_state" where
  "authorize_finalize ticket_raw drawn clk s =
     (let ticket = py_strip ticket_raw
      in if ticket = [] then (Ticket_refused, s)
         else case consume_pending ticket (clk 0) (clk 1) s of
           (None, s1) \<Rightarrow> (Ticket_refused, s1)
         | (Some p, s1) \<Rightarrow> authorize_redirect p drawn clk s1)"

subsection \<open>The token endpoint\<close>

text \<open>An operation on the registered token store; without one it is an \<open>AttributeError\<close>.\<close>

definition on_tokens :: "(token_store \<Rightarrow> 'a \<times> token_store) \<Rightarrow> oauth_state \<Rightarrow> 'a option \<times> oauth_state" where
  "on_tokens f s =
     (case pruned (os_clients s) of
        None \<Rightarrow> (None, s)
      | Some ts \<Rightarrow> (case f ts of (x, ts') \<Rightarrow> (Some x, s\<lparr>os_clients := (os_clients s)\<lparr>pruned := Some ts'\<rparr>\<rparr>)))"

definition issue_reply :: "oauth_grant option \<times> oauth_state \<Rightarrow> oauth_reply \<times> oauth_state" where
  "issue_reply r = (case r of (Some g, s) \<Rightarrow> (Token_issued g, s) | (None, s) \<Rightarrow> (Server_error, s))"

definition client_credentials_grant ::
  "oauth_env \<Rightarrow> form \<Rightarrow> string \<Rightarrow> string \<Rightarrow> clock \<Rightarrow> sigs \<Rightarrow> oauth_state \<Rightarrow> oauth_reply \<times> oauth_state" where
  "client_credentials_grant e body ip access clk sg s =
     (let cid = bget body ''client_id''
      in case totp_locked cid ip (sg 1) (clk 3) s of
           (True, s1) \<Rightarrow> (Invalid_grant, s1)
         | (False, s1) \<Rightarrow>
             (case check_code e cid (bget body ''totp'') (clk 4) (sg 2) s1 of
                (r, s2) \<Rightarrow>
                  if r \<noteq> TOTP_OK
                  then (Invalid_grant, if r = TOTP_INVALID then totp_record_failure cid ip (sg 3) (clk 5) s2 else s2)
                  else issue_reply (on_tokens (issue_oauth (oe_hash e) cid None access [] (clk 6) (clk 7) (clk 8))
                         (totp_record_success cid ip (sg 3) (clk 5) s2))))"

definition authorization_code_grant ::
  "oauth_env \<Rightarrow> form \<Rightarrow> string \<Rightarrow> string \<Rightarrow> string \<Rightarrow> clock \<Rightarrow> oauth_state \<Rightarrow> oauth_reply \<times> oauth_state" where
  "authorization_code_grant e body access fresh family clk s =
     (let cid = bget body ''client_id''
      in case code_consume (oe_s256 e) (bget body ''code'') cid (bget body ''redirect_uri'') (bget body ''code_verifier'') (clk 3) (os_codes s) of
           (Inl crash, codes) \<Rightarrow> (Server_error, s\<lparr>os_codes := codes\<rparr>)
         | (Inr False, codes) \<Rightarrow> (Invalid_grant, s\<lparr>os_codes := codes\<rparr>)
         | (Inr True, codes) \<Rightarrow>
             issue_reply (on_tokens (issue_oauth (oe_hash e) cid (Some family) access fresh (clk 4) (clk 5) (clk 6)) (s\<lparr>os_codes := codes\<rparr>)))"

definition refresh_grant ::
  "oauth_env \<Rightarrow> form \<Rightarrow> string \<Rightarrow> string \<Rightarrow> clock \<Rightarrow> oauth_state \<Rightarrow> oauth_reply \<times> oauth_state" where
  "refresh_grant e body access fresh clk s =
     (let presented = bget body ''refresh_token''
      in if presented = [] then (Invalid_grant, s)
         else case on_tokens (refresh (oe_hash e) presented (bget body ''client_id'') access fresh (clk 3) (clk 4) (clk 5)) s of
           (None, s1) \<Rightarrow> (Server_error, s1)
         | (Some (Inl err), s1) \<Rightarrow> (Invalid_grant, s1)
         | (Some (Inr g), s1) \<Rightarrow> (Token_issued g, s1))"

definition token_endpoint ::
  "oauth_env \<Rightarrow> form \<Rightarrow> string \<Rightarrow> string \<Rightarrow> string \<Rightarrow> string \<Rightarrow> clock \<Rightarrow> sigs \<Rightarrow> oauth_state \<Rightarrow> oauth_reply \<times> oauth_state" where
  "token_endpoint e body ip access fresh family clk sg s =
     (case token_limit ip clk s of
        (Some n, s1) \<Rightarrow> (Rate_limited n, s1)
      | (None, s1) \<Rightarrow>
          (case verify_secret (oe_hash e) (bget body ''client_id'') (bget body ''client_secret'') (sg 0) (os_clients s1) of
             (ok, cs) \<Rightarrow>
               let s2 = s1\<lparr>os_clients := cs\<rparr>; grant = bget body ''grant_type''
               in if \<not> ok then (Invalid_client, s2)
                  else if grant = ''client_credentials'' then client_credentials_grant e body ip access clk sg s2
                  else if grant = ''authorization_code'' then authorization_code_grant e body access fresh family clk s2
                  else if grant = ''refresh_token'' then refresh_grant e body access fresh clk s2
                  else (Unsupported_grant, s2)))"

subsection \<open>Requests\<close>

datatype oauth_request =
    Authorize_get form string
  | Authorize_post form string string
  | Passkey_ask request string string string string string
  | Passkey_verify request string "form option" "credential option" string string string
  | Register_ask request string string string string string
  | Register_verify request string string "credential option" string string
  | Finalize string string
  | Token_request form string string string string

fun oauth_handle :: "oauth_env \<Rightarrow> oauth_request \<Rightarrow> clock \<Rightarrow> sigs \<Rightarrow> oauth_state \<Rightarrow> oauth_reply \<times> oauth_state" where
  "oauth_handle e (Authorize_get query ip) clk sg s = authorize_get e query ip clk sg s"
| "oauth_handle e (Authorize_post body ip ticket) clk sg s = authorize_post e body ip ticket clk sg s"
| "oauth_handle e (Passkey_ask r netloc client_id ip ch state) clk sg s = passkey_options r netloc client_id ip ch state clk sg s"
| "oauth_handle e (Register_ask r netloc ticket ip ch state) clk sg s = register_options r netloc ticket ip ch state clk sg s"
| "oauth_handle e (Register_verify r netloc ticket cred state ip) clk sg s = register_verify e r netloc ticket cred state ip clk s"
| "oauth_handle e (Passkey_verify r netloc params cred state ip ticket) clk sg s =
     passkey_verify e r netloc params cred state ip ticket clk sg s"
| "oauth_handle e (Finalize ticket drawn) clk sg s = authorize_finalize ticket drawn clk s"
| "oauth_handle e (Token_request body ip access fresh family) clk sg s =
     token_endpoint e body ip access fresh family clk sg s"

text \<open>
  A run of the server: requests with what they read, the state they met and their replies, and
  anything else that leaves the tickets and the codes alone (the dashboard, the tools, the
  command line).
\<close>

record oauth_entry =
  en_request :: oauth_request
  en_clock :: clock
  en_sigs :: sigs
  en_state :: oauth_state
  en_reply :: oauth_reply

inductive oauth_run :: "oauth_env \<Rightarrow> oauth_state \<Rightarrow> oauth_entry list \<Rightarrow> oauth_state \<Rightarrow> bool"
  for e s0 where
  run_start: "oauth_run e s0 [] s0"
| run_request: "oauth_run e s0 hist s \<Longrightarrow> oauth_handle e req clk sg s = (reply, s') \<Longrightarrow>
     oauth_run e s0 (hist @ [\<lparr>en_request = req, en_clock = clk, en_sigs = sg, en_state = s, en_reply = reply\<rparr>]) s'"
| run_other: "oauth_run e s0 hist s \<Longrightarrow> os_pending s' = os_pending s \<Longrightarrow> os_codes s' = os_codes s \<Longrightarrow> oauth_run e s0 hist s'"

end
