(* ===== verification/Oauth_Props.thy ===== *)
theory Oauth_Props
  imports Oauth_Flow
begin

text \<open>
  What the OAuth endpoints promise together: every token they hand out goes back to a second
  factor that was checked for that client.
\<close>

subsection \<open>What the helpers leave alone\<close>

definition same_tickets :: "oauth_state \<Rightarrow> oauth_state \<Rightarrow> bool" where
  "same_tickets s s' \<longleftrightarrow> os_pending s' = os_pending s \<and> os_codes s' = os_codes s"

lemma same_tickets_refl [simp]: "same_tickets s s"
  by (simp add: same_tickets_def)

lemma same_tickets_trans: "same_tickets s1 s2 \<Longrightarrow> same_tickets s2 s3 \<Longrightarrow> same_tickets s1 s3"
  by (simp add: same_tickets_def)

lemma seed_owner_same: "seed_owner cid sig s = (ow, s') \<Longrightarrow> same_tickets s s'"
  by (auto simp: seed_owner_def same_tickets_def split: prod.splits)

lemma totp_locked_same: "totp_locked cid ip sig now s = (b, s') \<Longrightarrow> same_tickets s s'"
  by (auto simp: totp_locked_def same_tickets_def dest!: seed_owner_same split: prod.splits)

lemma totp_record_same: "same_tickets s (totp_record_failure cid ip sig now s)" "same_tickets s (totp_record_success cid ip sig now s)"
  using seed_owner_same[of cid sig s]
  by (auto simp: totp_record_failure_def totp_record_success_def same_tickets_def split: prod.splits)

lemma check_code_same: "check_code e cid c now sig s = (r, s') \<Longrightarrow> same_tickets s s'"
  by (auto simp: check_code_def same_tickets_def split: prod.splits)

lemma login_limit_same: "login_limit ip clk s = (r, s') \<Longrightarrow> same_tickets s s'"
  by (auto simp: login_limit_def same_tickets_def split: prod.splits bool.splits)

lemma token_limit_same: "token_limit ip clk s = (r, s') \<Longrightarrow> same_tickets s s'"
  by (auto simp: token_limit_def same_tickets_def split: prod.splits bool.splits)

lemma on_tokens_same: "on_tokens f s = (r, s') \<Longrightarrow> same_tickets s s'"
  by (auto simp: on_tokens_def same_tickets_def split: prod.splits option.splits)

lemma validate_params_same: "validate_authorize_params e body sig s = (r, s') \<Longrightarrow> same_tickets s s'"
  by (auto simp: validate_authorize_params_def same_tickets_def Let_def split: prod.splits option.splits if_splits)

lemmas helpers_same = seed_owner_same totp_locked_same check_code_same login_limit_same token_limit_same on_tokens_same
  validate_params_same

subsection \<open>A cleared authorization\<close>

definition params_ok :: "oauth_env \<Rightarrow> oauth_params \<Rightarrow> bool" where
  "params_ok e p \<longleftrightarrow> is_trusted_redirect_uri (op_redirect_uri p) (oe_origins e) \<and> op_challenge p \<noteq> [] \<and> op_method p = ''S256''"

text \<open>The state in which \<open>oauth_authorize_post\<close> checks the code.\<close>

definition post_check_state :: "oauth_env \<Rightarrow> oauth_params \<Rightarrow> form \<Rightarrow> string \<Rightarrow> clock \<Rightarrow> sigs \<Rightarrow> oauth_state \<Rightarrow> oauth_state" where
  "post_check_state e p body ip clk sg s =
     snd (totp_locked (op_client_id p) ip (sg 1) (clk 3) (snd (login_limit ip clk (snd (validate_authorize_params e body (sg 0) s)))))"

text \<open>
  The request of an entry carried the parameters and passed a second factor for their client:
  a TOTP code that \<open>check_totp\<close> accepted, or a passkey of the client's owner.
\<close>

definition second_factor :: "oauth_env \<Rightarrow> oauth_entry \<Rightarrow> oauth_params \<Rightarrow> bool" where
  "second_factor e en p \<longleftrightarrow>
     (case en_request en of
        Authorize_post body ip ticket \<Rightarrow>
          fst (validate_authorize_params e body (en_sigs en 0) (en_state en)) = Inr p \<and>
          fst (check_totp (oe_totp e) (op_client_id p) (bget body ''totp'') (en_clock en 4) (en_sigs en 2)
                 (os_clients (post_check_state e p body ip (en_clock en) (en_sigs en) (en_state en)))) = TOTP_OK
      | Passkey_verify r netloc params cred state ip ticket \<Rightarrow>
          (\<exists>body c s rec ps ow s'.
             params = Some body \<and> cred = Some c \<and>
             fst (validate_authorize_params e body (en_sigs en 0) (snd (login_limit ip (en_clock en) (en_state en)))) = Inr p \<and>
             verify_authentication (oe_wa e) r netloc state c (en_clock en 3) (en_clock en 4) (en_clock en 5) (en_clock en 6)
               (os_passkeys (en_state en)) = (Inr rec, ps) \<and>
             s = snd (validate_authorize_params e body (en_sigs en 0) (snd (login_limit ip (en_clock en) (en_state en)))) \<and>
             seed_owner (op_client_id p) (en_sigs en 1) (s\<lparr>os_passkeys := ps\<rparr>) = (ow, s') \<and> pk_client_id rec = ow)
      | _ \<Rightarrow> False)"

definition cleared :: "oauth_env \<Rightarrow> oauth_entry list \<Rightarrow> oauth_params \<Rightarrow> bool" where
  "cleared e hist p \<longleftrightarrow> params_ok e p \<and> (\<exists>en \<in> set hist. second_factor e en p \<and> (\<exists>t. en_reply en = Ticket_given t))"

definition code_of :: "oauth_params \<Rightarrow> auth_code \<Rightarrow> bool" where
  "code_of p ac \<longleftrightarrow> ac_client_id ac = op_client_id p \<and> ac_redirect_uri ac = op_redirect_uri p \<and>
     ac_code_challenge ac = op_challenge p \<and> ac_code_challenge_method ac = op_method p"

definition flow_inv :: "oauth_env \<Rightarrow> oauth_entry list \<Rightarrow> oauth_state \<Rightarrow> bool" where
  "flow_inv e hist s \<longleftrightarrow>
     (\<forall>t p u. (t, p, u) \<in> set (os_pending s) \<longrightarrow> cleared e hist p) \<and>
     (\<forall>c ac. (c, ac) \<in> set (os_codes s) \<longrightarrow> (\<exists>p. cleared e hist p \<and> code_of p ac))"

lemma validate_params_ok: "fst (validate_authorize_params e body sig s) = Inr p \<Longrightarrow> params_ok e p"
  by (auto simp: validate_authorize_params_def params_ok_def Let_def split: prod.splits option.splits if_splits)

lemma cleared_mono: "cleared e hist p \<Longrightarrow> cleared e (hist @ [en]) p"
  by (auto simp: cleared_def)

lemma flow_inv_mono: "flow_inv e hist s \<Longrightarrow> flow_inv e (hist @ [en]) s"
  unfolding flow_inv_def using cleared_mono by blast

lemma flow_inv_same: "flow_inv e hist s \<Longrightarrow> same_tickets s s' \<Longrightarrow> flow_inv e hist s'"
  by (simp add: flow_inv_def same_tickets_def)

lemma flow_inv_prune: "flow_inv e hist s \<Longrightarrow> flow_inv e hist (prune_pending now s)"
  by (auto simp: flow_inv_def prune_pending_def)

lemma flow_inv_issue: "flow_inv e hist s \<Longrightarrow> cleared e hist p \<Longrightarrow> flow_inv e hist (issue_pending p ticket t0 t1 s)"
proof -
  assume s: "flow_inv e hist s" and p: "cleared e hist p"
  let ?s = "prune_pending t0 s"
  have inv: "flow_inv e hist ?s" by (rule flow_inv_prune[OF s])
  have "cleared e hist q" if "(t, q, u) \<in> set (dset ticket (p, t1 + PENDING_AUTHORIZATION_TTL) (os_pending ?s))" for t q u
    using in_dset[OF that] inv p unfolding flow_inv_def by blast
  then show ?thesis using inv by (simp add: issue_pending_def flow_inv_def Let_def)
qed

lemma authorize_post_cases:
  assumes "authorize_post e body ip ticket clk sg s = (reply, s')"
  shows "(same_tickets s s' \<and> (\<nexists>t. reply = Ticket_given t)) \<or>
    (\<exists>p s1. reply = Ticket_given ticket \<and> same_tickets s s1 \<and> s' = issue_pending p ticket (clk 6) (clk 7) s1 \<and>
       fst (validate_authorize_params e body (sg 0) s) = Inr p \<and>
       fst (check_totp (oe_totp e) (op_client_id p) (bget body ''totp'') (clk 4) (sg 2)
              (os_clients (post_check_state e p body ip clk sg s))) = TOTP_OK)"
proof -
  obtain v s1 where v: "validate_authorize_params e body (sg 0) s = (v, s1)" by fastforce
  have s1: "same_tickets s s1" by (rule validate_params_same[OF v])
  show ?thesis
  proof (cases v)
    case (Inl err)
    then show ?thesis using assms v s1 by (auto simp: authorize_post_def)
  next
    case (Inr p)
    obtain l s2 where l: "login_limit ip clk s1 = (l, s2)" by fastforce
    have s2: "same_tickets s s2" using same_tickets_trans[OF s1 login_limit_same[OF l]] .
    obtain b s3 where k: "totp_locked (op_client_id p) ip (sg 1) (clk 3) s2 = (b, s3)" by fastforce
    have s3: "same_tickets s s3" using same_tickets_trans[OF s2 totp_locked_same[OF k]] .
    obtain r s4 where c: "check_code e (op_client_id p) (bget body ''totp'') (clk 4) (sg 2) s3 = (r, s4)" by fastforce
    have s4: "same_tickets s s4" using same_tickets_trans[OF s3 check_code_same[OF c]] .
    have at: "post_check_state e p body ip clk sg s = s3" unfolding post_check_state_def v l snd_conv k ..
    show ?thesis
    proof (cases "l = None \<and> \<not> b \<and> r = TOTP_OK")
      case True
      then have "reply = Ticket_given ticket"
        "s' = issue_pending p ticket (clk 6) (clk 7) (totp_record_success (op_client_id p) ip (sg 3) (clk 5) s4)"
        using assms v Inr l k c by (simp_all add: authorize_post_def)
      moreover have "fst (check_totp (oe_totp e) (op_client_id p) (bget body ''totp'') (clk 4) (sg 2)
          (os_clients (post_check_state e p body ip clk sg s))) = TOTP_OK"
        unfolding at using c True by (auto simp: check_code_def split: prod.splits)
      moreover have "same_tickets s (totp_record_success (op_client_id p) ip (sg 3) (clk 5) s4)"
        by (rule same_tickets_trans[OF s4 totp_record_same(2)])
      moreover have "fst (validate_authorize_params e body (sg 0) s) = Inr p" using v Inr by simp
      ultimately show ?thesis by blast
    next
      case False
      let ?s5 = "if r = TOTP_INVALID then totp_record_failure (op_client_id p) ip (sg 3) (clk 5) s4 else s4"
      obtain b6 s6 where k6: "totp_locked (op_client_id p) ip (sg 4) (clk 6) ?s5 = (b6, s6)" by fastforce
      have "same_tickets s4 ?s5" by (simp add: totp_record_same)
      then have s6: "same_tickets s s6" using same_tickets_trans s4 totp_locked_same[OF k6] by blast
      show ?thesis using False assms v Inr l k c k6 s2 s3 s6
        by (cases l; cases b; cases r) (auto simp: authorize_post_def Let_def)
    qed
  qed
qed

lemma passkey_verify_cases:
  assumes "passkey_verify e r netloc params cred state ip ticket clk sg s = (reply, s')"
  shows "(same_tickets s s' \<and> (\<nexists>t. reply = Ticket_given t)) \<or>
    (\<exists>p s1. reply = Ticket_given ticket \<and> same_tickets s s1 \<and> s' = issue_pending p ticket (clk 8) (clk 9) s1 \<and> params_ok e p \<and>
       second_factor e \<lparr>en_request = Passkey_verify r netloc params cred state ip ticket, en_clock = clk, en_sigs = sg,
                        en_state = s, en_reply = reply\<rparr> p)"
proof -
  obtain l s1 where l: "login_limit ip clk s = (l, s1)" by fastforce
  have s1: "same_tickets s s1" and p1: "os_passkeys s1 = os_passkeys s"
    using login_limit_same[OF l] l by (auto simp: login_limit_def split: prod.splits bool.splits)
  show ?thesis
  proof (cases "pk_available (os_passkeys s) \<and> l = None \<and> params \<noteq> None")
    case False
    then show ?thesis using assms l s1 by (cases l; cases params) (auto simp: passkey_verify_def passkey_guard_def split: if_splits)
  next
    case True
    then obtain body where body: "params = Some body" by auto
    obtain v s2 where v: "validate_authorize_params e body (sg 0) s1 = (v, s2)" by fastforce
    have s2: "same_tickets s s2" using same_tickets_trans[OF s1 validate_params_same[OF v]] .
    have p2: "os_passkeys s2 = os_passkeys s" using v p1
      by (auto simp: validate_authorize_params_def Let_def split: prod.splits option.splits if_splits)
    show ?thesis
    proof (cases "(\<exists>err. v = Inl err) \<or> cred = None \<or> state = []")
      case True
      then show ?thesis using assms l v s2 body \<open>pk_available (os_passkeys s) \<and> l = None \<and> params \<noteq> None\<close>
        by (cases v; cases cred) (auto simp: passkey_verify_def passkey_guard_def)
    next
      case False
      then obtain p c where p: "v = Inr p" and c: "cred = Some c" and st: "state \<noteq> []" by (cases v) auto
      obtain res ps where w: "verify_authentication (oe_wa e) r netloc state c (clk 3) (clk 4) (clk 5) (clk 6) (os_passkeys s2) = (res, ps)"
        by fastforce
      let ?s3 = "s2\<lparr>os_passkeys := ps\<rparr>"
      have s3: "same_tickets s ?s3" using s2 by (simp add: same_tickets_def)
      obtain ow s4 where o: "seed_owner (op_client_id p) (sg 1) ?s3 = (ow, s4)" by fastforce
      have s4: "same_tickets s s4" using same_tickets_trans[OF s3 seed_owner_same[OF o]] .
      show ?thesis
      proof (cases "\<exists>rec. res = Inr rec \<and> pk_client_id rec = ow")
        case True
        then obtain rec where rec: "res = Inr rec" "pk_client_id rec = ow" by blast
        let ?s5 = "totp_record_success (op_client_id p) ip (sg 2) (clk 7) s4"
        have "reply = Ticket_given ticket" "s' = issue_pending p ticket (clk 8) (clk 9) ?s5"
          using assms l v p c st w o rec body \<open>pk_available (os_passkeys s) \<and> l = None \<and> params \<noteq> None\<close>
          by (simp_all add: passkey_verify_def passkey_guard_def Let_def)
        moreover have "same_tickets s ?s5" by (rule same_tickets_trans[OF s4 totp_record_same(2)])
        moreover have "params_ok e p" using validate_params_ok[of e body "sg 0" s1 p] v p by simp
        moreover have "second_factor e \<lparr>en_request = Passkey_verify r netloc params cred state ip ticket, en_clock = clk,
            en_sigs = sg, en_state = s, en_reply = reply\<rparr> p"
          using body c l v p w o rec p2 by (simp add: second_factor_def)
        ultimately show ?thesis by blast
      next
        case False
        then show ?thesis
          using assms l v p c st w o body s3 s4 \<open>pk_available (os_passkeys s) \<and> l = None \<and> params \<noteq> None\<close>
          by (cases res) (auto simp: passkey_verify_def passkey_guard_def Let_def)
      qed
    qed
  qed
qed

subsection \<open>Tickets and codes\<close>

lemma finalize_inv:
  assumes inv: "flow_inv e hist s" and run: "authorize_finalize ticket drawn clk s = (reply, s')"
  shows "flow_inv e hist s'"
proof (cases "py_strip ticket = []")
  case True
  then show ?thesis using inv run by (simp add: authorize_finalize_def)
next
  case False
  let ?t = "py_strip ticket"
  let ?s1 = "prune_pending (clk 0) s"
  have inv1: "flow_inv e hist ?s1" by (rule flow_inv_prune[OF inv])
  show ?thesis
  proof (cases "dget (os_pending ?s1) ?t")
    case None
    then show ?thesis using inv1 run False by (simp add: authorize_finalize_def consume_pending_def Let_def)
  next
    case (Some pu)
    obtain p u where pu: "pu = (p, u)" by fastforce
    have clear: "cleared e hist p" using inv1 dget_in[OF Some[unfolded pu]] unfolding flow_inv_def by blast
    let ?s2 = "?s1\<lparr>os_pending := dpop ?t (os_pending ?s1)\<rparr>"
    have inv2: "flow_inv e hist ?s2" using inv1 by (auto simp: flow_inv_def)
    let ?ac = "\<lparr>ac_code = drawn, ac_client_id = op_client_id p, ac_redirect_uri = op_redirect_uri p,
      ac_code_challenge = op_challenge p, ac_code_challenge_method = op_method p, ac_expires_at = clk 2 + CODE_TTL\<rparr>"
    let ?codes = "code_cleanup (clk 3) (dset drawn ?ac (os_codes ?s1))"
    have code_p: "code_of p ?ac" by (simp add: code_of_def)
    have "\<exists>q. cleared e hist q \<and> code_of q ac" if "(c, ac) \<in> set ?codes" for c ac
    proof -
      have "(c, ac) \<in> set (dset drawn ?ac (os_codes ?s1))" using that by (simp add: code_cleanup_def)
      then have "ac = ?ac \<or> (c, ac) \<in> set (os_codes ?s1)" by (auto dest: in_dset)
      then show ?thesis using clear code_p inv1 unfolding flow_inv_def by blast
    qed
    then have "flow_inv e hist (?s2\<lparr>os_codes := ?codes\<rparr>)" using inv2 by (simp add: flow_inv_def)
    moreover have "s' = ?s2 \<or> s' = ?s2\<lparr>os_codes := ?codes\<rparr>"
      using run False Some pu by (auto simp: authorize_finalize_def authorize_redirect_def consume_pending_def code_issue_def Let_def split: if_splits)
    ultimately show ?thesis using inv2 by blast
  qed
qed

lemma code_consume_subset: "code_consume S code cid uri v now codes = (r, codes') \<Longrightarrow> set codes' \<subseteq> set codes"
  by (auto simp: code_consume_def Let_def split: option.splits if_splits)

lemma flow_inv_codes: "flow_inv e hist s \<Longrightarrow> set codes \<subseteq> set (os_codes s) \<Longrightarrow> flow_inv e hist (s\<lparr>os_codes := codes\<rparr>)"
  by (auto simp: flow_inv_def)

lemma issue_reply_same: "issue_reply (on_tokens f s) = (reply, s') \<Longrightarrow> same_tickets s s'"
  using on_tokens_same by (auto simp: issue_reply_def split: prod.splits option.splits)

lemma token_endpoint_inv:
  assumes inv: "flow_inv e hist s" and run: "token_endpoint e body ip access fresh family clk sg s = (reply, s')"
  shows "flow_inv e hist s'"
proof -
  let ?cid = "bget body ''client_id''"
  obtain l s1 where l: "token_limit ip clk s = (l, s1)" by fastforce
  have inv1: "flow_inv e hist s1" by (rule flow_inv_same[OF inv token_limit_same[OF l]])
  obtain ok cs where v: "verify_secret (oe_hash e) ?cid (bget body ''client_secret'') (sg 0) (os_clients s1) = (ok, cs)" by fastforce
  let ?s2 = "s1\<lparr>os_clients := cs\<rparr>"
  have inv2: "flow_inv e hist ?s2" by (rule flow_inv_same[OF inv1]) (simp add: same_tickets_def)
  have cc: "flow_inv e hist s'" if cc: "client_credentials_grant e body ip access clk sg ?s2 = (reply, s')"
  proof -
    obtain b s3 where k: "totp_locked ?cid ip (sg 1) (clk 3) ?s2 = (b, s3)" by fastforce
    obtain r s4 where c: "check_code e ?cid (bget body ''totp'') (clk 4) (sg 2) s3 = (r, s4)" by fastforce
    have "same_tickets ?s2 s3" "same_tickets s3 s4" using totp_locked_same[OF k] check_code_same[OF c] by auto
    moreover have "same_tickets s3 s' \<or> same_tickets s4 s'"
    proof (cases "b \<or> r \<noteq> TOTP_OK")
      case True
      then show ?thesis using cc k c
        by (cases b) (auto simp: client_credentials_grant_def Let_def totp_record_same split: if_splits)
    next
      case False
      then have "issue_reply (on_tokens (issue_oauth (oe_hash e) ?cid None access [] (clk 6) (clk 7) (clk 8))
          (totp_record_success ?cid ip (sg 3) (clk 5) s4)) = (reply, s')"
        using cc k c by (simp add: client_credentials_grant_def Let_def)
      then show ?thesis using issue_reply_same same_tickets_trans[OF totp_record_same(2)] by blast
    qed
    ultimately show ?thesis using flow_inv_same[OF inv2] same_tickets_trans by blast
  qed
  have ac: "flow_inv e hist s'" if ac: "authorization_code_grant e body access fresh family clk ?s2 = (reply, s')"
  proof -
    obtain r codes where c: "code_consume (oe_s256 e) (bget body ''code'') ?cid (bget body ''redirect_uri'')
        (bget body ''code_verifier'') (clk 3) (os_codes ?s2) = (r, codes)" by fastforce
    have "same_tickets (?s2\<lparr>os_codes := codes\<rparr>) s'"
      using ac c issue_reply_same by (auto simp: authorization_code_grant_def Let_def split: sum.splits bool.splits)
    then show ?thesis using flow_inv_same flow_inv_codes[OF inv2 code_consume_subset[OF c]] by blast
  qed
  have rf: "flow_inv e hist s'" if rf: "refresh_grant e body access fresh clk ?s2 = (reply, s')"
  proof -
    have "same_tickets ?s2 s'" using rf on_tokens_same
      by (auto simp: refresh_grant_def Let_def split: prod.splits option.splits sum.splits if_splits)
    then show ?thesis by (rule flow_inv_same[OF inv2])
  qed
  show ?thesis
    using run l v inv1 inv2 cc ac rf by (cases l) (auto simp: token_endpoint_def Let_def split: if_splits)
qed

lemma authorize_get_same: "authorize_get e query ip clk sg s = (reply, s') \<Longrightarrow> same_tickets s s' \<and> (\<nexists>t. reply = Ticket_given t)"
proof -
  assume get: "authorize_get e query ip clk sg s = (reply, s')"
  obtain v s1 where v: "validate_authorize_params e query (sg 0) s = (v, s1)" by fastforce
  show ?thesis
  proof (cases v)
    case (Inl err)
    then show ?thesis using get v validate_params_same[OF v] by (auto simp: authorize_get_def)
  next
    case (Inr p)
    obtain b s2 where k: "totp_locked (op_client_id p) ip (sg 1) (clk 0) s1 = (b, s2)" by fastforce
    show ?thesis using get v Inr k same_tickets_trans[OF validate_params_same[OF v] totp_locked_same[OF k]]
      by (auto simp: authorize_get_def)
  qed
qed

lemma flow_inv_ticket:
  assumes "flow_inv e hist s" "same_tickets s s1" "params_ok e p" "second_factor e en p" "en_reply en = Ticket_given t"
  shows "flow_inv e (hist @ [en]) (issue_pending p ticket t0 t1 s1)"
proof (rule flow_inv_issue)
  show "flow_inv e (hist @ [en]) s1" using assms(1,2) flow_inv_same flow_inv_mono by blast
  show "cleared e (hist @ [en]) p" using assms(3-5) unfolding cleared_def by force
qed

lemma passkey_guard_same: "passkey_guard ip clk s = (r, s') \<Longrightarrow> same_tickets s s'"
  by (auto simp: passkey_guard_def dest: login_limit_same split: prod.splits option.splits if_splits)

lemma flow_inv_peek: "flow_inv e hist s \<Longrightarrow> peek_pending ticket t0 t1 s = (r, s') \<Longrightarrow> flow_inv e hist s'"
  by (auto simp: peek_pending_def Let_def flow_inv_prune)

lemma passkey_options_same: "passkey_options r netloc cid ip ch state clk sg s = (reply, s') \<Longrightarrow> same_tickets s s'"
proof -
  assume run: "passkey_options r netloc cid ip ch state clk sg s = (reply, s')"
  obtain g s1 where g: "passkey_guard ip clk s = (g, s1)" by fastforce
  obtain known cs where k: "client_exists (py_strip cid) (sg 0) (os_clients s1) = (known, cs)" by fastforce
  let ?s1 = "s1\<lparr>os_clients := cs\<rparr>"
  obtain ow s2 where o: "seed_owner (py_strip cid) (sg 1) ?s1 = (ow, s2)" by fastforce
  obtain a ps where a: "authentication_options r netloc ow ch state (clk 3) (clk 4) (os_passkeys s2) = (a, ps)" by fastforce
  have "s' = s1 \<or> s' = ?s1 \<or> s' = s2\<lparr>os_passkeys := ps\<rparr>"
    using run g k o a by (auto simp: passkey_options_def Let_def split: option.splits sum.splits if_splits)
  then show ?thesis using passkey_guard_same[OF g] seed_owner_same[OF o] by (auto simp: same_tickets_def)
qed

lemma register_inv:
  assumes inv: "flow_inv e hist s"
  shows "register_options r netloc ticket ip ch state clk sg s = (reply, s') \<Longrightarrow> flow_inv e hist s'" (is "?opts \<Longrightarrow> _")
    and "register_verify env r netloc ticket cred state ip clk s = (reply, s') \<Longrightarrow> flow_inv e hist s'" (is "?ver \<Longrightarrow> _")
proof -
  obtain g s1 where g: "passkey_guard ip clk s = (g, s1)" by fastforce
  have inv1: "flow_inv e hist s1" by (rule flow_inv_same[OF inv passkey_guard_same[OF g]])
  obtain q s2 where q: "peek_pending ticket (clk 3) (clk 4) s1 = (q, s2)" by fastforce
  have inv2: "flow_inv e hist s2" by (rule flow_inv_peek[OF inv1 q])
  show "flow_inv e hist s'" if ?opts
  proof (cases "g = None \<and> q \<noteq> None")
    case True
    then obtain p where p: "q = Some p" by auto
    obtain ow s3 where o: "seed_owner (op_client_id p) (sg 0) s2 = (ow, s3)" by fastforce
    obtain nm cs where n: "get_client_name ow (sg 1) (os_clients s3) = (nm, cs)" by fastforce
    obtain a ps where a: "registration_options r netloc ow None ch state (clk 5) (clk 6) (os_passkeys s3) = (a, ps)" by fastforce
    have "s' = s3\<lparr>os_clients := cs, os_passkeys := ps\<rparr>"
      using \<open>?opts\<close> True g q p o n a by (auto simp: register_options_def split: sum.splits)
    then show ?thesis using flow_inv_same[OF inv2] seed_owner_same[OF o] by (auto simp: same_tickets_def)
  qed (use \<open>?opts\<close> g q inv1 inv2 in \<open>auto simp: register_options_def split: option.splits\<close>)
  show "flow_inv e hist s'" if ?ver
  proof (cases "g = None \<and> q \<noteq> None \<and> cred \<noteq> None \<and> state \<noteq> []")
    case True
    then obtain c where c: "cred = Some c" by auto
    obtain a ps where a: "verify_registration (oe_wr env) r netloc state c None None (clk 5) (clk 6) (clk 7) (os_passkeys s2) = (a, ps)"
      by fastforce
    have "s' = s2\<lparr>os_passkeys := ps\<rparr>"
      using \<open>?ver\<close> True g q c a by (auto simp: register_verify_def split: sum.splits option.splits)
    then show ?thesis using flow_inv_same[OF inv2] by (auto simp: same_tickets_def)
  qed (use \<open>?ver\<close> g q inv1 inv2 in \<open>auto simp: register_verify_def split: option.splits\<close>)
qed

lemma oauth_handle_inv:
  assumes inv: "flow_inv e hist s" and run: "oauth_handle e req clk sg s = (reply, s')"
  shows "flow_inv e (hist @ [\<lparr>en_request = req, en_clock = clk, en_sigs = sg, en_state = s, en_reply = reply\<rparr>]) s'"
proof (cases req)
  case (Authorize_get query ip)
  then show ?thesis using run authorize_get_same flow_inv_same[OF flow_inv_mono[OF inv]] by auto
next
  case (Authorize_post body ip ticket)
  then have "authorize_post e body ip ticket clk sg s = (reply, s')" using run by simp
  from authorize_post_cases[OF this] show ?thesis
  proof (elim disjE conjE exE)
    assume "same_tickets s s'"
    then show ?thesis by (rule flow_inv_same[OF flow_inv_mono[OF inv]])
  next
    fix p s1
    assume p: "reply = Ticket_given ticket" "same_tickets s s1" "s' = issue_pending p ticket (clk 6) (clk 7) s1"
      "fst (validate_authorize_params e body (sg 0) s) = Inr p"
      "fst (check_totp (oe_totp e) (op_client_id p) (bget body ''totp'') (clk 4) (sg 2)
              (os_clients (post_check_state e p body ip clk sg s))) = TOTP_OK"
    show ?thesis unfolding p(3)
      by (rule flow_inv_ticket[OF inv p(2) validate_params_ok[OF p(4)], of _ ticket]) (simp_all add: second_factor_def p Authorize_post)
  qed
next
  case (Passkey_verify r netloc params cred state ip ticket)
  then have "passkey_verify e r netloc params cred state ip ticket clk sg s = (reply, s')" using run by simp
  from passkey_verify_cases[OF this] show ?thesis
  proof (elim disjE conjE exE)
    assume "same_tickets s s'"
    then show ?thesis by (rule flow_inv_same[OF flow_inv_mono[OF inv]])
  next
    fix p s1
    assume p: "reply = Ticket_given ticket" "same_tickets s s1" "s' = issue_pending p ticket (clk 8) (clk 9) s1" "params_ok e p"
      and f: "second_factor e \<lparr>en_request = Passkey_verify r netloc params cred state ip ticket, en_clock = clk,
        en_sigs = sg, en_state = s, en_reply = reply\<rparr> p"
    show ?thesis unfolding p(3) Passkey_verify
      by (rule flow_inv_ticket[OF inv p(2) p(4) f, of ticket]) (simp add: p(1))
  qed
next
  case (Passkey_ask r netloc cid ip ch state)
  then show ?thesis using run passkey_options_same flow_inv_same[OF flow_inv_mono[OF inv]] by auto
next
  case (Register_ask r netloc ticket ip ch state)
  then show ?thesis using run register_inv(1)[OF flow_inv_mono[OF inv]] by auto
next
  case (Register_verify r netloc ticket cred state ip)
  then show ?thesis using run register_inv(2)[OF flow_inv_mono[OF inv]] by auto
next
  case (Finalize ticket drawn)
  then show ?thesis using finalize_inv[OF flow_inv_mono[OF inv]] run by simp
next
  case (Token_request body ip access fresh family)
  then show ?thesis using token_endpoint_inv[OF flow_inv_mono[OF inv]] run by simp
qed

lemma oauth_run_inv:
  assumes "oauth_run e s0 hist s" and start: "os_pending s0 = []" "os_codes s0 = []"
  shows "flow_inv e hist s"
  using assms(1)
proof induction
  case run_start
  then show ?case by (simp add: flow_inv_def start)
next
  case (run_request hist s req clk sg reply s')
  then show ?case using oauth_handle_inv by blast
next
  case (run_other hist s s')
  then show ?case by (simp add: flow_inv_def)
qed

subsection \<open>Tokens\<close>

text \<open>The state in which the client-credentials grant checks the code.\<close>

definition grant_check_state :: "oauth_env \<Rightarrow> form \<Rightarrow> string \<Rightarrow> clock \<Rightarrow> sigs \<Rightarrow> oauth_state \<Rightarrow> oauth_state" where
  "grant_check_state e body ip clk sg s =
     (let s1 = snd (token_limit ip clk s);
          cs = snd (verify_secret (oe_hash e) (bget body ''client_id'') (bget body ''client_secret'') (sg 0) (os_clients s1))
      in snd (totp_locked (bget body ''client_id'') ip (sg 1) (clk 3) (s1\<lparr>os_clients := cs\<rparr>)))"

lemma client_credentials_totp:
  assumes "client_credentials_grant e body ip access clk sg s = (Token_issued g, s')"
  shows "fst (check_totp (oe_totp e) (bget body ''client_id'') (bget body ''totp'') (clk 4) (sg 2)
           (os_clients (snd (totp_locked (bget body ''client_id'') ip (sg 1) (clk 3) s)))) = TOTP_OK"
  using assms
  by (auto simp: client_credentials_grant_def check_code_def Let_def split: prod.splits bool.splits if_splits)

lemma code_consume_ok:
  assumes "code_consume S code cid uri v now codes = (Inr True, codes')"
  obtains ac where "(code, ac) \<in> set codes" "ac_client_id ac = cid" "ac_redirect_uri ac = uri" "S v = ac_code_challenge ac"
  using assms by (auto simp: code_consume_def verify_pkce_def Let_def dest!: dget_in split: option.splits if_splits)

lemma authorization_code_used:
  assumes "authorization_code_grant e body access fresh family clk s = (Token_issued g, s')"
  obtains ac where "(bget body ''code'', ac) \<in> set (os_codes s)" "ac_client_id ac = bget body ''client_id''"
    "ac_redirect_uri ac = bget body ''redirect_uri''" "oe_s256 e (bget body ''code_verifier'') = ac_code_challenge ac"
proof -
  obtain codes where "code_consume (oe_s256 e) (bget body ''code'') (bget body ''client_id'') (bget body ''redirect_uri'')
      (bget body ''code_verifier'') (clk 3) (os_codes s) = (Inr True, codes)"
    using assms by (auto simp: authorization_code_grant_def Let_def split: prod.splits sum.splits bool.splits)
  then show thesis by (rule code_consume_ok) (rule that)
qed

text \<open>
  C3: Every token of the token endpoint goes back to a second factor, whatever requests came
  before, in whatever order: besides the refresh grant (which only prolongs such a token's
  family), it answers a request with the client's secret and either a TOTP code accepted in
  this very request, or an authorization code whose authorization passed a TOTP code or the
  owner's passkey earlier, for the same client, the same trusted redirect URI, and a PKCE
  challenge that the presented verifier meets.
\<close>

theorem no_token_without_second_factor:
  assumes run: "oauth_run e s0 hist s" and start: "os_pending s0 = []" "os_codes s0 = []"
    and token: "token_endpoint e body ip access fresh family clk sg s = (Token_issued g, s')"
    and no_refresh: "bget body ''grant_type'' \<noteq> ''refresh_token''"
  shows "fst (verify_secret (oe_hash e) (bget body ''client_id'') (bget body ''client_secret'') (sg 0)
      (os_clients (snd (token_limit ip clk s))))
    \<and> (bget body ''grant_type'' = ''client_credentials''
        \<and> fst (check_totp (oe_totp e) (bget body ''client_id'') (bget body ''totp'') (clk 4) (sg 2)
               (os_clients (grant_check_state e body ip clk sg s))) = TOTP_OK
      \<or> bget body ''grant_type'' = ''authorization_code''
        \<and> (\<exists>en \<in> set hist. \<exists>p. second_factor e en p \<and> op_client_id p = bget body ''client_id''
             \<and> op_redirect_uri p = bget body ''redirect_uri''
             \<and> is_trusted_redirect_uri (op_redirect_uri p) (oe_origins e)
             \<and> op_challenge p = oe_s256 e (bget body ''code_verifier'')))"
proof -
  obtain l s1 where l: "token_limit ip clk s = (l, s1)" by fastforce
  obtain ok cs where v: "verify_secret (oe_hash e) (bget body ''client_id'') (bget body ''client_secret'') (sg 0) (os_clients s1) = (ok, cs)"
    by fastforce
  let ?s2 = "s1\<lparr>os_clients := cs\<rparr>"
  have ok: "l = None" ok
    and grants: "bget body ''grant_type'' = ''client_credentials'' \<and>
        client_credentials_grant e body ip access clk sg ?s2 = (Token_issued g, s')
      \<or> bget body ''grant_type'' = ''authorization_code'' \<and>
        authorization_code_grant e body access fresh family clk ?s2 = (Token_issued g, s')"
    using token l v no_refresh by (auto simp: token_endpoint_def Let_def split: option.splits if_splits)
  have inv: "flow_inv e hist ?s2"
  proof (rule flow_inv_same[OF oauth_run_inv[OF run start]])
    show "same_tickets s ?s2" using token_limit_same[OF l] by (simp add: same_tickets_def)
  qed
  have state: "grant_check_state e body ip clk sg s = snd (totp_locked (bget body ''client_id'') ip (sg 1) (clk 3) ?s2)"
    unfolding grant_check_state_def Let_def l snd_conv v ..
  have code: "\<exists>en \<in> set hist. \<exists>p. second_factor e en p \<and> op_client_id p = bget body ''client_id''
      \<and> op_redirect_uri p = bget body ''redirect_uri'' \<and> is_trusted_redirect_uri (op_redirect_uri p) (oe_origins e)
      \<and> op_challenge p = oe_s256 e (bget body ''code_verifier'')"
    if granted: "authorization_code_grant e body access fresh family clk ?s2 = (Token_issued g, s')"
  proof -
    obtain ac where ac: "(bget body ''code'', ac) \<in> set (os_codes ?s2)" "ac_client_id ac = bget body ''client_id''"
      "ac_redirect_uri ac = bget body ''redirect_uri''" "oe_s256 e (bget body ''code_verifier'') = ac_code_challenge ac"
      by (rule authorization_code_used[OF granted])
    then obtain p where p: "cleared e hist p" "code_of p ac" using inv unfolding flow_inv_def by blast
    then show ?thesis using ac(2-4) unfolding cleared_def code_of_def params_ok_def by metis
  qed
  show ?thesis
    using ok grants code client_credentials_totp state l v by auto
qed

subsection \<open>A sample authorization\<close>

definition sample_env :: oauth_env where
  "sample_env = \<lparr>oe_hash = (\<lambda>x. x), oe_s256 = (\<lambda>x. x), oe_totp = (\<lambda>seed c t. c = ''123456''),
     oe_origins = [''https://claude.ai''], oe_wa = (\<lambda>_ _ _ _ _ _. None), oe_wr = (\<lambda>_ _ _ _. None)\<rparr>"

definition sample_owner :: client where
  "sample_owner = \<lparr>cl_client_id = ''c'', cl_secret_hash = ''s'', cl_name = ''n'', cl_created_at = 0, cl_totp_secret = ''t'',
     cl_owner = None, cl_source = None, cl_logo_uri = None, cl_client_uri = None\<rparr>"

definition sample_tokens :: token_store where
  "sample_tokens = \<lparr>tokens = [], oauth_tokens = [], refresh_tokens = [], db = None, db_writable = False,
     named_token_ttl = NAMED_TOKEN_TTL, refresh_token_ttl = REFRESH_TOKEN_TTL\<rparr>"

definition sample_server :: oauth_state where
  "sample_server = \<lparr>os_clients = \<lparr>clients = [(''c'', sample_owner)], disk = None, disk_sig = None, last_totp_step = [],
       pruned = Some sample_tokens\<rparr>,
     os_codes = [], os_lockout = totp_lockout_init 10 20 300 3600, os_login_limiter = rate_limiter_init 10 60,
     os_token_limiter = rate_limiter_init 30 60, os_pending = [],
     os_passkeys = \<lparr>ps_installed = False, ps_table = None, ps_challenges = [], ps_trusted = []\<rparr>\<rparr>"

definition sample_form :: form where
  "sample_form = [(''response_type'', ''code''), (''client_id'', ''c''), (''redirect_uri'', ''https://claude.ai/cb''),
     (''code_challenge'', ''v''), (''code_challenge_method'', ''S256''), (''totp'', ''123456'')]"

definition sample_exchange :: form where
  "sample_exchange = [(''grant_type'', ''authorization_code''), (''client_id'', ''c''), (''client_secret'', ''s''),
     (''redirect_uri'', ''https://claude.ai/cb''), (''code'', ''k''), (''code_verifier'', ''v'')]"

definition sample_clock :: clock where "sample_clock = (\<lambda>_. 1000)"
definition sample_sigs :: sigs where "sample_sigs = (\<lambda>_. (0, 0, 0))"

definition authorized :: oauth_state where
  "authorized = snd (oauth_handle sample_env (Authorize_post sample_form ''ip'' ''t'') sample_clock sample_sigs sample_server)"

definition finalized :: oauth_state where
  "finalized = snd (oauth_handle sample_env (Finalize ''t'' ''k'') sample_clock sample_sigs authorized)"

lemmas sample_defs = sample_env_def sample_owner_def sample_tokens_def sample_server_def sample_form_def sample_exchange_def

lemma sample_ticket: "fst (oauth_handle sample_env (Authorize_post sample_form ''ip'' ''t'') sample_clock sample_sigs sample_server) = Ticket_given ''t''"
  by code_simp

lemma sample_token: "fst (token_endpoint sample_env sample_exchange ''ip'' ''a'' ''r'' ''f'' sample_clock sample_sigs finalized)
  = Token_issued \<lparr>g_access_token = ''a'', g_expires_in = TOKEN_TTL, g_refresh_token = Some ''r''\<rparr>"
  by code_simp

lemma no_token_without_second_factor_witness:
  "\<exists>en \<in> {\<lparr>en_request = Authorize_post sample_form ''ip'' ''t'', en_clock = sample_clock, en_sigs = sample_sigs,
      en_state = sample_server, en_reply = Ticket_given ''t''\<rparr>,
     \<lparr>en_request = Finalize ''t'' ''k'', en_clock = sample_clock, en_sigs = sample_sigs,
      en_state = authorized, en_reply = fst (oauth_handle sample_env (Finalize ''t'' ''k'') sample_clock sample_sigs authorized)\<rparr>}.
     \<exists>p. second_factor sample_env en p \<and> op_client_id p = ''c'' \<and> op_redirect_uri p = ''https://claude.ai/cb''"
proof -
  let ?h = "[\<lparr>en_request = Authorize_post sample_form ''ip'' ''t'', en_clock = sample_clock, en_sigs = sample_sigs,
      en_state = sample_server, en_reply = Ticket_given ''t''\<rparr>]"
  have one: "oauth_run sample_env sample_server ([] @ ?h) authorized"
    by (rule run_request[OF run_start]) (metis authorized_def prod.collapse sample_ticket)
  have two: "oauth_run sample_env sample_server (([] @ ?h) @ [\<lparr>en_request = Finalize ''t'' ''k'', en_clock = sample_clock,
      en_sigs = sample_sigs, en_state = authorized,
      en_reply = fst (oauth_handle sample_env (Finalize ''t'' ''k'') sample_clock sample_sigs authorized)\<rparr>]) finalized"
    by (rule run_request[OF one]) (metis finalized_def prod.collapse)
  have start: "os_pending sample_server = []" "os_codes sample_server = []" by (simp_all add: sample_server_def)
  have form: "bget sample_exchange ''grant_type'' = ''authorization_code''" "bget sample_exchange ''client_id'' = ''c''"
    "bget sample_exchange ''redirect_uri'' = ''https://claude.ai/cb''"
    by (simp_all add: sample_exchange_def bget_def)
  obtain s' where token: "token_endpoint sample_env sample_exchange ''ip'' ''a'' ''r'' ''f'' sample_clock sample_sigs finalized
      = (Token_issued \<lparr>g_access_token = ''a'', g_expires_in = TOKEN_TTL, g_refresh_token = Some ''r''\<rparr>, s')"
    using sample_token by (metis prod.collapse)
  have "bget sample_exchange ''grant_type'' \<noteq> ''refresh_token''" by (simp add: form)
  from no_token_without_second_factor[OF two start token this] show ?thesis by (auto simp: form)
qed

end
