(* ===== verification/Py_Eff.thy ===== *)
theory Py_Eff
  imports Py_Val
begin

text \<open>
  Computations that read and change a state and may raise an exception, as the tools over Proxmox and
  the routes of the dashboard do.
\<close>

datatype py_raise =
    Node_not_found string "string list" | Ssh_unconfigured | File_missing | Type_error | Attribute_error | Index_error
  | Key_error | Value_error | Runtime_error | Integrity_error

type_synonym ('s, 'a) eff = "'s \<Rightarrow> (py_raise + 'a) \<times> 's"

definition preturn :: "'a \<Rightarrow> ('s, 'a) eff" where
  "preturn x s = (Inr x, s)"

definition praise :: "py_raise \<Rightarrow> ('s, 'a) eff" where
  "praise e s = (Inl e, s)"

definition pbind :: "('s, 'a) eff \<Rightarrow> ('a \<Rightarrow> ('s, 'b) eff) \<Rightarrow> ('s, 'b) eff" where
  "pbind m f s = (case m s of (Inl e, s') \<Rightarrow> (Inl e, s') | (Inr x, s') \<Rightarrow> f x s')"

lemma pbind_Inr: "pbind m f s = (Inr y, s') \<longleftrightarrow> (\<exists>x s1. m s = (Inr x, s1) \<and> f x s1 = (Inr y, s'))"
  by (auto simp: pbind_def split: prod.splits sum.splits)

text \<open>
  What a computation may do to the state: a preorder \<open>R\<close> that holds from each state to the one it is
  left in.  A sequence keeps to it when its parts do.
\<close>

definition moves :: "('s \<Rightarrow> 's \<Rightarrow> bool) \<Rightarrow> ('s, 'a) eff \<Rightarrow> bool" where
  "moves R m \<longleftrightarrow> (\<forall>s. R s (snd (m s)))"

lemma movesD: "moves R m \<Longrightarrow> m s = (r, s') \<Longrightarrow> R s s'"
  by (metis moves_def snd_conv)

lemma movesI: "(\<And>s r s'. m s = (r, s') \<Longrightarrow> R s s') \<Longrightarrow> moves R m"
  by (metis moves_def prod.collapse)

text \<open>Beyond \<open>R\<close>, a computation does something only from a state and to a state that \<open>Q\<close> relates.\<close>

definition only_if :: "('s \<Rightarrow> 's \<Rightarrow> bool) \<Rightarrow> ('s \<Rightarrow> 's \<Rightarrow> bool) \<Rightarrow> ('s, 'a) eff \<Rightarrow> bool" where
  "only_if R Q m \<longleftrightarrow> (\<forall>s. R s (snd (m s)) \<or> Q s (snd (m s)))"

lemma moves_mono: "moves R m \<Longrightarrow> (\<And>s s'. R s s' \<Longrightarrow> R' s s') \<Longrightarrow> moves R' m"
  by (simp add: moves_def)

lemma only_if_mono: "only_if R Q m \<Longrightarrow> (\<And>s s'. Q s s' \<Longrightarrow> Q' s s') \<Longrightarrow> only_if R Q' m"
  by (auto simp: only_if_def)

lemma only_if_moves: "moves R m \<Longrightarrow> only_if R Q m"
  by (simp add: moves_def only_if_def)

lemma only_if_cases:
  "(b \<Longrightarrow> only_if R Q m) \<Longrightarrow> (\<not> b \<Longrightarrow> only_if R Q m') \<Longrightarrow> only_if R Q (if b then m else m')"
  "(x = None \<Longrightarrow> only_if R Q m) \<Longrightarrow> (\<And>y. x = Some y \<Longrightarrow> only_if R Q (f y)) \<Longrightarrow> only_if R Q (case x of None \<Rightarrow> m | Some y \<Rightarrow> f y)"
  by (auto split: option.splits)

locale effect_order =
  fixes R :: "'s \<Rightarrow> 's \<Rightarrow> bool"
  assumes refl: "R s s" and trans: "R a b \<Longrightarrow> R b c \<Longrightarrow> R a c"
begin

lemma return: "moves R (preturn x)"
  by (simp add: moves_def preturn_def refl)

lemma raise: "moves R (praise err)"
  by (simp add: moves_def praise_def refl)

lemma bind: "moves R m \<Longrightarrow> (\<And>x. moves R (f x)) \<Longrightarrow> moves R (pbind m f)"
  by (auto simp: moves_def pbind_def refl split: prod.splits sum.splits) (metis snd_conv trans)+

lemma only_if_bind:
  assumes "moves R m" "\<And>x. only_if R (Q x) (f x)"
  shows "only_if R (\<lambda>s s'. \<exists>x s1. m s = (Inr x, s1) \<and> R s s1 \<and> Q x s1 s') (pbind m f)"
  unfolding only_if_def
proof
  fix s
  obtain y s1 where m: "m s = (y, s1)" by (cases "m s")
  with assms(1) have R: "R s s1" by (rule movesD)
  show "R s (snd (pbind m f s)) \<or> (\<exists>x s1. m s = (Inr x, s1) \<and> R s s1 \<and> Q x s1 (snd (pbind m f s)))"
  proof (cases y)
    case (Inr x)
    with assms(2)[of x] m R show ?thesis by (auto simp: only_if_def pbind_def intro: trans)
  qed (use m R in \<open>simp add: pbind_def\<close>)
qed

end

text \<open>What a computation may return.\<close>

definition returns :: "('a \<Rightarrow> bool) \<Rightarrow> ('s, 'a) eff \<Rightarrow> bool" where
  "returns P m \<longleftrightarrow> (\<forall>s x. fst (m s) = Inr x \<longrightarrow> P x)"

lemma returnsD: "returns P m \<Longrightarrow> m s = (Inr x, s') \<Longrightarrow> P x"
  by (simp add: returns_def) (metis fst_conv)

lemma returns_intros:
  "P x \<Longrightarrow> returns P (preturn x)" "returns P (praise err)" "(\<And>x. returns P (f x)) \<Longrightarrow> returns P (pbind m f)"
  by (auto simp: returns_def preturn_def praise_def pbind_def split: prod.splits sum.splits)

text \<open>\<open>v.get(key, dflt)\<close> of a mapping, \<open>a or b\<close>, and \<open>key in v\<close>.\<close>

definition get_or :: "pyval \<Rightarrow> string \<Rightarrow> pyval \<Rightarrow> pyval" where
  "get_or v key dflt = (case v of PDict d \<Rightarrow> (case dget d key of Some x \<Rightarrow> x | None \<Rightarrow> dflt) | _ \<Rightarrow> dflt)"

definition py_or :: "pyval \<Rightarrow> pyval \<Rightarrow> pyval" where
  "py_or a b = (if truth a then a else b)"

definition has_key :: "pyval \<Rightarrow> string \<Rightarrow> bool" where
  "has_key v key = (case v of PDict d \<Rightarrow> dget d key \<noteq> None | _ \<Rightarrow> False)"

end
