(* ===== verification/Pve_Client.thy ===== *)
theory Pve_Client
  imports Config_Build Py_Eff
begin

text \<open>
  The client of the Proxmox API (\<open>proxmox/client.py\<close>): the check of a request's path, the
  connection cache of one thread, and \<open>api_call\<close> with its retry.  \<open>proxmoxer\<close> and the
  network are the parameter \<open>pve_host\<close>: connecting, installing a CA bundle, and sending
  one request, each over a world that they may change.  A call that never raises is a value;
  \<open>NodeNotFoundError\<close> and \<open>TypeError\<close> are the exceptions that escape.
\<close>

subsection \<open>Paths\<close>

text \<open>\<open>[A-Za-z0-9][A-Za-z0-9._@+-]*\<close> with \<open>re.match\<close> and \<open>$\<close>, which ends before a final newline too.\<close>

definition ascii_alnum :: "char \<Rightarrow> bool" where
  "ascii_alnum c \<longleftrightarrow> ascii_digit c \<or> (65 \<le> ord c \<and> ord c \<le> 90) \<or> (97 \<le> ord c \<and> ord c \<le> 122)"

definition segment_char :: "char \<Rightarrow> bool" where
  "segment_char c \<longleftrightarrow> ascii_alnum c \<or> c \<in> set ''._@+-''"

definition safe_segment :: "string \<Rightarrow> bool" where
  "safe_segment s =
     (case s of [] \<Rightarrow> False
      | c # cs \<Rightarrow> ascii_alnum c \<and> list_all segment_char (if cs \<noteq> [] \<and> last cs = CHR 0x0A then butlast cs else cs))"

definition split_api_path :: "string \<Rightarrow> string + string list" where
  "split_api_path path =
     (let parts = split_on CHR ''/'' (rstrip (\<lambda>c. c = CHR ''/'') (lstrip (\<lambda>c. c = CHR ''/'') path))
      in case find (\<lambda>p. \<not> safe_segment p) parts of Some p \<Rightarrow> Inl p | None \<Rightarrow> Inr parts)"

subsection \<open>Requests\<close>

datatype http_method = Get | Post | Put | Delete

text \<open>A \<open>requests\<close> network exception, as far as \<open>_never_sent\<close> looks at it.\<close>

datatype inner_reason = New_connection_error | Connect_timeout_error | Other_reason

record net_exc =
  ne_connect_timeout :: bool
  ne_timeout :: bool
  ne_reason :: "inner_reason option"
  ne_text :: string

definition never_sent :: "net_exc \<Rightarrow> bool" where
  "never_sent e \<longleftrightarrow> ne_connect_timeout e \<or> ne_reason e \<in> {Some New_connection_error, Some Connect_timeout_error}"

datatype 'a reply = Returned 'a | Net_failed net_exc | Failed string

type_synonym kwargs = "(string, pyval) dict"

record ('c, 'w) pve_host =
  ph_config :: config
  ph_connect :: "string \<Rightarrow> string \<Rightarrow> string \<Rightarrow> string \<Rightarrow> verify_mode \<Rightarrow> 'w \<Rightarrow> 'c reply \<times> 'w"
  ph_trust :: "'c \<Rightarrow> string \<Rightarrow> 'w \<Rightarrow> unit reply \<times> 'w"
  ph_send :: "'c \<Rightarrow> http_method \<Rightarrow> string list \<Rightarrow> kwargs \<Rightarrow> 'w \<Rightarrow> pyval reply \<times> 'w"

record ('c, 'w) pve_state =
  pv_cache :: "(string, 'c) dict"
  pv_world :: 'w

type_synonym ('c, 'w, 'a) pve = "(('c, 'w) pve_state, 'a) eff"

text \<open>An error result, and the test the callers make on results.\<close>

definition error_result :: "string \<Rightarrow> pyval" where
  "error_result t = PDict [(''error'', PStr t)]"

definition has_error :: "pyval \<Rightarrow> bool" where
  "has_error v = (case v of PDict d \<Rightarrow> dget d ''error'' \<noteq> None | _ \<Rightarrow> False)"

definition configured_nodes :: "('c, 'w) pve_host \<Rightarrow> string list" where
  "configured_nodes h = map pn_name (cf_pve_nodes (ph_config h))"

subsection \<open>Connections\<close>

definition drop_connection :: "string \<Rightarrow> ('c, 'w) pve_state \<Rightarrow> ('c, 'w) pve_state" where
  "drop_connection node s = s\<lparr>pv_cache := dpop node (pv_cache s)\<rparr>"

definition pve_connection :: "('c, 'w) pve_host \<Rightarrow> string \<Rightarrow> ('c, 'w, 'c reply) pve" where
  "pve_connection h node s =
     (case dget (pv_cache s) node of
        Some c \<Rightarrow> (Inr (Returned c), s)
      | None \<Rightarrow>
          (case get_node (ph_config h) node of
             None \<Rightarrow> (Inl (Node_not_found node (configured_nodes h)), s)
           | Some n \<Rightarrow>
               (case split_on CHR ''!'' (pn_token_id n) of
                  user # name # _ \<Rightarrow>
                    (case ph_connect h (pn_host n) user name (pn_token_secret n) (cf_verify_ssl (ph_config h)) (pv_world s) of
                       (Returned c, w) \<Rightarrow>
                         (case (case cf_verify_ssl (ph_config h) of Bundle ca \<Rightarrow> ph_trust h c ca w | Verify b \<Rightarrow> (Returned (), w)) of
                            (Returned u, w') \<Rightarrow>
                              (Inr (Returned c), s\<lparr>pv_cache := dset node c (pv_cache s), pv_world := w'\<rparr>)
                          | (Net_failed e, w') \<Rightarrow> (Inr (Net_failed e), s\<lparr>pv_world := w'\<rparr>)
                          | (Failed t, w') \<Rightarrow> (Inr (Failed t), s\<lparr>pv_world := w'\<rparr>))
                     | (Net_failed e, w) \<Rightarrow> (Inr (Net_failed e), s\<lparr>pv_world := w\<rparr>)
                     | (Failed t, w) \<Rightarrow> (Inr (Failed t), s\<lparr>pv_world := w\<rparr>))
                | _ \<Rightarrow> (Inr (Failed ''list index out of range''), s))))"

subsection \<open>\<open>api_call\<close>\<close>

definition RETRY_ATTEMPTS :: nat where "RETRY_ATTEMPTS = 2"

text \<open>One attempt: the connection, then the request on it.\<close>

definition api_attempt :: "('c, 'w) pve_host \<Rightarrow> string \<Rightarrow> http_method \<Rightarrow> string list \<Rightarrow> kwargs \<Rightarrow> ('c, 'w, pyval reply) pve" where
  "api_attempt h node m parts kw =
     pbind (pve_connection h node)
       (\<lambda>r s. case r of
                Returned c \<Rightarrow> (case ph_send h c m parts kw (pv_world s) of (a, w) \<Rightarrow> (Inr a, s\<lparr>pv_world := w\<rparr>))
              | Net_failed e \<Rightarrow> (Inr (Net_failed e), s)
              | Failed t \<Rightarrow> (Inr (Failed t), s))"

definition quoted :: "string \<Rightarrow> string" where
  "quoted s = CHR 0x27 # s @ [CHR 0x27]"

definition unreachable_text :: "string \<Rightarrow> string \<Rightarrow> string" where
  "unreachable_text node e = ''Node '' @ quoted node @ '' is unreachable: '' @ e @
     ''. Try ssh_run to access the host directly, or bmc_health_status if the server may be physically down.''"

definition maybe_applied_text :: "string \<Rightarrow> net_exc \<Rightarrow> string" where
  "maybe_applied_text node e = ''Node '' @ quoted node @ '' '' @
     (if ne_timeout e then ''did not answer in time'' else ''dropped the connection mid-request'') @ '': '' @ ne_text e @
     ''. The request may still have been applied; check proxmox_get_tasks before retrying.''"

text \<open>The loop, with the attempts that are left.\<close>

fun api_attempts ::
  "('c, 'w) pve_host \<Rightarrow> string \<Rightarrow> http_method \<Rightarrow> string list \<Rightarrow> kwargs \<Rightarrow> nat \<Rightarrow> ('c, 'w, pyval) pve" where
  "api_attempts h node m parts kw 0 s = (Inr (error_result (''Node '' @ quoted node @ '' is unreachable: '')), s)"
| "api_attempts h node m parts kw (Suc n) s =
     (case api_attempt h node m parts kw s of
        (Inl e, s1) \<Rightarrow> (Inl e, s1)
      | (Inr (Returned v), s1) \<Rightarrow> (Inr v, s1)
      | (Inr (Failed t), s1) \<Rightarrow> (Inr (error_result (''Proxmox API error on '' @ quoted node @ '': '' @ t)), s1)
      | (Inr (Net_failed e), s1) \<Rightarrow>
          (let s2 = drop_connection node s1
           in if m \<noteq> Get \<and> \<not> never_sent e then (Inr (error_result (maybe_applied_text node e)), s2)
              else if n \<noteq> 0 then api_attempts h node m parts kw n s2
              else (Inr (error_result (unreachable_text node (ne_text e))), s2)))"

definition api_call :: "('c, 'w) pve_host \<Rightarrow> string \<Rightarrow> http_method \<Rightarrow> string \<Rightarrow> kwargs \<Rightarrow> ('c, 'w, pyval) pve" where
  "api_call h node m path kw =
     (case split_api_path path of
        Inl part \<Rightarrow>
          preturn (error_result (''illegal Proxmox API path segment '' @ py_repr part @ '' in '' @ py_repr path @
            '': segments must match [A-Za-z0-9][A-Za-z0-9._@+-]* (no slashes, no '' @ quoted ''..'' @ '')''))
      | Inr parts \<Rightarrow> api_attempts h node m parts kw RETRY_ATTEMPTS)"

text \<open>
  \<open>get\<close>, \<open>post\<close>, \<open>put\<close> and \<open>delete\<close> take their keywords from the caller: a keyword that is
  a parameter of theirs or of \<open>api_call\<close> is a \<open>TypeError\<close>.
\<close>

definition API_PARAMETERS :: "string list" where
  "API_PARAMETERS = [''self'', ''node_name'', ''method'', ''path'']"

definition pve_call :: "http_method \<Rightarrow> ('c, 'w) pve_host \<Rightarrow> string \<Rightarrow> string \<Rightarrow> kwargs \<Rightarrow> ('c, 'w, pyval) pve" where
  "pve_call m h node path kw =
     (if set (dkeys kw) \<inter> set API_PARAMETERS \<noteq> {} then praise Type_error else api_call h node m path kw)"

abbreviation pve_get :: "('c, 'w) pve_host \<Rightarrow> string \<Rightarrow> string \<Rightarrow> kwargs \<Rightarrow> ('c, 'w, pyval) pve" where "pve_get \<equiv> pve_call Get"
abbreviation pve_post :: "('c, 'w) pve_host \<Rightarrow> string \<Rightarrow> string \<Rightarrow> kwargs \<Rightarrow> ('c, 'w, pyval) pve" where "pve_post \<equiv> pve_call Post"
abbreviation pve_put :: "('c, 'w) pve_host \<Rightarrow> string \<Rightarrow> string \<Rightarrow> kwargs \<Rightarrow> ('c, 'w, pyval) pve" where "pve_put \<equiv> pve_call Put"
abbreviation pve_delete :: "('c, 'w) pve_host \<Rightarrow> string \<Rightarrow> string \<Rightarrow> kwargs \<Rightarrow> ('c, 'w, pyval) pve" where "pve_delete \<equiv> pve_call Delete"

end
