(* ===== verification/Pve_Vms.thy ===== *)
theory Pve_Vms
  imports Pve_Client
begin

text \<open>
  The tools over virtual machines and containers (\<open>proxmox/vms.py\<close>, and the lookups and
  \<open>vm_bulk_action\<close> of \<open>proxmox/aggregators.py\<close>), with typed arguments as the MCP SDK hands
  them over.  \<open>vm_bulk_action\<close> runs its guests on a thread pool and keeps their order: here they
  run one after the other.
\<close>

subsection \<open>Values\<close>

text \<open>\<open>round(x, k)\<close>, half to even, on reals.\<close>

definition py_round :: "nat \<Rightarrow> real \<Rightarrow> real" where
  "py_round k x =
     (let y = x * 10 ^ k; f = \<lfloor>y\<rfloor>; d = y - of_int f
      in of_int (if d < 1 / 2 \<or> d = 1 / 2 \<and> even f then f else f + 1) / 10 ^ k)"

definition py_number :: "pyval \<Rightarrow> real option" where
  "py_number v = (case v of PInt n \<Rightarrow> Some (of_int n) | PFloat x \<Rightarrow> Some x | PBool b \<Rightarrow> Some (if b then 1 else 0) | _ \<Rightarrow> None)"

text \<open>\<open>(v or "").lower()\<close>.\<close>

definition lower_or_empty :: "pyval \<Rightarrow> py_raise + string" where
  "lower_or_empty v = (if \<not> truth v then Inr [] else case v of PStr s \<Rightarrow> Inr (py_lower s) | _ \<Rightarrow> Inl Attribute_error)"

definition plift :: "py_raise + 'a \<Rightarrow> ('c, 'w, 'a) pve" where
  "plift r = (case r of Inl e \<Rightarrow> praise e | Inr x \<Rightarrow> preturn x)"

text \<open>\<open>[f(x) for x in xs]\<close>, the exceptions of \<open>f\<close> included.\<close>

fun pmap :: "('a \<Rightarrow> ('c, 'w, 'b) pve) \<Rightarrow> 'a list \<Rightarrow> ('c, 'w, 'b list) pve" where
  "pmap f [] = preturn []"
| "pmap f (x # xs) = pbind (f x) (\<lambda>y. pbind (pmap f xs) (\<lambda>ys. preturn (y # ys)))"

subsection \<open>Finding a guest\<close>

definition vm_path :: "string \<Rightarrow> string \<Rightarrow> int \<Rightarrow> string \<Rightarrow> string" where
  "vm_path node vm_type vmid rest = ''nodes/'' @ node @ ''/'' @ vm_type @ ''/'' @ show_signed vmid @ ''/'' @ rest"

fun detect_among :: "('c, 'w) pve_host \<Rightarrow> string \<Rightarrow> int \<Rightarrow> string list \<Rightarrow> ('c, 'w, (string \<times> string) option) pve" where
  "detect_among h node vmid [] = preturn None"
| "detect_among h node vmid (t # ts) =
     pbind (pve_get h node (vm_path node t vmid ''status/current'') [])
       (\<lambda>d. if \<not> has_error d \<and> truth (get_or d ''status'' PNone) then preturn (Some (t, py_str (get_or d ''status'' PNone)))
            else detect_among h node vmid ts)"

definition detect_guest :: "('c, 'w) pve_host \<Rightarrow> string \<Rightarrow> int \<Rightarrow> ('c, 'w, (string \<times> string) option) pve" where
  "detect_guest h node vmid = detect_among h node vmid [''qemu'', ''lxc'']"

definition detect_vm_type :: "('c, 'w) pve_host \<Rightarrow> string \<Rightarrow> int \<Rightarrow> ('c, 'w, string option) pve" where
  "detect_vm_type h node vmid = pbind (detect_guest h node vmid) (\<lambda>g. preturn (map_option fst g))"

fun find_vm_location :: "('c, 'w) pve_host \<Rightarrow> int \<Rightarrow> string list \<Rightarrow> ('c, 'w, (string \<times> string) option) pve" where
  "find_vm_location h vmid [] = preturn None"
| "find_vm_location h vmid (n # ns) =
     pbind (detect_vm_type h n vmid) (\<lambda>t. case t of Some ty \<Rightarrow> preturn (Some (n, ty)) | None \<Rightarrow> find_vm_location h vmid ns)"

text \<open>\<open>(?:^|/)(vm|ct)/\d+(?:/|$)\<close> searched in the text; the flag says whether a match may start here.\<close>

fun guest_segment :: "bool \<Rightarrow> string \<Rightarrow> string option" where
  "guest_segment start [] = None"
| "guest_segment start (c # s) =
     (let after = (\<lambda>p. start \<and> prefix p (c # s) \<and>
                     (let rest = drop (length p) (c # s); tail = dropWhile ascii_digit rest
                      in takeWhile ascii_digit rest \<noteq> [] \<and> (tail \<in> {[], [CHR 0x0A]} \<or> hd tail = CHR ''/'')))
      in if after ''vm/'' then Some ''qemu'' else if after ''ct/'' then Some ''lxc''
         else guest_segment (c = CHR ''/'') s)"

text \<open>The loop over the listed backups.\<close>

fun listed_type :: "string \<Rightarrow> pyval list \<Rightarrow> py_raise + string option" where
  "listed_type archive [] = Inr None"
| "listed_type archive (item # items) =
     (if \<not> is_dict item \<or> get_or item ''volid'' PNone \<noteq> PStr archive then listed_type archive items
      else case lower_or_empty (py_or (get_or item ''subtype'' PNone) (get_or item ''vmtype'' PNone)) of
        Inl e \<Rightarrow> Inl e
      | Inr subtype \<Rightarrow>
          if subtype \<in> {''qemu'', ''lxc''} then Inr (Some subtype)
          else case lower_or_empty (get_or item ''format'' PNone) of
            Inl e \<Rightarrow> Inl e
          | Inr fmt \<Rightarrow>
              if contains fmt ''vma'' \<or> contains fmt ''qemu'' then Inr (Some ''qemu'')
              else if contains fmt ''tar'' \<or> contains fmt ''lxc'' then Inr (Some ''lxc'')
              else listed_type archive items)"

definition detect_backup_type :: "('c, 'w) pve_host \<Rightarrow> string \<Rightarrow> string \<Rightarrow> ('c, 'w, string option) pve" where
  "detect_backup_type h node archive =
     (let a = py_lower archive
      in if contains a ''vzdump-qemu-'' \<or> contains a ''backup/vm-'' then preturn (Some ''qemu'')
         else if contains a ''vzdump-lxc-'' \<or> contains a ''backup/ct-'' then preturn (Some ''lxc'')
         else case guest_segment True a of
           Some t \<Rightarrow> preturn (Some t)
         | None \<Rightarrow>
             (case partition_on CHR '':'' archive of
                (storage, sep, rest) \<Rightarrow>
                  if \<not> sep \<or> storage = [] then preturn None
                  else pbind (pve_get h node (''nodes/'' @ node @ ''/storage/'' @ storage @ ''/content'') [(''content'', PStr ''backup'')])
                    (\<lambda>content. case content of PList items \<Rightarrow> plift (listed_type archive items) | _ \<Rightarrow> preturn None)))"

subsection \<open>The tools\<close>

definition no_guest_text :: "int \<Rightarrow> string \<Rightarrow> string" where
  "no_guest_text vmid node = ''VM/CT '' @ show_signed vmid @ '' not found on node '' @ quoted node @ ''. Check VMID and node name.''"

definition on_guest :: "('c, 'w) pve_host \<Rightarrow> string \<Rightarrow> int \<Rightarrow> (string \<Rightarrow> ('c, 'w, pyval) pve) \<Rightarrow> ('c, 'w, pyval) pve" where
  "on_guest h node vmid k =
     pbind (detect_vm_type h node vmid)
       (\<lambda>t. case t of None \<Rightarrow> preturn (error_result (no_guest_text vmid node)) | Some ty \<Rightarrow> k ty)"

text \<open>An error result is passed on; anything else becomes the tool's own answer.\<close>

definition answer :: "('c, 'w, pyval) pve \<Rightarrow> (pyval \<Rightarrow> (string, pyval) dict) \<Rightarrow> ('c, 'w, pyval) pve" where
  "answer m f = pbind m (\<lambda>r. preturn (if has_error r then r else PDict (f r)))"

definition vm_start :: "('c, 'w) pve_host \<Rightarrow> string \<Rightarrow> int \<Rightarrow> ('c, 'w, pyval) pve" where
  "vm_start h node vmid =
     on_guest h node vmid (\<lambda>ty. answer (pve_post h node (vm_path node ty vmid ''status/start'') [])
       (\<lambda>r. [(''vmid'', PInt vmid), (''node'', PStr node), (''action'', PStr ''start''), (''upid'', r)]))"

definition vm_stop :: "('c, 'w) pve_host \<Rightarrow> string \<Rightarrow> int \<Rightarrow> bool \<Rightarrow> ('c, 'w, pyval) pve" where
  "vm_stop h node vmid force =
     on_guest h node vmid (\<lambda>ty. let endpoint = (if force then ''stop'' else ''shutdown'')
       in answer (pve_post h node (vm_path node ty vmid (''status/'' @ endpoint)) [])
            (\<lambda>r. [(''vmid'', PInt vmid), (''node'', PStr node), (''action'', PStr endpoint), (''force'', PBool force), (''upid'', r)]))"

definition vm_restart :: "('c, 'w) pve_host \<Rightarrow> string \<Rightarrow> int \<Rightarrow> ('c, 'w, pyval) pve" where
  "vm_restart h node vmid =
     on_guest h node vmid (\<lambda>ty. answer (pve_post h node (vm_path node ty vmid ''status/reboot'') [])
       (\<lambda>r. [(''vmid'', PInt vmid), (''node'', PStr node), (''action'', PStr ''restart''), (''upid'', r)]))"

definition vm_create :: "('c, 'w) pve_host \<Rightarrow> string \<Rightarrow> int \<Rightarrow> string \<Rightarrow> kwargs option \<Rightarrow> ('c, 'w, pyval) pve" where
  "vm_create h node vmid vm_type config =
     (if vm_type \<notin> {''qemu'', ''lxc''}
      then preturn (error_result (''Invalid vm_type '' @ quoted vm_type @ ''. Use '' @ quoted ''qemu'' @ '' for VMs or '' @
             quoted ''lxc'' @ '' for containers.''))
      else let params = (case config of Some d \<Rightarrow> d | None \<Rightarrow> [])
           in if ''vmid'' \<in> set (dkeys params) then praise Type_error
              else answer (pve_post h node (''nodes/'' @ node @ ''/'' @ vm_type) ((''vmid'', PInt vmid) # params))
                (\<lambda>r. [(''vmid'', PInt vmid), (''node'', PStr node), (''type'', PStr vm_type), (''action'', PStr ''create''), (''upid'', r)]))"

definition vm_clone :: "('c, 'w) pve_host \<Rightarrow> string \<Rightarrow> int \<Rightarrow> int \<Rightarrow> string \<Rightarrow> ('c, 'w, pyval) pve" where
  "vm_clone h node vmid newid name =
     on_guest h node vmid (\<lambda>ty.
       let kw = (''newid'', PInt newid) # (if name \<noteq> [] then [(if ty = ''qemu'' then ''name'' else ''hostname'', PStr name)] else [])
       in answer (pve_post h node (vm_path node ty vmid ''clone'') kw)
            (\<lambda>r. [(''src_vmid'', PInt vmid), (''new_vmid'', PInt newid), (''name'', PStr name), (''node'', PStr node),
                  (''action'', PStr ''clone''), (''upid'', r)]))"

definition vm_migrate :: "('c, 'w) pve_host \<Rightarrow> string \<Rightarrow> int \<Rightarrow> string \<Rightarrow> ('c, 'w, pyval) pve" where
  "vm_migrate h node vmid target =
     on_guest h node vmid (\<lambda>ty. answer (pve_post h node (vm_path node ty vmid ''migrate'') [(''target'', PStr target)])
       (\<lambda>r. [(''vmid'', PInt vmid), (''src_node'', PStr node), (''dst_node'', PStr target), (''action'', PStr ''migrate''), (''upid'', r)]))"

text \<open>\<open>filter_fields\<close> (\<open>utils.py\<close>).\<close>

definition keep_fields :: "string list \<Rightarrow> (string, pyval) dict \<Rightarrow> (string, pyval) dict" where
  "keep_fields fs d = [p \<leftarrow> d. fst p \<in> set fs]"

definition filter_fields :: "pyval \<Rightarrow> string list option \<Rightarrow> pyval" where
  "filter_fields v wanted =
     (case wanted of
        None \<Rightarrow> v
      | Some fs \<Rightarrow>
          if fs = [] then v
          else case v of
            PDict d \<Rightarrow> PDict (keep_fields fs d)
          | PList xs \<Rightarrow> PList (map (\<lambda>x. case x of PDict d \<Rightarrow> PDict (keep_fields fs d) | _ \<Rightarrow> x) xs)
          | _ \<Rightarrow> v)"

definition vm_config :: "('c, 'w) pve_host \<Rightarrow> string \<Rightarrow> int \<Rightarrow> kwargs option \<Rightarrow> string list option \<Rightarrow> ('c, 'w, pyval) pve" where
  "vm_config h node vmid updates wanted =
     on_guest h node vmid (\<lambda>ty. case updates of
        None \<Rightarrow> answer (pve_get h node (vm_path node ty vmid ''config'') [])
          (\<lambda>d. [(''vmid'', PInt vmid), (''node'', PStr node), (''type'', PStr ty), (''config'', filter_fields d wanted)])
      | Some kw \<Rightarrow> answer (pve_put h node (vm_path node ty vmid ''config'') kw)
          (\<lambda>d. [(''vmid'', PInt vmid), (''node'', PStr node), (''action'', PStr ''config_update''), (''applied'', PDict kw)]))"

definition snapshot_list :: "('c, 'w) pve_host \<Rightarrow> string \<Rightarrow> int \<Rightarrow> ('c, 'w, pyval) pve" where
  "snapshot_list h node vmid =
     on_guest h node vmid (\<lambda>ty. answer (pve_get h node (vm_path node ty vmid ''snapshot'') [])
       (\<lambda>r. [(''vmid'', PInt vmid), (''node'', PStr node), (''snapshots'', r)]))"

definition dry_run_result :: "string \<Rightarrow> pyval" where
  "dry_run_result t = PDict [(''status'', PStr ''dry_run''), (''message'', PStr t)]"

definition snapshot_answer :: "string \<Rightarrow> string \<Rightarrow> int \<Rightarrow> string \<Rightarrow> pyval \<Rightarrow> (string, pyval) dict" where
  "snapshot_answer action node vmid snapname r =
     [(''vmid'', PInt vmid), (''node'', PStr node), (''action'', PStr action), (''snapname'', PStr snapname), (''upid'', r)]"

definition snapshot_create :: "('c, 'w) pve_host \<Rightarrow> string \<Rightarrow> int \<Rightarrow> string \<Rightarrow> string \<Rightarrow> bool \<Rightarrow> bool \<Rightarrow> ('c, 'w, pyval) pve" where
  "snapshot_create h node vmid snapname description vmstate dry_run =
     (if dry_run then preturn (dry_run_result (''Would create snapshot '' @ py_repr snapname @ '' for VM/CT '' @ show_signed vmid @ '' on '' @ node @ ''.''))
      else on_guest h node vmid (\<lambda>ty.
        let params = (''snapname'', PStr snapname) # (if description \<noteq> [] then [(''description'', PStr description)] else []);
            create = (\<lambda>kw. answer (pve_post h node (vm_path node ty vmid ''snapshot'') kw) (snapshot_answer ''snapshot_create'' node vmid snapname))
        in if \<not> vmstate then create params
           else if ty = ''lxc'' then preturn (error_result ''vmstate=True is only supported for QEMU VMs, not LXC containers.'')
           else pbind (pve_get h node (vm_path node ty vmid ''status/current'') [])
             (\<lambda>st. if get_or st ''status'' PNone = PStr ''running'' then create (params @ [(''vmstate'', PInt 1)])
                   else preturn (error_result ''vmstate=True requires the VM to be running to capture RAM.''))))"

definition snapshot_rollback :: "('c, 'w) pve_host \<Rightarrow> string \<Rightarrow> int \<Rightarrow> string \<Rightarrow> bool \<Rightarrow> ('c, 'w, pyval) pve" where
  "snapshot_rollback h node vmid snapname dry_run =
     (if dry_run then preturn (dry_run_result (''Would roll back VM/CT '' @ show_signed vmid @ '' on '' @ node @ '' to snapshot '' @ py_repr snapname @ ''.''))
      else on_guest h node vmid (\<lambda>ty. answer (pve_post h node (vm_path node ty vmid (''snapshot/'' @ snapname @ ''/rollback'')) [])
        (snapshot_answer ''snapshot_rollback'' node vmid snapname)))"

definition snapshot_delete :: "('c, 'w) pve_host \<Rightarrow> string \<Rightarrow> int \<Rightarrow> string \<Rightarrow> bool \<Rightarrow> ('c, 'w, pyval) pve" where
  "snapshot_delete h node vmid snapname dry_run =
     (if dry_run then preturn (dry_run_result (''Would delete snapshot '' @ py_repr snapname @ '' from VM/CT '' @ show_signed vmid @ '' on '' @ node @ ''.''))
      else on_guest h node vmid (\<lambda>ty. answer (pve_delete h node (vm_path node ty vmid (''snapshot/'' @ snapname)) [])
        (snapshot_answer ''snapshot_delete'' node vmid snapname)))"

text \<open>The backup tools mark their outcome with a \<open>status\<close>.\<close>

definition status_answer :: "('c, 'w, pyval) pve \<Rightarrow> (pyval \<Rightarrow> (string, pyval) dict) \<Rightarrow> ('c, 'w, pyval) pve" where
  "status_answer m f =
     pbind m (\<lambda>r. preturn (PDict (if has_error r then [(''status'', PStr ''error''), (''error'', get_or r ''error'' PNone)]
                                  else (''status'', PStr ''success'') # f r)))"

definition backup_create :: "('c, 'w) pve_host \<Rightarrow> string \<Rightarrow> int \<Rightarrow> string \<Rightarrow> string \<Rightarrow> string \<Rightarrow> string \<Rightarrow> ('c, 'w, pyval) pve" where
  "backup_create h node vmid storage mode compress notes =
     on_guest h node vmid (\<lambda>ty. status_answer
       (pve_post h node (''nodes/'' @ node @ ''/vzdump'')
          ([(''vmid'', PInt vmid), (''storage'', PStr storage), (''mode'', PStr mode), (''compress'', PStr compress)] @
           (if notes \<noteq> [] then [(''notes'', PStr notes)] else [])))
       (\<lambda>r. [(''vmid'', PInt vmid), (''node'', PStr node), (''action'', PStr ''backup_create''), (''storage'', PStr storage), (''upid'', r)]))"

definition backup_row :: "pyval \<Rightarrow> py_raise + pyval" where
  "backup_row b =
     (if \<not> is_dict b then Inl Attribute_error
      else case py_number (get_or b ''size'' (PInt 0)) of
        None \<Rightarrow> Inl Type_error
      | Some n \<Rightarrow>
          Inr (PDict [(''volid'', get_or b ''volid'' PNone), (''vmid'', get_or b ''vmid'' PNone), (''format'', get_or b ''format'' PNone),
            (''size_gb'', PFloat (py_round 2 (n / 1073741824))), (''ctime'', get_or b ''ctime'' PNone),
            (''notes'', get_or b ''notes'' (PStr []))]))"

definition backup_list :: "('c, 'w) pve_host \<Rightarrow> string \<Rightarrow> string \<Rightarrow> int option \<Rightarrow> ('c, 'w, pyval) pve" where
  "backup_list h node storage vmid =
     pbind (pve_get h node (''nodes/'' @ node @ ''/storage/'' @ storage @ ''/content'')
              ((''content'', PStr ''backup'') # (case vmid of Some n \<Rightarrow> [(''vmid'', PInt n)] | None \<Rightarrow> [])))
       (\<lambda>data. if has_error data then preturn data
               else case data of
                 PList rows \<Rightarrow>
                   pbind (pmap (\<lambda>b. plift (backup_row b)) rows)
                     (\<lambda>bs. preturn (PDict [(''node'', PStr node), (''storage'', PStr storage), (''backups'', PList bs)]))
               | _ \<Rightarrow> preturn (PDict [(''backups'', PList [])]))"

definition backup_restore :: "('c, 'w) pve_host \<Rightarrow> string \<Rightarrow> int \<Rightarrow> string \<Rightarrow> bool \<Rightarrow> string \<Rightarrow> ('c, 'w, pyval) pve" where
  "backup_restore h node vmid archive force storage =
     pbind (detect_backup_type h node archive)
       (\<lambda>t. case t of
          None \<Rightarrow> preturn (PDict [(''status'', PStr ''error''),
            (''error'', PStr (''Could not determine if the backup is for '' @ quoted ''qemu'' @ '' or '' @ quoted ''lxc'' @
               ''. Pass a volid from proxmox_backup_list (its '' @ quoted ''volid'' @ '' field).''))])
        | Some ty \<Rightarrow> status_answer
            (pve_post h node (''nodes/'' @ node @ ''/'' @ ty)
               [(''vmid'', PInt vmid), (''archive'', PStr archive), (''force'', PInt (if force then 1 else 0)), (''storage'', PStr storage)])
            (\<lambda>r. [(''vmid'', PInt vmid), (''node'', PStr node), (''action'', PStr ''backup_restore''), (''archive'', PStr archive), (''upid'', r)]))"

subsection \<open>Many guests at once\<close>

definition MAX_BULK :: nat where "MAX_BULK = 50"

definition valid_actions :: "string list" where "valid_actions = [''restart'', ''start'', ''stop'']"

fun first_of_each :: "int list \<Rightarrow> int list \<Rightarrow> int list" where
  "first_of_each seen [] = []"
| "first_of_each seen (v # vs) = (if v \<in> set seen then first_of_each seen vs else v # first_of_each (v # seen) vs)"

definition bulk_one :: "('c, 'w) pve_host \<Rightarrow> string \<Rightarrow> bool \<Rightarrow> int \<Rightarrow> ('c, 'w, pyval) pve" where
  "bulk_one h action force vmid =
     pbind (find_vm_location h vmid (configured_nodes h))
       (\<lambda>loc. case loc of
          None \<Rightarrow> preturn (PDict [(''vmid'', PInt vmid), (''error'', PStr ''not found'')])
        | Some (n, ty) \<Rightarrow>
            pbind (pve_post h n (vm_path n ty vmid (''status/'' @ action))
                     (if action \<in> {''stop'', ''restart''} \<and> force then [(''forceStop'', PInt 1)] else []))
              (\<lambda>r. preturn (PDict (if has_error r
                 then [(''vmid'', PInt vmid), (''node'', PStr n), (''error'', get_or r ''error'' PNone)]
                 else [(''vmid'', PInt vmid), (''node'', PStr n), (''type'', PStr ty),
                       (''upid'', case r of PStr u \<Rightarrow> PStr u | _ \<Rightarrow> get_or r ''upid'' PNone)]))))"

definition vm_bulk_action :: "('c, 'w) pve_host \<Rightarrow> int list \<Rightarrow> string \<Rightarrow> bool \<Rightarrow> ('c, 'w, pyval) pve" where
  "vm_bulk_action h vmids action force =
     (if action \<notin> set valid_actions
      then preturn (error_result (''Unsupported action '' @ py_repr action @ ''. Use one of ['' @
             join '', '' (map py_repr valid_actions) @ ''].''))
      else if MAX_BULK < length vmids
      then preturn (error_result (''Too many VMIDs ('' @ show_int (int (length vmids)) @
             ''); cap is 50 per call. Split into multiple calls.''))
      else pbind (pmap (bulk_one h action force) (first_of_each [] vmids))
        (\<lambda>results. preturn (PDict [(''action'', PStr action), (''total'', PInt (int (length results))),
           (''ok'', PInt (int (length [r \<leftarrow> results. has_key r ''upid'']))),
           (''results'', PList results)])))"

end
