(* ===== verification/Sh_Quote.thy ===== *)
theory Sh_Quote
  imports Py_Val
begin

text \<open>
  \<open>shlex.quote\<close>, with which the program puts arguments into shell command lines, and how a POSIX
  shell takes a command line apart.  \<open>sh_words\<close> reads the lines that are made of literal words only:
  its result is None as soon as the shell would expand, redirect, chain or otherwise interpret
  anything, so a line with a result runs exactly the words in it.
\<close>

definition sh_safe :: "char \<Rightarrow> bool" where
  "sh_safe c \<longleftrightarrow> (48 \<le> ord c \<and> ord c \<le> 57) \<or> (65 \<le> ord c \<and> ord c \<le> 90) \<or> (97 \<le> ord c \<and> ord c \<le> 122) \<or> c \<in> set ''_@%+=:,./-''"

fun quote_char :: "char \<Rightarrow> string" where
  "quote_char c = (if c = CHR 0x27 then [CHR 0x27, CHR 0x22, CHR 0x27, CHR 0x22, CHR 0x27] else [c])"

definition shlex_quote :: "string \<Rightarrow> string" where
  "shlex_quote s =
     (if s = [] then [CHR 0x27, CHR 0x27]
      else if list_all sh_safe s then s
      else CHR 0x27 # concat (map quote_char s) @ [CHR 0x27])"

subsection \<open>Reading a command line\<close>

datatype sh_mode = Between | In_word | In_single | In_double

text \<open>The words from here on, with the part of the current word that was read, in reverse.\<close>

fun sh_scan :: "sh_mode \<Rightarrow> string \<Rightarrow> string \<Rightarrow> string list option" where
  "sh_scan Between w [] = Some []"
| "sh_scan In_word w [] = Some [rev w]"
| "sh_scan In_single w [] = None"
| "sh_scan In_double w [] = None"
| "sh_scan In_single w (c # s) = (if c = CHR 0x27 then sh_scan In_word w s else sh_scan In_single (c # w) s)"
| "sh_scan In_double w (c # s) =
     (if c = CHR 0x22 then sh_scan In_word w s
      else if c \<in> {CHR ''$'', CHR 0x60, CHR 0x5C} then None
      else sh_scan In_double (c # w) s)"
| "sh_scan Between w (c # s) =
     (if c = CHR '' '' then sh_scan Between [] s
      else if c = CHR 0x27 then sh_scan In_single [] s
      else if c = CHR 0x22 then sh_scan In_double [] s
      else if sh_safe c then sh_scan In_word [c] s else None)"
| "sh_scan In_word w (c # s) =
     (if c = CHR '' '' then map_option (Cons (rev w)) (sh_scan Between [] s)
      else if c = CHR 0x27 then sh_scan In_single w s
      else if c = CHR 0x22 then sh_scan In_double w s
      else if sh_safe c then sh_scan In_word (c # w) s else None)"

definition sh_words :: "string \<Rightarrow> string list option" where
  "sh_words line = sh_scan Between [] line"

subsection \<open>Quoting and reading\<close>

lemma sh_safe_not_special: "sh_safe c \<Longrightarrow> c \<noteq> CHR '' '' \<and> c \<noteq> CHR 0x27 \<and> c \<noteq> CHR 0x22"
  by (auto simp: sh_safe_def)

lemma scan_safe_word: "list_all sh_safe s \<Longrightarrow> sh_scan In_word w (s @ t) = sh_scan In_word (rev s @ w) t"
  by (induction s arbitrary: w) (auto dest: sh_safe_not_special)

lemma scan_safe: "list_all sh_safe s \<Longrightarrow> s \<noteq> [] \<Longrightarrow> sh_scan Between w (s @ t) = sh_scan In_word (rev s) t"
  by (cases s) (auto simp: scan_safe_word dest: sh_safe_not_special)

lemma scan_quoted: "sh_scan In_single w (concat (map quote_char s) @ CHR 0x27 # t) = sh_scan In_word (rev s @ w) t"
  by (induction s arbitrary: w) auto

lemma scan_shlex_quote: "sh_scan Between w (shlex_quote s @ t) = sh_scan In_word (rev s) t"
  by (auto simp: shlex_quote_def scan_safe scan_quoted)

text \<open>A word of safe characters, or a quoted text, followed by a space or by the end.\<close>

lemma sh_words_quote [simp]: "sh_words (shlex_quote s) = Some [s]"
  using scan_shlex_quote[of "[]" s "[]"] by (simp add: sh_words_def)

lemma sh_words_quote_more [simp]: "sh_words (shlex_quote s @ CHR '' '' # t) = map_option (Cons s) (sh_words t)"
  by (simp add: sh_words_def scan_shlex_quote)

lemma sh_words_word [simp]: "list_all sh_safe s \<Longrightarrow> s \<noteq> [] \<Longrightarrow> sh_words (s @ CHR '' '' # t) = map_option (Cons s) (sh_words t)"
  by (simp add: sh_words_def scan_safe)

lemma sh_words_last [simp]: "list_all sh_safe s \<Longrightarrow> s \<noteq> [] \<Longrightarrow> sh_words s = Some [s]"
  using scan_safe[of s "[]" "[]"] by (simp add: sh_words_def)

lemma show_int_safe: "0 \<le> n \<Longrightarrow> list_all sh_safe (show_int n) \<and> show_int n \<noteq> []"
proof (induction n rule: show_int.induct)
  case (1 n)
  have digit: "sh_safe (char_of (48 + k))" if "0 \<le> k" "k < 10" for k :: int
    using that by (auto simp: sh_safe_def)
  show ?case
  proof (cases "n < 10")
    case True
    then show ?thesis using 1(2) digit[of n] by (subst (1 2) show_int.simps) simp
  next
    case False
    then have "list_all sh_safe (show_int (n div 10)) \<and> show_int (n div 10) \<noteq> []" using 1 by simp
    then show ?thesis using False digit[of "n mod 10"] by (subst (1 2) show_int.simps) simp
  qed
qed

lemma show_signed_safe: "list_all sh_safe (show_signed n)" "show_signed n \<noteq> []"
  using show_int_safe[of n] show_int_safe[of "- n"] by (auto simp: show_signed_def sh_safe_def)

end
