(* ===== verification/Guest_Exec.thy ===== *)
theory Guest_Exec
  imports Pve_Vms Sh_Quote Ssh_Client
begin

text \<open>
  Commands in guests (\<open>proxmox/system.py\<close>): the guest agent's command line, the sessions of commands
  started through it, polling them, and the tool \<open>proxmox_run\<close> with its waiting loops.  Readings of
  the clock are \<open>clk 0\<close>, \<open>clk 1\<close>, ...; the loops are partial functions, None while the clock never
  reaches the deadline.  The SSH client is a parameter over its own state \<open>'s\<close>: starting a background
  command, and the session it shows at the n-th look.  \<open>ge_decode\<close> is base64 followed by UTF-8 with
  replacement characters, on the agent's output.
\<close>

subsection \<open>State\<close>

datatype gx_status = G_running | G_completed | G_timeout | G_failed

record guest_session =
  gx_exec_id :: string
  gx_node :: string
  gx_vmid :: int
  gx_vm_type :: string
  gx_command :: string
  gx_status :: gx_status
  gx_stdout :: pyval
  gx_stderr :: pyval
  gx_exit_code :: pyval
  gx_pid :: pyval
  gx_started_at :: real

record ('c, 'w, 's) guest_env =
  ge_host :: "('c, 'w) pve_host"
  ge_decode :: "pyval \<Rightarrow> py_raise + pyval"
  ge_ssh :: bool
  ge_ssh_start :: "string \<Rightarrow> string \<Rightarrow> 's \<Rightarrow> (string + string) \<times> 's"
  ge_ssh_session :: "'s \<Rightarrow> nat \<Rightarrow> string \<Rightarrow> exec_session option"

record ('c, 'w, 's) guest_state =
  gs_sessions :: "(string, guest_session) dict"
  gs_pve :: "('c, 'w) pve_state"
  gs_ssh :: 's

type_synonym ('c, 'w, 's, 'a) guest = "('c, 'w, 's) guest_state \<Rightarrow> (py_raise + 'a) \<times> ('c, 'w, 's) guest_state"

definition gx_text :: "gx_status \<Rightarrow> string" where
  "gx_text st = (case st of G_running \<Rightarrow> ''running'' | G_completed \<Rightarrow> ''completed'' | G_timeout \<Rightarrow> ''timeout'' | G_failed \<Rightarrow> ''failed'')"

text \<open>A computation of the Proxmox client, on this state.\<close>

definition on_pve :: "('c, 'w, 'a) pve \<Rightarrow> ('c, 'w, 's, 'a) guest" where
  "on_pve m s = (case m (gs_pve s) of (r, p) \<Rightarrow> (r, s\<lparr>gs_pve := p\<rparr>))"

definition EXEC_SESSION_TTL :: real where "EXEC_SESSION_TTL = 3600"

definition prune_exec_sessions :: "real \<Rightarrow> (string, guest_session) dict \<Rightarrow> (string, guest_session) dict" where
  "prune_exec_sessions now d = dkeep (\<lambda>x. \<not> (gx_status x \<noteq> G_running \<and> now - gx_started_at x > EXEC_SESSION_TTL)) d"

subsection \<open>Starting a command through the guest agent\<close>

definition os_unknown_hint :: string where
  "os_unknown_hint = ''The guest agent did not report its OS (guest-get-osinfo failed or is blocked), so the command was run through /bin/sh -c. On a Windows guest, allow guest-get-osinfo in the agent so cmd.exe /c is used instead.''"

definition posix_argv :: "string \<Rightarrow> string list" where
  "posix_argv command = [''/bin/sh'', ''-c'', command]"

definition guest_argv :: "('c, 'w) pve_host \<Rightarrow> string \<Rightarrow> int \<Rightarrow> string \<Rightarrow> ('c, 'w, string list \<times> string option) pve" where
  "guest_argv h node vmid command =
     pbind (pve_get h node (vm_path node ''qemu'' vmid ''agent/get-osinfo'') [])
       (\<lambda>info. let result = get_or info ''result'' PNone
               in preturn (if \<not> is_dict result \<or> \<not> truth (get_or result ''id'' PNone) then (posix_argv command, Some os_unknown_hint)
                           else if get_or result ''id'' PNone = PStr ''mswindows'' then ([''cmd.exe'', ''/c'', command], None)
                           else (posix_argv command, None)))"

definition new_guest_session :: "string \<Rightarrow> string \<Rightarrow> int \<Rightarrow> string \<Rightarrow> real \<Rightarrow> guest_session" where
  "new_guest_session exec_id node vmid command started =
     \<lparr>gx_exec_id = exec_id, gx_node = node, gx_vmid = vmid, gx_vm_type = ''qemu'', gx_command = command, gx_status = G_running,
      gx_stdout = PStr [], gx_stderr = PStr [], gx_exit_code = PNone, gx_pid = PNone, gx_started_at = started\<rparr>"

definition start_async_qemu ::
  "('c, 'w, 's) guest_env \<Rightarrow> string \<Rightarrow> int \<Rightarrow> string \<Rightarrow> string \<Rightarrow> real \<Rightarrow> real \<Rightarrow> ('c, 'w, 's, pyval) guest" where
  "start_async_qemu e node vmid command exec_id tp started s =
     (let session = new_guest_session exec_id node vmid command started;
          s1 = s\<lparr>gs_sessions := dset exec_id session (prune_exec_sessions tp (gs_sessions s))\<rparr>
      in case on_pve (pbind (guest_argv (ge_host e) node vmid command)
                (\<lambda>(argv, hint). pbind (pve_post (ge_host e) node (vm_path node ''qemu'' vmid ''agent/exec'')
                                          [(''command'', PList (map PStr argv))])
                   (\<lambda>r. preturn (r, hint)))) s1 of
           (Inl err, s2) \<Rightarrow> (Inl err, s2)
         | (Inr (r, hint), s2) \<Rightarrow>
             if has_error r then
               (let text = py_str (get_or r ''error'' PNone);
                    error = (case hint of Some t \<Rightarrow> text @ '' ('' @ t @ '')'' | None \<Rightarrow> text)
                in (Inr (PDict [(''exec_id'', PStr exec_id), (''status'', PStr ''failed''), (''error'', PStr error)]),
                    s2\<lparr>gs_sessions := dset exec_id (session\<lparr>gx_status := G_failed, gx_stderr := PStr error\<rparr>) (gs_sessions s2)\<rparr>))
             else (Inr (PDict [(''exec_id'', PStr exec_id), (''status'', PStr ''running'')]),
                   s2\<lparr>gs_sessions := dset exec_id (session\<lparr>gx_pid := get_or r ''pid'' PNone\<rparr>) (gs_sessions s2)\<rparr>))"

subsection \<open>Polling\<close>

text \<open>\<open>v == 0\<close>.\<close>

definition equals_zero :: "pyval \<Rightarrow> bool" where
  "equals_zero v \<longleftrightarrow> v \<in> {PInt 0, PBool False, PFloat 0}"

definition outcome_text :: "guest_session \<Rightarrow> string" where
  "outcome_text x = (if gx_status x = G_completed \<and> equals_zero (gx_exit_code x) then ''ok'' else gx_text (gx_status x))"

text \<open>The agent's report on an exited command.\<close>

definition decoded :: "('c, 'w, 's) guest_env \<Rightarrow> pyval \<Rightarrow> string \<Rightarrow> py_raise + pyval" where
  "decoded e st key =
     (let out = get_or st (key @ ''-data'') (PStr [])
      in if get_or st (key @ ''-data-encoding'') PNone = PStr ''base64'' \<and> truth out then ge_decode e out else Inr out)"

definition exited_session :: "('c, 'w, 's) guest_env \<Rightarrow> pyval \<Rightarrow> guest_session \<Rightarrow> py_raise + guest_session" where
  "exited_session e st x =
     (case decoded e st ''out'' of
        Inl err \<Rightarrow> Inl err
      | Inr out \<Rightarrow>
          (case decoded e st ''err'' of
             Inl err \<Rightarrow> Inl err
           | Inr er \<Rightarrow> Inr (x\<lparr>gx_status := G_completed, gx_stdout := out, gx_stderr := er,
                               gx_exit_code := get_or st ''exitcode'' (PInt (-1))\<rparr>)))"

definition refresh_session :: "('c, 'w, 's) guest_env \<Rightarrow> guest_session \<Rightarrow> ('c, 'w, guest_session) pve" where
  "refresh_session e x =
     (if gx_vm_type x = ''qemu'' \<and> gx_pid x \<noteq> PNone
      then pbind (pve_get (ge_host e) (gx_node x) (vm_path (gx_node x) ''qemu'' (gx_vmid x) ''agent/exec-status'') [(''pid'', gx_pid x)])
             (\<lambda>st. if is_dict st \<and> truth (get_or st ''exited'' PNone) then plift (exited_session e st x) else preturn x)
      else preturn x)"

definition poll_session :: "('c, 'w, 's) guest_env \<Rightarrow> string \<Rightarrow> real \<Rightarrow> real \<Rightarrow> ('c, 'w, 's, pyval) guest" where
  "poll_session e exec_id t1 t2 s =
     (case dget (gs_sessions s) exec_id of
        None \<Rightarrow> (Inr (PDict [(''status'', PStr ''error''), (''error'', PStr (''No command found with exec_id '' @ quoted exec_id @ ''.''))]), s)
      | Some x \<Rightarrow>
          if gx_status x \<noteq> G_running then
            (Inr (PDict [(''exec_id'', PStr exec_id), (''status'', PStr (outcome_text x)), (''stdout'', gx_stdout x),
                         (''stderr'', gx_stderr x), (''exit_code'', gx_exit_code x), (''command'', PStr (gx_command x)),
                         (''elapsed_s'', PFloat (py_round 1 (t1 - gx_started_at x)))]), s)
          else case on_pve (refresh_session e x) s of
            (Inl err, s1) \<Rightarrow> (Inl err, s1)
          | (Inr y, s1) \<Rightarrow>
              let z = (if t1 - gx_started_at y > 600 then y\<lparr>gx_status := G_timeout\<rparr> else y);
                  s2 = s1\<lparr>gs_sessions := dset exec_id z (gs_sessions s1)\<rparr>;
                  elapsed = PFloat (py_round 1 (t2 - gx_started_at z))
              in if gx_status z = G_running
                 then (Inr (PDict [(''status'', PStr ''running''), (''exec_id'', PStr exec_id), (''command'', PStr (gx_command z)),
                                   (''elapsed_s'', elapsed)]), s2)
                 else (Inr (PDict [(''status'', PStr (outcome_text z)), (''exec_id'', PStr exec_id), (''command'', PStr (gx_command z)),
                                   (''stdout'', gx_stdout z), (''stderr'', gx_stderr z), (''exit_code'', gx_exit_code z),
                                   (''duration_s'', elapsed)]), s2))"

subsection \<open>\<open>proxmox_run\<close>\<close>

definition ssh_status_text :: "exec_session \<Rightarrow> string" where
  "ssh_status_text x =
     (case xs_status x of Ex_running \<Rightarrow> ''running'' | Ex_timeout \<Rightarrow> ''timeout'' | Ex_failed \<Rightarrow> ''failed''
      | Ex_completed \<Rightarrow> if xs_exit_code x = Some 0 then ''ok'' else ''completed'')"

definition format_ssh_result :: "string \<Rightarrow> exec_session \<Rightarrow> real \<Rightarrow> pyval" where
  "format_ssh_result xid x now =
     (let elapsed = PFloat (py_round 1 (now - xs_started_at x))
      in if xs_status x = Ex_running
         then PDict [(''status'', PStr ''running''), (''exec_id'', PStr xid), (''command'', PStr (xs_command x)), (''elapsed_s'', elapsed)]
         else PDict [(''status'', PStr (ssh_status_text x)), (''exec_id'', PStr xid), (''command'', PStr (xs_command x)),
                     (''stdout'', PStr (xs_stdout x)), (''stderr'', PStr (xs_stderr x)),
                     (''exit_code'', case xs_exit_code x of Some n \<Rightarrow> PInt n | None \<Rightarrow> PNone), (''duration_s'', elapsed)])"

text \<open>\<open>int(x)\<close> of a float.\<close>

definition py_trunc :: "real \<Rightarrow> int" where
  "py_trunc x = (if x < 0 then \<lceil>x\<rceil> else \<lfloor>x\<rfloor>)"

definition still_running :: "string \<Rightarrow> real \<Rightarrow> pyval" where
  "still_running xid elapsed =
     PDict [(''status'', PStr ''running''), (''exec_id'', PStr xid), (''elapsed_s'', PInt (py_trunc elapsed)),
            (''hint'', PStr ''Command still running. Call proxmox_run(exec_id=...) to poll.'')]"

text \<open>The loops; round \<open>i\<close> reads the clock at \<open>3 i\<close>, \<open>3 i + 1\<close> and \<open>3 i + 2\<close>.\<close>

partial_function (option) wait_qemu ::
  "('c, 'w, 's) guest_env \<Rightarrow> string \<Rightarrow> real \<Rightarrow> (nat \<Rightarrow> real) \<Rightarrow> nat \<Rightarrow> ('c, 'w, 's) guest_state
     \<Rightarrow> ((py_raise + pyval) \<times> ('c, 'w, 's) guest_state) option" where
  "wait_qemu e exec_id deadline clk i s =
     (if clk (3 * i) < deadline then
        (case poll_session e exec_id (clk (3 * i + 1)) (clk (3 * i + 2)) s of
           (Inl err, s1) \<Rightarrow> Some (Inl err, s1)
         | (Inr r, s1) \<Rightarrow>
             if get_or r ''status'' PNone \<noteq> PStr ''running'' then Some (Inr r, s1)
             else wait_qemu e exec_id deadline clk (i + 1) s1)
      else (case dget (gs_sessions s) exec_id of
              None \<Rightarrow> Some (Inl Key_error, s)
            | Some x \<Rightarrow> Some (Inr (still_running exec_id (clk (3 * i + 1) - gx_started_at x)), s)))"

partial_function (option) wait_lxc ::
  "('s \<Rightarrow> nat \<Rightarrow> string \<Rightarrow> exec_session option) \<Rightarrow> 's \<Rightarrow> string \<Rightarrow> real \<Rightarrow> (nat \<Rightarrow> real) \<Rightarrow> nat \<Rightarrow> pyval option" where
  "wait_lxc look ssh xid deadline clk i =
     (case look ssh i xid of
        None \<Rightarrow>
          if clk (3 * i) < deadline then wait_lxc look ssh xid deadline clk (i + 1)
          else Some (still_running xid (clk (3 * i + 1) - clk (3 * i + 2)))
      | Some x \<Rightarrow>
          if xs_status x \<noteq> Ex_running then Some (format_ssh_result xid x (clk (3 * i + 1)))
          else if clk (3 * i) < deadline then wait_lxc look ssh xid deadline clk (i + 1)
          else Some (still_running xid (clk (3 * i + 1) - xs_started_at x)))"

definition lxc_command :: "int \<Rightarrow> string \<Rightarrow> string" where
  "lxc_command vmid command = ''pct exec '' @ show_signed vmid @ '' -- sh -c '' @ shlex_quote command"

definition status_error :: "string \<Rightarrow> pyval" where
  "status_error t = PDict [(''status'', PStr ''error''), (''error'', PStr t)]"

definition run_qemu ::
  "('c, 'w, 's) guest_env \<Rightarrow> string \<Rightarrow> int \<Rightarrow> string \<Rightarrow> int \<Rightarrow> bool \<Rightarrow> string \<Rightarrow> (nat \<Rightarrow> real) \<Rightarrow> ('c, 'w, 's) guest_state
     \<Rightarrow> ((py_raise + pyval) \<times> ('c, 'w, 's) guest_state) option" where
  "run_qemu e node vmid command max_timeout wait new_id clk s =
     (case start_async_qemu e node vmid command new_id (clk 0) (clk 1) s of
        (Inl err, s1) \<Rightarrow> Some (Inl err, s1)
      | (Inr started, s1) \<Rightarrow>
          if get_or started ''status'' PNone = PStr ''failed'' then Some (Inr started, s1)
          else if \<not> wait then Some (Inr (PDict [(''status'', PStr ''running''), (''exec_id'', PStr new_id), (''elapsed_s'', PInt 0)]), s1)
          else wait_qemu e new_id (clk 2 + of_int max_timeout) clk 1 s1)"

definition run_lxc ::
  "('c, 'w, 's) guest_env \<Rightarrow> string \<Rightarrow> int \<Rightarrow> string \<Rightarrow> int \<Rightarrow> bool \<Rightarrow> (nat \<Rightarrow> real) \<Rightarrow> ('c, 'w, 's) guest_state
     \<Rightarrow> ((py_raise + pyval) \<times> ('c, 'w, 's) guest_state) option" where
  "run_lxc e node vmid command max_timeout wait clk s =
     (if \<not> ge_ssh e then Some (Inr (status_error ''LXC execution requires SSH access to the Proxmox node, but SSH is not configured.''), s)
      else case ge_ssh_start e node (lxc_command vmid command) (gs_ssh s) of
        (Inl t, ssh) \<Rightarrow> Some (Inr (status_error t), s\<lparr>gs_ssh := ssh\<rparr>)
      | (Inr xid, ssh) \<Rightarrow>
          let s1 = s\<lparr>gs_ssh := ssh\<rparr>
          in if \<not> wait then Some (Inr (PDict [(''status'', PStr ''running''), (''exec_id'', PStr xid), (''elapsed_s'', PInt 0)]), s1)
             else map_option (\<lambda>r. (Inr r, s1)) (wait_lxc (ge_ssh_session e) ssh xid (clk 2 + of_int max_timeout) clk 1))"

definition poll_any :: "('c, 'w, 's) guest_env \<Rightarrow> string \<Rightarrow> (nat \<Rightarrow> real) \<Rightarrow> ('c, 'w, 's, pyval) guest" where
  "poll_any e exec_id clk s =
     (if exec_id \<in> set (dkeys (gs_sessions s)) then poll_session e exec_id (clk 0) (clk 1) s
      else case (if ge_ssh e then ge_ssh_session e (gs_ssh s) 0 exec_id else None) of
        Some x \<Rightarrow> (Inr (format_ssh_result exec_id x (clk 0)), s)
      | None \<Rightarrow> (Inr (status_error (''No command found with exec_id '' @ py_repr exec_id @ ''.'')), s))"

definition proxmox_run ::
  "('c, 'w, 's) guest_env \<Rightarrow> string \<Rightarrow> int \<Rightarrow> string \<Rightarrow> int \<Rightarrow> bool \<Rightarrow> string \<Rightarrow> string \<Rightarrow> (nat \<Rightarrow> real) \<Rightarrow> ('c, 'w, 's) guest_state
     \<Rightarrow> ((py_raise + pyval) \<times> ('c, 'w, 's) guest_state) option" where
  "proxmox_run e node vmid command timeout wait exec_id new_id clk s =
     (if exec_id \<noteq> [] then Some (poll_any e exec_id clk s)
      else if command = [] then
        Some (Inr (status_error (CHR 0x60 # ''command'' @ [CHR 0x60] @ '' is required when '' @ [CHR 0x60] @ ''exec_id'' @ [CHR 0x60] @ '' is not provided.'')), s)
      else if node = [] \<or> vmid = 0 then
        Some (Inr (status_error (CHR 0x60 # ''node'' @ [CHR 0x60] @ '' and '' @ [CHR 0x60] @ ''vmid'' @ [CHR 0x60] @ '' are required to start a command.'')), s)
      else case on_pve (detect_vm_type (ge_host e) node vmid) s of
        (Inl err, s1) \<Rightarrow> Some (Inl err, s1)
      | (Inr None, s1) \<Rightarrow>
          Some (Inr (status_error (''VM/CT '' @ show_signed vmid @ '' not found on node '' @ quoted node @ ''.'')), s1)
      | (Inr (Some ty), s1) \<Rightarrow>
          let max_timeout = min (max timeout 1) 600
          in if ty = ''lxc'' then run_lxc e node vmid command max_timeout wait clk s1
             else run_qemu e node vmid command max_timeout wait new_id clk s1)"

end
