(* ===== verification/Pve_Log.thy ===== *)
theory Pve_Log
  imports Pve_Client
begin

text \<open>
  Which requests a computation sends to Proxmox.  \<open>logged h\<close> is the host \<open>h\<close> that also writes
  down every request with its outcome; \<open>adds P m\<close> says that the computation \<open>m\<close> over it only
  appends to the log, and that what it appends satisfies \<open>P\<close>.
\<close>

record sent =
  sn_method :: http_method
  sn_parts :: "string list"
  sn_kwargs :: kwargs
  sn_reply :: "pyval reply"

definition logged :: "('c, 'w) pve_host \<Rightarrow> ('c, 'w \<times> sent list) pve_host" where
  "logged h = \<lparr>ph_config = ph_config h,
     ph_connect = (\<lambda>host user name secret v (w, l). case ph_connect h host user name secret v w of (r, w') \<Rightarrow> (r, (w', l))),
     ph_trust = (\<lambda>c ca (w, l). case ph_trust h c ca w of (r, w') \<Rightarrow> (r, (w', l))),
     ph_send = (\<lambda>c m parts kw (w, l). case ph_send h c m parts kw w of
        (r, w') \<Rightarrow> (r, (w', l @ [\<lparr>sn_method = m, sn_parts = parts, sn_kwargs = kw, sn_reply = r\<rparr>])))\<rparr>"

definition log_of :: "('c, 'w \<times> sent list) pve_state \<Rightarrow> sent list" where
  "log_of s = snd (pv_world s)"

definition adds :: "(sent list \<Rightarrow> bool) \<Rightarrow> ('c, 'w \<times> sent list, 'a) pve \<Rightarrow> bool" where
  "adds P m \<longleftrightarrow> (\<forall>s. \<exists>l. log_of (snd (m s)) = log_of s @ l \<and> P l)"

abbreviation sends_only :: "(sent \<Rightarrow> bool) \<Rightarrow> ('c, 'w \<times> sent list, 'a) pve \<Rightarrow> bool" where
  "sends_only Q m \<equiv> adds (list_all Q) m"

named_theorems sends \<open>what computations send\<close>

lemma adds_mono: "adds P m \<Longrightarrow> (\<And>l. P l \<Longrightarrow> Q l) \<Longrightarrow> adds Q m"
  unfolding adds_def by blast

lemma adds_nothing: "(\<And>s. log_of (snd (m s)) = log_of s) \<Longrightarrow> P [] \<Longrightarrow> adds P m"
  unfolding adds_def by (metis append_Nil2)

lemma adds_bind:
  assumes "adds P m" "\<And>x. adds Q (f x)" "\<And>l. P l \<Longrightarrow> R l" "\<And>l k. P l \<Longrightarrow> Q k \<Longrightarrow> R (l @ k)"
  shows "adds R (pbind m f)"
  unfolding adds_def
proof
  fix s
  obtain r s1 where m: "m s = (r, s1)" by fastforce
  obtain l where l: "log_of s1 = log_of s @ l" "P l" using assms(1) m unfolding adds_def by (metis snd_conv)
  show "\<exists>l. log_of (snd (pbind m f s)) = log_of s @ l \<and> R l"
  proof (cases r)
    case (Inl e)
    then show ?thesis using l assms(3) m by (simp add: pbind_def)
  next
    case (Inr x)
    obtain k where k: "log_of (snd (f x s1)) = log_of s1 @ k" "Q k" using assms(2) unfolding adds_def by blast
    then show ?thesis using l m Inr assms(4)[OF l(2) k(2)] by (auto simp: pbind_def)
  qed
qed

lemma adds_return: "P [] \<Longrightarrow> adds P (preturn x)"
  by (rule adds_nothing) (simp_all add: preturn_def)

lemma adds_raise: "P [] \<Longrightarrow> adds P (praise e)"
  by (rule adds_nothing) (simp_all add: praise_def)

lemma sends_return [sends]: "list_all Q [] \<Longrightarrow> sends_only Q (preturn x)"
  by (rule adds_nothing) (auto simp: preturn_def)

lemma sends_raise [sends]: "sends_only Q (praise e)"
  by (rule adds_nothing) (auto simp: praise_def)

lemma sends_bind [sends]: "sends_only Q m \<Longrightarrow> (\<And>x. sends_only Q (f x)) \<Longrightarrow> sends_only Q (pbind m f)"
  by (rule adds_bind[where P = "list_all Q" and Q = "list_all Q"]) auto

lemma sends_if [sends]: "(b \<Longrightarrow> sends_only Q m) \<Longrightarrow> (\<not> b \<Longrightarrow> sends_only Q n) \<Longrightarrow> sends_only Q (if b then m else n)"
  by simp

subsection \<open>\<open>api_call\<close>\<close>

lemma drop_connection_log [simp]: "log_of (drop_connection node s) = log_of s"
  by (simp add: log_of_def drop_connection_def)

lemma pve_connection_log: "log_of (snd (pve_connection (logged h) node s)) = log_of s"
  by (auto simp: pve_connection_def logged_def log_of_def
      split: option.splits list.splits prod.splits reply.splits verify_mode.splits)

text \<open>An attempt sends at most the one request, and what it sent tells its result.\<close>

lemma api_attempt_log:
  obtains (none) e s' where "api_attempt (logged h) node m parts kw s = (Inl e, s')" "log_of s' = log_of s"
  | (unsent) r s' where "api_attempt (logged h) node m parts kw s = (Inr r, s')" "log_of s' = log_of s"
      "\<And>v. r \<noteq> Returned v"
  | (sent) r s' where "api_attempt (logged h) node m parts kw s = (Inr r, s')"
      "log_of s' = log_of s @ [\<lparr>sn_method = m, sn_parts = parts, sn_kwargs = kw, sn_reply = r\<rparr>]"
proof -
  obtain g s1 where g: "pve_connection (logged h) node s = (g, s1)" by fastforce
  have s1: "log_of s1 = log_of s" using pve_connection_log[of h node s] g by simp
  show thesis
  proof (cases g)
    case (Inl e)
    then show ?thesis using g s1 none by (simp add: api_attempt_def pbind_def)
  next
    case (Inr r)
    show ?thesis
    proof (cases r)
      case (Returned c)
      obtain w l where w: "pv_world s1 = (w, l)" by fastforce
      obtain a w' where a: "ph_send h c m parts kw w = (a, w')" by fastforce
      show ?thesis
        by (rule sent[of a "s1\<lparr>pv_world := (w', l @ [\<lparr>sn_method = m, sn_parts = parts, sn_kwargs = kw, sn_reply = a\<rparr>])\<rparr>"])
          (use g Inr Returned w a s1 in \<open>simp_all add: api_attempt_def pbind_def logged_def log_of_def\<close>)
    qed (use g Inr s1 unsent in \<open>simp_all add: api_attempt_def pbind_def\<close>)
  qed
qed

text \<open>
  What one call may send: requests that all ask the same, at most two of them, and the second only
  after a first that is a read or provably never left.
\<close>

definition one_call :: "http_method \<Rightarrow> string list \<Rightarrow> kwargs \<Rightarrow> sent list \<Rightarrow> bool" where
  "one_call m parts kw l \<longleftrightarrow>
     (\<forall>x \<in> set l. sn_method x = m \<and> sn_parts x = parts \<and> sn_kwargs x = kw) \<and> length l \<le> RETRY_ATTEMPTS \<and>
     (\<forall>x \<in> set (butlast l). \<exists>e. sn_reply x = Net_failed e \<and> (m = Get \<or> never_sent e))"

lemma api_attempts_log:
  "\<exists>l. log_of (snd (api_attempts (logged h) node m parts kw n s)) = log_of s @ l
     \<and> (\<forall>x \<in> set l. sn_method x = m \<and> sn_parts x = parts \<and> sn_kwargs x = kw) \<and> length l \<le> n
     \<and> (\<forall>x \<in> set (butlast l). \<exists>e. sn_reply x = Net_failed e \<and> (m = Get \<or> never_sent e))"
proof (induction n arbitrary: s)
  case 0
  show ?case by simp
next
  case (Suc n)
  show ?case
  proof (cases rule: api_attempt_log[of h node m parts kw s])
    case (none e s')
    then show ?thesis by simp
  next
    case (unsent r s')
    show ?thesis
    proof (cases r)
      case (Net_failed e)
      obtain k where k: "log_of (snd (api_attempts (logged h) node m parts kw n (drop_connection node s'))) = log_of s' @ k"
        "\<forall>x \<in> set k. sn_method x = m \<and> sn_parts x = parts \<and> sn_kwargs x = kw" "length k \<le> n"
        "\<forall>x \<in> set (butlast k). \<exists>e. sn_reply x = Net_failed e \<and> (m = Get \<or> never_sent e)"
        using Suc.IH[of "drop_connection node s'"] by auto
      show ?thesis
      proof (cases "(m = Get \<or> never_sent e) \<and> n \<noteq> 0")
        case True
        then have "log_of (snd (api_attempts (logged h) node m parts kw (Suc n) s)) = log_of s @ k"
          using unsent Net_failed k(1) by auto
        then show ?thesis using k(2-4) le_SucI by blast
      qed (use unsent Net_failed in \<open>auto simp: Let_def\<close>)
    qed (use unsent in auto)
  next
    case (sent r s')
    let ?x = "\<lparr>sn_method = m, sn_parts = parts, sn_kwargs = kw, sn_reply = r\<rparr>"
    show ?thesis
    proof (cases r)
      case (Net_failed e)
      obtain k where k: "log_of (snd (api_attempts (logged h) node m parts kw n (drop_connection node s'))) = log_of s' @ k"
        "\<forall>x \<in> set k. sn_method x = m \<and> sn_parts x = parts \<and> sn_kwargs x = kw" "length k \<le> n"
        "\<forall>x \<in> set (butlast k). \<exists>e. sn_reply x = Net_failed e \<and> (m = Get \<or> never_sent e)"
        using Suc.IH[of "drop_connection node s'"] by auto
      show ?thesis
      proof (cases "(m = Get \<or> never_sent e) \<and> n \<noteq> 0")
        case True
        then have "log_of (snd (api_attempts (logged h) node m parts kw (Suc n) s)) = log_of s @ (?x # k)"
          using sent Net_failed k(1) by auto
        moreover have "\<forall>x \<in> set (butlast (?x # k)). \<exists>e. sn_reply x = Net_failed e \<and> (m = Get \<or> never_sent e)"
          using k(4) True Net_failed by auto
        moreover have "\<forall>x \<in> set (?x # k). sn_method x = m \<and> sn_parts x = parts \<and> sn_kwargs x = kw" using k(2) by simp
        moreover have "length (?x # k) \<le> Suc n" using k(3) by simp
        ultimately show ?thesis by blast
      qed (use sent Net_failed in \<open>auto simp: Let_def intro!: exI[of _ "[?x]"]\<close>)
    qed (use sent in \<open>auto intro!: exI[of _ "[?x]"]\<close>)
  qed
qed

lemma api_call_adds: "split_api_path path = Inr parts \<Longrightarrow> adds (one_call m parts kw) (api_call (logged h) node m path kw)"
  unfolding adds_def one_call_def using api_attempts_log[of h node m parts kw RETRY_ATTEMPTS] by (simp add: api_call_def)

lemma api_call_sends:
  assumes "\<And>parts r. split_api_path path = Inr parts \<Longrightarrow> Q \<lparr>sn_method = m, sn_parts = parts, sn_kwargs = kw, sn_reply = r\<rparr>"
  shows "sends_only Q (api_call (logged h) node m path kw)"
proof (cases "split_api_path path")
  case (Inl p)
  then show ?thesis by (simp add: api_call_def sends_return)
next
  case (Inr parts)
  show ?thesis
  proof (rule adds_mono[OF api_call_adds[OF Inr]])
    fix l assume l: "one_call m parts kw l"
    have "Q x" if "x \<in> set l" for x
    proof -
      have "x = \<lparr>sn_method = m, sn_parts = parts, sn_kwargs = kw, sn_reply = sn_reply x\<rparr>"
        using l that unfolding one_call_def by simp
      then show ?thesis using assms[OF Inr] by metis
    qed
    then show "list_all Q l" by (simp add: list_all_iff)
  qed
qed

lemma pve_call_sends [sends]:
  assumes "\<And>parts r. split_api_path path = Inr parts \<Longrightarrow> Q \<lparr>sn_method = m, sn_parts = parts, sn_kwargs = kw, sn_reply = r\<rparr>"
  shows "sends_only Q (pve_call m (logged h) node path kw)"
proof -
  have "sends_only Q (api_call (logged h) node m path kw)" by (rule api_call_sends) (rule assms)
  then show ?thesis by (simp add: pve_call_def sends_raise)
qed

text \<open>
  C19: A request that changes something is never sent twice unless the first try provably never left:
  whatever the node answers, a POST, PUT or DELETE call makes at most two tries, all for the very same
  request, and whenever there is a second one the first ended in a failure to connect.  A request whose
  path has an illegal segment is not sent at all.
\<close>

theorem write_is_not_repeated:
  assumes "m \<noteq> Get"
  shows "\<exists>l. log_of (snd (api_call (logged h) node m path kw s)) = log_of s @ l \<and>
     (case split_api_path path of
        Inl bad \<Rightarrow> l = []
      | Inr parts \<Rightarrow> (\<forall>x \<in> set l. sn_method x = m \<and> sn_parts x = parts \<and> sn_kwargs x = kw) \<and> length l \<le> 2 \<and>
          (\<forall>x \<in> set (butlast l). \<exists>e. sn_reply x = Net_failed e \<and> never_sent e))"
proof (cases "split_api_path path")
  case (Inl p)
  then show ?thesis by (simp add: api_call_def preturn_def)
next
  case (Inr parts)
  then show ?thesis
    using api_call_adds[OF Inr, of m kw h node] assms unfolding adds_def one_call_def RETRY_ATTEMPTS_def by simp
qed

text \<open>A node whose first answer times out after the request went out.\<close>

definition slow_node :: "(unit, nat) pve_host" where
  "slow_node = \<lparr>ph_config = undefined, ph_connect = (\<lambda>_ _ _ _ _ w. (Returned (), w)), ph_trust = (\<lambda>_ _ w. (Returned (), w)),
     ph_send = (\<lambda>_ _ _ _ w. (Net_failed \<lparr>ne_connect_timeout = False, ne_timeout = True, ne_reason = None, ne_text = ''timeout''\<rparr>, Suc w))\<rparr>"

lemma write_is_not_repeated_witness:
  "\<exists>l. log_of (snd (api_call (logged slow_node) ''n'' Post ''nodes/n/vzdump'' [] \<lparr>pv_cache = [(''n'', ())], pv_world = (0, [])\<rparr>)) = l
     \<and> length l = 1"
proof -
  let ?s = "\<lparr>pv_cache = [(''n'', ())], pv_world = (0, [])\<rparr> :: (unit, nat \<times> sent list) pve_state"
  have path: "split_api_path ''nodes/n/vzdump'' = Inr [''nodes'', ''n'', ''vzdump'']" by code_simp
  obtain l where l: "log_of (snd (api_call (logged slow_node) ''n'' Post ''nodes/n/vzdump'' [] ?s)) = log_of ?s @ l" "length l \<le> 2"
      "\<forall>x \<in> set (butlast l). \<exists>e. sn_reply x = Net_failed e \<and> never_sent e"
    using write_is_not_repeated[of Post slow_node "''n''" "''nodes/n/vzdump''" "[]" ?s] path by auto
  have "length (log_of (snd (api_call (logged slow_node) ''n'' Post ''nodes/n/vzdump'' [] ?s))) = 1"
    by (simp add: api_call_def path RETRY_ATTEMPTS_def numeral_2_eq_2 api_attempt_def pve_connection_def pbind_def logged_def slow_node_def
        never_sent_def drop_connection_def log_of_def Let_def)
  then show ?thesis using l by (simp add: log_of_def)
qed

end
