(* ===== verification/Pve_Props.thy ===== *)
theory Pve_Props
  imports Pve_Vms Pve_Log Chat_Gate
begin

text \<open>
  What the tools over guests may ask of Proxmox, together with the approval gate of the chat: the
  calls that need no approval, dry runs, and the bounds of an action on many guests.
\<close>

subsection \<open>Where a path leads\<close>

lemma split_api_path_tail:
  assumes "split_api_path (a @ ''/'' @ rest) = Inr parts" "a \<noteq> []" "hd a \<noteq> CHR ''/''" "rest \<noteq> []" "last rest \<noteq> CHR ''/''"
  shows "\<exists>pre. parts = pre @ split_on CHR ''/'' rest"
proof -
  let ?p = "a @ ''/'' @ rest"
  have "lstrip (\<lambda>c. c = CHR ''/'') ?p = ?p" using assms(2,3) by (intro lstrip_id) auto
  moreover have "rstrip (\<lambda>c. c = CHR ''/'') ?p = ?p" using assms(4,5) by (intro rstrip_id) auto
  ultimately have "parts = split_on CHR ''/'' ?p"
    using assms(1) by (auto simp: split_api_path_def Let_def split: option.splits)
  then show ?thesis using split_on_append_general[of "CHR ''/''" a rest] by auto
qed

lemma vm_path_tail:
  assumes "split_api_path (vm_path node ty vmid rest) = Inr parts" "rest \<noteq> []" "last rest \<noteq> CHR ''/''"
  shows "\<exists>pre. parts = pre @ split_on CHR ''/'' rest"
proof (rule split_api_path_tail)
  show "split_api_path ((''nodes/'' @ node @ ''/'' @ ty @ ''/'' @ show_signed vmid) @ ''/'' @ rest) = Inr parts"
    using assms(1) by (simp add: vm_path_def)
qed (use assms in simp_all)

subsection \<open>Tool calls by name\<close>

text \<open>The arguments of a call, decoded to the types the tools declare.\<close>

definition arg_str :: "(string, pyval) dict \<Rightarrow> string \<Rightarrow> string option \<Rightarrow> string option" where
  "arg_str d k dflt = (case dget d k of None \<Rightarrow> dflt | Some v \<Rightarrow> (case v of PStr s \<Rightarrow> Some s | _ \<Rightarrow> None))"

definition arg_int :: "(string, pyval) dict \<Rightarrow> string \<Rightarrow> int option" where
  "arg_int d k = (case dget d k of Some (PInt n) \<Rightarrow> Some n | _ \<Rightarrow> None)"

definition arg_bool :: "(string, pyval) dict \<Rightarrow> string \<Rightarrow> bool option" where
  "arg_bool d k = (case dget d k of None \<Rightarrow> Some False | Some v \<Rightarrow> (case v of PBool b \<Rightarrow> Some b | _ \<Rightarrow> None))"

definition arg_dict :: "(string, pyval) dict \<Rightarrow> string \<Rightarrow> kwargs option option" where
  "arg_dict d k = (case dget d k of None \<Rightarrow> Some None
     | Some v \<Rightarrow> (case v of PNone \<Rightarrow> Some None | PDict kw \<Rightarrow> Some (Some kw) | _ \<Rightarrow> None))"

definition arg_fields :: "(string, pyval) dict \<Rightarrow> string list option" where
  "arg_fields d = (case dget d ''fields'' of Some (PList vs) \<Rightarrow> Some [s. PStr s \<leftarrow> vs] | _ \<Rightarrow> None)"

text \<open>The tools of \<open>vms.py\<close> that name a guest; None: another tool, or arguments that do not decode.\<close>

definition vm_tool :: "('c, 'w) pve_host \<Rightarrow> string \<Rightarrow> (string, pyval) dict \<Rightarrow> ('c, 'w, pyval) pve option" where
  "vm_tool h name d =
     Option.bind (arg_str d ''node'' None) (\<lambda>node. Option.bind (arg_int d ''vmid'') (\<lambda>vmid.
       if name = ''proxmox_vm_start'' then Some (vm_start h node vmid)
       else if name = ''proxmox_vm_stop'' then map_option (vm_stop h node vmid) (arg_bool d ''force'')
       else if name = ''proxmox_vm_restart'' then Some (vm_restart h node vmid)
       else if name = ''proxmox_vm_create'' then
         Option.bind (arg_str d ''vm_type'' (Some ''qemu'')) (\<lambda>t. map_option (vm_create h node vmid t) (arg_dict d ''config''))
       else if name = ''proxmox_vm_clone'' then
         Option.bind (arg_int d ''newid'') (\<lambda>n. map_option (vm_clone h node vmid n) (arg_str d ''name'' (Some [])))
       else if name = ''proxmox_vm_migrate'' then map_option (vm_migrate h node vmid) (arg_str d ''target_node'' None)
       else if name = ''proxmox_vm_config'' then map_option (\<lambda>u. vm_config h node vmid u (arg_fields d)) (arg_dict d ''updates'')
       else if name = ''proxmox_snapshot_list'' then Some (snapshot_list h node vmid)
       else if name = ''proxmox_snapshot_create'' then
         Option.bind (arg_str d ''snapname'' None) (\<lambda>n. Option.bind (arg_str d ''description'' (Some [])) (\<lambda>t.
           Option.bind (arg_bool d ''vmstate'') (\<lambda>b. map_option (snapshot_create h node vmid n t b) (arg_bool d ''dry_run''))))
       else if name = ''proxmox_snapshot_rollback'' then
         Option.bind (arg_str d ''snapname'' None) (\<lambda>n. map_option (snapshot_rollback h node vmid n) (arg_bool d ''dry_run''))
       else if name = ''proxmox_snapshot_delete'' then
         Option.bind (arg_str d ''snapname'' None) (\<lambda>n. map_option (snapshot_delete h node vmid n) (arg_bool d ''dry_run''))
       else if name = ''proxmox_backup_create'' then
         Option.bind (arg_str d ''storage'' None) (\<lambda>st. Option.bind (arg_str d ''mode'' (Some ''snapshot'')) (\<lambda>mo.
           Option.bind (arg_str d ''compress'' (Some ''zstd'')) (\<lambda>co.
             map_option (backup_create h node vmid st mo co) (arg_str d ''notes'' (Some [])))))
       else if name = ''proxmox_backup_restore'' then
         Option.bind (arg_str d ''archive'' None) (\<lambda>a. Option.bind (arg_bool d ''force'') (\<lambda>f.
           map_option (backup_restore h node vmid a f) (arg_str d ''storage'' (Some ''local-lvm''))))
       else None))"

subsection \<open>What the tools send\<close>

definition is_read :: "sent \<Rightarrow> bool" where
  "is_read x \<longleftrightarrow> sn_method x = Get"

lemma detect_among_reads: "sends_only is_read (detect_among (logged h) node vmid ts)"
  by (induction ts) (auto simp: is_read_def intro!: sends)

lemma detect_vm_type_reads: "sends_only is_read (detect_vm_type (logged h) node vmid)"
  unfolding detect_vm_type_def detect_guest_def by (intro sends detect_among_reads) simp

lemma sends_mono: "sends_only P m \<Longrightarrow> (\<And>x. P x \<Longrightarrow> Q x) \<Longrightarrow> sends_only Q m"
  by (erule adds_mono, erule list.pred_mono_strong) blast

lemma on_guest_sends:
  assumes "\<And>x. is_read x \<Longrightarrow> Q x" "\<And>ty. sends_only Q (k ty)"
  shows "sends_only Q (on_guest (logged h) node vmid k)"
  unfolding on_guest_def
proof (rule sends_bind)
  show "sends_only Q (detect_vm_type (logged h) node vmid)" by (rule sends_mono[OF detect_vm_type_reads assms(1)])
  show "sends_only Q (case t of None \<Rightarrow> preturn (error_result (no_guest_text vmid node)) | Some ty \<Rightarrow> k ty)" for t
    using assms(2) by (cases t) (auto intro: sends)
qed

lemma answer_sends: "sends_only Q m \<Longrightarrow> sends_only Q (answer m f)"
  unfolding answer_def by (intro sends) simp_all

text \<open>
  The requests a call may make without anyone's approval: reads, starting a guest, taking a
  snapshot, creating a guest without any configuration, and an empty configuration change.
\<close>

definition harmless :: "sent \<Rightarrow> bool" where
  "harmless x \<longleftrightarrow>
     is_read x
   \<or> sn_method x = Post \<and> (\<exists>pre. sn_parts x = pre @ [''status'', ''start''])
   \<or> sn_method x = Post \<and> (\<exists>pre. sn_parts x = pre @ [''snapshot''])
   \<or> sn_method x = Post \<and> (\<exists>pre v. sn_parts x \<in> {pre @ [''qemu''], pre @ [''lxc'']} \<and> sn_kwargs x = [(''vmid'', PInt v)])
   \<or> sn_method x = Put \<and> (\<exists>pre. sn_parts x = pre @ [''config'']) \<and> sn_kwargs x = []"

lemma vm_start_harmless: "sends_only harmless (vm_start (logged h) node vmid)"
  unfolding vm_start_def
proof (intro on_guest_sends answer_sends pve_call_sends)
  fix ty parts r assume "split_api_path (vm_path node ty vmid ''status/start'') = Inr parts"
  from vm_path_tail[OF this] show "harmless \<lparr>sn_method = Post, sn_parts = parts, sn_kwargs = [], sn_reply = r\<rparr>"
    by (simp add: harmless_def)
qed (simp add: harmless_def)

lemma snapshot_create_harmless: "sends_only harmless (snapshot_create (logged h) node vmid n t b dry)"
proof -
  have post: "sends_only harmless (answer (pve_post (logged h) node (vm_path node ty vmid ''snapshot'') kw) f)" for ty kw f
  proof (intro answer_sends pve_call_sends)
    fix parts r assume "split_api_path (vm_path node ty vmid ''snapshot'') = Inr parts"
    from vm_path_tail[OF this] show "harmless \<lparr>sn_method = Post, sn_parts = parts, sn_kwargs = kw, sn_reply = r\<rparr>"
      by (simp add: harmless_def)
  qed
  show ?thesis unfolding snapshot_create_def Let_def
    by (intro on_guest_sends sends post) (auto simp: harmless_def is_read_def)
qed

lemma vm_create_harmless:
  assumes "case config of Some kw \<Rightarrow> kw = [] | None \<Rightarrow> True"
  shows "sends_only harmless (vm_create (logged h) node vmid ty config)"
proof -
  have post: "sends_only harmless (answer (pve_post (logged h) node (''nodes/'' @ node @ ''/'' @ ty) [(''vmid'', PInt vmid)]) f)"
    if ty: "ty \<in> {''qemu'', ''lxc''}" for f
  proof (intro answer_sends pve_call_sends)
    fix parts r assume p: "split_api_path (''nodes/'' @ node @ ''/'' @ ty) = Inr parts"
    have "\<exists>pre. parts = pre @ split_on CHR ''/'' ty"
      using ty p by (intro split_api_path_tail[of "''nodes/'' @ node" ty]) auto
    then show "harmless \<lparr>sn_method = Post, sn_parts = parts, sn_kwargs = [(''vmid'', PInt vmid)], sn_reply = r\<rparr>"
      using ty by (auto simp: harmless_def)
  qed
  have params: "(case config of None \<Rightarrow> [] | Some d \<Rightarrow> d) = []" using assms by (cases config) auto
  show ?thesis
  proof (cases "ty \<in> {''qemu'', ''lxc''}")
    case True
    then have "vm_create (logged h) node vmid ty config = answer (pve_post (logged h) node (''nodes/'' @ node @ ''/'' @ ty) [(''vmid'', PInt vmid)])
        (\<lambda>r. [(''vmid'', PInt vmid), (''node'', PStr node), (''type'', PStr ty), (''action'', PStr ''create''), (''upid'', r)])"
      by (simp add: vm_create_def params Let_def)
    then show ?thesis using post[OF True] by simp
  qed (auto simp: vm_create_def intro!: sends)
qed

lemma vm_config_harmless:
  assumes "case updates of Some kw \<Rightarrow> kw = [] | None \<Rightarrow> True"
  shows "sends_only harmless (vm_config (logged h) node vmid updates wanted)"
  unfolding vm_config_def
proof (rule on_guest_sends)
  show "sends_only harmless (case updates of
        None \<Rightarrow> answer (pve_get (logged h) node (vm_path node ty vmid ''config'') [])
          (\<lambda>d. [(''vmid'', PInt vmid), (''node'', PStr node), (''type'', PStr ty), (''config'', filter_fields d wanted)])
      | Some kw \<Rightarrow> answer (pve_put (logged h) node (vm_path node ty vmid ''config'') kw)
          (\<lambda>d. [(''vmid'', PInt vmid), (''node'', PStr node), (''action'', PStr ''config_update''), (''applied'', PDict kw)]))" for ty
  proof (cases updates)
    case None
    then show ?thesis by (auto intro!: answer_sends pve_call_sends simp: harmless_def is_read_def)
  next
    case (Some kw)
    have "sends_only harmless (answer (pve_put (logged h) node (vm_path node ty vmid ''config'') []) f)" for f
    proof (intro answer_sends pve_call_sends)
      fix parts r assume "split_api_path (vm_path node ty vmid ''config'') = Inr parts"
      from vm_path_tail[OF this] show "harmless \<lparr>sn_method = Put, sn_parts = parts, sn_kwargs = [], sn_reply = r\<rparr>"
        by (simp add: harmless_def)
    qed
    then show ?thesis using Some assms by simp
  qed
qed (simp add: harmless_def)

lemma snapshot_list_reads: "sends_only harmless (snapshot_list (logged h) node vmid)"
  unfolding snapshot_list_def by (intro on_guest_sends answer_sends pve_call_sends) (auto simp: harmless_def is_read_def)

lemma no_dict_arg:
  "\<not> truth (dict_arg (PDict d) key) \<Longrightarrow> arg_dict d key = Some c \<Longrightarrow> case c of Some kw \<Rightarrow> kw = [] | None \<Rightarrow> True"
  by (auto simp: arg_dict_def dict_arg_def split: option.splits pyval.splits)

lemma dry_run_given: "dict_arg (PDict d) key = PBool True \<Longrightarrow> arg_bool d key = Some True"
  by (auto simp: dict_arg_def arg_bool_def split: option.splits)

lemmas gate_defs = requires_confirmation_def CONFIRM_WHEN_ARG_PRESENT_def NEEDS_CONFIRMATION_def DRY_RUN_AWARE_def is_dict_def

text \<open>
  What the model may do to a guest without anyone's approval: whenever the chat's gate lets a
  tool call through (of all the tools that name a guest, with any arguments the tool accepts), the
  requests it makes of Proxmox are reads, the start of a guest, a new snapshot, the creation of a
  guest without configuration, or a configuration change that changes nothing.
\<close>

theorem ungated_guest_calls_are_harmless:
  assumes call: "vm_tool (logged h) name d = Some m"
    and ungated: "\<not> requires_confirmation name (PDict d)"
  shows "sends_only harmless m"
proof -
  obtain node vmid where nv: "arg_str d ''node'' None = Some node" "arg_int d ''vmid'' = Some vmid"
    using call by (auto simp: vm_tool_def bind_eq_Some_conv)
  consider "name \<in> {''proxmox_vm_start'', ''proxmox_snapshot_list'', ''proxmox_snapshot_create''}"
    | "name = ''proxmox_vm_create''" | "name = ''proxmox_vm_config''"
    | "name \<in> {''proxmox_vm_stop'', ''proxmox_vm_restart'', ''proxmox_vm_clone'', ''proxmox_vm_migrate'',
         ''proxmox_backup_create'', ''proxmox_backup_restore''}"
    | "name \<in> {''proxmox_snapshot_rollback'', ''proxmox_snapshot_delete''}"
    using call nv by (auto simp: vm_tool_def split: if_splits)
  then show ?thesis
  proof cases
    case 1
    then show ?thesis
      using call nv vm_start_harmless snapshot_list_reads snapshot_create_harmless by (auto simp: vm_tool_def bind_eq_Some_conv)
  next
    case 2
    then obtain t config where m: "arg_dict d ''config'' = Some config" "m = vm_create (logged h) node vmid t config"
      using call nv by (auto simp: vm_tool_def bind_eq_Some_conv)
    moreover have "\<not> truth (dict_arg (PDict d) ''config'')" using ungated 2 by (simp add: gate_defs)
    ultimately show ?thesis using vm_create_harmless no_dict_arg by blast
  next
    case 3
    then obtain updates where m: "arg_dict d ''updates'' = Some updates" "m = vm_config (logged h) node vmid updates (arg_fields d)"
      using call nv by (auto simp: vm_tool_def)
    moreover have "\<not> truth (dict_arg (PDict d) ''updates'')" using ungated 3 by (simp add: gate_defs)
    ultimately show ?thesis using vm_config_harmless no_dict_arg by blast
  next
    case 4
    then show ?thesis using ungated by (auto simp: gate_defs)
  next
    case 5
    then have "arg_bool d ''dry_run'' = Some True" using ungated by (intro dry_run_given) (auto simp: gate_defs split: if_splits)
    then have "\<exists>v. m = preturn v"
      using call nv 5 by (auto simp: vm_tool_def bind_eq_Some_conv snapshot_rollback_def snapshot_delete_def)
    then show ?thesis by (auto intro: sends_return)
  qed
qed

lemma ungated_guest_calls_are_harmless_witness:
  "sends_only harmless (vm_config (logged slow_node) ''n'' 100 None None)"
  by (rule ungated_guest_calls_are_harmless[of slow_node "''proxmox_vm_config''" "[(''node'', PStr ''n''), (''vmid'', PInt 100)]"])
    (simp_all add: vm_tool_def arg_str_def arg_int_def arg_dict_def arg_fields_def requires_confirmation_def
      CONFIRM_WHEN_ARG_PRESENT_def dict_arg_def)

subsection \<open>Many guests at once\<close>

text \<open>A change that may have reached a node.\<close>

definition reached :: "sent \<Rightarrow> bool" where
  "reached x \<longleftrightarrow> sn_method x \<noteq> Get \<and> \<not> (\<exists>e. sn_reply x = Net_failed e \<and> never_sent e)"

definition bulk_request :: "string \<Rightarrow> sent \<Rightarrow> bool" where
  "bulk_request action x \<longleftrightarrow> is_read x \<or> sn_method x = Post \<and> (\<exists>pre. sn_parts x = pre @ [''status'', action])"

definition bulk_log :: "string \<Rightarrow> nat \<Rightarrow> sent list \<Rightarrow> bool" where
  "bulk_log action n l \<longleftrightarrow> length [x \<leftarrow> l. reached x] \<le> n \<and> list_all (bulk_request action) l"

lemma bulk_log_append: "bulk_log a n l \<Longrightarrow> bulk_log a k l' \<Longrightarrow> bulk_log a (n + k) (l @ l')"
  by (auto simp: bulk_log_def)

lemma reads_bulk_log: "list_all is_read l \<Longrightarrow> bulk_log a n l"
  by (induction l) (auto simp: bulk_log_def bulk_request_def is_read_def reached_def)

lemma find_vm_location_reads: "sends_only is_read (find_vm_location (logged h) vmid ns)"
proof (induction ns)
  case (Cons n ns)
  have "sends_only is_read (case t of Some ty \<Rightarrow> preturn (Some (n, ty)) | None \<Rightarrow> find_vm_location (logged h) vmid ns)" for t
    using Cons by (cases t) (auto intro: sends_return)
  then show ?case unfolding find_vm_location.simps by (intro sends_bind detect_vm_type_reads) simp
qed (simp add: sends_return)

lemma one_call_reached: "one_call Post parts kw l \<Longrightarrow> length [x \<leftarrow> l. reached x] \<le> 1"
proof (cases l rule: rev_cases)
  case (snoc k x)
  assume "one_call Post parts kw l"
  then have "\<forall>y \<in> set k. \<not> reached y" using snoc by (auto simp: one_call_def reached_def)
  then show ?thesis using snoc by simp
qed simp

lemma bulk_post:
  assumes "CHR ''/'' \<notin> set action" "action \<noteq> []"
  shows "adds (bulk_log action 1) (pve_post (logged h) n (vm_path n ty vmid (''status/'' @ action)) kw)"
proof (cases "split_api_path (vm_path n ty vmid (''status/'' @ action))")
  case (Inl p)
  have "bulk_log action 1 []" by (simp add: bulk_log_def)
  then show ?thesis using Inl by (simp add: pve_call_def api_call_def adds_return adds_raise)
next
  case (Inr parts)
  have "last action \<noteq> CHR ''/''" using assms by (metis last_in_set)
  then obtain pre where "parts = pre @ split_on CHR ''/'' (''status/'' @ action)"
    using vm_path_tail[OF Inr] assms(2) by auto
  moreover have "split_on CHR ''/'' action = [action]" using assms(1) by (induction action) auto
  ultimately have parts: "parts = pre @ [''status'', action]" by simp
  have "adds (bulk_log action 1) (api_call (logged h) n Post (vm_path n ty vmid (''status/'' @ action)) kw)"
  proof (rule adds_mono[OF api_call_adds[OF Inr]])
    fix l assume l: "one_call Post parts kw l"
    then have "list_all (bulk_request action) l" using parts by (auto simp: one_call_def bulk_request_def list_all_iff)
    then show "bulk_log action 1 l" using one_call_reached[OF l] by (simp add: bulk_log_def)
  qed
  moreover have "bulk_log action 1 []" by (simp add: bulk_log_def)
  ultimately show ?thesis unfolding pve_call_def by (simp only: adds_raise split: if_split) simp
qed

lemma bulk_one_adds:
  assumes "CHR ''/'' \<notin> set action" "action \<noteq> []"
  shows "adds (bulk_log action 1) (bulk_one (logged h) action force vmid)"
  unfolding bulk_one_def
proof (rule adds_bind[OF find_vm_location_reads, where Q = "bulk_log action 1"])
  show "bulk_log action 1 l" if "list_all is_read l" for l using reads_bulk_log that .
  show "bulk_log action 1 (l @ k)" if "list_all is_read l" "bulk_log action 1 k" for l k
    using bulk_log_append[OF reads_bulk_log[OF that(1), of action 0] that(2)] by simp
  have none: "adds (bulk_log action 1) (preturn v)" for v by (rule adds_return) (simp add: bulk_log_def)
  have "adds (bulk_log action 1) (pbind (pve_post (logged h) n (vm_path n ty vmid (''status/'' @ action)) kw) (\<lambda>r. preturn (f r)))" for n ty kw f
  proof (rule adds_bind[OF bulk_post[OF assms]])
    show "adds (\<lambda>l. l = []) (preturn (f x))" for x by (rule adds_return) simp
  qed auto
  then show "adds (bulk_log action 1) (case loc of
          None \<Rightarrow> preturn (PDict [(''vmid'', PInt vmid), (''error'', PStr ''not found'')])
        | Some (n, ty) \<Rightarrow>
            pbind (pve_post (logged h) n (vm_path n ty vmid (''status/'' @ action))
                     (if action \<in> {''stop'', ''restart''} \<and> force then [(''forceStop'', PInt 1)] else []))
              (\<lambda>r. preturn (PDict (if has_error r
                 then [(''vmid'', PInt vmid), (''node'', PStr n), (''error'', get_or r ''error'' PNone)]
                 else [(''vmid'', PInt vmid), (''node'', PStr n), (''type'', PStr ty),
                       (''upid'', case r of PStr u \<Rightarrow> PStr u | _ \<Rightarrow> get_or r ''upid'' PNone)]))))" for loc
    using none by (auto split: option.splits)
qed

lemma pmap_adds: "(\<And>x. adds (bulk_log a 1) (f x)) \<Longrightarrow> adds (bulk_log a (length xs)) (pmap f xs)"
proof (induction xs)
  case Nil
  show ?case by (simp add: adds_return bulk_log_def)
next
  case (Cons x xs)
  have rest: "adds (bulk_log a (length xs)) (pbind (pmap f xs) (\<lambda>ys. preturn (y # ys)))" for y
    by (rule adds_bind[OF Cons.IH[OF Cons.prems] adds_return[where P = "\<lambda>l. l = []"]]) auto
  show ?case unfolding pmap.simps
  proof (rule adds_bind[OF Cons.prems rest])
    show "bulk_log a (length (x # xs)) l" if "bulk_log a 1 l" for l using that by (auto simp: bulk_log_def)
    show "bulk_log a (length (x # xs)) (l @ k)" if "bulk_log a 1 l" "bulk_log a (length xs) k" for l k
      using bulk_log_append[OF that] by simp
  qed
qed

lemma first_of_each_set: "set (first_of_each seen vs) = set vs - set seen \<and> distinct (first_of_each seen vs)"
  by (induction vs arbitrary: seen) auto

lemma length_first_of_each: "length (first_of_each [] vs) = card (set vs)"
  using first_of_each_set[of "[]" vs] distinct_card by force

text \<open>
  An action on many guests is bounded: an unknown action or a list of more than 50 sends nothing
  at all, and otherwise at most one change reaches the cluster for each guest named, repetitions
  counted once, and every change is that action's request to some guest; all else are reads.
\<close>

theorem bulk_action_is_bounded:
  "adds (\<lambda>l. if 50 < length vmids \<or> action \<notin> {''start'', ''stop'', ''restart''} then l = []
             else length [x \<leftarrow> l. reached x] \<le> card (set vmids) \<and> list_all (bulk_request action) l)
     (vm_bulk_action (logged h) vmids action force)"
proof (cases "50 < length vmids \<or> action \<notin> {''start'', ''stop'', ''restart''}")
  case True
  then have "\<exists>v. vm_bulk_action (logged h) vmids action force = preturn v"
    by (auto simp: vm_bulk_action_def valid_actions_def MAX_BULK_def)
  then show ?thesis using True by (auto intro: adds_return)
next
  case False
  then have action: "CHR ''/'' \<notin> set action" "action \<noteq> []" "action \<in> set valid_actions" "\<not> MAX_BULK < length vmids"
    by (auto simp: valid_actions_def MAX_BULK_def)
  have "adds (bulk_log action (card (set vmids))) (pbind (pmap (bulk_one (logged h) action force) (first_of_each [] vmids)) (\<lambda>rs. preturn (g rs)))" for g
    unfolding length_first_of_each[symmetric]
    by (rule adds_bind[OF pmap_adds[OF bulk_one_adds[OF action(1,2)]] adds_return[where P = "\<lambda>l. l = []"]]) auto
  then have "adds (bulk_log action (card (set vmids))) (vm_bulk_action (logged h) vmids action force)"
    using action(3,4) unfolding vm_bulk_action_def by simp
  moreover have "(if 50 < length vmids \<or> action \<notin> {''start'', ''stop'', ''restart''} then l = []
      else length [x \<leftarrow> l. reached x] \<le> card (set vmids) \<and> list_all (bulk_request action) l)"
    if "bulk_log action (card (set vmids)) l" for l
    using that unfolding bulk_log_def if_not_P[OF False] .
  ultimately show ?thesis by (rule adds_mono)
qed

subsection \<open>Limits of the path check\<close>

text \<open>
  The check sees the finished path, not the values in it: a snapshot name with a slash adds segments,
  an empty one leads to the collection of all snapshots, and a newline at the end of a segment passes.
\<close>

lemma name_with_slash_adds_segments:
  "split_api_path (vm_path ''pve1'' ''qemu'' 100 (''snapshot/'' @ ''a/config''))
     = Inr [''nodes'', ''pve1'', ''qemu'', ''100'', ''snapshot'', ''a'', ''config'']"
  by code_simp

lemma empty_name_is_the_collection:
  "split_api_path (vm_path ''pve1'' ''qemu'' 100 (''snapshot/'' @ [])) = Inr [''nodes'', ''pve1'', ''qemu'', ''100'', ''snapshot'']"
  by code_simp

lemma final_newline_passes: "safe_segment (''snap'' @ [CHR 0x0A])"
  by code_simp

end
