(* ===== verification/Guest_Exec_Props.thy ===== *)
theory Guest_Exec_Props
  imports Guest_Exec Pve_Props
begin

text \<open>
  What \<open>proxmox_run\<close> promises: the container's shell gets the caller's command as one argument, the
  tool returns, its polling form runs nothing, and a session that has ended stays as it is.
\<close>

subsection \<open>The command line of a container\<close>

text \<open>
  C20: A command for a container reaches the container's shell as one argument, whatever characters
  it holds: the line built for the node's own shell expands, chains and redirects nothing, and reads
  as exactly the words \<open>pct exec <vmid> -- sh -c <command>\<close>.
\<close>

theorem guest_command_is_one_argument:
  "sh_words (lxc_command vmid command) = Some [''pct'', ''exec'', show_signed vmid, ''--'', ''sh'', ''-c'', command]"
proof -
  have safe: "list_all sh_safe ''pct''" "list_all sh_safe ''exec''" "list_all sh_safe ''--''" "list_all sh_safe ''sh''" "list_all sh_safe ''-c''"
    by code_simp+
  have "lxc_command vmid command = ''pct'' @ CHR '' '' # ''exec'' @ CHR '' '' # show_signed vmid @ CHR '' '' # ''--'' @ CHR '' '' #
      ''sh'' @ CHR '' '' # ''-c'' @ CHR '' '' # shlex_quote command"
    by (simp add: lxc_command_def)
  then show ?thesis
    by (simp only: sh_words_word[OF safe(1)] sh_words_word[OF safe(2)] sh_words_word[OF safe(3)] sh_words_word[OF safe(4)]
        sh_words_word[OF safe(5)] sh_words_word[OF show_signed_safe] sh_words_quote list.distinct not_False_eq_True option.map simp_thms)
qed

subsection \<open>The loops end\<close>

lemma wait_qemu_returns: "deadline \<le> clk (3 * n) \<Longrightarrow> i \<le> n \<Longrightarrow> \<exists>r. wait_qemu e xid deadline clk i s = Some r"
proof (induction "n - i" arbitrary: i s)
  case 0
  then have "\<not> clk (3 * i) < deadline" by simp
  then show ?case by (subst wait_qemu.simps) (auto split: option.splits)
next
  case (Suc d)
  have next_round: "\<exists>r. wait_qemu e xid deadline clk (i + 1) s1 = Some r" for s1
    using Suc.hyps(1)[of "i + 1" s1] Suc.hyps(2) Suc.prems by simp
  show ?case
    by (subst wait_qemu.simps) (use next_round in \<open>auto split: option.splits prod.splits sum.splits\<close>)
qed

lemma wait_lxc_returns: "deadline \<le> clk (3 * n) \<Longrightarrow> i \<le> n \<Longrightarrow> \<exists>r. wait_lxc look ssh xid deadline clk i = Some r"
proof (induction "n - i" arbitrary: i)
  case 0
  then have "\<not> clk (3 * i) < deadline" by simp
  then show ?case by (subst wait_lxc.simps) (auto split: option.splits)
next
  case (Suc d)
  have next_round: "\<exists>r. wait_lxc look ssh xid deadline clk (i + 1) = Some r"
    using Suc.hyps(1)[of "i + 1"] Suc.hyps(2) Suc.prems by simp
  show ?case
    by (subst wait_lxc.simps) (use next_round in \<open>auto split: option.splits\<close>)
qed

text \<open>
  C21: \<open>proxmox_run\<close> returns: if the clock passes ten minutes and a second after the start at some look
  of its loop, the call ends with a result or an exception, whatever timeout was asked for, whatever
  the guest, the node and the SSH client do.
\<close>

theorem proxmox_run_returns:
  assumes "1 \<le> n" "clk 2 + 600 \<le> clk (3 * n)"
  shows "\<exists>r. proxmox_run e node vmid command timeout wait exec_id new_id clk s = Some r"
proof -
  have deadline: "clk 2 + of_int (min (max timeout 1) 600) \<le> clk (3 * n)"
  proof -
    have "(of_int (min (max timeout 1) 600) :: real) \<le> 600" by (simp add: min_def)
    then show ?thesis using assms(2) by linarith
  qed
  have qemu: "\<exists>r. run_qemu e node vmid command (min (max timeout 1) 600) wait new_id clk s1 = Some r" for s1
    using wait_qemu_returns[of "clk 2 + of_int (min (max timeout 1) 600)" clk n 1] deadline assms(1)
    by (auto simp: run_qemu_def split: prod.splits sum.splits)
  have lxc: "\<exists>r. run_lxc e node vmid command (min (max timeout 1) 600) wait clk s1 = Some r" for s1
    using wait_lxc_returns[of "clk 2 + of_int (min (max timeout 1) 600)" clk n 1] deadline assms(1)
    by (auto simp: run_lxc_def Let_def split: prod.splits sum.splits)
  show ?thesis
    using qemu lxc by (auto simp: proxmox_run_def Let_def split: prod.splits sum.splits option.splits)
qed

definition sample_guest_env :: "(unit, nat, unit) guest_env" where
  "sample_guest_env = \<lparr>ge_host = slow_node, ge_decode = Inr, ge_ssh = False, ge_ssh_start = (\<lambda>_ _ s. (Inl [], s)),
     ge_ssh_session = (\<lambda>_ _ _. None)\<rparr>"

lemma proxmox_run_returns_witness:
  "\<exists>r. proxmox_run sample_guest_env ''n'' 100 ''uptime'' 60 True [] ''x'' (\<lambda>i. real i)
     \<lparr>gs_sessions = [], gs_pve = \<lparr>pv_cache = [(''n'', ())], pv_world = 0\<rparr>, gs_ssh = ()\<rparr> = Some r"
  by (rule proxmox_run_returns[of 201]) simp_all

subsection \<open>Polling\<close>

lemma exited_session_keeps:
  "exited_session e st x = Inr y \<Longrightarrow> gx_started_at y = gx_started_at x \<and> gx_command y = gx_command x \<and> gx_exec_id y = gx_exec_id x
     \<and> gx_node y = gx_node x \<and> gx_vmid y = gx_vmid x"
  by (auto simp: exited_session_def split: sum.splits)

lemma refresh_session_keeps:
  "refresh_session e x p = (Inr y, p') \<Longrightarrow> gx_started_at y = gx_started_at x \<and> gx_command y = gx_command x"
  using exited_session_keeps
  by (fastforce simp: refresh_session_def pbind_def preturn_def praise_def plift_def split: prod.splits sum.splits if_splits)

text \<open>The state of the Proxmox client in a state of the tools, for what it sends.\<close>

lemma refresh_session_reads: "ge_host e = logged h \<Longrightarrow> sends_only is_read (refresh_session e x)"
proof -
  assume e: "ge_host e = logged h"
  have "sends_only is_read (plift r)" for r :: "py_raise + guest_session" by (cases r) (auto simp: plift_def intro: sends)
  then show ?thesis unfolding refresh_session_def e by (intro sends) (auto simp: is_read_def)
qed

lemma poll_session_effect:
  assumes e: "ge_host e = logged h" and run: "poll_session e xid t1 t2 s = (r, s')"
  shows "gs_ssh s' = gs_ssh s" "\<exists>l. log_of (gs_pve s') = log_of (gs_pve s) @ l \<and> list_all is_read l"
    "set (dkeys (gs_sessions s')) = set (dkeys (gs_sessions s))"
    "dget (gs_sessions s) xid = Some x \<Longrightarrow> gx_status x \<noteq> G_running \<Longrightarrow> s' = s"
proof -
  have "gs_ssh s' = gs_ssh s \<and> (\<exists>l. log_of (gs_pve s') = log_of (gs_pve s) @ l \<and> list_all is_read l)
      \<and> set (dkeys (gs_sessions s')) = set (dkeys (gs_sessions s))"
  proof (cases "dget (gs_sessions s) xid")
    case None
    then show ?thesis using run by (auto simp: poll_session_def)
  next
    case (Some x)
    then have key: "xid \<in> set (dkeys (gs_sessions s))" by (auto dest!: dget_in intro: rev_image_eqI)
    obtain a p where a: "refresh_session e x (gs_pve s) = (a, p)" by fastforce
    obtain l where l: "log_of p = log_of (gs_pve s) @ l" "list_all is_read l"
      using refresh_session_reads[OF e, of x] a unfolding adds_def by (metis snd_conv)
    show ?thesis
    proof (cases "gx_status x = G_running")
      case False
      then show ?thesis using run Some by (auto simp: poll_session_def)
    next
      case True
      then have s': "gs_ssh s' = gs_ssh s \<and> gs_pve s' = p \<and> (gs_sessions s' = gs_sessions s \<or> (\<exists>z. gs_sessions s' = dset xid z (gs_sessions s)))"
        using run Some a by (auto simp: poll_session_def on_pve_def Let_def split: sum.splits if_splits)
      have same: "set (dkeys (dset xid z (gs_sessions s))) = set (dkeys (gs_sessions s))" for z
        using key by (simp only: keys_dset insert_absorb)
      have "set (dkeys (gs_sessions s')) = set (dkeys (gs_sessions s))" using s' same by metis
      then show ?thesis using l s' by blast
    qed
  qed
  then show "gs_ssh s' = gs_ssh s" "\<exists>l. log_of (gs_pve s') = log_of (gs_pve s) @ l \<and> list_all is_read l"
    "set (dkeys (gs_sessions s')) = set (dkeys (gs_sessions s))" by blast+
  show "dget (gs_sessions s) xid = Some x \<Longrightarrow> gx_status x \<noteq> G_running \<Longrightarrow> s' = s"
    using run by (auto simp: poll_session_def)
qed

text \<open>
  The polling form of \<open>proxmox_run\<close>, which the chat lets through without approval, runs nothing,
  whatever other arguments come with it: it only reads from Proxmox, leaves the SSH client alone,
  neither starts nor forgets a session, and does not touch the session it shows once that has ended.
\<close>

theorem polling_runs_nothing:
  assumes host: "ge_host e = logged h" and poll: "exec_id \<noteq> []"
  shows "\<exists>r s'. proxmox_run e node vmid command timeout wait exec_id new_id clk s = Some (r, s')
     \<and> gs_ssh s' = gs_ssh s
     \<and> (\<exists>l. log_of (gs_pve s') = log_of (gs_pve s) @ l \<and> list_all is_read l)
     \<and> set (dkeys (gs_sessions s')) = set (dkeys (gs_sessions s))
     \<and> (case dget (gs_sessions s) exec_id of Some x \<Rightarrow> gx_status x = G_running \<or> s' = s | None \<Rightarrow> s' = s)"
proof -
  obtain r s' where run: "poll_any e exec_id clk s = (r, s')" by fastforce
  have result: "proxmox_run e node vmid command timeout wait exec_id new_id clk s = Some (r, s')"
    using poll run by (simp add: proxmox_run_def)
  show ?thesis
  proof (cases "exec_id \<in> set (dkeys (gs_sessions s))")
    case True
    then obtain x where x: "dget (gs_sessions s) exec_id = Some x" by (metis map_of_eq_None_iff not_None_eq set_map)
    have p: "poll_session e exec_id (clk 0) (clk 1) s = (r, s')" using run True by (simp add: poll_any_def)
    show ?thesis using result poll_session_effect[OF host p] x by auto
  next
    case False
    then have "s' = s" using run by (auto simp: poll_any_def split: option.splits if_splits)
    moreover have "dget (gs_sessions s) exec_id = None" using False by (simp add: map_of_eq_None_iff)
    ultimately show ?thesis using result by auto
  qed
qed

definition idle_guests :: "(unit, nat \<times> sent list, unit) guest_state" where
  "idle_guests = \<lparr>gs_sessions = [], gs_pve = \<lparr>pv_cache = [], pv_world = (0, [])\<rparr>, gs_ssh = ()\<rparr>"

definition logged_guest_env :: "(unit, nat \<times> sent list, unit) guest_env" where
  "logged_guest_env = \<lparr>ge_host = logged slow_node, ge_decode = Inr, ge_ssh = False, ge_ssh_start = (\<lambda>_ _ s. (Inl [], s)),
     ge_ssh_session = (\<lambda>_ _ _. None)\<rparr>"

lemma polling_runs_nothing_witness:
  "\<exists>r. proxmox_run logged_guest_env ''n'' 100 ''rm -rf /'' 60 True ''0a1b2c3d'' ''x'' (\<lambda>i. real i) idle_guests = Some (r, idle_guests)"
  using polling_runs_nothing[of logged_guest_env slow_node "''0a1b2c3d''" "''n''" 100 "''rm -rf /''" 60 True "''x''" "\<lambda>i. real i" idle_guests]
  by (auto simp: logged_guest_env_def idle_guests_def)

subsection \<open>The ten minutes of a session\<close>

text \<open>
  A poll more than ten minutes after the start ends the session as timed out, even when it is the
  poll that learns that the command finished, with exit code 0 or any other.
\<close>

lemma late_poll_times_out:
  assumes x: "dget (gs_sessions s) xid = Some x" "gx_status x = G_running" and late: "t1 - gx_started_at x > 600"
    and run: "poll_session e xid t1 t2 s = (Inr r, s')"
  shows "get_or r ''status'' PNone = PStr ''timeout'' \<and> (\<exists>z. dget (gs_sessions s') xid = Some z \<and> gx_status z = G_timeout)"
proof -
  obtain y p where y: "refresh_session e x (gs_pve s) = (Inr y, p)"
    using run x by (auto simp: poll_session_def on_pve_def split: prod.splits sum.splits)
  have "t1 - gx_started_at y > 600" using refresh_session_keeps[OF y] late by simp
  then show ?thesis
    using run x y by (auto simp: poll_session_def on_pve_def Let_def get_or_def outcome_text_def gx_text_def)
qed

end
