(* ===== verification/Outbound.thy ===== *)
theory Outbound
  imports Redirects "HOL-Library.Product_Lexorder" "HOL-Library.List_Lexorder" "HOL-Library.Char_ord"
begin

text \<open>
  Connections the server opens on someone else's word: client logos (\<open>client_identity.py\<close>) and the
  network guard of \<open>proxmox_fetch_url\<close> (\<open>proxmox/system.py\<close>).  Name resolution, HTTP and
  \<open>urljoin\<close> are the parameter \<open>web\<close>, over a world that each of them may change; bytes are
  characters.
\<close>

subsection \<open>Addresses\<close>

definition is_loopback :: "ip_addr \<Rightarrow> bool" where
  "is_loopback a = (case a of V4 w \<Rightarrow> w AND prefix_mask 8 = 0x7F000000 | V6 w z \<Rightarrow> w = 1)"

definition is_link_local :: "ip_addr \<Rightarrow> bool" where
  "is_link_local a = (case a of V4 w \<Rightarrow> w AND prefix_mask 16 = 0xA9FE0000
     | V6 w z \<Rightarrow> w AND prefix_mask 10 = 0xFE800000000000000000000000000000)"

definition is_unspecified :: "ip_addr \<Rightarrow> bool" where
  "is_unspecified a = (case a of V4 w \<Rightarrow> w = 0 | V6 w z \<Rightarrow> w = 0)"

definition is_multicast :: "ip_addr \<Rightarrow> bool" where
  "is_multicast a = (case a of V4 w \<Rightarrow> w AND prefix_mask 4 = 0xE0000000
     | V6 w z \<Rightarrow> w AND prefix_mask 8 = 0xFF000000000000000000000000000000)"

text \<open>\<open>ipv4_mapped\<close>.\<close>

definition unmapped :: "ip_addr \<Rightarrow> ip_addr" where
  "unmapped a = (case a of V6 w z \<Rightarrow> if drop_bit 32 w = 0xFFFF then V4 (word_of_int (uint w mod 2 ^ 32)) else a | _ \<Rightarrow> a)"

text \<open>\<open>_is_local_address\<close>; None is the \<open>ValueError\<close>.\<close>

definition is_local_address :: "string \<Rightarrow> bool option" where
  "is_local_address addr =
     map_option (\<lambda>a. let ip = unmapped a in is_loopback ip \<or> is_link_local ip \<or> is_unspecified ip \<or> is_multicast ip)
       (ip_address (fst (partition_on CHR ''%'' addr)))"

subsection \<open>The guard of \<open>proxmox_fetch_url\<close>\<close>

datatype 'c connect_reply = Connected 'c | Connect_failed | Connect_raised string

datatype guard_error = Cannot_connect string | Local_target string string | Address_error | Guard_raised string

text \<open>\<open>next((a for a in addrs if _is_local_address(a)), None)\<close>.\<close>

fun first_local :: "string list \<Rightarrow> guard_error + string option" where
  "first_local [] = Inr None"
| "first_local (a # as) =
     (case is_local_address a of None \<Rightarrow> Inl Address_error | Some b \<Rightarrow> if b then Inr (Some a) else first_local as)"

record ('c, 'w) net =
  nt_resolve :: "string \<Rightarrow> 'w \<Rightarrow> string list option \<times> 'w"
  nt_connect :: "string \<Rightarrow> int \<Rightarrow> 'w \<Rightarrow> 'c connect_reply \<times> 'w"

fun try_addresses :: "('c, 'w) net \<Rightarrow> string \<Rightarrow> string list \<Rightarrow> int \<Rightarrow> 'w \<Rightarrow> (guard_error + 'c) \<times> 'w" where
  "try_addresses n host [] port w = (Inl (Cannot_connect host), w)"
| "try_addresses n host (a # as) port w =
     (case nt_connect n a port w of
        (Connected c, w1) \<Rightarrow> (Inr c, w1)
      | (Connect_failed, w1) \<Rightarrow> try_addresses n host as port w1
      | (Connect_raised t, w1) \<Rightarrow> (Inl (Guard_raised t), w1))"

definition host_addresses :: "('c, 'w) net \<Rightarrow> string \<Rightarrow> 'w \<Rightarrow> string list option \<times> 'w" where
  "host_addresses n host w = (if ip_address host \<noteq> None then (Some [host], w) else nt_resolve n host w)"

definition connect_tcp :: "('c, 'w) net \<Rightarrow> string \<Rightarrow> int \<Rightarrow> 'w \<Rightarrow> (guard_error + 'c) \<times> 'w" where
  "connect_tcp n host port w =
     (case host_addresses n host w of
        (None, w1) \<Rightarrow> (Inl (Cannot_connect host), w1)
      | (Some addrs, w1) \<Rightarrow>
          if addrs = [] then (Inl (Cannot_connect host), w1)
          else case first_local addrs of
            Inl e \<Rightarrow> (Inl e, w1)
          | Inr (Some a) \<Rightarrow> (Inl (Local_target host a), w1)
          | Inr None \<Rightarrow> try_addresses n host addrs port w1)"

text \<open>The request hook's early check; it lets a name through that does not resolve.\<close>

definition refuse_local_target :: "('c, 'w) net \<Rightarrow> string \<Rightarrow> 'w \<Rightarrow> (guard_error + unit) \<times> 'w" where
  "refuse_local_target n host w =
     (case host_addresses n host w of
        (None, w1) \<Rightarrow> (Inr (), w1)
      | (Some addrs, w1) \<Rightarrow>
          (case first_local addrs of
             Inl e \<Rightarrow> Inl e
           | Inr (Some a) \<Rightarrow> Inl (Local_target host a)
           | Inr None \<Rightarrow> Inr (), w1))"

subsection \<open>Fetching a logo\<close>

definition MAX_LOGO_BYTES :: nat where "MAX_LOGO_BYTES = 256 * 1024"

datatype logo_error = Unsafe_logo string | Logo_failed

record http_reply =
  hr_status :: int
  hr_location :: string
  hr_chunks :: "string list"

text \<open>\<open>wb_get\<close>: the address and port connected to, the Host header, the name for SNI and certificate, the URL.\<close>

record 'w web =
  wb_resolve :: "string \<Rightarrow> int \<Rightarrow> 'w \<Rightarrow> string list option \<times> 'w"
  wb_get :: "string \<Rightarrow> int \<Rightarrow> string \<Rightarrow> string \<Rightarrow> string \<Rightarrow> 'w \<Rightarrow> http_reply option \<times> 'w"
  wb_join :: "string \<Rightarrow> string \<Rightarrow> string"

text \<open>\<open>_sniff\<close>.\<close>

definition byte :: "int \<Rightarrow> char" where "byte n = char_of n"

definition sniff :: "string \<Rightarrow> string option" where
  "sniff d =
     (if startswith d (map byte [137, 80, 78, 71, 13, 10, 26, 10]) then Some ''png''
      else if startswith d (map byte [255, 216, 255]) then Some ''jpg''
      else if take 4 d = ''RIFF'' \<and> take 4 (drop 8 d) = ''WEBP'' then Some ''webp''
      else if take 4 d = map byte [0, 0, 1, 0] then Some ''ico'' else None)"

text \<open>The \<open>username\<close> and \<open>port\<close> of a network location; an absent port is \<open>Some None\<close>, None the \<open>ValueError\<close>.\<close>

definition url_username :: "string \<Rightarrow> string" where
  "url_username netloc = (case rpartition_on CHR ''@'' netloc of (user, at_sign, h) \<Rightarrow> fst (partition_on CHR '':'' user))"

definition url_port :: "string \<Rightarrow> int option option" where
  "url_port netloc =
     (let hostinfo = snd (snd (rpartition_on CHR ''@'' netloc));
          (_, have_open, bracketed) = partition_on CHR ''['' hostinfo;
          p = snd (snd (partition_on CHR '':'' (if have_open then snd (snd (partition_on CHR '']'' bracketed)) else hostinfo)))
      in if p = [] then Some None
         else case int_of_digits p of None \<Rightarrow> None | Some n \<Rightarrow> if n \<le> 65535 then Some (Some n) else None)"

definition public_address :: "string \<Rightarrow> bool option" where
  "public_address a = map_option (\<lambda>ip. is_global ip \<and> \<not> is_multicast ip) (ip_address a)"

text \<open>The loop of \<open>_public_ip\<close> over the resolved addresses, and the function.\<close>

fun check_public :: "string \<Rightarrow> string list \<Rightarrow> logo_error + unit" where
  "check_public host [] = Inr ()"
| "check_public host (a # as) =
     (case public_address a of
        None \<Rightarrow> Inl Logo_failed
      | Some b \<Rightarrow> if b then check_public host as else Inl (Unsafe_logo (host @ '' resolves to a non-public address'')))"

definition public_ip :: "'w web \<Rightarrow> string \<Rightarrow> int \<Rightarrow> 'w \<Rightarrow> (logo_error + string) \<times> 'w" where
  "public_ip b host port w =
     (case wb_resolve b host port w of
        (None, w1) \<Rightarrow> (Inl (Unsafe_logo (''cannot resolve '' @ host)), w1)
      | (Some [], w1) \<Rightarrow> (Inl (Unsafe_logo (''cannot resolve '' @ host)), w1)
      | (Some (a # as), w1) \<Rightarrow> (case check_public host (a # as) of Inl e \<Rightarrow> Inl e | Inr u \<Rightarrow> Inr a, w1))"

fun read_capped :: "nat \<Rightarrow> string \<Rightarrow> string list \<Rightarrow> string option" where
  "read_capped cap acc [] = Some acc"
| "read_capped cap acc (c # cs) = (let acc' = acc @ c in if cap < length acc' then None else read_capped cap acc' cs)"

definition read_logo :: "http_reply \<Rightarrow> logo_error + string \<times> string" where
  "read_logo r =
     (case read_capped MAX_LOGO_BYTES [] (hr_chunks r) of
        None \<Rightarrow> Inl (Unsafe_logo ''logo too large'')
      | Some d \<Rightarrow> (case sniff d of None \<Rightarrow> Inl (Unsafe_logo ''not a PNG/JPEG/WebP/ICO image'') | Some ext \<Rightarrow> Inr (d, ext)))"

text \<open>The loop, with the hops that are left.\<close>

fun fetch_hops :: "'w web \<Rightarrow> nat \<Rightarrow> string \<Rightarrow> 'w \<Rightarrow> (logo_error + string \<times> string) \<times> 'w" where
  "fetch_hops b 0 url w = (Inl (Unsafe_logo ''too many redirects''), w)"
| "fetch_hops b (Suc n) url w =
     (case urlparse url of
        None \<Rightarrow> (Inl Logo_failed, w)
      | Some (scheme, netloc) \<Rightarrow>
          let host = url_hostname netloc
          in if scheme \<noteq> ''https'' \<or> host = [] \<or> url_username netloc \<noteq> [] then (Inl (Unsafe_logo ''logo URL must be https''), w)
             else case url_port netloc of
               None \<Rightarrow> (Inl Logo_failed, w)
             | Some p \<Rightarrow>
                 let port = (case p of None \<Rightarrow> 443 | Some k \<Rightarrow> if k = 0 then 443 else k)
                 in (case public_ip b host port w of
                       (Inl e, w1) \<Rightarrow> (Inl e, w1)
                     | (Inr ip, w1) \<Rightarrow>
                         (case wb_get b ip port (case p of None \<Rightarrow> host | Some k \<Rightarrow> host @ '':'' @ show_int port) host url w1 of
                            (None, w2) \<Rightarrow> (Inl Logo_failed, w2)
                          | (Some r, w2) \<Rightarrow>
                              if hr_status r \<in> {301, 302, 303, 307, 308} then
                                (let target = wb_join b url (hr_location r)
                                 in case urlparse target of
                                      None \<Rightarrow> (Inl Logo_failed, w2)
                                    | Some (scheme2, netloc2) \<Rightarrow>
                                        if url_hostname netloc2 \<noteq> host then (Inl (Unsafe_logo ''cross-host redirect''), w2)
                                        else fetch_hops b n target w2)
                              else if hr_status r \<noteq> 200 then (Inl (Unsafe_logo (''HTTP '' @ show_int (hr_status r))), w2)
                              else (read_logo r, w2))))"

definition safe_fetch :: "'w web \<Rightarrow> string \<Rightarrow> 'w \<Rightarrow> (logo_error + string \<times> string) \<times> 'w" where
  "safe_fetch b url w = fetch_hops b 3 url w"

subsection \<open>The logo cache\<close>

definition CACHE_TTL :: real where "CACHE_TTL = 7 * 86400"
definition NEGATIVE_TTL :: real where "NEGATIVE_TTL = 3600"
definition MAX_CACHED_LOGOS :: nat where "MAX_CACHED_LOGOS = 200"
definition MAX_FAILED :: nat where "MAX_FAILED = 1000"
definition RASTER_TYPES :: "string list" where "RASTER_TYPES = [''png'', ''jpg'', ''webp'', ''ico'']"

text \<open>The files of the cache directory under their names, with modification time and content.\<close>

record logo_state =
  lg_dir :: "(string, real \<times> string) dict option"
  lg_failed :: "(string, real) dict"
  lg_inflight :: "string list"

definition logo_file :: "(string \<Rightarrow> string) \<Rightarrow> string \<Rightarrow> string \<Rightarrow> string" where
  "logo_file H url ext = take 32 (H url) @ ''.'' @ ext"

definition logo_path :: "string \<Rightarrow> string" where "logo_path f = ''/oauth/logo/cached/'' @ f"

fun fresh_logo :: "(string \<Rightarrow> string) \<Rightarrow> string \<Rightarrow> (string, real \<times> string) dict \<Rightarrow> string list \<Rightarrow> (nat \<Rightarrow> real) \<Rightarrow> nat \<Rightarrow> string option" where
  "fresh_logo H url d [] clk i = None"
| "fresh_logo H url d (ext # exts) clk i =
     (case dget d (logo_file H url ext) of
        Some (mtime, data) \<Rightarrow>
          if clk i - mtime < CACHE_TTL then Some (logo_path (logo_file H url ext)) else fresh_logo H url d exts clk (Suc i)
      | None \<Rightarrow> fresh_logo H url d exts clk (Suc i))"

definition cached_logo :: "(string \<Rightarrow> string) \<Rightarrow> string \<Rightarrow> (nat \<Rightarrow> real) \<Rightarrow> logo_state \<Rightarrow> string option" where
  "cached_logo H url clk s = (case lg_dir s of None \<Rightarrow> None | Some d \<Rightarrow> fresh_logo H url d RASTER_TYPES clk 0)"

text \<open>\<open>_store\<close>: the oldest files go, by modification time and then name, so that one more fits.\<close>

definition oldest_names :: "nat \<Rightarrow> (string, real \<times> string) dict \<Rightarrow> string list" where
  "oldest_names k d = map snd (take k (sort (map (\<lambda>(name, mtime, data). (mtime, name)) d)))"

definition store_logo :: "(string \<Rightarrow> string) \<Rightarrow> string \<Rightarrow> string \<Rightarrow> string \<Rightarrow> real \<Rightarrow> logo_state \<Rightarrow> string option \<times> logo_state" where
  "store_logo H url data ext mtime s =
     (case lg_dir s of
        None \<Rightarrow> (None, s)
      | Some d \<Rightarrow>
          let d1 = drop_keys (oldest_names (length d + 1 - MAX_CACHED_LOGOS) d) d
          in (Some (logo_path (logo_file H url ext)), s\<lparr>lg_dir := Some (dset (logo_file H url ext) (mtime, data) d1)\<rparr>))"

text \<open>\<open>_remote\<close>; the flag says whether a fetch is scheduled (\<open>looping\<close>: an event loop is running).\<close>

definition remote_logo ::
  "(string \<Rightarrow> string) \<Rightarrow> string \<Rightarrow> bool \<Rightarrow> (nat \<Rightarrow> real) \<Rightarrow> logo_state \<Rightarrow> (string option \<times> bool) \<times> logo_state" where
  "remote_logo H url looping clk s =
     (if \<not> startswith url ''https://'' \<or> lg_dir s = None then ((None, False), s)
      else case cached_logo H url clk s of
        Some p \<Rightarrow> ((Some p, False), s)
      | None \<Rightarrow>
          if clk 4 - (case dget (lg_failed s) url of Some t \<Rightarrow> t | None \<Rightarrow> 0) < NEGATIVE_TTL \<or> url \<in> set (lg_inflight s)
          then ((None, False), s)
          else if \<not> looping then ((None, False), s)
          else ((None, True), s\<lparr>lg_inflight := url # lg_inflight s\<rparr>))"

text \<open>\<open>_fill\<close>, given what fetching and storing came to: None is any exception, at the reading \<open>now\<close>.\<close>

definition fill_logo ::
  "(string \<Rightarrow> string) \<Rightarrow> string \<Rightarrow> (string \<times> string) option \<Rightarrow> real \<Rightarrow> real \<Rightarrow> logo_state \<Rightarrow> logo_state" where
  "fill_logo H url res mtime now s =
     (let s1 = (case res of
                  Some (data, ext) \<Rightarrow> snd (store_logo H url data ext mtime s)
                | None \<Rightarrow> s\<lparr>lg_failed := dset url now (if MAX_FAILED \<le> length (lg_failed s) then [] else lg_failed s)\<rparr>)
      in s1\<lparr>lg_inflight := removeAll url (lg_inflight s1)\<rparr>)"

end
