(* ===== verification/Guest_Files.thy ===== *)
theory Guest_Files
  imports Guest_Exec Outbound
begin

text \<open>
  Moving files between the server's staging directory and guests (\<open>proxmox/system.py\<close>): the names
  accepted in the staging directory, \<open>_push_staged\<close> with the checksum, \<open>proxmox_upload_file\<close>,
  \<open>proxmox_download_file\<close>, \<open>proxmox_fetch_url\<close>, listing and deletion.  The staging directory is a
  dictionary from names to contents.  Parameters: the SSH client's operations over its own state \<open>'s\<close>
  (a removal never fails: both forms in the code swallow its errors), the hash, what
  \<open>(base / name).resolve()\<close> is relative to the directory (None: outside, or not a path), and what
  streaming the URL gives.  A cancelled request is not modelled; the hints that end three error
  texts (where to put a staged file, what to use instead of SSH) are left out of them.
\<close>

subsection \<open>State and parameters\<close>

text \<open>The dictionary that \<open>exec_command\<close> returns; an absent text is empty.\<close>

record ssh_result =
  sr_exit :: "int option"
  sr_out :: string
  sr_err :: string
  sr_error :: string

datatype http_stream =
    Http_failed string
  | Http_refused string
  | Http_reply int string "string list" "string option"

record ('c, 'w, 's) xfer_env =
  xe_host :: "('c, 'w) pve_host"
  xe_ssh :: bool
  xe_put :: "string \<Rightarrow> string \<Rightarrow> string \<Rightarrow> 's \<Rightarrow> string option \<times> 's"
  xe_get :: "string \<Rightarrow> string \<Rightarrow> 's \<Rightarrow> (string option \<times> string option) \<times> 's"
  xe_remove :: "string \<Rightarrow> string \<Rightarrow> 's \<Rightarrow> 's"
  xe_exec :: "string \<Rightarrow> string \<Rightarrow> 's \<Rightarrow> ssh_result option \<times> 's"
  xe_resolve :: "string \<Rightarrow> string option"
  xe_stream :: "string \<Rightarrow> 's \<Rightarrow> http_stream \<times> 's"
  xe_sha :: "string \<Rightarrow> string"
  xe_place :: "string \<Rightarrow> string option"
  xe_round :: "real \<Rightarrow> pyval"

record ('c, 'w, 's) xfer_state =
  xs_pve :: "('c, 'w) pve_state"
  xs_ssh :: 's
  xs_files :: "(string, string) dict"

type_synonym ('c, 'w, 's, 'a) xfer = "(('c, 'w, 's) xfer_state, 'a) eff"

definition via_pve :: "('c, 'w, 'a) pve \<Rightarrow> ('c, 'w, 's, 'a) xfer" where
  "via_pve m s = (case m (xs_pve s) of (r, p) \<Rightarrow> (r, s\<lparr>xs_pve := p\<rparr>))"

definition via_ssh :: "('s \<Rightarrow> 'a \<times> 's) \<Rightarrow> ('c, 'w, 's, 'a) xfer" where
  "via_ssh f s = (case f (xs_ssh s) of (r, p) \<Rightarrow> (Inr r, s\<lparr>xs_ssh := p\<rparr>))"

text \<open>\<open>SSHNotConfiguredError\<close> escapes from \<open>exec_command\<close>.\<close>

definition ssh_exec :: "('c, 'w, 's) xfer_env \<Rightarrow> string \<Rightarrow> string \<Rightarrow> ('c, 'w, 's, ssh_result) xfer" where
  "ssh_exec e host command =
     pbind (via_ssh (xe_exec e host command)) (\<lambda>r. case r of None \<Rightarrow> praise Ssh_unconfigured | Some x \<Rightarrow> preturn x)"

definition remove_remote :: "('c, 'w, 's) xfer_env \<Rightarrow> string \<Rightarrow> string \<Rightarrow> ('c, 'w, 's, unit) xfer" where
  "remove_remote e host path = via_ssh (\<lambda>s. ((), xe_remove e host path s))"

definition update_files :: "((string, string) dict \<Rightarrow> (string, string) dict) \<Rightarrow> ('c, 'w, 's, unit) xfer" where
  "update_files f s = (Inr (), s\<lparr>xs_files := f (xs_files s)\<rparr>)"

definition max_bytes :: "('c, 'w, 's) xfer_env \<Rightarrow> int" where
  "max_bytes e = sv_transfers_max_mb (cf_server (ph_config (xe_host e))) * 1024 * 1024"

subsection \<open>Names in the staging directory\<close>

definition staging_path :: "('c, 'w, 's) xfer_env \<Rightarrow> string \<Rightarrow> string + string" where
  "staging_path e name =
     (if name \<in> {[], ''.'', ''..''} then Inl ''staging filename must be a non-empty basename''
      else if CHR ''/'' \<in> set name \<or> CHR 0x5C \<in> set name \<or> startswith name ''..''
      then Inl (''staging filename must be a plain basename (no slashes, no '' @ quoted ''..'' @ '')'')
      else case xe_place e name of
        None \<Rightarrow> Inl (''staging filename '' @ py_repr name @ '' resolves outside the transfers directory'')
      | Some f \<Rightarrow> Inr f)"

text \<open>The limit as the messages name it.\<close>

definition max_mb_text :: "('c, 'w, 's) xfer_env \<Rightarrow> string" where
  "max_mb_text e = ''transfers_max_mb ('' @ show_signed (sv_transfers_max_mb (cf_server (ph_config (xe_host e)))) @ '' MB).''"

definition no_ssh :: pyval where
  "no_ssh = status_error ''Large-file transfer requires SSH. Add an ssh.hosts[] entry for the Proxmox node (or the VM).''"

subsection \<open>Pushing a staged file\<close>

text \<open>\<open>_running_guest\<close>: the guest's type, or the error result.\<close>

definition running_guest :: "('c, 'w) pve_host \<Rightarrow> string \<Rightarrow> int \<Rightarrow> ('c, 'w, pyval + string) pve" where
  "running_guest h node vmid =
     pbind (detect_guest h node vmid)
       (\<lambda>g. preturn (case g of
          None \<Rightarrow> Inl (status_error (''VM/CT '' @ show_signed vmid @ '' not found on node '' @ quoted node @ ''.''))
        | Some (ty, st) \<Rightarrow>
            if st \<noteq> ''running''
            then Inl (PDict [(''status'', PStr ''error''),
                   (''error'', PStr (''VM/CT '' @ show_signed vmid @ '' is '' @ st @
                      '': start it first, files can only be pushed into a running guest.'')),
                   (''guest_status'', PStr st)])
            else Inr ty))"

text \<open>\<open>_checksum_from\<close>: the checksum if there is one, or an error text.\<close>

definition first_text :: "string list \<Rightarrow> string" where
  "first_text ts = (case find (\<lambda>t. t \<noteq> []) ts of Some t \<Rightarrow> t | None \<Rightarrow> [])"

definition checksum_from :: "ssh_result \<Rightarrow> py_raise + string + string option" where
  "checksum_from r =
     (if sr_exit r = Some 0 \<and> sr_out r \<noteq> [] then
        (case py_words (sr_out r) of [] \<Rightarrow> Inl Index_error | w # ws \<Rightarrow> Inr (Inr (Some w)))
      else if sr_exit r \<in> {Some 0, Some 127} then Inr (Inr None)
      else Inr (Inl (''Checksum check of the pushed file failed: '' @
        py_strip (first_text [sr_err r, sr_error r,
          ''exit '' @ (case sr_exit r of Some n \<Rightarrow> show_signed n | None \<Rightarrow> ''None'')]))))"

text \<open>The check of the pushed file, with the command that computes its hash; then the result.\<close>

definition mismatch_text :: "string \<Rightarrow> string \<Rightarrow> string \<Rightarrow> string \<Rightarrow> string" where
  "mismatch_text what a x y = ''Checksum mismatch after '' @ what @ '': '' @ a @ ''='' @ x @ (if a = ''local'' then '' remote='' else '' local='') @ y"

definition pushed_result ::
  "('c, 'w, 's) xfer_env \<Rightarrow> string \<Rightarrow> int \<Rightarrow> string \<Rightarrow> string \<Rightarrow> bool \<Rightarrow> string \<Rightarrow> real \<Rightarrow> string option \<Rightarrow> pyval" where
  "pushed_result e node vmid data dest verify transport dt remote =
     PDict ([(''status'', PStr ''success''), (''vmid'', PInt vmid), (''node'', PStr node), (''dest'', PStr dest),
             (''bytes'', PInt (int (length data))), (''sha256'', if verify then PStr (xe_sha e data) else PNone),
             (''duration_s'', xe_round e dt), (''transport'', PStr transport), (''checksum_verified'', PBool (remote \<noteq> None))]
            @ (if verify \<and> remote = None
               then [(''warning'', PStr ''sha256sum unavailable in guest; transfer was not checksum-verified.'')] else []))"

definition check_pushed ::
  "('c, 'w, 's) xfer_env \<Rightarrow> string \<Rightarrow> string \<Rightarrow> string \<Rightarrow> int \<Rightarrow> string \<Rightarrow> string \<Rightarrow> bool \<Rightarrow> string \<Rightarrow> real \<Rightarrow> ('c, 'w, 's, pyval) xfer" where
  "check_pushed e host sum_command node vmid data dest verify transport dt =
     (if \<not> verify then preturn (pushed_result e node vmid data dest verify transport dt None)
      else pbind (ssh_exec e host sum_command)
        (\<lambda>r. case checksum_from r of
           Inl err \<Rightarrow> praise err
         | Inr (Inl t) \<Rightarrow> preturn (PDict [(''status'', PStr ''error''), (''error'', PStr t), (''bytes'', PInt (int (length data)))])
         | Inr (Inr remote) \<Rightarrow>
             if remote \<noteq> None \<and> remote \<noteq> Some [] \<and> remote \<noteq> Some (xe_sha e data)
             then preturn (PDict [(''status'', PStr ''error''),
                    (''error'', PStr (mismatch_text ''upload'' ''local'' (xe_sha e data) (the remote))), (''bytes'', PInt (int (length data)))])
             else preturn (pushed_result e node vmid data dest verify transport dt remote)))"

definition upload_tmp :: "string \<Rightarrow> string" where "upload_tmp drawn = ''/tmp/beaconmcp-upload-'' @ take 12 drawn"

definition push_lxc ::
  "('c, 'w, 's) xfer_env \<Rightarrow> string \<Rightarrow> int \<Rightarrow> string \<Rightarrow> string \<Rightarrow> bool \<Rightarrow> string \<Rightarrow> real \<Rightarrow> ('c, 'w, 's, pyval) xfer" where
  "push_lxc e node vmid data dest verify drawn dt =
     (let tmp = upload_tmp drawn
      in pbind (via_ssh (xe_put e node data tmp))
        (\<lambda>p. case p of
           Some t \<Rightarrow> pbind (remove_remote e node tmp)
             (\<lambda>_. preturn (status_error (''SFTP to node '' @ py_repr node @ '' failed: '' @ t)))
         | None \<Rightarrow>
             pbind (via_ssh (xe_exec e node (''pct push '' @ show_signed vmid @ '' '' @ shlex_quote tmp @ '' '' @ shlex_quote dest)))
               (\<lambda>r. pbind (remove_remote e node tmp)
                  (\<lambda>_. case r of
                     None \<Rightarrow> praise Ssh_unconfigured
                   | Some x \<Rightarrow>
                       if sr_exit x \<noteq> Some 0
                       then preturn (status_error (''pct push failed: '' @ first_text [sr_err x, sr_error x, ''unknown'']))
                       else check_pushed e node (''pct exec '' @ show_signed vmid @ '' -- sha256sum '' @ shlex_quote dest)
                              node vmid data dest verify ''sftp+pct_push'' dt))))"

definition push_qemu ::
  "('c, 'w, 's) xfer_env \<Rightarrow> string \<Rightarrow> int \<Rightarrow> string \<Rightarrow> string \<Rightarrow> bool \<Rightarrow> real \<Rightarrow> ('c, 'w, 's, pyval) xfer" where
  "push_qemu e node vmid data dest verify dt =
     (let host = show_signed vmid
      in case xe_resolve e host of
           Some t \<Rightarrow> preturn (status_error (''VM '' @ host @ '' is not reachable via SSH ('' @ t @
             ''). Either declare it under ssh.hosts[] (or set ssh.vmid_to_ip), or use proxmox_write_file for files up to 45 KiB.''))
         | None \<Rightarrow>
             pbind (ssh_exec e host (''test -d '' @ shlex_quote dest))
               (\<lambda>d. if sr_exit d = Some 0
                    then preturn (status_error ([CHR 0x60] @ ''dest'' @ [CHR 0x60] @ '' '' @ py_repr dest @ '' is a directory in VM '' @ host @ '': give the full file path.''))
                    else pbind (via_ssh (xe_put e host data dest))
                      (\<lambda>p. case p of
                         Some t \<Rightarrow> preturn (status_error (''SFTP to VM '' @ host @ '' failed: '' @ t))
                       | None \<Rightarrow> check_pushed e host (''sha256sum '' @ shlex_quote dest) node vmid data dest verify ''sftp'' dt)))"

definition absolute_dest :: pyval where
  "absolute_dest = status_error ([CHR 0x60] @ ''dest'' @ [CHR 0x60] @ '' must be an absolute path inside the guest.'')"

definition push_staged ::
  "('c, 'w, 's) xfer_env \<Rightarrow> string \<Rightarrow> int \<Rightarrow> string \<Rightarrow> string \<Rightarrow> bool \<Rightarrow> string \<Rightarrow> real \<Rightarrow> ('c, 'w, 's, pyval) xfer" where
  "push_staged e node vmid data dest verify drawn dt =
     (if \<not> xe_ssh e then preturn no_ssh
      else if \<not> startswith dest ''/'' then preturn absolute_dest
      else pbind (via_pve (running_guest (xe_host e) node vmid))
        (\<lambda>g. case g of
           Inl err \<Rightarrow> preturn err
         | Inr ty \<Rightarrow> if ty = ''lxc'' then push_lxc e node vmid data dest verify drawn dt
                    else push_qemu e node vmid data dest verify dt))"

subsection \<open>Uploading and deleting staged files\<close>

definition upload_file ::
  "('c, 'w, 's) xfer_env \<Rightarrow> string \<Rightarrow> int \<Rightarrow> string \<Rightarrow> string \<Rightarrow> bool \<Rightarrow> string \<Rightarrow> real \<Rightarrow> ('c, 'w, 's, pyval) xfer" where
  "upload_file e node vmid source dest verify drawn dt s =
     (if \<not> xe_ssh e then (Inr no_ssh, s)
      else case staging_path e source of
        Inl t \<Rightarrow> (Inr (status_error t), s)
      | Inr f \<Rightarrow>
          (case dget (xs_files s) f of
             None \<Rightarrow> (Inr (status_error (''Staging file '' @ py_repr source @ '' not found.'')), s)
           | Some data \<Rightarrow>
               if max_bytes e < int (length data)
               then (Inr (status_error (''File size '' @ show_int (int (length data)) @ '' bytes exceeds the configured '' @ max_mb_text e)), s)
               else push_staged e node vmid data dest verify drawn dt s))"

definition delete_transfer :: "('c, 'w, 's) xfer_env \<Rightarrow> string \<Rightarrow> ('c, 'w, 's, pyval) xfer" where
  "delete_transfer e name s =
     (case staging_path e name of
        Inl t \<Rightarrow> (Inr (status_error t), s)
      | Inr f \<Rightarrow>
          (case dget (xs_files s) f of
             None \<Rightarrow> (Inr (status_error (''File '' @ py_repr name @ '' not found in staging directory.'')), s)
           | Some data \<Rightarrow>
               (Inr (PDict [(''status'', PStr ''success''), (''deleted'', PStr name), (''freed_bytes'', PInt (int (length data)))]),
                s\<lparr>xs_files := dpop f (xs_files s)\<rparr>)))"

subsection \<open>Downloading from a guest\<close>

definition part_of :: "string \<Rightarrow> string" where "part_of f = f @ ''.part''"

text \<open>\<open>int(text.strip())\<close>, 0 when it fails; only a sign and ASCII digits are read.\<close>

definition int_or_zero :: "string \<Rightarrow> int" where
  "int_or_zero t =
     (let s = py_strip t; d = (if s \<noteq> [] \<and> hd s \<in> {CHR ''-'', CHR ''+''} then tl s else s)
      in case int_of_digits d of None \<Rightarrow> 0 | Some n \<Rightarrow> if s \<noteq> [] \<and> hd s = CHR ''-'' then - n else n)"

text \<open>What follows the transfer into the partial file \<open>f.part\<close>: the checksum and the rename.\<close>

definition settle_download ::
  "('c, 'w, 's) xfer_env \<Rightarrow> string \<Rightarrow> int \<Rightarrow> string \<Rightarrow> string \<Rightarrow> bool \<Rightarrow> string option \<Rightarrow> string \<Rightarrow> real \<Rightarrow> ('c, 'w, 's, pyval) xfer" where
  "settle_download e node vmid source f verify remote transport dt s =
     (case dget (xs_files s) (part_of f) of
        None \<Rightarrow> (Inl File_missing, s)
      | Some data \<Rightarrow>
          if verify \<and> remote \<noteq> None \<and> remote \<noteq> Some [] \<and> remote \<noteq> Some (xe_sha e data)
          then (Inr (PDict [(''status'', PStr ''error''),
                  (''error'', PStr (mismatch_text ''download'' ''remote'' (the remote) (xe_sha e data))), (''bytes'', PInt (int (length data)))]),
                s\<lparr>xs_files := dpop (part_of f) (xs_files s)\<rparr>)
          else (Inr (PDict ([(''status'', PStr ''success''), (''vmid'', PInt vmid), (''node'', PStr node), (''source'', PStr source),
                  (''staged_path'', PStr f), (''bytes'', PInt (int (length data))),
                  (''sha256'', if verify then PStr (xe_sha e data) else (case remote of Some x \<Rightarrow> PStr x | None \<Rightarrow> PNone)),
                  (''duration_s'', xe_round e dt), (''transport'', PStr transport), (''checksum_verified'', PBool (remote \<noteq> None))]
                  @ (if verify \<and> remote = None
                     then [(''warning'', PStr ''sha256sum unavailable in guest; transfer was not checksum-verified.'')] else []))),
                s\<lparr>xs_files := dset f data (dpop (part_of f) (xs_files s))\<rparr>))"

text \<open>The SFTP transfer into the partial file; on an error it is removed.\<close>

definition receive_part ::
  "('c, 'w, 's) xfer_env \<Rightarrow> string \<Rightarrow> string \<Rightarrow> string \<Rightarrow> ('c, 'w, 's, string option) xfer" where
  "receive_part e host remote f s =
     (case xe_get e host remote (xs_ssh s) of
        ((err, written), ssh) \<Rightarrow>
          let files = (case written of Some d \<Rightarrow> dset (part_of f) d (xs_files s) | None \<Rightarrow> xs_files s)
          in (Inr err, s\<lparr>xs_ssh := ssh, xs_files := files\<rparr>))"

definition checksum_of :: "('c, 'w, 's) xfer_env \<Rightarrow> string \<Rightarrow> string \<Rightarrow> bool \<Rightarrow> ('c, 'w, 's, string option) xfer" where
  "checksum_of e host command verify =
     (if \<not> verify then preturn None
      else pbind (ssh_exec e host command)
        (\<lambda>r. if sr_exit r = Some 0 \<and> sr_out r \<noteq> [] then
               (case py_words (sr_out r) of [] \<Rightarrow> praise Index_error | w # ws \<Rightarrow> preturn (Some w))
             else preturn None))"

text \<open>The size check before any data moves; None: go on.\<close>

definition size_check :: "('c, 'w, 's) xfer_env \<Rightarrow> string \<Rightarrow> string \<Rightarrow> string \<Rightarrow> string \<Rightarrow> ('c, 'w, 's, pyval option) xfer" where
  "size_check e host command source what =
     pbind (ssh_exec e host command)
       (\<lambda>r. preturn (if sr_exit r \<noteq> Some 0
              then Some (status_error (''Could not stat '' @ py_repr source @ '' in '' @ what @ '': '' @ first_text [sr_err r, sr_error r, ''None'']))
              else if max_bytes e < int_or_zero (if sr_out r = [] then ''0'' else sr_out r)
              then Some (status_error (''Source size '' @ show_signed (int_or_zero (sr_out r)) @ '' bytes exceeds the configured '' @ max_mb_text e))
              else None))"

definition download_tmp :: "string \<Rightarrow> string" where "download_tmp drawn = ''/tmp/beaconmcp-download-'' @ take 12 drawn"

definition download_lxc ::
  "('c, 'w, 's) xfer_env \<Rightarrow> string \<Rightarrow> int \<Rightarrow> string \<Rightarrow> string \<Rightarrow> bool \<Rightarrow> string \<Rightarrow> real \<Rightarrow> ('c, 'w, 's, pyval) xfer" where
  "download_lxc e node vmid source f verify drawn dt =
     (let ct = ''pct exec '' @ show_signed vmid @ '' -- ''; tmp = download_tmp drawn
      in pbind (size_check e node (ct @ ''stat -c %s '' @ shlex_quote source) source (''CT '' @ show_signed vmid))
        (\<lambda>refused. case refused of
           Some err \<Rightarrow> preturn err
         | None \<Rightarrow>
             pbind (checksum_of e node (ct @ ''sha256sum '' @ shlex_quote source) verify)
               (\<lambda>remote. pbind (ssh_exec e node (''pct pull '' @ show_signed vmid @ '' '' @ shlex_quote source @ '' '' @ shlex_quote tmp))
                  (\<lambda>r. if sr_exit r \<noteq> Some 0
                       then pbind (remove_remote e node tmp)
                              (\<lambda>_. preturn (status_error (''pct pull failed: '' @ first_text [sr_err r, sr_error r, ''unknown''])))
                       else pbind (receive_part e node tmp f)
                         (\<lambda>err. pbind (remove_remote e node tmp)
                            (\<lambda>_. case err of
                               Some t \<Rightarrow> pbind (update_files (dpop (part_of f)))
                                 (\<lambda>_. preturn (status_error (''SFTP from node '' @ py_repr node @ '' failed: '' @ t)))
                             | None \<Rightarrow> settle_download e node vmid source f verify remote ''pct_pull+sftp'' dt))))))"

definition download_qemu ::
  "('c, 'w, 's) xfer_env \<Rightarrow> string \<Rightarrow> int \<Rightarrow> string \<Rightarrow> string \<Rightarrow> bool \<Rightarrow> real \<Rightarrow> ('c, 'w, 's, pyval) xfer" where
  "download_qemu e node vmid source f verify dt =
     (let host = show_signed vmid
      in case xe_resolve e host of
           Some t \<Rightarrow> preturn (status_error (''VM '' @ host @ '' is not reachable via SSH ('' @ t @ '')''))
         | None \<Rightarrow>
             pbind (size_check e host (''stat -c %s '' @ shlex_quote source) source (''VM '' @ host))
               (\<lambda>refused. case refused of
                  Some err \<Rightarrow> preturn err
                | None \<Rightarrow>
                    pbind (checksum_of e host (''sha256sum '' @ shlex_quote source) verify)
                      (\<lambda>remote. pbind (receive_part e host source f)
                         (\<lambda>err. case err of
                            Some t \<Rightarrow> pbind (update_files (dpop (part_of f)))
                              (\<lambda>_. preturn (status_error (''SFTP from VM '' @ host @ '' failed: '' @ t)))
                          | None \<Rightarrow> settle_download e node vmid source f verify remote ''sftp'' dt))))"

definition download_file ::
  "('c, 'w, 's) xfer_env \<Rightarrow> string \<Rightarrow> int \<Rightarrow> string \<Rightarrow> string \<Rightarrow> bool \<Rightarrow> bool \<Rightarrow> string \<Rightarrow> real \<Rightarrow> ('c, 'w, 's, pyval) xfer" where
  "download_file e node vmid source dest verify overwrite drawn dt s =
     (if \<not> xe_ssh e then (Inr no_ssh, s)
      else case staging_path e dest of
        Inl t \<Rightarrow> (Inr (status_error t), s)
      | Inr f \<Rightarrow>
          if dget (xs_files s) f \<noteq> None \<and> \<not> overwrite
          then (Inr (status_error (''Staging file '' @ py_repr dest @ '' already exists. Pass overwrite=True to replace it.'')), s)
          else if \<not> startswith source ''/''
          then (Inr (status_error ([CHR 0x60] @ ''source'' @ [CHR 0x60] @ '' must be an absolute path inside the guest.'')), s)
          else pbind (via_pve (detect_vm_type (xe_host e) node vmid))
            (\<lambda>t. case t of
               None \<Rightarrow> preturn (status_error (''VM/CT '' @ show_signed vmid @ '' not found on node '' @ quoted node @ ''.''))
             | Some ty \<Rightarrow> if ty = ''lxc'' then download_lxc e node vmid source f verify drawn dt
                        else download_qemu e node vmid source f verify dt) s)"

subsection \<open>Fetching a URL into a guest\<close>

text \<open>
  The streaming loop: what is written to the partial file, and whether it went over the limit.  A
  \<open>Http_reply status content_length chunks broken\<close> whose connection broke (with a text) raises after its chunks.
\<close>

fun write_chunks :: "int \<Rightarrow> string \<Rightarrow> string list \<Rightarrow> string \<times> bool" where
  "write_chunks cap acc [] = (acc, False)"
| "write_chunks cap acc (c # cs) =
     (if cap < int (length acc) + int (length c) then (acc, True) else write_chunks cap (acc @ c) cs)"

definition over_cap :: "int \<Rightarrow> string \<Rightarrow> bool" where
  "over_cap cap declared \<longleftrightarrow>
     py_isdigit declared \<and> (case int_of_digits declared of Some n \<Rightarrow> cap < n | None \<Rightarrow> False)"

definition fetch_name :: "string \<Rightarrow> string" where "fetch_name drawn = ''fetch-'' @ take 12 drawn"

definition add_fields :: "pyval \<Rightarrow> (string, pyval) dict \<Rightarrow> pyval" where
  "add_fields v fs = (case v of PDict d \<Rightarrow> PDict (fold (\<lambda>(k, x). dset k x) fs d) | _ \<Rightarrow> v)"

text \<open>The body of the \<open>try\<close>: the names \<open>fetch-...\<close> and \<open>fetch-....part\<close> are its files.\<close>

definition fetch_body ::
  "('c, 'w, 's) xfer_env \<Rightarrow> string \<Rightarrow> int \<Rightarrow> string \<Rightarrow> string \<Rightarrow> bool \<Rightarrow> string \<Rightarrow> string \<Rightarrow> real \<Rightarrow> real \<Rightarrow> ('c, 'w, 's, pyval) xfer" where
  "fetch_body e node vmid url dest verify f drawn dt fetch_s s =
     (case xe_stream e url (xs_ssh s) of
        (Http_failed t, ssh) \<Rightarrow> (Inr (status_error (''Download of '' @ url @ '' failed: '' @ t)), s\<lparr>xs_ssh := ssh\<rparr>)
      | (Http_refused t, ssh) \<Rightarrow> (Inr (status_error t), s\<lparr>xs_ssh := ssh\<rparr>)
      | (Http_reply status declared chunks broken, ssh) \<Rightarrow>
          let s1 = s\<lparr>xs_ssh := ssh\<rparr>
          in if 400 \<le> status then (Inr (status_error (''GET '' @ url @ '' returned HTTP '' @ show_signed status @ ''.'')), s1)
             else if over_cap (max_bytes e) declared
             then (Inr (status_error (''Remote file is '' @ declared @ '' bytes, over the '' @ show_signed (max_bytes e) @ '' byte transfer cap.'')), s1)
             else (case write_chunks (max_bytes e) [] chunks of
                (data, over) \<Rightarrow>
                  let s2 = s1\<lparr>xs_files := dset (part_of f) data (xs_files s1)\<rparr>
                  in if over then (Inr (status_error (''Download exceeded the '' @ show_signed (max_bytes e) @ '' byte transfer cap.'')), s2)
                     else if broken \<noteq> None then (Inr (status_error (''Download of '' @ url @ '' failed: '' @ the broken)), s2)
                     else pbind (push_staged e node vmid data dest verify drawn dt)
                            (\<lambda>r. preturn (add_fields r [(''source_url'', PStr url), (''fetch_s'', xe_round e fetch_s)]))
                            (s2\<lparr>xs_files := dset f data (dpop (part_of f) (xs_files s2))\<rparr>)))"

definition fetch_url ::
  "('c, 'w, 's) xfer_env \<Rightarrow> string \<Rightarrow> int \<Rightarrow> string \<Rightarrow> string \<Rightarrow> bool \<Rightarrow> string \<Rightarrow> string \<Rightarrow> real \<Rightarrow> real \<Rightarrow> ('c, 'w, 's, pyval) xfer" where
  "fetch_url e node vmid url dest verify drawn drawn' dt fetch_s s =
     (if \<not> xe_ssh e then (Inr no_ssh, s)
      else case urlparse url of
        None \<Rightarrow> (Inl Value_error, s)
      | Some (scheme, netloc) \<Rightarrow>
          if scheme \<notin> {''http'', ''https''}
          then (Inr (status_error ([CHR 0x60] @ ''url'' @ [CHR 0x60] @ '' must be an http:// or https:// URL.'')), s)
          else if \<not> startswith dest ''/'' then (Inr absolute_dest, s)
          else case via_pve (running_guest (xe_host e) node vmid) s of
            (Inl err, s1) \<Rightarrow> (Inl err, s1)
          | (Inr (Inl refused), s1) \<Rightarrow> (Inr refused, s1)
          | (Inr (Inr ty), s1) \<Rightarrow>
              let f = fetch_name drawn
              in (case fetch_body e node vmid url dest verify f drawn' dt fetch_s s1 of
                    (r, s2) \<Rightarrow> (r, s2\<lparr>xs_files := dpop f (dpop (part_of f) (xs_files s2))\<rparr>)))"

end
