(* ===== verification/Guest_Files_Props.thy ===== *)
theory Guest_Files_Props
  imports Guest_Files Config_Props
begin

text \<open>
  What the file tools promise: a verified upload was checked in the guest, a download leaves the staging
  directory as it was unless it succeeds, and fetching a URL stages nothing that stays.
\<close>

subsection \<open>Results\<close>

definition succeeded :: "pyval \<Rightarrow> bool" where
  "succeeded v \<longleftrightarrow> get_or v ''status'' PNone = PStr ''success''"

definition verified :: "pyval \<Rightarrow> bool" where
  "verified v \<longleftrightarrow> get_or v ''checksum_verified'' PNone = PBool True"

lemma error_not_succeeded [simp]: "\<not> succeeded (status_error t)"
  by (simp add: succeeded_def status_error_def get_or_def)

lemma error_dict_not_succeeded [simp]: "\<not> succeeded (PDict ((''status'', PStr ''error'') # d))"
  by (simp add: succeeded_def get_or_def)

text \<open>
  The last answer of the SSH client, in its state \<open>p'\<close>: \<open>sha256sum\<close> of a path in the guest, run in the
  container or in the VM itself, exited with 0 and printed a line that starts with the hash.
\<close>

definition sum_answer :: "('c, 'w, 's) xfer_env \<Rightarrow> string \<Rightarrow> int \<Rightarrow> string \<Rightarrow> 's \<Rightarrow> string \<Rightarrow> bool" where
  "sum_answer e node vmid path p' h \<longleftrightarrow>
     (\<exists>p x ws. (xe_exec e node (''pct exec '' @ show_signed vmid @ '' -- sha256sum '' @ shlex_quote path) p = (Some x, p')
              \<or> xe_exec e (show_signed vmid) (''sha256sum '' @ shlex_quote path) p = (Some x, p'))
        \<and> sr_exit x = Some 0 \<and> py_words (sr_out x) = h # ws)"

lemma ssh_exec_Inr: "ssh_exec e host c s = (Inr x, s') \<longleftrightarrow> xe_exec e host c (xs_ssh s) = (Some x, xs_ssh s') \<and> s' = s\<lparr>xs_ssh := xs_ssh s'\<rparr>"
  by (auto simp: ssh_exec_def pbind_def via_ssh_def praise_def preturn_def split: prod.splits option.splits)

subsection \<open>Steps that leave the staging directory alone\<close>

interpretation same_files: effect_order "\<lambda>s s'. xs_files s' = xs_files s"
  by unfold_locales auto

definition keeps_files :: "('c, 'w, 's, 'a) xfer \<Rightarrow> bool" where
  "keeps_files m \<longleftrightarrow> moves (\<lambda>s s'. xs_files s' = xs_files s) m"

lemma keeps_filesD: "keeps_files m \<Longrightarrow> m s = (r, s') \<Longrightarrow> xs_files s' = xs_files s"
  unfolding keeps_files_def by (rule movesD)

named_theorems keeps

lemma keeps_basic [keeps]: "keeps_files (preturn x)" "keeps_files (praise err)" "keeps_files (via_pve m)" "keeps_files (via_ssh f)"
  by (auto simp: keeps_files_def same_files.return same_files.raise)
     (auto simp: moves_def via_pve_def via_ssh_def split: prod.splits)

lemma keeps_bind [keeps]: "keeps_files m \<Longrightarrow> (\<And>x. keeps_files (f x)) \<Longrightarrow> keeps_files (pbind m f)"
  unfolding keeps_files_def by (rule same_files.bind)

lemma keeps_ssh [keeps]: "keeps_files (ssh_exec e host c)" "keeps_files (remove_remote e host path)"
  by (auto simp: ssh_exec_def remove_remote_def intro!: keeps split: option.splits)

lemma keeps_check [keeps]: "keeps_files (check_pushed e host c node vmid data dest verify transport dt)"
  unfolding check_pushed_def by (auto intro!: keeps split: sum.splits)

lemma keeps_push [keeps]: "keeps_files (push_staged e node vmid data dest verify drawn dt)"
  unfolding push_staged_def push_lxc_def push_qemu_def Let_def
  by (auto intro!: keeps split: sum.splits option.splits)

lemma keeps_download_checks [keeps]: "keeps_files (size_check e host c source what)" "keeps_files (checksum_of e host c verify)"
  unfolding size_check_def checksum_of_def by (auto intro!: keeps split: list.splits)

subsection \<open>Uploads\<close>

lemma pushed_result_verified: "verified (pushed_result e node vmid data dest verify transport dt remote) \<longleftrightarrow> remote \<noteq> None"
  by (simp add: pushed_result_def verified_def get_or_def)

lemma pushed_result_sha: "get_or (pushed_result e node vmid data dest True transport dt remote) ''sha256'' PNone = PStr (xe_sha e data)"
  by (simp add: pushed_result_def get_or_def)

lemma checksum_from_some: "checksum_from r = Inr (Inr (Some w)) \<Longrightarrow> sr_exit r = Some 0 \<and> (\<exists>ws. py_words (sr_out r) = w # ws)"
  by (auto simp: checksum_from_def split: if_splits list.splits)

lemma py_words_nonempty: "w \<in> set (py_words t) \<Longrightarrow> w \<noteq> []"
  by (auto simp: py_words_def)

lemma check_pushed_verified:
  assumes run: "check_pushed e host c node vmid data dest verify transport dt s = (Inr v, s')" and v: "succeeded v" "verified v"
    and c: "(host, c) \<in> {(node, ''pct exec '' @ show_signed vmid @ '' -- sha256sum '' @ shlex_quote dest), (show_signed vmid, ''sha256sum '' @ shlex_quote dest)}"
  shows "get_or v ''sha256'' PNone = PStr (xe_sha e data) \<and> sum_answer e node vmid dest (xs_ssh s') (xe_sha e data)"
proof -
  have verify: verify
  proof (rule ccontr)
    assume "\<not> verify"
    then show False using run v(2) by (auto simp: check_pushed_def preturn_def pushed_result_verified)
  qed
  then obtain x s1 where x: "ssh_exec e host c s = (Inr x, s1)" and
    k: "(case checksum_from x of
           Inl err \<Rightarrow> praise err
         | Inr (Inl t) \<Rightarrow> preturn (PDict [(''status'', PStr ''error''), (''error'', PStr t), (''bytes'', PInt (int (length data)))])
         | Inr (Inr remote) \<Rightarrow>
             if remote \<noteq> None \<and> remote \<noteq> Some [] \<and> remote \<noteq> Some (xe_sha e data)
             then preturn (PDict [(''status'', PStr ''error''),
                    (''error'', PStr (mismatch_text ''upload'' ''local'' (xe_sha e data) (the remote))), (''bytes'', PInt (int (length data)))])
             else preturn (pushed_result e node vmid data dest True transport dt remote)) s1 = (Inr v, s')"
    using run by (auto simp: check_pushed_def pbind_Inr)
  obtain w where w: "checksum_from x = Inr (Inr (Some w))" "w = [] \<or> w = xe_sha e data"
    "v = pushed_result e node vmid data dest True transport dt (Some w)" "s' = s1"
    using k v by (auto simp: preturn_def praise_def pushed_result_verified split: sum.splits if_splits)
  obtain ws where ws: "sr_exit x = Some 0" "py_words (sr_out x) = w # ws" using checksum_from_some[OF w(1)] by blast
  have "w \<noteq> []" using py_words_nonempty[of w "sr_out x"] ws(2) by simp
  then have "w = xe_sha e data" using w(2) by simp
  moreover have "xe_exec e host c (xs_ssh s) = (Some x, xs_ssh s')" using x w(4) by (simp add: ssh_exec_Inr)
  ultimately show ?thesis using c ws w(3) verify pushed_result_sha by (auto simp: sum_answer_def)
qed

lemma running_guest_refused:
  assumes "running_guest h node vmid p = (Inr (Inl err), p')"
  shows "\<not> succeeded err"
proof -
  obtain g where "(case g of
          None \<Rightarrow> Inl (status_error (''VM/CT '' @ show_signed vmid @ '' not found on node '' @ quoted node @ ''.''))
        | Some (ty, st) \<Rightarrow>
            if st \<noteq> ''running''
            then Inl (PDict [(''status'', PStr ''error''),
                   (''error'', PStr (''VM/CT '' @ show_signed vmid @ '' is '' @ st @
                      '': start it first, files can only be pushed into a running guest.'')),
                   (''guest_status'', PStr st)])
            else Inr ty) = (Inl err :: pyval + string)"
    using assms by (auto simp only: running_guest_def pbind_Inr preturn_def prod.inject sum.inject)
  then show ?thesis by (cases g) (auto split: prod.splits if_splits)
qed

lemma push_staged_verified:
  assumes run: "push_staged e node vmid data dest verify drawn dt s = (Inr v, s')" and v: "succeeded v" "verified v"
  shows "get_or v ''sha256'' PNone = PStr (xe_sha e data) \<and> sum_answer e node vmid dest (xs_ssh s') (xe_sha e data)"
proof -
  obtain ty s1 where
    k: "(if ty = ''lxc'' then push_lxc e node vmid data dest verify drawn dt else push_qemu e node vmid data dest verify dt) s1 = (Inr v, s')"
  proof -
    obtain g s1 where g: "via_pve (running_guest (xe_host e) node vmid) s = (Inr g, s1)" and
      k: "(case g of Inl err \<Rightarrow> preturn err
          | Inr ty \<Rightarrow> if ty = ''lxc'' then push_lxc e node vmid data dest verify drawn dt
                     else push_qemu e node vmid data dest verify dt) s1 = (Inr v, s')"
      using run v(1) by (auto simp: push_staged_def pbind_Inr preturn_def no_ssh_def absolute_dest_def split: if_splits)
    show thesis
    proof (cases g)
      case (Inl err)
      then have "\<not> succeeded err" using g by (auto simp: via_pve_def split: prod.splits dest!: running_guest_refused)
      then show thesis using Inl k v(1) by (simp add: preturn_def)
    next
      case (Inr ty)
      then show thesis using k that by simp
    qed
  qed
  then obtain host c transport s2 where
    "check_pushed e host c node vmid data dest verify transport dt s2 = (Inr v, s')"
    "(host, c) \<in> {(node, ''pct exec '' @ show_signed vmid @ '' -- sha256sum '' @ shlex_quote dest), (show_signed vmid, ''sha256sum '' @ shlex_quote dest)}"
    using v(1) by (auto simp: push_lxc_def push_qemu_def Let_def pbind_Inr preturn_def praise_def split: if_splits option.splits)
  then show ?thesis using check_pushed_verified v by blast
qed

text \<open>
  C22: When \<open>proxmox_upload_file\<close> reports a verified success, the file was within the limit and the last
  thing done was \<open>sha256sum\<close> on the destination, in the guest, which exited with 0 and printed the very
  hash of the staged bytes; the staged file is as it was.
\<close>

theorem verified_upload_was_checked:
  assumes run: "upload_file e node vmid source dest verify drawn dt s = (Inr v, s')" and v: "succeeded v" "verified v"
  shows "\<exists>f data. staging_path e source = Inr f \<and> dget (xs_files s) f = Some data \<and> int (length data) \<le> max_bytes e
     \<and> get_or v ''sha256'' PNone = PStr (xe_sha e data)
     \<and> sum_answer e node vmid dest (xs_ssh s') (xe_sha e data) \<and> xs_files s' = xs_files s"
proof -
  obtain f data where f: "staging_path e source = Inr f" "dget (xs_files s) f = Some data" "int (length data) \<le> max_bytes e"
    "push_staged e node vmid data dest verify drawn dt s = (Inr v, s')"
    using run v(1) by (auto simp: upload_file_def no_ssh_def split: if_splits sum.splits option.splits)
  then show ?thesis using push_staged_verified[OF f(4) v] keeps_filesD[OF keeps_push f(4)] by blast
qed

subsection \<open>Downloads\<close>

definition outcome_ok :: "py_raise + pyval \<Rightarrow> bool" where
  "outcome_ok r \<longleftrightarrow> (case r of Inr v \<Rightarrow> succeeded v | Inl err \<Rightarrow> False)"

text \<open>What a download into the name \<open>f\<close> may do to the staging directory, given its outcome.\<close>

definition download_effect :: "string \<Rightarrow> (string, string) dict \<Rightarrow> bool \<Rightarrow> (string, string) dict \<Rightarrow> bool" where
  "download_effect f d ok d' \<longleftrightarrow>
     (\<forall>g. g \<noteq> f \<and> g \<noteq> part_of f \<longrightarrow> dget d' g = dget d g)
   \<and> (if ok then dget d' f \<noteq> None \<and> dget d' (part_of f) = None else dget d' f = dget d f)
   \<and> (dget d (part_of f) = None \<longrightarrow> dget d' (part_of f) = None)"

definition lands :: "string \<Rightarrow> ('c, 'w, 's, pyval) xfer \<Rightarrow> bool" where
  "lands f m \<longleftrightarrow> (\<forall>s r s'. m s = (r, s') \<longrightarrow> download_effect f (xs_files s) (outcome_ok r) (xs_files s'))"

lemma part_of_neq [simp]: "part_of f \<noteq> f" "f \<noteq> part_of f"
  by (simp_all add: part_of_def)

lemma effect_refl [simp]: "download_effect f d False d"
  by (simp add: download_effect_def)

lemma outcome_basic [simp]: "\<not> outcome_ok (Inl err)" "outcome_ok (Inr v) = succeeded v"
  by (simp_all add: outcome_ok_def)

lemma lands_return: "\<not> succeeded v \<Longrightarrow> lands f (preturn v)"
  by (simp add: lands_def preturn_def)

lemma lands_after: "keeps_files m \<Longrightarrow> (\<And>x. lands f (k x)) \<Longrightarrow> lands f (pbind m k)"
  by (auto simp: lands_def pbind_def split: prod.splits sum.splits dest: keeps_filesD) (metis effect_refl keeps_filesD)+

text \<open>The transfer and what follows it, from a directory where only the partial file may have changed.\<close>

lemma settle_effect:
  assumes run: "settle_download e node vmid source f verify remote transport dt s = (r, s')"
    and others: "\<forall>g. g \<noteq> part_of f \<longrightarrow> dget (xs_files s) g = dget d g"
    and data: "dget (xs_files s) (part_of f) = None \<longrightarrow> dget d (part_of f) = None"
  shows "download_effect f d (outcome_ok r) (xs_files s')"
proof (cases "dget (xs_files s) (part_of f)")
  case None
  then show ?thesis using run others by (auto simp: settle_download_def download_effect_def)
next
  case (Some data)
  show ?thesis
  proof (cases "verify \<and> remote \<noteq> None \<and> remote \<noteq> Some [] \<and> remote \<noteq> Some (xe_sha e data)")
    case True
    then show ?thesis using run others Some by (auto simp: settle_download_def download_effect_def)
  next
    case False
    then have "s' = s\<lparr>xs_files := dset f data (dpop (part_of f) (xs_files s))\<rparr>" "outcome_ok r"
      using run Some by (auto simp: settle_download_def succeeded_def get_or_def)
    then show ?thesis using others by (auto simp: download_effect_def)
  qed
qed

text \<open>What a directory may have become while only the partial file of \<open>f\<close> was written.\<close>

definition part_written :: "string \<Rightarrow> (string, string) dict \<Rightarrow> (string, string) dict \<Rightarrow> bool" where
  "part_written f d d1 \<longleftrightarrow> (\<forall>g. g \<noteq> part_of f \<longrightarrow> dget d1 g = dget d g)
     \<and> (dget d1 (part_of f) = None \<longrightarrow> dget d (part_of f) = None)"

lemma receive_part_writes:
  assumes "receive_part e host remote f s = (r, s1)"
  shows "\<exists>err. r = Inr err \<and> part_written f (xs_files s) (xs_files s1)"
  using assms by (auto simp: receive_part_def part_written_def Let_def split: prod.splits option.splits)

text \<open>The end of a download: an error removes the partial file, otherwise the download settles.\<close>

definition end_download :: "string \<Rightarrow> (string \<Rightarrow> pyval) \<Rightarrow> ('c, 'w, 's, pyval) xfer \<Rightarrow> string option \<Rightarrow> ('c, 'w, 's, pyval) xfer" where
  "end_download f fail settle err =
     (case err of Some t \<Rightarrow> pbind (update_files (dpop (part_of f))) (\<lambda>_. preturn (fail t)) | None \<Rightarrow> settle)"

lemma end_download_effect:
  assumes run: "end_download f fail (settle_download e node vmid source f verify remote transport dt) err s = (r, s')"
    and d: "part_written f d (xs_files s)" and fail: "\<And>t. \<not> succeeded (fail t)"
  shows "download_effect f d (outcome_ok r) (xs_files s')"
proof (cases err)
  case None
  then show ?thesis using run d settle_effect[of e node vmid source f verify remote transport dt s r s' d]
    by (simp add: end_download_def part_written_def)
next
  case (Some t)
  then have "r = Inr (fail t)" "s' = s\<lparr>xs_files := dpop (part_of f) (xs_files s)\<rparr>"
    using run by (auto simp: end_download_def update_files_def pbind_def preturn_def)
  then show ?thesis using d fail by (auto simp: download_effect_def part_written_def)
qed

lemma lands_transfer:
  assumes "\<And>t. \<not> succeeded (fail t)"
  shows "lands f (pbind (receive_part e host remote f) (end_download f fail (settle_download e node vmid source f verify sha transport dt)))"
  unfolding lands_def
proof (intro allI impI)
  fix s r s'
  assume run: "pbind (receive_part e host remote f) (end_download f fail (settle_download e node vmid source f verify sha transport dt)) s = (r, s')"
  obtain r1 s1 where "receive_part e host remote f s = (r1, s1)" by fastforce
  then obtain err where err: "receive_part e host remote f s = (Inr err, s1)" "part_written f (xs_files s) (xs_files s1)"
    using receive_part_writes by metis
  then show "download_effect f (xs_files s) (outcome_ok r) (xs_files s')"
    using run assms by (intro end_download_effect[of f fail e node vmid source verify sha transport dt err s1]) (auto simp: pbind_def)
qed

lemma lands_transfer_node:
  assumes "\<And>t. \<not> succeeded (fail t)"
  shows "lands f (pbind (receive_part e host remote f)
    (\<lambda>err. pbind (remove_remote e host' path) (\<lambda>_. end_download f fail (settle_download e node vmid source f verify sha transport dt) err)))"
  unfolding lands_def
proof (intro allI impI)
  fix s r s'
  assume run: "pbind (receive_part e host remote f)
    (\<lambda>err. pbind (remove_remote e host' path) (\<lambda>_. end_download f fail (settle_download e node vmid source f verify sha transport dt) err)) s = (r, s')"
  obtain r1 s1 where "receive_part e host remote f s = (r1, s1)" by fastforce
  then obtain err where err: "receive_part e host remote f s = (Inr err, s1)" "part_written f (xs_files s) (xs_files s1)"
    using receive_part_writes by metis
  obtain s2 where s2: "remove_remote e host' path s1 = (Inr (), s2)" by (auto simp: remove_remote_def via_ssh_def)
  then have "xs_files s2 = xs_files s1" using keeps_filesD[OF keeps_ssh(2)] by metis
  then show "download_effect f (xs_files s) (outcome_ok r) (xs_files s')"
    using run assms err s2 by (intro end_download_effect[of f fail e node vmid source verify sha transport dt err s2]) (auto simp: pbind_def)
qed

lemma size_check_refuses: "size_check e host c source what s = (Inr (Some err), s') \<Longrightarrow> \<not> succeeded err"
  by (auto simp: size_check_def pbind_Inr preturn_def split: if_splits)

lemma lands_if_small:
  assumes "lands f k"
  shows "lands f (pbind (size_check e host c source what) (\<lambda>refused. case refused of Some err \<Rightarrow> preturn err | None \<Rightarrow> k))"
  unfolding lands_def
proof (intro allI impI)
  fix s r s'
  assume run: "pbind (size_check e host c source what) (\<lambda>refused. case refused of Some err \<Rightarrow> preturn err | None \<Rightarrow> k) s = (r, s')"
  obtain r1 s1 where s1: "size_check e host c source what s = (r1, s1)" by fastforce
  then have files: "xs_files s1 = xs_files s" using keeps_filesD[OF keeps_download_checks(1)] by metis
  show "download_effect f (xs_files s) (outcome_ok r) (xs_files s')"
  proof (cases "r1 = Inr None")
    case True
    then have "k s1 = (r, s')" using run s1 by (simp add: pbind_def)
    then show ?thesis using assms files by (metis lands_def)
  next
    case False
    then have "s' = s1 \<and> \<not> outcome_ok r"
      using run s1 by (auto simp: pbind_def preturn_def split: sum.splits option.splits dest: size_check_refuses)
    then show ?thesis using files by simp
  qed
qed

lemma lands_lxc: "lands f (download_lxc e node vmid source f verify drawn dt)"
  unfolding download_lxc_def Let_def end_download_def[symmetric]
  by (intro lands_if_small lands_after keeps) (auto intro!: lands_after keeps lands_return lands_transfer_node)

lemma lands_qemu: "lands f (download_qemu e node vmid source f verify dt)"
  unfolding download_qemu_def Let_def
  by (auto split: option.splits intro!: lands_return lands_if_small lands_after keeps lands_transfer[unfolded end_download_def])

text \<open>
  C23: \<open>proxmox_download_file\<close> changes no staged file but its own: whatever happens on the way, all other
  names but the partial file keep their content; unless it succeeds the destination is as it was, and
  without \<open>overwrite\<close> so is the whole directory when the destination exists; no partial file is left
  where none was.
\<close>

theorem download_replaces_or_leaves:
  assumes "staging_path e dest = Inr f" "download_file e node vmid source dest verify overwrite drawn dt s = (r, s')"
  shows "(\<forall>g. g \<noteq> f \<and> g \<noteq> part_of f \<longrightarrow> dget (xs_files s') g = dget (xs_files s) g)
     \<and> (if outcome_ok r then dget (xs_files s') f \<noteq> None \<and> dget (xs_files s') (part_of f) = None
        else dget (xs_files s') f = dget (xs_files s) f)
     \<and> (dget (xs_files s) (part_of f) = None \<longrightarrow> dget (xs_files s') (part_of f) = None)
     \<and> (dget (xs_files s) f \<noteq> None \<and> \<not> overwrite \<longrightarrow> s' = s)"
proof -
  have body: "lands f (pbind (via_pve (detect_vm_type (xe_host e) node vmid))
            (\<lambda>t. case t of
               None \<Rightarrow> preturn (status_error (''VM/CT '' @ show_signed vmid @ '' not found on node '' @ quoted node @ ''.''))
             | Some ty \<Rightarrow> if ty = ''lxc'' then download_lxc e node vmid source f verify drawn dt
                        else download_qemu e node vmid source f verify dt))"
    by (auto intro!: lands_after keeps lands_return lands_lxc lands_qemu split: option.splits)
  have "download_effect f (xs_files s) (outcome_ok r) (xs_files s')"
  proof (cases "xe_ssh e \<and> \<not> (dget (xs_files s) f \<noteq> None \<and> \<not> overwrite) \<and> startswith source ''/''")
    case True
    then show ?thesis using assms body by (auto simp: download_file_def lands_def)
  next
    case False
    then have "s' = s \<and> \<not> outcome_ok r" using assms by (auto simp: download_file_def no_ssh_def split: if_splits)
    then show ?thesis by simp
  qed
  moreover have "dget (xs_files s) f \<noteq> None \<and> \<not> overwrite \<longrightarrow> s' = s"
    using assms by (auto simp: download_file_def no_ssh_def split: if_splits)
  ultimately show ?thesis by (simp add: download_effect_def)
qed

lemma checksum_of_answer:
  assumes "checksum_of e host c verify s = (Inr (Some h), s')"
    "(host, c) \<in> {(node, ''pct exec '' @ show_signed vmid @ '' -- sha256sum '' @ shlex_quote path), (show_signed vmid, ''sha256sum '' @ shlex_quote path)}"
  shows "\<exists>p. h \<noteq> [] \<and> sum_answer e node vmid path p h"
proof -
  obtain x ws where x: "xe_exec e host c (xs_ssh s) = (Some x, xs_ssh s')" "sr_exit x = Some 0" "py_words (sr_out x) = h # ws"
    using assms(1) by (auto simp: checksum_of_def pbind_Inr ssh_exec_Inr preturn_def praise_def split: if_splits list.splits)
  have "h \<noteq> []" using py_words_nonempty[of h "sr_out x"] x(3) by simp
  then show ?thesis using x assms(2) by (auto simp: sum_answer_def)
qed

lemma settle_verified:
  assumes "settle_download e node vmid source f True remote transport dt s = (Inr v, s')" "succeeded v" "verified v" "remote \<noteq> Some []"
  shows "\<exists>data. remote = Some (xe_sha e data) \<and> dget (xs_files s') f = Some data \<and> get_or v ''sha256'' PNone = PStr (xe_sha e data)"
  using assms by (auto simp: settle_download_def verified_def get_or_def split: option.splits if_splits)

text \<open>
  When \<open>proxmox_download_file\<close> reports a verified success, the hash it reports is that of the bytes now
  staged under the destination, and \<open>sha256sum\<close> on the source, in the guest, exited with 0 and printed it.
\<close>

theorem verified_download_matches:
  assumes run: "download_file e node vmid source dest True overwrite drawn dt s = (Inr v, s')" and v: "succeeded v" "verified v"
  shows "\<exists>f data. staging_path e dest = Inr f \<and> dget (xs_files s') f = Some data
     \<and> get_or v ''sha256'' PNone = PStr (xe_sha e data) \<and> (\<exists>p. sum_answer e node vmid source p (xe_sha e data))"
proof -
  obtain f ty s1 where f: "staging_path e dest = Inr f" and
    k: "(if ty = ''lxc'' then download_lxc e node vmid source f True drawn dt else download_qemu e node vmid source f True dt) s1 = (Inr v, s')"
  proof -
    obtain f t s1 where f: "staging_path e dest = Inr f" and
      k: "(case t of
               None \<Rightarrow> preturn (status_error (''VM/CT '' @ show_signed vmid @ '' not found on node '' @ quoted node @ ''.''))
             | Some ty \<Rightarrow> if ty = ''lxc'' then download_lxc e node vmid source f True drawn dt
                        else download_qemu e node vmid source f True dt) s1 = (Inr v, s')"
      using run v(1) by (auto simp: download_file_def no_ssh_def pbind_Inr split: if_splits sum.splits)
    then show thesis using v(1) that by (cases t) (auto simp: preturn_def)
  qed
  then obtain host c remote transport s2 s3 s4 where
    sum: "checksum_of e host c True s2 = (Inr remote, s3)"
      "(host, c) \<in> {(node, ''pct exec '' @ show_signed vmid @ '' -- sha256sum '' @ shlex_quote source), (show_signed vmid, ''sha256sum '' @ shlex_quote source)}"
    and settle: "settle_download e node vmid source f True remote transport dt s4 = (Inr v, s')"
    using v(1)
    by (auto simp: download_lxc_def download_qemu_def Let_def pbind_Inr preturn_def split: if_splits option.splits dest: size_check_refuses)
  have answer: "\<exists>p. h \<noteq> [] \<and> sum_answer e node vmid source p h" if "remote = Some h" for h
    using checksum_of_answer sum that by blast
  obtain data where "remote = Some (xe_sha e data)" "dget (xs_files s') f = Some data" "get_or v ''sha256'' PNone = PStr (xe_sha e data)"
    using settle_verified[OF settle v] answer by blast
  then show ?thesis using f answer by blast
qed

subsection \<open>Fetching a URL\<close>

lemma dpop_fresh: "dget d k = None \<Longrightarrow> dpop k d = d"
  by (simp add: map_of_eq_None_iff)

lemma dpop_dset_fresh: "dget d k = None \<Longrightarrow> dpop k (dset k v d) = d"
  by (induction d) (auto split: if_splits)

lemma write_chunks_bound: "write_chunks cap acc cs = (d, over) \<Longrightarrow> int (length acc) \<le> cap \<Longrightarrow> int (length d) \<le> cap"
  by (induction cs arbitrary: acc) (auto split: if_splits)

lemma fetch_body_files:
  assumes run: "fetch_body e node vmid url dest verify f drawn dt fetch_s s = (r, s')"
    and fresh: "dget (xs_files s) f = None" "dget (xs_files s) (part_of f) = None"
  shows "dpop f (dpop (part_of f) (xs_files s')) = xs_files s"
proof -
  define d where "d = xs_files s"
  have push: "xs_files s2 = xs_files s1"
    if "pbind (push_staged e node vmid data dest verify drawn dt) (\<lambda>x. preturn (g x)) s1 = (r2, s2)" for data g r2 s1 s2
    using keeps_filesD[OF keeps_bind[OF keeps_push keeps_basic(1)] that] .
  have "xs_files s' = d \<or> (\<exists>data. xs_files s' = dset (part_of f) data d)
      \<or> (\<exists>data. xs_files s' = dset f data (dpop (part_of f) (dset (part_of f) data d)))"
    using run unfolding d_def
    by (auto simp: fetch_body_def Let_def split: prod.splits http_stream.splits if_splits dest!: push)
  moreover have "dget d f = None" "dget d (part_of f) = None" using fresh by (simp_all add: d_def)
  ultimately show ?thesis
    unfolding d_def[symmetric] by (auto simp: dpop_fresh dpop_dset_fresh)
qed

text \<open>
  \<open>proxmox_fetch_url\<close> leaves nothing in the staging directory, whether it succeeds, is refused, breaks
  off or raises: under a fresh name the directory is afterwards exactly what it was.
\<close>

theorem fetch_leaves_nothing_staged:
  assumes "fetch_url e node vmid url dest verify drawn drawn' dt fetch_s s = (r, s')"
    and "dget (xs_files s) (fetch_name drawn) = None" "dget (xs_files s) (part_of (fetch_name drawn)) = None"
  shows "xs_files s' = xs_files s"
proof -
  let ?run = "via_pve (running_guest (xe_host e) node vmid) s"
  obtain g s1 where g: "?run = (g, s1)" by (cases ?run) (rule that)
  then have s1: "xs_files s1 = xs_files s" using keeps_filesD[OF keeps_basic(3)] by metis
  let ?body = "fetch_body e node vmid url dest verify (fetch_name drawn) drawn' dt fetch_s s1"
  obtain b s2 where b: "?body = (b, s2)" by (cases ?body) (rule that)
  have "dpop (fetch_name drawn) (dpop (part_of (fetch_name drawn)) (xs_files s2)) = xs_files s"
    using fetch_body_files[OF b] assms(2,3) s1 by simp
  then show ?thesis
    using assms(1) g b s1 by (auto simp: fetch_url_def Let_def split: if_splits option.splits sum.splits prod.splits)
qed

subsection \<open>A run\<close>

text \<open>A running guest, in which the SSH client keeps one file and answers every \<open>sha256sum\<close> about it.\<close>

definition demo_config :: config where
  "demo_config = (case from_yaml demo_env (demo_yaml ''x'') of Inr c \<Rightarrow> c | Inl _ \<Rightarrow> undefined)"

definition running_node :: "string \<Rightarrow> (unit, unit) pve_host" where
  "running_node kind = \<lparr>ph_config = demo_config,
     ph_connect = (\<lambda>_ _ _ _ _ w. (Returned (), w)), ph_trust = (\<lambda>_ _ w. (Returned (), w)),
     ph_send = (\<lambda>_ _ parts _ w. (Returned (PDict (if kind \<in> set parts then [(''status'', PStr ''running'')] else [(''error'', PStr ''no'')])), w))\<rparr>"

definition length_hash :: "string \<Rightarrow> string" where "length_hash d = CHR ''h'' # show_int (int (length d))"

definition one_file_env :: "string \<Rightarrow> (unit, unit, string) xfer_env" where
  "one_file_env kind = \<lparr>xe_host = running_node kind, xe_ssh = True, xe_put = (\<lambda>_ data _ _. (None, data)),
     xe_get = (\<lambda>_ _ data. ((None, Some data), data)), xe_remove = (\<lambda>_ _ data. data),
     xe_exec = (\<lambda>_ command data. (Some \<lparr>sr_exit = Some (if startswith command ''test'' then 1 else 0),
        sr_out = length_hash data @ '' -'', sr_err = [], sr_error = []\<rparr>, data)),
     xe_resolve = (\<lambda>_. None), xe_stream = (\<lambda>_ data. (Http_reply 200 [] [''abc'', ''de''] None, data)),
     xe_sha = length_hash, xe_place = Some, xe_round = PFloat\<rparr>"

definition staged_state :: "(string, string) dict \<Rightarrow> (unit, unit, string) xfer_state" where
  "staged_state d = \<lparr>xs_pve = \<lparr>pv_cache = [(''n'', ())], pv_world = ()\<rparr>, xs_ssh = ''old'', xs_files = d\<rparr>"

definition run_ok :: "(py_raise + pyval) \<times> 'x \<Rightarrow> bool" where
  "run_ok x = (case x of (Inr v, s) \<Rightarrow> succeeded v \<and> verified v | _ \<Rightarrow> False)"

lemma run_okD: "run_ok x \<Longrightarrow> \<exists>v s'. x = (Inr v, s') \<and> succeeded v \<and> verified v"
  by (auto simp: run_ok_def split: prod.splits sum.splits)

lemma upload_sample: "run_ok (upload_file (one_file_env ''qemu'') ''n'' 100 ''a'' ''/root/a'' True ''0123456789abcdef'' 1 (staged_state [(''a'', ''abc'')]))"
  by code_simp

lemma download_sample: "run_ok (download_file (one_file_env ''lxc'') ''n'' 100 ''/root/a'' ''b'' True False ''0123456789abcdef'' 1 (staged_state [(''a'', ''abc'')]))"
  by code_simp

lemma verified_upload_was_checked_witness:
  "\<exists>v s' data. upload_file (one_file_env ''qemu'') ''n'' 100 ''a'' ''/root/a'' True ''0123456789abcdef'' 1 (staged_state [(''a'', ''abc'')]) = (Inr v, s')
     \<and> get_or v ''sha256'' PNone = PStr (length_hash data)"
proof -
  obtain v s' where run: "upload_file (one_file_env ''qemu'') ''n'' 100 ''a'' ''/root/a'' True ''0123456789abcdef'' 1 (staged_state [(''a'', ''abc'')]) = (Inr v, s')"
    and v: "succeeded v" "verified v"
    using run_okD[OF upload_sample] by blast
  have "xe_sha (one_file_env ''qemu'') = length_hash" by (simp add: one_file_env_def)
  then show ?thesis using verified_upload_was_checked[OF run v] run by auto
qed

lemma sample_place: "staging_path (one_file_env kind) ''b'' = Inr ''b''"
  by code_simp

lemma download_replaces_or_leaves_witness:
  "\<exists>r s'. download_file (one_file_env ''lxc'') ''n'' 100 ''/root/a'' ''b'' True False ''0123456789abcdef'' 1 (staged_state [(''a'', ''abc'')]) = (r, s')
     \<and> dget (xs_files s') ''a'' = Some ''abc''"
proof -
  obtain v s' where run: "download_file (one_file_env ''lxc'') ''n'' 100 ''/root/a'' ''b'' True False ''0123456789abcdef'' 1 (staged_state [(''a'', ''abc'')]) = (Inr v, s')"
    using run_okD[OF download_sample] by blast
  have "''a'' \<noteq> part_of ''b''" by (simp add: part_of_def)
  then have "dget (xs_files s') ''a'' = dget (xs_files (staged_state [(''a'', ''abc'')])) ''a''"
    using download_replaces_or_leaves[OF sample_place run] by simp
  then show ?thesis using run by (auto simp: staged_state_def)
qed

lemma verified_download_matches_witness:
  "\<exists>v s' data. download_file (one_file_env ''lxc'') ''n'' 100 ''/root/a'' ''b'' True False ''0123456789abcdef'' 1 (staged_state [(''a'', ''abc'')]) = (Inr v, s')
     \<and> get_or v ''sha256'' PNone = PStr (length_hash data) \<and> dget (xs_files s') ''b'' = Some data"
proof -
  obtain v s' where run: "download_file (one_file_env ''lxc'') ''n'' 100 ''/root/a'' ''b'' True False ''0123456789abcdef'' 1 (staged_state [(''a'', ''abc'')]) = (Inr v, s')"
    and v: "succeeded v" "verified v"
    using run_okD[OF download_sample] by blast
  have "xe_sha (one_file_env ''lxc'') = length_hash" by (simp add: one_file_env_def)
  then show ?thesis using verified_download_matches[OF run v] sample_place[of "''lxc''"] run by auto
qed

lemma fetch_leaves_nothing_staged_witness:
  "\<exists>r s'. fetch_url (one_file_env ''lxc'') ''n'' 100 ''https://x/a'' ''/root/a'' True ''0123456789abcdef'' ''fedcba9876543210'' 1 1 (staged_state [(''a'', ''abc'')]) = (r, s')
     \<and> xs_files s' = [(''a'', ''abc'')]"
proof -
  let ?run = "fetch_url (one_file_env ''lxc'') ''n'' 100 ''https://x/a'' ''/root/a'' True ''0123456789abcdef'' ''fedcba9876543210'' 1 1 (staged_state [(''a'', ''abc'')])"
  obtain r s' where run: "?run = (r, s')" by (cases ?run) (rule that)
  have "xs_files s' = xs_files (staged_state [(''a'', ''abc'')])"
    by (rule fetch_leaves_nothing_staged[OF run]) (code_simp, code_simp)
  then show ?thesis using run by (auto simp: staged_state_def)
qed

text \<open>
  The partial file is not protected by \<open>overwrite\<close>: downloading into \<open>b\<close> replaces and removes a staged
  file that is called \<open>b.part\<close>.
\<close>

lemma download_loses_part_file:
  "(case download_file (one_file_env ''lxc'') ''n'' 100 ''/root/a'' ''b'' True False ''0123456789abcdef'' 1 (staged_state [(''b.part'', ''kept'')]) of
      (r, s') \<Rightarrow> outcome_ok r \<and> dget (xs_files s') ''b.part'' = None)"
  by code_simp

end
