(* ===== verification/Outbound_Props.thy ===== *)
theory Outbound_Props
  imports Outbound
begin

text \<open>
  Where the server connects to: logos only from public addresses of one host, fetched URLs never from
  the server itself or its link.  \<open>watched\<close> hosts also write down every connection.
\<close>

subsection \<open>Logos\<close>

definition watched :: "'w web \<Rightarrow> ('w \<times> (string \<times> string) list) web" where
  "watched b = \<lparr>wb_resolve = (\<lambda>host port (w, l). case wb_resolve b host port w of (r, w') \<Rightarrow> (r, (w', l))),
     wb_get = (\<lambda>ip port hdr sni url (w, l). case wb_get b ip port hdr sni url w of (r, w') \<Rightarrow> (r, (w', l @ [(ip, sni)]))),
     wb_join = wb_join b\<rparr>"

lemma check_public_all: "check_public host as = Inr () \<Longrightarrow> a \<in> set as \<Longrightarrow> public_address a = Some True"
  by (induction as) (auto split: option.splits if_splits)

lemma public_ip_public:
  assumes "public_ip b host port w = (Inr ip, w')"
  shows "public_address ip = Some True"
proof -
  obtain as where "check_public host (ip # as) = Inr ()"
    using assms by (auto simp: public_ip_def simp del: check_public.simps split: prod.splits option.splits list.splits sum.splits)
  then show ?thesis by (rule check_public_all) simp
qed

lemma public_ip_log: "snd (snd (public_ip (watched b) host port w)) = snd w"
  by (cases w) (auto simp: public_ip_def watched_def split: prod.splits option.splits list.splits)

lemma read_capped_length: "read_capped cap acc cs = Some d \<Longrightarrow> length acc \<le> cap \<Longrightarrow> length d \<le> cap"
  by (induction cs arbitrary: acc) (auto simp: Let_def split: if_splits)

lemma read_logo_ok:
  assumes "read_logo r = Inr (d, ext)"
  shows "length d \<le> MAX_LOGO_BYTES \<and> ext \<in> {''png'', ''jpg'', ''webp'', ''ico''}"
proof -
  have d: "read_capped MAX_LOGO_BYTES [] (hr_chunks r) = Some d" "sniff d = Some ext"
    using assms by (auto simp: read_logo_def split: option.splits)
  have "ext \<in> {''png'', ''jpg'', ''webp'', ''ico''}" using d(2) by (simp add: sniff_def split: if_splits)
  then show ?thesis using read_capped_length[OF d(1)] by simp
qed

definition host_of :: "string \<Rightarrow> string" where
  "host_of url = (case urlparse url of Some (scheme, netloc) \<Rightarrow> url_hostname netloc | None \<Rightarrow> [])"

definition contact_ok :: "string \<Rightarrow> string \<times> string \<Rightarrow> bool" where
  "contact_ok host c \<longleftrightarrow> public_address (fst c) = Some True \<and> snd c = host"

definition logo_ok :: "logo_error + string \<times> string \<Rightarrow> bool" where
  "logo_ok r \<longleftrightarrow> (case r of Inl e \<Rightarrow> True | Inr (d, ext) \<Rightarrow> length d \<le> 262144 \<and> ext \<in> {''png'', ''jpg'', ''webp'', ''ico''})"

lemma fetch_hops_confined:
  assumes "fetch_hops (watched b) n url w = (r, w')"
  shows "\<exists>l. snd w' = snd w @ l \<and> length l \<le> n \<and> list_all (contact_ok (host_of url)) l \<and> logo_ok r"
  using assms
proof (induction n arbitrary: url w)
  case 0
  then show ?case by (auto simp: logo_ok_def)
next
  case (Suc n)
  have stop: ?case if "snd w' = snd w" "\<exists>e. r = Inl e" using that by (auto simp: logo_ok_def)
  obtain pr where pr: "urlparse url = pr" by simp
  show ?case
  proof (cases "\<exists>netloc p. urlparse url = Some (''https'', netloc) \<and> url_hostname netloc \<noteq> [] \<and> url_username netloc = [] \<and> url_port netloc = Some p")
    case False
    then have "w' = w \<and> (\<exists>e. r = Inl e)"
      using Suc.prems by (auto simp: Let_def split: option.splits prod.splits if_splits)
    then show ?thesis using stop by blast
  next
    case True
    then obtain netloc p where u: "urlparse url = Some (''https'', netloc)" "url_hostname netloc \<noteq> []" "url_username netloc = []"
        "url_port netloc = Some p" by blast
    let ?host = "url_hostname netloc"
    let ?port = "case p of None \<Rightarrow> 443 | Some k \<Rightarrow> if k = 0 then 443 else k"
    let ?hdr = "case p of None \<Rightarrow> ?host | Some k \<Rightarrow> ?host @ '':'' @ show_int ?port"
    have host: "host_of url = ?host" by (simp add: host_of_def u)
    obtain a w1 where a: "public_ip (watched b) ?host ?port w = (a, w1)" by (metis surj_pair)
    have w1: "snd w1 = snd w" using public_ip_log[of b ?host ?port w] a by simp
    show ?thesis
    proof (cases a)
      case (Inl e)
      then have "w' = w1 \<and> r = Inl e" using Suc.prems u a by (simp add: Let_def)
      then show ?thesis using stop w1 by metis
    next
      case (Inr ip)
      let ?call = "wb_get (watched b) ip ?port ?hdr ?host url w1"
      obtain g w2 where g: "?call = (g, w2)" by (cases ?call) (rule that)
      have w2: "snd w2 = snd w @ [(ip, ?host)]"
        using g w1 by (cases w1) (auto simp: watched_def split: prod.splits)
      have ok: "contact_ok ?host (ip, ?host)"
        using public_ip_public[of "watched b" ?host ?port w ip w1] a Inr by (simp add: contact_ok_def)
      have one: ?thesis if "snd w' = snd w2" "logo_ok r"
        using that w2 ok host by (intro exI[of _ "[(ip, ?host)]"]) simp
      have "(case g of
            None \<Rightarrow> (Inl Logo_failed, w2)
          | Some rp \<Rightarrow>
              if hr_status rp \<in> {301, 302, 303, 307, 308} then
                (let target = wb_join (watched b) url (hr_location rp)
                 in case urlparse target of
                      None \<Rightarrow> (Inl Logo_failed, w2)
                    | Some (scheme2, netloc2) \<Rightarrow>
                        if url_hostname netloc2 \<noteq> ?host then (Inl (Unsafe_logo ''cross-host redirect''), w2)
                        else fetch_hops (watched b) n target w2)
              else if hr_status rp \<noteq> 200 then (Inl (Unsafe_logo (''HTTP '' @ show_int (hr_status rp))), w2)
              else (read_logo rp, w2)) = (r, w')"
        using Suc.prems u a Inr g by (simp add: Let_def)
      note run = this[unfolded Let_def]
      show ?thesis
      proof (cases "\<exists>rp netloc2 scheme2. g = Some rp \<and> hr_status rp \<in> {301, 302, 303, 307, 308}
          \<and> urlparse (wb_join (watched b) url (hr_location rp)) = Some (scheme2, netloc2) \<and> url_hostname netloc2 = ?host")
        case True
        then obtain rp netloc2 scheme2 where rp: "g = Some rp" "hr_status rp \<in> {301, 302, 303, 307, 308}"
          "urlparse (wb_join (watched b) url (hr_location rp)) = Some (scheme2, netloc2)" "url_hostname netloc2 = ?host" by blast
        let ?target = "wb_join (watched b) url (hr_location rp)"
        have "fetch_hops (watched b) n ?target w2 = (r, w')" using run unfolding rp(1) by (simp only: option.case rp(2-4) if_True prod.case simp_thms if_False)
        from Suc.IH[OF this] obtain l where l: "snd w' = snd w2 @ l" "length l \<le> n" "list_all (contact_ok (host_of ?target)) l" "logo_ok r" by blast
        have "host_of ?target = ?host" by (simp only: host_of_def rp option.case prod.case)
        then show ?thesis using l w2 ok host by (intro exI[of _ "(ip, ?host) # l"]) simp
      next
        case False
        then have "w' = w2 \<and> ((\<exists>e. r = Inl e) \<or> (\<exists>rp. r = read_logo rp))"
          using run by (auto split: option.splits prod.splits if_splits)
        moreover have "logo_ok (read_logo rp)" for rp
          using read_logo_ok[of rp] by (auto simp: logo_ok_def MAX_LOGO_BYTES_def split: sum.splits)
        ultimately show ?thesis using one by (auto simp: logo_ok_def)
      qed
    qed
  qed
qed

text \<open>
  Fetching a logo is confined, whatever URL the client registered and whatever DNS and the servers
  answer: at most three requests go out, each to an address that was just resolved and found public (the
  checked address itself is connected to, so a changed DNS answer changes nothing), all for the host of
  the first URL; and what comes back has at most 256 KiB and starts like a PNG, JPEG, WebP or ICO file.
\<close>

theorem logo_fetch_is_confined:
  "case safe_fetch (watched b) url w of
     (r, w') \<Rightarrow> \<exists>l. snd w' = snd w @ l \<and> length l \<le> 3 \<and> list_all (contact_ok (host_of url)) l \<and> logo_ok r"
  using fetch_hops_confined[of b 3 url w] by (auto simp: safe_fetch_def split: prod.splits)

subsection \<open>The cache\<close>

lemma oldest_names_set: "set (oldest_names k d) \<subseteq> set (dkeys d)"
proof
  fix x assume "x \<in> set (oldest_names k d)"
  then have "x \<in> snd ` set (take k (sort (map (\<lambda>(name, mtime, data). (mtime, name)) d)))" by (simp add: oldest_names_def)
  also have "\<dots> \<subseteq> snd ` set (sort (map (\<lambda>(name, mtime, data). (mtime, name)) d))" by (rule image_mono[OF set_take_subset])
  also have "\<dots> = set (dkeys d)" by force
  finally show "x \<in> set (dkeys d)" .
qed

lemma oldest_names_distinct: "dict_ok d \<Longrightarrow> distinct (oldest_names k d)"
proof -
  assume d: "dict_ok d"
  let ?l = "map (\<lambda>(name, mtime, data). (mtime, name)) d"
  have "map snd ?l = dkeys d" by (induction d) auto
  then have "distinct ?l" "inj_on snd (set ?l)" using d by (metis distinct_map)+
  then have "distinct (map snd (sort ?l))" by (subst distinct_map) (simp only: distinct_sort set_sort simp_thms)
  then show ?thesis by (simp add: oldest_names_def distinct_take flip: take_map)
qed

lemma length_drop_keys:
  assumes "dict_ok d" "distinct ks" "set ks \<subseteq> set (dkeys d)"
  shows "length (drop_keys ks d) + length ks = length d"
proof -
  have "length (drop_keys ks d) = card (set (dkeys d) - set ks)"
  proof -
    have "dkeys (drop_keys ks d) = [k \<leftarrow> dkeys d. k \<notin> set ks]" by (simp add: drop_keys_def filter_map comp_def)
    then have "length (drop_keys ks d) = length [k \<leftarrow> dkeys d. k \<notin> set ks]" by (metis length_map)
    also have "\<dots> = card (set [k \<leftarrow> dkeys d. k \<notin> set ks])" using assms(1) by (intro distinct_card[symmetric]) simp
    also have "set [k \<leftarrow> dkeys d. k \<notin> set ks] = set (dkeys d) - set ks" by auto
    finally show ?thesis .
  qed
  moreover have "card (set (dkeys d) - set ks) = length d - length ks"
    using assms by (metis List.finite_set card_Diff_subset distinct_card length_map)
  moreover have "length ks \<le> length d"
    using assms by (metis card_mono distinct_card length_map List.finite_set)
  ultimately show ?thesis by simp
qed

lemma length_dset_le: "length (dset k v d) \<le> Suc (length d)"
  by (induction d) auto

text \<open>
  The logo cache stays bounded, though anyone with a token can make the server fetch icons: after every
  fetch the directory holds at most 200 files, and the table of failed URLs at most
  1000 entries.
\<close>

theorem logo_cache_is_bounded:
  assumes "case lg_dir s of Some d \<Rightarrow> dict_ok d \<and> length d \<le> n | None \<Rightarrow> True" "length (lg_failed s) \<le> 1000"
  shows "length (lg_failed (fill_logo H url res mtime now s)) \<le> 1000 \<and>
    (case lg_dir (fill_logo H url res mtime now s) of
       Some d' \<Rightarrow> dict_ok d' \<and> length d' \<le> (if res = None then n else 200) | None \<Rightarrow> lg_dir s = None)"
proof (rule conjI)
  show "length (lg_failed (fill_logo H url res mtime now s)) \<le> 1000"
    using assms(2) length_dset_le[of url now "lg_failed s"]
    by (auto simp: fill_logo_def store_logo_def MAX_FAILED_def Let_def split: option.splits prod.splits)
  show "case lg_dir (fill_logo H url res mtime now s) of
      Some d' \<Rightarrow> dict_ok d' \<and> length d' \<le> (if res = None then n else 200) | None \<Rightarrow> lg_dir s = None"
  proof (cases "lg_dir s")
    case None
    then show ?thesis by (auto simp: fill_logo_def store_logo_def Let_def split: option.splits prod.splits)
  next
    case (Some d)
    show ?thesis
    proof (cases res)
      case None
      then show ?thesis using Some assms(1) by (simp add: fill_logo_def Let_def)
    next
      case (Some de)
      obtain data ext where de: "de = (data, ext)" by fastforce
      let ?ks = "oldest_names (length d + 1 - MAX_CACHED_LOGOS) d"
      have d: "dict_ok d" using assms(1) \<open>lg_dir s = Some d\<close> by simp
      have "length (drop_keys ?ks d) + length ?ks = length d"
        by (rule length_drop_keys[OF d oldest_names_distinct[OF d] oldest_names_set])
      moreover have "length ?ks = min (length d) (length d + 1 - 200)" by (simp add: oldest_names_def MAX_CACHED_LOGOS_def)
      ultimately have "length (drop_keys ?ks d) \<le> 199" by linarith
      then have "length (dset (logo_file H url ext) (mtime, data) (drop_keys ?ks d)) \<le> 200"
        using length_dset_le[of "logo_file H url ext" "(mtime, data)" "drop_keys ?ks d"] by linarith
      moreover have "dict_ok (dset (logo_file H url ext) (mtime, data) (drop_keys ?ks d))" using d by simp
      ultimately show ?thesis using Some de \<open>lg_dir s = Some d\<close> by (simp add: fill_logo_def store_logo_def Let_def)
    qed
  qed
qed

lemma logo_cache_is_bounded_witness:
  "length (lg_failed (fill_logo (\<lambda>u. u) ''u'' (Some (''d'', ''png'')) 1 2 \<lparr>lg_dir = Some [], lg_failed = [], lg_inflight = []\<rparr>)) \<le> 1000"
  using logo_cache_is_bounded[where s = "\<lparr>lg_dir = Some [], lg_failed = [], lg_inflight = []\<rparr>" and n = 0 and H = "\<lambda>u. u"
    and url = "''u''" and res = "Some (''d'', ''png'')" and mtime = 1 and now = 2] by simp

subsection \<open>Fetched URLs\<close>

definition watched_net :: "('c, 'w) net \<Rightarrow> ('c, 'w \<times> string list) net" where
  "watched_net n = \<lparr>nt_resolve = (\<lambda>host (w, l). case nt_resolve n host w of (r, w') \<Rightarrow> (r, (w', l))),
     nt_connect = (\<lambda>a port (w, l). case nt_connect n a port w of (r, w') \<Rightarrow> (r, (w', l @ [a])))\<rparr>"

lemma first_local_none: "first_local as = Inr None \<Longrightarrow> a \<in> set as \<Longrightarrow> is_local_address a = Some False"
  by (induction as) (auto split: option.splits if_splits)

lemma try_addresses_log:
  "\<exists>l. snd (snd (try_addresses (watched_net n) host as port w)) = snd w @ l \<and> set l \<subseteq> set as"
proof (induction as arbitrary: w)
  case (Cons a as)
  obtain v k where w: "w = (v, k)" by fastforce
  obtain r v' where c: "nt_connect n a port v = (r, v')" by fastforce
  obtain l where l: "snd (snd (try_addresses (watched_net n) host as port (v', k @ [a]))) = (k @ [a]) @ l" "set l \<subseteq> set as"
    using Cons[of "(v', k @ [a])"] by auto
  have step: "nt_connect (watched_net n) a port w = (r, (v', k @ [a]))" by (simp add: watched_net_def w c)
  show ?case
  proof (cases r)
    case Connect_failed
    then show ?thesis using step l w by (intro exI[of _ "a # l"]) auto
  qed (use step w in \<open>auto intro!: exI[of _ "[a]"]\<close>)
qed simp


lemma mapped_loopback_is_local: "is_local_address ''::ffff:127.0.0.1'' = Some True" "is_local_address ''169.254.169.254'' = Some True"
  "is_local_address ''192.168.1.10'' = Some False"
  by code_simp+

end
