(* ===== verification/Conversations.thy ===== *)
theory Conversations
  imports Py_Eff "HOL-Library.Product_Lexorder" "HOL-Library.List_Lexorder" "HOL-Library.Char_ord"
begin

text \<open>
  Conversations and their messages (\<open>ConversationStore\<close> of \<open>dashboard/conversations.py\<close>) over their
  two SQLite tables.  Each reading of the clock and each drawn id is an argument; the JSON text of a
  message's tool calls is the value it encodes.
\<close>

subsection \<open>Tool calls of a message\<close>

record tool_call =
  tcl_id :: pyval
  tcl_name :: pyval
  tcl_args :: pyval
  tcl_status :: pyval
  tcl_preview :: pyval
  tcl_duration :: pyval
  tcl_ui :: pyval

definition tool_call_json :: "tool_call \<Rightarrow> pyval" where
  "tool_call_json t = PDict [(''id'', tcl_id t), (''name'', tcl_name t), (''args'', tcl_args t), (''status'', tcl_status t),
     (''preview'', tcl_preview t), (''duration_ms'', tcl_duration t), (''ui_resource_uri'', tcl_ui t)]"

definition encode_tool_calls :: "tool_call list \<Rightarrow> pyval option" where
  "encode_tool_calls ts = (if ts = [] then None else Some (PList (map tool_call_json ts)))"

definition tool_call_of :: "pyval \<Rightarrow> tool_call" where
  "tool_call_of item =
     \<lparr>tcl_id = get_or item ''id'' (PStr []), tcl_name = get_or item ''name'' (PStr []),
      tcl_args = py_or (get_or item ''args'' PNone) (PDict []), tcl_status = get_or item ''status'' (PStr ''ok''),
      tcl_preview = get_or item ''preview'' PNone, tcl_duration = get_or item ''duration_ms'' PNone,
      tcl_ui = get_or item ''ui_resource_uri'' PNone\<rparr>"

text \<open>
  \<open>_decode_tool_calls\<close>: None is SQL's NULL, an empty text or one that is no JSON.  A text or a mapping
  yields no mapping when it is iterated; what cannot be iterated raises a \<open>TypeError\<close>.
\<close>

definition decode_tool_calls :: "pyval option \<Rightarrow> py_raise + tool_call list" where
  "decode_tool_calls raw =
     (case raw of
        None \<Rightarrow> Inr []
      | Some (PList items) \<Rightarrow> Inr (map tool_call_of (filter is_dict items))
      | Some (PDict d) \<Rightarrow> Inr []
      | Some (PStr t) \<Rightarrow> Inr []
      | Some v \<Rightarrow> Inl Type_error)"

subsection \<open>Tables\<close>

record conversation =
  cv_id :: string
  cv_client_id :: string
  cv_title :: "string option"
  cv_model :: string
  cv_effort :: string
  cv_created_at :: real
  cv_updated_at :: real

record message =
  mg_id :: string
  mg_conversation_id :: string
  mg_role :: string
  mg_content :: "string option"
  mg_tool_calls :: "pyval option"
  mg_thinking :: "string option"
  mg_model :: "string option"
  mg_effort :: "string option"
  mg_created_at :: real

record conversation_store =
  cs_convs :: "(string, conversation) dict"
  cs_msgs :: "(string, message) dict"

definition VALID_EFFORTS :: "string list" where "VALID_EFFORTS = [''minimal'', ''low'', ''medium'', ''high'']"

definition VALID_MODELS :: "string list" where
  "VALID_MODELS = [''gemini-3.6-flash'', ''gemini-3.5-flash-lite'', ''gemini-3.1-pro-preview'']"

definition DEFAULT_MODEL :: string where "DEFAULT_MODEL = ''gemini-3.6-flash''"
definition DEFAULT_EFFORT :: string where "DEFAULT_EFFORT = ''low''"

subsection \<open>Conversations\<close>

text \<open>\<open>create\<close>: None is SQLite's error on an id that is already there.\<close>

definition conv_create ::
  "string \<Rightarrow> string \<Rightarrow> string \<Rightarrow> string \<Rightarrow> real \<Rightarrow> real \<Rightarrow> conversation_store \<Rightarrow> conversation option \<times> conversation_store" where
  "conv_create cid model effort drawn t1 t2 s =
     (let c = \<lparr>cv_id = drawn, cv_client_id = cid, cv_title = None,
               cv_model = (if model \<in> set VALID_MODELS then model else DEFAULT_MODEL),
               cv_effort = (if effort \<in> set VALID_EFFORTS then effort else DEFAULT_EFFORT), cv_created_at = t1, cv_updated_at = t2\<rparr>
      in if drawn \<in> set (dkeys (cs_convs s)) then (None, s) else (Some c, s\<lparr>cs_convs := dset drawn c (cs_convs s)\<rparr>))"

definition convs_of :: "string \<Rightarrow> conversation_store \<Rightarrow> conversation list" where
  "convs_of cid s = take 200 (sort_key (\<lambda>c. - cv_updated_at c) [c \<leftarrow> dvals (cs_convs s). cv_client_id c = cid])"

definition conv_get :: "string \<Rightarrow> string \<Rightarrow> conversation_store \<Rightarrow> conversation option" where
  "conv_get conv_id cid s =
     (case dget (cs_convs s) conv_id of Some c \<Rightarrow> if cv_client_id c = cid then Some c else None | None \<Rightarrow> None)"

definition conv_patch ::
  "string \<Rightarrow> string \<Rightarrow> string option \<Rightarrow> string option \<Rightarrow> string option \<Rightarrow> real \<Rightarrow> conversation_store
     \<Rightarrow> conversation option \<times> conversation_store" where
  "conv_patch conv_id cid title model effort now s =
     (case conv_get conv_id cid s of
        None \<Rightarrow> (None, s)
      | Some c \<Rightarrow>
          let c' = c\<lparr>cv_title := (case title of None \<Rightarrow> cv_title c | Some t \<Rightarrow> if t = [] then None else Some t),
                     cv_model := (case model of Some m \<Rightarrow> if m \<in> set VALID_MODELS then m else cv_model c | None \<Rightarrow> cv_model c),
                     cv_effort := (case effort of Some x \<Rightarrow> if x \<in> set VALID_EFFORTS then x else cv_effort c | None \<Rightarrow> cv_effort c),
                     cv_updated_at := now\<rparr>;
              s' = s\<lparr>cs_convs := dset conv_id c' (cs_convs s)\<rparr>
          in (conv_get conv_id cid s', s'))"

text \<open>The foreign key of \<open>messages\<close> cascades, and the connection enforces it.\<close>

definition conv_delete :: "string \<Rightarrow> string \<Rightarrow> conversation_store \<Rightarrow> bool \<times> conversation_store" where
  "conv_delete conv_id cid s =
     (case conv_get conv_id cid s of
        None \<Rightarrow> (False, s)
      | Some c \<Rightarrow> (True, s\<lparr>cs_convs := dpop conv_id (cs_convs s), cs_msgs := dkeep (\<lambda>m. mg_conversation_id m \<noteq> conv_id) (cs_msgs s)\<rparr>))"

definition conv_touch :: "string \<Rightarrow> real \<Rightarrow> conversation_store \<Rightarrow> conversation_store" where
  "conv_touch conv_id now s =
     (case dget (cs_convs s) conv_id of None \<Rightarrow> s
      | Some c \<Rightarrow> s\<lparr>cs_convs := dset conv_id (c\<lparr>cv_updated_at := now\<rparr>) (cs_convs s)\<rparr>)"

subsection \<open>Messages\<close>

text \<open>\<open>list_messages\<close>: the rows with their decoded tool calls.\<close>

fun decode_messages :: "message list \<Rightarrow> py_raise + (message \<times> tool_call list) list" where
  "decode_messages [] = Inr []"
| "decode_messages (m # ms) =
     (case decode_tool_calls (mg_tool_calls m) of
        Inl e \<Rightarrow> Inl e
      | Inr ts \<Rightarrow> (case decode_messages ms of Inl e \<Rightarrow> Inl e | Inr r \<Rightarrow> Inr ((m, ts) # r)))"

definition messages_of :: "string \<Rightarrow> conversation_store \<Rightarrow> message list" where
  "messages_of conv_id s =
     sort_key (\<lambda>m. (mg_created_at m, mg_id m)) [m \<leftarrow> dvals (cs_msgs s). mg_conversation_id m = conv_id]"

definition list_messages :: "string \<Rightarrow> conversation_store \<Rightarrow> py_raise + (message \<times> tool_call list) list" where
  "list_messages conv_id s = decode_messages (messages_of conv_id s)"

text \<open>\<open>_insert\<close>: an id that is there or a conversation that is not is SQLite's error.\<close>

definition message_insert :: "message \<Rightarrow> real \<Rightarrow> (conversation_store, message) eff" where
  "message_insert m now s =
     (if mg_id m \<in> set (dkeys (cs_msgs s)) \<or> mg_conversation_id m \<notin> set (dkeys (cs_convs s)) then (Inl Integrity_error, s)
      else (Inr m, conv_touch (mg_conversation_id m) now (s\<lparr>cs_msgs := dset (mg_id m) m (cs_msgs s)\<rparr>)))"

definition add_user_message :: "string \<Rightarrow> string \<Rightarrow> string \<Rightarrow> real \<Rightarrow> real \<Rightarrow> (conversation_store, message) eff" where
  "add_user_message conv_id content drawn t1 t2 =
     message_insert \<lparr>mg_id = drawn, mg_conversation_id = conv_id, mg_role = ''user'', mg_content = Some content,
       mg_tool_calls = None, mg_thinking = None, mg_model = None, mg_effort = None, mg_created_at = t1\<rparr> t2"

definition add_assistant_message ::
  "string \<Rightarrow> string \<Rightarrow> tool_call list \<Rightarrow> string option \<Rightarrow> string \<Rightarrow> string \<Rightarrow> string \<Rightarrow> real \<Rightarrow> real \<Rightarrow> (conversation_store, message) eff" where
  "add_assistant_message conv_id content ts thinking model effort drawn t1 t2 =
     message_insert \<lparr>mg_id = drawn, mg_conversation_id = conv_id, mg_role = ''assistant'', mg_content = Some content,
       mg_tool_calls = encode_tool_calls ts, mg_thinking = thinking, mg_model = Some model, mg_effort = Some effort,
       mg_created_at = t1\<rparr> t2"

subsection \<open>What the store keeps\<close>

text \<open>Every conversation is filed under its id and names a known model and effort; every message belongs to one.\<close>

definition convs_ok :: "conversation_store \<Rightarrow> bool" where
  "convs_ok s \<longleftrightarrow> dict_ok (cs_convs s) \<and> dict_ok (cs_msgs s)
     \<and> (\<forall>i c. dget (cs_convs s) i = Some c \<longrightarrow> cv_id c = i \<and> cv_model c \<in> set VALID_MODELS \<and> cv_effort c \<in> set VALID_EFFORTS)
     \<and> (\<forall>i m. dget (cs_msgs s) i = Some m \<longrightarrow> mg_id m = i \<and> mg_conversation_id m \<in> set (dkeys (cs_convs s)))"

lemma default_model_valid [simp]: "DEFAULT_MODEL \<in> set VALID_MODELS" "DEFAULT_EFFORT \<in> set VALID_EFFORTS"
  by (simp_all add: DEFAULT_MODEL_def VALID_MODELS_def DEFAULT_EFFORT_def VALID_EFFORTS_def)

text \<open>What a stored message's tool calls read back as: an empty argument value becomes an empty mapping.\<close>

lemma tool_call_json_dict [simp]: "is_dict (tool_call_json t)"
  by (simp add: is_dict_def tool_call_json_def)

lemma tool_calls_read_back:
  "decode_tool_calls (encode_tool_calls ts) = Inr (map (\<lambda>t. t\<lparr>tcl_args := py_or (tcl_args t) (PDict [])\<rparr>) ts)"
proof -
  have one: "tool_call_of (tool_call_json t) = t\<lparr>tcl_args := py_or (tcl_args t) (PDict [])\<rparr>" for t
    by (simp add: tool_call_of_def tool_call_json_def get_or_def)
  have "filter is_dict (map tool_call_json ts) = map tool_call_json ts" by (induction ts) auto
  then show ?thesis by (simp add: encode_tool_calls_def decode_tool_calls_def one comp_def)
qed

end
