(* ===== verification/Dash_Base.thy ===== *)
theory Dash_Base
  imports Oauth_Flow Dash_Sessions Dyn_Slugs Confirm_Calls Conversations Chat_Gate Self_Update
begin

text \<open>
  What the dashboard's routes (\<open>dashboard/app.py\<close>) work on: the stores they share with the OAuth
  endpoints and among themselves, a request, a reply, and the helpers every handler is made of.  The
  clock, the stat signature of the registry file and the random values are sequences: a state counts how
  many of each have been read.  Pages are the template with its banner; the readings a page makes for
  display are left out where they change no store beyond housekeeping a handler did already.
\<close>

subsection \<open>State, request, reply\<close>

record 'w dash_env =
  de_oauth :: oauth_env
  de_clock :: "nat \<Rightarrow> real"
  de_stat :: "nat \<Rightarrow> file_sig"
  de_draw :: "nat \<Rightarrow> string"
  de_seal :: seal
  de_unseal :: unseal
  de_key :: string
  de_trusted :: "string list"
  de_str :: "pyval \<Rightarrow> string"
  de_engine :: bool
  de_updates :: bool
  de_self_update :: bool
  de_busy :: "'w \<Rightarrow> bool"
  de_host :: "'w host"
  de_up_env :: update_env
  de_install :: installation
  de_up_call :: update_call
  de_call_tool :: "string \<Rightarrow> string \<Rightarrow> pyval \<Rightarrow> 'w \<Rightarrow> (string + pyval) \<times> 'w"

record 'w dash_state =
  dh_oauth :: oauth_state
  dh_sessions :: session_table
  dh_slugs :: "slug_table option"
  dh_confirm :: "confirmation_store option"
  dh_convs :: "conversation_store option"
  dh_world :: 'w
  dh_clocks :: nat
  dh_stats :: nat
  dh_draws :: nat

type_synonym ('w, 'a) dash = "('w dash_state, 'a) eff"

text \<open>
  \<open>dr_form\<close> has the text fields of the form, \<open>dr_json\<close> the JSON body (\<open>_read_json\<close>: empty when it is no
  mapping), \<open>dr_next\<close> and \<open>dr_path\<close> the query parameter \<open>next\<close> and the path parameter.
\<close>

record dash_request =
  dr_http :: request
  dr_netloc :: string
  dr_session :: "string option"
  dr_csrf :: csrf_request
  dr_form :: form
  dr_json :: "(string, pyval) dict"
  dr_wants_json :: bool
  dr_next :: string
  dr_path :: string

datatype dash_reply =
    Redirect int string
  | Refused int string
  | Page string "string option" int bool
  | Tokens_page "string option" "(string \<times> string \<times> int) option"
  | Connectors_page "string option" "string option"
  | Signed_in session string bool
  | Signed_out int
  | Passkeys_shown "passkey list"
  | Ceremony "string \<times> string list \<times> string"
  | Passkey_added passkey
  | Json_ok
  | Update_done update_result
  | Conv_list "conversation list"
  | Conv_created conversation
  | Conv_shown conversation "(message \<times> tool_call list) list"
  | Conv_changed conversation
  | Conv_deleted
  | Confirmed bool
  | Tool_result pyval

subsection \<open>Readings\<close>

definition reading :: "'w dash_env \<Rightarrow> ('w, real) dash" where
  "reading e s = (Inr (de_clock e (dh_clocks s)), s\<lparr>dh_clocks := Suc (dh_clocks s)\<rparr>)"

definition stat_file :: "'w dash_env \<Rightarrow> ('w, file_sig) dash" where
  "stat_file e s = (Inr (de_stat e (dh_stats s)), s\<lparr>dh_stats := Suc (dh_stats s)\<rparr>)"

definition draw :: "'w dash_env \<Rightarrow> ('w, string) dash" where
  "draw e s = (Inr (de_draw e (dh_draws s)), s\<lparr>dh_draws := Suc (dh_draws s)\<rparr>)"

definition on_oauth :: "(oauth_state \<Rightarrow> 'a \<times> oauth_state) \<Rightarrow> ('w, 'a) dash" where
  "on_oauth f s = (case f (dh_oauth s) of (x, o') \<Rightarrow> (Inr x, s\<lparr>dh_oauth := o'\<rparr>))"

definition on_clients :: "(client_store \<Rightarrow> 'a \<times> client_store) \<Rightarrow> ('w, 'a) dash" where
  "on_clients f = on_oauth (\<lambda>os. case f (os_clients os) of (x, cs) \<Rightarrow> (x, os\<lparr>os_clients := cs\<rparr>))"

definition on_passkeys :: "(passkey_service \<Rightarrow> 'a \<times> passkey_service) \<Rightarrow> ('w, 'a) dash" where
  "on_passkeys f = on_oauth (\<lambda>os. case f (os_passkeys os) of (x, ps) \<Rightarrow> (x, os\<lparr>os_passkeys := ps\<rparr>))"

definition on_sessions :: "(session_table \<Rightarrow> 'a \<times> session_table) \<Rightarrow> ('w, 'a) dash" where
  "on_sessions f s = (case f (dh_sessions s) of (x, t) \<Rightarrow> (Inr x, s\<lparr>dh_sessions := t\<rparr>))"

definition on_store :: "(token_store \<Rightarrow> 'a \<times> token_store) \<Rightarrow> ('w, 'a) dash" where
  "on_store f = pbind (on_oauth (on_tokens f)) (\<lambda>r. case r of None \<Rightarrow> praise Attribute_error | Some x \<Rightarrow> preturn x)"

subsection \<open>Values of a request\<close>

definition source_ip :: "'w dash_env \<Rightarrow> dash_request \<Rightarrow> string" where
  "source_ip e r = fst (client_ip (dr_http r) (de_trusted e) [])"

definition form_text :: "dash_request \<Rightarrow> string \<Rightarrow> string" where
  "form_text r key = py_strip (bget (dr_form r) key)"

text \<open>\<open>str(body.get(key) or "")\<close>.\<close>

definition json_text :: "'w dash_env \<Rightarrow> dash_request \<Rightarrow> string \<Rightarrow> string" where
  "json_text e r key =
     (case py_or (get_or (PDict (dr_json r)) key PNone) (PStr []) of PStr t \<Rightarrow> t | v \<Rightarrow> de_str e v)"

definition json_dict :: "dash_request \<Rightarrow> string \<Rightarrow> (string, pyval) dict option" where
  "json_dict r key = (case get_or (PDict (dr_json r)) key PNone of PDict d \<Rightarrow> Some d | _ \<Rightarrow> None)"

definition json_str :: "dash_request \<Rightarrow> string \<Rightarrow> string option" where
  "json_str r key = (case get_or (PDict (dr_json r)) key PNone of PStr t \<Rightarrow> Some t | _ \<Rightarrow> None)"

definition default_landing :: "'w dash_env \<Rightarrow> string" where
  "default_landing e = (if de_engine e then ''/app/chat'' else ''/app/tokens'')"

definition next_url :: "'w dash_env \<Rightarrow> string \<Rightarrow> string" where
  "next_url e raw = (if startswith (py_strip raw) ''/app/'' then py_strip raw else default_landing e)"

subsection \<open>Sessions\<close>

definition load_session :: "'w dash_env \<Rightarrow> dash_request \<Rightarrow> ('w, session option) dash" where
  "load_session e r =
     (case dr_session r of
        None \<Rightarrow> preturn None
      | Some sid \<Rightarrow>
          if sid = [] then preturn None
          else pbind (reading e) (\<lambda>now. pbind (on_sessions (session_load sid now))
            (\<lambda>se. case se of
               None \<Rightarrow> preturn None
             | Some x \<Rightarrow> pbind (reading e)
                 (\<lambda>t. pbind (on_sessions (\<lambda>tb. ((), session_touch (se_session_id x) t tb))) (\<lambda>_. preturn (Some x))))))"

definition bearer_live :: "'w dash_env \<Rightarrow> session \<Rightarrow> ('w, bool) dash" where
  "bearer_live e se =
     pbind (reading e)
       (\<lambda>now. if \<not> bearer_valid se None now then preturn False
              else case se_bearer se of
                None \<Rightarrow> preturn True
              | Some b \<Rightarrow> pbind (reading e)
                  (\<lambda>t. pbind (on_store (validate (oe_hash (de_oauth e)) b t)) (\<lambda>c. preturn (c \<noteq> None))))"

text \<open>The opening of the page handlers, and \<open>_require_active_session\<close>.\<close>

definition page_session :: "'w dash_env \<Rightarrow> dash_request \<Rightarrow> string \<Rightarrow> (session \<Rightarrow> ('w, dash_reply) dash) \<Rightarrow> ('w, dash_reply) dash" where
  "page_session e r stale k =
     pbind (load_session e r)
       (\<lambda>x. case x of
          None \<Rightarrow> preturn (Redirect 302 ''/app/login'')
        | Some se \<Rightarrow> pbind (bearer_live e se) (\<lambda>live. if live then k se else preturn (Redirect 302 stale)))"

definition api_session :: "'w dash_env \<Rightarrow> dash_request \<Rightarrow> (session \<Rightarrow> ('w, dash_reply) dash) \<Rightarrow> ('w, dash_reply) dash" where
  "api_session e r k =
     pbind (load_session e r)
       (\<lambda>x. case x of
          None \<Rightarrow> preturn (Refused 401 ''unauthorized'')
        | Some se \<Rightarrow> pbind (bearer_live e se) (\<lambda>live. if live then k se else preturn (Refused 401 ''bearer_expired'')))"

definition with_csrf :: "dash_request \<Rightarrow> ('w, dash_reply) dash \<Rightarrow> ('w, dash_reply) dash" where
  "with_csrf r k =
     (case csrf_verify (dr_csrf r) of
        None \<Rightarrow> praise Type_error | Some b \<Rightarrow> if b then k else preturn (Refused 403 ''csrf''))"

subsection \<open>Credentials and the second factor\<close>

definition verify_client :: "'w dash_env \<Rightarrow> string \<Rightarrow> string \<Rightarrow> ('w, bool) dash" where
  "verify_client e cid secret = pbind (stat_file e) (\<lambda>sig. on_clients (verify_secret (oe_hash (de_oauth e)) cid secret sig))"

definition client_name :: "'w dash_env \<Rightarrow> string \<Rightarrow> ('w, string option) dash" where
  "client_name e cid = pbind (stat_file e) (\<lambda>sig. on_clients (get_client_name cid sig))"

definition is_locked :: "'w dash_env \<Rightarrow> dash_request \<Rightarrow> string \<Rightarrow> ('w, bool) dash" where
  "is_locked e r cid =
     pbind (stat_file e) (\<lambda>sig. pbind (reading e) (\<lambda>now. on_oauth (totp_locked cid (source_ip e r) sig now)))"

text \<open>\<open>_check_totp\<close>: a wrong code is a strike, one already used is not.\<close>

definition check_fresh :: "'w dash_env \<Rightarrow> dash_request \<Rightarrow> string \<Rightarrow> string \<Rightarrow> ('w, totp_result) dash" where
  "check_fresh e r cid c =
     pbind (stat_file e) (\<lambda>sig. pbind (reading e) (\<lambda>now. pbind (on_oauth (check_code (de_oauth e) cid c now sig))
       (\<lambda>res. if res = TOTP_INVALID
              then pbind (stat_file e) (\<lambda>sig'. pbind (reading e)
                (\<lambda>t. pbind (on_oauth (\<lambda>os. ((), totp_record_failure cid (source_ip e r) sig' t os))) (\<lambda>_. preturn res)))
              else preturn res)))"

definition clear_strikes :: "'w dash_env \<Rightarrow> dash_request \<Rightarrow> string \<Rightarrow> ('w, unit) dash" where
  "clear_strikes e r cid =
     pbind (stat_file e) (\<lambda>sig. pbind (reading e) (\<lambda>t. on_oauth (\<lambda>os. ((), totp_record_success cid (source_ip e r) sig t os))))"

definition TOTP_REPLAY_MESSAGE :: string where
  "TOTP_REPLAY_MESSAGE = ''That 2FA code was already used. Wait for your authenticator to show the next one, then try again.''"

definition totp_error :: "totp_result \<Rightarrow> string \<Rightarrow> string" where
  "totp_error res invalid = (if res = TOTP_REPLAY then TOTP_REPLAY_MESSAGE else invalid)"

text \<open>The lockout, the code, the cleared strikes: what four handlers do before they act.\<close>

definition with_fresh_code ::
  "'w dash_env \<Rightarrow> dash_request \<Rightarrow> string \<Rightarrow> string \<Rightarrow> ('w, dash_reply) dash \<Rightarrow> (totp_result \<Rightarrow> ('w, dash_reply) dash)
     \<Rightarrow> ('w, dash_reply) dash \<Rightarrow> ('w, dash_reply) dash" where
  "with_fresh_code e r cid c on_locked on_bad k =
     pbind (is_locked e r cid)
       (\<lambda>l. if l then on_locked
            else pbind (check_fresh e r cid c)
              (\<lambda>res. if res \<noteq> TOTP_OK then on_bad res else pbind (clear_strikes e r cid) (\<lambda>_. k)))"

text \<open>\<open>TokenStore.issue\<close>, with a token drawn; a full set of named tokens is \<open>Inl ()\<close>.\<close>

definition issue_token :: "'w dash_env \<Rightarrow> string \<Rightarrow> string option \<Rightarrow> ('w, unit + string \<times> int) dash" where
  "issue_token e cid name =
     pbind (if name = None then preturn 0 else reading e)
       (\<lambda>tc. pbind (draw e) (\<lambda>token. pbind (reading e) (\<lambda>now. pbind (reading e) (\<lambda>te. on_store (issue cid name token tc now te)))))"

text \<open>\<open>_start_session\<close>; the success screen reads the client's name and the clock.\<close>

definition start_session :: "'w dash_env \<Rightarrow> dash_request \<Rightarrow> string \<Rightarrow> string \<Rightarrow> string \<Rightarrow> bool \<Rightarrow> ('w, dash_reply) dash" where
  "start_session e r cid secret nxt as_json =
     pbind (issue_token e cid None)
       (\<lambda>t. case t of
          Inl u \<Rightarrow> praise Runtime_error
        | Inr (bearer, ttl) \<Rightarrow>
            pbind (draw e) (\<lambda>sid. pbind (draw e) (\<lambda>nonce. pbind (reading e)
              (\<lambda>now. pbind (on_sessions (session_create (de_seal e) (de_key e) cid secret bearer (of_int ttl)
                               (Some (take 200 (case rq_header (dr_http r) ''user-agent'' of Some u \<Rightarrow> u | None \<Rightarrow> []))) sid nonce now))
                 (\<lambda>se. case se of
                    None \<Rightarrow> praise Integrity_error
                  | Some x \<Rightarrow>
                      if as_json then pbind (client_name e cid) (\<lambda>_. pbind (reading e) (\<lambda>_. preturn (Signed_in x nxt True)))
                      else preturn (Signed_in x nxt False))))))"

text \<open>The login limiter, shared with the OAuth endpoints: the delay it announces when it refuses.\<close>

definition rate_limited :: "'w dash_env \<Rightarrow> dash_request \<Rightarrow> ('w, int option) dash" where
  "rate_limited e r =
     pbind (reading e)
       (\<lambda>now. pbind (on_oauth (\<lambda>os. case rate_check (source_ip e r) now (os_login_limiter os) of (b, l) \<Rightarrow> (b, os\<lparr>os_login_limiter := l\<rparr>)))
          (\<lambda>ok. if ok then preturn None
                else pbind (reading e) (\<lambda>t1. pbind (reading e)
                  (\<lambda>t2. on_oauth (\<lambda>os. case retry_after (source_ip e r) t1 t2 (os_login_limiter os) of
                           (n, l) \<Rightarrow> (Some n, os\<lparr>os_login_limiter := l\<rparr>))))))"

definition too_many_text :: "int \<Rightarrow> string" where
  "too_many_text n = ''Too many attempts from this address. Retry in '' @ show_signed n @ ''s.''"

end
