(* ===== verification/Dash_Routes.thy ===== *)
theory Dash_Routes
  imports Dash_Base
begin

text \<open>
  The routes of the dashboard (\<open>build_dashboard_routes\<close> in \<open>dashboard/app.py\<close>), one definition per
  handler: signing in and out, named tokens, connectors, passkeys, updates, conversations, approvals and
  the calls of panels; \<open>dash_handle\<close> dispatches.  The text of a passkey error is abbreviated; audit
  records and the answers of read-only pages are not modelled.
\<close>

subsection \<open>Landing and signing in\<close>

definition index_page :: "'w dash_env \<Rightarrow> dash_request \<Rightarrow> ('w, dash_reply) dash" where
  "index_page e r =
     pbind (load_session e r)
       (\<lambda>x. case x of
          None \<Rightarrow> preturn (Redirect 302 ''/app/login'')
        | Some se \<Rightarrow> pbind (bearer_live e se)
            (\<lambda>live. preturn (Redirect 302 (if live then default_landing e else ''/app/refresh''))))"

definition login_get :: "'w dash_env \<Rightarrow> dash_request \<Rightarrow> ('w, dash_reply) dash" where
  "login_get e r =
     pbind (load_session e r)
       (\<lambda>x. case x of
          None \<Rightarrow> preturn (Page ''login.html'' None 200 False)
        | Some se \<Rightarrow> pbind (bearer_live e se)
            (\<lambda>live. preturn (Redirect 302 (if live then default_landing e else ''/app/refresh''))))"

definition login_post :: "'w dash_env \<Rightarrow> dash_request \<Rightarrow> ('w, dash_reply) dash" where
  "login_post e r = with_csrf r
     (pbind (rate_limited e r)
       (\<lambda>lim. case lim of
          Some n \<Rightarrow> preturn (Page ''login.html'' (Some (too_many_text n)) 429 True)
        | None \<Rightarrow>
            let cid = form_text r ''client_id''; secret = bget (dr_form r) ''client_secret''; totp = form_text r ''totp'';
                refuse = (\<lambda>m status locked. preturn (Page ''login.html'' (Some m) status locked))
            in if cid = [] \<or> secret = [] \<or> totp = [] then refuse ''Tous les champs sont requis.'' 400 False
               else pbind (verify_client e cid secret)
                 (\<lambda>ok. if \<not> ok then refuse ''Invalid credentials.'' 401 False
                       else with_fresh_code e r cid totp
                         (refuse ''Too many attempts. Try again in 5 minutes.'' 429 True)
                         (\<lambda>res. pbind (is_locked e r cid)
                            (\<lambda>l. refuse (totp_error res ''Invalid 2FA code. Check that your device clock is in sync.'') 401 l))
                         (start_session e r cid secret (next_url e (bget (dr_form r) ''next'')) (dr_wants_json r)))))"

definition refresh_get :: "'w dash_env \<Rightarrow> dash_request \<Rightarrow> ('w, dash_reply) dash" where
  "refresh_get e r =
     pbind (load_session e r)
       (\<lambda>x. case x of
          None \<Rightarrow> preturn (Redirect 302 ''/app/login'')
        | Some se \<Rightarrow> pbind (bearer_live e se)
            (\<lambda>live. if live then preturn (Redirect 302 (default_landing e))
                    else pbind (client_name e (se_client_id se))
                      (\<lambda>_. pbind (is_locked e r (se_client_id se)) (\<lambda>l. preturn (Page ''totp_refresh.html'' None 200 l)))))"

text \<open>The new bearer of a session whose stored secret still verifies; otherwise the session ends.\<close>

definition renew_bearer :: "'w dash_env \<Rightarrow> session \<Rightarrow> string \<Rightarrow> ('w, dash_reply) dash" where
  "renew_bearer e se nxt =
     pbind (on_sessions (\<lambda>t. (get_client_secret (de_unseal e) (de_key e) (se_session_id se) t, t)))
       (\<lambda>secret.
          let leave = pbind (on_sessions (session_delete (se_session_id se))) (\<lambda>_. preturn (Signed_out 302))
          in case secret of
               None \<Rightarrow> leave
             | Some sec \<Rightarrow>
                 if sec = [] then leave
                 else pbind (verify_client e (se_client_id se) sec)
                   (\<lambda>ok. if \<not> ok then leave
                         else pbind (issue_token e (se_client_id se) None)
                           (\<lambda>t. case t of
                              Inl u \<Rightarrow> praise Runtime_error
                            | Inr (bearer, ttl) \<Rightarrow>
                                pbind (reading e) (\<lambda>t1. pbind (reading e)
                                  (\<lambda>t2. pbind (on_sessions (\<lambda>tb. ((), update_bearer (se_session_id se) bearer (of_int ttl) t1 t2 tb)))
                                     (\<lambda>_. preturn (Redirect 303 nxt)))))))"

definition refresh_post :: "'w dash_env \<Rightarrow> dash_request \<Rightarrow> ('w, dash_reply) dash" where
  "refresh_post e r = with_csrf r
     (pbind (load_session e r)
       (\<lambda>x. case x of
          None \<Rightarrow> preturn (Redirect 302 ''/app/login'')
        | Some se \<Rightarrow>
            let totp = form_text r ''totp''; refuse = (\<lambda>m status locked. preturn (Page ''totp_refresh.html'' (Some m) status locked))
            in pbind (client_name e (se_client_id se))
                 (\<lambda>_. if totp = [] then refuse ''2FA code is required.'' 400 False
                      else with_fresh_code e r (se_client_id se) totp
                        (refuse ''Too many attempts. Try again in 5 minutes.'' 429 True)
                        (\<lambda>res. pbind (is_locked e r (se_client_id se)) (\<lambda>l. refuse (totp_error res ''Invalid 2FA code.'') 401 l))
                        (renew_bearer e se (next_url e (bget (dr_form r) ''next''))))))"

definition logout :: "'w dash_env \<Rightarrow> dash_request \<Rightarrow> ('w, dash_reply) dash" where
  "logout e r = with_csrf r
     (case dr_session r of
        None \<Rightarrow> preturn (Signed_out 303)
      | Some sid \<Rightarrow>
          if sid = [] then preturn (Signed_out 303)
          else pbind (on_sessions (session_delete sid))
            (\<lambda>bearer. case bearer of
               None \<Rightarrow> preturn (Signed_out 303)
             | Some b \<Rightarrow>
                 if b = [] then preturn (Signed_out 303)
                 else pbind (reading e) (\<lambda>now. pbind (on_store (revoke (oe_hash (de_oauth e)) b now)) (\<lambda>_. preturn (Signed_out 303)))))"

text \<open>The plain pages.\<close>

definition page_get :: "'w dash_env \<Rightarrow> dash_request \<Rightarrow> string \<Rightarrow> string \<Rightarrow> ('w, dash_reply) dash" where
  "page_get e r template stale =
     page_session e r stale (\<lambda>se. pbind (client_name e (se_client_id se)) (\<lambda>_. preturn (Page template None 200 False)))"

definition chat_get :: "'w dash_env \<Rightarrow> dash_request \<Rightarrow> ('w, dash_reply) dash" where
  "chat_get e r = page_session e r ''/app/refresh''
     (\<lambda>se. if de_engine e then pbind (client_name e (se_client_id se)) (\<lambda>_. preturn (Page ''chat.html'' None 200 False))
           else preturn (Redirect 302 ''/app/tokens''))"

subsection \<open>Named tokens\<close>

definition TOKENS_STALE :: string where "TOKENS_STALE = ''/app/refresh?next=/app/tokens''"

text \<open>\<open>_render_tokens_page\<close>: what it reads of the stores; the rows themselves are display.\<close>

definition tokens_page ::
  "'w dash_env \<Rightarrow> dash_request \<Rightarrow> session \<Rightarrow> string option \<Rightarrow> (string \<times> string \<times> int) option \<Rightarrow> ('w, dash_reply) dash" where
  "tokens_page e r se err created =
     pbind (reading e)
       (\<lambda>t. pbind (on_store (list_named (se_client_id se) t))
          (\<lambda>_. pbind (reading e) (\<lambda>_. pbind (client_name e (se_client_id se))
             (\<lambda>_. pbind (is_locked e r (se_client_id se)) (\<lambda>_. preturn (Tokens_page err created))))))"

definition tokens_get :: "'w dash_env \<Rightarrow> dash_request \<Rightarrow> ('w, dash_reply) dash" where
  "tokens_get e r = page_session e r TOKENS_STALE (\<lambda>se. tokens_page e r se None None)"

definition tokens_create :: "'w dash_env \<Rightarrow> dash_request \<Rightarrow> ('w, dash_reply) dash" where
  "tokens_create e r = page_session e r TOKENS_STALE
     (\<lambda>se. with_csrf r
        (let name = form_text r ''name''; totp = form_text r ''totp''; refuse = (\<lambda>m. tokens_page e r se (Some m) None)
         in if name = [] then refuse ''Name is required.''
            else if 60 < length name then refuse ''Name cannot exceed 60 characters.''
            else if totp = [] then refuse ''2FA code is required.''
            else with_fresh_code e r (se_client_id se) totp
              (refuse ''Too many 2FA attempts; try again in 5 minutes.'')
              (\<lambda>res. refuse (totp_error res ''Invalid 2FA code.''))
              (pbind (issue_token e (se_client_id se) (Some name))
                 (\<lambda>t. case t of
                    Inl u \<Rightarrow> refuse ''Limit reached: 3 active tokens maximum. Revoke one before creating a new one.''
                  | Inr (token, ttl) \<Rightarrow> tokens_page e r se None (Some (name, token, ttl))))))"

definition tokens_revoke :: "'w dash_env \<Rightarrow> dash_request \<Rightarrow> ('w, dash_reply) dash" where
  "tokens_revoke e r = page_session e r TOKENS_STALE
     (\<lambda>se. with_csrf r
        (let p = form_text r ''token_prefix''
         in if p = [] then preturn (Redirect 303 ''/app/tokens'')
            else pbind (reading e) (\<lambda>now. pbind (on_store (revoke_named (oe_hash (de_oauth e)) p (se_client_id se) now))
              (\<lambda>_. preturn (Redirect 303 ''/app/tokens'')))))"

subsection \<open>Connectors\<close>

definition CONNECTORS_STALE :: string where "CONNECTORS_STALE = ''/app/refresh?next=/app/connectors''"

definition connector_session :: "'w dash_env \<Rightarrow> dash_request \<Rightarrow> (session \<Rightarrow> ('w, dash_reply) dash) \<Rightarrow> ('w, dash_reply) dash" where
  "connector_session e r k s =
     (if dh_slugs s = None then (Inr (Redirect 302 ''/app/tokens''), s) else page_session e r CONNECTORS_STALE k s)"

definition on_slugs :: "(slug_table \<Rightarrow> 'a \<times> slug_table) \<Rightarrow> ('w, 'a) dash" where
  "on_slugs f s =
     (case dh_slugs s of None \<Rightarrow> (Inl Runtime_error, s) | Some t \<Rightarrow> (case f t of (x, t') \<Rightarrow> (Inr x, s\<lparr>dh_slugs := Some t'\<rparr>)))"

definition connectors_page ::
  "'w dash_env \<Rightarrow> dash_request \<Rightarrow> session \<Rightarrow> string option \<Rightarrow> string option \<Rightarrow> ('w, dash_reply) dash" where
  "connectors_page e r se err created =
     pbind (reading e)
       (\<lambda>_. pbind (stat_file e)
          (\<lambda>sig. pbind (on_clients (list_derived (se_client_id se) sig)) (\<lambda>_. pbind (client_name e (se_client_id se))
             (\<lambda>_. pbind (is_locked e r (se_client_id se)) (\<lambda>_. preturn (Connectors_page err created))))))"

definition connectors_get :: "'w dash_env \<Rightarrow> dash_request \<Rightarrow> ('w, dash_reply) dash" where
  "connectors_get e r = connector_session e r (\<lambda>se. connectors_page e r se None None)"

definition slug_url :: "'w dash_env \<Rightarrow> dash_request \<Rightarrow> string \<Rightarrow> string" where
  "slug_url e r slug =
     fst (forwarded_scheme (dr_http r) (de_trusted e) []) @ ''://'' @ fst (forwarded_host (dr_http r) (de_trusted e) ''localhost'' [])
       @ ''/mcp/c/'' @ slug"

definition connectors_mint :: "'w dash_env \<Rightarrow> dash_request \<Rightarrow> ('w, dash_reply) dash" where
  "connectors_mint e r = connector_session e r
     (\<lambda>se. with_csrf r
        (let label = form_text r ''label''; refuse = (\<lambda>m. connectors_page e r se (Some m) None)
         in if label = [] then refuse ''Label is required.''
            else if 60 < length label then refuse ''Label cannot exceed 60 characters.''
            else with_fresh_code e r (se_client_id se) (form_text r ''totp'')
              (refuse ''Too many 2FA attempts; try again in 5 minutes.'')
              (\<lambda>res. refuse (totp_error res ''Invalid 2FA code.''))
              (pbind (reading e) (\<lambda>t0. pbind (on_slugs (slug_prune_expired t0))
                 (\<lambda>_. pbind (draw e) (\<lambda>slug. pbind (reading e) (\<lambda>now. pbind (on_slugs (slug_mint (se_client_id se) label slug now))
                    (\<lambda>row. case row of
                       None \<Rightarrow> praise Integrity_error
                     | Some x \<Rightarrow> connectors_page e r se None (Some (slug_url e r (ds_slug x)))))))))))"

definition connectors_slug_delete :: "'w dash_env \<Rightarrow> dash_request \<Rightarrow> ('w, dash_reply) dash" where
  "connectors_slug_delete e r = connector_session e r
     (\<lambda>se. with_csrf r
        (let slug = form_text r ''slug''
         in if slug = [] then preturn (Redirect 303 ''/app/connectors'')
            else pbind (on_slugs (slug_delete_unused slug (se_client_id se))) (\<lambda>_. preturn (Redirect 303 ''/app/connectors''))))"

definition connectors_revoke :: "'w dash_env \<Rightarrow> dash_request \<Rightarrow> ('w, dash_reply) dash" where
  "connectors_revoke e r = connector_session e r
     (\<lambda>se. with_csrf r
        (let cid = form_text r ''client_id''; back = preturn (Redirect 303 ''/app/connectors'')
         in if cid = [] then back
            else pbind (stat_file e) (\<lambda>sig. pbind (on_clients (get_client cid sig))
              (\<lambda>c. case c of
                 None \<Rightarrow> back
               | Some cl \<Rightarrow>
                   if cl_owner cl \<noteq> Some (se_client_id se) then back
                   else pbind (stat_file e) (\<lambda>s1. pbind (stat_file e) (\<lambda>s2. pbind (on_clients (revoke_stored cid s1 s2))
                     (\<lambda>_. pbind (on_store (revoke_client cid)) (\<lambda>_. back))))))))"

subsection \<open>Passkeys\<close>

definition passkeys_ready :: "'w dash_state \<Rightarrow> bool" where
  "passkeys_ready s \<longleftrightarrow> pk_available (os_passkeys (dh_oauth s))"

definition with_passkeys :: "('w, dash_reply) dash \<Rightarrow> ('w, dash_reply) dash" where
  "with_passkeys k s = (if passkeys_ready s then k s else (Inr (Refused 503 ''passkeys_unavailable''), s))"

definition own_passkeys :: "string \<Rightarrow> 'w dash_state \<Rightarrow> passkey list" where
  "own_passkeys cid s = (case ps_table (os_passkeys (dh_oauth s)) of None \<Rightarrow> [] | Some t \<Rightarrow> passkeys_of cid t)"

definition passkeys_list :: "'w dash_env \<Rightarrow> dash_request \<Rightarrow> ('w, dash_reply) dash" where
  "passkeys_list e r = api_session e r (\<lambda>se. with_passkeys (\<lambda>s. (Inr (Passkeys_shown (own_passkeys (se_client_id se) s)), s)))"

definition passkeys_register_options :: "'w dash_env \<Rightarrow> dash_request \<Rightarrow> ('w, dash_reply) dash" where
  "passkeys_register_options e r = api_session e r
     (\<lambda>se. with_csrf r (with_passkeys
        (pbind (client_name e (se_client_id se)) (\<lambda>_. pbind (draw e) (\<lambda>ch. pbind (draw e) (\<lambda>state.
           pbind (reading e) (\<lambda>tp. pbind (reading e) (\<lambda>now.
             pbind (on_passkeys (registration_options (dr_http r) (dr_netloc r) (se_client_id se) (Some (se_session_id se)) ch state tp now))
               (\<lambda>res. case res of Inl err \<Rightarrow> preturn (Refused 400 ''passkey'') | Inr opts \<Rightarrow> preturn (Ceremony opts))))))))))"

definition passkeys_register_verify :: "'w dash_env \<Rightarrow> dash_request \<Rightarrow> ('w, dash_reply) dash" where
  "passkeys_register_verify e r = api_session e r
     (\<lambda>se. with_csrf r (with_passkeys
        (let state = json_text e r ''state''
         in case json_dict r ''credential'' of
              None \<Rightarrow> preturn (Refused 400 ''invalid_request'')
            | Some c \<Rightarrow>
                if state = [] then preturn (Refused 400 ''invalid_request'')
                else pbind (reading e) (\<lambda>tp. pbind (reading e) (\<lambda>now. pbind (reading e) (\<lambda>ta.
                  pbind (on_passkeys (verify_registration (oe_wr (de_oauth e)) (dr_http r) (dr_netloc r) state c (json_str r ''label'')
                           (Some (se_session_id se)) tp now ta))
                    (\<lambda>res. case res of
                       Inl err \<Rightarrow> if err = Pk_AttributeError then praise Attribute_error else preturn (Refused 400 ''passkey'')
                     | Inr k \<Rightarrow> preturn (Passkey_added k))))))))"

definition delete_own_passkey :: "string \<Rightarrow> string \<Rightarrow> ('w, bool) dash" where
  "delete_own_passkey credential_id cid =
     on_passkeys (\<lambda>ps. case ps_table ps of
        None \<Rightarrow> (False, ps) | Some t \<Rightarrow> (case passkey_delete credential_id cid t of (b, t') \<Rightarrow> (b, ps\<lparr>ps_table := Some t'\<rparr>)))"

definition passkeys_delete :: "'w dash_env \<Rightarrow> dash_request \<Rightarrow> ('w, dash_reply) dash" where
  "passkeys_delete e r = api_session e r
     (\<lambda>se. with_csrf r (with_passkeys
        (let credential_id = py_strip (json_text e r ''credential_id'')
         in if credential_id = [] then preturn (Refused 400 ''invalid_request'')
            else pbind (delete_own_passkey credential_id (se_client_id se))
              (\<lambda>ok. preturn (if ok then Json_ok else Refused 404 ''not_found'')))))"

definition passkeys_remove :: "'w dash_env \<Rightarrow> dash_request \<Rightarrow> ('w, dash_reply) dash" where
  "passkeys_remove e r = page_session e r TOKENS_STALE
     (\<lambda>se. with_csrf r (\<lambda>s.
        let credential_id = form_text r ''credential_id''
        in if passkeys_ready s \<and> credential_id \<noteq> []
           then pbind (delete_own_passkey credential_id (se_client_id se)) (\<lambda>_. preturn (Redirect 303 ''/app/tokens'')) s
           else (Inr (Redirect 303 ''/app/tokens''), s)))"

text \<open>The sign-in with a passkey: the secret first, in both steps.\<close>

definition passkey_limit :: "'w dash_env \<Rightarrow> dash_request \<Rightarrow> ('w, dash_reply) dash \<Rightarrow> ('w, dash_reply) dash" where
  "passkey_limit e r k = pbind (rate_limited e r)
     (\<lambda>lim. case lim of Some n \<Rightarrow> preturn (Refused 429 (too_many_text n)) | None \<Rightarrow> with_passkeys k)"

definition passkeys_auth_options :: "'w dash_env \<Rightarrow> dash_request \<Rightarrow> ('w, dash_reply) dash" where
  "passkeys_auth_options e r = with_csrf r (passkey_limit e r
     (let cid = py_strip (json_text e r ''client_id''); secret = json_text e r ''client_secret''
      in if cid = [] \<or> secret = [] then preturn (Refused 400 ''Missing credentials.'')
         else pbind (verify_client e cid secret)
           (\<lambda>ok. if \<not> ok then preturn (Refused 401 ''Invalid credentials.'')
                 else pbind (draw e) (\<lambda>ch. pbind (draw e) (\<lambda>state. pbind (reading e) (\<lambda>tp. pbind (reading e) (\<lambda>now.
                   pbind (on_passkeys (authentication_options (dr_http r) (dr_netloc r) cid ch state tp now))
                     (\<lambda>res. case res of Inl err \<Rightarrow> preturn (Refused 400 ''passkey'') | Inr opts \<Rightarrow> preturn (Ceremony opts)))))))))"

definition passkeys_auth_verify :: "'w dash_env \<Rightarrow> dash_request \<Rightarrow> ('w, dash_reply) dash" where
  "passkeys_auth_verify e r = with_csrf r (passkey_limit e r
     (let cid = py_strip (json_text e r ''client_id''); secret = json_text e r ''client_secret''; state = json_text e r ''state''
      in if cid = [] \<or> secret = [] \<or> state = [] then preturn (Refused 400 ''Missing credentials.'')
         else case json_dict r ''credential'' of
           None \<Rightarrow> preturn (Refused 400 ''Malformed passkey response.'')
         | Some c \<Rightarrow>
             pbind (verify_client e cid secret)
               (\<lambda>ok. if \<not> ok then preturn (Refused 401 ''Invalid credentials.'')
                     else pbind (reading e) (\<lambda>tp. pbind (reading e) (\<lambda>now. pbind (reading e) (\<lambda>t1. pbind (reading e) (\<lambda>t2.
                       pbind (on_passkeys (verify_authentication (oe_wa (de_oauth e)) (dr_http r) (dr_netloc r) state c tp now t1 t2))
                         (\<lambda>res. case res of
                            Inl err \<Rightarrow> preturn (Refused 401 ''passkey'')
                          | Inr rec \<Rightarrow>
                              if pk_client_id rec \<noteq> cid then preturn (Refused 401 ''Invalid credentials.'')
                              else pbind (clear_strikes e r cid)
                                (\<lambda>_. start_session e r cid secret (next_url e (json_text e r ''next'')) True)))))))))"

subsection \<open>Updates\<close>

definition update_apply :: "'w dash_env \<Rightarrow> dash_request \<Rightarrow> ('w, dash_reply) dash" where
  "update_apply e r = api_session e r
     (\<lambda>se. with_csrf r
        (if \<not> (de_updates e \<and> de_self_update e)
         then preturn (Refused 403 ''Self-update is disabled on this server (features.updates.allow_self_update).'')
         else let totp = py_strip (json_text e r ''totp'')
           in if totp = [] then preturn (Refused 400 ''2FA code is required.'')
              else with_fresh_code e r (se_client_id se) totp
                (preturn (Refused 429 ''Too many 2FA attempts; try again in 5 minutes.''))
                (\<lambda>res. preturn (Refused 401 (totp_error res ''Invalid 2FA code.'')))
                (pbind (reading e) (\<lambda>t0. pbind (reading e) (\<lambda>stamp. pbind (reading e) (\<lambda>now s.
                   case apply_update (de_busy e (dh_world s)) (de_host e) (de_up_env e) (de_install e) (de_up_call e) t0
                          \<lfloor>stamp * 10 ^ 9\<rfloor> \<lfloor>now\<rfloor> (dh_world s) of
                     (res, w) \<Rightarrow> (Inr (Update_done res), s\<lparr>dh_world := w\<rparr>)))))))"

subsection \<open>Conversations\<close>

definition on_convs :: "(conversation_store \<Rightarrow> 'a \<times> conversation_store) \<Rightarrow> ('w, 'a) dash" where
  "on_convs f s =
     (case dh_convs s of None \<Rightarrow> (Inl Runtime_error, s) | Some t \<Rightarrow> (case f t of (x, t') \<Rightarrow> (Inr x, s\<lparr>dh_convs := Some t'\<rparr>)))"

definition conv_list :: "'w dash_env \<Rightarrow> dash_request \<Rightarrow> ('w, dash_reply) dash" where
  "conv_list e r = api_session e r
     (\<lambda>se. pbind (on_convs (\<lambda>t. (convs_of (se_client_id se) t, t))) (\<lambda>cs. preturn (Conv_list cs)))"

definition conv_new :: "'w dash_env \<Rightarrow> dash_request \<Rightarrow> ('w, dash_reply) dash" where
  "conv_new e r = api_session e r
     (\<lambda>se. with_csrf r
        (let model = json_text e r ''model''; effort = json_text e r ''effort''
         in pbind (draw e) (\<lambda>i. pbind (reading e) (\<lambda>t1. pbind (reading e) (\<lambda>t2.
              pbind (on_convs (conv_create (se_client_id se) (if model = [] then ''gemini-3-flash'' else model)
                                 (if effort = [] then ''low'' else effort) i t1 t2))
                (\<lambda>c. case c of None \<Rightarrow> praise Integrity_error | Some x \<Rightarrow> preturn (Conv_created x)))))))"

definition conv_detail :: "'w dash_env \<Rightarrow> dash_request \<Rightarrow> ('w, dash_reply) dash" where
  "conv_detail e r = api_session e r
     (\<lambda>se. pbind (on_convs (\<lambda>t. (conv_get (dr_path r) (se_client_id se) t, t)))
        (\<lambda>c. case c of
           None \<Rightarrow> preturn (Refused 404 ''not_found'')
         | Some x \<Rightarrow> pbind (on_convs (\<lambda>t. (list_messages (cv_id x) t, t)))
             (\<lambda>ms. case ms of Inl err \<Rightarrow> praise err | Inr l \<Rightarrow> preturn (Conv_shown x l))))"

definition conv_edit :: "'w dash_env \<Rightarrow> dash_request \<Rightarrow> ('w, dash_reply) dash" where
  "conv_edit e r = api_session e r
     (\<lambda>se. with_csrf r (pbind (reading e)
        (\<lambda>now. pbind (on_convs (conv_patch (dr_path r) (se_client_id se) (json_str r ''title'') (json_str r ''model'') (json_str r ''effort'') now))
           (\<lambda>c. preturn (case c of None \<Rightarrow> Refused 404 ''not_found'' | Some x \<Rightarrow> Conv_changed x)))))"

definition conv_remove :: "'w dash_env \<Rightarrow> dash_request \<Rightarrow> ('w, dash_reply) dash" where
  "conv_remove e r = api_session e r
     (\<lambda>se. with_csrf r (pbind (on_convs (conv_delete (dr_path r) (se_client_id se)))
        (\<lambda>ok. preturn (if ok then Conv_deleted else Refused 404 ''not_found''))))"

subsection \<open>Approvals and panels\<close>

definition chat_confirm :: "'w dash_env \<Rightarrow> dash_request \<Rightarrow> ('w, dash_reply) dash" where
  "chat_confirm e r = api_session e r
     (\<lambda>se. with_csrf r (\<lambda>s.
        case dh_confirm s of
          None \<Rightarrow> (Inr (Refused 503 ''chat_disabled''), s)
        | Some t \<Rightarrow>
            let call_id = py_strip (json_text e r ''call_id''); approved = truth (get_or (PDict (dr_json r)) ''approve'' PNone)
            in if call_id = [] then (Inr (Refused 400 ''invalid_request''), s)
               else case confirmation_resolve call_id (se_session_id se) approved t of
                 (ok, t') \<Rightarrow> (Inr (if ok then Confirmed approved else Refused 404 ''not_found''), s\<lparr>dh_confirm := Some t'\<rparr>)))"

text \<open>A panel's tool call, relayed with the session's bearer when no approval is needed.\<close>

definition mcp_call :: "'w dash_env \<Rightarrow> dash_request \<Rightarrow> ('w, dash_reply) dash" where
  "mcp_call e r = api_session e r
     (\<lambda>se. with_csrf r
        (let name = py_strip (json_text e r ''name''); args = get_or (PDict (dr_json r)) ''arguments'' PNone
         in if name = [] \<or> args \<noteq> PNone \<and> \<not> is_dict args then preturn (Refused 400 ''invalid_request'')
            else let args' = py_or args (PDict [])
              in if \<not> panel_call_allowed name args' then preturn (Refused 403 ''confirmation_required'')
                 else (\<lambda>s. case de_call_tool e (case se_bearer se of Some b \<Rightarrow> b | None \<Rightarrow> []) name args' (dh_world s) of
                        (Inl t, w) \<Rightarrow> (Inr (Refused 502 ''tool_failed''), s\<lparr>dh_world := w\<rparr>)
                      | (Inr v, w) \<Rightarrow> (Inr (Tool_result v), s\<lparr>dh_world := w\<rparr>))))"

subsection \<open>Dispatch\<close>

datatype dash_route =
    Index | Login_page | Login | Refresh_page | Refresh | Logout | Overview_page | Usage_page | Chat_page
  | Tokens_list | Tokens_new | Tokens_revoke | Connectors_list | Connectors_new | Slug_remove | Connectors_revoke
  | Passkeys_list | Passkeys_options | Passkeys_new | Passkeys_delete | Passkeys_remove | Passkey_login_options | Passkey_login
  | Update_apply | Conversations_list | Conversation_new | Conversation_detail | Conversation_edit | Conversation_remove
  | Chat_confirm | Panel_call

fun dash_handle :: "'w dash_env \<Rightarrow> dash_route \<Rightarrow> dash_request \<Rightarrow> ('w, dash_reply) dash" where
  "dash_handle e Index r = index_page e r"
| "dash_handle e Login_page r = login_get e r"
| "dash_handle e Login r = login_post e r"
| "dash_handle e Refresh_page r = refresh_get e r"
| "dash_handle e Refresh r = refresh_post e r"
| "dash_handle e Logout r = logout e r"
| "dash_handle e Overview_page r = page_get e r ''overview.html'' ''/app/refresh?next=/app/overview''"
| "dash_handle e Usage_page r = page_get e r ''usage_cost.html'' ''/app/refresh?next=/app/usage''"
| "dash_handle e Chat_page r = chat_get e r"
| "dash_handle e Tokens_list r = tokens_get e r"
| "dash_handle e Tokens_new r = tokens_create e r"
| "dash_handle e Tokens_revoke r = tokens_revoke e r"
| "dash_handle e Connectors_list r = connectors_get e r"
| "dash_handle e Connectors_new r = connectors_mint e r"
| "dash_handle e Slug_remove r = connectors_slug_delete e r"
| "dash_handle e Connectors_revoke r = connectors_revoke e r"
| "dash_handle e Passkeys_list r = passkeys_list e r"
| "dash_handle e Passkeys_options r = passkeys_register_options e r"
| "dash_handle e Passkeys_new r = passkeys_register_verify e r"
| "dash_handle e Passkeys_delete r = passkeys_delete e r"
| "dash_handle e Passkeys_remove r = passkeys_remove e r"
| "dash_handle e Passkey_login_options r = passkeys_auth_options e r"
| "dash_handle e Passkey_login r = passkeys_auth_verify e r"
| "dash_handle e Update_apply r = update_apply e r"
| "dash_handle e Conversations_list r = conv_list e r"
| "dash_handle e Conversation_new r = conv_new e r"
| "dash_handle e Conversation_detail r = conv_detail e r"
| "dash_handle e Conversation_edit r = conv_edit e r"
| "dash_handle e Conversation_remove r = conv_remove e r"
| "dash_handle e Chat_confirm r = chat_confirm e r"
| "dash_handle e Panel_call r = mcp_call e r"

end
