(* ===== verification/Dash_Frame.thy ===== *)
theory Dash_Frame
  imports Dash_Routes Token_Inv
begin

text \<open>
  The footprint of every route of the dashboard: what a request may add to the stores.  An aspect of
  the state that a route does not name in \<open>may_touch\<close> gains nothing by it; OAuth tokens,
  authorization codes and approval tickets gain nothing by any.
\<close>

subsection \<open>What a state grants\<close>

datatype aspect = Named_keys | Slugs | Sessions | Credentials | World | Conversations | Approvals
  | Oauth_grants

text \<open>Named tokens with their client and name, OAuth tokens with their client.\<close>

definition named_keys :: "token_store \<Rightarrow> (string \<times> string \<times> string) set" where
  "named_keys ts = (\<lambda>(k, a). (k, at_client_id a, the (at_name a))) ` set [p \<leftarrow> tokens ts. at_name (snd p) \<noteq> None]"

lemma named_keys_iff: "named_keys ts = {(k, c, n). \<exists>a. (k, a) \<in> set (tokens ts) \<and> at_client_id a = c \<and> at_name a = Some n}"
  by (force simp: named_keys_def)

definition oauth_keys :: "token_store \<Rightarrow> (string \<times> string) set" where
  "oauth_keys ts = (\<lambda>(k, a). (k, at_client_id a)) ` set (oauth_tokens ts) \<union> (\<lambda>(k, r). (k, rt_client_id r)) ` set (refresh_tokens ts)"

definition store_of :: "'w dash_state \<Rightarrow> token_store option" where
  "store_of s = pruned (os_clients (dh_oauth s))"

definition named_of :: "'w dash_state \<Rightarrow> (string \<times> string \<times> string) set" where
  "named_of s = (case store_of s of None \<Rightarrow> {} | Some ts \<Rightarrow> named_keys ts)"

definition oauth_of :: "'w dash_state \<Rightarrow> (string \<times> string) set" where
  "oauth_of s = (case store_of s of None \<Rightarrow> {} | Some ts \<Rightarrow> oauth_keys ts)"

definition slugs_of :: "'w dash_state \<Rightarrow> (string \<times> dynamic_slug) set" where
  "slugs_of s = (case dh_slugs s of None \<Rightarrow> {} | Some t \<Rightarrow> set t)"

definition sid_pairs :: "session_table \<Rightarrow> (string \<times> string) set" where
  "sid_pairs t = (\<lambda>(sid, row). (sid, sr_client_id row)) ` set t"

definition sids_of :: "'w dash_state \<Rightarrow> (string \<times> string) set" where
  "sids_of s = sid_pairs (dh_sessions s)"

definition cred_pairs :: "passkey_table \<Rightarrow> (string \<times> string) set" where
  "cred_pairs t = (\<lambda>(i, p). (i, pk_client_id p)) ` set t"

definition credentials_of :: "'w dash_state \<Rightarrow> (string \<times> string) set" where
  "credentials_of s =
     (case ps_table (os_passkeys (dh_oauth s)) of None \<Rightarrow> {} | Some t \<Rightarrow> cred_pairs t)"

fun same_or_less :: "aspect \<Rightarrow> 'w dash_state \<Rightarrow> 'w dash_state \<Rightarrow> bool" where
  "same_or_less Named_keys s s' \<longleftrightarrow> named_of s' \<subseteq> named_of s"
| "same_or_less Slugs s s' \<longleftrightarrow> slugs_of s' \<subseteq> slugs_of s"
| "same_or_less Sessions s s' \<longleftrightarrow> sids_of s' \<subseteq> sids_of s"
| "same_or_less Credentials s s' \<longleftrightarrow> credentials_of s' \<subseteq> credentials_of s"
| "same_or_less World s s' \<longleftrightarrow> dh_world s' = dh_world s"
| "same_or_less Conversations s s' \<longleftrightarrow> dh_convs s' = dh_convs s"
| "same_or_less Approvals s s' \<longleftrightarrow> dh_confirm s' = dh_confirm s"
| "same_or_less Oauth_grants s s' \<longleftrightarrow> oauth_of s' \<subseteq> oauth_of s \<and> os_codes (dh_oauth s') = os_codes (dh_oauth s)
     \<and> os_pending (dh_oauth s') = os_pending (dh_oauth s)"

definition gains_only :: "aspect set \<Rightarrow> 'w dash_state \<Rightarrow> 'w dash_state \<Rightarrow> bool" where
  "gains_only A s s' \<longleftrightarrow> (\<forall>a. a \<notin> A \<longrightarrow> same_or_less a s s')"

lemma same_or_less_refl [simp]: "same_or_less a s s"
  by (cases a) auto

lemma same_or_less_trans: "same_or_less a s s1 \<Longrightarrow> same_or_less a s1 s2 \<Longrightarrow> same_or_less a s s2"
  by (cases a) auto

interpretation gains: effect_order "gains_only A" for A
proof unfold_locales
  show "gains_only A s s" for s :: "'a dash_state" by (simp add: gains_only_def)
  show "gains_only A a c" if "gains_only A a b" "gains_only A b c" for a b c :: "'a dash_state"
    using that same_or_less_trans unfolding gains_only_def by blast
qed

text \<open>A change that only some observations see.\<close>

lemmas observe = named_of_def oauth_of_def slugs_of_def sids_of_def credentials_of_def store_of_def

lemma gainsI:
  "(\<And>a. a \<notin> A \<Longrightarrow> same_or_less a s s') \<Longrightarrow> gains_only A s s'"
  by (simp add: gains_only_def)

text \<open>Tokens only leave the store, or are cut short.\<close>

definition grants_no_more :: "token_store \<Rightarrow> token_store \<Rightarrow> bool" where
  "grants_no_more ts ts' \<longleftrightarrow> named_keys ts' \<subseteq> named_keys ts \<and> oauth_keys ts' \<subseteq> oauth_keys ts"

lemma grants_refl [simp]: "grants_no_more ts ts"
  by (simp add: grants_no_more_def)

lemma grants_same:
  "tokens ts' = tokens ts \<Longrightarrow> oauth_tokens ts' = oauth_tokens ts \<Longrightarrow> refresh_tokens ts' = refresh_tokens ts \<Longrightarrow> grants_no_more ts ts'"
  by (simp add: grants_no_more_def named_keys_iff oauth_keys_def)

lemma grants_sub:
  "set (tokens ts') \<subseteq> set (tokens ts) \<Longrightarrow> set (oauth_tokens ts') \<subseteq> set (oauth_tokens ts)
     \<Longrightarrow> set (refresh_tokens ts') \<subseteq> set (refresh_tokens ts) \<Longrightarrow> grants_no_more ts ts'"
  by (fastforce simp: grants_no_more_def named_keys_iff oauth_keys_def)

lemma forget_replay_client [simp]: "rt_client_id (forget_replay now r) = rt_client_id r"
  by (simp add: forget_replay_def)

lemma grants_cleanup [simp]: "grants_no_more ts (cleanup now ts)"
proof -
  have "(k, rt_client_id (forget_replay now r)) \<in> (\<lambda>(k, r). (k, rt_client_id r)) ` set (refresh_tokens ts)"
    if "(k, r) \<in> set (refresh_tokens ts)" for k r using that by force
  then show ?thesis
    by (auto simp: grants_no_more_def named_keys_iff oauth_keys_def dmap_def)
qed

lemma grants_prune [simp]: "grants_no_more ts (snd (prune_unknown_clients known ts))"
proof (rule grants_sub)
  show "set (tokens (snd (prune_unknown_clients known ts))) \<subseteq> set (tokens ts)"
    by (simp add: prune_unknown_clients_def Let_def)
qed (auto simp: prune_unknown_clients_def Let_def)

lemma grants_revoke_client [simp]: "grants_no_more ts (snd (revoke_client c ts))"
  by (rule grants_sub) auto

lemma grants_validate [simp]: "grants_no_more ts (snd (validate H t now ts))"
  by (rule grants_sub) (auto simp: validate_def validate_oauth_def Let_def split: option.splits)

lemma cut_short_same [simp]: "at_client_id (cut_short now a) = at_client_id a" "at_name (cut_short now a) = at_name a"
  by (simp_all add: cut_short_def Let_def)

lemma grants_trans: "grants_no_more a b \<Longrightarrow> grants_no_more b c \<Longrightarrow> grants_no_more a c"
  by (auto simp: grants_no_more_def)

lemma grants_cut_oauth:
  assumes "dget (oauth_tokens ts) h = Some a"
  shows "grants_no_more ts (ts\<lparr>oauth_tokens := dset h (cut_short now a) (oauth_tokens ts)\<rparr>)"
proof -
  have "(h, at_client_id a) \<in> (\<lambda>(k, a). (k, at_client_id a)) ` set (oauth_tokens ts)"
    using dget_in[OF assms] by force
  then show ?thesis
    by (auto simp: grants_no_more_def named_keys_iff oauth_keys_def dest!: in_dset)
qed

lemma grants_cut_token:
  assumes "dget (tokens ts) h = Some a"
  shows "grants_no_more ts (ts\<lparr>tokens := dset h (cut_short now a) (tokens ts)\<rparr>)"
  using dget_in[OF assms] by (auto simp: grants_no_more_def named_keys_iff oauth_keys_def dest!: in_dset)

lemma grants_revoke [simp]: "grants_no_more ts (snd (revoke H t now ts))"
proof (cases "dget (tokens ts) t")
  case (Some a)
  then show ?thesis
    by (auto simp: revoke_def Let_def intro!: grants_trans[OF grants_cut_token[OF Some]] grants_sub)
next
  case None
  show ?thesis
  proof (cases "dget (oauth_tokens ts) (H t)")
    case (Some a)
    then show ?thesis using None
      by (auto simp: revoke_def revoke_oauth_def Let_def intro!: grants_trans[OF grants_cut_oauth[OF Some]] grants_sub split: option.splits)
  qed (simp add: revoke_def revoke_oauth_def None)
qed

lemma grants_revoke_named [simp]: "grants_no_more ts (snd (revoke_named H p cid now ts))"
  by (auto simp: revoke_named_def split: list.splits)

lemma grants_list_named [simp]: "grants_no_more ts (snd (list_named cid now ts))"
  by (simp add: list_named_def Let_def)

lemma grants_issue:
  assumes "name = None"
  shows "grants_no_more ts (snd (issue cid name token tc now te ts))"
proof -
  have "grants_no_more ts (ts\<lparr>tokens := dset token a (tokens ts)\<rparr>)" if "at_name a = None" for a
    using that by (auto simp: grants_no_more_def named_keys_iff oauth_keys_def dest!: in_dset)
  then show ?thesis using assms
    by (auto simp: issue_def Let_def intro!: grants_trans[OF _ grants_cleanup])
qed

subsection \<open>The registry\<close>

definition same_grants :: "client_store \<Rightarrow> client_store \<Rightarrow> bool" where
  "same_grants cs cs' \<longleftrightarrow> (case (pruned cs, pruned cs') of
     (None, None) \<Rightarrow> True | (Some ts, Some ts') \<Rightarrow> grants_no_more ts ts' | _ \<Rightarrow> False)"

lemma same_grants_refl [simp]: "same_grants cs cs" "pruned cs' = pruned cs \<Longrightarrow> same_grants cs cs'"
  by (auto simp: same_grants_def split: option.splits)

lemma same_grants_trans: "same_grants a b \<Longrightarrow> same_grants b c \<Longrightarrow> same_grants a c"
  by (auto simp: same_grants_def split: option.splits intro: grants_trans)

lemma save_pruned [simp]: "pruned (save sig cs) = pruned cs"
  by (simp add: save_def)

lemma load_pruned: "load sig cs = Some cs' \<Longrightarrow> pruned cs' = pruned cs"
  by (auto simp: load_def Let_def split: option.splits json_file.splits prod.splits if_splits)

lemma same_grants_reload [simp]: "same_grants cs (maybe_reload sig cs)"
  by (cases "pruned cs") (auto simp: maybe_reload_def same_grants_def Let_def split: option.splits dest: load_pruned)

lemma same_grants_reads [simp]:
  "same_grants cs (snd (verify_secret H cid sec sig cs))" "same_grants cs (snd (client_exists cid sig cs))"
  "same_grants cs (snd (get_client cid sig cs))" "same_grants cs (snd (get_client_name cid sig cs))"
  "same_grants cs (snd (list_derived cid sig cs))"
  by (simp_all add: verify_secret_def client_exists_def get_client_def get_client_name_def list_derived_def Let_def)

lemma same_grants_check [simp]: "same_grants cs (snd (check_totp V cid c now sig cs))"
proof -
  have "pruned (snd (check_totp V cid c now sig cs)) = pruned (maybe_reload sig cs)"
    by (auto simp: check_totp_def Let_def split: option.splits prod.splits)
  then show ?thesis using same_grants_trans[OF same_grants_reload same_grants_refl(2)] by blast
qed

lemma same_grants_revoke [simp]: "same_grants cs (snd (revoke_stored cid sig sig' cs))"
proof -
  have "pruned (snd (revoke_stored cid sig sig' cs)) = pruned (maybe_reload sig cs)"
    by (auto simp: revoke_stored_def Let_def split: option.splits)
  then show ?thesis using same_grants_trans[OF same_grants_reload same_grants_refl(2)] by blast
qed

subsection \<open>The helpers of the routes\<close>

named_theorems frame \<open>footprints, as introduction rules\<close>

lemmas [frame] = gains.return gains.raise gains.bind

lemma frame_cases [frame]:
  "(b \<Longrightarrow> moves R m) \<Longrightarrow> (\<not> b \<Longrightarrow> moves R m') \<Longrightarrow> moves R (if b then m else m')"
  "(x = None \<Longrightarrow> moves R m) \<Longrightarrow> (\<And>y. x = Some y \<Longrightarrow> moves R (f y)) \<Longrightarrow> moves R (case x of None \<Rightarrow> m | Some y \<Rightarrow> f y)"
  "(\<And>u. z = Inl u \<Longrightarrow> moves R (g u)) \<Longrightarrow> (\<And>v. z = Inr v \<Longrightarrow> moves R (h v)) \<Longrightarrow> moves R (case z of Inl u \<Rightarrow> g u | Inr v \<Rightarrow> h v)"
  "moves R (k (fst p) (snd p)) \<Longrightarrow> moves R (case p of (a, c) \<Rightarrow> k a c)"
  by (auto split: option.splits sum.splits prod.splits)

lemma frame_readings [frame]:
  "moves (gains_only A) (reading e)" "moves (gains_only A) (stat_file e)" "moves (gains_only A) (draw e)"
proof -
  have "same_or_less a s (s\<lparr>dh_clocks := n\<rparr>)" "same_or_less a s (s\<lparr>dh_stats := n\<rparr>)" "same_or_less a s (s\<lparr>dh_draws := n\<rparr>)"
    for a n and s :: "'a dash_state" by (cases a; simp add: observe)+
  then show "moves (gains_only A) (reading e)" "moves (gains_only A) (stat_file e)" "moves (gains_only A) (draw e)"
    by (auto simp: moves_def reading_def stat_file_def draw_def gains_only_def)
qed

text \<open>An operation on the OAuth state that keeps its codes, tickets and passkeys and grants no more.\<close>

definition oauth_calm :: "oauth_state \<Rightarrow> oauth_state \<Rightarrow> bool" where
  "oauth_calm os os' \<longleftrightarrow> same_grants (os_clients os) (os_clients os') \<and> os_codes os' = os_codes os
     \<and> os_pending os' = os_pending os \<and> os_passkeys os' = os_passkeys os"

lemma calm_same:
  assumes "oauth_calm os os'" "dh_oauth s = os"
  shows "same_or_less a s (s\<lparr>dh_oauth := os'\<rparr>)"
  using assms by (cases a) (auto simp: observe oauth_calm_def same_grants_def grants_no_more_def split: option.splits)

lemma frame_on_oauth: "(\<And>os. oauth_calm os (snd (f os))) \<Longrightarrow> moves (gains_only A) (on_oauth f)"
  by (rule movesI) (auto simp: on_oauth_def gains_only_def split: prod.splits intro!: calm_same, metis snd_conv)

lemma frame_on_clients: "(\<And>cs. same_grants cs (snd (f cs))) \<Longrightarrow> moves (gains_only A) (on_clients f)"
  unfolding on_clients_def by (rule frame_on_oauth) (auto simp: oauth_calm_def split: prod.splits, metis snd_conv)

lemma frame_on_store: "(\<And>ts. grants_no_more ts (snd (f ts))) \<Longrightarrow> moves (gains_only A) (on_store f)"
proof -
  assume f: "\<And>ts. grants_no_more ts (snd (f ts))"
  have "moves (gains_only A) (on_oauth (on_tokens f))"
    by (rule frame_on_oauth) (auto simp: oauth_calm_def on_tokens_def same_grants_def split: option.splits prod.splits, metis f snd_conv)
  then show ?thesis unfolding on_store_def by (intro frame)
qed

text \<open>Sessions, slugs, passkeys, conversations, approvals, the world.\<close>

lemma same_or_less_other:
  "a \<noteq> Sessions \<Longrightarrow> same_or_less a s (s\<lparr>dh_sessions := t\<rparr>)"
  "a \<noteq> Slugs \<Longrightarrow> same_or_less a s (s\<lparr>dh_slugs := sl\<rparr>)"
  "a \<noteq> Conversations \<Longrightarrow> same_or_less a s (s\<lparr>dh_convs := cv\<rparr>)"
  "a \<noteq> Approvals \<Longrightarrow> same_or_less a s (s\<lparr>dh_confirm := cf\<rparr>)"
  "a \<noteq> World \<Longrightarrow> same_or_less a s (s\<lparr>dh_world := w\<rparr>)"
  by (cases a; simp add: observe)+

lemma frame_on_sessions:
  assumes "\<And>t. Sessions \<notin> A \<Longrightarrow> sid_pairs (snd (f t)) \<subseteq> sid_pairs t"
  shows "moves (gains_only A) (on_sessions f)"
proof (rule movesI, rule gainsI)
  fix s r s' a assume "on_sessions f s = (r, s')" "a \<notin> A"
  then show "same_or_less a s s'"
    using assms[of "dh_sessions s"]
    by (cases "a = Sessions") (auto simp: on_sessions_def sids_of_def same_or_less_other split: prod.splits)
qed

lemma frame_session_ops [frame]:
  "moves (gains_only A) (on_sessions (session_load sid now))"
  "moves (gains_only A) (on_sessions (session_delete sid))"
  "moves (gains_only A) (on_sessions (\<lambda>t. (g t, t)))"
proof -
  have d: "sid_pairs (snd (session_delete sid t)) \<subseteq> sid_pairs t" for t
    by (auto simp: sid_pairs_def session_delete_def split: option.splits)
  then have "sid_pairs (snd (session_load sid now t)) \<subseteq> sid_pairs t" for t
    by (simp add: session_load_def split: option.split)
  with d show "moves (gains_only A) (on_sessions (session_load sid now))" "moves (gains_only A) (on_sessions (session_delete sid))"
    by (simp_all add: frame_on_sessions)
  show "moves (gains_only A) (on_sessions (\<lambda>t. (g t, t)))" by (rule frame_on_sessions) simp
qed

lemma session_update_pairs:
  assumes "\<And>r. sr_client_id (f r) = sr_client_id r"
  shows "sid_pairs (session_update sid f t) \<subseteq> sid_pairs t"
  using assms by (force simp: sid_pairs_def session_update_def split: option.splits dest!: in_dset dget_in)

lemma frame_session_updates [frame]:
  "moves (gains_only A) (on_sessions (\<lambda>t. ((), session_touch sid now t)))"
  "moves (gains_only A) (on_sessions (\<lambda>t. ((), update_bearer sid b ttl t1 t2 t)))"
  by (rule frame_on_sessions; simp add: session_touch_def update_bearer_def session_update_pairs)+

lemma frame_on_slugs:
  assumes "\<And>t. Slugs \<notin> A \<Longrightarrow> set (snd (f t)) \<subseteq> set t"
  shows "moves (gains_only A) (on_slugs f)"
proof (rule movesI, rule gainsI)
  fix s r s' a assume h: "on_slugs f s = (r, s')" "a \<notin> A"
  show "same_or_less a s s'"
  proof (cases "dh_slugs s")
    case (Some t)
    then show ?thesis using h assms[of t]
      by (cases "a = Slugs") (auto simp: on_slugs_def slugs_of_def same_or_less_other split: prod.splits)
  qed (use h in \<open>simp add: on_slugs_def\<close>)
qed

lemma frame_slug_ops [frame]:
  "moves (gains_only A) (on_slugs (slug_prune_expired t0))" "moves (gains_only A) (on_slugs (slug_delete_unused slug cid))"
  "Slugs \<in> A \<Longrightarrow> moves (gains_only A) (on_slugs f)"
  by (rule frame_on_slugs; auto simp: slug_prune_expired_def slug_delete_unused_def Let_def)+

lemma frame_on_convs [frame]:
  assumes "Conversations \<in> A \<or> (\<forall>t. snd (f t) = t)"
  shows "moves (gains_only A) (on_convs f)"
proof (rule movesI, rule gainsI)
  fix s r s' a assume h: "on_convs f s = (r, s')" "a \<notin> A"
  show "same_or_less a s s'"
  proof (cases "dh_convs s")
    case (Some t)
    then show ?thesis using h assms
      by (cases "a = Conversations") (auto simp: on_convs_def same_or_less_other split: prod.splits, metis snd_conv)
  qed (use h in \<open>simp add: on_convs_def\<close>)
qed

definition pk_pairs :: "passkey_service \<Rightarrow> (string \<times> string) set" where
  "pk_pairs ps = (case ps_table ps of None \<Rightarrow> {} | Some t \<Rightarrow> cred_pairs t)"

lemma frame_on_passkeys:
  assumes "\<And>ps. Credentials \<notin> A \<Longrightarrow> pk_pairs (snd (f ps)) \<subseteq> pk_pairs ps"
  shows "moves (gains_only A) (on_passkeys f)"
proof (rule movesI, rule gainsI)
  fix s r s' a assume h: "on_passkeys f s = (r, s')" "a \<notin> A"
  then obtain x ps where f: "f (os_passkeys (dh_oauth s)) = (x, ps)"
    and s': "s' = s\<lparr>dh_oauth := (dh_oauth s)\<lparr>os_passkeys := ps\<rparr>\<rparr>"
    by (auto simp: on_passkeys_def on_oauth_def split: prod.splits)
  show "same_or_less a s s'"
    using h(2) assms[of "os_passkeys (dh_oauth s)"] f by (cases a) (auto simp: s' observe pk_pairs_def)
qed

lemma passkey_op_pairs:
  "pk_pairs (snd (registration_options q netloc cid sess ch st tp now ps)) \<subseteq> pk_pairs ps"
  "pk_pairs (snd (authentication_options q netloc cid ch st tp now ps)) \<subseteq> pk_pairs ps"
  "cred_pairs (snd (passkey_delete i cid t)) \<subseteq> cred_pairs t"
  by (auto simp: registration_options_def authentication_options_def passkey_delete_def pk_pairs_def cred_pairs_def Let_def
      split: option.splits if_splits)

lemma frame_passkey_ops [frame]:
  "moves (gains_only A) (on_passkeys (registration_options q netloc cid sess ch st tp now))"
  "moves (gains_only A) (on_passkeys (authentication_options q netloc cid ch st tp now))"
  "moves (gains_only A) (delete_own_passkey i cid)"
  "Credentials \<in> A \<Longrightarrow> moves (gains_only A) (on_passkeys f)"
proof -
  show "moves (gains_only A) (delete_own_passkey i cid)"
    unfolding delete_own_passkey_def using subsetD[OF passkey_op_pairs(3)]
    by (auto simp: pk_pairs_def intro!: frame_on_passkeys split: option.splits prod.splits) (metis snd_conv)
qed (auto intro!: frame_on_passkeys passkey_op_pairs)

lemma touch_pairs: "cred_pairs (passkey_touch i n now t) \<subseteq> cred_pairs t"
  by (force simp: cred_pairs_def passkey_touch_def split: option.splits dest!: in_dset dget_in)

lemma frame_verify_authentication [frame]: "moves (gains_only A) (on_passkeys (verify_authentication wa q netloc st c tp now t1 t2))"
proof (rule frame_on_passkeys)
  fix ps show "pk_pairs (snd (verify_authentication wa q netloc st c tp now t1 t2 ps)) \<subseteq> pk_pairs ps"
    using subsetD[OF touch_pairs] by (auto simp: verify_authentication_def pk_pairs_def Let_def split: option.splits prod.splits)
qed

lemma oauth_calm_trans: "oauth_calm a b \<Longrightarrow> oauth_calm b c \<Longrightarrow> oauth_calm a c"
  by (auto simp: oauth_calm_def intro: same_grants_trans)

lemma calm_seed_owner: "oauth_calm os (snd (seed_owner cid sig os))"
proof -
  obtain c cs where "get_client cid sig (os_clients os) = (c, cs)" by fastforce
  with same_grants_reads(3)[of "os_clients os" cid sig] show ?thesis
    by (simp add: seed_owner_def oauth_calm_def)
qed

lemma calm_lockout [simp]:
  "oauth_calm os (snd (totp_locked cid ip sig now os))" "oauth_calm os (totp_record_failure cid ip sig now os)"
  "oauth_calm os (totp_record_success cid ip sig now os)"
  using calm_seed_owner[of os cid sig]
  by (auto simp: totp_locked_def totp_record_failure_def totp_record_success_def oauth_calm_def split: prod.splits)

lemma calm_check_code [simp]: "oauth_calm os (snd (check_code oe cid c now sig os))"
proof -
  obtain x cs where "check_totp (oe_totp oe) cid c now sig (os_clients os) = (x, cs)" by fastforce
  with same_grants_check[of "os_clients os" "oe_totp oe" cid c now sig] show ?thesis
    by (simp add: check_code_def oauth_calm_def)
qed

lemma calm_limiter [simp]: "oauth_calm os (os\<lparr>os_login_limiter := l\<rparr>)" "oauth_calm os os"
  by (simp_all add: oauth_calm_def)

lemma frame_second_factor [frame]:
  "moves (gains_only A) (verify_client e cid secret)" "moves (gains_only A) (client_name e cid)"
  "moves (gains_only A) (is_locked e r cid)" "moves (gains_only A) (check_fresh e r cid c)"
  "moves (gains_only A) (clear_strikes e r cid)" "moves (gains_only A) (rate_limited e r)"
  unfolding verify_client_def client_name_def is_locked_def check_fresh_def clear_strikes_def rate_limited_def
  by (intro frame frame_on_clients frame_on_oauth; simp split: prod.splits)+

text \<open>A named token is a named key; nothing else of the store is gained.\<close>

lemma issue_oauth_keys: "oauth_keys (snd (issue cid name token tc now te ts)) \<subseteq> oauth_keys ts"
proof -
  have "oauth_keys (cleanup t ts') \<subseteq> oauth_keys ts'" for t ts' using grants_cleanup grants_no_more_def by blast
  moreover have "oauth_keys (persist a (ts'\<lparr>tokens := x\<rparr>)) = oauth_keys ts'" "oauth_keys (ts'\<lparr>tokens := x\<rparr>) = oauth_keys ts'" for a x ts'
    by (simp_all add: oauth_keys_def)
  ultimately show ?thesis
    by (auto simp: issue_def count_named_def Let_def split: prod.splits if_splits) blast+
qed

lemma frame_on_issue:
  assumes "name = None \<or> Named_keys \<in> A"
  shows "moves (gains_only A) (on_store (issue cid name token tc now te))"
proof (cases "name = None")
  case True
  then show ?thesis by (intro frame_on_store grants_issue)
next
  case False
  have "moves (gains_only A) (on_oauth (on_tokens (issue cid name token tc now te)))"
  proof (rule movesI, rule gainsI)
    fix s r s' a assume h: "on_oauth (on_tokens (issue cid name token tc now te)) s = (r, s')" "a \<notin> A"
    show "same_or_less a s s'"
    proof (cases "store_of s")
      case (Some ts)
      then show ?thesis using h assms False issue_oauth_keys[of cid name token tc now te ts]
        by (cases a) (auto simp: on_oauth_def on_tokens_def observe split: prod.splits)
    qed (use h in \<open>cases a; auto simp: on_oauth_def on_tokens_def observe\<close>)
  qed
  then show ?thesis unfolding on_store_def by (intro frame)
qed

lemma frame_issue_token [frame]:
  "name = None \<or> Named_keys \<in> A \<Longrightarrow> moves (gains_only A) (issue_token e cid name)"
  unfolding issue_token_def by (intro frame frame_on_issue)

lemma frame_load_session [frame]: "moves (gains_only A) (load_session e r)"
  unfolding load_session_def by (intro frame)

lemma frame_bearer_live [frame]: "moves (gains_only A) (bearer_live e se)"
  unfolding bearer_live_def by (intro frame frame_on_store) simp

lemma frame_wrappers [frame]:
  "(\<And>se. moves (gains_only A) (k se)) \<Longrightarrow> moves (gains_only A) (page_session e r stale k)"
  "(\<And>se. moves (gains_only A) (k se)) \<Longrightarrow> moves (gains_only A) (api_session e r k)"
  "(\<And>se. moves (gains_only A) (k se)) \<Longrightarrow> moves (gains_only A) (connector_session e r k)"
  "moves (gains_only A) m \<Longrightarrow> moves (gains_only A) (with_csrf r m)"
  "moves (gains_only A) m \<Longrightarrow> moves (gains_only A) (with_passkeys m)"
  "moves (gains_only A) m \<Longrightarrow> moves (gains_only A) (passkey_limit e r m)"
  "moves (gains_only A) l \<Longrightarrow> (\<And>x. moves (gains_only A) (b x)) \<Longrightarrow> moves (gains_only A) m \<Longrightarrow>
     moves (gains_only A) (with_fresh_code e r cid c l b m)"
proof -
  show page: "moves (gains_only A) (page_session e r stale k)" if "\<And>se. moves (gains_only A) (k se)" for k :: "session \<Rightarrow> ('a, dash_reply) dash" and e stale
    unfolding page_session_def using that by (intro frame)
  show "moves (gains_only A) (api_session e r k)" if "\<And>se. moves (gains_only A) (k se)"
    unfolding api_session_def using that by (intro frame)
  show "moves (gains_only A) (connector_session e r k)" if "\<And>se. moves (gains_only A) (k se)"
    using page[OF that] by (auto simp: moves_def connector_session_def gains.refl)
  show "moves (gains_only A) (with_csrf r m)" if "moves (gains_only A) m"
    unfolding with_csrf_def using that by (intro frame)
  show pk: "moves (gains_only A) (with_passkeys m)" if "moves (gains_only A) m" for m :: "('a, dash_reply) dash"
    using that by (auto simp: moves_def with_passkeys_def gains.refl)
  show "moves (gains_only A) (passkey_limit e r m)" if "moves (gains_only A) m"
    unfolding passkey_limit_def using that by (intro frame pk)
  show "moves (gains_only A) (with_fresh_code e r cid c l b m)"
    if "moves (gains_only A) l" "\<And>x. moves (gains_only A) (b x)" "moves (gains_only A) m"
    unfolding with_fresh_code_def using that by (intro frame)
qed

lemma frame_start_session [frame]: "Sessions \<in> A \<Longrightarrow> moves (gains_only A) (start_session e r cid secret nxt as_json)"
  unfolding start_session_def by (intro frame frame_on_sessions) auto

lemma frame_renew_bearer [frame]: "moves (gains_only A) (renew_bearer e se nxt)"
  unfolding renew_bearer_def Let_def by (intro frame) simp

lemma frame_tokens_page [frame]: "moves (gains_only A) (tokens_page e r se err created)"
  unfolding tokens_page_def by (intro frame frame_on_store) simp

lemma frame_connectors_page [frame]: "moves (gains_only A) (connectors_page e r se err created)"
  unfolding connectors_page_def by (intro frame frame_on_clients) simp

subsection \<open>The routes\<close>

fun may_touch :: "dash_route \<Rightarrow> aspect set" where
  "may_touch Login = {Sessions}"
| "may_touch Passkey_login = {Sessions}"
| "may_touch Tokens_new = {Named_keys}"
| "may_touch Connectors_new = {Slugs}"
| "may_touch Passkeys_new = {Credentials}"
| "may_touch Update_apply = {World}"
| "may_touch Panel_call = {World}"
| "may_touch Conversation_new = {Conversations}"
| "may_touch Conversation_edit = {Conversations}"
| "may_touch Conversation_remove = {Conversations}"
| "may_touch Chat_confirm = {Approvals}"
| "may_touch _ = {}"

lemma frame_pages:
  "moves (gains_only A) (index_page e r)" "moves (gains_only A) (login_get e r)" "moves (gains_only A) (refresh_get e r)"
  "moves (gains_only A) (refresh_post e r)" "moves (gains_only A) (logout e r)" "moves (gains_only A) (page_get e r t st)"
  "moves (gains_only A) (chat_get e r)" "moves (gains_only A) (tokens_get e r)" "moves (gains_only A) (tokens_revoke e r)"
  "moves (gains_only A) (connectors_get e r)" "moves (gains_only A) (connectors_slug_delete e r)"
  "moves (gains_only A) (connectors_revoke e r)"
  unfolding index_page_def login_get_def refresh_get_def refresh_post_def logout_def page_get_def chat_get_def tokens_get_def
    tokens_revoke_def connectors_get_def connectors_slug_delete_def connectors_revoke_def Let_def
  by (intro frame frame_on_store frame_on_clients; simp)+

lemma frame_passkey_pages:
  "moves (gains_only A) (passkeys_register_options e r)"
  "moves (gains_only A) (passkeys_delete e r)" 
  "moves (gains_only A) (passkeys_auth_options e r)"
  unfolding passkeys_register_options_def passkeys_delete_def passkeys_auth_options_def Let_def
  by (intro frame; simp)+

lemma frame_passkey_list: "moves (gains_only A) (passkeys_list e r)" "moves (gains_only A) (passkeys_remove e r)"
proof -
  have "moves (gains_only A) (\<lambda>s. (Inr (f s), s))" for f by (simp add: moves_def gains.refl)
  then show "moves (gains_only A) (passkeys_list e r)" unfolding passkeys_list_def by (intro frame)
  have d: "moves (gains_only A) (pbind (delete_own_passkey i cid) (\<lambda>_. preturn x))" for i cid x by (intro frame)
  have "moves (gains_only A) (\<lambda>s. if P s then pbind (delete_own_passkey i cid) (\<lambda>_. preturn x) s else (Inr x, s))" for P i cid x
    using d[of i cid x] by (auto simp: moves_def gains.refl)
  then show "moves (gains_only A) (passkeys_remove e r)"
    unfolding passkeys_remove_def Let_def by (intro frame)
qed

lemma frame_grants:
  "moves (gains_only {Sessions}) (login_post e r)" "moves (gains_only {Sessions}) (passkeys_auth_verify e r)"
  "moves (gains_only {Named_keys}) (tokens_create e r)" "moves (gains_only {Slugs}) (connectors_mint e r)"
  "moves (gains_only {Credentials}) (passkeys_register_verify e r)"
  unfolding login_post_def passkeys_auth_verify_def tokens_create_def connectors_mint_def passkeys_register_verify_def Let_def
  by (intro frame; simp)+

lemma frame_conversations:
  "moves (gains_only {}) (conv_list e r)" "moves (gains_only {}) (conv_detail e r)" "moves (gains_only {Conversations}) (conv_new e r)"
  "moves (gains_only {Conversations}) (conv_edit e r)" "moves (gains_only {Conversations}) (conv_remove e r)"
  unfolding conv_list_def conv_detail_def conv_new_def conv_edit_def conv_remove_def Let_def
  by (intro frame; simp)+

lemma frame_outside:
  "moves (gains_only {Approvals}) (chat_confirm e r)" "moves (gains_only {World}) (mcp_call e r)"
  "moves (gains_only {World}) (update_apply e r)"
proof -
  have confirm: "moves (gains_only {Approvals}) m" if "\<And>s. \<exists>c. snd (m s) = s\<lparr>dh_confirm := c\<rparr>" for m :: "('a, dash_reply) dash"
    using that by (auto simp: moves_def gains_only_def) (metis same_or_less_other(4))
  have world: "moves (gains_only {World}) m" if "\<And>s. \<exists>w. snd (m s) = s\<lparr>dh_world := w\<rparr>" for m :: "('a, dash_reply) dash"
    using that by (auto simp: moves_def gains_only_def) (metis same_or_less_other(5))
  have same: "\<exists>c. s = s\<lparr>dh_confirm := c\<rparr>" "\<exists>w. s = s\<lparr>dh_world := w\<rparr>" for s :: "'a dash_state"
    by (rule exI[of _ "dh_confirm s"], simp) (rule exI[of _ "dh_world s"], simp)
  show "moves (gains_only {Approvals}) (chat_confirm e r)"
    unfolding chat_confirm_def Let_def
    by (intro frame confirm) (auto simp: same split: option.split prod.split)
  show "moves (gains_only {World}) (mcp_call e r)"
    unfolding mcp_call_def Let_def
    by (intro frame world) (auto split: prod.split sum.split)
  show "moves (gains_only {World}) (update_apply e r)"
    unfolding update_apply_def Let_def
    by (intro frame; rule world) (auto split: prod.split)
qed

lemmas route_frames = frame_pages frame_passkey_pages frame_passkey_list frame_grants frame_conversations frame_outside

lemma route_footprint: "moves (gains_only (may_touch rt)) (dash_handle e rt r)"
  by (cases rt) (simp_all add: route_frames)

end
