(* ===== verification/Dash_Idle.thy ===== *)
theory Dash_Idle
  imports Dash_Frame
begin

text \<open>
  What a request does that the dashboard turns away: it loads the session and looks at its bearer.
  Nothing of the state changes but the time a session was last seen, and tokens and sessions that had
  run out.
\<close>

subsection \<open>Entries that ran out\<close>

definition lapsed_at :: "('v \<Rightarrow> 'c) \<Rightarrow> (real \<Rightarrow> 'c \<Rightarrow> bool) \<Rightarrow> real set \<Rightarrow> 'v option \<Rightarrow> 'v option \<Rightarrow> bool" where
  "lapsed_at core over T x x' \<longleftrightarrow>
     map_option core x' = map_option core x \<or> x' = None \<and> (\<exists>v t. x = Some v \<and> t \<in> T \<and> over t (core v))"

definition lapsed :: "('v \<Rightarrow> 'c) \<Rightarrow> (real \<Rightarrow> 'c \<Rightarrow> bool) \<Rightarrow> real set \<Rightarrow> ('k, 'v) dict \<Rightarrow> ('k, 'v) dict \<Rightarrow> bool" where
  "lapsed core over T d d' \<longleftrightarrow> (\<forall>k. lapsed_at core over T (dget d k) (dget d' k))"

lemma lapsed_refl [simp]: "lapsed core over T d d"
  by (simp add: lapsed_def lapsed_at_def)

lemma lapsed_mono: "lapsed core over T d d' \<Longrightarrow> T \<subseteq> T' \<Longrightarrow> lapsed core over T' d d'"
  unfolding lapsed_def lapsed_at_def by blast

lemma lapsed_at_trans: "lapsed_at core over T x y \<Longrightarrow> lapsed_at core over T y z \<Longrightarrow> lapsed_at core over T x z"
  by (cases x; cases y; cases z) (auto simp: lapsed_at_def)

lemma lapsed_trans: "lapsed core over T d d1 \<Longrightarrow> lapsed core over T d1 d2 \<Longrightarrow> lapsed core over T d d2"
  unfolding lapsed_def using lapsed_at_trans by blast

text \<open>A session row without the time it was last seen; a token as it is.\<close>

definition row_core :: "session_row \<Rightarrow> session_row" where
  "row_core row = row\<lparr>sr_last_seen := 0\<rparr>"

definition row_over :: "real \<Rightarrow> session_row \<Rightarrow> bool" where
  "row_over t row \<longleftrightarrow> sr_expires_at row \<le> t"

definition store_lapsed :: "real set \<Rightarrow> token_store \<Rightarrow> token_store \<Rightarrow> bool" where
  "store_lapsed T ts ts' \<longleftrightarrow> refresh_tokens ts' = refresh_tokens ts
     \<and> lapsed (\<lambda>a. a) at_expired T (tokens ts) (tokens ts') \<and> lapsed (\<lambda>a. a) at_expired T (oauth_tokens ts) (oauth_tokens ts')"

lemma store_lapsed_validate: "now \<in> T \<Longrightarrow> store_lapsed T ts (snd (validate H t now ts))"
  by (auto simp: store_lapsed_def validate_def validate_oauth_def lapsed_def lapsed_at_def Let_def split: option.splits)

subsection \<open>Idle requests\<close>

text \<open>The state without the token store, the sessions and the count of clock readings.\<close>

definition rest_of :: "'w dash_state \<Rightarrow> 'w dash_state" where
  "rest_of s = s\<lparr>dh_oauth := (dh_oauth s)\<lparr>os_clients := (os_clients (dh_oauth s))\<lparr>pruned := None\<rparr>\<rparr>, dh_sessions := [], dh_clocks := 0\<rparr>"

definition readings_of :: "'w dash_env \<Rightarrow> 'w dash_state \<Rightarrow> 'w dash_state \<Rightarrow> real set" where
  "readings_of e s s' = de_clock e ` {dh_clocks s..<dh_clocks s'}"

definition idle :: "'w dash_env \<Rightarrow> 'w dash_state \<Rightarrow> 'w dash_state \<Rightarrow> bool" where
  "idle e s s' \<longleftrightarrow> rest_of s' = rest_of s \<and> dh_clocks s \<le> dh_clocks s'
     \<and> lapsed row_core row_over (readings_of e s s') (dh_sessions s) (dh_sessions s')
     \<and> rel_option (store_lapsed (readings_of e s s')) (store_of s) (store_of s')"

lemma store_lapsed_trans:
  "store_lapsed T a b \<Longrightarrow> store_lapsed T b c \<Longrightarrow> store_lapsed T a c"
  by (auto simp: store_lapsed_def intro: lapsed_trans)

lemma store_lapsed_mono: "store_lapsed T a b \<Longrightarrow> T \<subseteq> T' \<Longrightarrow> store_lapsed T' a b"
  by (auto simp: store_lapsed_def intro: lapsed_mono)

lemma rel_option_through:
  "rel_option P x y \<Longrightarrow> rel_option Q y z \<Longrightarrow> (\<And>a b c. P a b \<Longrightarrow> Q b c \<Longrightarrow> R a c) \<Longrightarrow> rel_option R x z"
  by (cases x; cases y; cases z) (simp_all)

interpretation idle: effect_order "idle e" for e
proof unfold_locales
  show "idle e s s" for s :: "'a dash_state"
    by (auto simp: idle_def store_lapsed_def intro: option.rel_refl)
next
  fix a b c :: "'a dash_state" assume 1: "idle e a b" and 2: "idle e b c"
  then have T: "readings_of e a b \<subseteq> readings_of e a c" "readings_of e b c \<subseteq> readings_of e a c"
    by (auto simp: idle_def readings_of_def)
  have "lapsed row_core row_over (readings_of e a c) (dh_sessions a) (dh_sessions c)"
    using 1 2 unfolding idle_def by (blast intro: lapsed_trans lapsed_mono[OF _ T(1)] lapsed_mono[OF _ T(2)])
  moreover have "rel_option (store_lapsed (readings_of e a c)) (store_of a) (store_of c)"
    using 1 2 store_lapsed_trans[OF store_lapsed_mono[OF _ T(1)] store_lapsed_mono[OF _ T(2)]] rel_option_through
    unfolding idle_def by blast
  ultimately show "idle e a c" using 1 2 by (auto simp: idle_def)
qed

named_theorems idles \<open>computations that leave the state idle\<close>

lemmas [idles] = idle.return idle.raise idle.bind

lemma row_over_core [simp]: "row_over t (row_core row) \<longleftrightarrow> sr_expires_at row \<le> t"
  by (simp add: row_over_def row_core_def)

lemma lapsed_load: "now \<in> T \<Longrightarrow> lapsed row_core row_over T t (snd (session_load sid now t))"
  by (auto simp: lapsed_def lapsed_at_def session_load_def session_delete_def is_expired_def session_now_def session_of_row_def
      split: option.splits)

lemma lapsed_touch: "lapsed row_core row_over T t (session_touch sid now t)"
  by (auto simp: lapsed_def lapsed_at_def session_touch_def session_update_def row_core_def split: option.splits)

text \<open>A reading of the clock and what is done to the sessions or the token store at that time.\<close>

lemma idle_at_reading:
  assumes "\<And>s. fst (reading e s) = Inr (de_clock e (dh_clocks s)) \<Longrightarrow> idle e s (snd (f (de_clock e (dh_clocks s)) (snd (reading e s))))"
  shows "moves (idle e) (pbind (reading e) f)"
  using assms by (simp add: moves_def pbind_def reading_def)

lemma idle_load [idles]:
  assumes "\<And>x. moves (idle e) (k x)"
  shows "moves (idle e) (pbind (reading e) (\<lambda>now. pbind (on_sessions (session_load sid now)) k))"
proof (rule idle_at_reading)
  fix s :: "'a dash_state"
  let ?now = "de_clock e (dh_clocks s)"
  obtain x t where l: "session_load sid ?now (dh_sessions s) = (x, t)" by fastforce
  let ?s = "s\<lparr>dh_clocks := Suc (dh_clocks s), dh_sessions := t\<rparr>"
  have "?now \<in> readings_of e s ?s" by (simp add: readings_of_def)
  from lapsed_load[OF this, of "dh_sessions s" sid] have "idle e s ?s"
    using l by (simp add: idle_def rest_of_def store_of_def option.rel_refl store_lapsed_def)
  moreover have "idle e ?s (snd (k x ?s))" using assms[of x] by (simp add: moves_def)
  ultimately show "idle e s (snd (pbind (on_sessions (session_load sid ?now)) k (snd (reading e s))))"
    using idle.trans by (simp add: pbind_def on_sessions_def reading_def l)
qed

lemma idle_touch [idles]: "moves (idle e) (pbind (reading e) (\<lambda>t. pbind (on_sessions (\<lambda>tb. ((), session_touch sid t tb))) (\<lambda>_. preturn x)))"
  by (rule idle_at_reading)
     (simp add: pbind_def on_sessions_def reading_def preturn_def idle_def rest_of_def store_of_def option.rel_refl store_lapsed_def lapsed_touch)

lemma idle_reading: "(\<And>x. moves (idle e) (k x)) \<Longrightarrow> moves (idle e) (pbind (reading e) k)"
proof (rule idle.bind)
  show "moves (idle e) (reading e)"
    by (simp add: moves_def reading_def idle_def rest_of_def store_of_def option.rel_refl store_lapsed_def)
qed

lemma idle_validate [idles]:
  assumes "\<And>x. moves (idle e) (k x)"
  shows "moves (idle e) (pbind (reading e) (\<lambda>t. pbind (on_store (validate H b t)) k))"
proof (rule idle_at_reading)
  fix s :: "'a dash_state"
  let ?now = "de_clock e (dh_clocks s)" and ?s1 = "s\<lparr>dh_clocks := Suc (dh_clocks s)\<rparr>"
  obtain x s2 where o: "on_store (validate H b ?now) ?s1 = (x, s2)" by fastforce
  have T: "?now \<in> readings_of e s s2"
    using o by (auto simp: readings_of_def on_store_def on_oauth_def on_tokens_def pbind_def praise_def preturn_def
        split: option.splits prod.splits)
  have "idle e s s2"
    using o store_lapsed_validate[OF T, of _ H b]
    by (auto simp: idle_def rest_of_def store_of_def on_store_def on_oauth_def on_tokens_def pbind_def praise_def preturn_def
        split: option.splits prod.splits) (metis snd_conv)
  moreover have "idle e s2 (snd (pbind (\<lambda>s. (x, s)) k s2))"
    using assms by (auto simp: moves_def pbind_def idle.refl split: sum.split)
  ultimately show "idle e s (snd (pbind (on_store (validate H b ?now)) k (snd (reading e s))))"
    using idle.trans by (simp add: pbind_def reading_def o)
qed

lemma idle_load_session [idles]: "moves (idle e) (load_session e r)"
  unfolding load_session_def
  by (auto intro!: idle_load idle_touch idle.return split: option.split)

lemma idle_bearer_live [idles]: "moves (idle e) (bearer_live e se)"
  unfolding bearer_live_def
  by (rule idle_reading) (auto intro!: idle_validate idle.return split: option.split)

text \<open>Turned away by the CSRF check, before or after the session was looked at.\<close>

abbreviation csrf_passed :: "dash_request \<Rightarrow> bool" where
  "csrf_passed r \<equiv> csrf_verify (dr_csrf r) = Some True"

lemma idle_with_csrf [idles]: "\<not> csrf_passed r \<Longrightarrow> moves (idle e) (with_csrf r m)"
  unfolding with_csrf_def by (auto intro!: idle.return idle.raise split: option.split)

lemma idle_page_session: "(\<And>se. moves (idle e) (k se)) \<Longrightarrow> moves (idle e) (page_session e r stale k)"
  unfolding page_session_def by (auto intro!: idle.bind idle.return idle_load_session idle_bearer_live split: option.split)

lemma idle_api_session: "(\<And>se. moves (idle e) (k se)) \<Longrightarrow> moves (idle e) (api_session e r k)"
  unfolding api_session_def by (auto intro!: idle.bind idle.return idle_load_session idle_bearer_live split: option.split)

lemma idle_connector_session: "(\<And>se. moves (idle e) (k se)) \<Longrightarrow> moves (idle e) (connector_session e r k)"
  using idle_page_session[of e k r CONNECTORS_STALE] by (simp add: moves_def connector_session_def idle.refl)

fun safe_method :: "dash_route \<Rightarrow> bool" where
  "safe_method Index = True"
| "safe_method Login_page = True"
| "safe_method Refresh_page = True"
| "safe_method Overview_page = True"
| "safe_method Usage_page = True"
| "safe_method Chat_page = True"
| "safe_method Tokens_list = True"
| "safe_method Connectors_list = True"
| "safe_method Passkeys_list = True"
| "safe_method Conversations_list = True"
| "safe_method Conversation_detail = True"
| "safe_method _ = False"

lemma refused_without_csrf:
  assumes "\<not> csrf_passed r" "\<not> safe_method rt"
  shows "moves (idle e) (dash_handle e rt r)"
proof -
  note guards = idle_page_session idle_api_session idle_connector_session idle_with_csrf[OF assms(1)]
  have "moves (idle e) (tokens_create e r)" "moves (idle e) (tokens_revoke e r)" "moves (idle e) (passkeys_remove e r)"
    unfolding tokens_create_def tokens_revoke_def passkeys_remove_def by (intro guards)+
  moreover have "moves (idle e) (connectors_mint e r)" "moves (idle e) (connectors_slug_delete e r)" "moves (idle e) (connectors_revoke e r)"
    unfolding connectors_mint_def connectors_slug_delete_def connectors_revoke_def by (intro guards)+
  moreover have "moves (idle e) (login_post e r)" "moves (idle e) (refresh_post e r)" "moves (idle e) (logout e r)"
    "moves (idle e) (passkeys_auth_options e r)" "moves (idle e) (passkeys_auth_verify e r)"
    unfolding login_post_def refresh_post_def logout_def passkeys_auth_options_def passkeys_auth_verify_def by (intro guards)+
  moreover have "moves (idle e) (passkeys_register_options e r)" "moves (idle e) (passkeys_register_verify e r)"
    "moves (idle e) (passkeys_delete e r)" "moves (idle e) (update_apply e r)"
    unfolding passkeys_register_options_def passkeys_register_verify_def passkeys_delete_def update_apply_def by (intro guards)+
  moreover have "moves (idle e) (conv_new e r)" "moves (idle e) (conv_edit e r)" "moves (idle e) (conv_remove e r)"
    "moves (idle e) (chat_confirm e r)" "moves (idle e) (mcp_call e r)"
    unfolding conv_new_def conv_edit_def conv_remove_def chat_confirm_def mcp_call_def by (intro guards)+
  ultimately show ?thesis using assms(2) by (cases rt) simp_all
qed

end
