(* ===== verification/Dash_Step.thy ===== *)
theory Dash_Step
  imports Dash_Idle
begin

text \<open>What a request went through before it gained anything.\<close>

definition signed_in :: "'w dash_env \<Rightarrow> dash_request \<Rightarrow> session \<Rightarrow> 'w dash_state \<Rightarrow> 'w dash_state \<Rightarrow> bool" where
  "signed_in e r se s b \<longleftrightarrow> (\<exists>a. load_session e r s = (Inr (Some se), a) \<and> bearer_live e se a = (Inr True, b))"

definition code_accepted :: "'w dash_env \<Rightarrow> dash_request \<Rightarrow> string \<Rightarrow> string \<Rightarrow> 'w dash_state \<Rightarrow> bool" where
  "code_accepted e r cid c s \<longleftrightarrow>
     (\<exists>a b. is_locked e r cid s = (Inr False, a) \<and> check_fresh e r cid c a = (Inr TOTP_OK, b))"

abbreviation "beyond \<equiv> only_if (gains_only {})"

lemma beyond_bind:
  assumes "\<And>A. moves (gains_only A) m" "\<And>x. beyond (Q x) (f x)"
  shows "beyond (\<lambda>s s'. \<exists>x s1. m s = (Inr x, s1) \<and> gains_only {} s s1 \<and> Q x s1 s') (pbind m f)"
  by (rule gains.only_if_bind[OF assms(1,2)])

lemma beyond_page_session:
  assumes "\<And>se. beyond (Q se) (k se)"
  shows "beyond (\<lambda>s s'. \<exists>se b. signed_in e r se s b \<and> gains_only {} s b \<and> Q se b s') (page_session e r stale k)"
proof -
  have "beyond (\<lambda>s s'. \<exists>x a. load_session e r s = (Inr x, a) \<and> gains_only {} s a
      \<and> (\<exists>se. x = Some se \<and> (\<exists>live b. bearer_live e se a = (Inr live, b) \<and> gains_only {} a b \<and> live \<and> Q se b s')))
    (page_session e r stale k)"
    unfolding page_session_def
  proof (intro beyond_bind frame_load_session)
    fix x
    show "beyond (\<lambda>a s'. \<exists>se. x = Some se \<and> (\<exists>live b. bearer_live e se a = (Inr live, b) \<and> gains_only {} a b \<and> live \<and> Q se b s'))
      (case x of None \<Rightarrow> preturn (Redirect 302 ''/app/login'')
       | Some se \<Rightarrow> pbind (bearer_live e se) (\<lambda>live. if live then k se else preturn (Redirect 302 stale)))"
    proof (cases x)
      case (Some se)
      have "beyond (\<lambda>a s'. \<exists>live b. bearer_live e se a = (Inr live, b) \<and> gains_only {} a b \<and> live \<and> Q se b s')
        (pbind (bearer_live e se) (\<lambda>live. if live then k se else preturn (Redirect 302 stale)))"
        by (intro beyond_bind frame_bearer_live only_if_cases) (auto intro: only_if_moves gains.return only_if_mono[OF assms])
      then show ?thesis using Some by simp
    qed (simp add: only_if_moves gains.return)
  qed
  then show ?thesis
    by (rule only_if_mono) (auto simp: signed_in_def intro: gains.trans)
qed

lemma beyond_connector_session:
  assumes "\<And>se. beyond (Q se) (k se)"
  shows "beyond (\<lambda>s s'. \<exists>se b. signed_in e r se s b \<and> gains_only {} s b \<and> Q se b s') (connector_session e r k)"
  using beyond_page_session[OF assms, where e = e and r = r and stale = CONNECTORS_STALE]
  by (auto simp: only_if_def connector_session_def gains.refl)

lemma api_as_page:
  "api_session e r k s = (case load_session e r s of
     (Inr (Some se), a) \<Rightarrow> (case bearer_live e se a of (Inr True, b) \<Rightarrow> k se b | (Inr False, b) \<Rightarrow> (Inr (Refused 401 ''bearer_expired''), b) | (Inl err, b) \<Rightarrow> (Inl err, b))
   | (Inr None, a) \<Rightarrow> (Inr (Refused 401 ''unauthorized''), a) | (Inl err, a) \<Rightarrow> (Inl err, a))"
  by (auto simp: api_session_def pbind_def preturn_def split: prod.splits sum.splits option.splits)

lemma beyond_api_session:
  assumes "\<And>se. beyond (Q se) (k se)"
  shows "beyond (\<lambda>s s'. \<exists>se b. signed_in e r se s b \<and> gains_only {} s b \<and> Q se b s') (api_session e r k)"
  unfolding only_if_def
proof
  fix s
  obtain x a where l: "load_session e r s = (x, a)" by (cases "load_session e r s")
  then have sa: "gains_only {} s a" by (rule movesD[OF frame_load_session])
  show "gains_only {} s (snd (api_session e r k s)) \<or> (\<exists>se b. signed_in e r se s b \<and> gains_only {} s b \<and> Q se b (snd (api_session e r k s)))"
  proof (cases "\<exists>se. x = Inr (Some se)")
    case True
    then obtain se where x: "x = Inr (Some se)" by blast
    obtain y b where v: "bearer_live e se a = (y, b)" by (cases "bearer_live e se a")
    then have "gains_only {} a b" by (rule movesD[OF frame_bearer_live])
    then have sb: "gains_only {} s b" using sa gains.trans by blast
    have k: "gains_only {} b (snd (k se b)) \<or> Q se b (snd (k se b))" using assms[of se] by (simp add: only_if_def)
    consider (no) "y \<noteq> Inr True" | (yes) "y = Inr True" by blast
    then show ?thesis
    proof cases
      case no
      have "snd (api_session e r k s) = b"
        using l x v no by (cases y) (simp_all add: api_as_page split: bool.splits)
      then show ?thesis using sb by simp
    next
      case yes
      then have "api_session e r k s = k se b" "signed_in e r se s b" using l x v by (auto simp: api_as_page signed_in_def)
      then show ?thesis using k gains.trans[OF sb] sb by fastforce
    qed
  next
    case False
    then have "snd (api_session e r k s) = a"
      using l by (auto simp: api_as_page split: sum.splits option.splits)
    then show ?thesis using sa by simp
  qed
qed

lemma beyond_with_csrf: "beyond Q m \<Longrightarrow> beyond (\<lambda>s s'. csrf_passed r \<and> Q s s') (with_csrf r m)"
  by (auto simp: only_if_def with_csrf_def preturn_def praise_def gains.refl split: option.splits)

lemma beyond_fresh_code:
  assumes "\<And>A. moves (gains_only A) l" "\<And>A x. moves (gains_only A) (bad x)" "beyond Q k"
  shows "beyond (\<lambda>s s'. code_accepted e r cid c s \<and> (\<exists>b. gains_only {} s b \<and> Q b s')) (with_fresh_code e r cid c l bad k)"
proof -
  have "beyond (\<lambda>s s'. \<exists>x a. is_locked e r cid s = (Inr x, a) \<and> gains_only {} s a \<and>
      (\<not> x \<and> (\<exists>res b. check_fresh e r cid c a = (Inr res, b) \<and> gains_only {} a b \<and>
         (res = TOTP_OK \<and> (\<exists>u d. clear_strikes e r cid b = (Inr u, d) \<and> gains_only {} b d \<and> Q d s'))))) (with_fresh_code e r cid c l bad k)"
    unfolding with_fresh_code_def
  proof (intro beyond_bind frame_second_factor)
    fix locked
    have "beyond (\<lambda>b s'. res = TOTP_OK \<and> (\<exists>u d. clear_strikes e r cid b = (Inr u, d) \<and> gains_only {} b d \<and> Q d s'))
       (if res \<noteq> TOTP_OK then bad res else pbind (clear_strikes e r cid) (\<lambda>_. k))" for res
    proof (cases "res = TOTP_OK")
      case True
      have "beyond (\<lambda>b s'. \<exists>u d. clear_strikes e r cid b = (Inr u, d) \<and> gains_only {} b d \<and> Q d s') (pbind (clear_strikes e r cid) (\<lambda>_. k))"
        by (intro beyond_bind frame_second_factor assms(3))
      then show ?thesis using True by simp
    qed (simp add: only_if_moves assms(2))
    then have "beyond (\<lambda>a s'. \<exists>res b. check_fresh e r cid c a = (Inr res, b) \<and> gains_only {} a b \<and>
         (res = TOTP_OK \<and> (\<exists>u d. clear_strikes e r cid b = (Inr u, d) \<and> gains_only {} b d \<and> Q d s')))
       (pbind (check_fresh e r cid c) (\<lambda>res. if res \<noteq> TOTP_OK then bad res else pbind (clear_strikes e r cid) (\<lambda>_. k)))"
      by (intro beyond_bind frame_second_factor)
    then show "beyond (\<lambda>a s'. \<not> locked \<and> (\<exists>res b. check_fresh e r cid c a = (Inr res, b) \<and> gains_only {} a b \<and>
         (res = TOTP_OK \<and> (\<exists>u d. clear_strikes e r cid b = (Inr u, d) \<and> gains_only {} b d \<and> Q d s'))))
       (if locked then l else pbind (check_fresh e r cid c) (\<lambda>res. if res \<noteq> TOTP_OK then bad res else pbind (clear_strikes e r cid) (\<lambda>_. k)))"
      by (cases locked) (simp_all add: only_if_moves assms(1))
  qed
  then show ?thesis
  proof (rule only_if_mono, elim exE conjE)
    fix s s' x a res b u d
    assume "is_locked e r cid s = (Inr x, a)" "\<not> x" "check_fresh e r cid c a = (Inr res, b)" "res = TOTP_OK"
      and "gains_only {} s a" "gains_only {} a b" "gains_only {} b d" "Q d s'"
    then show "code_accepted e r cid c s \<and> (\<exists>b. gains_only {} s b \<and> Q b s')"
      unfolding code_accepted_def using gains.trans by (metis (full_types))
  qed
qed

subsection \<open>Whom it was for\<close>

text \<open>New tokens, slugs and sessions are those of client \<open>cid\<close>.\<close>

definition gains_for :: "string \<Rightarrow> 'w dash_state \<Rightarrow> 'w dash_state \<Rightarrow> bool" where
  "gains_for cid s s' \<longleftrightarrow> named_of s' \<subseteq> named_of s \<union> {x. fst (snd x) = cid}
     \<and> slugs_of s' \<subseteq> slugs_of s \<union> {x. ds_owner (snd x) = cid} \<and> sids_of s' \<subseteq> sids_of s \<union> {x. snd x = cid}"

interpretation gains_for: effect_order "gains_for cid" for cid
  by unfold_locales (simp add: gains_for_def, unfold gains_for_def, blast)

lemma gains_weaken: "gains_only {} s s' \<Longrightarrow> gains_for cid s s'"
proof -
  assume g: "gains_only {} s s'"
  then have "same_or_less Named_keys s s'" "same_or_less Slugs s s'" "same_or_less Sessions s s'" by (simp_all add: gains_only_def)
  then show ?thesis by (auto simp: gains_for_def)
qed

lemma weaken: "moves (gains_only {}) m \<Longrightarrow> moves (gains_for cid) m"
  by (erule moves_mono) (rule gains_weaken)

lemma named_issue_own: "named_keys (snd (issue cid name token tc now te ts)) \<subseteq> named_keys ts \<union> {x. fst (snd x) = cid}"
proof -
  have "at_client_id a = cid \<or> (k, a) \<in> set (tokens ts)" if "(k, a) \<in> set (tokens (snd (issue cid name token tc now te ts)))" for k a
    using that by (auto simp: issue_def count_named_def Let_def dest!: in_dset split: if_splits)
  then show ?thesis by (fastforce simp: named_keys_iff)
qed

lemma own_token: "moves (gains_for cid) (issue_token e cid name)"
proof -
  have r: "moves (gains_for cid) (reading e)" "moves (gains_for cid) (draw e)" by (intro weaken frame)+
  have "moves (gains_for cid) (on_store (issue cid name token tc now te))" for token tc now te
  proof (rule movesI)
    fix s res s' assume h: "on_store (issue cid name token tc now te) s = (res, s')"
    show "gains_for cid s s'"
    proof (cases "store_of s")
      case (Some ts)
      with h have "named_of s' = named_keys (snd (issue cid name token tc now te ts))" "named_of s = named_keys ts"
        "slugs_of s' = slugs_of s" "sids_of s' = sids_of s"
        by (auto simp: on_store_def on_oauth_def on_tokens_def observe pbind_def preturn_def split: prod.splits)
      with named_issue_own show ?thesis by (auto simp: gains_for_def)
    next
      case None
      with h have "s' = s" by (auto simp: on_store_def on_oauth_def on_tokens_def store_of_def pbind_def praise_def)
      then show ?thesis by (simp add: gains_for.refl)
    qed
  qed
  with r show ?thesis
    unfolding issue_token_def by (auto intro!: gains_for.bind gains_for.return)
qed

lemma own_slug: "moves (gains_for cid) (on_slugs (slug_mint cid label slug now))"
proof (rule movesI)
  fix s res s' assume h: "on_slugs (slug_mint cid label slug now) s = (res, s')"
  then show "gains_for cid s s'"
    by (cases "dh_slugs s") (auto simp: on_slugs_def gains_for_def observe slug_mint_def Let_def dest!: in_dset split: if_splits)
qed

lemma own_session: "moves (gains_for cid) (start_session e r cid secret nxt as_json)"
proof -
  have r: "moves (gains_for cid) (reading e)" "moves (gains_for cid) (draw e)" "moves (gains_for cid) (client_name e cid)"
    by (intro weaken frame)+
  have "moves (gains_for cid) (on_sessions (session_create sl ky cid secret b ttl ua sid nonce now))" for sl ky b ttl ua sid nonce now
    by (rule movesI) (auto simp: on_sessions_def session_create_def gains_for_def observe sid_pairs_def Let_def
        dest!: in_dset split: if_splits prod.splits)
  with r show ?thesis
    unfolding start_session_def
    by (auto intro!: gains_for.bind gains_for.return gains_for.raise own_token split: sum.split option.split)
qed

subsection \<open>Fresh codes\<close>

lemma only_if_post: "moves R' m \<Longrightarrow> only_if R R' m"
  by (simp add: moves_def only_if_def)

lemma only_if_any: "only_if R (\<lambda>s s'. True) m"
  by (simp add: only_if_def)

text \<open>The request was signed in, passed the CSRF check and spent a code of the session's client.\<close>

definition step_up :: "'w dash_env \<Rightarrow> dash_request \<Rightarrow> string \<Rightarrow> 'w dash_state \<Rightarrow> 'w dash_state \<Rightarrow> bool" where
  "step_up e r c s s' \<longleftrightarrow>
     (\<exists>se a. signed_in e r se s a \<and> csrf_passed r \<and> code_accepted e r (se_client_id se) c a \<and> gains_for (se_client_id se) s s')"

lemma step_upI:
  assumes "\<exists>se b. signed_in e r se s b \<and> gains_only {} s b \<and> csrf_passed r
      \<and> code_accepted e r (se_client_id se) c b \<and> (\<exists>b'. gains_only {} b b' \<and> gains_for (se_client_id se) b' s')"
  shows "step_up e r c s s'"
proof -
  from assms obtain se b b' where h: "signed_in e r se s b" "csrf_passed r" "code_accepted e r (se_client_id se) c b"
    "gains_only {} s b" "gains_only {} b b'" "gains_for (se_client_id se) b' s'" by blast
  have "gains_for (se_client_id se) s s'"
    by (rule gains_for.trans[OF gains_weaken[OF h(4)] gains_for.trans[OF gains_weaken[OF h(5)] h(6)]])
  with h show ?thesis unfolding step_up_def by blast
qed

lemma step_up_tokens: "beyond (step_up e r (form_text r ''totp'')) (tokens_create e r)"
proof -
  have "beyond (\<lambda>s s'. \<exists>se b. signed_in e r se s b \<and> gains_only {} s b \<and> csrf_passed r
      \<and> code_accepted e r (se_client_id se) (form_text r ''totp'') b
      \<and> (\<exists>b'. gains_only {} b b' \<and> gains_for (se_client_id se) b' s')) (tokens_create e r)"
    unfolding tokens_create_def Let_def
    by (intro beyond_page_session beyond_with_csrf only_if_cases beyond_fresh_code frame_tokens_page
          only_if_moves[OF frame_tokens_page] only_if_post gains_for.bind own_token)
       (auto intro!: weaken frame_tokens_page split: sum.split)
  then show ?thesis by (rule only_if_mono) (rule step_upI)
qed

lemma step_up_slugs: "beyond (step_up e r (form_text r ''totp'')) (connectors_mint e r)"
proof -
  have "beyond (\<lambda>s s'. \<exists>se b. signed_in e r se s b \<and> gains_only {} s b \<and> csrf_passed r
      \<and> code_accepted e r (se_client_id se) (form_text r ''totp'') b
      \<and> (\<exists>b'. gains_only {} b b' \<and> gains_for (se_client_id se) b' s')) (connectors_mint e r)"
    unfolding connectors_mint_def Let_def
    by (intro beyond_connector_session beyond_with_csrf only_if_cases beyond_fresh_code frame_connectors_page
          only_if_moves[OF frame_connectors_page] only_if_post gains_for.bind own_slug)
       (auto intro!: weaken frame frame_connectors_page gains_for.raise split: option.split)
  then show ?thesis by (rule only_if_mono) (rule step_upI)
qed

text \<open>An update, on a server that allows it.\<close>

definition update_allowed :: "'w dash_env \<Rightarrow> bool" where
  "update_allowed e \<longleftrightarrow> de_updates e \<and> de_self_update e"

lemma step_up_update:
  "beyond (\<lambda>s s'. update_allowed e \<and> step_up e r (py_strip (json_text e r ''totp'')) s s') (update_apply e r)"
proof (cases "update_allowed e")
  case True
  let ?run = "pbind (reading e) (\<lambda>t0. pbind (reading e) (\<lambda>stamp. pbind (reading e) (\<lambda>now s.
                   case apply_update (de_busy e (dh_world s)) (de_host e) (de_up_env e) (de_install e) (de_up_call e) t0
                          \<lfloor>stamp * 10 ^ 9\<rfloor> \<lfloor>now\<rfloor> (dh_world s) of
                     (res, w) \<Rightarrow> (Inr (Update_done res), s\<lparr>dh_world := w\<rparr>))))"
  have run: "moves (gains_for cid) ?run" for cid
    by (intro gains_for.bind weaken[OF frame_readings(1)]) (auto simp: moves_def gains_for_def observe split: prod.split)
  have "beyond (\<lambda>s s'. \<exists>se b. signed_in e r se s b \<and> gains_only {} s b \<and> csrf_passed r
      \<and> code_accepted e r (se_client_id se) (py_strip (json_text e r ''totp'')) b
      \<and> (\<exists>b'. gains_only {} b b' \<and> gains_for (se_client_id se) b' s')) (update_apply e r)"
    unfolding update_apply_def Let_def
    by (intro beyond_api_session beyond_with_csrf only_if_cases beyond_fresh_code gains.return
          only_if_moves[OF gains.return] only_if_post[OF run])
  then show ?thesis using True by (simp add: only_if_mono step_upI)
next
  case False
  have "moves (gains_only {}) (update_apply e r)"
    using False unfolding update_apply_def update_allowed_def Let_def by (auto intro!: frame)
  then show ?thesis by (rule only_if_moves)
qed

subsection \<open>Signing in\<close>

text \<open>The secret of the client in this request, within the login limiter.\<close>

definition secret_verified :: "'w dash_env \<Rightarrow> dash_request \<Rightarrow> string \<Rightarrow> string \<Rightarrow> 'w dash_state \<Rightarrow> 'w dash_state \<Rightarrow> bool" where
  "secret_verified e r cid secret s b \<longleftrightarrow>
     (\<exists>a. rate_limited e r s = (Inr None, a) \<and> verify_client e cid secret a = (Inr True, b))"

definition passkey_verified :: "'w dash_env \<Rightarrow> dash_request \<Rightarrow> string \<Rightarrow> 'w dash_state \<Rightarrow> bool" where
  "passkey_verified e r cid s \<longleftrightarrow>
     (\<exists>c tp now t1 t2 rec ps'. json_dict r ''credential'' = Some c \<and> pk_client_id rec = cid
        \<and> verify_authentication (oe_wa (de_oauth e)) (dr_http r) (dr_netloc r) (json_text e r ''state'') c tp now t1 t2
             (os_passkeys (dh_oauth s)) = (Inr rec, ps'))"

lemma beyond_rate_limited:
  assumes "\<And>n. moves (gains_only {}) (l n)" "beyond Q m"
  shows "beyond (\<lambda>s s'. \<exists>a. rate_limited e r s = (Inr None, a) \<and> gains_only {} s a \<and> Q a s')
    (pbind (rate_limited e r) (\<lambda>lim. case lim of Some n \<Rightarrow> l n | None \<Rightarrow> m))"
proof -
  have "beyond (\<lambda>a s'. lim = None \<and> Q a s') (case lim of Some n \<Rightarrow> l n | None \<Rightarrow> m)" for lim
    by (cases lim) (simp_all add: only_if_moves assms)
  from beyond_bind[OF frame_second_factor(6) this] show ?thesis by (rule only_if_mono) blast
qed

lemma beyond_verify_client:
  assumes "moves (gains_only {}) bad" "beyond Q m"
  shows "beyond (\<lambda>s s'. \<exists>a. verify_client e cid secret s = (Inr True, a) \<and> gains_only {} s a \<and> Q a s')
    (pbind (verify_client e cid secret) (\<lambda>ok. if \<not> ok then bad else m))"
proof -
  have "beyond (\<lambda>a s'. ok \<and> Q a s') (if \<not> ok then bad else m)" for ok
    by (cases ok) (simp_all add: only_if_moves assms)
  from beyond_bind[OF frame_second_factor(1) this] show ?thesis by (rule only_if_mono) auto
qed

lemma sign_in_password:
  "beyond (\<lambda>s s'. csrf_passed r \<and> (\<exists>b. secret_verified e r (form_text r ''client_id'') (bget (dr_form r) ''client_secret'') s b
      \<and> code_accepted e r (form_text r ''client_id'') (form_text r ''totp'') b) \<and> gains_for (form_text r ''client_id'') s s')
    (login_post e r)"
proof -
  let ?cid = "form_text r ''client_id''" and ?sec = "bget (dr_form r) ''client_secret''" and ?c = "form_text r ''totp''"
  have "beyond (\<lambda>s s'. csrf_passed r \<and> (\<exists>a. rate_limited e r s = (Inr None, a) \<and> gains_only {} s a
      \<and> (\<exists>b. verify_client e ?cid ?sec a = (Inr True, b) \<and> gains_only {} a b
         \<and> code_accepted e r ?cid ?c b \<and> (\<exists>d. gains_only {} b d \<and> gains_for ?cid d s')))) (login_post e r)"
    unfolding login_post_def Let_def
    by (intro beyond_with_csrf beyond_rate_limited only_if_cases beyond_verify_client beyond_fresh_code gains.return
          gains.bind frame_second_factor only_if_moves[OF gains.return] only_if_post[OF own_session])
  then show ?thesis
  proof (rule only_if_mono, elim exE conjE)
    fix s s' a b d
    assume h: "csrf_passed r" "rate_limited e r s = (Inr None, a)" "verify_client e ?cid ?sec a = (Inr True, b)" "code_accepted e r ?cid ?c b"
      and g: "gains_only {} s a" "gains_only {} a b" "gains_only {} b d" "gains_for ?cid d s'"
    have "gains_for ?cid s s'"
      by (rule gains_for.trans[OF gains_weaken[OF gains.trans[OF gains.trans[OF g(1,2)] g(3)]] g(4)])
    with h show "csrf_passed r \<and> (\<exists>b. secret_verified e r ?cid ?sec s b \<and> code_accepted e r ?cid ?c b) \<and> gains_for ?cid s s'"
      unfolding secret_verified_def by blast
  qed
qed

lemma beyond_passkey_limit:
  assumes "beyond Q m"
  shows "beyond (\<lambda>s s'. \<exists>a. rate_limited e r s = (Inr None, a) \<and> gains_only {} s a \<and> Q a s') (passkey_limit e r m)"
proof -
  have "beyond Q (with_passkeys m)"
    using assms by (auto simp: only_if_def with_passkeys_def gains.refl)
  then show ?thesis
    unfolding passkey_limit_def by (intro beyond_rate_limited gains.return)
qed

text \<open>A passkey of the client verified, then the session; readings of the clock before do not matter.\<close>

definition by_passkey :: "'w dash_env \<Rightarrow> dash_request \<Rightarrow> string \<Rightarrow> 'w dash_state \<Rightarrow> 'w dash_state \<Rightarrow> bool" where
  "by_passkey e r cid s s' \<longleftrightarrow> passkey_verified e r cid s \<and> gains_for cid s s'"

lemma by_passkey_reading:
  assumes "\<And>x. beyond (by_passkey e r cid) (f x)"
  shows "beyond (by_passkey e r cid) (pbind (reading e) f)"
proof (rule only_if_mono[OF beyond_bind[OF frame_readings(1) assms]], elim exE conjE)
  fix s s' x s1 assume h: "reading e s = (Inr x, s1)" "gains_only {} s s1" "by_passkey e r cid s1 s'"
  then have "dh_oauth s1 = dh_oauth s" by (auto simp: reading_def)
  with h show "by_passkey e r cid s s'"
    by (auto simp: by_passkey_def passkey_verified_def intro: gains_for.trans[OF gains_weaken])
qed

lemma beyond_passkey:
  assumes "\<And>rec. beyond (Q rec) (m rec)" "\<And>err. moves (gains_only {}) (bad err)" "json_dict r ''credential'' = Some c"
  shows "beyond (\<lambda>s s'. \<exists>rec d. (\<forall>cid. pk_client_id rec = cid \<longrightarrow> passkey_verified e r cid s) \<and> gains_only {} s d \<and> Q rec d s')
    (pbind (on_passkeys (verify_authentication (oe_wa (de_oauth e)) (dr_http r) (dr_netloc r) (json_text e r ''state'') c tp now t1 t2))
       (\<lambda>res. case res of Inl err \<Rightarrow> bad err | Inr rec \<Rightarrow> m rec))"
proof -
  have "beyond (\<lambda>d s'. \<exists>rec. res = Inr rec \<and> Q rec d s') (case res of Inl err \<Rightarrow> bad err | Inr rec \<Rightarrow> m rec)" for res
    by (cases res) (simp_all add: only_if_moves assms(1,2))
  from beyond_bind[OF frame_verify_authentication this] show ?thesis
  proof (rule only_if_mono, elim exE conjE)
    fix s s' res d rec
    assume "on_passkeys (verify_authentication (oe_wa (de_oauth e)) (dr_http r) (dr_netloc r) (json_text e r ''state'') c tp now t1 t2) s
        = (Inr res, d)" "res = Inr rec" "gains_only {} s d" "Q rec d s'"
    then show "\<exists>rec d. (\<forall>cid. pk_client_id rec = cid \<longrightarrow> passkey_verified e r cid s) \<and> gains_only {} s d \<and> Q rec d s'"
      using assms(3) unfolding passkey_verified_def
      by (intro exI[of _ rec] exI[of _ d]) (auto simp: on_passkeys_def on_oauth_def split: prod.splits, metis)
  qed
qed

definition json_client :: "'w dash_env \<Rightarrow> dash_request \<Rightarrow> string" where
  "json_client e r = py_strip (json_text e r ''client_id'')"

lemma sign_in_passkey:
  "beyond (\<lambda>s s'. csrf_passed r \<and> (\<exists>b. secret_verified e r (json_client e r) (json_text e r ''client_secret'') s b
      \<and> passkey_verified e r (json_client e r) b) \<and> gains_for (json_client e r) s s') (passkeys_auth_verify e r)"
proof -
  let ?cid = "json_client e r" and ?sec = "json_text e r ''client_secret''"
  have finish: "beyond (by_passkey e r ?cid)
      (pbind (on_passkeys (verify_authentication (oe_wa (de_oauth e)) (dr_http r) (dr_netloc r) (json_text e r ''state'') c tp now t1 t2))
        (\<lambda>res. case res of Inl err \<Rightarrow> preturn (Refused 401 ''passkey'')
         | Inr rec \<Rightarrow> if pk_client_id rec \<noteq> ?cid then preturn (Refused 401 ''Invalid credentials.'')
             else pbind (clear_strikes e r ?cid) (\<lambda>_. start_session e r ?cid ?sec (next_url e (json_text e r ''next'')) True)))"
    if "json_dict r ''credential'' = Some c" for c tp now t1 t2
  proof -
    have "beyond (\<lambda>d s'. pk_client_id rec = ?cid \<and> gains_for ?cid d s')
        (if pk_client_id rec \<noteq> ?cid then preturn (Refused 401 ''Invalid credentials.'')
         else pbind (clear_strikes e r ?cid) (\<lambda>_. start_session e r ?cid ?sec (next_url e (json_text e r ''next'')) True))" for rec
    proof (cases "pk_client_id rec = ?cid")
      case True
      have "moves (gains_for ?cid) (pbind (clear_strikes e r ?cid) (\<lambda>_. start_session e r ?cid ?sec (next_url e (json_text e r ''next'')) True))"
        by (intro gains_for.bind weaken[OF frame_second_factor(5)] own_session)
      then show ?thesis using True by (simp add: only_if_post)
    qed (simp add: only_if_moves gains.return)
    from beyond_passkey[OF this gains.return that] show ?thesis
      by (rule only_if_mono) (auto simp: by_passkey_def intro: gains_for.trans[OF gains_weaken])
  qed
  have "beyond (\<lambda>s s'. csrf_passed r \<and> (\<exists>a. rate_limited e r s = (Inr None, a) \<and> gains_only {} s a
      \<and> (\<exists>b. verify_client e ?cid ?sec a = (Inr True, b) \<and> gains_only {} a b \<and> by_passkey e r ?cid b s'))) (passkeys_auth_verify e r)"
    unfolding passkeys_auth_verify_def Let_def json_client_def[symmetric]
    by (intro beyond_with_csrf beyond_passkey_limit only_if_cases beyond_verify_client gains.return only_if_moves[OF gains.return]
          by_passkey_reading finish)
  then show ?thesis
  proof (rule only_if_mono, elim exE conjE)
    fix s s' a b
    assume h: "csrf_passed r" "rate_limited e r s = (Inr None, a)" "verify_client e ?cid ?sec a = (Inr True, b)" "by_passkey e r ?cid b s'"
      and g: "gains_only {} s a" "gains_only {} a b"
    from h(4) have "gains_for ?cid s s'"
      using gains_for.trans[OF gains_weaken[OF gains.trans[OF g]]] by (simp add: by_passkey_def)
    with h show "csrf_passed r \<and> (\<exists>b. secret_verified e r ?cid ?sec s b \<and> passkey_verified e r ?cid b) \<and> gains_for ?cid s s'"
      unfolding secret_verified_def by_passkey_def by blast
  qed
qed

end
