(* ===== verification/Dash_Reply.thy ===== *)
theory Dash_Reply
  imports Dash_Step
begin

text \<open>
  What the dashboard answers: whose conversations and passkeys a reply shows, and where it sends the
  browser; and which conversations a request changes.
\<close>

subsection \<open>Replies\<close>

fun shown :: "dash_reply \<Rightarrow> string set" where
  "shown (Passkeys_shown ps) = pk_client_id ` set ps"
| "shown (Conv_list cs) = cv_client_id ` set cs"
| "shown (Conv_created c) = {cv_client_id c}"
| "shown (Conv_shown c ms) = {cv_client_id c}"
| "shown (Conv_changed c) = {cv_client_id c}"
| "shown _ = {}"

fun stays_inside :: "dash_reply \<Rightarrow> bool" where
  "stays_inside (Redirect status url) = startswith url ''/app/''"
| "stays_inside (Signed_in se url as_json) = startswith url ''/app/''"
| "stays_inside _ = True"

definition proper :: "string set \<Rightarrow> dash_reply \<Rightarrow> bool" where
  "proper S rep \<longleftrightarrow> shown rep \<subseteq> S \<and> stays_inside rep"

named_theorems replies \<open>what computations return\<close>

lemma returns_bind: "returns Q m \<Longrightarrow> (\<And>x. Q x \<Longrightarrow> returns P (f x)) \<Longrightarrow> returns P (pbind m f)"
  by (auto simp: returns_def pbind_def split: prod.splits sum.splits) (metis fst_conv)

lemma returns_cases [replies]:
  "(b \<Longrightarrow> returns P m) \<Longrightarrow> (\<not> b \<Longrightarrow> returns P m') \<Longrightarrow> returns P (if b then m else m')"
  "(x = None \<Longrightarrow> returns P m) \<Longrightarrow> (\<And>y. x = Some y \<Longrightarrow> returns P (f y)) \<Longrightarrow> returns P (case x of None \<Rightarrow> m | Some y \<Rightarrow> f y)"
  "(\<And>u. z = Inl u \<Longrightarrow> returns P (g u)) \<Longrightarrow> (\<And>v. z = Inr v \<Longrightarrow> returns P (h v)) \<Longrightarrow> returns P (case z of Inl u \<Rightarrow> g u | Inr v \<Rightarrow> h v)"
  "returns P (k (fst p) (snd p)) \<Longrightarrow> returns P (case p of (a, c) \<Rightarrow> k a c)"
  by (auto split: option.splits sum.splits prod.splits)

lemmas [replies] = returns_intros

lemma inside_targets [simp]:
  "startswith (default_landing e) ''/app/''" "startswith (next_url e raw) ''/app/''"
  by (simp_all add: default_landing_def next_url_def)

lemma proper_simps [simp]:
  "proper S (Redirect n u) \<longleftrightarrow> startswith u ''/app/''" "proper S (Refused n t)" "proper S (Page t er n l)"
  "proper S (Tokens_page er cr)" "proper S (Connectors_page er cr2)" "proper S (Signed_in se u j) \<longleftrightarrow> startswith u ''/app/''"
  "proper S (Signed_out n)" "proper S (Ceremony o3)" "proper S (Passkey_added pk)" "proper S Json_ok" "proper S (Update_done ur)"
  "proper S Conv_deleted" "proper S (Confirmed b)" "proper S (Tool_result v)"
  by (simp_all add: proper_def)

lemma literal_targets [simp]:
  "startswith ''/app/login'' ''/app/''" "startswith ''/app/refresh'' ''/app/''" "startswith ''/app/tokens'' ''/app/''"
  "startswith ''/app/connectors'' ''/app/''" "startswith TOKENS_STALE ''/app/''" "startswith CONNECTORS_STALE ''/app/''"
  "startswith ''/app/refresh?next=/app/overview'' ''/app/''" "startswith ''/app/refresh?next=/app/usage'' ''/app/''"
  by (simp_all add: TOKENS_STALE_def CONNECTORS_STALE_def)

lemma reply_page_session [replies]:
  "startswith stale ''/app/'' \<Longrightarrow> (\<And>se. returns (proper S) (k se)) \<Longrightarrow> returns (proper S) (page_session e r stale k)"
  unfolding page_session_def by (intro replies) simp_all

lemma reply_api_session [replies]: "(\<And>se. returns (proper S) (k se)) \<Longrightarrow> returns (proper S) (api_session e r k)"
  unfolding api_session_def by (intro replies) simp_all

lemma reply_connector_session [replies]: "(\<And>se. returns (proper S) (k se)) \<Longrightarrow> returns (proper S) (connector_session e r k)"
  using reply_page_session[of CONNECTORS_STALE S k e r] by (auto simp: returns_def connector_session_def split: if_splits)

lemma reply_guards [replies]:
  "returns (proper S) m \<Longrightarrow> returns (proper S) (with_csrf r m)"
  "returns (proper S) m \<Longrightarrow> returns (proper S) (with_passkeys m)"
  "returns (proper S) l \<Longrightarrow> (\<And>x. returns (proper S) (b x)) \<Longrightarrow> returns (proper S) m \<Longrightarrow>
     returns (proper S) (with_fresh_code e r cid c l b m)"
proof -
  show "returns (proper S) m \<Longrightarrow> returns (proper S) (with_csrf r m)"
    unfolding with_csrf_def by (intro replies) simp_all
  show pk: "returns (proper S) m \<Longrightarrow> returns (proper S) (with_passkeys m)" for m :: "('a, dash_reply) dash"
    by (auto simp: returns_def with_passkeys_def split: if_splits)
  show "returns (proper S) l \<Longrightarrow> (\<And>x. returns (proper S) (b x)) \<Longrightarrow> returns (proper S) m \<Longrightarrow>
     returns (proper S) (with_fresh_code e r cid c l b m)"
    unfolding with_fresh_code_def by (intro replies)
qed

lemma reply_passkey_limit [replies]: "returns (proper S) m \<Longrightarrow> returns (proper S) (passkey_limit e r m)"
  unfolding passkey_limit_def by (intro replies) simp_all

lemma reply_pages [replies]:
  "returns (proper S) (tokens_page e r se err created)" "returns (proper S) (connectors_page e r se err created2)"
  "returns (proper S) (start_session e r cid secret (next_url e nxt) as_json)" "returns (proper S) (renew_bearer e se (next_url e nxt))"
  unfolding tokens_page_def connectors_page_def start_session_def renew_bearer_def Let_def
  by (intro replies; simp)+

lemma reply_plain_routes:
  "returns (proper S) (index_page e r)" "returns (proper S) (login_get e r)" "returns (proper S) (login_post e r)"
  "returns (proper S) (refresh_get e r)" "returns (proper S) (refresh_post e r)" "returns (proper S) (logout e r)"
  "startswith st ''/app/'' \<Longrightarrow> returns (proper S) (page_get e r t st)" "returns (proper S) (chat_get e r)"
  unfolding index_page_def login_get_def login_post_def refresh_get_def refresh_post_def logout_def page_get_def chat_get_def Let_def
  by (intro replies; simp)+

lemma reply_credential_routes:
  "returns (proper S) (tokens_get e r)" "returns (proper S) (tokens_create e r)" "returns (proper S) (tokens_revoke e r)"
  "returns (proper S) (connectors_get e r)" "returns (proper S) (connectors_mint e r)" "returns (proper S) (connectors_slug_delete e r)"
  "returns (proper S) (connectors_revoke e r)"
  "returns (proper S) (passkeys_register_options e r)" "returns (proper S) (passkeys_register_verify e r)"
  "returns (proper S) (passkeys_delete e r)" "returns (proper S) (passkeys_auth_options e r)" "returns (proper S) (passkeys_auth_verify e r)"
  unfolding tokens_get_def tokens_create_def tokens_revoke_def connectors_get_def connectors_mint_def connectors_slug_delete_def
    connectors_revoke_def passkeys_register_options_def passkeys_register_verify_def passkeys_delete_def passkeys_auth_options_def
    passkeys_auth_verify_def Let_def
  by (intro replies; simp)+

lemma reply_last_routes:
  "returns (proper S) (passkeys_remove e r)" "returns (proper S) (update_apply e r)" "returns (proper S) (conv_remove e r)"
  "returns (proper S) (chat_confirm e r)" "returns (proper S) (mcp_call e r)"
proof -
  have direct: "returns (proper S) m" if "\<And>s x. fst (m s) = Inr x \<Longrightarrow> proper S x" for m :: "('a, dash_reply) dash"
    using that by (simp add: returns_def)
  have "returns (proper S) (pbind (delete_own_passkey i cid) (\<lambda>_. preturn (Redirect 303 ''/app/tokens'')))" for i cid
    by (intro replies) simp
  then have "returns (proper S) (\<lambda>s. if P s then pbind (delete_own_passkey i cid) (\<lambda>_. preturn (Redirect 303 ''/app/tokens'')) s
      else (Inr (Redirect 303 ''/app/tokens''), s))" for P i cid
    by (auto simp: returns_def split: if_splits)
  then show "returns (proper S) (passkeys_remove e r)"
    unfolding passkeys_remove_def Let_def by (intro replies) simp_all
  show "returns (proper S) (update_apply e r)"
    unfolding update_apply_def Let_def by (intro replies; simp?) (auto simp: returns_def split: prod.splits)
  show "returns (proper S) (conv_remove e r)"
    unfolding conv_remove_def by (intro replies) simp
  show "returns (proper S) (chat_confirm e r)"
    unfolding chat_confirm_def Let_def
    by (intro replies direct) (auto split: option.splits if_splits prod.splits)
  show "returns (proper S) (mcp_call e r)"
    unfolding mcp_call_def Let_def by (intro replies; simp?) (auto simp: returns_def split: prod.splits sum.splits)
qed

text \<open>The routes that show rows of a client: those of the session.\<close>

lemma on_convs_returns: "(\<And>t. P (fst (f t))) \<Longrightarrow> returns P (on_convs f)"
  by (auto simp: returns_def on_convs_def split: option.splits prod.splits) (metis fst_conv)

lemma conv_ops_client:
  "c \<in> set (convs_of cid t) \<Longrightarrow> cv_client_id c = cid"
  "conv_get i cid t = Some c \<Longrightarrow> cv_client_id c = cid"
  "fst (conv_create cid m ef i t1 t2 t) = Some c \<Longrightarrow> cv_client_id c = cid"
  "fst (conv_patch i cid ti mo ef2 now t) = Some c \<Longrightarrow> cv_client_id c = cid"
  by (auto simp: convs_of_def conv_create_def Let_def conv_get_def conv_patch_def dest!: in_set_takeD split: option.splits if_splits)

lemma api_session_shows:
  assumes "\<And>se. returns (proper {se_client_id se}) (k se)"
    and "api_session e r k s = (Inr rep, s')"
  shows "stays_inside rep \<and> (shown rep = {} \<or> (\<exists>se b. signed_in e r se s b \<and> shown rep \<subseteq> {se_client_id se}))"
proof -
  obtain x a where l: "load_session e r s = (x, a)" by (cases "load_session e r s")
  show ?thesis
  proof (cases "\<exists>se b. signed_in e r se s b \<and> api_session e r k s = k se b")
    case True
    then show ?thesis using assms returnsD by (metis proper_def)
  next
    case False
    then have "\<exists>n t. rep = Refused n t"
      using assms(2) by (fastforce simp: api_as_page signed_in_def split: prod.splits sum.splits option.splits bool.splits)
    then show ?thesis by auto
  qed
qed

lemma own_rows_shown:
  "returns (proper {cid}) (\<lambda>s. (Inr (Passkeys_shown (own_passkeys cid s)), s))"
  "returns (proper {cid}) (pbind (on_convs (\<lambda>t. (convs_of cid t, t))) (\<lambda>cs. preturn (Conv_list cs)))"
  "returns (proper {cid}) (pbind (on_convs (conv_create cid m ef i t1 t2))
      (\<lambda>c. case c of None \<Rightarrow> praise Integrity_error | Some x \<Rightarrow> preturn (Conv_created x)))"
  "returns (proper {cid}) (pbind (on_convs (conv_patch i cid ti mo ef2 now))
      (\<lambda>c. preturn (case c of None \<Rightarrow> Refused 404 ''not_found'' | Some x \<Rightarrow> Conv_changed x)))"
  "returns (proper {cid}) (pbind (on_convs (\<lambda>t. (conv_get i cid t, t)))
      (\<lambda>c. case c of
         None \<Rightarrow> preturn (Refused 404 ''not_found'')
       | Some x \<Rightarrow> pbind (on_convs (\<lambda>t. (list_messages (cv_id x) t, t)))
           (\<lambda>ms. case ms of Inl err \<Rightarrow> praise err | Inr l \<Rightarrow> preturn (Conv_shown x l))))"
proof -
  let ?own = "\<lambda>c. \<forall>x. c = Some x \<longrightarrow> cv_client_id x = cid"
  show "returns (proper {cid}) (\<lambda>s. (Inr (Passkeys_shown (own_passkeys cid s)), s))"
    by (auto simp: returns_def proper_def own_passkeys_def passkeys_of_def split: option.splits)
  have "returns (\<lambda>cs. \<forall>c \<in> set cs. cv_client_id c = cid) (on_convs (\<lambda>t. (convs_of cid t, t)))"
    using conv_ops_client(1) by (intro on_convs_returns) auto
  then show "returns (proper {cid}) (pbind (on_convs (\<lambda>t. (convs_of cid t, t))) (\<lambda>cs. preturn (Conv_list cs)))"
    by (rule returns_bind) (auto intro!: replies simp: proper_def)
  have "returns ?own (on_convs (conv_create cid m ef i t1 t2))" using conv_ops_client(3) by (intro on_convs_returns) blast
  then show "returns (proper {cid}) (pbind (on_convs (conv_create cid m ef i t1 t2))
      (\<lambda>c. case c of None \<Rightarrow> praise Integrity_error | Some x \<Rightarrow> preturn (Conv_created x)))"
    by (rule returns_bind) (auto intro!: replies simp: proper_def)
  have "returns ?own (on_convs (conv_patch i cid ti mo ef2 now))" using conv_ops_client(4) by (intro on_convs_returns) blast
  then show "returns (proper {cid}) (pbind (on_convs (conv_patch i cid ti mo ef2 now))
      (\<lambda>c. preturn (case c of None \<Rightarrow> Refused 404 ''not_found'' | Some x \<Rightarrow> Conv_changed x)))"
    by (rule returns_bind) (auto intro!: replies simp: proper_def split: option.split)
  have "returns ?own (on_convs (\<lambda>t. (conv_get i cid t, t)))" using conv_ops_client(2) by (intro on_convs_returns) auto
  then show "returns (proper {cid}) (pbind (on_convs (\<lambda>t. (conv_get i cid t, t)))
      (\<lambda>c. case c of
         None \<Rightarrow> preturn (Refused 404 ''not_found'')
       | Some x \<Rightarrow> pbind (on_convs (\<lambda>t. (list_messages (cv_id x) t, t)))
           (\<lambda>ms. case ms of Inl err \<Rightarrow> praise err | Inr l \<Rightarrow> preturn (Conv_shown x l))))"
    by (rule returns_bind) (auto intro!: replies simp: proper_def)
qed

definition own_rows_route :: "dash_route \<Rightarrow> bool" where
  "own_rows_route rt \<longleftrightarrow> rt \<in> {Passkeys_list, Conversations_list, Conversation_new, Conversation_detail, Conversation_edit}"

lemma reply_own_rows:
  assumes "own_rows_route rt" "dash_handle e rt r s = (Inr rep, s')"
  shows "stays_inside rep \<and> (shown rep = {} \<or> (\<exists>se b. signed_in e r se s b \<and> shown rep \<subseteq> {se_client_id se}))"
proof (cases rt)
  case Passkeys_list
  show ?thesis
    by (rule api_session_shows[OF _ assms(2)[unfolded Passkeys_list dash_handle.simps passkeys_list_def Let_def]]) (intro replies own_rows_shown)
next
  case Conversations_list
  show ?thesis
    by (rule api_session_shows[OF _ assms(2)[unfolded Conversations_list dash_handle.simps conv_list_def Let_def]]) (intro replies own_rows_shown)
next
  case Conversation_new
  show ?thesis
    by (rule api_session_shows[OF _ assms(2)[unfolded Conversation_new dash_handle.simps conv_new_def Let_def]]) (intro replies own_rows_shown)
next
  case Conversation_detail
  show ?thesis
    by (rule api_session_shows[OF _ assms(2)[unfolded Conversation_detail dash_handle.simps conv_detail_def Let_def]]) (intro replies own_rows_shown)
next
  case Conversation_edit
  show ?thesis
    by (rule api_session_shows[OF _ assms(2)[unfolded Conversation_edit dash_handle.simps conv_edit_def Let_def]]) (intro replies own_rows_shown)
qed (use assms(1) in \<open>simp_all add: own_rows_route_def\<close>)

lemma reply_other_routes:
  "\<not> own_rows_route rt \<Longrightarrow> returns (proper S) (dash_handle e rt r)"
  unfolding own_rows_route_def
  by (cases rt) (simp_all add: reply_plain_routes reply_credential_routes reply_last_routes)

subsection \<open>Whose conversations change\<close>

text \<open>What \<open>conv_get\<close> and \<open>messages_of\<close> give client \<open>cid\<close> for each id.\<close>

definition chats :: "string \<Rightarrow> 'w dash_state \<Rightarrow> string \<Rightarrow> (conversation \<times> message list) option" where
  "chats cid s = (case dh_convs s of None \<Rightarrow> (\<lambda>_. None) | Some t \<Rightarrow> (\<lambda>i. map_option (\<lambda>c. (c, messages_of i t)) (conv_get i cid t)))"

definition others_keep :: "string \<Rightarrow> 'w dash_state \<Rightarrow> 'w dash_state \<Rightarrow> bool" where
  "others_keep cid s s' \<longleftrightarrow> (\<forall>cid'. cid' \<noteq> cid \<longrightarrow> chats cid' s' = chats cid' s)"

interpretation others_keep: effect_order "others_keep cid" for cid
  by unfold_locales (auto simp: others_keep_def)

lemma keep_others: "moves (gains_only {}) m \<Longrightarrow> moves (others_keep cid) m"
proof (erule moves_mono)
  fix s s' :: "'a dash_state" assume "gains_only {} s s'"
  then have "same_or_less Conversations s s'" by (simp add: gains_only_def)
  then show "others_keep cid s s'" by (simp add: others_keep_def chats_def)
qed

lemma keep_on_convs:
  assumes "\<And>t cid' i. cid' \<noteq> cid \<Longrightarrow> map_option (\<lambda>c. (c, messages_of i (snd (f t)))) (conv_get i cid' (snd (f t)))
      = map_option (\<lambda>c. (c, messages_of i t)) (conv_get i cid' t)"
  shows "moves (others_keep cid) (on_convs f)"
proof (rule movesI)
  fix s res s' assume h: "on_convs f s = (res, s')"
  show "others_keep cid s s'"
  proof (cases "dh_convs s")
    case None
    then show ?thesis using h by (simp add: on_convs_def others_keep.refl)
  next
    case (Some t)
    obtain x t' where f: "f t = (x, t')" by fastforce
    then have s': "s' = s\<lparr>dh_convs := Some t'\<rparr>" using h Some by (simp add: on_convs_def)
    have "chats cid' s' = chats cid' s" if "cid' \<noteq> cid" for cid'
      using assms[OF that, of _ t] by (auto simp: chats_def s' Some f)
    then show ?thesis by (simp add: others_keep_def)
  qed
qed

lemma keep_conv_ops:
  "moves (others_keep cid) (on_convs (conv_create cid m ef i t1 t2))"
  "moves (others_keep cid) (on_convs (conv_patch i cid ti mo ef2 now))"
  "moves (others_keep cid) (on_convs (conv_delete i cid))"
proof -
  have msgs: "messages_of j (t\<lparr>cs_convs := d\<rparr>) = messages_of j t" for j t d by (simp add: messages_of_def)
  show "moves (others_keep cid) (on_convs (conv_create cid m ef i t1 t2))"
  proof (rule keep_on_convs)
    fix t cid' j assume "cid' \<noteq> cid"
    then show "map_option (\<lambda>c. (c, messages_of j (snd (conv_create cid m ef i t1 t2 t)))) (conv_get j cid' (snd (conv_create cid m ef i t1 t2 t)))
        = map_option (\<lambda>c. (c, messages_of j t)) (conv_get j cid' t)"
    proof (cases "i \<in> set (dkeys (cs_convs t))")
      case False
      then have "dget (cs_convs t) i = None" by (simp add: map_of_eq_None_iff)
      with False \<open>cid' \<noteq> cid\<close> show ?thesis
        by (cases "j = i") (simp_all add: conv_create_def Let_def conv_get_def msgs del: set_map)
    qed (simp add: conv_create_def Let_def)
  qed
  show "moves (others_keep cid) (on_convs (conv_patch i cid ti mo ef2 now))"
  proof (rule keep_on_convs)
    fix t cid' j assume ne: "cid' \<noteq> cid"
    show "map_option (\<lambda>c. (c, messages_of j (snd (conv_patch i cid ti mo ef2 now t)))) (conv_get j cid' (snd (conv_patch i cid ti mo ef2 now t)))
        = map_option (\<lambda>c. (c, messages_of j t)) (conv_get j cid' t)"
    proof (cases "conv_get i cid t")
      case (Some c)
      then have c: "dget (cs_convs t) i = Some c" "cv_client_id c = cid" by (auto simp: conv_get_def split: option.splits if_splits)
      have "\<exists>c'. cv_client_id c' = cid \<and> snd (conv_patch i cid ti mo ef2 now t) = t\<lparr>cs_convs := dset i c' (cs_convs t)\<rparr>"
        unfolding conv_patch_def Some option.case Let_def snd_conv by (rule exI, rule conjI[rotated], rule HOL.refl) (simp add: c(2))
      with c ne show ?thesis by (cases "j = i") (auto simp: conv_get_def msgs)
    qed (simp add: conv_patch_def)
  qed
  have other: "messages_of j (t\<lparr>cs_convs := d, cs_msgs := dkeep (\<lambda>m. mg_conversation_id m \<noteq> i) (cs_msgs t)\<rparr>) = messages_of j t"
    if "j \<noteq> i" for j t d
  proof -
    have "[m \<leftarrow> dvals (dkeep (\<lambda>m. mg_conversation_id m \<noteq> i) (cs_msgs t)). mg_conversation_id m = j]
        = [m \<leftarrow> dvals (cs_msgs t). mg_conversation_id m = j]"
      using that by (induction "cs_msgs t") (auto simp: dkeep_def filter_map comp_def intro!: arg_cong[where f = "map snd"] filter_cong)
    then show ?thesis by (simp add: messages_of_def)
  qed
  show "moves (others_keep cid) (on_convs (conv_delete i cid))"
    by (rule keep_on_convs) (auto simp: conv_delete_def conv_get_def other split: option.splits)
qed

text \<open>A conversation route changes those of the session's client only.\<close>

lemma beyond_conversations:
  fixes e :: "'w dash_env" and r :: dash_request
  defines "own \<equiv> (\<lambda>s s'. \<exists>se b. signed_in e r se s b \<and> gains_only {} s b \<and> (csrf_passed r \<and> others_keep (se_client_id se) b s'))"
  shows "beyond own (conv_new e r)" "beyond own (conv_edit e r)" "beyond own (conv_remove e r)"
  unfolding conv_new_def conv_edit_def conv_remove_def Let_def own_def
  by (intro beyond_api_session beyond_with_csrf only_if_post others_keep.bind keep_conv_ops keep_others[OF frame_readings(1)]
        keep_others[OF frame_readings(3)]; auto intro!: others_keep.return others_keep.raise split: option.split)+

lemma chats_changed:
  assumes "chats cid (snd (dash_handle e rt r s)) \<noteq> chats cid s"
  shows "\<exists>se b. signed_in e r se s b \<and> csrf_passed r \<and> se_client_id se = cid"
proof -
  have same: "chats cid s' = chats cid s" if "same_or_less Conversations s s'" for s' using that by (simp add: chats_def)
  then have "\<not> same_or_less Conversations s (snd (dash_handle e rt r s))" using assms by blast
  then have "Conversations \<in> may_touch rt" "\<not> gains_only {} s (snd (dash_handle e rt r s))"
    using route_footprint[of rt e r] unfolding moves_def gains_only_def by blast+
  moreover from this(1) have "rt = Conversation_new \<or> rt = Conversation_edit \<or> rt = Conversation_remove"
    by (cases rt) simp_all
  ultimately obtain se b where h: "signed_in e r se s b" "gains_only {} s b" "csrf_passed r"
    "others_keep (se_client_id se) b (snd (dash_handle e rt r s))"
    using beyond_conversations[where e = e and r = r] unfolding only_if_def by (metis dash_handle.simps(27,28,29) dash_handle.simps)
  have "chats cid b = chats cid s" using h(2) by (intro same) (simp add: gains_only_def)
  then have "se_client_id se = cid" using h(4) assms by (auto simp: others_keep_def)
  with h show ?thesis by blast
qed

end
