(* ===== verification/Dash_Props.thy ===== *)
theory Dash_Props
  imports Dash_Reply Oauth_Props Update_Props
begin

text \<open>What the dashboard promises of its routes.\<close>

subsection \<open>A server to run\<close>

text \<open>
  Client \<open>c\<close> of \<open>sample_server\<close>; clocks that move on, drawn values that differ, and a self-updating
  checkout that runs \<open>toy_host\<close>.
\<close>

definition demo_dash_env :: "string dash_env" where
  "demo_dash_env = \<lparr>de_oauth = sample_env, de_clock = (\<lambda>n. 1000 + 40 * real n), de_stat = (\<lambda>_. (0, 0, 0)),
     de_draw = (\<lambda>n. replicate (Suc n) CHR ''d''), de_seal = (\<lambda>k n t. t), de_unseal = (\<lambda>k n b. Some b), de_key = ''k'',
     de_trusted = [], de_str = (\<lambda>v. []), de_engine = False, de_updates = True, de_self_update = True, de_busy = (\<lambda>w. False),
     de_host = toy_host True, de_up_env = toy_env, de_install = toy_install, de_up_call = toy_call,
     de_call_tool = (\<lambda>b n a w. (Inr PNone, w))\<rparr>"

definition demo_dash :: "string dash_state" where
  "demo_dash = \<lparr>dh_oauth = sample_server, dh_sessions = [], dh_slugs = Some [], dh_confirm = None,
     dh_convs = Some \<lparr>cs_convs = [], cs_msgs = []\<rparr>, dh_world = ''old'', dh_clocks = 0, dh_stats = 0, dh_draws = 0\<rparr>"

definition demo_request :: "string option \<Rightarrow> string option \<Rightarrow> form \<Rightarrow> dash_request" where
  "demo_request sid csrf body =
     \<lparr>dr_http = \<lparr>rq_peer = None, rq_headers = Some [], rq_scheme = ''https''\<rparr>, dr_netloc = ''beacon'', dr_session = sid,
       dr_csrf = \<lparr>cr_cookie = Some ''tok'', cr_header = csrf, cr_ctype = [], cr_form = None\<rparr>, dr_form = body, dr_json = [],
       dr_wants_json = False, dr_next = [], dr_path = []\<rparr>"

definition demo_login :: dash_request where
  "demo_login = demo_request None (Some ''tok'') [(''client_id'', ''c''), (''client_secret'', ''s''), (''totp'', ''123456'')]"

text \<open>A later state, with a session of the client and its bearer.\<close>

definition demo_signed_in :: "string dash_state" where
  "demo_signed_in = demo_dash\<lparr>
     dh_oauth := sample_server\<lparr>os_clients := (os_clients sample_server)\<lparr>last_totp_step := [(''c'', 35)],
       pruned := Some (sample_tokens\<lparr>tokens := [(''d'', \<lparr>at_token = ''d'', at_client_id = ''c'', at_expires_at = At 87560,
         at_name = None, at_created_at = 1160, at_family_id = None\<rparr>)]\<rparr>)\<rparr>\<rparr>,
     dh_sessions := [(''dd'', \<lparr>sr_client_id = ''c'', sr_secret_enc = ''ddds'', sr_bearer = Some ''d'', sr_bearer_expires = Some 87640,
       sr_created_at = 1240, sr_last_seen = 1240, sr_expires_at = 7777240, sr_user_agent = Some []\<rparr>)],
     dh_clocks := 7, dh_stats := 4, dh_draws := 3\<rparr>"

definition demo_new_token :: dash_request where
  "demo_new_token = demo_request (Some ''dd'') (Some ''tok'') [(''name'', ''laptop''), (''totp'', ''123456'')]"

lemma demo_session: "sids_of (snd (login_post demo_dash_env demo_login demo_dash)) = {(''dd'', ''c'')}"
  by code_simp

lemma demo_token: "named_of (snd (tokens_create demo_dash_env demo_new_token demo_signed_in)) = {(''dddd'', ''c'', ''laptop'')}"
  by code_simp

lemma demo_empty: "sids_of demo_dash = {}" "named_of demo_signed_in = {}"
  by (simp_all add: observe sid_pairs_def named_keys_def demo_dash_def demo_signed_in_def)

subsection \<open>Footprints\<close>

text \<open>
  A request adds to the state only what its route is for: only the two sign-in routes open sessions,
  only the tokens page names a key, only the connectors page mints a registration link, only passkey
  registration adds a credential, only an update or a panel's tool call reaches the server, and no
  route grants an OAuth token, an authorization code or an approval ticket.
\<close>

theorem route_gains_only_its_own:
  "gains_only (may_touch rt) s (snd (dash_handle e rt r s))"
  using route_footprint[of rt e r] by (simp add: moves_def)

text \<open>
  C15: A state-changing request without the CSRF token its cookie asks for changes nothing: every table but
  the sessions and the token store is as it was, those lose only entries that had run out at a reading
  of the clock during the request, and no entry of them changes but the time a session was last seen.
\<close>

theorem forged_request_changes_nothing:
  assumes "csrf_verify (dr_csrf r) \<noteq> Some True" "\<not> safe_method rt"
  shows "idle e s (snd (dash_handle e rt r s))"
  using refused_without_csrf[OF assms, of e] by (simp add: moves_def)

definition demo_forged :: dash_request where
  "demo_forged = demo_request (Some ''dd'') None [(''name'', ''laptop''), (''totp'', ''123456'')]"

lemma forged_request_changes_nothing_witness:
  "idle demo_dash_env demo_signed_in (snd (dash_handle demo_dash_env Tokens_new demo_forged demo_signed_in))"
  by (rule forged_request_changes_nothing)
     (simp_all add: demo_forged_def demo_request_def csrf_verify_def submitted_token_def)

subsection \<open>Sign-in and step-up\<close>

text \<open>
  C13: A dashboard session is opened by two credentials in one request: the CSRF token matched, the login
  limiter let it pass, the client's secret was verified, and then either a code of that client was
  accepted while the client was not locked out, or a passkey of that client answered the challenge it
  was given.  The session belongs to that client.
\<close>

theorem session_needs_two_factors:
  assumes "\<not> sids_of (snd (dash_handle e rt r s)) \<subseteq> sids_of s"
  shows "csrf_verify (dr_csrf r) = Some True \<and>
    (let s' = snd (dash_handle e rt r s); cid = form_text r ''client_id''; jid = py_strip (json_text e r ''client_id'') in
     rt = Login \<and> gains_for cid s s'
       \<and> (\<exists>b. secret_verified e r cid (bget (dr_form r) ''client_secret'') s b \<and> code_accepted e r cid (form_text r ''totp'') b)
     \<or> rt = Passkey_login \<and> gains_for jid s s'
       \<and> (\<exists>b. secret_verified e r jid (json_text e r ''client_secret'') s b \<and> passkey_verified e r jid b))"
proof -
  have sids: "same_or_less Sessions s t" if "gains_only {} s t" for t using that unfolding gains_only_def by blast
  have "Sessions \<in> may_touch rt"
    using route_footprint[of rt e r] assms unfolding moves_def gains_only_def by force
  then consider "rt = Login" | "rt = Passkey_login" by (cases rt) auto
  then show ?thesis
  proof cases
    case 1
    then show ?thesis using sign_in_password[where e = e and r = r] assms sids
      by (simp add: only_if_def Let_def) blast
  next
    case 2
    then show ?thesis using sign_in_passkey[where e = e and r = r] assms sids
      by (simp add: only_if_def Let_def json_client_def) blast
  qed
qed

lemma session_needs_two_factors_witness:
  "\<exists>b. secret_verified demo_dash_env demo_login ''c'' ''s'' demo_dash b \<and> code_accepted demo_dash_env demo_login ''c'' ''123456'' b"
proof -
  have "\<not> sids_of (snd (dash_handle demo_dash_env Login demo_login demo_dash)) \<subseteq> sids_of demo_dash"
    using demo_session demo_empty by simp
  moreover have "form_text demo_login ''client_id'' = ''c''" "form_text demo_login ''totp'' = ''123456''"
    "bget (dr_form demo_login) ''client_secret'' = ''s''" by code_simp+
  ultimately show ?thesis using session_needs_two_factors[of demo_dash_env Login demo_login demo_dash] by (auto simp: Let_def)
qed

text \<open>
  C14: What outlives a session takes a fresh code in the very request: a new named token, a new registration
  link and a run of the updater each need a live session whose bearer is live, the CSRF token, and a
  two-factor code of the session's client, accepted while it was not locked out; tokens and links are
  the session's client's, and an update runs only on a server set up to update itself.
\<close>

theorem durable_access_needs_fresh_code:
  assumes "s' = snd (dash_handle e rt r s)"
    and "\<not> named_of s' \<subseteq> named_of s \<or> \<not> slugs_of s' \<subseteq> slugs_of s \<or> rt = Update_apply \<and> dh_world s' \<noteq> dh_world s"
  shows "\<exists>se b c. signed_in e r se s b \<and> csrf_verify (dr_csrf r) = Some True
    \<and> code_accepted e r (se_client_id se) c b \<and> c \<in> {form_text r ''totp'', py_strip (json_text e r ''totp'')}
    \<and> gains_for (se_client_id se) s s' \<and> (rt = Update_apply \<longrightarrow> de_updates e \<and> de_self_update e)"
proof -
  have same: "same_or_less Named_keys s t" "same_or_less Slugs s t" "same_or_less World s t" if "gains_only {} s t" for t
    using that unfolding gains_only_def by blast+
  have "Named_keys \<in> may_touch rt \<or> Slugs \<in> may_touch rt \<or> rt = Update_apply"
    using route_footprint[of rt e r] assms unfolding moves_def gains_only_def by force
  then consider "rt = Tokens_new" | "rt = Connectors_new" | "rt = Update_apply" by (cases rt) auto
  then show ?thesis
  proof cases
    case 1
    then have "step_up e r (form_text r ''totp'') s s'"
      using step_up_tokens[where e = e and r = r] assms same by (simp add: only_if_def) blast
    then show ?thesis using 1 unfolding step_up_def by blast
  next
    case 2
    then have "step_up e r (form_text r ''totp'') s s'"
      using step_up_slugs[where e = e and r = r] assms same by (simp add: only_if_def) blast
    then show ?thesis using 2 unfolding step_up_def by blast
  next
    case 3
    then have "update_allowed e \<and> step_up e r (py_strip (json_text e r ''totp'')) s s'"
      using step_up_update[where e = e and r = r] assms same by (simp add: only_if_def) blast
    then show ?thesis unfolding step_up_def update_allowed_def by blast
  qed
qed

lemma durable_access_needs_fresh_code_witness:
  "\<exists>se b. signed_in demo_dash_env demo_new_token se demo_signed_in b
     \<and> code_accepted demo_dash_env demo_new_token (se_client_id se) ''123456'' b"
proof -
  have "\<not> named_of (snd (dash_handle demo_dash_env Tokens_new demo_new_token demo_signed_in)) \<subseteq> named_of demo_signed_in"
    using demo_token demo_empty by simp
  then obtain se b c where "signed_in demo_dash_env demo_new_token se demo_signed_in b"
    "code_accepted demo_dash_env demo_new_token (se_client_id se) c b"
    "c \<in> {form_text demo_new_token ''totp'', py_strip (json_text demo_dash_env demo_new_token ''totp'')}"
    using durable_access_needs_fresh_code[OF HOL.refl, of demo_dash_env Tokens_new demo_new_token demo_signed_in] by blast
  moreover have "form_text demo_new_token ''totp'' = ''123456''" "py_strip (json_text demo_dash_env demo_new_token ''totp'') = []"
    by code_simp+
  moreover have "check_fresh demo_dash_env demo_new_token cid [] x \<noteq> (Inr TOTP_OK, y)" for cid x y
    by (auto simp: check_fresh_def pbind_def preturn_def stat_file_def reading_def on_oauth_def check_code_def check_totp_def Let_def
        split: prod.splits option.splits sum.splits if_splits)
  ultimately show ?thesis unfolding code_accepted_def by auto
qed

subsection \<open>Privacy\<close>

definition shown_by :: "py_raise + dash_reply \<Rightarrow> string set" where
  "shown_by res = (case res of Inl err \<Rightarrow> {} | Inr rep \<Rightarrow> shown rep)"


text \<open>
  The dashboard never sends the browser away: every redirect, and the address a sign-in leads to, lies
  under \<open>/app/\<close>, whatever the request's \<open>next\<close> parameter says.
\<close>

theorem redirects_stay_inside:
  "case fst (dash_handle e rt r s) of Inl err \<Rightarrow> True | Inr rep \<Rightarrow> stays_inside rep"
proof (cases "dash_handle e rt r s")
  case (Pair res s')
  show ?thesis
  proof (cases res)
    case (Inr rep)
    with Pair have h: "dash_handle e rt r s = (Inr rep, s')" by simp
    show ?thesis
    proof (cases "own_rows_route rt")
      case True
      then show ?thesis using reply_own_rows[OF True h] h by simp
    next
      case False
      from returnsD[OF reply_other_routes[OF False, of "{}"] h] show ?thesis using h by (simp add: proper_def)
    qed
  qed (simp add: Pair)
qed

subsection \<open>A removed client\<close>

text \<open>
  Whether a session's bearer is live does not depend on the client registry: the dashboard session of a
  client removed with the command-line tool goes on until its bearer runs out.
\<close>

definition with_registry :: "(string, client) dict \<Rightarrow> 'w dash_state \<Rightarrow> 'w dash_state" where
  "with_registry d s = s\<lparr>dh_oauth := (dh_oauth s)\<lparr>os_clients := (os_clients (dh_oauth s))\<lparr>clients := d\<rparr>\<rparr>\<rparr>"

lemma bearer_outlives_client: "fst (bearer_live e se (with_registry d s)) = fst (bearer_live e se s)"
  by (auto simp: bearer_live_def with_registry_def pbind_def reading_def preturn_def praise_def on_store_def on_oauth_def on_tokens_def
      split: option.splits prod.splits)

lemma session_outlives_client:
  "fst (load_session e r (with_registry d s)) = fst (load_session e r s)"
  by (auto simp: load_session_def with_registry_def pbind_def reading_def preturn_def on_sessions_def
      split: option.splits prod.splits)

end
