(* ===== verification/Entry.thy ===== *)
theory Entry
  imports Dash_Routes
begin

text \<open>
  What a request meets before the MCP endpoint (\<open>_run_http\<close> of \<open>__main__.py\<close>): the bearer check, the
  rewriting of connector addresses, the discovery documents, and the registration of a connector through
  its bootstrap link.  Starlette builds the address it shows the bearer check from the Host header;
  \<open>seen\<close> is that address's path, and \<open>path\<close> the one the request is routed by.
\<close>

subsection \<open>Discovery documents\<close>

definition issuer :: "'w dash_env \<Rightarrow> request \<Rightarrow> string" where
  "issuer e q = fst (forwarded_scheme q (de_trusted e) []) @ ''://'' @ fst (forwarded_host q (de_trusted e) ''localhost'' [])"

definition strings :: "string list \<Rightarrow> pyval" where
  "strings xs = PList (map PStr xs)"

definition oauth_server_metadata :: "string \<Rightarrow> pyval" where
  "oauth_server_metadata iss = PDict
     [(''issuer'', PStr iss),
      (''authorization_endpoint'', PStr (iss @ ''/oauth/authorize'')),
      (''token_endpoint'', PStr (iss @ ''/oauth/token'')),
      (''response_types_supported'', strings [''code'']),
      (''grant_types_supported'', strings [''authorization_code'', ''refresh_token'', ''client_credentials'']),
      (''code_challenge_methods_supported'', strings [''S256'']),
      (''token_endpoint_auth_methods_supported'', strings [''client_secret_post''])]"

definition protected_resource_metadata :: "string \<Rightarrow> pyval" where
  "protected_resource_metadata iss = PDict
     [(''resource'', PStr (iss @ ''/mcp'')),
      (''authorization_servers'', strings [iss]),
      (''bearer_methods_supported'', strings [''header''])]"

definition dcr_protected_resource_metadata :: "string \<Rightarrow> string \<Rightarrow> pyval" where
  "dcr_protected_resource_metadata iss slug = PDict
     [(''resource'', PStr (iss @ ''/mcp/c/'' @ slug)),
      (''authorization_servers'', strings [iss @ ''/as/'' @ slug]),
      (''bearer_methods_supported'', strings [''header''])]"

definition dcr_oauth_metadata :: "string \<Rightarrow> string \<Rightarrow> pyval" where
  "dcr_oauth_metadata iss slug = PDict
     [(''issuer'', PStr (iss @ ''/as/'' @ slug)),
      (''authorization_endpoint'', PStr (iss @ ''/oauth/authorize'')),
      (''token_endpoint'', PStr (iss @ ''/oauth/token'')),
      (''registration_endpoint'', PStr (iss @ ''/oauth/register/c/'' @ slug)),
      (''response_types_supported'', strings [''code'']),
      (''grant_types_supported'', strings [''authorization_code'', ''refresh_token'']),
      (''code_challenge_methods_supported'', strings [''S256'']),
      (''token_endpoint_auth_methods_supported'', strings [''client_secret_post''])]"

definition oauth_register :: "int \<times> pyval" where
  "oauth_register = (403, PDict
     [(''error'', PStr ''registration_not_supported''),
      (''error_description'', PStr ''Dynamic client registration is disabled. Ask the administrator to provision a client via `beaconmcp auth create`.'')])"

subsection \<open>The bearer check\<close>

definition UPLOAD_PATH_PREFIX :: string where "UPLOAD_PATH_PREFIX = ''/transfers/upload/''"

definition public_path :: "string \<Rightarrow> bool" where
  "public_path path \<longleftrightarrow>
     path \<in> {''/'', ''/health'', ''/metrics'', ''/oauth/token'', ''/oauth/authorize'', ''/oauth/authorize/finalize'',
       ''/oauth/register'', ''/.well-known/oauth-authorization-server'', ''/.well-known/oauth-protected-resource'',
       ''/.well-known/oauth-protected-resource/mcp''}
     \<or> startswith path ''/.well-known/oauth-protected-resource/mcp/c/''
     \<or> startswith path ''/.well-known/oauth-authorization-server/as/''
     \<or> startswith path ''/oauth/register/c/''
     \<or> startswith path UPLOAD_PATH_PREFIX
     \<or> startswith path ''/oauth/passkey/''
     \<or> startswith path ''/oauth/logo/''
     \<or> startswith path ''/app/''"

definition resource_meta :: "string \<Rightarrow> bool \<Rightarrow> string \<Rightarrow> string" where
  "resource_meta iss dcr path =
     (if startswith path ''/mcp/c/'' \<and> dcr then iss @ ''/.well-known/oauth-protected-resource'' @ path
      else iss @ ''/.well-known/oauth-protected-resource'')"

text \<open>Whether the 401's body has the Cloudflare hint; the throttled log line is left out.\<close>

definition unauthorized_hint :: "request \<Rightarrow> bool" where
  "unauthorized_hint q \<longleftrightarrow> given (rq_header q ''cf-ray'')"

text \<open>\<open>Passed\<close> has the bearer and the base address that the MCP tools see; a 401 its error, hint and metadata.\<close>

datatype gate_reply = Public | Passed string string | Unauthorized string bool string

definition auth_gate :: "'w dash_env \<Rightarrow> request \<Rightarrow> string \<Rightarrow> ('w, gate_reply) dash" where
  "auth_gate e q seen s =
     (if public_path seen then (Inr Public, s)
      else
        let iss = issuer e q;
            refuse = (\<lambda>err. preturn (Unauthorized err (unauthorized_hint q) (resource_meta iss (dh_slugs s \<noteq> None) seen)));
            authorization = (case rq_header q ''authorization'' of Some a \<Rightarrow> a | None \<Rightarrow> [])
        in if \<not> startswith authorization ''Bearer '' then refuse ''unauthorized'' s
           else let bearer = drop 7 authorization in
             pbind (reading e) (\<lambda>now. pbind (on_store (validate (oe_hash (de_oauth e)) bearer now))
               (\<lambda>c. case c of
                  None \<Rightarrow> refuse ''invalid_token''
                | Some cid \<Rightarrow>
                    if cid = [] then refuse ''invalid_token''
                    else pbind (stat_file e) (\<lambda>sig. pbind (on_clients (client_exists cid sig))
                      (\<lambda>known. if known then preturn (Passed bearer iss) else refuse ''invalid_token'')))) s)"

text \<open>\<open>_McpSlugRewriteApp\<close>: \<open>/mcp/c/<slug>\<close> is an alias of \<open>/mcp\<close>.\<close>

definition slug_rewrite :: "string \<Rightarrow> string" where
  "slug_rewrite path =
     (if startswith path ''/mcp/c/''
      then ''/mcp'' @ dropWhile (\<lambda>c. c \<noteq> CHR ''/'') (drop 7 path) else path)"

subsection \<open>Registering a connector\<close>

datatype dcr_reply =
    Dcr_refused int string "pyval list"
  | Registered string string int "pyval list"

definition body_get :: "pyval \<Rightarrow> string \<Rightarrow> pyval" where
  "body_get body key = get_or body key PNone"

definition dcr_client_name :: "pyval \<Rightarrow> string" where
  "dcr_client_name body =
     (case body_get body ''client_name'' of
        PStr c \<Rightarrow> if py_strip c \<noteq> [] then take 60 (py_strip c) else ''ChatGPT connector''
      | _ \<Rightarrow> ''ChatGPT connector'')"

definition untrusted_redirects :: "string list \<Rightarrow> pyval list \<Rightarrow> pyval list" where
  "untrusted_redirects origins us =
     [u \<leftarrow> us. \<not> (case u of PStr t \<Rightarrow> is_trusted_redirect_uri t origins | _ \<Rightarrow> False)]"

definition https_meta :: "pyval \<Rightarrow> string \<Rightarrow> string option" where
  "https_meta body key =
     (case body_get body key of
        PStr v \<Rightarrow> if startswith v ''https://'' \<and> length v \<le> 2048 then Some v else None
      | _ \<Rightarrow> None)"

text \<open>The client is made first; losing the link to another registration takes it back.\<close>

definition dcr_provision :: "'w dash_env \<Rightarrow> string \<Rightarrow> dynamic_slug \<Rightarrow> pyval \<Rightarrow> pyval list \<Rightarrow> ('w, dcr_reply) dash" where
  "dcr_provision e slug row body us =
     pbind (stat_file e) (\<lambda>sig. pbind (draw e) (\<lambda>i. pbind (draw e) (\<lambda>sec. pbind (reading e) (\<lambda>now. pbind (stat_file e)
       (\<lambda>sig'. pbind (on_clients (create_dynamic (oe_hash (de_oauth e)) (ds_owner row)
                  (take 120 (ds_label row @ '' ('' @ dcr_client_name body @ '')''))
                  (''chatgpt:'' @ slug) (https_meta body ''logo_uri'') (https_meta body ''client_uri'') i sec now sig sig'))
          (\<lambda>made. case made of
             Inl u \<Rightarrow> preturn (Dcr_refused 400 ''invalid_client_metadata'' [])
           | Inr (cid, secret) \<Rightarrow>
               pbind (reading e) (\<lambda>t. pbind (on_slugs (slug_consume slug cid t))
                 (\<lambda>got. case got of
                    None \<Rightarrow> pbind (stat_file e) (\<lambda>sig1. pbind (stat_file e)
                      (\<lambda>sig2. pbind (on_clients (revoke_stored cid sig1 sig2))
                         (\<lambda>_. preturn (Dcr_refused 409 ''invalid_client_metadata'' []))))
                  | Some _ \<Rightarrow> preturn (Registered cid secret \<lfloor>ds_created_at row\<rfloor> us)))))))))"

text \<open>\<open>body\<close> is the JSON of the request, None when it does not parse.\<close>

definition dcr_register :: "'w dash_env \<Rightarrow> string \<Rightarrow> pyval option \<Rightarrow> ('w, dcr_reply) dash" where
  "dcr_register e slug json s =
     (case dh_slugs s of
        None \<Rightarrow> (Inr (Dcr_refused 403 ''registration_not_supported'' []), s)
      | Some t \<Rightarrow>
          (case slug_load slug t of
             None \<Rightarrow> (Inr (Dcr_refused 404 ''invalid_client_metadata'' []), s)
           | Some row \<Rightarrow>
               let body = (case json of None \<Rightarrow> PDict [] | Some b \<Rightarrow> b)
               in case body_get body ''redirect_uris'' of
                    PList us \<Rightarrow>
                      if us = [] then (Inr (Dcr_refused 400 ''invalid_redirect_uri'' []), s)
                      else (let bad = untrusted_redirects (oe_origins (de_oauth e)) us
                            in if bad \<noteq> [] then (Inr (Dcr_refused 400 ''invalid_redirect_uri'' bad), s)
                               else dcr_provision e slug row body us s)
                  | _ \<Rightarrow> (Inr (Dcr_refused 400 ''invalid_redirect_uri'' []), s)))"

end
