(* ===== verification/Entry_Demo.thy ===== *)
theory Entry_Demo
  imports Entry Dash_Props
begin

text \<open>
  The demonstration server of \<open>Dash_Props\<close> after its client asked for a connector's link: the request is
  followed step by step, so that the state it leaves is known without evaluating it as a whole.
\<close>

definition demo_new_link :: dash_request where
  "demo_new_link = demo_request (Some ''dd'') (Some ''tok'') [(''label'', ''l''), (''totp'', ''123456'')]"

definition demo_row :: dynamic_slug where
  "demo_row = \<lparr>ds_slug = ''dddd'', ds_label = ''l'', ds_owner = ''c'', ds_created_at = 1600, ds_expires_at = 2500,
     ds_used_at = None, ds_client = None\<rparr>"

definition demo_minted :: "string dash_state" where
  "demo_minted = snd (connectors_mint demo_dash_env demo_new_link demo_signed_in)"

lemmas dash_defs = pbind_def preturn_def praise_def reading_def stat_file_def draw_def on_clients_def on_oauth_def on_store_def on_tokens_def
  on_sessions_def on_slugs_def

lemma demo_ip: "source_ip demo_dash_env demo_new_link = ''unknown''"
  by (simp add: source_ip_def demo_dash_env_def demo_new_link_def demo_request_def client_ip_def peer_is_trusted_def own_address_def
     rq_header_def given_def Let_def is_trusted_proxy_def)

text \<open>Its steps, one by one.\<close>

lemmas demo_defs = demo_dash_env_def demo_new_link_def demo_request_def demo_signed_in_def demo_dash_def

definition demo_sess :: session where
  "demo_sess = session_of_row ''dd'' (snd (hd (dh_sessions demo_signed_in)))"

lemma demo_client [simp]: "se_client_id demo_sess = ''c''"
  by (simp add: demo_sess_def demo_defs session_of_row_def)

lemma step_load: "\<exists>x. load_session demo_dash_env demo_new_link demo_signed_in = (Inr (Some demo_sess), demo_signed_in\<lparr>dh_clocks := 9, dh_sessions := x\<rparr>)"
  by (simp add: load_session_def demo_sess_def demo_defs dash_defs session_load_def session_touch_def session_update_def session_of_row_def
     is_expired_def session_now_def Let_def) 

lemma step_bearer: "bearer_live demo_dash_env demo_sess (demo_signed_in\<lparr>dh_clocks := 9, dh_sessions := x\<rparr>)
  = (Inr True, demo_signed_in\<lparr>dh_clocks := 11, dh_sessions := x\<rparr>)"
  by (simp add: bearer_live_def demo_sess_def demo_defs dash_defs session_of_row_def bearer_valid_def validate_def at_expired_def session_now_def)
lemma step_csrf: "csrf_verify (dr_csrf demo_new_link) = Some True"
  by (simp add: demo_defs csrf_verify_def submitted_token_def py_isascii_def)
lemma step_lock: "is_locked demo_dash_env demo_new_link ''c'' (demo_signed_in\<lparr>dh_clocks := 11, dh_sessions := x\<rparr>)
  = (Inr False, demo_signed_in\<lparr>dh_clocks := 12, dh_stats := 5, dh_sessions := x\<rparr>)"
  unfolding is_locked_def demo_ip
  by (simp add: demo_defs dash_defs totp_locked_def seed_owner_def sample_server_def get_client_def maybe_reload_def stat_sig_def sample_owner_def locked_def
    totp_lockout_init_def is_known_good_def count_locked_def Let_def src_key_def)

lemma demo_forms: "form_text demo_new_link ''totp'' = ''123456''" "form_text demo_new_link ''label'' = ''l''"
  by code_simp+

abbreviation demo_later where
  "demo_later x os c n \<equiv> demo_signed_in\<lparr>dh_clocks := c, dh_stats := n, dh_sessions := x, dh_oauth := os\<rparr>"

lemma check_totp_keeps:
  "clients (snd (check_totp V i c now sig cs)) = clients (maybe_reload sig cs)" "disk (snd (check_totp V i c now sig cs)) = disk (maybe_reload sig cs)"
  by (auto simp: check_totp_def Let_def split: option.splits)

lemma code_taken: "fst (check_totp (oe_totp sample_env) ''c'' ''123456'' 1480 (0, 0, 0) (os_clients (dh_oauth demo_signed_in))) = TOTP_OK"
  by code_simp

lemma reload_none [simp]: "disk cs = None \<Longrightarrow> maybe_reload sig cs = cs"
  by (simp add: maybe_reload_def stat_sig_def)

lemma step_code: "\<exists>os. check_fresh demo_dash_env demo_new_link ''c'' ''123456'' (demo_signed_in\<lparr>dh_clocks := 12, dh_stats := 5, dh_sessions := x\<rparr>)
  = (Inr TOTP_OK, demo_later x os 13 6) \<and> disk (os_clients os) = None \<and> dkeys (clients (os_clients os)) = [''c'']"
proof -
  let ?cs = "os_clients (dh_oauth demo_signed_in)"
  have d: "disk ?cs = None" "dkeys (clients ?cs) = [''c'']" by (simp_all add: demo_defs sample_server_def)
  obtain cs where cs: "check_totp (oe_totp sample_env) ''c'' ''123456'' 1480 (0, 0, 0) ?cs = (TOTP_OK, cs)" using code_taken by (metis prod.collapse)
  then have "disk cs = None" "dkeys (clients cs) = [''c'']"
    using check_totp_keeps[of "oe_totp sample_env" "''c''" "''123456''" 1480 "(0, 0, 0)" ?cs] d by simp_all
  then show ?thesis
    by (intro exI[of _ "(dh_oauth demo_signed_in)\<lparr>os_clients := cs\<rparr>"])
       (simp add: check_fresh_def demo_ip dash_defs check_code_def cs demo_dash_env_def)
qed

lemma seed_quiet: "disk (os_clients os) = None \<Longrightarrow> \<exists>ow. seed_owner cid sig os = (ow, os)"
  by (simp add: seed_owner_def get_client_def Let_def)

lemma demo_sel: "de_stat demo_dash_env n = (0, 0, 0)" "de_clock demo_dash_env n = 1000 + 40 * real n" "de_oauth demo_dash_env = sample_env"
  "de_draw demo_dash_env n = replicate (Suc n) CHR ''d''"
  by (simp_all add: demo_dash_env_def)

lemma step_clear:
  assumes "disk (os_clients os) = None"
  shows "\<exists>lk. clear_strikes demo_dash_env demo_new_link ''c'' (demo_later x os 13 6) = (Inr (), demo_later x (os\<lparr>os_lockout := lk\<rparr>) 14 7)"
proof -
  obtain ow where "seed_owner ''c'' (0, 0, 0) os = (ow, os)" using seed_quiet[OF assms] ..
  then show ?thesis
    by (intro exI[of _ "record_success ow (Some ''unknown'') 1520 (os_lockout os)"]) (simp add: clear_strikes_def demo_ip dash_defs totp_record_success_def demo_sel)
qed

lemma step_page: "disk (os_clients (dh_oauth s)) = None \<Longrightarrow> \<exists>rep s'. connectors_page demo_dash_env demo_new_link se err created s = (Inr rep, s')
    \<and> dh_slugs s' = dh_slugs s \<and> dh_draws s' = dh_draws s \<and> dh_clocks s' = Suc (Suc (dh_clocks s)) \<and> os_clients (dh_oauth s') = os_clients (dh_oauth s)"
  by (auto simp: connectors_page_def dash_defs list_derived_def client_name_def get_client_name_def is_locked_def totp_locked_def seed_owner_def get_client_def Let_def split: prod.split)

lemma demo_fields: "dh_slugs demo_signed_in = Some []" "dh_draws demo_signed_in = 3"
  by (simp_all add: demo_defs)

lemma dreplicate: "CHR ''d'' # replicate 3 CHR ''d'' = ''dddd''"
  by code_simp

lemma demo_link:
  "dh_slugs demo_minted = Some [(''dddd'', demo_row)] \<and> dkeys (clients (os_clients (dh_oauth demo_minted))) = [''c'']
   \<and> disk (os_clients (dh_oauth demo_minted)) = None \<and> dh_clocks demo_minted = 18 \<and> dh_draws demo_minted = 4"
proof -
  obtain x where step_load: "load_session demo_dash_env demo_new_link demo_signed_in = (Inr (Some demo_sess), demo_signed_in\<lparr>dh_clocks := 9, dh_sessions := x\<rparr>)"
    using step_load ..
  obtain os where step_code: "check_fresh demo_dash_env demo_new_link ''c'' ''123456'' (demo_signed_in\<lparr>dh_clocks := 12, dh_stats := 5, dh_sessions := x\<rparr>)
     = (Inr TOTP_OK, demo_later x os 13 6)" "disk (os_clients os) = None" "dkeys (clients (os_clients os)) = [''c'']"
    using step_code[of x] by (elim exE conjE) (rule that; assumption)
  obtain lk where step_clear: "clear_strikes demo_dash_env demo_new_link ''c'' (demo_later x os 13 6) = (Inr (), demo_later x (os\<lparr>os_lockout := lk\<rparr>) 14 7)"
    using step_clear[OF step_code(2)] ..
  let ?s = "demo_signed_in\<lparr>dh_stats := 7, dh_sessions := x, dh_oauth := os\<lparr>os_lockout := lk\<rparr>, dh_draws := 4, dh_clocks := 16,
    dh_slugs := Some [(''dddd'', demo_row)]\<rparr>"
  have ds: "disk (os_clients (dh_oauth ?s)) = None" using step_code(2) by simp
  obtain rep s' where step_page: "connectors_page demo_dash_env demo_new_link demo_sess None (Some (slug_url demo_dash_env demo_new_link ''dddd'')) ?s = (Inr rep, s')"
    "dh_slugs s' = dh_slugs ?s" "dh_draws s' = dh_draws ?s" "dh_clocks s' = Suc (Suc (dh_clocks ?s))" "os_clients (dh_oauth s') = os_clients (dh_oauth ?s)"
    using step_page[OF ds, of demo_sess None "Some (slug_url demo_dash_env demo_new_link ''dddd'')"] by (elim exE conjE) (rule that; assumption)
  have "pbind (reading demo_dash_env) (\<lambda>t0. pbind (on_slugs (slug_prune_expired t0))
                 (\<lambda>_. pbind (draw demo_dash_env) (\<lambda>slug. pbind (reading demo_dash_env) (\<lambda>now. pbind (on_slugs (slug_mint ''c'' ''l'' slug now))
                    (\<lambda>row. case row of
                       None \<Rightarrow> praise Integrity_error
                     | Some y \<Rightarrow> connectors_page demo_dash_env demo_new_link demo_sess None (Some (slug_url demo_dash_env demo_new_link (ds_slug y)))))))) (demo_later x (os\<lparr>os_lockout := lk\<rparr>) 14 7)
     = (Inr rep, s')"
    using step_page(1) by (simp add: dash_defs demo_sel demo_fields slug_prune_expired_def slug_mint_def SLUG_TTL_SECONDS_def Let_def demo_row_def dreplicate)
  then have "connectors_mint demo_dash_env demo_new_link demo_signed_in = (Inr rep, s')"
    by (simp add: connectors_mint_def connector_session_def page_session_def with_csrf_def with_fresh_code_def demo_forms pbind_def step_load step_bearer step_csrf step_lock step_code step_clear)
       (simp add: demo_fields)
  then show ?thesis using step_page step_code by (simp add: demo_minted_def)
qed
end
