(* ===== verification/Entry_Props.thy ===== *)
theory Entry_Props
  imports Entry_Demo Client_Props
begin

text \<open>
  What stands between a request and the MCP tools, and how a connector comes to be registered: over any
  history of the server, by the two-factor code of the client it belongs to.
\<close>

subsection \<open>The bearer check\<close>

abbreviation registry :: "'w dash_state \<Rightarrow> client_store" where
  "registry s \<equiv> os_clients (dh_oauth s)"

lemma mcp_not_public: "startswith (slug_rewrite path) ''/mcp'' \<Longrightarrow> \<not> public_path path"
proof -
  assume h: "startswith (slug_rewrite path) ''/mcp''"
  then obtain p where p: "path = ''/mcp'' @ p"
    by (cases "startswith path ''/mcp/c/''") (auto simp: slug_rewrite_def prefix_def)
  show ?thesis unfolding p by (auto simp: public_path_def UPLOAD_PATH_PREFIX_def)
qed

definition bearer_of :: "request \<Rightarrow> string option" where
  "bearer_of q = (case rq_header q ''authorization'' of
     Some a \<Rightarrow> if startswith a ''Bearer '' then Some (drop 7 a) else None | None \<Rightarrow> None)"

lemma bearer_of_header: "bearer_of q = Some b \<longleftrightarrow> rq_header q ''authorization'' = Some (''Bearer '' @ b)"
  by (auto simp: bearer_of_def prefix_def split: option.splits)

lemma gate_no_bearer:
  assumes "\<not> public_path seen" "bearer_of q = None"
  shows "\<exists>m h. auth_gate e q seen s = (Inr (Unauthorized ''unauthorized'' h m), s)"
  using assms by (auto simp: auth_gate_def bearer_of_def Let_def preturn_def split: option.splits if_splits)

text \<open>The state once the token store was asked for the bearer's client.\<close>

definition asked :: "'w dash_state \<Rightarrow> token_store \<Rightarrow> 'w dash_state" where
  "asked s ts = s\<lparr>dh_clocks := Suc (dh_clocks s), dh_oauth := (dh_oauth s)\<lparr>os_clients := (registry s)\<lparr>pruned := Some ts\<rparr>\<rparr>\<rparr>"

lemma asked_registry [simp]: "disk (registry (asked s ts)) = disk (registry s)" "disk_sig (registry (asked s ts)) = disk_sig (registry s)"
  by (simp_all add: asked_def)

lemma gate_bearer:
  assumes "\<not> public_path seen" "bearer_of q = Some b" "store_of s = Some ts"
    and "validate (oe_hash (de_oauth e)) b (de_clock e (dh_clocks s)) ts = (c, ts')"
  shows "c = None \<or> c = Some [] \<Longrightarrow> \<exists>h m. auth_gate e q seen s = (Inr (Unauthorized ''invalid_token'' h m), asked s ts')"
    and "c = Some cid \<Longrightarrow> cid \<noteq> [] \<Longrightarrow> client_exists cid (de_stat e (dh_stats s)) (registry (asked s ts')) = (known, cs) \<Longrightarrow>
      \<exists>h m s'. auth_gate e q seen s = (Inr (if known then Passed b (issuer e q) else Unauthorized ''invalid_token'' h m), s')
        \<and> registry s' = cs"
  using assms
  by (auto simp: auth_gate_def bearer_of_def dash_defs store_of_def asked_def Let_def split: option.splits if_splits prod.splits)

text \<open>
  C9: A request that reaches the MCP endpoint, by its own address or a connector's, carried a bearer in the
  Authorization header that the token store holds valid at that moment for a client that the registry,
  read again from its file, still has; and the tools see that bearer.  The address the check looks at
  must be the one the request is routed by.
\<close>

theorem mcp_is_behind_the_gate:
  assumes "auth_gate e q seen s = (Inr rep, s')" "seen = path" "startswith (slug_rewrite path) ''/mcp''"
    and "\<not> (\<exists>err h m. rep = Unauthorized err h m)" "store_of s = Some ts"
  shows "\<exists>b cid. rep = Passed b (issuer e q) \<and> rq_header q ''authorization'' = Some (''Bearer '' @ b)
    \<and> fst (validate (oe_hash (de_oauth e)) b (de_clock e (dh_clocks s)) ts) = Some cid
    \<and> cid \<in> set (dkeys (clients (registry s')))"
proof (cases "bearer_of q")
  case None
  then show ?thesis using gate_no_bearer[OF mcp_not_public[OF assms(3)] None, of e s] assms(1,2,4) by auto
next
  case (Some b)
  obtain c ts' where v: "validate (oe_hash (de_oauth e)) b (de_clock e (dh_clocks s)) ts = (c, ts')" by fastforce
  note gate = gate_bearer[OF mcp_not_public[OF assms(3)] Some assms(5) v]
  obtain cid where c: "c = Some cid" "cid \<noteq> []"
    using gate(1) assms(1,2,4) by (cases c) auto
  obtain known cs where x: "client_exists cid (de_stat e (dh_stats s)) (registry (asked s ts')) = (known, cs)" by fastforce
  from gate(2)[OF c x] assms(1,2,4) have k: "known" "rep = Passed b (issuer e q)" "registry s' = cs"
    by (auto split: if_splits)
  have "cid \<in> set (dkeys (clients cs))" using x k(1) by (auto simp: client_exists_def Let_def simp del: set_map list.set_map)
  with k Some v c show ?thesis by (auto simp: bearer_of_header simp del: set_map list.set_map)
qed

definition bearer_request :: "string \<Rightarrow> string \<Rightarrow> request" where
  "bearer_request host b = \<lparr>rq_peer = None, rq_headers = Some [(''host'', host), (''authorization'', ''Bearer '' @ b)],
     rq_scheme = ''https''\<rparr>"

lemma demo_gate: "fst (auth_gate demo_dash_env (bearer_request ''b'' ''d'') ''/mcp/c/k/x'' demo_signed_in) = Inr (Passed ''d'' ''https://b'')"
  by code_simp

lemma mcp_is_behind_the_gate_witness:
  "\<exists>cid. fst (validate (oe_hash (de_oauth demo_dash_env)) ''d'' (de_clock demo_dash_env (dh_clocks demo_signed_in))
     (the (store_of demo_signed_in))) = Some cid"
proof -
  obtain s' where s': "auth_gate demo_dash_env (bearer_request ''b'' ''d'') ''/mcp/c/k/x'' demo_signed_in = (Inr (Passed ''d'' ''https://b''), s')"
    using demo_gate by (metis prod.collapse)
  have st: "store_of demo_signed_in = Some (the (store_of demo_signed_in))" by (simp add: store_of_def demo_signed_in_def sample_server_def demo_dash_def)
  have "startswith (slug_rewrite ''/mcp/c/k/x'') ''/mcp''" by code_simp
  from mcp_is_behind_the_gate[OF s' HOL.refl this _ st] show ?thesis by auto
qed

text \<open>
  The Host guard does not secure that hypothesis: an entry that admits any port admits whatever follows
  the colon, a path too.  A server that shows the check the address \<open>scheme://Host path\<close> then shows it
  \<open>/app//mcp\<close>, which is public, while the request is routed by \<open>/mcp\<close>.
\<close>

lemma guard_admits_a_path: "host_allowed (Some ''localhost:1/app/'') [''127.0.0.1:*'', ''localhost:*'', ''[::1]:*'']"
  by code_simp

lemma shifted_path_is_public:
  "auth_gate e q ''/app//mcp'' s = (Inr Public, s) \<and> startswith (slug_rewrite ''/mcp'') ''/mcp''"
  by (simp add: auth_gate_def public_path_def slug_rewrite_def)

text \<open>
  C12: The MCP endpoint forgets a removed client at once: when the registry's file was rewritten without it, any
  bearer it holds, a named token that is still in the store too, is refused.
\<close>

theorem removed_client_is_refused:
  assumes "\<not> public_path seen" "rq_header q ''authorization'' = Some (''Bearer '' @ b)" "store_of s = Some ts"
    and "fst (validate (oe_hash (de_oauth e)) b (de_clock e (dh_clocks s)) ts) = Some cid"
    and "disk (registry s) = Some (sig0, Rows rows)" "disk_sig (registry s) \<noteq> Some sig0" "\<forall>r \<in> set rows. cr_client_id r \<noteq> Some cid"
  shows "\<exists>h m. fst (auth_gate e q seen s) = Inr (Unauthorized ''invalid_token'' h m)"
proof -
  obtain ts' where v: "validate (oe_hash (de_oauth e)) b (de_clock e (dh_clocks s)) ts = (Some cid, ts')"
    using assms(4) by (metis prod.collapse)
  have b: "bearer_of q = Some b" using assms(2) by (simp add: bearer_of_header)
  note gate = gate_bearer[OF assms(1) b assms(3) v]
  obtain known cs where x: "client_exists cid (de_stat e (dh_stats s)) (registry (asked s ts')) = (known, cs)" by fastforce
  then have "\<not> known" using file_drops_client[OF _ _ assms(7), of "registry (asked s ts')" sig0] assms(5,6)
    by (auto simp: client_exists_def Let_def simp del: set_map list.set_map)
  then show ?thesis using gate(1) gate(2)[OF HOL.refl _ x] by (cases "cid = []") auto
qed

definition demo_removed :: "string dash_state" where
  "demo_removed = demo_signed_in\<lparr>dh_oauth := (dh_oauth demo_signed_in)\<lparr>os_clients :=
     (registry demo_signed_in)\<lparr>disk := Some ((9, 9, 9), Rows []), disk_sig := Some (1, 1, 1)\<rparr>\<rparr>\<rparr>"

lemma removed_client_is_refused_witness:
  "\<exists>h m. fst (auth_gate demo_dash_env (bearer_request ''b'' ''d'') ''/mcp'' demo_removed) = Inr (Unauthorized ''invalid_token'' h m)"
proof -
  obtain ts where ts: "store_of demo_removed = Some ts" "fst (validate (\<lambda>x. x) ''d'' 1280 ts) = Some ''c''"
    by (simp add: store_of_def demo_removed_def demo_signed_in_def demo_dash_def validate_def at_expired_def)
  have "rq_header (bearer_request ''b'' ''d'') ''authorization'' = Some (''Bearer '' @ ''d'')"
    by (simp add: bearer_request_def rq_header_def)
  from removed_client_is_refused[OF _ this ts(1), of "''/mcp''" demo_dash_env "''c''" "(9, 9, 9)" "[]"] ts(2)
  show ?thesis by (simp add: public_path_def UPLOAD_PATH_PREFIX_def demo_dash_env_def sample_env_def demo_removed_def demo_signed_in_def demo_dash_def)
qed

subsection \<open>Registering a connector\<close>

text \<open>
  From a connector's address to its registration: each document that the one before points to is public,
  and the last one names the registration route of the same link.
\<close>

lemma connector_discovery:
  "resource_meta iss True (''/mcp/c/'' @ slug) = iss @ ''/.well-known/oauth-protected-resource/mcp/c/'' @ slug
   \<and> public_path (''/.well-known/oauth-protected-resource/mcp/c/'' @ slug)
   \<and> get_or (dcr_protected_resource_metadata iss slug) ''authorization_servers'' PNone
        = PList [get_or (dcr_oauth_metadata iss slug) ''issuer'' PNone]
   \<and> public_path (''/.well-known/oauth-authorization-server/as/'' @ slug)
   \<and> get_or (dcr_oauth_metadata iss slug) ''registration_endpoint'' PNone = PStr (iss @ ''/oauth/register/c/'' @ slug)
   \<and> public_path (''/oauth/register/c/'' @ slug)"
  by (simp add: resource_meta_def public_path_def dcr_protected_resource_metadata_def dcr_oauth_metadata_def strings_def get_or_def)

text \<open>What one registration does to the registry and the links, on each of its ways.\<close>

lemma registered_row:
  assumes "slug_consume slug cid now t = (Some r', t')"
  obtains row where "dget t slug = Some row" "ds_used_at row = None" "now < ds_expires_at row"
    "t' = dset slug (row\<lparr>ds_used_at := Some now, ds_client := Some cid\<rparr>) t"
  using assms by (auto simp: slug_consume_def Let_def split: option.splits if_splits)

lemma unregistered: "slug_consume slug cid now t = (None, t') \<Longrightarrow> t' = t"
  by (auto simp: slug_consume_def slug_load_def Let_def split: option.splits if_splits)

text \<open>The registry after a client with a new id was made, and after it was taken back.\<close>

lemma create_dynamic_made:
  assumes "create_dynamic H ow name src lg uri i sec now sig sig' cs = (Inr (cid, secret), cs')"
  shows "cid = i \<and> secret = sec \<and> ow \<in> set (dkeys (clients (maybe_reload sig cs)))
    \<and> (\<exists>c. clients cs' = dset cid c (clients (maybe_reload sig cs)) \<and> cl_owner c = Some ow \<and> cl_totp_secret c = []
         \<and> cl_secret_hash c = H secret) \<and> stat_sig cs' = disk_sig cs'"
  using assms by (auto simp: create_dynamic_def save_def stat_sig_def Let_def split: if_splits)

lemma dpop_dset_new: "i \<notin> set (dkeys d) \<Longrightarrow> dpop i (dset i c d) = d"
  by (induction d) auto

lemma taken_back:
  assumes "clients cs = dset i c d" "i \<notin> set (dkeys d)" "cl_owner c \<noteq> None" "stat_sig cs = disk_sig cs"
  shows "clients (snd (revoke_stored i sig sig' cs)) = d"
proof -
  have "maybe_reload sig cs = cs" using assms(4) by (simp add: maybe_reload_def)
  moreover have "dpop i (dset i c d) = d" using assms(2) by (rule dpop_dset_new)
  ultimately show ?thesis using assms(1,3) by (auto simp: revoke_stored_def Let_def)
qed

text \<open>The registry as a request finds it: read again when its file changed.\<close>

definition clients_now :: "'w dash_env \<Rightarrow> 'w dash_state \<Rightarrow> (string, client) dict" where
  "clients_now e s = clients (maybe_reload (de_stat e (dh_stats s)) (registry s))"

definition id_is_new :: "'w dash_env \<Rightarrow> 'w dash_state \<Rightarrow> bool" where
  "id_is_new e s \<longleftrightarrow> de_draw e (dh_draws s) \<notin> set (dkeys (clients_now e s))"

definition registers :: "'w dash_env \<Rightarrow> string \<Rightarrow> dynamic_slug \<Rightarrow> string \<Rightarrow> string \<Rightarrow> 'w dash_state \<Rightarrow> 'w dash_state \<Rightarrow> bool" where
  "registers e slug row cid secret s s' \<longleftrightarrow>
     ds_owner row \<in> set (dkeys (clients_now e s))
     \<and> (\<exists>c. clients (registry s') = dset cid c (clients_now e s) \<and> cl_owner c = Some (ds_owner row) \<and> cl_totp_secret c = []
          \<and> cl_secret_hash c = oe_hash (de_oauth e) secret)
     \<and> (\<exists>t now. dh_slugs s = Some t \<and> dget t slug = Some row \<and> ds_used_at row = None \<and> now < ds_expires_at row
          \<and> dh_slugs s' = Some (dset slug (row\<lparr>ds_used_at := Some now, ds_client := Some cid\<rparr>) t))"

definition registers_none :: "'w dash_env \<Rightarrow> 'w dash_state \<Rightarrow> 'w dash_state \<Rightarrow> bool" where
  "registers_none e s s' \<longleftrightarrow> dh_slugs s' = dh_slugs s \<and> clients (registry s') \<in> {clients (registry s), clients_now e s}"

lemma provision_run:
  assumes "dh_slugs s = Some t" "create_dynamic (oe_hash (de_oauth e)) (ds_owner row)
      (take 120 (ds_label row @ '' ('' @ dcr_client_name body @ '')'')) (''chatgpt:'' @ slug) (https_meta body ''logo_uri'')
      (https_meta body ''client_uri'') (de_draw e (dh_draws s)) (de_draw e (Suc (dh_draws s))) (de_clock e (dh_clocks s))
      (de_stat e (dh_stats s)) (de_stat e (Suc (dh_stats s))) (registry s) = (made, cs)"
  shows "made = Inl u \<Longrightarrow> \<exists>s'. dcr_provision e slug row body us s = (Inr (Dcr_refused 400 ''invalid_client_metadata'' []), s')
      \<and> dh_slugs s' = Some t \<and> registry s' = cs"
    and "made = Inr (cid, secret) \<Longrightarrow> slug_consume slug cid (de_clock e (Suc (dh_clocks s))) t = (Some r', t') \<Longrightarrow>
      \<exists>s'. dcr_provision e slug row body us s = (Inr (Registered cid secret \<lfloor>ds_created_at row\<rfloor> us), s')
        \<and> dh_slugs s' = Some t' \<and> registry s' = cs"
    and "made = Inr (cid, secret) \<Longrightarrow> slug_consume slug cid (de_clock e (Suc (dh_clocks s))) t = (None, t') \<Longrightarrow>
      \<exists>s'. dcr_provision e slug row body us s = (Inr (Dcr_refused 409 ''invalid_client_metadata'' []), s')
        \<and> dh_slugs s' = Some t'
        \<and> registry s' = snd (revoke_stored cid (de_stat e (Suc (Suc (dh_stats s)))) (de_stat e (Suc (Suc (Suc (dh_stats s))))) cs)"
  using assms by (auto simp: dcr_provision_def dash_defs on_slugs_def split: prod.splits)

lemma provision:
  assumes "dh_slugs s = Some t" "dget t slug = Some row" "id_is_new e s" "dcr_provision e slug row body us s = (r, s')"
  shows "(\<exists>code bad. r = Inr (Dcr_refused code ''invalid_client_metadata'' bad) \<and> registers_none e s s')
    \<or> (\<exists>cid secret. r = Inr (Registered cid secret \<lfloor>ds_created_at row\<rfloor> us) \<and> registers e slug row cid secret s s')"
proof -
  let ?name = "take 120 (ds_label row @ '' ('' @ dcr_client_name body @ '')'')"
  obtain made cs where m: "create_dynamic (oe_hash (de_oauth e)) (ds_owner row) ?name (''chatgpt:'' @ slug) (https_meta body ''logo_uri'')
      (https_meta body ''client_uri'') (de_draw e (dh_draws s)) (de_draw e (Suc (dh_draws s))) (de_clock e (dh_clocks s))
      (de_stat e (dh_stats s)) (de_stat e (Suc (dh_stats s))) (registry s) = (made, cs)" by fastforce
  note run = provision_run[OF assms(1) m]
  show ?thesis
  proof (cases made)
    case (Inl u)
    then have "clients cs = clients_now e s" using m by (auto simp: create_dynamic_def clients_now_def Let_def split: if_splits)
    then show ?thesis using run(1)[OF Inl, of us] assms(1,4) by (auto simp: registers_none_def)
  next
    case (Inr p)
    obtain cid secret where p: "made = Inr (cid, secret)" using Inr by (cases p) simp
    obtain c where c: "cid = de_draw e (dh_draws s)" "ds_owner row \<in> set (dkeys (clients_now e s))" "clients cs = dset cid c (clients_now e s)"
      "cl_owner c = Some (ds_owner row)" "cl_totp_secret c = []" "cl_secret_hash c = oe_hash (de_oauth e) secret" "stat_sig cs = disk_sig cs"
      using create_dynamic_made[OF m[unfolded p]] unfolding clients_now_def by blast
    obtain got t' where g: "slug_consume slug cid (de_clock e (Suc (dh_clocks s))) t = (got, t')" by fastforce
    show ?thesis
    proof (cases got)
      case None
      from run(3)[OF p g[unfolded None], of us] obtain sig1 sig2 where "r = Inr (Dcr_refused 409 ''invalid_client_metadata'' [])"
        "dh_slugs s' = Some t'" "registry s' = snd (revoke_stored cid sig1 sig2 cs)" using assms(4) by auto
      moreover have "clients (snd (revoke_stored cid sig1 sig2 cs)) = clients_now e s"
        using assms(3) c by (intro taken_back[OF c(3)]) (auto simp: id_is_new_def)
      ultimately show ?thesis using unregistered[OF g[unfolded None]] assms(1) by (simp add: registers_none_def)
    next
      case (Some r')
      from registered_row[OF g[unfolded Some]] assms(2) have "ds_used_at row = None" "de_clock e (Suc (dh_clocks s)) < ds_expires_at row"
        "t' = dset slug (row\<lparr>ds_used_at := Some (de_clock e (Suc (dh_clocks s))), ds_client := Some cid\<rparr>) t" by auto
      then have "registers e slug row cid secret s s'" "r = Inr (Registered cid secret \<lfloor>ds_created_at row\<rfloor> us)"
        using run(2)[OF p g[unfolded Some], of us] assms(1,2,4) c unfolding registers_def by auto
      then show ?thesis by blast
    qed
  qed
qed

lemma registration_all_or_nothing_core:
  assumes "id_is_new e s" "dcr_register e slug json s = (r, s')"
  shows "(\<exists>code why bad. r = Inr (Dcr_refused code why bad) \<and> registers_none e s s')
    \<or> (\<exists>cid secret row us. r = Inr (Registered cid secret \<lfloor>ds_created_at row\<rfloor> us) \<and> registers e slug row cid secret s s'
         \<and> us \<noteq> [] \<and> (\<forall>u \<in> set us. \<exists>uri. u = PStr uri \<and> is_trusted_redirect_uri uri (oe_origins (de_oauth e))))"
proof (cases "s' = s \<and> (\<exists>code why bad. r = Inr (Dcr_refused code why bad))")
  case True
  then show ?thesis by (auto simp: registers_none_def)
next
  case False
  let ?body = "case json of None \<Rightarrow> PDict [] | Some b \<Rightarrow> b"
  obtain t row us where h: "dh_slugs s = Some t" "dget t slug = Some row" "us \<noteq> []"
    "untrusted_redirects (oe_origins (de_oauth e)) us = []" "dcr_provision e slug row ?body us s = (r, s')"
    using assms(2) False by (auto simp: dcr_register_def slug_load_def Let_def split: option.splits pyval.splits if_splits)
  have "\<exists>uri. u = PStr uri \<and> is_trusted_redirect_uri uri (oe_origins (de_oauth e))" if "u \<in> set us" for u
    using h(4) that by (cases u) (auto simp: untrusted_redirects_def filter_empty_conv)
  with provision[OF h(1,2) assms(1) h(5)] h(3) show ?thesis by blast
qed

text \<open>
  C11: A registration is all or nothing, and never raises.  Either it answers with a new client: its link was in
  the table, unused and not run out, and is now spent on that client; the client belongs to the link's
  owner, who is in the registry, has no two-factor seed of its own, and the answer's secret is the one
  stored; the redirect URIs it named are there, every one of them trusted text.  Or it refuses, and leaves
  the links and the clients as they were.  The id drawn for the client must be new.
\<close>

theorem registration_all_or_nothing:
  assumes "id_is_new e s" "dcr_register e slug json s = (r, s')"
  shows "(\<exists>code why bad. r = Inr (Dcr_refused code why bad) \<and> registers_none e s s')
    \<or> (\<exists>cid secret row us. r = Inr (Registered cid secret \<lfloor>ds_created_at row\<rfloor> us) \<and> registers e slug row cid secret s s'
         \<and> us \<noteq> [] \<and> (\<forall>u \<in> set us. \<exists>uri. u = PStr uri \<and> is_trusted_redirect_uri uri (oe_origins (de_oauth e))))"
  using registration_all_or_nothing_core[OF assms] .

definition demo_linked :: "string dash_state" where
  "demo_linked = demo_dash\<lparr>dh_slugs := Some [(''k'', \<lparr>ds_slug = ''k'', ds_label = ''l'', ds_owner = ''c'', ds_created_at = 900,
     ds_expires_at = 1800, ds_used_at = None, ds_client = None\<rparr>)]\<rparr>"

definition demo_body :: pyval where
  "demo_body = PDict [(''redirect_uris'', PList [PStr ''https://claude.ai/cb''])]"

lemma demo_registered:
  "fst (dcr_register demo_dash_env ''k'' (Some demo_body) demo_linked) =
     Inr (Registered ''d'' ''dd'' 900 [PStr ''https://claude.ai/cb''])"
  by code_simp

lemma demo_new: "id_is_new demo_dash_env demo_linked"
  by code_simp

lemma registration_all_or_nothing_witness:
  "\<exists>row. registers demo_dash_env ''k'' row ''d'' ''dd'' demo_linked (snd (dcr_register demo_dash_env ''k'' (Some demo_body) demo_linked))"
proof -
  obtain s' where s': "dcr_register demo_dash_env ''k'' (Some demo_body) demo_linked =
      (Inr (Registered ''d'' ''dd'' 900 [PStr ''https://claude.ai/cb'']), s')"
    using demo_registered by (metis prod.collapse)
  from registration_all_or_nothing[OF demo_new s'] s' show ?thesis by auto
qed

text \<open>A link in time, for an owner still there and trusted redirect URIs, does register.\<close>

lemma registration_succeeds:
  assumes "dh_slugs s = Some t" "dget t slug = Some row" "ds_used_at row = None"
    and "de_clock e (Suc (dh_clocks s)) < ds_expires_at row" "ds_owner row \<in> set (dkeys (clients_now e s))"
    and "body_get body ''redirect_uris'' = PList us" "us \<noteq> []" "untrusted_redirects (oe_origins (de_oauth e)) us = []"
  shows "\<exists>cid secret s'. dcr_register e slug (Some body) s = (Inr (Registered cid secret \<lfloor>ds_created_at row\<rfloor> us), s')"
proof -
  obtain cid secret cs where m: "create_dynamic (oe_hash (de_oauth e)) (ds_owner row)
      (take 120 (ds_label row @ '' ('' @ dcr_client_name body @ '')'')) (''chatgpt:'' @ slug) (https_meta body ''logo_uri'')
      (https_meta body ''client_uri'') (de_draw e (dh_draws s)) (de_draw e (Suc (dh_draws s))) (de_clock e (dh_clocks s))
      (de_stat e (dh_stats s)) (de_stat e (Suc (dh_stats s))) (registry s) = (Inr (cid, secret), cs)"
    using assms(5) by (simp add: create_dynamic_def clients_now_def Let_def)
  obtain r' t' where "slug_consume slug cid (de_clock e (Suc (dh_clocks s))) t = (Some r', t')"
    using assms(2-4) by (simp add: slug_consume_def slug_load_def Let_def update_conv')
  from provision_run(2)[OF assms(1) m HOL.refl this, of us] show ?thesis
    using assms by (auto simp: dcr_register_def slug_load_def Let_def)
qed

subsection \<open>Where a connector comes from\<close>

text \<open>
  A history of the server: requests to the dashboard, registrations, and anything that leaves the links
  alone (OAuth requests, tool calls, the command-line tool, time).  The trace has the dashboard requests
  with the state each met.
\<close>

inductive history :: "'w dash_env \<Rightarrow> 'w dash_state \<Rightarrow> (dash_route \<times> dash_request \<times> 'w dash_state) list \<Rightarrow> 'w dash_state \<Rightarrow> bool"
  for e s0 where
  history_start: "history e s0 [] s0"
| history_dashboard: "history e s0 tr s \<Longrightarrow> history e s0 ((rt, r, s) # tr) (snd (dash_handle e rt r s))"
| history_register: "history e s0 tr s \<Longrightarrow> history e s0 tr (snd (dcr_register e slug json s))"
| history_other: "history e s0 tr s \<Longrightarrow> dh_slugs s' = dh_slugs s \<Longrightarrow> history e s0 tr s'"

definition slug_owners :: "'w dash_state \<Rightarrow> (string \<times> string) set" where
  "slug_owners s = (\<lambda>(k, r). (k, ds_owner r)) ` slugs_of s"

text \<open>A request for a link, by a session of the client, with its CSRF token and a fresh code of the client.\<close>

definition link_request :: "'w dash_env \<Rightarrow> string \<Rightarrow> dash_request \<Rightarrow> 'w dash_state \<Rightarrow> bool" where
  "link_request e cid r s \<longleftrightarrow> (\<exists>se b. signed_in e r se s b \<and> se_client_id se = cid \<and> csrf_passed r
     \<and> code_accepted e r cid (form_text r ''totp'') b)"

lemma owners_dashboard:
  assumes "(k, ow) \<in> slug_owners (snd (dash_handle e rt r s))" "(k, ow) \<notin> slug_owners s"
  shows "rt = Connectors_new \<and> link_request e ow r s"
proof -
  let ?s' = "snd (dash_handle e rt r s)"
  obtain row where row: "(k, row) \<in> slugs_of ?s'" "ds_owner row = ow" "(k, row) \<notin> slugs_of s"
    using assms by (force simp: slug_owners_def)
  have less: "same_or_less Slugs s t" if "gains_only {} s t" for t using that unfolding gains_only_def by blast
  have "Slugs \<in> may_touch rt"
    using route_footprint[of rt e r] row unfolding moves_def gains_only_def by force
  then have rt: "rt = Connectors_new" by (cases rt) auto
  then have "step_up e r (form_text r ''totp'') s ?s'"
    using step_up_slugs[where e = e and r = r] less row by (simp add: only_if_def) blast
  then obtain se a where se: "signed_in e r se s a" "csrf_passed r" "code_accepted e r (se_client_id se) (form_text r ''totp'') a"
    "gains_for (se_client_id se) s ?s'" by (auto simp: step_up_def)
  then have "slugs_of ?s' \<subseteq> slugs_of s \<union> {x. ds_owner (snd x) = se_client_id se}" by (simp add: gains_for_def)
  then have "ow = se_client_id se" using row by auto
  with rt se show ?thesis unfolding link_request_def by blast
qed

lemma owners_consume: "dh_slugs s = Some t \<Longrightarrow> dh_slugs s' = Some (snd (slug_consume slug cid now t)) \<Longrightarrow> slug_owners s' \<subseteq> slug_owners s"
proof -
  assume h: "dh_slugs s = Some t" "dh_slugs s' = Some (snd (slug_consume slug cid now t))"
  have "(k, ds_owner r) \<in> (\<lambda>(k, r). (k, ds_owner r)) ` set t" if r: "(k, r) \<in> set (snd (slug_consume slug cid now t))" for k r
  proof (cases "(k, r) \<in> set t")
    case False
    then obtain row where "dget t slug = Some row" "k = slug" "ds_owner r = ds_owner row"
      using r by (auto simp: slug_consume_def Let_def split: option.splits if_splits dest!: in_dset)
    then show ?thesis using dget_in by force
  qed force
  then show ?thesis using h by (auto simp: slug_owners_def slugs_of_def)
qed

lemma owners_same: "dh_slugs s' = dh_slugs s \<Longrightarrow> slug_owners s' = slug_owners s"
  by (simp add: slug_owners_def slugs_of_def)

lemma owners_register: "slug_owners (snd (dcr_register e slug json s)) \<subseteq> slug_owners s"
proof -
  obtain r s' where reg: "dcr_register e slug json s = (r, s')" by fastforce
  show ?thesis
  proof (cases "s' = s")
    case False
    then obtain t row body us where h: "dh_slugs s = Some t" "dcr_provision e slug row body us s = (r, s')"
      using reg by (auto simp: dcr_register_def slug_load_def Let_def split: option.splits pyval.splits if_splits)
    obtain made cs where m: "create_dynamic (oe_hash (de_oauth e)) (ds_owner row)
      (take 120 (ds_label row @ '' ('' @ dcr_client_name body @ '')'')) (''chatgpt:'' @ slug) (https_meta body ''logo_uri'')
      (https_meta body ''client_uri'') (de_draw e (dh_draws s)) (de_draw e (Suc (dh_draws s))) (de_clock e (dh_clocks s))
      (de_stat e (dh_stats s)) (de_stat e (Suc (dh_stats s))) (registry s) = (made, cs)" by fastforce
    note run = provision_run[OF h(1) m, where us = us]
    show ?thesis
    proof (cases made)
      case (Inl u)
      then show ?thesis using run(1)[OF Inl] h reg owners_same[of s' s] by auto
    next
      case (Inr p)
      obtain cid secret where p: "made = Inr (cid, secret)" using Inr by (cases p) simp
      obtain got t' where g: "slug_consume slug cid (de_clock e (Suc (dh_clocks s))) t = (got, t')" by fastforce
      have "dh_slugs s' = Some t'" using run(2,3)[OF p] g h(2) by (cases got) fastforce+
      then show ?thesis using owners_consume[OF h(1)] g reg by (metis snd_conv)
    qed
  qed (simp add: reg)
qed

text \<open>Every link in the table was asked for by its owner.\<close>

lemma link_was_asked_for:
  "history e s0 tr s \<Longrightarrow> dh_slugs s0 = Some [] \<Longrightarrow> (k, ow) \<in> slug_owners s \<Longrightarrow>
     \<exists>r s1. (Connectors_new, r, s1) \<in> set tr \<and> link_request e ow r s1"
proof (induction rule: history.induct)
  case history_start
  then show ?case by (simp add: slug_owners_def slugs_of_def)
next
  case (history_dashboard tr s rt r)
  show ?case
  proof (cases "(k, ow) \<in> slug_owners s")
    case False
    with owners_dashboard[OF history_dashboard.prems(2) False] show ?thesis by (meson list.set_intros(1))
  next
    case True
    with history_dashboard.IH history_dashboard.prems(1) show ?thesis by (meson list.set_intros(2))
  qed
next
  case (history_register tr s slug json)
  show ?case by (rule history_register.IH[OF history_register.prems(1) subsetD[OF owners_register history_register.prems(2)]])
next
  case (history_other tr s s')
  show ?case using history_other.IH[OF history_other.prems(1)] history_other.prems(2) owners_same[OF history_other.hyps(2)] by simp
qed

text \<open>
  C10: Over any history of a server that started without links, a connector is registered only after its owner
  asked for it: when a registration answers with a client, there was a request for a new link by a session
  of the client's owner, with its CSRF token and a two-factor code of the owner, accepted in that request.
\<close>

theorem connector_goes_back_to_its_owner:
  assumes "history e s0 tr s" "dh_slugs s0 = Some []" "id_is_new e s"
    and "dcr_register e slug json s = (Inr (Registered cid secret issued us), s')"
  shows "\<exists>c ow r s1. dget (clients (registry s')) cid = Some c \<and> cl_owner c = Some ow
    \<and> (Connectors_new, r, s1) \<in> set tr \<and> link_request e ow r s1"
proof -
  from registration_all_or_nothing_core[OF assms(3,4)] obtain row where reg: "registers e slug row cid secret s s'" by blast
  then obtain c t where c: "clients (registry s') = dset cid c (clients_now e s)" "cl_owner c = Some (ds_owner row)"
    "dh_slugs s = Some t" "dget t slug = Some row" by (auto simp: registers_def)
  then have "(slug, ds_owner row) \<in> slug_owners s" by (force simp: slug_owners_def slugs_of_def dest!: dget_in)
  then obtain r s1 where "(Connectors_new, r, s1) \<in> set tr" "link_request e (ds_owner row) r s1"
    using link_was_asked_for[OF assms(1,2)] by blast
  moreover have "dget (clients (registry s')) cid = Some c" using c(1) by (simp add: update_conv')
  ultimately show ?thesis using c(2) by blast
qed

lemma connector_goes_back_to_its_owner_witness:
  "\<exists>ow. link_request demo_dash_env ow demo_new_link demo_signed_in"
proof -
  let ?s = "snd (dash_handle demo_dash_env Connectors_new demo_new_link demo_signed_in)"
  have h: "history demo_dash_env demo_signed_in [(Connectors_new, demo_new_link, demo_signed_in)] ?s"
    by (intro history_dashboard history_start)
  have s: "?s = demo_minted" by (simp add: demo_minted_def)
  have "id_is_new demo_dash_env ?s" unfolding s using demo_link by (simp add: id_is_new_def clients_now_def reload_none demo_dash_env_def)
  moreover have "untrusted_redirects (oe_origins (de_oauth demo_dash_env)) [PStr ''https://claude.ai/cb''] = []" by code_simp
  then obtain cid secret s' where "dcr_register demo_dash_env ''dddd'' (Some demo_body) ?s =
      (Inr (Registered cid secret \<lfloor>ds_created_at demo_row\<rfloor> [PStr ''https://claude.ai/cb'']), s')"
    unfolding s using demo_link registration_succeeds[of demo_minted "[(''dddd'', demo_row)]" "''dddd''" demo_row demo_dash_env demo_body]
    by (auto simp: demo_row_def demo_body_def body_get_def get_or_def demo_dash_env_def clients_now_def reload_none)
  moreover have "dh_slugs demo_signed_in = Some []" by (simp add: demo_signed_in_def demo_dash_def)
  ultimately show ?thesis using connector_goes_back_to_its_owner[OF h] by fastforce
qed

end
