(* ===== verification/Dash_Chat.thy ===== *)
theory Dash_Chat
  imports Dash_Routes Chat_Engine Usage
begin

text \<open>
  The chat route of the dashboard (\<open>api_chat_stream\<close> of \<open>dashboard/app.py\<close>): what is checked before a turn,
  what the conversation keeps of it and what it is charged.  The engine is any \<open>ChatEngine\<close>: it gives
  its events one by one, each with the state the server is in when the event is yielded, so that tools,
  approvals and other requests have their effects in between; a turn that is left early leaves the
  server in the state of the last event read.
\<close>

subsection \<open>The kept message\<close>

record assembly =
  as_text :: "string list"
  as_thinking :: "string list"
  as_pending :: "(string, nat) dict"
  as_calls :: "tool_call list"

definition new_tool_call :: "string \<Rightarrow> string \<Rightarrow> pyval \<Rightarrow> tool_call" where
  "new_tool_call i name a = \<lparr>tcl_id = PStr i, tcl_name = PStr name, tcl_args = a, tcl_status = PStr ''pending'',
     tcl_preview = PNone, tcl_duration = PNone, tcl_ui = PNone\<rparr>"

text \<open>The events here carry no preview and no duration, so the kept calls have none either.\<close>

fun assemble_event :: "chat_event \<Rightarrow> assembly \<Rightarrow> assembly" where
  "assemble_event (Text_delta t) a = a\<lparr>as_text := as_text a @ [t]\<rparr>"
| "assemble_event (Thinking_delta t) a = a\<lparr>as_thinking := as_thinking a @ [t]\<rparr>"
| "assemble_event (Tool_call_start i name x) a =
     a\<lparr>as_pending := dset i (length (as_calls a)) (as_pending a), as_calls := as_calls a @ [new_tool_call i name x]\<rparr>"
| "assemble_event (Tool_call_end i status uri) a =
     (let (n, calls) = (case dget (as_pending a) i of
            Some n \<Rightarrow> (n, as_calls a) | None \<Rightarrow> (length (as_calls a), as_calls a @ [new_tool_call i ''?'' (PDict [])]));
          c = (calls ! n)\<lparr>tcl_status := PStr status\<rparr>
      in a\<lparr>as_calls := calls[n := (case uri of None \<Rightarrow> c | Some u \<Rightarrow> c\<lparr>tcl_ui := PStr u\<rparr>)]\<rparr>)"
| "assemble_event _ a = a"

definition assemble_assistant_message :: "chat_event list \<Rightarrow> string \<times> tool_call list \<times> string option" where
  "assemble_assistant_message evs =
     (let a = fold assemble_event evs \<lparr>as_text = [], as_thinking = [], as_pending = [], as_calls = []\<rparr>
      in (concat (as_text a), as_calls a, if as_thinking a = [] then None else Some (join [CHR 0x0A] (as_thinking a))))"

subsection \<open>State, engine, answer\<close>

record 'w chat_state =
  ct_dash :: "'w dash_state"
  ct_usage :: "usage_store option"

type_synonym ('w, 'a) chat = "('w chat_state, 'a) eff"

record route_turn =
  rn_input :: turn_input
  rn_effort :: string
  rn_bearer :: string
  rn_session :: string

text \<open>One event, the approvals the callback has issued by then, the state; and the end of the run.\<close>

record 'w engine_step =
  es_event :: chat_event
  es_issued :: "string list"
  es_state :: "'w chat_state"

record 'w engine_run =
  er_steps :: "'w engine_step list"
  er_fault :: bool
  er_issued :: "string list"
  er_state :: "'w chat_state"

record 'w chat_env =
  ce_dash :: "'w dash_env"
  ce_budget :: budget
  ce_remote :: bool
  ce_app_block :: "(string \<times> string option \<times> pyval) list \<Rightarrow> string"
  ce_run :: "route_turn \<Rightarrow> 'w chat_state \<Rightarrow> 'w engine_run"
  ce_gone :: "nat \<Rightarrow> bool"
  ce_title :: "string \<Rightarrow> string \<Rightarrow> string option"
  ce_db_ok :: bool

datatype stream_event =
    Forwarded chat_event | Aborted | Stream_failed | Session_expired | Quota_exceeded budget_block
  | Done string | Usage_update usage_snapshot | Title_updated string

datatype stream_reply = Stream_refused int string | Streamed_events "stream_event list"

definition in_dash :: "('w, 'a) dash \<Rightarrow> ('w, 'a) chat" where
  "in_dash m k = (case m (ct_dash k) of (x, d) \<Rightarrow> (x, k\<lparr>ct_dash := d\<rparr>))"

definition in_convs :: "(conversation_store, 'a) eff \<Rightarrow> ('w, 'a) dash" where
  "in_convs m = pbind (on_convs m) (\<lambda>x. case x of Inl err \<Rightarrow> praise err | Inr y \<Rightarrow> preturn y)"

subsection \<open>Before the stream\<close>

definition MAX_APP_CONTEXT_ENTRIES :: nat where "MAX_APP_CONTEXT_ENTRIES = 8"

definition sanitize_entry :: "'w dash_env \<Rightarrow> pyval \<Rightarrow> (string \<times> string option \<times> pyval) list" where
  "sanitize_entry e item =
     (if \<not> is_dict item then []
      else
        let tool = take 64 (py_strip (case py_or (get_or item ''tool'' PNone) (PStr []) of PStr t \<Rightarrow> t | v \<Rightarrow> de_str e v));
            text_part = (case get_or item ''text'' PNone of PStr t \<Rightarrow> Some t | _ \<Rightarrow> None);
            structured = get_or item ''structured'' PNone
        in if text_part = None \<and> structured = PNone then []
           else [(if tool \<noteq> [] then tool else ''panel'', text_part, structured)])"

definition sanitize_app_context :: "'w dash_env \<Rightarrow> pyval \<Rightarrow> (string \<times> string option \<times> pyval) list" where
  "sanitize_app_context e raw =
     (case raw of PList items \<Rightarrow> concat (map (sanitize_entry e) (take MAX_APP_CONTEXT_ENTRIES items)) | _ \<Rightarrow> [])"

definition pick :: "pyval \<Rightarrow> string list \<Rightarrow> string \<Rightarrow> string" where
  "pick override valid own = (case override of PStr t \<Rightarrow> if t \<in> set valid then t else own | _ \<Rightarrow> own)"

definition chat_open ::
  "'w chat_env \<Rightarrow> dash_request \<Rightarrow> (session \<Rightarrow> conversation \<Rightarrow> string \<Rightarrow> string \<Rightarrow> string \<Rightarrow> ('w, stream_reply) chat) \<Rightarrow> ('w, stream_reply) chat" where
  "chat_open ce r k =
     (let e = ce_dash ce in pbind (in_dash (load_session e r))
       (\<lambda>x. case x of
          None \<Rightarrow> preturn (Stream_refused 401 ''unauthorized'')
        | Some se \<Rightarrow> (case csrf_verify (dr_csrf r) of
            None \<Rightarrow> praise Type_error
          | Some ok \<Rightarrow> if \<not> ok then preturn (Stream_refused 403 ''csrf'') else (\<lambda>s.
              (case dh_convs (ct_dash s) of
                 None \<Rightarrow> (Inr (Stream_refused 503 ''chat_disabled''), s)
               | Some t \<Rightarrow>
                   if \<not> de_engine e then (Inr (Stream_refused 503 ''chat_disabled''), s)
                   else
                     let conv_id = py_strip (json_text e r ''conversation_id''); user_text = py_strip (json_text e r ''content'')
                     in if conv_id = [] \<or> user_text = [] then (Inr (Stream_refused 400 ''invalid_request''), s)
                        else (case conv_get conv_id (se_client_id se) t of
                          None \<Rightarrow> (Inr (Stream_refused 404 ''not_found''), s)
                        | Some conv \<Rightarrow>
                            let model = pick (get_or (PDict (dr_json r)) ''model'' PNone) VALID_MODELS (cv_model conv);
                                effort = pick (get_or (PDict (dr_json r)) ''effort'' PNone) VALID_EFFORTS (cv_effort conv)
                            in if model \<noteq> cv_model conv \<or> effort \<noteq> cv_effort conv
                               then pbind (in_dash (pbind (reading e)
                                      (\<lambda>now. on_convs (conv_patch (cv_id conv) (se_client_id se) None (Some model) (Some effort) now))))
                                    (\<lambda>_. k se conv model effort user_text) s
                               else k se conv model effort user_text s))))))"

subsection \<open>The stream\<close>

definition cancel_issued :: "string list \<Rightarrow> 'w chat_state \<Rightarrow> 'w chat_state" where
  "cancel_issued ids s =
     s\<lparr>ct_dash := (ct_dash s)\<lparr>dh_confirm := map_option (fold confirmation_cancel ids) (dh_confirm (ct_dash s))\<rparr>\<rparr>"

text \<open>What was read of a run: the events, the last usage event, what the browser was sent.\<close>

record consumed =
  cn_collected :: "chat_event list"
  cn_usage :: "(string \<times> int \<times> int \<times> int) option"
  cn_out :: "stream_event list"

fun consume :: "(nat \<Rightarrow> bool) \<Rightarrow> 'w engine_step list \<Rightarrow> 'w engine_run \<Rightarrow> consumed \<Rightarrow> consumed \<times> 'w chat_state" where
  "consume gone [] run c =
     ((if er_fault run then c\<lparr>cn_out := cn_out c @ [Stream_failed]\<rparr> else c), cancel_issued (er_issued run) (er_state run))"
| "consume gone (x # xs) run c =
     (let ev = es_event x; c1 = c\<lparr>cn_collected := cn_collected c @ [ev]\<rparr>;
          left = cancel_issued (es_issued x) (es_state x)
      in case ev of
           Usage_accumulated m p ch n \<Rightarrow> consume gone xs run (c1\<lparr>cn_usage := Some (m, p, ch, n)\<rparr>)
         | Error_event err \<Rightarrow> (c1\<lparr>cn_out := cn_out c1 @ [Forwarded ev]\<rparr>, left)
         | _ \<Rightarrow>
             let c2 = c1\<lparr>cn_out := cn_out c1 @ [Forwarded ev]\<rparr>
             in if gone (length (cn_collected c2)) then (c2\<lparr>cn_out := cn_out c2 @ [Aborted]\<rparr>, left) else consume gone xs run c2)"

definition nothing_read :: consumed where
  "nothing_read = \<lparr>cn_collected = [], cn_usage = None, cn_out = []\<rparr>"

definition snapshot_now :: "'w chat_env \<Rightarrow> string \<Rightarrow> usage_store \<Rightarrow> ('w, usage_snapshot) chat" where
  "snapshot_now ce cid u = pbind (in_dash (reading (ce_dash ce))) (\<lambda>now. preturn (usage_snapshot_of (ce_budget ce) cid now u))"

text \<open>The bill of a turn whose usage event was read: a database failure is swallowed.\<close>

definition bill_turn :: "'w chat_env \<Rightarrow> string \<Rightarrow> (string \<times> int \<times> int \<times> int) option \<Rightarrow> ('w, stream_event list) chat" where
  "bill_turn ce cid usage s =
     (case (ct_usage s, usage) of
        (Some u, Some (m, p, ch, n)) \<Rightarrow>
          pbind (in_dash (reading (ce_dash ce)))
            (\<lambda>now s1. let u1 = snd (record_turn (ce_db_ok ce) \<lparr>ue_client = cid, ue_ts = now, ue_model = m, ue_prompt = p,
                                  ue_cached = ch, ue_output = n, ue_cost = cost_usd m p ch n\<rparr> u)
              in pbind (snapshot_now ce cid u1) (\<lambda>snap. preturn [Usage_update snap]) (s1\<lparr>ct_usage := Some u1\<rparr>)) s
      | _ \<Rightarrow> (Inr [], s))"

definition name_conversation :: "'w chat_env \<Rightarrow> session \<Rightarrow> conversation \<Rightarrow> string \<Rightarrow> string \<Rightarrow> bool \<Rightarrow> ('w, stream_event list) chat" where
  "name_conversation ce se conv model user_text first =
     (case (if first then ce_title ce model user_text else None) of
        None \<Rightarrow> preturn []
      | Some title \<Rightarrow>
          if title = [] then preturn []
          else pbind (in_dash (pbind (reading (ce_dash ce))
                 (\<lambda>now. on_convs (conv_patch (cv_id conv) (se_client_id se) (Some title) None None now))))
               (\<lambda>_. preturn [Title_updated title]))"

text \<open>After the loop: the message, the bill, the title.\<close>

definition chat_finish ::
  "'w chat_env \<Rightarrow> session \<Rightarrow> conversation \<Rightarrow> string \<Rightarrow> string \<Rightarrow> string \<Rightarrow> bool \<Rightarrow> consumed \<Rightarrow> ('w, stream_reply) chat" where
  "chat_finish ce se conv model effort user_text first c =
     (let e = ce_dash ce; (content, calls, thinking) = assemble_assistant_message (cn_collected c)
      in pbind (in_dash (pbind (draw e) (\<lambda>i. pbind (reading e) (\<lambda>t1. pbind (reading e)
              (\<lambda>t2. in_convs (add_assistant_message (cv_id conv) content calls thinking model effort i t1 t2))))))
         (\<lambda>msg. pbind (bill_turn ce (se_client_id se) (cn_usage c))
            (\<lambda>billed. pbind (name_conversation ce se conv model user_text first)
               (\<lambda>named. preturn (Streamed_events (cn_out c @ [Done (mg_id msg)] @ billed @ named))))))"

definition turn_of :: "'w chat_env \<Rightarrow> dash_request \<Rightarrow> session \<Rightarrow> string \<Rightarrow> string \<Rightarrow> string \<Rightarrow> message list \<Rightarrow> route_turn" where
  "turn_of ce r se model effort user_text history =
     \<lparr>rn_input = \<lparr>ti_history = map (\<lambda>m. \<lparr>cm_role = mg_role m, cm_content = (case mg_content m of Some t \<Rightarrow> t | None \<Rightarrow> [])\<rparr>) history,
        ti_user_text = user_text,
        ti_app_block = ce_app_block ce (sanitize_app_context (ce_dash ce) (get_or (PDict (dr_json r)) ''app_context'' PNone)),
        ti_model = model, ti_remote = ce_remote ce\<rparr>,
      rn_effort = effort, rn_bearer = (case se_bearer se of Some b \<Rightarrow> b | None \<Rightarrow> []), rn_session = se_session_id se\<rparr>"

text \<open>The loop over the engine's events, and what follows it.\<close>

definition chat_read ::
  "'w chat_env \<Rightarrow> session \<Rightarrow> conversation \<Rightarrow> string \<Rightarrow> string \<Rightarrow> string \<Rightarrow> bool \<Rightarrow> route_turn \<Rightarrow> ('w, stream_reply) chat" where
  "chat_read ce se conv model effort user_text first turn s =
     (let run = ce_run ce turn s; (c, s1) = consume (ce_gone ce) (er_steps run) run nothing_read
      in chat_finish ce se conv model effort user_text first c s1)"

definition chat_run :: "'w chat_env \<Rightarrow> dash_request \<Rightarrow> session \<Rightarrow> conversation \<Rightarrow> string \<Rightarrow> string \<Rightarrow> string \<Rightarrow> ('w, stream_reply) chat" where
  "chat_run ce r se conv model effort user_text =
     (let e = ce_dash ce
      in pbind (in_dash (pbind (on_convs (\<lambda>t. (list_messages (cv_id conv) t, t)))
                  (\<lambda>ms. case ms of Inl err \<Rightarrow> praise err | Inr h \<Rightarrow> preturn (map fst h))))
         (\<lambda>history. pbind (in_dash (pbind (draw e) (\<lambda>i. pbind (reading e) (\<lambda>t1. pbind (reading e)
              (\<lambda>t2. in_convs (add_user_message (cv_id conv) user_text i t1 t2))))))
            (\<lambda>_. chat_read ce se conv model effort user_text (\<not> list_ex (\<lambda>m. mg_role m = ''user'') history)
                   (turn_of ce r se model effort user_text history))))"

text \<open>\<open>stream\<close>: the bearer and the budget come before anything is kept or sent to the model.\<close>

definition chat_stream_body :: "'w chat_env \<Rightarrow> dash_request \<Rightarrow> session \<Rightarrow> conversation \<Rightarrow> string \<Rightarrow> string \<Rightarrow> string \<Rightarrow> ('w, stream_reply) chat" where
  "chat_stream_body ce r se conv model effort user_text =
     pbind (in_dash (bearer_live (ce_dash ce) se))
       (\<lambda>live s. if \<not> live then (Inr (Streamed_events [Session_expired]), s)
          else (case ct_usage s of
             None \<Rightarrow> chat_run ce r se conv model effort user_text s
           | Some u \<Rightarrow> pbind (in_dash (if has_any_limit (ce_budget ce) then reading (ce_dash ce) else preturn 0))
               (\<lambda>now. case check_budget (ce_budget ce) (se_client_id se) now u of
                  Some block \<Rightarrow> pbind (snapshot_now ce (se_client_id se) u)
                    (\<lambda>snap. preturn (Streamed_events [Quota_exceeded block, Usage_update snap]))
                | None \<Rightarrow> chat_run ce r se conv model effort user_text) s))"

definition api_chat_stream :: "'w chat_env \<Rightarrow> dash_request \<Rightarrow> ('w, stream_reply) chat" where
  "api_chat_stream ce r = chat_open ce r (chat_stream_body ce r)"

end
