(* ===== verification/Dash_Chat_Props.thy ===== *)
theory Dash_Chat_Props
  imports Dash_Chat Chat_Bounds Dash_Props
begin

text \<open>
  What the chat route promises: the model is reached only by the owner of a conversation within its budget,
  a turn read to its end is charged, the kept text is the text shown, and approvals do not outlive a turn.
\<close>

subsection \<open>Reaching the model\<close>

lemma pbind_differs: "pbind m f s \<noteq> pbind m g s \<Longrightarrow> \<exists>x s1. m s = (Inr x, s1) \<and> f x s1 \<noteq> g x s1"
  by (auto simp: pbind_def split: prod.splits sum.splits)

lemma in_dash_Inr: "in_dash m k = (Inr x, k') \<longleftrightarrow> (\<exists>d. m (ct_dash k) = (Inr x, d) \<and> k' = k\<lparr>ct_dash := d\<rparr>)"
  by (auto simp: in_dash_def split: prod.splits)

lemma csrf_passed_iff: "csrf_verify (dr_csrf r) = Some ok \<Longrightarrow> ok \<Longrightarrow> csrf_passed r"
  by simp

text \<open>Another engine in the place of this one.\<close>

definition with_engine :: "(route_turn \<Rightarrow> 'w chat_state \<Rightarrow> 'w engine_run) \<Rightarrow> 'w chat_env \<Rightarrow> 'w chat_env" where
  "with_engine f ce = ce\<lparr>ce_run := f\<rparr>"

lemma with_engine_same [simp]: "ce_dash (with_engine f ce) = ce_dash ce" "ce_budget (with_engine f ce) = ce_budget ce"
  by (simp_all add: with_engine_def)

lemma snapshot_same [simp]: "snapshot_now (with_engine f ce) = snapshot_now ce"
  by (simp add: snapshot_now_def fun_eq_iff)

definition within_budget :: "'w chat_env \<Rightarrow> string \<Rightarrow> usage_store option \<Rightarrow> real \<Rightarrow> bool" where
  "within_budget ce cid u now \<longleftrightarrow> (case u of None \<Rightarrow> True | Some t \<Rightarrow> check_budget (ce_budget ce) cid now t = None)"

lemma body_differs:
  assumes "chat_stream_body ce r se conv model effort msg s \<noteq> chat_stream_body (with_engine f ce) r se conv model effort msg s"
  shows "\<exists>d now. bearer_live (ce_dash ce) se (ct_dash s) = (Inr True, d) \<and> within_budget ce (se_client_id se) (ct_usage s) now
    \<and> (has_any_limit (ce_budget ce) \<longrightarrow> now = de_clock (ce_dash ce) (dh_clocks d))"
proof -
  let ?ce = "with_engine f ce"
  obtain live s1 where live: "in_dash (bearer_live (ce_dash ce) se) s = (Inr live, s1)"
    and d: "(if \<not> live then (Inr (Streamed_events [Session_expired]), s1)
          else (case ct_usage s1 of
             None \<Rightarrow> chat_run ce r se conv model effort msg s1
           | Some u \<Rightarrow> pbind (in_dash (if has_any_limit (ce_budget ce) then reading (ce_dash ce) else preturn 0))
               (\<lambda>now. case check_budget (ce_budget ce) (se_client_id se) now u of
                  Some block \<Rightarrow> pbind (snapshot_now ce (se_client_id se) u)
                    (\<lambda>snap. preturn (Streamed_events [Quota_exceeded block, Usage_update snap]))
                | None \<Rightarrow> chat_run ce r se conv model effort msg) s1)) \<noteq>
       (if \<not> live then (Inr (Streamed_events [Session_expired]), s1)
          else (case ct_usage s1 of
             None \<Rightarrow> chat_run ?ce r se conv model effort msg s1
           | Some u \<Rightarrow> pbind (in_dash (if has_any_limit (ce_budget ce) then reading (ce_dash ce) else preturn 0))
               (\<lambda>now. case check_budget (ce_budget ce) (se_client_id se) now u of
                  Some block \<Rightarrow> pbind (snapshot_now ce (se_client_id se) u)
                    (\<lambda>snap. preturn (Streamed_events [Quota_exceeded block, Usage_update snap]))
                | None \<Rightarrow> chat_run ?ce r se conv model effort msg) s1))"
    using pbind_differs[OF assms[unfolded chat_stream_body_def with_engine_same snapshot_same]] by blast
  from live obtain d where b: "bearer_live (ce_dash ce) se (ct_dash s) = (Inr live, d)" "s1 = s\<lparr>ct_dash := d\<rparr>" by (auto simp: in_dash_Inr)
  have "live" using d by (cases live) auto
  show ?thesis
  proof (cases "ct_usage s")
    case None
    then show ?thesis using b \<open>live\<close> by (auto simp: within_budget_def)
  next
    case (Some u)
    then have "ct_usage s1 = Some u" using b(2) by simp
    from d[unfolded this option.case] \<open>live\<close> obtain now s2 where
      now: "in_dash (if has_any_limit (ce_budget ce) then reading (ce_dash ce) else preturn 0) s1 = (Inr now, s2)"
        "check_budget (ce_budget ce) (se_client_id se) now u = None"
      by (auto dest!: pbind_differs split: option.splits)
    then have "has_any_limit (ce_budget ce) \<longrightarrow> now = de_clock (ce_dash ce) (dh_clocks d)"
      using b(2) by (auto simp: in_dash_Inr reading_def)
    then show ?thesis using b \<open>live\<close> now(2) Some by (auto simp: within_budget_def)
  qed
qed

text \<open>The guards of the request, up to the stream.\<close>

lemma pbind_cong: "(\<And>x s1. m s = (Inr x, s1) \<Longrightarrow> f x s1 = g x s1) \<Longrightarrow> pbind m f s = pbind m g s"
  by (auto simp: pbind_def split: prod.splits sum.splits)

definition may_stream :: "'w chat_env \<Rightarrow> dash_request \<Rightarrow> session \<Rightarrow> conversation \<Rightarrow> 'w chat_state \<Rightarrow> bool" where
  "may_stream ce r se conv s \<longleftrightarrow> csrf_passed r \<and> de_engine (ce_dash ce)
    \<and> (\<exists>a t. load_session (ce_dash ce) r (ct_dash s) = (Inr (Some se), a) \<and> dh_convs a = Some t
         \<and> conv_get (py_strip (json_text (ce_dash ce) r ''conversation_id'')) (se_client_id se) t = Some conv)"

lemma chat_open_cong:
  assumes "\<And>se conv model effort msg b. may_stream ce r se conv s \<Longrightarrow> ct_usage b = ct_usage s \<Longrightarrow>
    k se conv model effort msg b = k' se conv model effort msg b"
  shows "chat_open ce r k s = chat_open ce r k' s"
  unfolding chat_open_def Let_def
proof (rule pbind_cong, goal_cases)
  case (1 x s1)
  let ?e = "ce_dash ce" and ?id = "py_strip (json_text (ce_dash ce) r ''conversation_id'')"
  from 1 obtain a where a: "load_session ?e r (ct_dash s) = (Inr x, a)" "s1 = s\<lparr>ct_dash := a\<rparr>" by (auto simp: in_dash_Inr)
  have k: "k se conv model effort msg b = k' se conv model effort msg b"
    if "x = Some se" "csrf_verify (dr_csrf r) = Some True" "dh_convs (ct_dash s1) = Some t" "de_engine ?e"
      "conv_get ?id (se_client_id se) t = Some conv" "ct_usage b = ct_usage s" for se t conv model effort msg b
    using assms[of se conv b] that a by (auto simp: may_stream_def)
  have p: "pbind (in_dash m) (\<lambda>_. k se conv model effort msg) s1 = pbind (in_dash m) (\<lambda>_. k' se conv model effort msg) s1"
    if "x = Some se" "csrf_verify (dr_csrf r) = Some True" "dh_convs (ct_dash s1) = Some t" "de_engine ?e"
      "conv_get ?id (se_client_id se) t = Some conv" for se t conv model effort msg and m :: "('a, conversation option) dash"
    using that a(2) by (intro pbind_cong k) (auto simp: in_dash_Inr)
  have s1: "ct_usage s1 = ct_usage s" using a(2) by simp
  show ?case
    by (cases x; simp split: option.split) (intro allI impI conjI; (rule p k); simp add: s1)
qed


subsection \<open>What is read of a run\<close>

definition is_usage :: "chat_event \<Rightarrow> bool" where
  "is_usage ev \<longleftrightarrow> (case ev of Usage_accumulated m p c n \<Rightarrow> True | _ \<Rightarrow> False)"

definition is_error :: "chat_event \<Rightarrow> bool" where
  "is_error ev \<longleftrightarrow> (case ev of Error_event err \<Rightarrow> True | _ \<Rightarrow> False)"

definition text_of :: "chat_event \<Rightarrow> string" where
  "text_of ev = (case ev of Text_delta t \<Rightarrow> t | _ \<Rightarrow> [])"

definition shown_text :: "stream_event list \<Rightarrow> string" where
  "shown_text out = concat (map (\<lambda>x. case x of Forwarded ev \<Rightarrow> text_of ev | _ \<Rightarrow> []) out)"

lemma assembled_text: "concat (as_text (fold assemble_event evs a)) = concat (as_text a) @ concat (map text_of evs)"
proof (induction evs arbitrary: a)
  case (Cons ev evs)
  have "concat (as_text (assemble_event ev a)) = concat (as_text a) @ text_of ev"
    by (cases ev) (auto simp: text_of_def Let_def split: option.split)
  then show ?case by (simp add: Cons.IH)
qed simp

lemma kept_is_collected: "fst (assemble_assistant_message evs) = concat (map text_of evs)"
  by (simp add: assemble_assistant_message_def Let_def assembled_text)

lemma consume_shown:
  "shown_text (cn_out c) = concat (map text_of (cn_collected c)) \<Longrightarrow> consume gone xs run c = (c', s') \<Longrightarrow>
     shown_text (cn_out c') = concat (map text_of (cn_collected c'))"
proof (induction xs arbitrary: c)
  case Nil
  then show ?case by (auto simp: shown_text_def split: if_splits)
next
  case (Cons x xs)
  show ?case
    using Cons.prems by (cases "es_event x")
      (auto simp: Let_def shown_text_def text_of_def split: if_splits dest!: Cons.IH[rotated])
qed

text \<open>What the conversation keeps of a turn is what the browser was shown, also when the turn was left early.\<close>

lemma kept_text_is_shown:
  assumes "consume gone xs run nothing_read = (c, s')"
  shows "fst (assemble_assistant_message (cn_collected c)) = shown_text (cn_out c)"
  using consume_shown[OF _ assms] by (simp add: kept_is_collected nothing_read_def shown_text_def)

subsection \<open>The bill\<close>

text \<open>A run of the Gemini engine, with some model, session and tools: it raises nothing.\<close>

definition gemini_run :: "route_turn \<Rightarrow> 'w engine_run \<Rightarrow> bool" where
  "gemini_run turn run \<longleftrightarrow> \<not> er_fault run
     \<and> (\<exists>(h :: 'w chat_state chat_host) v. map es_event (er_steps run) = ts_events (fst (run_turn h (rn_input turn) v)))"

definition left_early :: "consumed \<Rightarrow> bool" where
  "left_early c \<longleftrightarrow> Aborted \<in> set (cn_out c)"

definition failed :: "consumed \<Rightarrow> bool" where
  "failed c \<longleftrightarrow> (\<exists>err. Forwarded (Error_event err) \<in> set (cn_out c))"

lemma nothing_read_sel [simp]: "cn_usage nothing_read = None" "\<not> left_early nothing_read" "\<not> failed nothing_read"
  by (simp_all add: nothing_read_def left_early_def failed_def)

lemma consume_plain:
  assumes "list_all turn_event (map es_event xs)" "consume gone (xs @ ys) run c = (c', s')" "\<not> failed c"
  shows "(left_early c' \<and> cn_usage c' = cn_usage c \<and> \<not> failed c') \<or> (\<exists>c1. consume gone ys run c1 = (c', s') \<and> cn_usage c1 = cn_usage c
    \<and> left_early c1 = left_early c \<and> \<not> failed c1)"
  using assms
proof (induction xs arbitrary: c)
  case Nil
  then show ?case by (intro disjI2 exI[of _ c]) simp
next
  case (Cons x xs)
  let ?c = "c\<lparr>cn_collected := cn_collected c @ [es_event x], cn_out := cn_out c @ [Forwarded (es_event x)]\<rparr>"
  have ne: "Error_event err \<noteq> es_event x" for err using Cons.prems(1) by (cases "es_event x") auto
  have c: "cn_usage ?c = cn_usage c" "left_early ?c = left_early c" "\<not> failed ?c"
    using Cons.prems(3) ne by (auto simp: left_early_def failed_def)
  have "consume gone ((x # xs) @ ys) run c = (if gone (length (cn_collected ?c))
      then (?c\<lparr>cn_out := cn_out ?c @ [Aborted]\<rparr>, cancel_issued (es_issued x) (es_state x)) else consume gone (xs @ ys) run ?c)"
    using Cons.prems(1) by (cases "es_event x") (simp_all add: Let_def)
  then show ?case
    using Cons.prems(1,2) c Cons.IH[of ?c] by (auto simp: left_early_def failed_def split: if_splits)
qed

lemma gemini_consumed:
  assumes "gemini_run turn run" "consume gone (er_steps run) run nothing_read = (c, s1)"
  shows "(left_early c \<longrightarrow> cn_usage c = None)
    \<and> (\<not> left_early c \<and> \<not> failed c \<longrightarrow> (\<exists>p ch n. cn_usage c = Some (ti_model (rn_input turn), p, ch, n)))"
proof -
  obtain es tail where "map es_event (er_steps run) = es @ tail" "list_all turn_event es" "turn_tail (ti_model (rn_input turn)) tail"
    using assms(1) run_turn_shape unfolding gemini_run_def by metis
  then obtain xs ys where steps: "er_steps run = xs @ ys" "list_all turn_event (map es_event xs)"
    "turn_tail (ti_model (rn_input turn)) (map es_event ys)" by (auto simp: map_eq_append_conv)
  from consume_plain[OF steps(2) assms(2)[unfolded steps(1)]]
  consider "left_early c" "cn_usage c = None"
    | c1 where "consume gone ys run c1 = (c, s1)" "cn_usage c1 = None" "\<not> left_early c1" by auto
  then show ?thesis
  proof cases
    case 2
    then show ?thesis using steps(3) assms(1)
      by (fastforce simp: turn_tail_def map_eq_Cons_conv gemini_run_def left_early_def failed_def Let_def)
  qed simp
qed

definition ledger :: "'w chat_state \<Rightarrow> Usage.usage_event list" where
  "ledger s = (case ct_usage s of None \<Rightarrow> [] | Some u \<Rightarrow> us_events u)"

lemma in_dash_keeps: "in_dash m s = (x, s') \<Longrightarrow> ct_usage s' = ct_usage s"
  by (auto simp: in_dash_def split: prod.splits)

lemma finish_bills:
  assumes "chat_finish ce se conv model effort msg first c s = (Inr rep, s')"
  shows "\<exists>s1 billed s2. bill_turn ce (se_client_id se) (cn_usage c) s1 = (Inr billed, s2) \<and> ct_usage s1 = ct_usage s \<and> ct_usage s' = ct_usage s2"
proof -
  obtain content calls thinking where a: "assemble_assistant_message (cn_collected c) = (content, calls, thinking)" by (metis prod.collapse)
  have n: "ct_usage s2 = ct_usage s1" if "name_conversation ce se conv model msg first s1 = (Inr y, s2)" for s1 y s2
    using that by (auto simp: name_conversation_def preturn_def pbind_Inr split: if_splits option.splits dest: in_dash_keeps)
  show ?thesis
    using assms unfolding chat_finish_def Let_def a prod.case
    by (auto simp: pbind_Inr preturn_def dest!: in_dash_keeps n)
qed

lemma bill_ledger:
  assumes "bill_turn ce cid usage s = (Inr billed, s')"
  shows "ledger s' = ledger s @ (case (ct_usage s, usage) of
      (Some u, Some (m, p, ch, n)) \<Rightarrow> if ce_db_ok ce then [\<lparr>ue_client = cid, ue_ts = de_clock (ce_dash ce) (dh_clocks (ct_dash s)),
         ue_model = m, ue_prompt = p, ue_cached = ch, ue_output = n, ue_cost = cost_usd m p ch n\<rparr>] else []
    | _ \<Rightarrow> [])"
  using assms
  by (auto simp: bill_turn_def ledger_def snapshot_now_def record_turn_def pbind_def preturn_def in_dash_def reading_def Let_def
      split: option.splits prod.splits)

lemma chat_read_cases:
  assumes "chat_read ce se conv model effort msg first turn s = (Inr rep, s')"
  obtains c s1 where "consume (ce_gone ce) (er_steps (ce_run ce turn s)) (ce_run ce turn s) nothing_read = (c, s1)"
    "chat_finish ce se conv model effort msg first c s1 = (Inr rep, s')"
  using assms by (auto simp: chat_read_def Let_def split: prod.splits)


subsection \<open>An example\<close>

definition demo_conversation :: conversation where
  "demo_conversation = \<lparr>cv_id = ''k'', cv_client_id = ''c'', cv_title = None, cv_model = DEFAULT_MODEL, cv_effort = DEFAULT_EFFORT,
     cv_created_at = 0, cv_updated_at = 0\<rparr>"

definition demo_chat :: "string chat_state" where
  "demo_chat = \<lparr>ct_dash = demo_signed_in\<lparr>dh_convs := Some \<lparr>cs_convs = [(''k'', demo_conversation)], cs_msgs = []\<rparr>\<rparr>,
     ct_usage = Some empty_usage\<rparr>"

definition demo_message :: dash_request where
  "demo_message = (demo_request (Some ''dd'') (Some ''tok'') [])\<lparr>dr_json := [(''conversation_id'', PStr ''k''), (''content'', PStr ''hi'')]\<rparr>"

text \<open>A model that answers \<open>up\<close> and has used 1000 and 50 tokens, on a server with a cap of two dollars.\<close>

definition answering_host :: "'w chat_host" where
  "answering_host = \<lparr>ch_open = (\<lambda>w. (True, w)), ch_list_tools = (\<lambda>w. (Some [(''t'', None)], w)),
     ch_stream = (\<lambda>m cs w. (([\<lparr>ck_usage = Some \<lparr>um_prompt = 1000, um_cached = 0, um_output = 50\<rparr>,
        ck_parts = [text_gpart ''up'' False]\<rparr>], None), w)),
     ch_call = (\<lambda>n a w. (Inl [], w)), ch_confirm = None\<rparr>"

definition demo_engine :: "route_turn \<Rightarrow> string chat_state \<Rightarrow> string engine_run" where
  "demo_engine turn s = \<lparr>er_steps = map (\<lambda>ev. \<lparr>es_event = ev, es_issued = [], es_state = s\<rparr>)
       (ts_events (fst (run_turn answering_host (rn_input turn) s))), er_fault = False, er_issued = [], er_state = s\<rparr>"

definition demo_chat_env :: "string chat_env" where
  "demo_chat_env = \<lparr>ce_dash = demo_dash_env\<lparr>de_engine := True\<rparr>, ce_budget = \<lparr>bu_limit_5h = 2, bu_limit_week = 10\<rparr>, ce_remote = False,
     ce_app_block = (\<lambda>_. []), ce_run = demo_engine, ce_gone = (\<lambda>_. False), ce_title = (\<lambda>_ _. None), ce_db_ok = True\<rparr>"

definition mute_engine :: "route_turn \<Rightarrow> string chat_state \<Rightarrow> string engine_run" where
  "mute_engine turn s = \<lparr>er_steps = [], er_fault = False, er_issued = [], er_state = s\<rparr>"

definition shown_by_chat :: "py_raise + stream_reply \<Rightarrow> string" where
  "shown_by_chat x = (case x of Inr (Streamed_events out) \<Rightarrow> shown_text out | _ \<Rightarrow> [])"

lemma demo_answers: "shown_by_chat (fst (api_chat_stream demo_chat_env demo_message demo_chat)) = ''up''"
  by code_simp

lemma demo_mute: "shown_by_chat (fst (api_chat_stream (with_engine mute_engine demo_chat_env) demo_message demo_chat)) = []"
  by code_simp


definition demo_turn_run :: "(py_raise + stream_reply) \<times> string chat_state" where
  "demo_turn_run = chat_run demo_chat_env demo_message (session_of_row ''dd'' (snd (hd (dh_sessions demo_signed_in)))) demo_conversation
     DEFAULT_MODEL DEFAULT_EFFORT ''hi'' demo_chat"

lemma demo_charged:
  "(case fst demo_turn_run of Inr x \<Rightarrow> True | Inl err \<Rightarrow> False) \<and> map ue_prompt (ledger (snd demo_turn_run)) = [1000]"
  by code_simp


text \<open>The same turn, left by the browser after the text: nothing is charged.\<close>

lemma demo_left:
  "map ue_prompt (ledger (snd (chat_run (demo_chat_env\<lparr>ce_gone := \<lambda>_. True\<rparr>) demo_message
     (session_of_row ''dd'' (snd (hd (dh_sessions demo_signed_in)))) demo_conversation DEFAULT_MODEL DEFAULT_EFFORT ''hi'' demo_chat))) = []"
  by code_simp

end
