(* ===== verification/Spec2Isabelle.thy ===== *)
theory Spec2Isabelle
  imports Token_Props Auth_Codes Client_Props Rate_Limit Totp_Lockout Forwarded_Props Redirects Dyn_Slugs Confirm_Calls Passkeys Transfers Dash_Sessions Usage Update_Props Ssh_Props Chat_Examples Oauth_Props Guest_Exec_Props Guest_Files_Props Outbound_Props Dash_Props Entry_Props Dash_Chat_Props
begin

text \<open>
  BeaconMCP: a verification development of the server's own logic.

  BeaconMCP is an MCP server through which language models operate a Proxmox cluster, BMCs and
  SSH hosts, with an OAuth front end, a web dashboard with a chat, and an updater.  All paths
  below are relative to \<open>src/src/beaconmcp\<close>.

  \<^bold>\<open>The program and its parts.\<close>  A request enters through the Host guard
  (\<open>hostguard.py\<close>), which together with \<open>ratelimit.py\<close> decides what forwarding headers are
  believed and which client address counts.  The OAuth endpoints (\<open>_run_http\<close> in
  \<open>__main__.py\<close>) authenticate clients against the registry and hand out tokens of the
  token store (both in \<open>auth.py\<close>), behind rate limits, a lockout and a second factor: TOTP
  codes or passkeys (\<open>dashboard/passkeys.py\<close>).  Tools then run with that token: SSH
  commands (\<open>ssh/client.py\<close>), uploads through one-time links (\<open>transfers.py\<close>), destructive
  operations after a confirmation (\<open>confirm.py\<close>).  The dashboard keeps browser sessions
  (\<open>dashboard/session.py\<close>, \<open>dashboard/csrf.py\<close>) and runs chat turns
  (\<open>dashboard/chat.py\<close>) whose dangerous tool calls wait for the owner's approval
  (\<open>dashboard/confirmations.py\<close>) and whose tokens are charged to a budget
  (\<open>dashboard/usage.py\<close>).  The Proxmox tools go through one client
  (\<open>proxmox/client.py\<close>): guests are started, configured and backed up (\<open>vms.py\<close>), commands
  run in them and files move in and out (\<open>system.py\<close>).  Everything is set up from one configuration (\<open>config.py\<close>), and
  the server can update itself (\<open>updates.py\<close>).

  \<^bold>\<open>Shared theories.\<close>
  \<^item> \<open>Prelude\<close>: insertion-ordered dictionaries (\<open>dget\<close>, \<open>dset\<close>, \<open>dpop\<close>, \<open>dkeep\<close>, ...) with
    their lemma collection \<open>dict_simps\<close>, deadlines (a time or never, an instance of
    \<open>linorder\<close>), counts and list lemmas.
  \<^item> \<open>Py_Str\<close>, \<open>Py_Val\<close>: Python's string operations and values; \<open>Ip_Addr\<close>: the part of
    \<open>ipaddress\<close> that the address checks use.
  \<^item> \<open>Single_Use\<close>: the locales \<open>single_use\<close> and \<open>expiring_single_use\<close>, the contract of every
    one-time ticket: a run of redemptions and other operations redeems a ticket at most once.
    It is interpreted on authorization codes (\<open>codes\<close>), passkey challenges (\<open>challenges\<close>),
    upload links (\<open>upload_links\<close>), registration slugs (\<open>slugs\<close>) and approvals (\<open>calls\<close>).

  \<^bold>\<open>Components and their theories.\<close>
  \<^item> \<open>Token_Store\<close> is \<open>TokenStore\<close> of \<open>auth.py\<close>, one definition per method, with the SQLite
    file as three tables.  \<open>Token_Inv\<close> runs it (\<open>token_op\<close>, \<open>token_step\<close>, \<open>token_run\<close>) and
    holds the locale \<open>token_law\<close>: what every operation keeps of an invariant that speaks of
    each bearer and each refresh record.  Its interpretations \<open>fam\<close>, \<open>filed\<close>, \<open>dead\<close>, \<open>keyed\<close> and
    \<open>ending\<close> in \<open>Token_Session\<close> and \<open>Token_Ends\<close> carry the session properties;
    \<open>Token_File\<close> shows that the file mirrors the memory, \<open>Token_Props\<close> states the properties.
  \<^item> \<open>Auth_Codes\<close> is \<open>CodeStore\<close> and \<open>verify_pkce\<close>; \<open>Client_Store\<close> and \<open>Client_Props\<close> are
    \<open>ClientStore\<close> with its shared JSON file, reload and TOTP replay protection;
    \<open>Redirects\<close> is \<open>is_trusted_redirect_uri\<close> over the part of \<open>urllib.parse\<close> it uses.
  \<^item> \<open>Rate_Limit\<close> is \<open>RateLimiter\<close>, refined to an unbounded log of admitted requests;
    \<open>Totp_Lockout\<close> is \<open>TotpLockout\<close>; \<open>Forwarded\<close> and \<open>Forwarded_Props\<close> are \<open>client_ip\<close>,
    \<open>forwarded_host\<close> and \<open>HostGuardMiddleware\<close>.
  \<^item> \<open>Oauth_Flow\<close> composes those stores into the endpoints of \<open>_run_http\<close>: one definition per
    handler, \<open>oauth_handle\<close> dispatches, and the step relation \<open>oauth_run\<close> is any sequence of
    requests.  \<open>Oauth_Props\<close> proves by rule induction (\<open>flow_inv\<close>) that a token always goes
    back to a checked second factor.
  \<^item> \<open>Dyn_Slugs\<close> (\<open>dashboard/dyn_reg.py\<close>), \<open>Passkeys\<close> (\<open>dashboard/passkeys.py\<close>),
    \<open>Transfers\<close> (\<open>transfers.py\<close>), \<open>Dash_Sessions\<close> (\<open>dashboard/session.py\<close>, \<open>csrf.py\<close>),
    \<open>Usage\<close> (\<open>dashboard/usage.py\<close>) and \<open>Confirm_Calls\<close> (\<open>confirm.py\<close>,
    \<open>dashboard/confirmations.py\<close>): their stores and the runs over them.
  \<^item> \<open>Config_Values\<close>, \<open>Config_Build\<close> and \<open>Config_Props\<close>: the configuration loader from parsed
    YAML (or the legacy environment) to the record \<open>config\<close>, and its redacted view.
  \<^item> \<open>Ssh_Pins\<close>: host keys on first use with interleaved connections (\<open>pin_step\<close>,
    \<open>pin_run\<close>); \<open>Ssh_Client\<close>, \<open>Ssh_Props\<close>: host resolution, connection cache and commands.
  \<^item> \<open>Chat_Gate\<close>, \<open>Chat_Engine\<close>: which calls need approval, and a chat turn as a function of
    the model's replies; \<open>Chat_Props\<close> (locale \<open>chat_guard\<close>, interpreted as \<open>gate\<close>),
    \<open>Chat_Bounds\<close> and \<open>Chat_Examples\<close> hold its properties.
  \<^item> \<open>Git_Host\<close>, \<open>Self_Update\<close>, \<open>Update_Props\<close>: update check, fast-forward, gates and roll-back
    over an abstract host of processes and files.
  \<^item> \<open>Pve_Client\<close>: the Proxmox client over a network that may fail at any request, in the
    monad of \<open>Py_Eff\<close>, as all tools below; \<open>Pve_Log\<close> watches what is sent
    (\<open>logged\<close>, \<open>sends_only\<close> with its rules \<open>sends\<close>).  \<open>Pve_Vms\<close> is \<open>vms.py\<close> and
    \<open>vm_bulk_action\<close>; \<open>Pve_Props\<close> shows what they send when the chat's gate lets them through.
  \<^item> \<open>Sh_Quote\<close>: \<open>shlex.quote\<close> and how a POSIX shell splits a line; \<open>Guest_Exec\<close> and
    \<open>Guest_Exec_Props\<close>: \<open>proxmox_run\<close>, its sessions and waiting loops; \<open>Guest_Files\<close> and
    \<open>Guest_Files_Props\<close>: uploads, downloads and fetched URLs with the staging directory.
  \<^item> \<open>Outbound\<close>, \<open>Outbound_Props\<close>: the connections made for client logos
    (\<open>client_identity.py\<close>) and for fetched URLs, and the addresses they may reach.

  \<^item> \<open>Py_Eff\<close>: the monad \<open>eff\<close> of computations that change a state and may raise, and the locale
    \<open>effect_order\<close>: what a sequence of computations keeps of a preorder on states (\<open>moves\<close>), and what
    it does beyond one only after certain steps (\<open>only_if\<close>).
  \<^item> \<open>Conversations\<close> is \<open>ConversationStore\<close> (\<open>dashboard/conversations.py\<close>).  \<open>Dash_Base\<close> and
    \<open>Dash_Routes\<close> are the routes of \<open>dashboard/app.py\<close> over the stores they share with the OAuth
    endpoints, \<open>dash_handle\<close> dispatches.  \<open>Dash_Frame\<close> gives every route its footprint
    (\<open>gains_only\<close>, interpretation \<open>gains\<close>), \<open>Dash_Idle\<close> what a request does that is turned away
    (interpretation \<open>idle\<close>), \<open>Dash_Step\<close> what a request went through before it gained anything
    (\<open>beyond\<close>, interpretation \<open>gains_for\<close>), \<open>Dash_Reply\<close> whose rows an answer shows
    (interpretation \<open>others_keep\<close>), and \<open>Dash_Props\<close> states the properties.
  \<^item> \<open>Entry\<close> is the bearer check in front of the MCP endpoint, the discovery documents and the
    registration of connectors (\<open>auth_middleware\<close>, \<open>dcr_register\<close> of \<open>__main__.py\<close>); \<open>Entry_Props\<close>
    follows a connector over any \<open>history\<close> of the server back to its owner's request, with
    \<open>Entry_Demo\<close> an example that is run step by step.

  \<^bold>\<open>Conventions.\<close>  State is passed explicitly, as records named after the classes; every
  reading of the clock and every random draw is an argument of its own, in the order of the
  code, so no theorem assumes that two readings agree or that draws are unguessable (freshness,
  where it is needed, is a named hypothesis).  Errors are values of sum and option types, one
  per exception or early return.  Objects that the code shares and mutates (upload links,
  pending approvals, the chat's confirmation futures) live in heaps.  Times are reals, Python's
  integers \<open>int\<close>, strings lists of characters, dictionaries association lists in insertion
  order.  Methods guarded by a lock are one atomic step; where the code awaits in between, the
  steps are separate (\<open>pin_step\<close>, the acts of a chat turn).

  \<^bold>\<open>Parameters\<close> stand for code that is not in the repository: hashing (\<open>H\<close>, \<open>S256\<close>),
  \<open>pyotp\<close> (\<open>V\<close>), the WebAuthn library, the session cipher, SSH key codec and connections, git
  and pip, the language model, the MCP session and the tools behind it.  Nothing is assumed of
  a hash beyond being a function; what is assumed of any other parameter is a hypothesis of the
  property that needs it, and its witness instantiates the parameter.

  \<^bold>\<open>Bounds.\<close>  The loops of \<open>proxmox_run\<close> that wait for a command (\<open>wait_qemu\<close>, \<open>wait_lxc\<close>) are
  partial functions of the clock; \<open>proxmox_run_returns\<close> shows that they end once the clock has
  passed the deadline.  No other loop needs fuel: the recursions follow the code's own limits
  (\<open>MAX_TOOL_ROUNDS\<close> = 50 rounds, two retries) or lists that shrink, and \<open>turn_ends_within_bounds\<close>
  states the limits of a chat turn.

  \<^bold>\<open>Not modelled.\<close>  Terminal wizard, HTML pages, templates and scripts; the read-only
  answers of the dashboard; the MCP SDK and its bridge; BMC back ends and the read-only
  Proxmox views, whose logic is in the remote systems; log lines, counters and audit records; SQL migrations; thread
  scheduling below the lock.  Of the modelled components the manifest says what is left out.
\<close>

end
